(* ===== verification/Prelude.thy ===== *)
theory Prelude
  imports Main "HOL-Library.Sublist" "HOL-Library.Char_ord" "HOL-Library.List_Lexorder"
begin

text \<open>
  Shared vocabulary of the development: Go strings, times and durations, Go maps with an explicit
  iteration order, errors as values of a sum type, and the generic list and map lemmas the
  component theories use.

  Strings are byte lists (\<open>string\<close>), ordered byte by byte as Go orders them
  (\<open>Char_ord\<close>, \<open>List_Lexorder\<close>). A Go map is a list of key-value pairs: the list
  order stands for the iteration order the runtime happens to pick, so a theorem about every list
  is a theorem about every iteration order. The nil map and the empty map, and the nil slice and
  the empty slice, are both the empty list.
\<close>

named_theorems record_defs \<open>unfolding rules of small record-building helpers\<close>
named_theorems status_frame \<open>what an operation leaves unchanged in a run's status\<close>

section \<open>Times and durations\<close>

text \<open>
  \<open>time.Time\<close> is the number of nanoseconds since the zero time (1 January of year 1, UTC), so
  \<open>IsZero\<close> is equality with 0. \<open>time.Duration\<close> is a signed 64-bit count of nanoseconds and
  \<open>Time.Sub\<close> saturates at its two ends, which matters when the zero time is subtracted from a
  current one (that is more than the 292 years a duration can hold).
\<close>

type_synonym gotime = int
type_synonym duration = int

definition zero_time :: gotime where
  "zero_time = 0"

definition is_zero :: "gotime \<Rightarrow> bool" where
  "is_zero t \<longleftrightarrow> t = zero_time"

definition min_duration :: duration where
  "min_duration = - (2 ^ 63)"

definition max_duration :: duration where
  "max_duration = 2 ^ 63 - 1"

definition time_sub :: "gotime \<Rightarrow> gotime \<Rightarrow> duration" where
  "time_sub t u = max min_duration (min max_duration (t - u))"

definition nanosecond :: duration where "nanosecond = 1"
definition second :: duration where "second = 1000000000"
definition minute :: duration where "minute = 60 * second"
definition hour :: duration where "hour = 60 * minute"

lemma time_sub_mono: "t \<le> t' \<Longrightarrow> time_sub t u \<le> time_sub t' u"
  by (auto simp: time_sub_def)

lemma time_sub_bounds: "min_duration \<le> time_sub t u" "time_sub t u \<le> max_duration"
  by (auto simp: time_sub_def min_duration_def max_duration_def)

lemma time_sub_exact:
  "min_duration \<le> t - u \<Longrightarrow> t - u \<le> max_duration \<Longrightarrow> time_sub t u = t - u"
  by (simp add: time_sub_def)

lemma time_sub_gt_iff:
  assumes "min_duration \<le> w" and "w < max_duration"
  shows "w < time_sub t u \<longleftrightarrow> w < t - u"
  using assms by (auto simp: time_sub_def min_def max_def)

section \<open>Maps with an iteration order\<close>

type_synonym smap = "(string \<times> string) list"

definition smap_get :: "smap \<Rightarrow> string \<Rightarrow> string" where
  "smap_get m k = (case map_of m k of None \<Rightarrow> '''' | Some v \<Rightarrow> v)"

definition has_key :: "('k \<times> 'v) list \<Rightarrow> 'k \<Rightarrow> bool" where
  "has_key m k \<longleftrightarrow> map_of m k \<noteq> None"

fun assoc_put :: "'k \<Rightarrow> 'v \<Rightarrow> ('k \<times> 'v) list \<Rightarrow> ('k \<times> 'v) list" where
  "assoc_put k v [] = [(k, v)]"
| "assoc_put k v ((k', v') # m) = (if k = k' then (k, v) # m else (k', v') # assoc_put k v m)"

definition assoc_del :: "'k \<Rightarrow> ('k \<times> 'v) list \<Rightarrow> ('k \<times> 'v) list" where
  "assoc_del k m = filter (\<lambda>p. fst p \<noteq> k) m"

lemma has_key_iff [simp]: "has_key m k \<longleftrightarrow> k \<in> fst ` set m"
  by (simp add: has_key_def map_of_eq_None_iff)

lemma map_of_assoc_put [simp]: "map_of (assoc_put k v m) = (map_of m)(k \<mapsto> v)"
  by (induction m rule: assoc_put.induct) (auto simp: fun_eq_iff)

lemma map_of_assoc_del [simp]: "map_of (assoc_del k m) = (map_of m)(k := None)"
  by (induction m) (auto simp: assoc_del_def fun_eq_iff)

lemma smap_get_put [simp]: "smap_get (assoc_put k v m) k' = (if k' = k then v else smap_get m k')"
  by (simp add: smap_get_def)

lemma keys_assoc_put [simp]: "fst ` set (assoc_put k v m) = insert k (fst ` set m)"
  by (induction m rule: assoc_put.induct) auto

lemma keys_assoc_del [simp]: "fst ` set (assoc_del k m) = fst ` set m - {k}"
  by (auto simp: assoc_del_def)

lemma set_assoc_put_subset: "set (assoc_put k v m) \<subseteq> insert (k, v) (set m)"
  by (induction m rule: assoc_put.induct) auto

lemma distinct_assoc_put [simp]:
  "distinct (map fst m) \<Longrightarrow> distinct (map fst (assoc_put k v m))"
proof (induction m rule: assoc_put.induct)
  case (2 k v k' v' m)
  then show ?case
    using keys_assoc_put [of k v m] by (auto simp flip: set_map)
qed simp

lemma distinct_assoc_del [simp]:
  "distinct (map fst m) \<Longrightarrow> distinct (map fst (assoc_del k m))"
  by (simp add: assoc_del_def distinct_map_filter)

section \<open>Small string helpers\<close>

definition has_prefix :: "string \<Rightarrow> string \<Rightarrow> bool" where
  "has_prefix s p \<longleftrightarrow> prefix p s"

fun join :: "string \<Rightarrow> string list \<Rightarrow> string" where
  "join sep [] = ''''"
| "join sep [x] = x"
| "join sep (x # y # xs) = x @ sep @ join sep (y # xs)"

fun first_nonempty :: "string list \<Rightarrow> string" where
  "first_nonempty [] = ''''"
| "first_nonempty (v # vs) = (if v \<noteq> '''' then v else first_nonempty vs)"

text \<open>\<open>%q\<close> of printable text: quoted, with quotes and backslashes escaped.\<close>

definition go_quote :: "string \<Rightarrow> string" where
  "go_quote s = [CHR 0x22] @
     concat (map (\<lambda>c. if c = CHR 0x22 \<or> c = CHR 0x5C then [CHR 0x5C, c] else [c]) s) @ [CHR 0x22]"

lemma first_nonempty_empty_iff: "first_nonempty vs = '''' \<longleftrightarrow> (\<forall>v \<in> set vs. v = '''')"
  by (induction vs) auto

lemma first_nonempty_in: "first_nonempty vs \<noteq> '''' \<Longrightarrow> first_nonempty vs \<in> set vs"
  by (induction vs) auto

section \<open>Errors\<close>

text \<open>
  Go errors as values (their wording is shortened where no code reads it): the sentinel errors the code tests for, an error carrying only a message, and
  an error wrapped with more context (\<open>fmt.Errorf\<close> with \<open>%w\<close>), which \<open>errors.Is\<close> and
  \<open>apierrors.IsNotFound\<close> see through.
\<close>

datatype go_error =
    ErrMsg string
  | ErrRunNotFound
  | ApiNotFound
  | ApiAlreadyExists
  | CodeNotFound
  | CodePermissionDenied
  | CodeUnauthenticated
  | CodeUnimplemented
  | EndOfStream
  | CtxCanceled
  | CtxDeadline
  | CodeUnavailable
  | CodeCanceled
  | Wrapped string go_error

fun err_root :: "go_error \<Rightarrow> go_error" where
  "err_root (Wrapped ctx e) = err_root e"
| "err_root e = e"

definition err_is :: "go_error \<Rightarrow> go_error \<Rightarrow> bool" where
  "err_is e target \<longleftrightarrow> err_root e = target"

definition is_not_found :: "go_error \<Rightarrow> bool" where
  "is_not_found e \<longleftrightarrow> err_is e ApiNotFound"

lemma err_is_wrapped [simp]: "err_is (Wrapped ctx e) target = err_is e target"
  by (simp add: err_is_def)

section \<open>Lists\<close>

text \<open>The first element with a property and its index, as the code's linear scans compute them.\<close>

fun index_where :: "('a \<Rightarrow> bool) \<Rightarrow> 'a list \<Rightarrow> nat option" where
  "index_where p [] = None"
| "index_where p (x # xs) = (if p x then Some 0 else map_option Suc (index_where p xs))"

lemma index_where_None_iff: "index_where p xs = None \<longleftrightarrow> (\<forall>x \<in> set xs. \<not> p x)"
  by (induction xs) auto

lemma index_where_SomeD:
  "index_where p xs = Some i \<Longrightarrow> i < length xs \<and> p (xs ! i) \<and> (\<forall>j < i. \<not> p (xs ! j))"
proof (induction xs arbitrary: i)
  case (Cons x xs)
  show ?case
  proof (cases "p x")
    case True
    with Cons.prems show ?thesis by simp
  next
    case False
    with Cons.prems obtain k where k: "index_where p xs = Some k" "i = Suc k" by auto
    have "k < length xs \<and> p (xs ! k) \<and> (\<forall>j < k. \<not> p (xs ! j))"
      by (rule Cons.IH [OF k(1)])
    with False k(2) show ?thesis by (auto simp: less_Suc_eq_0_disj)
  qed
qed simp

lemma remove_nth_eq_remove1:
  "index_where (\<lambda>y. y = x) xs = Some i \<Longrightarrow> take i xs @ drop (Suc i) xs = remove1 x xs"
  by (induction xs arbitrary: i) auto

lemma subseq_remove1: "subseq (remove1 x xs) xs"
  by (induction xs) auto

lemma subseq_Nil: "subseq xs [] \<Longrightarrow> xs = []"
  by (auto dest: list_emb_length)

lemma hd_append_single: "hd (xs @ [x]) = (if xs = [] then x else hd xs)"
  by (cases xs) auto

end
