(* ===== verification/RunTypes.thy ===== *)
theory RunTypes
  imports Prelude
begin

text \<open>
  The API types of \<open>criteria-k8s/api/v1/criteriarun_types.go\<close>: the CriteriaRun custom resource,
  its spec (with the stamped workflow object, its interface declaration, volumes and secrets) and
  its status. Every field of every struct is kept, under a field prefix per record because record
  fields are global names. A pointer field is an option; \<open>metav1.ObjectMeta\<close> and
  \<open>metav1.Condition\<close>, which the repository imports, keep the fields its code reads or writes.
\<close>

section \<open>Phases, classes and policies\<close>

text \<open>
  \<open>CriteriaRunPhase\<close> is a string type with five named values; the empty string is the phase of
  a run no pass has written yet.
\<close>

datatype criteria_run_phase =
  PhaseNone | PhasePending | PhaseRunning | PhaseSucceeded | PhaseFailed | PhaseUnknown

definition run_class_dev :: string where "run_class_dev = ''dev''"
definition run_class_triage :: string where "run_class_triage = ''triage''"

definition interface_lock_key_repo_url :: string where
  "interface_lock_key_repo_url = ''repoUrl''"

definition image_conflict_policy_fail_closed :: string where
  "image_conflict_policy_fail_closed = ''fail-closed''"
definition image_conflict_policy_prefer_event :: string where
  "image_conflict_policy_prefer_event = ''prefer-event''"
definition image_conflict_policy_prefer_metadata :: string where
  "image_conflict_policy_prefer_metadata = ''prefer-metadata''"

definition condition_stall_watchdog :: string where
  "condition_stall_watchdog = ''StallWatchdog''"
definition condition_base_image_mismatch :: string where
  "condition_base_image_mismatch = ''BaseImageMismatch''"
definition condition_config_render_drift :: string where
  "condition_config_render_drift = ''ConfigRenderDrift''"
definition condition_interface_binding_mismatch :: string where
  "condition_interface_binding_mismatch = ''InterfaceBindingMismatch''"
definition condition_terminal_archive_pending :: string where
  "condition_terminal_archive_pending = ''TerminalArchivePending''"
definition condition_adapter_image_conflict :: string where
  "condition_adapter_image_conflict = ''AdapterImageConflict''"

section \<open>The workflow object stamped onto a run\<close>

record run_workflow_interface_mount =
  mt_name :: string
  mt_mountPath :: string
  mt_kind :: string

record run_workflow_interface_config_slot =
  sl_slot :: string
  sl_variable :: string
  sl_target :: string
  sl_description :: string

record run_workflow_interface =
  if_apiVersion :: string
  if_kind :: string
  if_workflow :: string
  if_description :: string
  if_adapters :: "string list"
  if_mounts :: "run_workflow_interface_mount list"
  if_secretEnv :: "string list"
  if_env :: "string list"
  if_configSlots :: "run_workflow_interface_config_slot list"
  if_lockKey :: string

record run_workflow_volume =
  vo_name :: string
  vo_kind :: string
  vo_mountPath :: string
  vo_subPath :: string
  vo_readOnly :: bool
  vo_claim :: string
  vo_server :: string
  vo_path :: string
  vo_sizeLimit :: string
  vo_secretName :: string
  vo_env :: smap

record run_workflow_secret =
  se_name :: string
  se_secretProviderClass :: string
  se_mountPath :: string
  se_env :: smap

record run_workflow =
  wf_name :: string
  wf_type :: string
  wf_namespace :: string
  wf_class :: string
  wf_image :: string
  wf_url :: string
  wf_ref :: string
  wf_volumes :: "run_workflow_volume list"
  wf_secrets :: "run_workflow_secret list"
  wf_env :: smap
  wf_adapterImages :: smap
  wf_imageConflictPolicy :: string
  wf_interface :: "run_workflow_interface option"

record run_workflow_source =
  ws_type :: string
  ws_url :: string
  ws_ref :: string

section \<open>The spec\<close>

record criteria_run_config_ref =
  cr_name :: string
  cr_resourceVersion :: string

record criteria_run_project_binding_ref =
  pb_name :: string
  pb_resourceVersion :: string

record criteria_run_spec =
  sp_ticketID :: string
  sp_repoURL :: string
  sp_image :: string
  sp_buildCmd :: string
  sp_testCmd :: string
  sp_ciGateCmd :: string
  sp_baseBranch :: string
  sp_maxAgentVisits :: int
  sp_providerBaseURL :: string
  sp_perScopeSessions :: bool
  sp_workflow :: "run_workflow option"
  sp_workflowSource :: "run_workflow_source option"
  sp_configRef :: "criteria_run_config_ref option"
  sp_projectBindingRef :: "criteria_run_project_binding_ref option"

section \<open>The status\<close>

record run_config_render =
  rr_configMap :: string
  rr_resourceVersion :: string
  rr_buildCmd :: string
  rr_testCmd :: string
  rr_ciGateCmd :: string
  rr_baseBranch :: string

record run_launch_manifest =
  lm_workflowRef :: string
  lm_workflowDigest :: string
  lm_interfaceChecksum :: string
  lm_bindingChecksum :: string
  lm_operatorVersion :: string
  lm_lanes :: "string list"

record criteria_run_queue_status =
  qs_repoURL :: string
  qs_class :: string
  qs_position :: nat
  qs_length :: nat
  qs_running :: string
  qs_pending :: "string list"

text \<open>\<open>metav1.Condition\<close>; the status is the string \<open>"True"\<close> or \<open>"False"\<close> as a boolean.\<close>

record condition =
  co_type :: string
  co_status :: bool
  co_reason :: string
  co_message :: string
  co_observedGeneration :: int
  co_lastTransitionTime :: gotime

record criteria_run_status =
  st_phase :: criteria_run_phase
  st_jobName :: string
  st_baseImage :: string
  st_configRender :: "run_config_render option"
  st_ticketState :: string
  st_eventsPath :: string
  st_castleRunID :: string
  st_castleTerminalObserved :: bool
  st_archiveID :: string
  st_archivePending :: bool
  st_finalState :: string
  st_launchManifest :: "run_launch_manifest option"
  st_lastStepProgress :: "gotime option"
  st_terminalAt :: "gotime option"
  st_observedGeneration :: int
  st_queue :: "criteria_run_queue_status option"
  st_conditions :: "condition list"

section \<open>The resource\<close>

record criteria_run =
  ru_namespace :: string
  ru_name :: string
  ru_uid :: string
  ru_generation :: int
  ru_resourceVersion :: string
  ru_creationTimestamp :: gotime
  ru_deletionTimestamp :: "gotime option"
  ru_finalizers :: "string list"
  ru_labels :: smap
  ru_annotations :: smap
  ru_spec :: criteria_run_spec
  ru_status :: criteria_run_status

text \<open>\<open>types.NamespacedName\<close>: namespace and name; the zero value has both empty.\<close>

type_synonym nsname = "string \<times> string"

definition run_key :: "criteria_run \<Rightarrow> nsname" where
  "run_key r = (ru_namespace r, ru_name r)"

section \<open>Zero values\<close>

text \<open>The zero structs of Go, from which the examples build their inputs.\<close>

definition zero_spec :: criteria_run_spec where
  "zero_spec = \<lparr>sp_ticketID = '''', sp_repoURL = '''', sp_image = '''', sp_buildCmd = '''',
     sp_testCmd = '''', sp_ciGateCmd = '''', sp_baseBranch = '''', sp_maxAgentVisits = 0,
     sp_providerBaseURL = '''', sp_perScopeSessions = False, sp_workflow = None,
     sp_workflowSource = None, sp_configRef = None, sp_projectBindingRef = None\<rparr>"

definition zero_status :: criteria_run_status where
  "zero_status = \<lparr>st_phase = PhaseNone, st_jobName = '''', st_baseImage = '''',
     st_configRender = None, st_ticketState = '''', st_eventsPath = '''', st_castleRunID = '''',
     st_castleTerminalObserved = False, st_archiveID = '''', st_archivePending = False,
     st_finalState = '''', st_launchManifest = None, st_lastStepProgress = None,
     st_terminalAt = None, st_observedGeneration = 0, st_queue = None, st_conditions = []\<rparr>"

definition zero_run :: criteria_run where
  "zero_run = \<lparr>ru_namespace = '''', ru_name = '''', ru_uid = '''', ru_generation = 0,
     ru_resourceVersion = '''', ru_creationTimestamp = 0, ru_deletionTimestamp = None,
     ru_finalizers = [], ru_labels = [], ru_annotations = [], ru_spec = zero_spec, ru_status = zero_status\<rparr>"

definition zero_workflow :: run_workflow where
  "zero_workflow = \<lparr>wf_name = '''', wf_type = '''', wf_namespace = '''', wf_class = '''',
     wf_image = '''', wf_url = '''', wf_ref = '''', wf_volumes = [], wf_secrets = [], wf_env = [],
     wf_adapterImages = [], wf_imageConflictPolicy = '''', wf_interface = None\<rparr>"

definition zero_interface :: run_workflow_interface where
  "zero_interface = \<lparr>if_apiVersion = '''', if_kind = '''', if_workflow = '''',
     if_description = '''', if_adapters = [], if_mounts = [], if_secretEnv = [], if_env = [],
     if_configSlots = [], if_lockKey = ''''\<rparr>"

definition is_terminal_phase :: "criteria_run_phase \<Rightarrow> bool" where
  "is_terminal_phase p \<longleftrightarrow> p = PhaseSucceeded \<or> p = PhaseFailed"

lemma is_terminal_phase_simps [simp]:
  "is_terminal_phase PhaseSucceeded" "is_terminal_phase PhaseFailed"
  "\<not> is_terminal_phase PhaseNone" "\<not> is_terminal_phase PhasePending"
  "\<not> is_terminal_phase PhaseRunning" "\<not> is_terminal_phase PhaseUnknown"
  by (simp_all add: is_terminal_phase_def)

lemma terminal_phase_not_running: "is_terminal_phase p \<Longrightarrow> p \<noteq> PhaseRunning"
  by auto

lemmas zero_defs = zero_spec_def zero_status_def zero_run_def zero_workflow_def zero_interface_def

end
