(* ===== verification/Lifecycle.thy ===== *)
theory Lifecycle
  imports RunTypes
begin

text \<open>
  The lifecycle event stream of \<open>criteria-k8s/internal/events/lifecycle.go\<close>: the event record, the
  ndjson scanner with its two wire shapes, and the derivation of the active provisions from a
  history. \<open>json.Unmarshal\<close> into the two Go structs is a pair of decoders (line to optional
  value) that the parser takes as arguments; the scanner's line splitting and its 16 MiB token
  limit are modelled.
\<close>

section \<open>Events\<close>

definition event_provision_wanted :: string where "event_provision_wanted = ''provision_wanted''"
definition event_release :: string where "event_release = ''release''"
definition payload_type_adapter_event :: string where
  "payload_type_adapter_event = ''AdapterEvent''"
definition payload_kind_provision_wanted :: string where
  "payload_kind_provision_wanted = ''adapter.lifecycle.provision_wanted''"

lemma event_kinds_differ [simp]: "event_provision_wanted \<noteq> event_release"
  by (simp add: event_provision_wanted_def event_release_def)

record payload_event_data =
  pd_adapter :: string
  pd_adapterType :: string
  pd_digest :: string
  pd_scopeID :: string
  pd_shimAddress :: string
  pd_tokenFile :: string
  pd_imageReference :: string
  pd_acceptToken :: string
  pd_environmentType :: string
  pd_environmentName :: string

record payload_message =
  pm_kind :: string
  pm_data :: payload_event_data

record payload_envelope =
  pe_payloadType :: string
  pe_runID :: string
  pe_payload :: "payload_message option"

record lifecycle_event =
  le_event :: string
  le_runID :: string
  le_scopeID :: string
  le_scopeTag :: string
  le_adapterName :: string
  le_adapterType :: string
  le_digest :: string
  le_imageReference :: string
  le_shimAddress :: string
  le_tokenFile :: string
  le_acceptToken :: string
  le_environmentType :: string
  le_environmentName :: string
  le_environment :: string
  le_timestamp :: string

definition zero_event :: lifecycle_event where
  "zero_event = \<lparr>le_event = '''', le_runID = '''', le_scopeID = '''', le_scopeTag = '''',
     le_adapterName = '''', le_adapterType = '''', le_digest = '''', le_imageReference = '''',
     le_shimAddress = '''', le_tokenFile = '''', le_acceptToken = '''', le_environmentType = '''',
     le_environmentName = '''', le_environment = '''', le_timestamp = ''''\<rparr>"

definition is_provision_wanted :: "lifecycle_event \<Rightarrow> bool" where
  "is_provision_wanted e \<longleftrightarrow> le_event e = event_provision_wanted"

definition is_release :: "lifecycle_event \<Rightarrow> bool" where
  "is_release e \<longleftrightarrow> le_event e = event_release"

definition scope_key :: "lifecycle_event \<Rightarrow> string" where
  "scope_key e = le_adapterName e @ ''/'' @ le_scopeID e"

definition environment_identity :: "string \<Rightarrow> string \<Rightarrow> string" where
  "environment_identity envType envName =
     (if envType = '''' \<and> envName = '''' then '''' else envType @ ''/'' @ envName)"

lemma environment_identity_empty: "environment_identity t n = '''' \<longleftrightarrow> t = '''' \<and> n = ''''"
  by (simp add: environment_identity_def)

section \<open>Parsing the ndjson stream\<close>

definition lifecycle_event_from_payload :: "payload_envelope \<Rightarrow> payload_message \<Rightarrow> lifecycle_event option" where
  "lifecycle_event_from_payload envelope payload =
     (if pm_kind payload \<noteq> payload_kind_provision_wanted then None
      else
        let d = pm_data payload;
            ev = \<lparr>le_event = event_provision_wanted, le_runID = pe_runID envelope,
                  le_scopeID = pd_scopeID d, le_scopeTag = '''',
                  le_adapterName = pd_adapter d, le_adapterType = pd_adapterType d,
                  le_digest = pd_digest d, le_imageReference = pd_imageReference d,
                  le_shimAddress = pd_shimAddress d, le_tokenFile = pd_tokenFile d,
                  le_acceptToken = pd_acceptToken d, le_environmentType = pd_environmentType d,
                  le_environmentName = pd_environmentName d,
                  le_environment =
                    environment_identity (pd_environmentType d) (pd_environmentName d),
                  le_timestamp = ''''\<rparr>
        in if le_adapterName ev = '''' then None else Some ev)"

text \<open>
  \<open>bufio.Scanner\<close> with \<open>ScanLines\<close>: lines end at a newline, which is dropped together with one
  carriage return before it; a last line without newline counts when it is not empty; a line that
  does not fit the buffer (16 MiB, newline included) stops the scan with an error.
\<close>

definition max_token_size :: nat where "max_token_size = 16 * 1024 * 1024"

definition drop_cr :: "string \<Rightarrow> string" where
  "drop_cr l = (if l \<noteq> [] \<and> last l = CHR 0x0D then butlast l else l)"

function scan_lines :: "nat \<Rightarrow> string \<Rightarrow> string list \<times> bool" where
  "scan_lines limit [] = ([], False)"
| "scan_lines limit (c # cs) =
     (let l = takeWhile (\<lambda>x. x \<noteq> CHR 0x0A) (c # cs);
          rest = drop (length l) (c # cs)
      in if length l \<ge> limit then ([], True)
         else let (ls, err) = scan_lines limit (drop 1 rest) in (drop_cr l # ls, err))"
  by pat_completeness auto
termination
  by (relation "measure (\<lambda>(limit, s). length s)") auto

declare scan_lines.simps [simp del]

fun parse_lines ::
  "(string \<Rightarrow> payload_envelope option) \<Rightarrow> (string \<Rightarrow> lifecycle_event option) \<Rightarrow>
   string list \<Rightarrow> lifecycle_event list" where
  "parse_lines dec_env dec_flat [] = []"
| "parse_lines dec_env dec_flat (line # ls) =
     (if line = '''' then parse_lines dec_env dec_flat ls
      else
        case (case dec_env line of
                Some envelope \<Rightarrow>
                  (if pe_payloadType envelope = payload_type_adapter_event
                   then map_option (\<lambda>p. (envelope, p)) (pe_payload envelope) else None)
              | None \<Rightarrow> None) of
          Some (envelope, p) \<Rightarrow>
            (case lifecycle_event_from_payload envelope p of
               Some ev \<Rightarrow> ev # parse_lines dec_env dec_flat ls
             | None \<Rightarrow> parse_lines dec_env dec_flat ls)
        | None \<Rightarrow>
            (case dec_flat line of
               None \<Rightarrow> parse_lines dec_env dec_flat ls
             | Some ev \<Rightarrow>
                 if le_event ev \<noteq> event_provision_wanted \<and> le_event ev \<noteq> event_release
                 then parse_lines dec_env dec_flat ls
                 else if le_adapterName ev = '''' then parse_lines dec_env dec_flat ls
                 else ev\<lparr>le_environment :=
                        environment_identity (le_environmentType ev) (le_environmentName ev)\<rparr>
                      # parse_lines dec_env dec_flat ls))"

definition parse_lifecycle_events ::
  "(string \<Rightarrow> payload_envelope option) \<Rightarrow> (string \<Rightarrow> lifecycle_event option) \<Rightarrow>
   string \<Rightarrow> string + lifecycle_event list" where
  "parse_lifecycle_events dec_env dec_flat bytes =
     (let (ls, too_long) = scan_lines max_token_size bytes
      in if too_long then Inl ''scanning lifecycle events''
         else Inr (parse_lines dec_env dec_flat ls))"

text \<open>The well-formedness both wire shapes guarantee, whatever the JSON decoders return.\<close>

definition wf_event :: "lifecycle_event \<Rightarrow> bool" where
  "wf_event e \<longleftrightarrow> (is_provision_wanted e \<or> is_release e) \<and> le_adapterName e \<noteq> '''' \<and>
     le_environment e = environment_identity (le_environmentType e) (le_environmentName e)"

lemma lifecycle_event_from_payload_wf:
  "lifecycle_event_from_payload envelope p = Some ev \<Longrightarrow> wf_event ev \<and> is_provision_wanted ev"
  by (auto simp: lifecycle_event_from_payload_def wf_event_def is_provision_wanted_def Let_def
           split: if_splits)

lemma parse_lines_wf: "ev \<in> set (parse_lines dec_env dec_flat ls) \<Longrightarrow> wf_event ev"
  by (induction ls)
    (auto split: option.splits if_splits
          dest: lifecycle_event_from_payload_wf [unfolded wf_event_def is_provision_wanted_def is_release_def]
          simp: wf_event_def is_provision_wanted_def is_release_def)

section \<open>Active provisions\<close>

text \<open>
  \<open>ActiveProvisions\<close> folds the history into a map keyed by adapter and scope. The returned slice is
  the map's values in the runtime's iteration order; the model returns them in insertion order.
\<close>

definition active_step ::
  "(string \<times> lifecycle_event) list \<Rightarrow> lifecycle_event \<Rightarrow> (string \<times> lifecycle_event) list" where
  "active_step active ev =
     (if le_event ev = event_provision_wanted then assoc_put (scope_key ev) ev active
      else if le_event ev = event_release then assoc_del (scope_key ev) active
      else active)"

definition active_provisions :: "lifecycle_event list \<Rightarrow> lifecycle_event list" where
  "active_provisions evs = map snd (foldl active_step [] evs)"

text \<open>
  The abstract reading: the last lifecycle event of a key decides. \<open>last_event k evs\<close> is the newest
  event of the key that is a provision or a release.
\<close>

definition counts :: "lifecycle_event \<Rightarrow> bool" where
  "counts e \<longleftrightarrow> is_provision_wanted e \<or> is_release e"

definition last_event :: "string \<Rightarrow> lifecycle_event list \<Rightarrow> lifecycle_event option" where
  "last_event k evs = find (\<lambda>e. scope_key e = k \<and> counts e) (rev evs)"

definition active_spec :: "lifecycle_event list \<Rightarrow> string \<Rightarrow> lifecycle_event option" where
  "active_spec evs k =
     (case last_event k evs of
        Some e \<Rightarrow> if is_provision_wanted e then Some e else None
      | None \<Rightarrow> None)"

lemma last_event_snoc:
  "last_event k (evs @ [e]) = (if scope_key e = k \<and> counts e then Some e else last_event k evs)"
  by (simp add: last_event_def)

lemma last_event_append:
  "last_event k (xs @ ys) = (case last_event k ys of Some e \<Rightarrow> Some e | None \<Rightarrow> last_event k xs)"
proof (induction ys rule: rev_induct)
  case Nil
  then show ?case by (simp add: last_event_def)
next
  case (snoc y ys)
  then show ?case by (simp only: append_assoc [symmetric] last_event_snoc) simp
qed

lemma find_SomeD: "find P xs = Some x \<Longrightarrow> x \<in> set xs \<and> P x"
  by (induction xs) (auto split: if_splits)

lemma last_event_key: "last_event k evs = Some e \<Longrightarrow> scope_key e = k \<and> e \<in> set evs"
  by (auto simp: last_event_def dest!: find_SomeD)

lemma foldl_active_step:
  "map_of (foldl active_step [] evs) k = active_spec evs k \<and>
   distinct (map fst (foldl active_step [] evs))"
proof (induction evs rule: rev_induct)
  case Nil
  then show ?case by (simp add: active_spec_def last_event_def)
next
  case (snoc e evs)
  then show ?case
    by (auto simp: active_step_def active_spec_def last_event_snoc counts_def
        is_provision_wanted_def is_release_def)
qed

lemma active_provisions_set: "set (active_provisions evs) = {e. \<exists>k. active_spec evs k = Some e}"
proof -
  have d: "distinct (map fst (foldl active_step [] evs))" using foldl_active_step by blast
  have "(k, e) \<in> set (foldl active_step [] evs) \<longleftrightarrow> active_spec evs k = Some e" for k e
    using map_of_eq_Some_iff [OF d, of k e] foldl_active_step [of evs k] by simp
  then have "e \<in> snd ` set (foldl active_step [] evs) \<longleftrightarrow> (\<exists>k. active_spec evs k = Some e)" for e
    by force
  then show ?thesis by (auto simp: active_provisions_def)
qed

lemma active_spec_key: "active_spec evs k = Some e \<Longrightarrow> scope_key e = k \<and> is_provision_wanted e \<and> e \<in> set evs"
  by (auto simp: active_spec_def split: option.splits if_splits dest: last_event_key)

lemma active_provisions_mem:
  "e \<in> set (active_provisions evs) \<longleftrightarrow> active_spec evs (scope_key e) = Some e"
  by (auto simp: active_provisions_set dest: active_spec_key)

lemma active_provisions_distinct: "distinct (map scope_key (active_provisions evs))"
proof -
  let ?m = "foldl active_step [] evs"
  have "\<forall>(k, e) \<in> set ?m. scope_key e = k"
  proof (clarify)
    fix k e assume "(k, e) \<in> set ?m"
    then have "map_of ?m k = Some e" using foldl_active_step by (metis map_of_is_SomeI)
    then show "scope_key e = k" using foldl_active_step active_spec_key by metis
  qed
  then have "map scope_key (active_provisions evs) = map fst ?m"
    unfolding active_provisions_def by (auto simp: case_prod_beta)
  then show ?thesis using foldl_active_step [of evs] by simp
qed

section \<open>Properties\<close>

text \<open>
  The active provisions are exactly the provisions that are the newest lifecycle event of their
  adapter and scope, one per adapter and scope; in particular a release removes exactly its own
  pair, and a later provision of the pair brings it back.
\<close>

theorem active_provisions_newest:
  "(e \<in> set (active_provisions evs) \<longleftrightarrow>
      is_provision_wanted e \<and> last_event (scope_key e) evs = Some e) \<and>
   distinct (map scope_key (active_provisions evs))"
  by (auto simp: active_provisions_mem active_spec_def active_provisions_distinct
      split: option.splits if_splits)

text \<open>
  Re-reading a prefix of the stream does not change the derived desired state: a history that
  repeats its own beginning yields the same active provisions as the history read once.
\<close>

theorem active_provisions_replay:
  "set (active_provisions (p @ p @ s)) = set (active_provisions (p @ s))"
proof -
  have "last_event k (p @ p @ s) = last_event k (p @ s)" for k
    by (auto simp: last_event_append split: option.splits)
  then have "active_spec (p @ p @ s) = active_spec (p @ s)" by (simp add: active_spec_def fun_eq_iff)
  then show ?thesis by (simp add: active_provisions_set)
qed

lemma scan_lines_no_error_bound:
  "scan_lines limit s = (ls, False) \<Longrightarrow> l \<in> set ls \<Longrightarrow> length l < limit"
proof (induction limit s arbitrary: ls rule: scan_lines.induct)
  case (1 limit)
  then show ?case by (simp add: scan_lines.simps)
next
  case (2 limit c cs)
  let ?l = "takeWhile (\<lambda>x. x \<noteq> CHR 0x0A) (c # cs)"
  obtain ls' err where rec: "scan_lines limit (drop 1 (drop (length ?l) (c # cs))) = (ls', err)"
    by fastforce
  from 2(2) rec have short: "length ?l < limit" and err: "\<not> err" and ls: "ls = drop_cr ?l # ls'"
    by (auto simp: scan_lines.simps Let_def split: if_splits)
  have "length (drop_cr ?l) \<le> length ?l" by (simp add: drop_cr_def)
  moreover have "l \<in> set ls' \<Longrightarrow> length l < limit"
    using 2(1) [OF refl refl] short rec err by (simp add: Let_def not_le)
  ultimately show ?case using 2(3) ls short by auto
qed

text \<open>
  Whatever the JSON decoders return, a parsed stream contains only provision and release events
  with a non-empty adapter name whose co-location environment is derived from the declared type and
  name; a line beyond the scanner's limit fails the parse instead of truncating the history.
\<close>

theorem parse_lifecycle_events_wf:
  "case parse_lifecycle_events dec_env dec_flat bytes of
     Inl e \<Rightarrow> snd (scan_lines max_token_size bytes)
   | Inr evs \<Rightarrow> (\<forall>ev \<in> set evs. wf_event ev) \<and> \<not> snd (scan_lines max_token_size bytes) \<and>
       (\<forall>l \<in> set (fst (scan_lines max_token_size bytes)). length l < max_token_size)"
  by (cases "scan_lines max_token_size bytes")
    (auto simp: parse_lifecycle_events_def parse_lines_wf scan_lines_no_error_bound)

theorem parse_lifecycle_events_wf_witness:
  "(case parse_lifecycle_events (\<lambda>_. None)
      (\<lambda>l. Some (zero_event\<lparr>le_event := ''release'', le_adapterName := l\<rparr>)) ''a'' of
     Inl e \<Rightarrow> False | Inr evs \<Rightarrow> \<forall>ev \<in> set evs. wf_event ev)"
proof -
  have scan: "scan_lines max_token_size ''a'' = ([''a''], False)"
    by (simp add: scan_lines.simps max_token_size_def drop_cr_def)
  show ?thesis
    using parse_lifecycle_events_wf [where dec_env = "\<lambda>_. None" and bytes = "''a''"
        and dec_flat = "\<lambda>l. Some (zero_event\<lparr>le_event := ''release'', le_adapterName := l\<rparr>)"] scan
    by (auto split: sum.splits)
qed

end
