(* ===== verification/CastleClient.thy ===== *)
theory CastleClient
  imports Lifecycle
begin

text \<open>
  The castle observation client, \<open>criteria-k8s/internal/castle/castle.go\<close> and \<open>wire.go\<close>: the
  conversion of wire envelopes, the incremental drain of a run's event stream into the client's
  per-run state, the discovery of a run by its runner job, and the composed observation.

  The castle server and the protobuf bindings are outside the repository. A remote call is a
  function argument that may change an abstract world \<open>'w\<close> and returns an error or a message; an
  envelope is the message the bindings decode, its oneof payload a datatype with the variants the
  code distinguishes. The per-run Go maps of the client are total functions of the run id whose
  default is the zero value a read of an absent key gives (nothing iterates over them).
\<close>

section \<open>Wire messages\<close>

datatype wire_value = VString string | VOther

record adapter_event =
  ae_kind :: string
  ae_adapter :: string
  ae_data :: "(string \<times> wire_value) list option"

datatype wire_payload =
    RunStarted | StepEntered | StepOutcome "(string \<times> string) option" | StepTransition | StepLog | StepResumed
  | StepOutputCaptured | VariableSet | WaitEntered | WaitResumed | ApprovalRequested
  | ApprovalDecision | BranchEvaluated | ForEachEntered | StepIterationStarted | StepIterationItem
  | StepIterationCompleted | ScopeIterCursorSet | WatchReady
  | AdapterEventP "adapter_event option"
  | WorkflowGraphs "string option"
  | RunCompleted "(bool \<times> string) option"
  | RunFailed "string option"
  | RunHeartbeat
  | OtherPayload

record wire_envelope =
  en_seq :: nat
  en_runID :: string
  en_ts :: "gotime option"
  en_payload :: wire_payload

record castle_terminal =
  tm_success :: bool
  tm_finalState :: string
  tm_reason :: string
  tm_at :: gotime

record step_record =
  sr_name :: string
  sr_outcome :: string

record castle_run =
  ca_runID :: string
  ca_status :: string
  ca_workflowName :: string
  ca_workflowHash :: string
  ca_failureReason :: string
  ca_createdAt :: gotime
  ca_startedAt :: "gotime option"
  ca_endedAt :: "gotime option"

record run_record =
  rc_runID :: string
  rc_workflowName :: string
  rc_workflowHash :: string
  rc_failureReason :: string
  rc_startedAt :: gotime
  rc_endedAt :: gotime

record observation =
  ob_runID :: string
  ob_workflowGraphs :: string
  ob_lifecycle :: "lifecycle_event list"
  ob_terminal :: "castle_terminal option"
  ob_lastProgress :: gotime
  ob_runStatus :: string
  ob_runRecord :: "run_record option"
  ob_steps :: "step_record list"

definition zero_observation :: observation where
  "zero_observation = \<lparr>ob_runID = '''', ob_workflowGraphs = '''', ob_lifecycle = [],
     ob_terminal = None, ob_lastProgress = zero_time, ob_runStatus = '''', ob_runRecord = None,
     ob_steps = []\<rparr>"

section \<open>Converting envelopes\<close>

definition kind_provision_wanted :: string where
  "kind_provision_wanted = ''adapter.lifecycle.provision_wanted''"
definition kind_released :: string where
  "kind_released = ''adapter.lifecycle.released''"

fun get_string_value :: "wire_value \<Rightarrow> string" where
  "get_string_value (VString s) = s"
| "get_string_value VOther = ''''"

fun data_string_fields :: "(string \<times> wire_value) list \<Rightarrow> string list \<Rightarrow> string" where
  "data_string_fields fs [] = ''''"
| "data_string_fields fs (key # keys) =
     (case map_of fs key of
        Some value \<Rightarrow>
          (if get_string_value value \<noteq> '''' then get_string_value value
           else data_string_fields fs keys)
      | None \<Rightarrow> data_string_fields fs keys)"

definition data_string :: "(string \<times> wire_value) list option \<Rightarrow> string list \<Rightarrow> string" where
  "data_string data keys =
     (case data of None \<Rightarrow> '''' | Some fs \<Rightarrow> data_string_fields fs keys)"

definition lifecycle_from_envelope :: "wire_envelope option \<Rightarrow> lifecycle_event option" where
  "lifecycle_from_envelope env =
     (case env of
        None \<Rightarrow> None
      | Some e \<Rightarrow>
          (case en_payload e of
             AdapterEventP (Some ae) \<Rightarrow>
               (let data = ae_data ae;
                    kind = (if ae_kind ae = kind_provision_wanted then Some event_provision_wanted
                            else if ae_kind ae = kind_released then Some event_release else None)
                in case kind of
                     None \<Rightarrow> None
                   | Some k \<Rightarrow>
                       (let ev = \<lparr>le_event = k, le_runID = en_runID e,
                            le_scopeID = data_string data [''scope_instance_id'', ''scope_id''],
                            le_scopeTag = data_string data [''scope_name'', ''scope_tag''],
                            le_adapterName = first_nonempty
                              [data_string data [''adapter'', ''adapter_name''], ae_adapter ae],
                            le_adapterType = data_string data [''adapter_type''],
                            le_digest = data_string data [''digest''],
                            le_imageReference = data_string data [''image_reference''],
                            le_shimAddress = data_string data [''shim_listen_address'', ''shim_address''],
                            le_tokenFile = data_string data [''token_ref'', ''token_file''],
                            le_acceptToken = data_string data [''accept_token''],
                            le_environmentType = data_string data [''environment_type''],
                            le_environmentName = data_string data [''environment_name''],
                            le_environment = environment_identity
                              (data_string data [''environment_type''])
                              (data_string data [''environment_name'']),
                            le_timestamp = ''''\<rparr>
                        in if le_adapterName ev = '''' then None else Some ev))
           | _ \<Rightarrow> None))"

definition envelope_time :: "wire_envelope \<Rightarrow> gotime" where
  "envelope_time e = (case en_ts e of Some t \<Rightarrow> t | None \<Rightarrow> zero_time)"

definition terminal_from_envelope :: "wire_envelope option \<Rightarrow> castle_terminal option" where
  "terminal_from_envelope env =
     (case env of
        None \<Rightarrow> None
      | Some e \<Rightarrow>
          (case en_payload e of
             RunCompleted (Some (success, final)) \<Rightarrow>
               Some \<lparr>tm_success = success, tm_finalState = final, tm_reason = '''',
                     tm_at = envelope_time e\<rparr>
           | RunFailed (Some reason) \<Rightarrow>
               Some \<lparr>tm_success = False, tm_finalState = '''', tm_reason = reason,
                     tm_at = envelope_time e\<rparr>
           | _ \<Rightarrow> None))"

definition adapter_event_activity_kind :: "string \<Rightarrow> bool" where
  "adapter_event_activity_kind kind \<longleftrightarrow>
     kind \<in> set [''agent.message'', ''tool.invocation'', ''tool.result'', ''permission.request'',
                 ''limit.reached'', ''outcome.finalized'']"

fun progress_from_payload :: "wire_payload \<Rightarrow> bool" where
  "progress_from_payload (AdapterEventP ae) =
     adapter_event_activity_kind (case ae of None \<Rightarrow> '''' | Some a \<Rightarrow> ae_kind a)"
| "progress_from_payload (WorkflowGraphs _) = False"
| "progress_from_payload (RunCompleted _) = False"
| "progress_from_payload (RunFailed _) = False"
| "progress_from_payload RunHeartbeat = False"
| "progress_from_payload OtherPayload = False"
| "progress_from_payload _ = True"

definition progress_from_envelope :: "wire_envelope \<Rightarrow> bool" where
  "progress_from_envelope e = progress_from_payload (en_payload e)"

section \<open>The client's state and the drain\<close>

record castle_client =
  cl_addr :: string
  cl_cursors :: "string \<Rightarrow> nat"
  cl_scopes :: "string \<Rightarrow> string \<Rightarrow> string"
  cl_lifecycle :: "string \<Rightarrow> lifecycle_event list"
  cl_terminals :: "string \<Rightarrow> castle_terminal option"
  cl_graphs :: "string \<Rightarrow> string"
  cl_progress :: "string \<Rightarrow> gotime"
  cl_steps :: "string \<Rightarrow> step_record list"
  cl_runRecords :: "string \<Rightarrow> run_record option"

definition new_client :: "string \<Rightarrow> castle_client" where
  "new_client addr = \<lparr>cl_addr = addr, cl_cursors = (\<lambda>_. 0), cl_scopes = (\<lambda>_ _. ''''),
     cl_lifecycle = (\<lambda>_. []), cl_terminals = (\<lambda>_. None), cl_graphs = (\<lambda>_. ''''),
     cl_progress = (\<lambda>_. zero_time), cl_steps = (\<lambda>_. []), cl_runRecords = (\<lambda>_. None)\<rparr>"

definition client_disabled :: "castle_client option \<Rightarrow> bool" where
  "client_disabled c = (case c of None \<Rightarrow> True | Some cl \<Rightarrow> cl_addr cl = '''')"

definition max_archive_steps :: nat where "max_archive_steps = 256"
definition default_page_size :: nat where "default_page_size = 200"
definition max_event_pages :: nat where "max_event_pages = 50"
definition max_discovery_pages :: nat where "max_discovery_pages = 10"

definition resolve_release_adapter :: "castle_client \<Rightarrow> string \<Rightarrow> lifecycle_event \<Rightarrow> lifecycle_event" where
  "resolve_release_adapter c runID ev =
     (if \<not> is_release ev then ev
      else
        let prov = cl_scopes c runID (le_scopeID ev)
        in if prov \<noteq> '''' \<and> prov \<noteq> le_adapterName ev then ev\<lparr>le_adapterName := prov\<rparr> else ev)"

definition record_scope :: "castle_client \<Rightarrow> string \<Rightarrow> lifecycle_event \<Rightarrow> castle_client" where
  "record_scope c runID ev =
     c\<lparr>cl_scopes := (cl_scopes c)(runID := (cl_scopes c runID)(le_scopeID ev := le_adapterName ev))\<rparr>"

text \<open>The locals of one \<open>drain\<close> call: the running sequence number, terminal and newest progress.\<close>

record drain_locals =
  dl_since :: nat
  dl_terminal :: "castle_terminal option"
  dl_lastProgress :: gotime

definition fold_progress :: "wire_envelope \<Rightarrow> gotime \<Rightarrow> gotime" where
  "fold_progress env lastProgress =
     (if progress_from_envelope env
      then (case en_ts env of
              Some t \<Rightarrow> if t > lastProgress then t else lastProgress
            | None \<Rightarrow> lastProgress)
      else lastProgress)"

definition fold_steps :: "wire_envelope \<Rightarrow> step_record list \<Rightarrow> step_record list" where
  "fold_steps env steps =
     (case en_payload env of
        StepOutcome (Some (name, outcome)) \<Rightarrow>
          (if length steps < max_archive_steps
           then steps @ [\<lparr>sr_name = name, sr_outcome = outcome\<rparr>] else steps)
      | _ \<Rightarrow> steps)"

definition fold_graphs :: "wire_envelope \<Rightarrow> string \<Rightarrow> string" where
  "fold_graphs env graphs =
     (case en_payload env of WorkflowGraphs (Some raw) \<Rightarrow> raw | _ \<Rightarrow> graphs)"

definition fold_lifecycle :: "string \<Rightarrow> wire_envelope \<Rightarrow> castle_client \<Rightarrow> castle_client" where
  "fold_lifecycle runID env c =
     (case lifecycle_from_envelope (Some env) of
        None \<Rightarrow> c
      | Some ev0 \<Rightarrow>
          let ev = resolve_release_adapter c runID ev0;
              c1 = c\<lparr>cl_lifecycle := (cl_lifecycle c)(runID := cl_lifecycle c runID @ [ev])\<rparr>
          in if is_provision_wanted ev then record_scope c1 runID ev else c1)"

definition fold_envelope ::
  "string \<Rightarrow> castle_client \<times> drain_locals \<Rightarrow> wire_envelope \<Rightarrow> castle_client \<times> drain_locals" where
  "fold_envelope runID st env =
     (case st of (c, l) \<Rightarrow>
       let lp = fold_progress env (dl_lastProgress l);
           (c1, t1) = (case terminal_from_envelope (Some env) of
                         Some t \<Rightarrow> (c\<lparr>cl_terminals := (cl_terminals c)(runID := Some t)\<rparr>, Some t)
                       | None \<Rightarrow> (c, dl_terminal l));
           c2 = c1\<lparr>cl_steps := (cl_steps c1)(runID := fold_steps env (cl_steps c1 runID))\<rparr>;
           c3 = c2\<lparr>cl_graphs := (cl_graphs c2)(runID := fold_graphs env (cl_graphs c2 runID))\<rparr>;
           c4 = fold_lifecycle runID env c3
       in (c4, \<lparr>dl_since = (if en_seq env > dl_since l then en_seq env else dl_since l),
               dl_terminal = t1, dl_lastProgress = lp\<rparr>))"

text \<open>
  The page loop, with the number of pages left. The remote call is given the run, the exclusive
  lower bound and the page size, and answers with the events and the next bound. An error ends the
  loop with what has been folded so far still in the client's maps.
\<close>

type_synonym 'w fetch_events = "string \<Rightarrow> nat \<Rightarrow> nat \<Rightarrow> 'w \<Rightarrow> (go_error + wire_envelope list \<times> nat) \<times> 'w"

fun drain_pages ::
  "'w fetch_events \<Rightarrow> string \<Rightarrow> nat \<Rightarrow> castle_client \<times> drain_locals \<Rightarrow> 'w \<Rightarrow>
   (go_error option \<times> castle_client \<times> drain_locals) \<times> 'w" where
  "drain_pages fetch runID 0 (c, l) w = ((None, c, l), w)"
| "drain_pages fetch runID (Suc n) (c, l) w =
     (case fetch runID (dl_since l) default_page_size w of
        (Inl e, w') \<Rightarrow> ((Some e, c, l), w')
      | (Inr (evs, next), w') \<Rightarrow>
          (let (c1, l1) = foldl (fold_envelope runID) (c, l) evs;
               l2 = (if next > dl_since l1 then l1\<lparr>dl_since := next\<rparr> else l1)
           in if length evs < default_page_size then ((None, c1, l2), w')
              else drain_pages fetch runID n (c1, l2) w'))"

definition drain ::
  "'w fetch_events \<Rightarrow> string \<Rightarrow> castle_client \<Rightarrow> 'w \<Rightarrow>
   ((go_error + castle_terminal option \<times> lifecycle_event list \<times> gotime) \<times> castle_client) \<times> 'w" where
  "drain fetch runID c w =
     (case drain_pages fetch runID max_event_pages
             (c, \<lparr>dl_since = cl_cursors c runID, dl_terminal = cl_terminals c runID,
                  dl_lastProgress = cl_progress c runID\<rparr>) w of
        ((Some e, c1, l), w') \<Rightarrow> ((Inl e, c1), w')
      | ((None, c1, l), w') \<Rightarrow>
          let c2 = c1\<lparr>cl_cursors := (cl_cursors c1)(runID := dl_since l)\<rparr>;
              c3 = (if dl_lastProgress l > cl_progress c2 runID
                    then c2\<lparr>cl_progress := (cl_progress c2)(runID := dl_lastProgress l)\<rparr> else c2)
          in ((Inr (dl_terminal l, cl_lifecycle c3 runID, dl_lastProgress l), c3), w'))"

end
