(* ===== verification/CastleObserve.thy ===== *)
theory CastleObserve
  imports CastleClient
begin

text \<open>
  Discovery and the composed observation of \<open>criteria-k8s/internal/castle/castle.go\<close>: the castle
  agent a runner pod registered, the castle run of the agent's criteria id, and \<open>Observe\<close>, which
  drains the run's events and enriches them from the run record.

  A Go set built during discovery is the list of its elements in insertion order; where the code
  iterates over one, the order is the argument \<open>ord\<close>, any rearrangement of the list. Last-seen
  times are compared by the code as RFC 3339 strings, which order as the whole seconds they print
  (\<open>seen_key\<close>).
\<close>

section \<open>Agent discovery\<close>

record castle_agent =
  ag_name :: string
  ag_criteriaID :: string
  ag_status :: string
  ag_lastSeen :: gotime

type_synonym 'w fetch_agents = "nat \<Rightarrow> string \<Rightarrow> 'w \<Rightarrow> (go_error + castle_agent list \<times> string) \<times> 'w"
type_synonym 'w fetch_runs = "string \<Rightarrow> nat \<Rightarrow> string \<Rightarrow> 'w \<Rightarrow> (go_error + castle_run list \<times> string) \<times> 'w"

definition seen_key :: "gotime \<Rightarrow> int" where
  "seen_key t = t div second"

record discovery =
  di_ids :: "string list"
  di_online :: "string list"
  di_lastSeen :: "string \<Rightarrow> int option"

definition empty_discovery :: discovery where
  "empty_discovery = \<lparr>di_ids = [], di_online = [], di_lastSeen = (\<lambda>_. None)\<rparr>"

definition newer_seen :: "int \<Rightarrow> int option \<Rightarrow> bool" where
  "newer_seen t old = (case old of None \<Rightarrow> True | Some s \<Rightarrow> t > s)"

definition note_agent :: "string \<Rightarrow> discovery \<Rightarrow> castle_agent \<Rightarrow> discovery" where
  "note_agent runnerJob d agent =
     (let name = ag_name agent; cid = ag_criteriaID agent; seen = seen_key (ag_lastSeen agent)
      in if name \<noteq> runnerJob \<and> \<not> has_prefix name (runnerJob @ ''-'') then d
         else if cid = '''' then d
         else \<lparr>di_ids = List.insert cid (di_ids d),
               di_online = (if ag_status agent = ''online'' then List.insert cid (di_online d)
                            else di_online d),
               di_lastSeen = (if newer_seen seen (di_lastSeen d cid)
                              then (di_lastSeen d)(cid \<mapsto> seen) else di_lastSeen d)\<rparr>)"

text \<open>The most recently seen id of a list; the empty best has an empty last-seen string.\<close>

fun pick_best :: "(string \<Rightarrow> int option) \<Rightarrow> string \<times> int option \<Rightarrow> string list \<Rightarrow> string \<times> int option" where
  "pick_best seen best [] = best"
| "pick_best seen (b, bseen) (i # rest) =
     (case seen i of
        Some t \<Rightarrow> (if newer_seen t bseen then pick_best seen (i, Some t) rest
                   else pick_best seen (b, bseen) rest)
      | None \<Rightarrow> pick_best seen (b, bseen) rest)"

definition conclude_agents ::
  "(string list \<Rightarrow> string list) \<Rightarrow> string \<Rightarrow> discovery \<Rightarrow> go_error + string" where
  "conclude_agents ord runnerJob d =
     (let n = length (di_online d);
          best = (if n > 1 then fst (pick_best (di_lastSeen d) ('''', None) (ord (di_online d))) else '''');
          search = (if n = 1 then di_online d else di_ids d)
      in if best \<noteq> '''' then Inr best
         else case search of
                [] \<Rightarrow> Inl (Wrapped (''no castle agent registered for runner job '' @ runnerJob @ '' yet'')
                              ErrRunNotFound)
              | [i] \<Rightarrow> Inr i
              | _ \<Rightarrow> Inl (ErrMsg (''ambiguous castle agents for runner job '' @ runnerJob)))"

fun find_criteria_pages ::
  "'w fetch_agents \<Rightarrow> (string list \<Rightarrow> string list) \<Rightarrow> string \<Rightarrow> nat \<Rightarrow> discovery \<Rightarrow> string \<Rightarrow> 'w \<Rightarrow>
   (go_error + string) \<times> 'w" where
  "find_criteria_pages fetch ord runnerJob 0 d tok w =
     (Inl (ErrMsg (''agent discovery for runner job '' @ runnerJob @ '' did not conclude'')), w)"
| "find_criteria_pages fetch ord runnerJob (Suc n) d tok w =
     (case fetch default_page_size tok w of
        (Inl e, w1) \<Rightarrow> (Inl e, w1)
      | (Inr (agents, next), w1) \<Rightarrow>
          (let d1 = foldl (note_agent runnerJob) d agents
           in if next = '''' then (conclude_agents ord runnerJob d1, w1)
              else find_criteria_pages fetch ord runnerJob n d1 next w1))"

definition find_criteria_id ::
  "'w fetch_agents \<Rightarrow> (string list \<Rightarrow> string list) \<Rightarrow> string \<Rightarrow> 'w \<Rightarrow> (go_error + string) \<times> 'w" where
  "find_criteria_id fetch ord runnerJob w =
     find_criteria_pages fetch ord runnerJob max_discovery_pages empty_discovery '''' w"

section \<open>Run discovery\<close>

definition is_terminal_run_status :: "string \<Rightarrow> bool" where
  "is_terminal_run_status status \<longleftrightarrow>
     status = ''succeeded'' \<or> status = ''failed'' \<or> status = ''cancelled''"

definition newer_run :: "castle_run option \<Rightarrow> castle_run option \<Rightarrow> castle_run option" where
  "newer_run a b =
     (case a of None \<Rightarrow> b
      | Some x \<Rightarrow> (case b of None \<Rightarrow> a
                   | Some y \<Rightarrow> if ca_createdAt y > ca_createdAt x then b else a))"

record run_partition =
  rp_active :: "castle_run option"
  rp_terminal :: "castle_run option"
  rp_count :: nat

definition empty_partition :: run_partition where
  "empty_partition = \<lparr>rp_active = None, rp_terminal = None, rp_count = 0\<rparr>"

definition note_run :: "run_partition \<Rightarrow> castle_run \<Rightarrow> run_partition" where
  "note_run p run =
     (if is_terminal_run_status (ca_status run)
      then p\<lparr>rp_terminal := newer_run (rp_terminal p) (Some run)\<rparr>
      else p\<lparr>rp_count := rp_count p + 1, rp_active := newer_run (rp_active p) (Some run)\<rparr>)"

definition conclude_runs :: "string \<Rightarrow> run_partition \<Rightarrow> go_error + castle_run" where
  "conclude_runs criteriaID p =
     (if rp_count p > 1 then Inl (ErrMsg (''ambiguous castle runs for criteria '' @ criteriaID))
      else case rp_active p of
             Some r \<Rightarrow> Inr r
           | None \<Rightarrow> (case rp_terminal p of
                        Some r \<Rightarrow> Inr r
                      | None \<Rightarrow> Inl (Wrapped (''no castle run for criteria '' @ criteriaID @ '' yet'')
                                      ErrRunNotFound)))"

fun find_run_pages ::
  "'w fetch_runs \<Rightarrow> string \<Rightarrow> nat \<Rightarrow> run_partition \<Rightarrow> string \<Rightarrow> 'w \<Rightarrow> (go_error + castle_run) \<times> 'w" where
  "find_run_pages fetch criteriaID 0 p tok w =
     (Inl (ErrMsg (''run discovery for criteria '' @ criteriaID @ '' did not conclude'')), w)"
| "find_run_pages fetch criteriaID (Suc n) p tok w =
     (case fetch criteriaID default_page_size tok w of
        (Inl e, w1) \<Rightarrow> (Inl e, w1)
      | (Inr (runs, next), w1) \<Rightarrow>
          (let p1 = foldl note_run p runs
           in if next = '''' then (conclude_runs criteriaID p1, w1)
              else find_run_pages fetch criteriaID n p1 next w1))"

definition find_run_for_criteria ::
  "'w fetch_runs \<Rightarrow> string \<Rightarrow> 'w \<Rightarrow> (go_error + castle_run) \<times> 'w" where
  "find_run_for_criteria fetch criteriaID w =
     find_run_pages fetch criteriaID max_discovery_pages empty_partition '''' w"

definition find_run_by_runner ::
  "'w fetch_agents \<Rightarrow> 'w fetch_runs \<Rightarrow> (string list \<Rightarrow> string list) \<Rightarrow> string \<Rightarrow> 'w \<Rightarrow>
   (go_error + castle_run) \<times> 'w" where
  "find_run_by_runner agents runs ord runnerJob w =
     (case find_criteria_id agents ord runnerJob w of
        (Inl e, w1) \<Rightarrow> (Inl e, w1)
      | (Inr cid, w1) \<Rightarrow>
          (case find_run_for_criteria runs cid w1 of
             (Inl e, w2) \<Rightarrow>
               (Inl (Wrapped (''criteria '' @ cid @ '' (agent for runner job '' @ runnerJob @ '')'') e), w2)
           | (Inr run, w2) \<Rightarrow> (Inr run, w2)))"

section \<open>The run record\<close>

definition timestamp_or_zero :: "gotime option \<Rightarrow> gotime" where
  "timestamp_or_zero ts = (case ts of None \<Rightarrow> zero_time | Some t \<Rightarrow> t)"

definition run_record_from_get_run :: "castle_run \<Rightarrow> run_record" where
  "run_record_from_get_run run =
     \<lparr>rc_runID = ca_runID run, rc_workflowName = ca_workflowName run,
      rc_workflowHash = ca_workflowHash run, rc_failureReason = ca_failureReason run,
      rc_startedAt = timestamp_or_zero (ca_startedAt run),
      rc_endedAt = timestamp_or_zero (ca_endedAt run)\<rparr>"

definition terminal_from_run :: "castle_run \<Rightarrow> castle_terminal option" where
  "terminal_from_run run =
     (if \<not> is_terminal_run_status (ca_status run) then None
      else Some \<lparr>tm_success = (ca_status run = ''succeeded''), tm_finalState = '''',
                 tm_reason = ca_failureReason run, tm_at = timestamp_or_zero (ca_endedAt run)\<rparr>)"

section \<open>The observation\<close>

record 'w castle_server =
  sv_list_agents :: "'w fetch_agents"
  sv_list_runs :: "'w fetch_runs"
  sv_list_events :: "'w fetch_events"
  sv_get_run :: "string \<Rightarrow> 'w \<Rightarrow> (go_error + castle_run) \<times> 'w"

definition observe_run ::
  "'w castle_server \<Rightarrow> castle_client \<Rightarrow> string \<Rightarrow> 'w \<Rightarrow>
   ((go_error + observation) \<times> castle_client) \<times> 'w" where
  "observe_run sv c runID w =
     (case drain (sv_list_events sv) runID c w of
        ((Inl e, c1), w1) \<Rightarrow>
          ((Inl (Wrapped (''draining castle events for run '' @ runID) e), c1), w1)
      | ((Inr (terminal, lifecycle, lastProgress), c1), w1) \<Rightarrow>
          (let obs = zero_observation
                 \<lparr>ob_runID := runID, ob_lifecycle := lifecycle, ob_terminal := terminal,
                  ob_lastProgress := lastProgress, ob_workflowGraphs := cl_graphs c1 runID,
                  ob_steps := cl_steps c1 runID\<rparr>
           in case sv_get_run sv runID w1 of
                (Inl e, w2) \<Rightarrow>
                  (case terminal of
                     None \<Rightarrow> ((Inl (Wrapped (''getting castle run '' @ runID) e), c1), w2)
                   | Some _ \<Rightarrow> ((Inr obs, c1), w2))
              | (Inr run, w2) \<Rightarrow>
                  (let rec0 = run_record_from_get_run run;
                       rec = (if rc_runID rec0 = '''' then rec0\<lparr>rc_runID := runID\<rparr> else rec0);
                       c2 = c1\<lparr>cl_runRecords := (cl_runRecords c1)(runID := Some rec)\<rparr>;
                       obs2 = obs\<lparr>ob_runStatus := ca_status run, ob_runRecord := Some rec\<rparr>
                   in case (terminal, terminal_from_run run) of
                        (None, Some t) \<Rightarrow> ((Inr (obs2\<lparr>ob_terminal := Some t\<rparr>), c2), w2)
                      | _ \<Rightarrow> ((Inr obs2, c2), w2))))"

definition observe ::
  "'w castle_server \<Rightarrow> (string list \<Rightarrow> string list) \<Rightarrow> castle_client \<Rightarrow> string \<Rightarrow> string \<Rightarrow> 'w \<Rightarrow>
   ((go_error + observation) \<times> castle_client) \<times> 'w" where
  "observe sv ord c runnerJob knownRunID w =
     (if client_disabled (Some c) then ((Inr zero_observation, c), w)
      else if runnerJob = '''' \<and> knownRunID = ''''
      then ((Inl (ErrMsg ''castle observation requires a known run id or a runner job name''), c), w)
      else if knownRunID \<noteq> '''' then observe_run sv c knownRunID w
      else case find_run_by_runner (sv_list_agents sv) (sv_list_runs sv) ord runnerJob w of
             (Inl e, w1) \<Rightarrow>
               ((Inl (Wrapped (''discovering castle run for runner job '' @ runnerJob) e), c), w1)
           | (Inr run, w1) \<Rightarrow> observe_run sv c (ca_runID run) w1)"

section \<open>Reading a paged listing\<close>

text \<open>
  The whole listing a page loop reads: its items, or the server's error, or nothing when the page
  budget runs out first. Both discoveries conclude from the whole listing or not at all.
\<close>

fun read_pages ::
  "(string \<Rightarrow> 'w \<Rightarrow> (go_error + 'a list \<times> string) \<times> 'w) \<Rightarrow> nat \<Rightarrow> string \<Rightarrow> 'w \<Rightarrow>
   (go_error option + 'a list) \<times> 'w" where
  "read_pages fetch 0 tok w = (Inl None, w)"
| "read_pages fetch (Suc n) tok w =
     (case fetch tok w of
        (Inl e, w1) \<Rightarrow> (Inl (Some e), w1)
      | (Inr (items, next), w1) \<Rightarrow>
          (if next = '''' then (Inr items, w1)
           else case read_pages fetch n next w1 of
                  (Inr rest, w2) \<Rightarrow> (Inr (items @ rest), w2)
                | (Inl e, w2) \<Rightarrow> (Inl e, w2)))"

lemma find_run_pages_read:
  "find_run_pages fetch cid n p tok w =
     (case read_pages (fetch cid default_page_size) n tok w of
        (Inr runs, w') \<Rightarrow> (conclude_runs cid (foldl note_run p runs), w')
      | (Inl (Some e), w') \<Rightarrow> (Inl e, w')
      | (Inl None, w') \<Rightarrow>
          (Inl (ErrMsg (''run discovery for criteria '' @ cid @ '' did not conclude'')), w'))"
  by (induction n arbitrary: p tok w)
    (auto simp: Let_def split: prod.splits sum.splits option.splits)

lemma find_criteria_pages_read:
  "find_criteria_pages fetch ord job n d tok w =
     (case read_pages (fetch default_page_size) n tok w of
        (Inr agents, w') \<Rightarrow> (conclude_agents ord job (foldl (note_agent job) d agents), w')
      | (Inl (Some e), w') \<Rightarrow> (Inl e, w')
      | (Inl None, w') \<Rightarrow>
          (Inl (ErrMsg (''agent discovery for runner job '' @ job @ '' did not conclude'')), w'))"
  by (induction n arbitrary: d tok w)
    (auto simp: Let_def split: prod.splits sum.splits option.splits)

section \<open>What the folds collect\<close>

definition active_runs :: "castle_run list \<Rightarrow> castle_run list" where
  "active_runs runs = filter (\<lambda>r. \<not> is_terminal_run_status (ca_status r)) runs"

definition newest_of :: "castle_run option \<Rightarrow> castle_run list \<Rightarrow> bool" where
  "newest_of best runs \<longleftrightarrow>
     (case best of None \<Rightarrow> runs = []
      | Some b \<Rightarrow> b \<in> set runs \<and> (\<forall>r \<in> set runs. ca_createdAt r \<le> ca_createdAt b))"

lemma newer_run_newest: "newest_of best runs \<Longrightarrow> newest_of (newer_run best (Some r)) (runs @ [r])"
  by (auto simp: newest_of_def newer_run_def split: option.splits)

lemma note_run_partition:
  "let p = foldl note_run empty_partition runs
   in rp_count p = length (active_runs runs) \<and> newest_of (rp_active p) (active_runs runs) \<and>
      newest_of (rp_terminal p) (filter (\<lambda>r. is_terminal_run_status (ca_status r)) runs)"
proof (induction runs rule: rev_induct)
  case Nil
  then show ?case by (simp add: empty_partition_def active_runs_def newest_of_def)
next
  case (snoc r runs)
  then show ?case
    by (auto simp: Let_def note_run_def active_runs_def intro: newer_run_newest)
qed

definition agent_matches :: "string \<Rightarrow> castle_agent \<Rightarrow> bool" where
  "agent_matches job a \<longleftrightarrow>
     (ag_name a = job \<or> has_prefix (ag_name a) (job @ ''-'')) \<and> ag_criteriaID a \<noteq> ''''"

definition seen_is_max :: "int option \<Rightarrow> int set \<Rightarrow> bool" where
  "seen_is_max t ts \<longleftrightarrow> (case t of None \<Rightarrow> ts = {} | Some m \<Rightarrow> m \<in> ts \<and> (\<forall>x \<in> ts. x \<le> m))"

definition collected :: "string \<Rightarrow> castle_agent list \<Rightarrow> discovery \<Rightarrow> bool" where
  "collected job agents d \<longleftrightarrow>
     distinct (di_ids d) \<and> distinct (di_online d) \<and>
     set (di_ids d) = ag_criteriaID ` {a \<in> set agents. agent_matches job a} \<and>
     set (di_online d) =
       ag_criteriaID ` {a \<in> set agents. agent_matches job a \<and> ag_status a = ''online''} \<and>
     (\<forall>i. seen_is_max (di_lastSeen d i)
        ((\<lambda>a. seen_key (ag_lastSeen a)) ` {a \<in> set agents. agent_matches job a \<and> ag_criteriaID a = i}))"

lemma seen_is_max_insert:
  "seen_is_max old ts \<Longrightarrow> seen_is_max (if newer_seen t old then Some t else old) (insert t ts)"
  by (auto simp: seen_is_max_def newer_seen_def split: option.splits)

lemma filter_snoc_sets:
  "{a \<in> set (as @ [b]). P a} = (if P b then insert b {a \<in> set as. P a} else {a \<in> set as. P a})"
  by auto

lemma note_agent_collects:
  assumes "collected job agents d"
  shows "collected job (agents @ [a]) (note_agent job d a)"
proof (cases "agent_matches job a")
  case False
  then have "note_agent job d a = d" by (auto simp: note_agent_def agent_matches_def Let_def)
  moreover have "{x \<in> set (agents @ [a]). agent_matches job x \<and> Q x} =
      {x \<in> set agents. agent_matches job x \<and> Q x}" for Q using False by auto
  moreover have "{x \<in> set (agents @ [a]). agent_matches job x} =
      {x \<in> set agents. agent_matches job x}" using False by auto
  ultimately show ?thesis using assms by (simp only: collected_def simp_thms)
next
  case True
  let ?i = "ag_criteriaID a" and ?t = "seen_key (ag_lastSeen a)"
  have na: "note_agent job d a = \<lparr>di_ids = List.insert ?i (di_ids d),
      di_online = (if ag_status a = ''online'' then List.insert ?i (di_online d) else di_online d),
      di_lastSeen = (if newer_seen ?t (di_lastSeen d ?i)
                     then (di_lastSeen d)(?i \<mapsto> ?t) else di_lastSeen d)\<rparr>"
    using True by (auto simp: note_agent_def agent_matches_def Let_def)
  have seen: "seen_is_max (di_lastSeen (note_agent job d a) i)
      ((\<lambda>a. seen_key (ag_lastSeen a)) `
        {x \<in> set (agents @ [a]). agent_matches job x \<and> ag_criteriaID x = i})" for i
  proof -
    let ?S = "(\<lambda>a. seen_key (ag_lastSeen a)) ` {x \<in> set agents. agent_matches job x \<and> ag_criteriaID x = i}"
    have old: "seen_is_max (di_lastSeen d i) ?S" using assms by (simp add: collected_def)
    show ?thesis
    proof (cases "i = ?i")
      case True
      have "seen_is_max (if newer_seen ?t (di_lastSeen d i) then Some ?t else di_lastSeen d i)
          (insert ?t ?S)"
        using old by (rule seen_is_max_insert)
      then show ?thesis using True \<open>agent_matches job a\<close>
        by (simp only: filter_snoc_sets na) (auto split: if_splits)
    next
      case False
      with old show ?thesis by (simp only: filter_snoc_sets na) auto
    qed
  qed
  show ?thesis
    using assms True seen
    by (simp only: collected_def filter_snoc_sets na) auto
qed

lemma note_agents_collected: "collected job agents (foldl (note_agent job) empty_discovery agents)"
proof (induction agents rule: rev_induct)
  case Nil
  then show ?case by (simp add: collected_def empty_discovery_def seen_is_max_def)
next
  case (snoc a agents)
  then show ?case by (simp add: note_agent_collects)
qed

lemma pick_best_max:
  assumes "\<forall>i \<in> set xs. seen i \<noteq> None" and "b = '''' \<and> bs = None \<or> (\<exists>t. seen b = Some t \<and> bs = Some t)"
    and "xs \<noteq> [] \<or> bs \<noteq> None"
  shows "\<exists>i t. pick_best seen (b, bs) xs = (i, Some t) \<and> seen i = Some t \<and>
    (i \<in> set xs \<or> (i = b \<and> bs = Some t)) \<and>
    (\<forall>j \<in> set xs. \<forall>u. seen j = Some u \<longrightarrow> u \<le> t) \<and> (\<forall>u. bs = Some u \<longrightarrow> u \<le> t)"
  using assms
proof (induction xs arbitrary: b bs)
  case (Cons x xs)
  from Cons.prems(1) obtain t where t: "seen x = Some t" by auto
  show ?case
  proof (cases "newer_seen t bs")
    case True
    have "\<exists>i m. pick_best seen (x, Some t) xs = (i, Some m) \<and> seen i = Some m \<and>
        (i \<in> set xs \<or> (i = x \<and> Some t = Some m)) \<and>
        (\<forall>j \<in> set xs. \<forall>u. seen j = Some u \<longrightarrow> u \<le> m) \<and> (\<forall>u. Some t = Some u \<longrightarrow> u \<le> m)"
      using Cons.prems(1) t by (intro Cons.IH) auto
    then obtain i m where im: "pick_best seen (x, Some t) xs = (i, Some m)" "seen i = Some m"
      "i \<in> set xs \<or> i = x" "\<forall>j \<in> set xs. \<forall>u. seen j = Some u \<longrightarrow> u \<le> m" "t \<le> m"
      by auto
    moreover have "\<forall>u. bs = Some u \<longrightarrow> u \<le> m"
      using True im(5) by (auto simp: newer_seen_def)
    ultimately show ?thesis using True t by auto
  next
    case False
    then obtain u where u: "bs = Some u" "t \<le> u" by (auto simp: newer_seen_def split: option.splits)
    have "\<exists>i m. pick_best seen (b, bs) xs = (i, Some m) \<and> seen i = Some m \<and>
        (i \<in> set xs \<or> (i = b \<and> bs = Some m)) \<and>
        (\<forall>j \<in> set xs. \<forall>u. seen j = Some u \<longrightarrow> u \<le> m) \<and> (\<forall>u. bs = Some u \<longrightarrow> u \<le> m)"
      using Cons.prems u by (intro Cons.IH) auto
    then obtain i m where im: "pick_best seen (b, bs) xs = (i, Some m)" "seen i = Some m"
      "i \<in> set xs \<or> (i = b \<and> bs = Some m)" "\<forall>j \<in> set xs. \<forall>u. seen j = Some u \<longrightarrow> u \<le> m"
      "\<forall>u. bs = Some u \<longrightarrow> u \<le> m" by blast
    have "pick_best seen (b, bs) (x # xs) = (i, Some m)" using im(1) t False by simp
    moreover have "t \<le> m" using u im(5) by auto
    ultimately show ?thesis using im t by (intro exI [of _ i] exI [of _ m]) auto
  qed
qed auto

lemma conclude_runs_spec:
  "case conclude_runs cid (foldl note_run empty_partition runs) of
     Inr run \<Rightarrow> run \<in> set runs \<and>
       (if active_runs runs \<noteq> [] then active_runs runs = [run]
        else \<forall>r \<in> set runs. ca_createdAt r \<le> ca_createdAt run)
   | Inl e \<Rightarrow> if err_is e ErrRunNotFound then runs = [] else length (active_runs runs) > 1"
proof -
  let ?p = "foldl note_run empty_partition runs"
  let ?t = "filter (\<lambda>r. is_terminal_run_status (ca_status r)) runs"
  have p: "rp_count ?p = length (active_runs runs)" "newest_of (rp_active ?p) (active_runs runs)"
    "newest_of (rp_terminal ?p) ?t"
    using note_run_partition [of runs] by (simp_all add: Let_def)
  consider (many) "length (active_runs runs) > 1" | (one) run where "active_runs runs = [run]"
    | (none) "active_runs runs = []"
    by (cases "active_runs runs" rule: remdups_adj.cases) auto
  then show ?thesis
  proof cases
    case many
    then show ?thesis by (simp add: conclude_runs_def p(1) err_is_def)
  next
    case one
    then have "rp_active ?p = Some run"
      using p(2) by (auto simp: newest_of_def split: option.splits)
    moreover have "run \<in> set runs"
    proof -
      have "run \<in> set (active_runs runs)" using one by simp
      then show ?thesis by (simp add: active_runs_def)
    qed
    ultimately show ?thesis using one by (simp add: conclude_runs_def p(1))
  next
    case none
    then have all: "?t = runs" by (simp add: active_runs_def filter_empty_conv)
    from none p(2) have "rp_active ?p = None"
      by (auto simp: newest_of_def split: option.splits)
    with none p(3) all show ?thesis
      by (auto simp: conclude_runs_def p(1) newest_of_def err_is_def split: option.splits)
  qed
qed

lemma conclude_agents_spec:
  assumes "collected job agents d" and "\<And>xs. set (ord xs) = set xs"
    and "conclude_agents ord job d = Inr cid"
  shows "\<exists>a \<in> set agents. agent_matches job a \<and> ag_criteriaID a = cid \<and>
      (\<forall>b \<in> set agents. agent_matches job b \<longrightarrow>
         ag_criteriaID b = cid \<or> (\<exists>x \<in> set agents. agent_matches job x \<and> ag_status x = ''online'' \<and>
                                    ag_criteriaID x = cid)) \<and>
      (\<forall>b \<in> set agents. agent_matches job b \<and> ag_status b = ''online'' \<longrightarrow>
         (\<exists>s \<in> set agents. agent_matches job s \<and> ag_criteriaID s = cid \<and>
            seen_key (ag_lastSeen b) \<le> seen_key (ag_lastSeen s)))"
proof -
  note col = assms(1) [unfolded collected_def]
  let ?M = "{a \<in> set agents. agent_matches job a}"
  let ?On = "{a \<in> set agents. agent_matches job a \<and> ag_status a = ''online''}"
  have seen_some: "di_lastSeen d (ag_criteriaID a) \<noteq> None" if "a \<in> ?M" for a
  proof -
    have "seen_is_max (di_lastSeen d (ag_criteriaID a)) ((\<lambda>x. seen_key (ag_lastSeen x)) `
        {x \<in> set agents. agent_matches job x \<and> ag_criteriaID x = ag_criteriaID a})"
      using col by blast
    then show ?thesis using that by (auto simp: seen_is_max_def split: option.splits)
  qed
  have seen_le: "\<exists>s \<in> set agents. agent_matches job s \<and> ag_criteriaID s = cid \<and> seen_key (ag_lastSeen s) = t"
    if "di_lastSeen d cid = Some t" for t
  proof -
    have "seen_is_max (di_lastSeen d cid) ((\<lambda>x. seen_key (ag_lastSeen x)) `
        {x \<in> set agents. agent_matches job x \<and> ag_criteriaID x = cid})"
      using col by blast
    then show ?thesis using that by (auto simp: seen_is_max_def)
  qed
  have seen_ge: "seen_key (ag_lastSeen b) \<le> t"
    if "di_lastSeen d (ag_criteriaID b) = Some t" "b \<in> ?M" for b t
  proof -
    have "seen_is_max (di_lastSeen d (ag_criteriaID b)) ((\<lambda>x. seen_key (ag_lastSeen x)) `
        {x \<in> set agents. agent_matches job x \<and> ag_criteriaID x = ag_criteriaID b})"
      using col by blast
    then show ?thesis using that by (auto simp: seen_is_max_def)
  qed
  consider (best) "length (di_online d) > 1"
      "cid = fst (pick_best (di_lastSeen d) ('''', None) (ord (di_online d)))"
    | (online) "di_online d = [cid]" | (any) "di_online d = []" "di_ids d = [cid]"
    | (odd) "length (di_online d) > 1"
      "fst (pick_best (di_lastSeen d) ('''', None) (ord (di_online d))) = ''''"
    using assms(3)
    by (cases "di_online d" rule: remdups_adj.cases)
      (auto simp: conclude_agents_def Let_def split: if_splits list.splits)
  then show ?thesis
  proof cases
    case best
    let ?xs = "ord (di_online d)"
    have ne: "?xs \<noteq> []" using best(1) assms(2) [of "di_online d"] by auto
    have "\<forall>i \<in> set ?xs. di_lastSeen d i \<noteq> None"
      using seen_some col assms(2) [of "di_online d"] by auto
    from pick_best_max [OF this, of "''''" None] ne obtain t where
      t: "di_lastSeen d cid = Some t" "cid \<in> set ?xs"
        "\<forall>j \<in> set ?xs. \<forall>u. di_lastSeen d j = Some u \<longrightarrow> u \<le> t"
      using best(2) by auto
    from t(2) obtain o1 where o1: "o1 \<in> ?On" "ag_criteriaID o1 = cid"
      using col assms(2) [of "di_online d"] by auto
    have "\<exists>s \<in> set agents. agent_matches job s \<and> ag_criteriaID s = cid \<and>
        seen_key (ag_lastSeen b) \<le> seen_key (ag_lastSeen s)" if b: "b \<in> ?On" for b
    proof -
      have "ag_criteriaID b \<in> set ?xs" using b col assms(2) [of "di_online d"] by auto
      moreover obtain u where "di_lastSeen d (ag_criteriaID b) = Some u"
        using seen_some [of b] b by auto
      ultimately have "seen_key (ag_lastSeen b) \<le> t"
        using t(3) seen_ge [of b u] b by fastforce
      then show ?thesis using seen_le [OF t(1)] by auto
    qed
    then show ?thesis using o1 by auto
  next
    case online
    then have "ag_criteriaID ` ?On = {cid}" using col by auto
    then obtain o1 where "o1 \<in> ?On" "ag_criteriaID o1 = cid" "\<forall>b \<in> ?On. ag_criteriaID b = cid"
      by (metis (no_types, lifting) imageE image_eqI singletonD singletonI)
    then show ?thesis by auto
  next
    case any
    then have "ag_criteriaID ` ?M = {cid}" "?On = {}" using col by auto
    then obtain a where "a \<in> ?M" "ag_criteriaID a = cid" "\<forall>b \<in> ?M. ag_criteriaID b = cid"
      by (metis (no_types, lifting) imageE image_eqI singletonD singletonI)
    then show ?thesis using \<open>?On = {}\<close> by auto
  next
    case odd
    let ?xs = "ord (di_online d)"
    have ne: "?xs \<noteq> []" using odd(1) assms(2) [of "di_online d"] by auto
    have "\<forall>i \<in> set ?xs. di_lastSeen d i \<noteq> None"
      using seen_some col assms(2) [of "di_online d"] by auto
    from pick_best_max [OF this, of "''''" None] ne odd(2) have "'''' \<in> set ?xs" by auto
    then have False using col assms(2) [of "di_online d"] by (auto simp: agent_matches_def)
    then show ?thesis ..
  qed
qed

section \<open>Properties\<close>

text \<open>
  Run discovery never guesses: it answers only from the complete listing, with the single
  active run when there is one and the newest run when all are terminal; the sentinel "run not
  found" is reserved for the empty listing, and two or more active runs are an error.
\<close>

theorem run_discovery_unambiguous:
  "case read_pages (fetch cid default_page_size) max_discovery_pages '''' w of
     (Inl failure, w') \<Rightarrow> \<exists>e. find_run_for_criteria fetch cid w = (Inl e, w')
   | (Inr runs, w') \<Rightarrow>
       (case find_run_for_criteria fetch cid w of (res, w'') \<Rightarrow> w'' = w' \<and>
          (case res of
             Inr run \<Rightarrow> run \<in> set runs \<and>
               (if active_runs runs \<noteq> [] then active_runs runs = [run]
                else \<forall>r \<in> set runs. ca_createdAt r \<le> ca_createdAt run)
           | Inl e \<Rightarrow> if err_is e ErrRunNotFound then runs = [] else length (active_runs runs) > 1))"
proof (cases "read_pages (fetch cid default_page_size) max_discovery_pages '''' w")
  case (Pair res w')
  show ?thesis
  proof (cases res)
    case (Inl failure)
    with Pair show ?thesis
      by (auto simp: find_run_for_criteria_def find_run_pages_read split: option.splits)
  next
    case (Inr runs)
    from Pair Inr conclude_runs_spec [where cid = cid and runs = runs] show ?thesis
      by (simp add: find_run_for_criteria_def find_run_pages_read)
  qed
qed

definition sample_castle_run :: "string \<Rightarrow> string \<Rightarrow> int \<Rightarrow> castle_run" where
  "sample_castle_run rid status t = \<lparr>ca_runID = rid, ca_status = status, ca_workflowName = ''wf'',
     ca_workflowHash = ''h'', ca_failureReason = '''', ca_createdAt = t, ca_startedAt = None,
     ca_endedAt = None\<rparr>"

definition run_table :: "castle_run list \<Rightarrow> nat fetch_runs" where
  "run_table rs = (\<lambda>cid limit tok w. (Inr (rs, ''''), Suc w))"

theorem run_discovery_unambiguous_witness:
  "case find_run_for_criteria (run_table [sample_castle_run ''a'' ''failed'' 1,
      sample_castle_run ''b'' ''running'' 0]) ''c'' 0 of
     (Inr run, w') \<Rightarrow> active_runs [sample_castle_run ''a'' ''failed'' 1,
      sample_castle_run ''b'' ''running'' 0] = [run]
   | (Inl e, w') \<Rightarrow> False"
proof -
  let ?rs = "[sample_castle_run ''a'' ''failed'' 1, sample_castle_run ''b'' ''running'' 0]"
  have act: "active_runs ?rs = [sample_castle_run ''b'' ''running'' 0]"
    by (simp add: active_runs_def sample_castle_run_def is_terminal_run_status_def)
  have pages: "max_discovery_pages = Suc 9" by (simp add: max_discovery_pages_def)
  have "read_pages (run_table ?rs ''c'' default_page_size) (Suc 9) '''' 0 = (Inr ?rs, 1)"
    by (simp only: read_pages.simps) (simp add: run_table_def)
  then show ?thesis
    using run_discovery_unambiguous [of "run_table ?rs" "''c''" 0] act unfolding pages
    by (auto split: prod.splits sum.splits if_splits)
qed

text \<open>
  Agent discovery answers only from the complete agent table, with the criteria id of an agent
  of this job: an id of an online agent whenever the job's agents disagree, and one at least as
  recently seen as every online agent of the job.
\<close>

theorem agent_discovery_prefers_online:
  assumes "\<And>xs. set (ord xs) = set xs" and "find_criteria_id fetch ord job w = (Inr cid, w')"
  shows "\<exists>agents. read_pages (fetch default_page_size) max_discovery_pages '''' w = (Inr agents, w') \<and>
    (\<exists>a \<in> set agents. agent_matches job a \<and> ag_criteriaID a = cid \<and>
      (\<forall>b \<in> set agents. agent_matches job b \<longrightarrow>
         ag_criteriaID b = cid \<or> (\<exists>x \<in> set agents. agent_matches job x \<and> ag_status x = ''online'' \<and>
                                    ag_criteriaID x = cid)) \<and>
      (\<forall>b \<in> set agents. agent_matches job b \<and> ag_status b = ''online'' \<longrightarrow>
         (\<exists>s \<in> set agents. agent_matches job s \<and> ag_criteriaID s = cid \<and>
            seen_key (ag_lastSeen b) \<le> seen_key (ag_lastSeen s))))"
proof -
  obtain agents where
    "read_pages (fetch default_page_size) max_discovery_pages '''' w = (Inr agents, w')"
    "conclude_agents ord job (foldl (note_agent job) empty_discovery agents) = Inr cid"
    using assms(2) unfolding find_criteria_id_def find_criteria_pages_read
    by (auto split: prod.splits sum.splits option.splits)
  with conclude_agents_spec [OF note_agents_collected assms(1)] show ?thesis by blast
qed

definition agent_table :: "castle_agent list \<Rightarrow> nat fetch_agents" where
  "agent_table as = (\<lambda>limit tok w. (Inr (as, ''''), Suc w))"

definition restarted_agents :: "castle_agent list" where
  "restarted_agents =
     [\<lparr>ag_name = ''job-x1'', ag_criteriaID = ''old'', ag_status = ''offline'', ag_lastSeen = 9 * second\<rparr>,
      \<lparr>ag_name = ''job-x2'', ag_criteriaID = ''new'', ag_status = ''online'', ag_lastSeen = 5 * second\<rparr>]"

theorem agent_discovery_prefers_online_witness:
  "find_criteria_id (agent_table restarted_agents) rev ''job'' 0 = (Inr ''new'', 1) \<and>
   (\<exists>agents. read_pages (agent_table restarted_agents default_page_size) max_discovery_pages '''' 0 =
      (Inr agents, 1 :: nat))"
proof -
  have pages: "max_discovery_pages = Suc 9" by (simp add: max_discovery_pages_def)
  have "find_criteria_id (agent_table restarted_agents) rev ''job'' 0 = (Inr ''new'', 1)"
    unfolding find_criteria_id_def pages
    by (simp only: find_criteria_pages.simps)
      (simp add: agent_table_def restarted_agents_def note_agent_def empty_discovery_def
        conclude_agents_def newer_seen_def has_prefix_def Let_def)
  with agent_discovery_prefers_online [OF _ this] show ?thesis by auto
qed

lemma observe_run_ok:
  assumes "observe_run sv c rid w = ((Inr obs, c'), w')"
  shows "ob_runID obs = rid \<and> (ob_terminal obs = None \<longrightarrow>
    (\<exists>w0 run. sv_get_run sv rid w0 = (Inr run, w') \<and>
       \<not> is_terminal_run_status (ca_status run) \<and> ob_runStatus obs = ca_status run))"
proof -
  obtain a c1 w1 where d: "drain (sv_list_events sv) rid c w = ((a, c1), w1)" by (metis surj_pair)
  obtain t lc p where a: "a = Inr (t, lc, p)"
    using assms d by (cases a) (auto simp: observe_run_def)
  obtain b w2 where g: "sv_get_run sv rid w1 = (b, w2)" by fastforce
  have "ob_runID obs = rid \<and> (ob_terminal obs = None \<longrightarrow>
      (\<exists>run. b = Inr run \<and> w2 = w' \<and> \<not> is_terminal_run_status (ca_status run) \<and>
         ob_runStatus obs = ca_status run))"
    using assms d a g
    by (cases b; cases t)
      (auto simp: observe_run_def zero_observation_def terminal_from_run_def Let_def
        split: option.splits if_splits)
  with g show ?thesis by blast
qed

text \<open>
  An observation without a terminal is authoritative: the run record was read in this very
  observation, it is not in a terminal status, and the reported status is the record's. A castle
  outage, an unregistered runner or an inconclusive discovery is never reported as a live run.
\<close>

theorem observe_authoritative:
  assumes "observe sv ord c runnerJob knownRunID w = ((Inr obs, c'), w')"
    and "\<not> client_disabled (Some c)"
  shows "(knownRunID \<noteq> '''' \<longrightarrow> ob_runID obs = knownRunID) \<and>
    (ob_terminal obs = None \<longrightarrow>
      (\<exists>w0 run. sv_get_run sv (ob_runID obs) w0 = (Inr run, w') \<and>
         \<not> is_terminal_run_status (ca_status run) \<and> ob_runStatus obs = ca_status run))"
proof -
  obtain rid w1 where r: "observe_run sv c rid w1 = ((Inr obs, c'), w')"
    and "knownRunID \<noteq> '''' \<longrightarrow> rid = knownRunID"
    using assms by (auto simp: observe_def split: if_splits prod.splits sum.splits)
  with observe_run_ok [OF r] show ?thesis by auto
qed

definition sample_server :: "nat castle_server" where
  "sample_server = \<lparr>sv_list_agents = agent_table restarted_agents, sv_list_runs = run_table [],
     sv_list_events = (\<lambda>r since limit w. (Inr ([], since), w)),
     sv_get_run = (\<lambda>r w. (Inr (sample_castle_run r ''paused'' 1), w))\<rparr>"

theorem observe_authoritative_witness:
  "\<exists>obs c'. observe sample_server rev (new_client ''castle'') '''' ''r'' 0 = ((Inr obs, c'), 0) \<and>
     ob_terminal obs = None \<and> ob_runStatus obs = ''paused''"
proof -
  have pages: "max_event_pages = Suc 49" by (simp add: max_event_pages_def)
  have "\<exists>c'. drain (\<lambda>r since limit w. (Inr ([], since), w)) ''r'' (new_client ''castle'') 0 =
      ((Inr (None, [], zero_time), c'), 0 :: nat)"
    unfolding drain_def pages
    by (simp only: drain_pages.simps) (simp add: new_client_def default_page_size_def)
  then obtain c' where d: "drain (\<lambda>r since limit w. (Inr ([], since), w)) ''r'' (new_client ''castle'') 0 =
      ((Inr (None, [], zero_time), c'), 0 :: nat)" ..
  have en: "\<not> client_disabled (Some (new_client ''castle''))"
    by (simp add: client_disabled_def new_client_def)
  have "\<exists>obs c'. observe sample_server rev (new_client ''castle'') '''' ''r'' 0 = ((Inr obs, c'), 0) \<and>
      ob_terminal obs = None"
    using d en
    by (simp add: observe_def observe_run_def sample_server_def terminal_from_run_def
        sample_castle_run_def is_terminal_run_status_def zero_observation_def Let_def)
  then obtain obs c'' where o1: "observe sample_server rev (new_client ''castle'') '''' ''r'' 0 =
      ((Inr obs, c''), 0)" "ob_terminal obs = None" by blast
  from observe_authoritative [OF o1(1) en] o1 show ?thesis
    by (auto simp: sample_server_def sample_castle_run_def)
qed

end
