(* ===== verification/CastleDrain.thy ===== *)
theory CastleDrain
  imports CastleObserve
begin

text \<open>
  What the incremental drain of \<open>CastleClient\<close> promises. The abstract state is the
  \<open>history\<close> of one run, folded from its event log from the beginning; the client's six per-run maps
  and the locals of a drain implement it (\<open>view\<close>, \<open>client_view\<close>). The refinement lemma
  carries one fold step; the properties lift it through pages, repeated drains and failures.
\<close>

section \<open>The abstract history of a run\<close>

record history =
  hi_scopes :: "string \<Rightarrow> string"
  hi_lifecycle :: "lifecycle_event list"
  hi_terminal :: "castle_terminal option"
  hi_graphs :: string
  hi_steps :: "step_record list"
  hi_progress :: gotime
  hi_seq :: nat

definition history_start :: history where
  "history_start = \<lparr>hi_scopes = (\<lambda>_. ''''), hi_lifecycle = [], hi_terminal = None,
     hi_graphs = '''', hi_steps = [], hi_progress = zero_time, hi_seq = 0\<rparr>"

definition rekey_release :: "(string \<Rightarrow> string) \<Rightarrow> lifecycle_event \<Rightarrow> lifecycle_event" where
  "rekey_release scopes ev =
     (if is_release ev \<and> scopes (le_scopeID ev) \<notin> {'''', le_adapterName ev}
      then ev\<lparr>le_adapterName := scopes (le_scopeID ev)\<rparr> else ev)"

definition history_lifecycle :: "wire_envelope \<Rightarrow> history \<Rightarrow> history" where
  "history_lifecycle env h =
     (case lifecycle_from_envelope (Some env) of
        None \<Rightarrow> h
      | Some ev0 \<Rightarrow>
          (let ev = rekey_release (hi_scopes h) ev0
           in h\<lparr>hi_lifecycle := hi_lifecycle h @ [ev],
                hi_scopes := (if is_provision_wanted ev
                              then (hi_scopes h)(le_scopeID ev := le_adapterName ev)
                              else hi_scopes h)\<rparr>))"

definition history_step :: "history \<Rightarrow> wire_envelope \<Rightarrow> history" where
  "history_step h env =
     history_lifecycle env
       (h\<lparr>hi_progress := fold_progress env (hi_progress h),
          hi_terminal := (case terminal_from_envelope (Some env) of
                            Some t \<Rightarrow> Some t | None \<Rightarrow> hi_terminal h),
          hi_steps := fold_steps env (hi_steps h),
          hi_graphs := fold_graphs env (hi_graphs h),
          hi_seq := max (hi_seq h) (en_seq env)\<rparr>)"

definition replay :: "wire_envelope list \<Rightarrow> history" where
  "replay log = foldl history_step history_start log"

section \<open>The client implements it\<close>

definition view :: "string \<Rightarrow> castle_client \<times> drain_locals \<Rightarrow> history" where
  "view r st = (case st of (c, l) \<Rightarrow>
     \<lparr>hi_scopes = cl_scopes c r, hi_lifecycle = cl_lifecycle c r, hi_terminal = dl_terminal l,
      hi_graphs = cl_graphs c r, hi_steps = cl_steps c r, hi_progress = dl_lastProgress l,
      hi_seq = dl_since l\<rparr>)"

definition client_view :: "string \<Rightarrow> castle_client \<Rightarrow> history" where
  "client_view r c =
     view r (c, \<lparr>dl_since = cl_cursors c r, dl_terminal = cl_terminals c r,
                 dl_lastProgress = cl_progress c r\<rparr>)"

definition in_sync :: "string \<Rightarrow> castle_client \<times> drain_locals \<Rightarrow> bool" where
  "in_sync r st = (case st of (c, l) \<Rightarrow> dl_terminal l = cl_terminals c r)"

text \<open>What of the client a drain of run \<open>r\<close> must not touch: the other runs and the two stores
  written only when the drain ends.\<close>

definition untouched :: "string \<Rightarrow> castle_client \<Rightarrow> castle_client \<Rightarrow> bool" where
  "untouched r c c' \<longleftrightarrow>
     cl_addr c' = cl_addr c \<and> cl_runRecords c' = cl_runRecords c \<and>
     (\<forall>x. x \<noteq> r \<longrightarrow> client_view x c' = client_view x c)"

lemmas view_simps = view_def client_view_def in_sync_def

lemma rekey_release_kind [simp]:
  "is_provision_wanted (rekey_release s ev) = is_provision_wanted ev"
  "is_release (rekey_release s ev) = is_release ev"
  "le_scopeID (rekey_release s ev) = le_scopeID ev"
  by (auto simp: rekey_release_def is_provision_wanted_def is_release_def)

lemma resolve_release_rekey:
  "resolve_release_adapter c r ev = rekey_release (cl_scopes c r) ev"
  by (auto simp: resolve_release_adapter_def rekey_release_def Let_def)

lemma fold_lifecycle_view:
  "view r (fold_lifecycle r env c, l) = history_lifecycle env (view r (c, l))"
  by (auto simp: view_def fold_lifecycle_def history_lifecycle_def resolve_release_rekey
      record_scope_def Let_def split: option.splits)

lemma fold_lifecycle_frame:
  "cl_terminals (fold_lifecycle r env c) = cl_terminals c"
  "cl_cursors (fold_lifecycle r env c) = cl_cursors c"
  "cl_progress (fold_lifecycle r env c) = cl_progress c"
  by (auto simp: fold_lifecycle_def record_scope_def Let_def split: option.splits)

lemma fold_lifecycle_untouched: "untouched r c (fold_lifecycle r env c)"
  by (auto simp: untouched_def view_simps fold_lifecycle_def record_scope_def Let_def
      split: option.splits)

lemma untouched_refl [simp]: "untouched r c c"
  by (simp add: untouched_def)

lemma untouched_trans: "untouched r a b \<Longrightarrow> untouched r b c \<Longrightarrow> untouched r a c"
  by (simp add: untouched_def)

lemma fold_envelope_refines:
  assumes "in_sync r (c, l)" and "fold_envelope r (c, l) env = (c', l')"
  shows "view r (c', l') = history_step (view r (c, l)) env" and "in_sync r (c', l')"
    and "untouched r c c'" and "cl_cursors c' = cl_cursors c" and "cl_progress c' = cl_progress c"
proof -
  define c1 where "c1 = (case terminal_from_envelope (Some env) of
      Some t \<Rightarrow> c\<lparr>cl_terminals := (cl_terminals c)(r := Some t)\<rparr> | None \<Rightarrow> c)"
  define t1 where "t1 = (case terminal_from_envelope (Some env) of
      Some t \<Rightarrow> Some t | None \<Rightarrow> dl_terminal l)"
  define c3 where "c3 = c1\<lparr>cl_steps := (cl_steps c1)(r := fold_steps env (cl_steps c1 r)),
      cl_graphs := (cl_graphs c1)(r := fold_graphs env (cl_graphs c1 r))\<rparr>"
  have c': "c' = fold_lifecycle r env c3"
    and l': "l' = \<lparr>dl_since = max (dl_since l) (en_seq env), dl_terminal = t1,
      dl_lastProgress = fold_progress env (dl_lastProgress l)\<rparr>"
    using assms(2) by (auto simp: fold_envelope_def Let_def c1_def t1_def c3_def max_def
        split: option.splits prod.splits)
  have u3: "untouched r c c3"
    by (auto simp: untouched_def view_simps c3_def c1_def split: option.splits)
  show "view r (c', l') = history_step (view r (c, l)) env"
    unfolding c' l' fold_lifecycle_view
    by (rule arg_cong [where f = "history_lifecycle env", THEN trans, OF _ history_step_def [symmetric]])
      (auto simp: view_def c3_def c1_def t1_def split: option.splits)
  show "in_sync r (c', l')"
    using assms(1) by (auto simp: c' l' in_sync_def fold_lifecycle_frame c3_def c1_def t1_def
        split: option.splits)
  show "untouched r c c'"
    unfolding c' using u3 fold_lifecycle_untouched by (rule untouched_trans)
  show "cl_cursors c' = cl_cursors c" "cl_progress c' = cl_progress c"
    by (auto simp: c' fold_lifecycle_frame c3_def c1_def split: option.splits)
qed

lemma fold_envelopes_refine:
  assumes "in_sync r (c, l)" and "foldl (fold_envelope r) (c, l) evs = (c', l')"
  shows "view r (c', l') = foldl history_step (view r (c, l)) evs \<and> in_sync r (c', l') \<and>
    untouched r c c' \<and> cl_cursors c' = cl_cursors c \<and> cl_progress c' = cl_progress c"
  using assms
proof (induction evs arbitrary: c l)
  case (Cons e es)
  obtain c1 l1 where s: "fold_envelope r (c, l) e = (c1, l1)" by fastforce
  note step = fold_envelope_refines [OF Cons.prems(1) s]
  have rest: "foldl (fold_envelope r) (c1, l1) es = (c', l')" using Cons.prems(2) s by simp
  show ?case
    using Cons.IH [OF step(2) rest] step untouched_trans by (auto)
qed simp

section \<open>The page loop\<close>

text \<open>
  \<open>serves_log\<close> is the documented contract of \<open>ListRunEvents\<close>: the events with a sequence
  number above the bound, oldest first and at most \<open>limit\<close> of them, with a next bound that does
  not go beyond what was sent.
\<close>

definition newer_than :: "nat \<Rightarrow> wire_envelope list \<Rightarrow> wire_envelope list" where
  "newer_than s log = filter (\<lambda>e. en_seq e > s) log"

definition last_seq :: "nat \<Rightarrow> wire_envelope list \<Rightarrow> nat" where
  "last_seq s evs = foldl (\<lambda>m e. max m (en_seq e)) s evs"

definition serves_log :: "'w fetch_events \<Rightarrow> string \<Rightarrow> wire_envelope list \<Rightarrow> bool" where
  "serves_log fetch r log \<longleftrightarrow>
     (\<forall>since limit w. \<exists>next w'.
        fetch r since limit w = (Inr (take limit (newer_than since log), next), w') \<and>
        next \<le> last_seq since (take limit (newer_than since log)))"

definition log_ordered :: "wire_envelope list \<Rightarrow> bool" where
  "log_ordered log \<longleftrightarrow> sorted_wrt (<) (0 # map en_seq log)"

lemma last_seq_ge: "s \<le> last_seq s evs"
  unfolding last_seq_def
proof (induction evs arbitrary: s)
  case (Cons e es)
  have "s \<le> max s (en_seq e)" by simp
  also have "\<dots> \<le> foldl (\<lambda>m e. max m (en_seq e)) (max s (en_seq e)) es" by (rule Cons.IH)
  finally show ?case by simp
qed simp

lemma hi_seq_step: "hi_seq (history_step h e) = max (hi_seq h) (en_seq e)"
  by (auto simp: history_step_def history_lifecycle_def Let_def split: option.splits)

lemma hi_seq_foldl: "hi_seq (foldl history_step h evs) = last_seq (hi_seq h) evs"
  by (induction evs arbitrary: h) (auto simp: last_seq_def hi_seq_step)

lemma fold_progress_ge: "p \<le> fold_progress e p"
  by (auto simp: fold_progress_def split: option.splits)

lemma hi_progress_step: "hi_progress (history_step h e) = fold_progress e (hi_progress h)"
  by (auto simp: history_step_def history_lifecycle_def Let_def split: option.splits)

lemma hi_progress_mono: "hi_progress h \<le> hi_progress (foldl history_step h evs)"
proof (induction evs arbitrary: h)
  case (Cons e es)
  have "hi_progress h \<le> hi_progress (history_step h e)"
    by (simp add: hi_progress_step fold_progress_ge)
  also have "\<dots> \<le> hi_progress (foldl history_step (history_step h e) es)" by (rule Cons.IH)
  finally show ?case by simp
qed simp

lemma newer_than_split:
  assumes "log_ordered (es @ fs)"
  shows "newer_than (last_seq 0 es) (es @ fs) = fs"
proof -
  have "\<forall>e \<in> set es. en_seq e \<le> last_seq 0 es" for es :: "wire_envelope list"
  proof (induction es rule: rev_induct)
    case (snoc x xs)
    then show ?case by (auto simp: last_seq_def le_max_iff_disj)
  qed (simp add: last_seq_def)
  moreover have "\<forall>f \<in> set fs. last_seq 0 es < en_seq f"
    using assms
  proof (induction es rule: rev_induct)
    case Nil
    then show ?case by (auto simp: last_seq_def log_ordered_def)
  next
    case (snoc x xs)
    have "log_ordered (xs @ fs)" using snoc.prems by (auto simp: log_ordered_def sorted_wrt_append)
    then have "\<forall>f \<in> set fs. last_seq 0 xs < en_seq f" by (rule snoc.IH)
    moreover have "\<forall>f \<in> set fs. en_seq x < en_seq f"
      using snoc.prems by (auto simp: log_ordered_def sorted_wrt_append)
    ultimately show ?case by (auto simp: last_seq_def)
  qed
  ultimately have "filter (\<lambda>e. last_seq 0 es < en_seq e) es = []"
    and "filter (\<lambda>e. last_seq 0 es < en_seq e) fs = fs"
    by (auto simp: filter_empty_conv not_less filter_id_conv)
  then show ?thesis by (simp add: newer_than_def)
qed

lemma drain_pages_refines:
  assumes "serves_log fetch r log" and "log_ordered log" and "log = es @ fs"
    and "in_sync r (c, l)" and "dl_since l = last_seq 0 es"
    and "drain_pages fetch r n (c, l) w = ((err, c', l'), w')"
  shows "err = None \<and>
    view r (c', l') = foldl history_step (view r (c, l)) (take (n * default_page_size) fs) \<and>
    in_sync r (c', l') \<and> untouched r c c' \<and> cl_cursors c' = cl_cursors c \<and>
    cl_progress c' = cl_progress c"
  using assms(3-)
proof (induction n arbitrary: c l w es fs)
  case 0
  then show ?case by simp
next
  case (Suc n)
  let ?pg = "take default_page_size fs"
  note since = Suc.prems(3)
  have new: "newer_than (dl_since l) log = fs"
    unfolding since Suc.prems(1) by (rule newer_than_split) (use assms(2) Suc.prems(1) in simp)
  obtain nxt w1 where f: "fetch r (dl_since l) default_page_size w = (Inr (?pg, nxt), w1)"
      and nxt: "nxt \<le> last_seq (dl_since l) ?pg"
    using assms(1) new unfolding serves_log_def by metis
  obtain c1 l1 where fold: "foldl (fold_envelope r) (c, l) ?pg = (c1, l1)" by fastforce
  note ref = fold_envelopes_refine [OF Suc.prems(2) fold]
  have seq1: "dl_since l1 = last_seq (dl_since l) ?pg"
  proof -
    have "dl_since l1 = hi_seq (view r (c1, l1))" by (simp add: view_def)
    also have "\<dots> = last_seq (hi_seq (view r (c, l))) ?pg" using ref by (simp add: hi_seq_foldl)
    finally show ?thesis by (simp add: view_def)
  qed
  have since1: "dl_since l1 = last_seq 0 (es @ ?pg)"
    using seq1 since by (simp add: last_seq_def)
  have l2: "(if nxt > dl_since l1 then l1\<lparr>dl_since := nxt\<rparr> else l1) = l1"
    using nxt seq1 by simp
  have step: "drain_pages fetch r (Suc n) (c, l) w =
      (if length ?pg < default_page_size then ((None, c1, l1), w1)
       else drain_pages fetch r n (c1, l1) w1)"
    using f fold l2 by (simp add: Let_def)
  show ?case
  proof (cases "length fs < default_page_size")
    case True
    then have "take (Suc n * default_page_size) fs = ?pg" by simp
    with True step Suc.prems(4) ref show ?thesis by auto
  next
    case False
    have eq: "es @ fs = (es @ ?pg) @ drop default_page_size fs" by simp
    have "drain_pages fetch r n (c1, l1) w1 = ((err, c', l'), w')"
      using False step Suc.prems(4) by simp
    from Suc.IH [OF _ _ since1 this, of "drop default_page_size fs"] Suc.prems(1) ref
    have "err = None \<and> view r (c', l') = foldl history_step (view r (c1, l1))
        (take (n * default_page_size) (drop default_page_size fs)) \<and>
      in_sync r (c', l') \<and> untouched r c1 c' \<and> cl_cursors c' = cl_cursors c1 \<and>
      cl_progress c' = cl_progress c1"
      by simp
    moreover have "?pg @ take (n * default_page_size) (drop default_page_size fs) =
        take (Suc n * default_page_size) fs"
      by (simp add: take_add add.commute)
    ultimately show ?thesis using ref untouched_trans
      by (auto simp flip: foldl_append)
  qed
qed

lemma drain_refines:
  assumes "serves_log fetch r log" and "log_ordered log" and "log = es @ fs"
    and "cl_cursors c r = last_seq 0 es"
  obtains c' w' h where
    "drain fetch r c w = ((Inr (hi_terminal h, hi_lifecycle h, hi_progress h), c'), w')"
    and "h = foldl history_step (client_view r c) (take (max_event_pages * default_page_size) fs)"
    and "client_view r c' = h" and "untouched r c c'"
proof -
  let ?l = "\<lparr>dl_since = cl_cursors c r, dl_terminal = cl_terminals c r,
      dl_lastProgress = cl_progress c r\<rparr>"
  let ?h = "foldl history_step (client_view r c) (take (max_event_pages * default_page_size) fs)"
  obtain err c1 l1 w1 where pages:
    "drain_pages fetch r max_event_pages (c, ?l) w = ((err, c1, l1), w1)"
    by (metis surj_pair)
  have ref: "err = None" "view r (c1, l1) = ?h" "in_sync r (c1, l1)" "untouched r c c1"
    "cl_cursors c1 = cl_cursors c" "cl_progress c1 = cl_progress c"
    using drain_pages_refines [OF assms(1,2,3) _ _ pages] assms(4)
    by (auto simp: in_sync_def client_view_def)
  have prog: "cl_progress c r \<le> dl_lastProgress l1"
    using hi_progress_mono [of "client_view r c" "take (max_event_pages * default_page_size) fs"]
      ref(2) by (simp add: client_view_def view_def) (metis history.select_convs(6))
  define c2 where "c2 = c1\<lparr>cl_cursors := (cl_cursors c1)(r := dl_since l1)\<rparr>"
  define c3 where "c3 = (if dl_lastProgress l1 > cl_progress c2 r
      then c2\<lparr>cl_progress := (cl_progress c2)(r := dl_lastProgress l1)\<rparr> else c2)"
  have progc3: "cl_progress c3 r = dl_lastProgress l1"
    using prog ref(6) by (auto simp: c3_def c2_def)
  have vw: "client_view r c3 = ?h"
    unfolding ref(2) [symmetric] using ref(3) progc3
    by (auto simp: client_view_def view_def in_sync_def c3_def c2_def)
  have "drain fetch r c w = ((Inr (dl_terminal l1, cl_lifecycle c3 r, dl_lastProgress l1), c3), w1)"
    using pages ref(1) by (simp add: drain_def Let_def c2_def c3_def)
  moreover have "dl_terminal l1 = hi_terminal ?h" "dl_lastProgress l1 = hi_progress ?h"
    unfolding ref(2) [symmetric] by (simp_all add: view_def)
  moreover have "cl_lifecycle c3 r = hi_lifecycle ?h"
    unfolding vw [symmetric] by (simp add: client_view_def view_def)
  moreover have "untouched r c c3"
    using ref(4) by (auto simp: untouched_def c3_def c2_def client_view_def view_def)
  ultimately show thesis using that [of ?h c3 w1] vw by simp
qed

lemma client_view_seq: "client_view r c = replay es \<Longrightarrow> cl_cursors c r = last_seq 0 es"
  using hi_seq_foldl [of history_start es]
  by (simp add: client_view_def view_def replay_def history_start_def)
    (metis history.select_convs(7))

lemma seq_irrelevant:
  "(foldl history_step (h\<lparr>hi_seq := k\<rparr>) evs)\<lparr>hi_seq := m\<rparr> = (foldl history_step h evs)\<lparr>hi_seq := m\<rparr>"
proof (induction evs arbitrary: h k)
  case (Cons e es)
  have "history_step (h\<lparr>hi_seq := k\<rparr>) e = (history_step h e)\<lparr>hi_seq := max k (en_seq e)\<rparr>"
    by (auto simp: history_step_def history_lifecycle_def Let_def split: option.splits)
  then show ?case using Cons.IH by simp
qed simp

lemma drain_pages_error:
  assumes "in_sync r (c, l)" and "drain_pages fetch r n (c, l) w = ((err, c', l'), w')"
  shows "\<exists>evs. view r (c', l') = (foldl history_step (view r (c, l)) evs)\<lparr>hi_seq := dl_since l'\<rparr> \<and>
    in_sync r (c', l') \<and> untouched r c c' \<and> cl_cursors c' = cl_cursors c \<and>
    cl_progress c' = cl_progress c"
  using assms
proof (induction n arbitrary: c l w)
  case 0
  then show ?case by (auto simp: view_def intro: exI [of _ "[]"])
next
  case (Suc n)
  obtain a w1 where f: "fetch r (dl_since l) default_page_size w = (a, w1)" by fastforce
  show ?case
  proof (cases a)
    case (Inl e)
    with f Suc.prems show ?thesis by (auto simp: view_def intro: exI [of _ "[]"])
  next
    case (Inr b)
    obtain pg nxt where b: "b = (pg, nxt)" by fastforce
    obtain c1 l1 where fold: "foldl (fold_envelope r) (c, l) pg = (c1, l1)" by fastforce
    define l2 where "l2 = (if nxt > dl_since l1 then l1\<lparr>dl_since := nxt\<rparr> else l1)"
    note ref = fold_envelopes_refine [OF Suc.prems(1) fold]
    have v2: "view r (c1, l2) = (foldl history_step (view r (c, l)) pg)\<lparr>hi_seq := dl_since l2\<rparr>"
      unfolding conjunct1 [OF ref, symmetric] by (auto simp: l2_def view_def)
    have s2: "in_sync r (c1, l2)" using ref by (auto simp: l2_def in_sync_def)
    show ?thesis
    proof (cases "length pg < default_page_size")
      case True
      with f Inr b fold Suc.prems(2) have "c' = c1" "l' = l2" by (auto simp: Let_def l2_def)
      with v2 s2 ref show ?thesis by auto
    next
      case False
      then have "drain_pages fetch r n (c1, l2) w1 = ((err, c', l'), w')"
        using f Inr b fold Suc.prems(2) by (simp add: Let_def l2_def)
      from Suc.IH [OF s2 this] obtain evs where
        v': "view r (c', l') = (foldl history_step (view r (c1, l2)) evs)\<lparr>hi_seq := dl_since l'\<rparr>"
        and rest: "in_sync r (c', l') \<and> untouched r c1 c' \<and> cl_cursors c' = cl_cursors c1 \<and>
          cl_progress c' = cl_progress c1" by blast
      have "view r (c', l') = (foldl history_step (view r (c, l)) (pg @ evs))\<lparr>hi_seq := dl_since l'\<rparr>"
        unfolding v' v2 by (simp add: seq_irrelevant)
      moreover have "untouched r c c'" using rest ref untouched_trans by blast
      ultimately show ?thesis using rest ref by (intro exI [of _ "pg @ evs"]) simp
    qed
  qed
qed

section \<open>Properties\<close>

text \<open>
  C8. Draining incrementally equals replaying the whole log: when the client holds the replay of
  the log's beginning, one drain extends it to the replay of up to 10,000 further events, answers
  from that history, and leaves every other run's state alone. Repeated drains over a growing log
  therefore never lose, repeat or reorder an event.
\<close>

theorem drain_incremental:
  assumes "serves_log fetch r log" and "log_ordered log" and "log = es @ fs"
    and "client_view r c = replay es"
  shows "case drain fetch r c w of
      ((Inl e, c'), w') \<Rightarrow> False
    | ((Inr (terminal, lifecycle, progress), c'), w') \<Rightarrow>
        (let h = replay (es @ take 10000 fs)
         in client_view r c' = h \<and> terminal = hi_terminal h \<and> lifecycle = hi_lifecycle h \<and>
            progress = hi_progress h \<and> untouched r c c')"
proof -
  obtain c' w' h where d:
    "drain fetch r c w = ((Inr (hi_terminal h, hi_lifecycle h, hi_progress h), c'), w')"
    "h = foldl history_step (client_view r c) (take (max_event_pages * default_page_size) fs)"
    "client_view r c' = h" "untouched r c c'"
    using drain_refines [OF assms(1-3) client_view_seq [OF assms(4)]] by metis
  have "h = replay (es @ take 10000 fs)"
    using d(2) assms(4) by (simp add: replay_def max_event_pages_def default_page_size_def)
  with d show ?thesis by (simp add: Let_def)
qed

definition step_envelope :: "nat \<Rightarrow> wire_envelope" where
  "step_envelope n = \<lparr>en_seq = n, en_runID = ''r'', en_ts = Some (int n),
     en_payload = StepOutcome (Some (''build'', ''success''))\<rparr>"

definition log_server :: "wire_envelope list \<Rightarrow> nat fetch_events" where
  "log_server log = (\<lambda>r since limit w. (Inr (take limit (newer_than since log), since), Suc w))"

lemma log_server_serves: "serves_log (log_server log) r log"
  by (auto simp: serves_log_def log_server_def last_seq_ge)

theorem drain_incremental_witness:
  "case drain (log_server [step_envelope 1, step_envelope 2]) ''r'' (new_client ''castle'') 0 of
     ((Inl e, c'), w') \<Rightarrow> False
   | ((Inr (terminal, lifecycle, progress), c'), w') \<Rightarrow>
       length (cl_steps c' ''r'') = 2 \<and> progress = 2 \<and> cl_cursors c' ''r'' = 2"
proof -
  let ?log = "[step_envelope 1, step_envelope 2]"
  have h: "replay ([] @ take 10000 ?log) = \<lparr>hi_scopes = (\<lambda>_. ''''), hi_lifecycle = [],
      hi_terminal = None, hi_graphs = '''',
      hi_steps = [\<lparr>sr_name = ''build'', sr_outcome = ''success''\<rparr>,
                  \<lparr>sr_name = ''build'', sr_outcome = ''success''\<rparr>], hi_progress = 2, hi_seq = 2\<rparr>"
    by (simp add: replay_def history_start_def history_step_def history_lifecycle_def
        lifecycle_from_envelope_def terminal_from_envelope_def step_envelope_def fold_progress_def
        progress_from_envelope_def fold_steps_def fold_graphs_def max_archive_steps_def zero_time_def)
  have "log_ordered ?log" by (simp add: log_ordered_def step_envelope_def)
  moreover have "client_view ''r'' (new_client ''castle'') = replay []"
    by (simp add: client_view_def view_def new_client_def replay_def history_start_def)
  ultimately show ?thesis
    using drain_incremental [OF log_server_serves _ append_Nil [symmetric], of ?log "''r''"
        "new_client ''castle''" 0] h
    by (auto simp: Let_def client_view_def view_def split: sum.splits prod.splits)
qed


text \<open>
  A drain that fails answers with the error and moves neither the cursor nor the progress
  baseline, but the events of the pages it had read stay folded into the run's lifecycle, step,
  graph and terminal state; no other run is touched.
\<close>

theorem drain_failure_keeps_prefix:
  assumes "drain fetch r c w = ((Inl e, c'), w')"
  shows "cl_cursors c' = cl_cursors c \<and> cl_progress c' = cl_progress c \<and> untouched r c c' \<and>
    (\<exists>evs. let h = foldl history_step (client_view r c) evs
           in cl_lifecycle c' r = hi_lifecycle h \<and> cl_steps c' r = hi_steps h \<and>
              cl_terminals c' r = hi_terminal h \<and> cl_graphs c' r = hi_graphs h)"
proof -
  let ?l = "\<lparr>dl_since = cl_cursors c r, dl_terminal = cl_terminals c r,
      dl_lastProgress = cl_progress c r\<rparr>"
  obtain l' where pages: "drain_pages fetch r max_event_pages (c, ?l) w = ((Some e, c', l'), w')"
    using assms by (auto simp: drain_def Let_def split: prod.splits option.splits)
  have "in_sync r (c, ?l)" by (simp add: in_sync_def)
  from drain_pages_error [OF this pages] obtain evs where
    v: "view r (c', l') = (foldl history_step (client_view r c) evs)\<lparr>hi_seq := dl_since l'\<rparr>"
    and rest: "in_sync r (c', l')" "untouched r c c'" "cl_cursors c' = cl_cursors c"
      "cl_progress c' = cl_progress c"
    by (auto simp: client_view_def)
  let ?h = "foldl history_step (client_view r c) evs"
  have "hi_lifecycle (view r (c', l')) = hi_lifecycle ?h" "hi_steps (view r (c', l')) = hi_steps ?h"
    "hi_terminal (view r (c', l')) = hi_terminal ?h" "hi_graphs (view r (c', l')) = hi_graphs ?h"
    unfolding v by simp_all
  with rest show ?thesis
    by (auto simp: view_def in_sync_def Let_def intro!: exI [of _ evs])
qed

definition flaky_server :: "wire_envelope list \<Rightarrow> nat fetch_events" where
  "flaky_server log = (\<lambda>r since limit w.
     if w = 0 then (Inr (take limit (newer_than since log), since), Suc w)
     else (Inl (ErrMsg ''unavailable''), Suc w))"

theorem drain_failure_keeps_prefix_witness:
  "cl_cursors (new_client ''castle'') = (\<lambda>_. 0) \<and>
   (\<exists>e c' w'. drain (\<lambda>r since limit w. (Inl (ErrMsg ''unavailable''), Suc w)) ''r''
       (new_client ''castle'') 0 = ((Inl e, c'), w' :: nat) \<and> cl_cursors c' ''r'' = 0)"
proof -
  have d: "drain (\<lambda>r since limit w. (Inl (ErrMsg ''unavailable''), Suc w)) ''r''
       (new_client ''castle'') 0 = ((Inl (ErrMsg ''unavailable''), new_client ''castle''), 1 :: nat)"
    by (simp add: drain_def max_event_pages_def numeral_eq_Suc)
  from drain_failure_keeps_prefix [OF d] d show ?thesis by (simp add: new_client_def)
qed

lemma hi_steps_step: "hi_steps (history_step h e) = fold_steps e (hi_steps h)"
  by (auto simp: history_step_def history_lifecycle_def Let_def split: option.splits)

lemma fold_steps_bounded: "length s \<le> max_archive_steps \<Longrightarrow> length (fold_steps e s) \<le> max_archive_steps"
  by (auto simp: fold_steps_def split: wire_payload.splits option.splits)

lemma step_log_length:
  "length (hi_steps h) \<le> max_archive_steps \<Longrightarrow>
   length (hi_steps (foldl history_step h (map step_envelope ns))) =
     min max_archive_steps (length (hi_steps h) + length ns)"
proof (induction ns arbitrary: h)
  case (Cons n ns)
  have "length (hi_steps (history_step h (step_envelope n))) =
      min max_archive_steps (length (hi_steps h) + 1)"
    using Cons.prems by (auto simp: hi_steps_step fold_steps_def step_envelope_def)
  with Cons show ?case by auto
qed simp

lemma drain_second_page_fails:
  assumes "fetch r (cl_cursors c r) default_page_size w = (Inr (pg, cl_cursors c r), w1)"
    and "length pg = default_page_size"
    and "foldl (fold_envelope r) (c, \<lparr>dl_since = cl_cursors c r, dl_terminal = cl_terminals c r,
      dl_lastProgress = cl_progress c r\<rparr>) pg = (c1, l1)"
    and "\<And>since. fetch r since default_page_size w1 = (Inl e, w2)"
  shows "drain fetch r c w = ((Inl e, c1), w2)"
proof -
  let ?l = "\<lparr>dl_since = cl_cursors c r, dl_terminal = cl_terminals c r,
      dl_lastProgress = cl_progress c r\<rparr>"
  have "\<exists>l'. drain_pages fetch r (Suc (Suc n)) (c, ?l) w = ((Some e, c1, l'), w2)" for n
    using assms by (auto simp: Let_def)
  moreover have "max_event_pages = Suc (Suc 48)" by (simp add: max_event_pages_def)
  ultimately show ?thesis unfolding drain_def by (metis (no_types, lifting) case_prod_conv option.case(2))
qed

text \<open>
  The retry of a drain that failed after its first page folds that page again: a run with 201
  step outcomes whose second page was unavailable once ends with 256 step records, where an
  uninterrupted drain has 201.
\<close>

theorem drain_retry_duplicates_steps:
  "let log = map step_envelope [1..<202];
       steps = (\<lambda>c. length (cl_steps c ''r''));
       ((_, failed), _) = drain (flaky_server log) ''r'' (new_client ''castle'') 0;
       ((_, retried), _) = drain (log_server log) ''r'' failed 0;
       ((_, steady), _) = drain (log_server log) ''r'' (new_client ''castle'') 0
   in steps failed = 200 \<and> steps retried = 256 \<and> steps steady = 201"
proof -
  define log where "log = map step_envelope [1..<202]"
  let ?c = "new_client ''castle''"
  let ?l = "\<lparr>dl_since = 0, dl_terminal = None, dl_lastProgress = zero_time\<rparr>"
  have len: "length log = 201" by (simp add: log_def del: upt_Suc)
  have all: "newer_than 0 log = log"
    by (auto simp: log_def newer_than_def step_envelope_def filter_id_conv simp del: upt_rec_numeral)
  have page: "take 200 log = map step_envelope [1..<201]"
    unfolding log_def take_map by (subst take_upt) simp_all
  obtain c1 l1 where fold: "foldl (fold_envelope ''r'') (?c, ?l) (take 200 log) = (c1, l1)"
    by fastforce
  have sync: "in_sync ''r'' (?c, ?l)" by (simp add: in_sync_def new_client_def)
  note ref = fold_envelopes_refine [OF sync fold]
  have first: "fst (drain (flaky_server log) ''r'' ?c 0) = (Inl (ErrMsg ''unavailable''), c1)"
    by (rule arg_cong [where f = fst, OF drain_second_page_fails [where ?w1.0 = 1 and ?w2.0 = 2], THEN trans])
      (use fold in \<open>simp_all add: flaky_server_def all len default_page_size_def new_client_def\<close>)
  have s1: "length (cl_steps c1 ''r'') = 200"
  proof -
    have "cl_steps c1 ''r'' = hi_steps (view ''r'' (c1, l1))" by (simp add: view_def)
    also have "\<dots> = hi_steps (foldl history_step (view ''r'' (?c, ?l)) (take 200 log))"
      using ref by simp
    finally show ?thesis unfolding page
      by (simp add: step_log_length view_def new_client_def max_archive_steps_def
          del: upt_rec_numeral)
  qed
  have ord: "log_ordered log"
    by (auto simp: log_def log_ordered_def step_envelope_def sorted_wrt_map comp_def
        simp del: upt_rec_numeral)
  have run: "\<exists>t c'. fst (drain (log_server log) ''r'' c 0) = (Inr t, c') \<and>
      length (cl_steps c' ''r'') = min 256 (length (cl_steps c ''r'') + 201)"
    if "cl_cursors c ''r'' = 0" "length (cl_steps c ''r'') \<le> 256" for c
  proof -
    have cur: "cl_cursors c ''r'' = last_seq 0 []" using that(1) by (simp add: last_seq_def)
    have full: "take (max_event_pages * default_page_size) log = log"
      by (simp add: len max_event_pages_def default_page_size_def)
    obtain c' w' h where d: "drain (log_server log) ''r'' c 0 =
        ((Inr (hi_terminal h, hi_lifecycle h, hi_progress h), c'), w')"
      "h = foldl history_step (client_view ''r'' c) log" "client_view ''r'' c' = h"
      using drain_refines [OF log_server_serves ord append_Nil [symmetric] cur, of 0]
      unfolding full by metis
    have "length (hi_steps h) = min 256 (length (cl_steps c ''r'') + 201)"
      unfolding d(2) log_def using that(2)
      by (subst step_log_length)
        (simp_all add: client_view_def view_def max_archive_steps_def del: upt_rec_numeral)
    then have "length (cl_steps c' ''r'') = min 256 (length (cl_steps c ''r'') + 201)"
      unfolding d(3) [symmetric] by (simp add: client_view_def view_def)
    with d(1) show ?thesis by simp
  qed
  have c1cur: "cl_cursors c1 ''r'' = 0" using ref by (simp add: new_client_def)
  obtain t2 c2 where r2: "fst (drain (log_server log) ''r'' c1 0) = (Inr t2, c2)"
    "length (cl_steps c2 ''r'') = 256" using run [OF c1cur] s1 by auto
  obtain t3 c3 where r3: "fst (drain (log_server log) ''r'' ?c 0) = (Inr t3, c3)"
    "length (cl_steps c3 ''r'') = 201" using run [of ?c] by (auto simp: new_client_def)
  show ?thesis
    unfolding log_def [symmetric] Let_def using first s1 r2 r3
    by (auto split: prod.splits)
qed

end
