(* ===== verification/InterfaceBinding.thy ===== *)
theory InterfaceBinding
  imports RunTypes
begin

text \<open>
  Admission validation of a run's binding against the interface its workflow tree declares
  (\<open>internal/controller/interfacebinding.go\<close>): the gap check, the validator with its two modes,
  and the launch manifest.

  A rejection is a value of \<open>binding_mismatch\<close> naming what the message of the code names; the
  prose around these names is not modelled. Maps are iterated in an arbitrary order, the list order
  of the model, so which of several defects is reported may differ, whether one is reported may not.
\<close>

section \<open>When validation applies\<close>

definition type_image :: string where "type_image = ''image''"
definition type_url :: string where "type_url = ''url''"

definition interface_binding_applies :: "criteria_run \<Rightarrow> bool" where
  "interface_binding_applies run \<longleftrightarrow>
     (case sp_workflow (ru_spec run) of None \<Rightarrow> False | Some w \<Rightarrow> wf_interface w \<noteq> None)"

text \<open>The tree segment of a workflow url, the first match of \<open>\.git//([A-Za-z0-9_-]+)\<close>.\<close>

definition tree_char :: "char \<Rightarrow> bool" where
  "tree_char c \<longleftrightarrow> (CHR ''A'' \<le> c \<and> c \<le> CHR ''Z'') \<or> (CHR ''a'' \<le> c \<and> c \<le> CHR ''z'') \<or>
     (CHR ''0'' \<le> c \<and> c \<le> CHR ''9'') \<or> c = CHR ''_'' \<or> c = CHR ''-''"

fun workflow_tree :: "string \<Rightarrow> string" where
  "workflow_tree [] = ''''"
| "workflow_tree (c # cs) =
     (if has_prefix (c # cs) ''.git//'' \<and> takeWhile tree_char (drop 6 (c # cs)) \<noteq> ''''
      then takeWhile tree_char (drop 6 (c # cs)) else workflow_tree cs)"

text \<open>A workflow without interface that is not an image workflow; the gap names its tree.\<close>

definition interface_binding_gap :: "criteria_run \<Rightarrow> string option" where
  "interface_binding_gap run =
     (case sp_workflow (ru_spec run) of
        None \<Rightarrow> None
      | Some w \<Rightarrow>
          (if wf_interface w \<noteq> None \<or> wf_type w = type_image then None
           else Some (''workflow '' @ go_quote (wf_name w) @ '' is type '' @ go_quote (wf_type w) @
             '' (url '' @ wf_url w @
             '') but carries no stamped interface: admission cannot validate the binding against a tree declaration the run does not have, addressed tree '' @
             go_quote (workflow_tree (wf_url w)) @
             '', so the run is refused before job creation instead of falling through to the baked-image path with an unstated binding; stamp the tree'' @ [CHR 0x27] @ ''s interface.json onto spec.workflow.interface and re-fire (KB-310)'')))"

section \<open>The validator\<close>

datatype binding_mismatch =
    MissingKind string
  | UndeclaredVolume run_workflow_volume
  | VolumeKindDiffers run_workflow_volume string
  | MissingMount run_workflow_interface_mount
  | MountKindDiffers run_workflow_interface_mount string
  | UndeclaredSecretEnv string string
  | UnresolvedLane string
  | UncoveredEnv string
  | UndeclaredEnv string

text \<open>The maps keyed by mount path keep the last entry of a path.\<close>

definition last_entry :: "('a \<Rightarrow> string) \<Rightarrow> 'a list \<Rightarrow> string \<Rightarrow> 'a option" where
  "last_entry key xs p = find (\<lambda>x. key x = p) (rev xs)"

fun check_adapters :: "smap \<Rightarrow> string list \<Rightarrow> binding_mismatch option" where
  "check_adapters images [] = None"
| "check_adapters images (kind # kinds) =
     (if \<not> has_key images kind then Some (MissingKind kind) else check_adapters images kinds)"

fun check_volumes ::
  "run_workflow_interface_mount list \<Rightarrow> run_workflow_volume list \<Rightarrow> binding_mismatch option" where
  "check_volumes mounts [] = None"
| "check_volumes mounts (v # vs) =
     (case last_entry mt_mountPath mounts (vo_mountPath v) of
        None \<Rightarrow> Some (UndeclaredVolume v)
      | Some declared \<Rightarrow>
          (if vo_kind v \<noteq> mt_kind declared
           then Some (VolumeKindDiffers v (mt_kind declared))
           else check_volumes mounts vs))"

fun check_mounts ::
  "run_workflow_volume list \<Rightarrow> run_workflow_interface_mount list \<Rightarrow> binding_mismatch option" where
  "check_mounts volumes [] = None"
| "check_mounts volumes (m # ms) =
     (case last_entry vo_mountPath volumes (mt_mountPath m) of
        None \<Rightarrow> Some (MissingMount m)
      | Some v \<Rightarrow>
          (if vo_kind v \<noteq> mt_kind m
           then Some (MountKindDiffers m (vo_kind v))
           else check_mounts volumes ms))"

fun check_secret_keys ::
  "bool \<Rightarrow> run_workflow_interface \<Rightarrow> string \<Rightarrow> smap \<Rightarrow> binding_mismatch option" where
  "check_secret_keys projectBound iface secret [] = None"
| "check_secret_keys projectBound iface secret ((name, key) # env) =
     (if \<not> projectBound \<and> name \<notin> set (if_secretEnv iface) \<and> name \<notin> set (if_env iface)
      then Some (UndeclaredSecretEnv secret name)
      else check_secret_keys projectBound iface secret env)"

fun check_secrets ::
  "bool \<Rightarrow> run_workflow_interface \<Rightarrow> run_workflow_secret list \<Rightarrow> binding_mismatch option" where
  "check_secrets projectBound iface [] = None"
| "check_secrets projectBound iface (s # ss) =
     (case check_secret_keys projectBound iface (se_name s) (se_env s) of
        Some e \<Rightarrow> Some e
      | None \<Rightarrow> check_secrets projectBound iface ss)"

text \<open>The secret lanes the binding resolves: env name to the last secret that carries it.\<close>

definition resolved_lanes :: "run_workflow_secret list \<Rightarrow> smap" where
  "resolved_lanes secrets =
     foldl (\<lambda>m s. foldl (\<lambda>m' (name, key). assoc_put name (se_name s) m') m (se_env s)) [] secrets"

fun check_lanes :: "smap \<Rightarrow> string list \<Rightarrow> binding_mismatch option" where
  "check_lanes resolved [] = None"
| "check_lanes resolved (lane # lanes) =
     (if has_key resolved lane then check_lanes resolved lanes else Some (UnresolvedLane lane))"

fun check_env_covered :: "smap \<Rightarrow> string list \<Rightarrow> binding_mismatch option" where
  "check_env_covered env [] = None"
| "check_env_covered env (name # names) =
     (if \<not> has_key env name then Some (UncoveredEnv name) else check_env_covered env names)"

fun check_env_declared :: "string list \<Rightarrow> smap \<Rightarrow> binding_mismatch option" where
  "check_env_declared declared [] = None"
| "check_env_declared declared ((name, v) # env) =
     (if name \<notin> set declared then Some (UndeclaredEnv name) else check_env_declared declared env)"

definition validate_interface_binding ::
  "run_workflow \<Rightarrow> run_workflow_interface \<Rightarrow> bool \<Rightarrow> binding_mismatch option" where
  "validate_interface_binding w iface projectBound =
     (case check_adapters (wf_adapterImages w) (if_adapters iface) of Some e \<Rightarrow> Some e | None \<Rightarrow>
      (case check_volumes (if_mounts iface) (wf_volumes w) of Some e \<Rightarrow> Some e | None \<Rightarrow>
       (case check_mounts (wf_volumes w) (if_mounts iface) of Some e \<Rightarrow> Some e | None \<Rightarrow>
        (case check_secrets projectBound iface (wf_secrets w) of Some e \<Rightarrow> Some e | None \<Rightarrow>
         (case check_lanes (resolved_lanes (wf_secrets w)) (if_secretEnv iface) of Some e \<Rightarrow> Some e | None \<Rightarrow>
            (if projectBound then check_env_covered (wf_env w) (if_env iface)
             else check_env_declared (if_env iface) (wf_env w)))))))"

text \<open>The refusal's message, which names both sides.\<close>

definition list_or_none :: "string list \<Rightarrow> string" where
  "list_or_none names = (if names = [] then ''[] (none)'' else ''['' @ join '' '' names @ '']'')"

definition sorted_keys :: "smap \<Rightarrow> string list" where
  "sorted_keys m = sort (map fst m)"

definition declared_mounts :: "run_workflow_interface \<Rightarrow> string list" where
  "declared_mounts iface = map (\<lambda>m. mt_name m @ '' ('' @ mt_kind m @ '' at '' @ mt_mountPath m @ '')'') (if_mounts iface)"

definition volume_list :: "run_workflow_volume list \<Rightarrow> string list" where
  "volume_list vs = map (\<lambda>v. vo_name v @ '' ('' @ vo_kind v @ '' at '' @ vo_mountPath v @ '')'') vs"

definition mismatch_text :: "run_workflow \<Rightarrow> run_workflow_interface \<Rightarrow> binding_mismatch \<Rightarrow> string" where
  "mismatch_text w iface mismatch =
     (case mismatch of
        MissingKind kind \<Rightarrow>
       ''interface '' @ go_quote (if_workflow iface) @ '' requires adapter kind '' @ go_quote kind @ ''; binding '' @
       go_quote (wf_name w) @ '' adapterImages provide '' @ list_or_none (sorted_keys (wf_adapterImages w)) @
       '' (declare the missing kind'' @ [CHR 0x27] @ ''s image for this tree, KB-310)''
      | UndeclaredVolume v \<Rightarrow>
       ''binding '' @ go_quote (wf_name w) @ '' supplies volume '' @ go_quote (vo_name v) @ '' ('' @ vo_kind v @ '' at '' @
       vo_mountPath v @ '') which interface '' @ go_quote (if_workflow iface) @ '' does not require; interface mounts: '' @
       list_or_none (declared_mounts iface) @ '' '' @ [CHR 0xE2, CHR 0x80, CHR 0x94] @
       '' unknown-slot, fail closed (the declaration is the supported surface, KB-310)''
      | VolumeKindDiffers v kind \<Rightarrow>
       ''binding '' @ go_quote (wf_name w) @ '' volume '' @ go_quote (vo_name v) @ '' wants kind '' @ go_quote (vo_kind v) @
       '' at '' @ vo_mountPath v @ '', interface '' @ go_quote (if_workflow iface) @ '' declares '' @ go_quote kind @
       '' (binding volumes and interface mounts must agree on kind, KB-310)''
      | MissingMount m \<Rightarrow>
       ''interface '' @ go_quote (if_workflow iface) @ '' requires mount '' @ go_quote (mt_name m) @ '' ('' @ mt_kind m @
       '') at '' @ go_quote (mt_mountPath m) @ ''; binding '' @ go_quote (wf_name w) @ '' volumes: '' @
       list_or_none (volume_list (wf_volumes w)) @ '' (mount paths must match byte-exact, KB-310)''
      | MountKindDiffers m kind \<Rightarrow>
       ''interface '' @ go_quote (if_workflow iface) @ '' requires mount '' @ go_quote (mt_name m) @ '' as '' @
       go_quote (mt_kind m) @ '' at '' @ go_quote (mt_mountPath m) @ ''; binding '' @ go_quote (wf_name w) @
       '' volume at that path is '' @ go_quote kind @ '' (KB-310)''
      | UndeclaredSecretEnv secret name \<Rightarrow>
       ''binding '' @ go_quote (wf_name w) @ '' secret '' @ go_quote secret @ '' carries env '' @ go_quote name @
       '' which interface '' @ go_quote (if_workflow iface) @ '' does not require; interface secretEnv: '' @
       list_or_none (if_secretEnv iface) @ '', env: '' @ list_or_none (if_env iface) @
       '' (unknown-slot, fail closed, KB-310)''
      | UnresolvedLane lane \<Rightarrow>
       ''interface '' @ go_quote (if_workflow iface) @ '' requires secret env '' @ go_quote lane @ ''; binding '' @
       go_quote (wf_name w) @ '' secrets ('' @ list_or_none (map se_name (wf_secrets w)) @
       '') carry no such env key (wire the lane in the binding secret'' @ [CHR 0x27] @ ''s env map, KB-310)''
      | UncoveredEnv name \<Rightarrow>
       ''interface '' @ go_quote (if_workflow iface) @ '' requires env '' @ go_quote name @ ''; binding '' @
       go_quote (wf_name w) @ '' env ('' @ list_or_none (sorted_keys (wf_env w)) @
       '') does not cover it (project binding mode: the binding env must cover the tree'' @ [CHR 0x27] @
       ''s declared env names, KB-311)''
      | UndeclaredEnv name \<Rightarrow>
       ''binding '' @ go_quote (wf_name w) @ '' env key '' @ go_quote name @ '' is not declared by interface '' @
       go_quote (if_workflow iface) @ '' (interface env: '' @ list_or_none (if_env iface) @ '', secretEnv: '' @
       list_or_none (if_secretEnv iface) @ ''); unknown-slot, fail closed (KB-310)'')"

section \<open>The launch manifest\<close>

definition manifest_resolved :: "string list \<Rightarrow> run_workflow_secret list \<Rightarrow> smap" where
  "manifest_resolved declared secrets =
     foldl (\<lambda>m s. foldl (\<lambda>m' (name, key). if name \<in> set declared then assoc_put name (se_name s) m' else m')
                    m (se_env s)) [] secrets"

definition manifest_secret_lanes :: "run_workflow_interface \<Rightarrow> run_workflow \<Rightarrow> string list" where
  "manifest_secret_lanes iface w =
     (let resolved = manifest_resolved (if_secretEnv iface) (wf_secrets w)
      in sort (List.map_filter
           (\<lambda>lane. map_option (\<lambda>entry. lane @ ''@'' @ entry) (map_of resolved lane))
           (if_secretEnv iface)))"

text \<open>
  JSON marshalling of the two structs and the hex SHA-256 are the standard library's: parameters,
  marshalling may fail.
\<close>

definition interface_checksum ::
  "(run_workflow_interface \<Rightarrow> go_error + string) \<Rightarrow> (string \<Rightarrow> string) \<Rightarrow> run_workflow_interface \<Rightarrow>
   go_error + string" where
  "interface_checksum json_interface sha256_hex iface =
     (case json_interface iface of Inl e \<Rightarrow> Inl e | Inr bytes \<Rightarrow> Inr (''sha256:'' @ sha256_hex bytes))"

definition launch_manifest ::
  "(run_workflow_interface \<Rightarrow> go_error + string) \<Rightarrow> (run_workflow \<Rightarrow> go_error + string) \<Rightarrow>
   (string \<Rightarrow> string) \<Rightarrow> run_workflow \<Rightarrow> run_workflow_interface \<Rightarrow> string \<Rightarrow>
   go_error + run_launch_manifest" where
  "launch_manifest json_interface json_workflow sha256_hex w iface operatorVersion =
     (case interface_checksum json_interface sha256_hex iface of
        Inl e \<Rightarrow> Inl (Wrapped (''checksumming interface '' @ if_workflow iface) e)
      | Inr checksum \<Rightarrow>
          (case json_workflow w of
             Inl e \<Rightarrow> Inl (Wrapped (''checksumming binding '' @ wf_name w) e)
           | Inr bytes \<Rightarrow>
               Inr \<lparr>lm_workflowRef = wf_url w, lm_workflowDigest = wf_ref w,
                    lm_interfaceChecksum = checksum, lm_bindingChecksum = ''sha256:'' @ sha256_hex bytes,
                    lm_operatorVersion = operatorVersion,
                    lm_lanes = manifest_secret_lanes iface w\<rparr>))"

text \<open>The stamp on the pending status update: once, never rewritten, skipped on a failed build.\<close>

definition stamp_launch_manifest ::
  "(run_workflow_interface \<Rightarrow> go_error + string) \<Rightarrow> (run_workflow \<Rightarrow> go_error + string) \<Rightarrow>
   (string \<Rightarrow> string) \<Rightarrow> string \<Rightarrow> criteria_run \<Rightarrow> string \<Rightarrow> criteria_run" where
  "stamp_launch_manifest json_interface json_workflow sha256_hex operatorVersion update bindingSum =
     (case sp_workflow (ru_spec update) of
        None \<Rightarrow> update
      | Some w \<Rightarrow>
          (case wf_interface w of
             None \<Rightarrow> update
           | Some iface \<Rightarrow>
               (if st_launchManifest (ru_status update) \<noteq> None then update
                else case launch_manifest json_interface json_workflow sha256_hex w iface operatorVersion of
                       Inl e \<Rightarrow> update
                     | Inr manifest \<Rightarrow>
                         (let m = (if bindingSum \<noteq> '''' then manifest\<lparr>lm_bindingChecksum := bindingSum\<rparr>
                                   else manifest)
                          in update\<lparr>ru_status := (ru_status update)\<lparr>st_launchManifest := Some m\<rparr>\<rparr>))))"

section \<open>The contract of the declaration\<close>

definition mount_slots :: "run_workflow_interface \<Rightarrow> (string \<times> string) set" where
  "mount_slots iface = (\<lambda>m. (mt_mountPath m, mt_kind m)) ` set (if_mounts iface)"

definition volume_slots :: "run_workflow \<Rightarrow> (string \<times> string) set" where
  "volume_slots w = (\<lambda>v. (vo_mountPath v, vo_kind v)) ` set (wf_volumes w)"

definition one_kind_per_path :: "(string \<times> string) set \<Rightarrow> bool" where
  "one_kind_per_path S \<longleftrightarrow> (\<forall>p k k'. (p, k) \<in> S \<longrightarrow> (p, k') \<in> S \<longrightarrow> k = k')"

definition secret_env_names :: "run_workflow \<Rightarrow> string set" where
  "secret_env_names w = (\<Union>s \<in> set (wf_secrets w). fst ` set (se_env s))"

definition satisfies :: "run_workflow \<Rightarrow> run_workflow_interface \<Rightarrow> bool \<Rightarrow> bool" where
  "satisfies w iface projectBound \<longleftrightarrow>
     set (if_adapters iface) \<subseteq> fst ` set (wf_adapterImages w) \<and>
     mount_slots iface = volume_slots w \<and> one_kind_per_path (mount_slots iface) \<and>
     set (if_secretEnv iface) \<subseteq> secret_env_names w \<and>
     (if projectBound then set (if_env iface) \<subseteq> fst ` set (wf_env w)
      else secret_env_names w \<subseteq> set (if_secretEnv iface) \<union> set (if_env iface) \<and>
           fst ` set (wf_env w) \<subseteq> set (if_env iface))"

lemma last_entry_None: "last_entry key xs p = None \<longleftrightarrow> p \<notin> key ` set xs"
  by (auto simp: last_entry_def find_None_iff)

lemma last_entry_Some: "last_entry key xs p = Some x \<Longrightarrow> x \<in> set xs \<and> key x = p"
  by (auto simp: last_entry_def find_Some_iff in_set_conv_nth rev_nth)
    (metis Suc_diff_Suc diff_less_Suc length_greater_0_conv less_imp_diff_less list.size(3) not_less_eq)

lemma check_adapters_None:
  "check_adapters images kinds = None \<longleftrightarrow> set kinds \<subseteq> fst ` set images"
  by (induction kinds) auto

lemma check_volumes_None:
  "check_volumes mounts vs = None \<longleftrightarrow>
     (\<forall>v \<in> set vs. \<exists>m. last_entry mt_mountPath mounts (vo_mountPath v) = Some m \<and> vo_kind v = mt_kind m)"
  by (induction vs) (auto split: option.splits)

lemma check_mounts_None:
  "check_mounts volumes ms = None \<longleftrightarrow>
     (\<forall>m \<in> set ms. \<exists>v. last_entry vo_mountPath volumes (mt_mountPath m) = Some v \<and> vo_kind v = mt_kind m)"
  by (induction ms) (auto split: option.splits)

lemma check_secret_keys_None:
  "check_secret_keys pb iface secret env = None \<longleftrightarrow>
     pb \<or> fst ` set env \<subseteq> set (if_secretEnv iface) \<union> set (if_env iface)"
  by (induction pb iface secret env rule: check_secret_keys.induct) auto

lemma check_secrets_None:
  "check_secrets pb iface ss = None \<longleftrightarrow>
     pb \<or> (\<Union>s \<in> set ss. fst ` set (se_env s)) \<subseteq> set (if_secretEnv iface) \<union> set (if_env iface)"
proof (induction ss)
  case (Cons s ss)
  have "check_secrets pb iface (s # ss) = None \<longleftrightarrow>
      check_secret_keys pb iface (se_name s) (se_env s) = None \<and> check_secrets pb iface ss = None"
    by (simp split: option.splits)
  then show ?case unfolding Cons check_secret_keys_None by auto
qed simp

lemma fold_put_keys:
  "fst ` set (foldl (\<lambda>m' (name, key). assoc_put name v m') m env) = fst ` set m \<union> fst ` set env"
proof (induction env arbitrary: m)
  case (Cons p env)
  obtain name key where "p = (name, key)" by fastforce
  then show ?case using Cons.IH [of "assoc_put name v m"] by simp
qed simp

lemma resolved_lanes_keys: "fst ` set (resolved_lanes ss) = (\<Union>s \<in> set ss. fst ` set (se_env s))"
proof -
  have "fst ` set (foldl (\<lambda>m s. foldl (\<lambda>m' (name, key). assoc_put name (se_name s) m') m (se_env s)) m ss)
      = fst ` set m \<union> (\<Union>s \<in> set ss. fst ` set (se_env s))" for m
    by (induction ss arbitrary: m) (auto simp: fold_put_keys)
  then show ?thesis by (simp add: resolved_lanes_def)
qed

lemma check_lanes_None: "check_lanes resolved lanes = None \<longleftrightarrow> set lanes \<subseteq> fst ` set resolved"
  by (induction lanes) auto

lemma check_env_covered_None: "check_env_covered env names = None \<longleftrightarrow> set names \<subseteq> fst ` set env"
  by (induction names) auto

lemma check_env_declared_None:
  "check_env_declared declared env = None \<longleftrightarrow> fst ` set env \<subseteq> set declared"
  by (induction declared env rule: check_env_declared.induct) auto

lemma mounts_agree:
  "check_volumes (if_mounts iface) (wf_volumes w) = None \<and> check_mounts (wf_volumes w) (if_mounts iface) = None
     \<longleftrightarrow> mount_slots iface = volume_slots w \<and> one_kind_per_path (mount_slots iface)"
    (is "?L \<longleftrightarrow> ?R")
proof
  assume L: ?L
  then have v: "\<exists>m. last_entry mt_mountPath (if_mounts iface) (vo_mountPath v) = Some m \<and> vo_kind v = mt_kind m"
    if "v \<in> set (wf_volumes w)" for v using that by (auto simp: check_volumes_None)
  from L have m: "\<exists>v. last_entry vo_mountPath (wf_volumes w) (mt_mountPath m) = Some v \<and> vo_kind v = mt_kind m"
    if "m \<in> set (if_mounts iface)" for m using that by (auto simp: check_mounts_None)
  have "(vo_mountPath v, vo_kind v) \<in> mount_slots iface" if "v \<in> set (wf_volumes w)" for v
    using v [OF that] last_entry_Some [of mt_mountPath "if_mounts iface" "vo_mountPath v"]
    by (force simp: mount_slots_def)
  then have "volume_slots w \<subseteq> mount_slots iface" by (auto simp: volume_slots_def)
  moreover have "(mt_mountPath m, mt_kind m) \<in> volume_slots w" if "m \<in> set (if_mounts iface)" for m
    using m [OF that] last_entry_Some [of vo_mountPath "wf_volumes w" "mt_mountPath m"]
    by (force simp: volume_slots_def)
  then have "mount_slots iface \<subseteq> volume_slots w" by (auto simp: mount_slots_def)
  moreover have same: "mt_kind m1 = mt_kind m2"
    if "m1 \<in> set (if_mounts iface)" "m2 \<in> set (if_mounts iface)" "mt_mountPath m1 = mt_mountPath m2"
    for m1 m2 using m [OF that(1)] m [OF that(2)] that(3) by auto
  have "one_kind_per_path (mount_slots iface)"
    unfolding one_kind_per_path_def
  proof (intro allI impI)
    fix p k k' assume "(p, k) \<in> mount_slots iface" and "(p, k') \<in> mount_slots iface"
    then obtain m1 m2 where "m1 \<in> set (if_mounts iface)" "m2 \<in> set (if_mounts iface)"
      "p = mt_mountPath m1" "k = mt_kind m1" "p = mt_mountPath m2" "k' = mt_kind m2"
      by (auto simp: mount_slots_def)
    with same [of m1 m2] show "k = k'" by simp
  qed
  ultimately show ?R by blast
next
  assume R: ?R
  have kind: "k = k'" if "(p, k) \<in> mount_slots iface" "(p, k') \<in> mount_slots iface" for p k k'
    using R that by (auto simp: one_kind_per_path_def)
  have "\<exists>m. last_entry mt_mountPath (if_mounts iface) (vo_mountPath v) = Some m \<and> vo_kind v = mt_kind m"
    if "v \<in> set (wf_volumes w)" for v
  proof -
    have slot: "(vo_mountPath v, vo_kind v) \<in> mount_slots iface"
      using R that by (auto simp: volume_slots_def)
    then have "vo_mountPath v \<in> mt_mountPath ` set (if_mounts iface)" by (auto simp: mount_slots_def)
    then obtain m where m: "last_entry mt_mountPath (if_mounts iface) (vo_mountPath v) = Some m"
      using last_entry_None [of mt_mountPath "if_mounts iface" "vo_mountPath v"] by auto
    from last_entry_Some [OF m] have "(vo_mountPath v, mt_kind m) \<in> mount_slots iface"
      by (force simp: mount_slots_def)
    with kind slot m show ?thesis by blast
  qed
  moreover have "\<exists>v. last_entry vo_mountPath (wf_volumes w) (mt_mountPath m) = Some v \<and> vo_kind v = mt_kind m"
    if "m \<in> set (if_mounts iface)" for m
  proof -
    have slot: "(mt_mountPath m, mt_kind m) \<in> mount_slots iface" using that by (auto simp: mount_slots_def)
    then have "mt_mountPath m \<in> vo_mountPath ` set (wf_volumes w)" using R by (auto simp: volume_slots_def)
    then obtain v where v: "last_entry vo_mountPath (wf_volumes w) (mt_mountPath m) = Some v"
      using last_entry_None [of vo_mountPath "wf_volumes w" "mt_mountPath m"] by auto
    from last_entry_Some [OF v] have "(mt_mountPath m, vo_kind v) \<in> mount_slots iface"
      using R by (force simp: volume_slots_def)
    with kind slot v show ?thesis by blast
  qed
  ultimately show ?L by (simp add: check_volumes_None check_mounts_None)
qed

section \<open>Properties\<close>

text \<open>
  C16. The validator accepts a binding exactly when it satisfies the declared contract: the required
  kinds have images, mounts and volumes are the same path-and-kind slots, every secret lane resolves,
  and the env names are exactly within the declaration (or, for a project binding, cover it).
\<close>

theorem validate_iff_satisfies:
  "validate_interface_binding w iface projectBound = None \<longleftrightarrow> satisfies w iface projectBound"
proof -
  have "validate_interface_binding w iface projectBound = None \<longleftrightarrow>
      check_adapters (wf_adapterImages w) (if_adapters iface) = None \<and>
      (check_volumes (if_mounts iface) (wf_volumes w) = None \<and>
       check_mounts (wf_volumes w) (if_mounts iface) = None) \<and>
      check_secrets projectBound iface (wf_secrets w) = None \<and>
      check_lanes (resolved_lanes (wf_secrets w)) (if_secretEnv iface) = None \<and>
      (if projectBound then check_env_covered (wf_env w) (if_env iface) = None
       else check_env_declared (if_env iface) (wf_env w) = None)"
    by (auto simp: validate_interface_binding_def split: option.splits)
  then show ?thesis
    unfolding mounts_agree check_adapters_None check_secrets_None check_lanes_None resolved_lanes_keys
      check_env_covered_None check_env_declared_None satisfies_def secret_env_names_def
    by auto
qed

lemma fold_put_map_of:
  "map_of (foldl (\<lambda>m' (name, key). assoc_put name v m') m env) lane =
     (if lane \<in> fst ` set env then Some v else map_of m lane)"
proof (induction env arbitrary: m)
  case (Cons p env)
  obtain name key where "p = (name, key)" by fastforce
  then show ?case using Cons.IH [of "assoc_put name v m"] by auto
qed simp

lemma fold_put_declared_map_of:
  "lane \<in> set declared \<Longrightarrow>
   map_of (foldl (\<lambda>m' (name, key). if name \<in> set declared then assoc_put name v m' else m') m env) lane =
     (if lane \<in> fst ` set env then Some v else map_of m lane)"
proof (induction env arbitrary: m)
  case (Cons p env)
  obtain name key where "p = (name, key)" by fastforce
  then show ?case
    using Cons.IH [of "if name \<in> set declared then assoc_put name v m else m"] Cons.prems
    by (auto split: if_splits)
qed simp

lemma resolved_lanes_snoc:
  "map_of (resolved_lanes (ss @ [s])) lane =
     (if lane \<in> fst ` set (se_env s) then Some (se_name s) else map_of (resolved_lanes ss) lane)"
  by (simp add: resolved_lanes_def fold_put_map_of)

lemma manifest_resolved_eq:
  "lane \<in> set declared \<Longrightarrow>
   map_of (manifest_resolved declared ss) lane = map_of (resolved_lanes ss) lane"
proof (induction ss rule: rev_induct)
  case (snoc s ss)
  then show ?case
    unfolding resolved_lanes_snoc by (simp add: manifest_resolved_def fold_put_declared_map_of)
qed (simp add: manifest_resolved_def resolved_lanes_def)

lemma resolved_lanes_source:
  "map_of (resolved_lanes ss) lane = Some n \<Longrightarrow>
   \<exists>s \<in> set ss. se_name s = n \<and> lane \<in> fst ` set (se_env s)"
proof (induction ss rule: rev_induct)
  case (snoc s ss)
  then show ?case unfolding resolved_lanes_snoc by (auto split: if_splits)
qed (simp add: resolved_lanes_def)

text \<open>
  The manifest of a run that passed validation names every declared secret lane, sorted, each
  with a secret of the binding that carries it; no required lane is missing from the record.
\<close>

theorem manifest_lanes_complete:
  assumes "validate_interface_binding w iface projectBound = None"
  shows "\<exists>entry. manifest_secret_lanes iface w =
      sort (map (\<lambda>lane. lane @ ''@'' @ entry lane) (if_secretEnv iface)) \<and>
    (\<forall>lane \<in> set (if_secretEnv iface).
       \<exists>s \<in> set (wf_secrets w). se_name s = entry lane \<and> lane \<in> fst ` set (se_env s))"
proof -
  let ?ss = "wf_secrets w"
  define entry where "entry = (\<lambda>lane. the (map_of (resolved_lanes ?ss) lane))"
  have "set (if_secretEnv iface) \<subseteq> fst ` set (resolved_lanes ?ss)"
    using assms unfolding validate_iff_satisfies satisfies_def secret_env_names_def resolved_lanes_keys
    by simp
  then have found: "map_of (resolved_lanes ?ss) lane = Some (entry lane)"
    if "lane \<in> set (if_secretEnv iface)" for lane
    using that by (cases "map_of (resolved_lanes ?ss) lane") (auto simp: entry_def map_of_eq_None_iff)
  have "List.map_filter (\<lambda>lane. map_option (\<lambda>e. lane @ ''@'' @ e)
      (map_of (manifest_resolved (if_secretEnv iface) ?ss) lane)) lanes =
      map (\<lambda>lane. lane @ ''@'' @ entry lane) lanes" if "set lanes \<subseteq> set (if_secretEnv iface)" for lanes
    using that by (induction lanes) (auto simp: map_filter_simps manifest_resolved_eq found)
  then have "manifest_secret_lanes iface w =
      sort (map (\<lambda>lane. lane @ ''@'' @ entry lane) (if_secretEnv iface))"
    by (simp add: manifest_secret_lanes_def Let_def)
  moreover have "\<forall>lane \<in> set (if_secretEnv iface).
      \<exists>s \<in> set ?ss. se_name s = entry lane \<and> lane \<in> fst ` set (se_env s)"
    using found resolved_lanes_source by blast
  ultimately show ?thesis by blast
qed

theorem manifest_lanes_complete_witness:
  "let iface = zero_interface\<lparr>if_secretEnv := [''TOKEN'']\<rparr>;
       w = zero_workflow\<lparr>wf_secrets := [\<lparr>se_name = ''vault'', se_secretProviderClass = ''spc'',
             se_mountPath = ''/s'', se_env = [(''TOKEN'', ''k'')]\<rparr>]\<rparr>
   in validate_interface_binding w iface False = None \<and>
      manifest_secret_lanes iface w = [''TOKEN@vault'']"
proof -
  let ?iface = "zero_interface\<lparr>if_secretEnv := [''TOKEN'']\<rparr>"
  let ?w = "zero_workflow\<lparr>wf_secrets := [\<lparr>se_name = ''vault'', se_secretProviderClass = ''spc'',
             se_mountPath = ''/s'', se_env = [(''TOKEN'', ''k'')]\<rparr>]\<rparr>"
  have v: "validate_interface_binding ?w ?iface False = None"
    by (simp add: validate_iff_satisfies satisfies_def mount_slots_def volume_slots_def
        one_kind_per_path_def secret_env_names_def zero_defs)
  from manifest_lanes_complete [OF v] obtain entry where
    "manifest_secret_lanes ?iface ?w = sort [''TOKEN@'' @ entry ''TOKEN'']" "entry ''TOKEN'' = ''vault''"
    by (auto simp: zero_defs)
  with v show ?thesis by (simp add: Let_def)
qed

end
