(* ===== verification/AdapterImage.thy ===== *)
theory AdapterImage
  imports Lifecycle RunTypes
begin

text \<open>
  Adapter image resolution: \<open>internal/jobbuilder/adapterimage.go\<close> (the chain metadata pin, then
  digest-verified event, then unpinned metadata, then the operator default) with the workflow plan
  it reads from \<open>workflow.go\<close>, and the controller's fail-closed conflict check
  (\<open>internal/controller/adapterimageconflict.go\<close>) that runs before any builder.
\<close>

section \<open>Pinned references\<close>

text \<open>\<open>strings.LastIndex\<close> of a one-character string: the position of its last occurrence or -1.\<close>

fun last_index :: "string \<Rightarrow> char \<Rightarrow> int" where
  "last_index [] c = -1"
| "last_index (x # xs) c =
     (let i = last_index xs c in if i \<ge> 0 then i + 1 else if x = c then 0 else -1)"

definition pinned_image_reference :: "string \<Rightarrow> bool" where
  "pinned_image_reference ref \<longleftrightarrow>
     (if ref = '''' then False
      else if last_index ref CHR ''@'' > last_index ref CHR ''/'' then True
      else CHR '':'' \<in> set (drop (nat (last_index ref CHR ''/'' + 1)) ref))"

definition last_segment :: "string \<Rightarrow> string" where
  "last_segment ref = rev (takeWhile (\<lambda>c. c \<noteq> CHR ''/'') (rev ref))"

lemma last_index_bounds: "-1 \<le> last_index s c" "last_index s c < int (length s)"
  by (induction s) (auto simp: Let_def)

lemma last_index_neg: "last_index s c < 0 \<longleftrightarrow> c \<notin> set s"
proof (induction s)
  case (Cons x xs)
  then show ?case using last_index_bounds(1) [of xs c] by (auto simp: Let_def)
qed simp

lemma last_index_append:
  "last_index (xs @ ys) c =
     (if c \<in> set ys then int (length xs) + last_index ys c else last_index xs c)"
proof (induction xs)
  case Nil
  then show ?case
    using last_index_neg [of ys c] last_index_bounds(1) [of ys c] by auto
next
  case (Cons x xs)
  then show ?case
    using last_index_neg [of ys c] last_index_bounds(1) [of ys c] by (auto simp: Let_def)
qed

lemma last_segment_split:
  obtains p where "ref = p @ last_segment ref" and "p = [] \<or> last p = CHR ''/''"
    and "CHR ''/'' \<notin> set (last_segment ref)" and "last_index ref CHR ''/'' = int (length p) - 1"
proof -
  define d where "d = dropWhile (\<lambda>c. c \<noteq> CHR ''/'') (rev ref)"
  have "rev ref = takeWhile (\<lambda>c. c \<noteq> CHR ''/'') (rev ref) @ d" by (simp add: d_def)
  then have split: "ref = rev d @ last_segment ref"
    unfolding last_segment_def by (metis rev_append rev_rev_ident)
  have hd: "d = [] \<or> hd d = CHR ''/''"
    unfolding d_def by (metis (mono_tags, lifting) hd_dropWhile)
  have noslash: "CHR ''/'' \<notin> set (last_segment ref)"
    unfolding last_segment_def by (auto dest: set_takeWhileD)
  have "last_index (rev d) CHR ''/'' = int (length d) - 1"
  proof (cases d)
    case (Cons y ys)
    then have "rev d = rev ys @ [CHR ''/'']" using hd by simp
    then show ?thesis using Cons by (simp add: last_index_append)
  qed simp
  then have "last_index ref CHR ''/'' = int (length (rev d)) - 1"
    using noslash last_index_append [of "rev d" "last_segment ref" "CHR ''/''"] split by simp
  with split hd noslash that show thesis by (metis last_rev rev_is_Nil_conv)
qed

text \<open>A reference is pinned exactly when its last path segment carries a tag or a digest.\<close>

lemma pinned_iff_segment:
  "pinned_image_reference ref \<longleftrightarrow>
     CHR ''@'' \<in> set (last_segment ref) \<or> CHR '':'' \<in> set (last_segment ref)"
proof -
  obtain p where p: "ref = p @ last_segment ref"
    and slash: "last_index ref CHR ''/'' = int (length p) - 1"
    using last_segment_split [of ref] by blast
  have tail: "drop (nat (last_index ref CHR ''/'' + 1)) ref = last_segment ref"
    unfolding slash by (subst p) simp
  have "last_index ref CHR ''@'' > last_index ref CHR ''/'' \<longleftrightarrow> CHR ''@'' \<in> set (last_segment ref)"
  proof (cases "CHR ''@'' \<in> set (last_segment ref)")
    case True
    then have "0 \<le> last_index (last_segment ref) CHR ''@''"
      using last_index_neg [of "last_segment ref" "CHR ''@''"] by linarith
    moreover have "last_index ref CHR ''@'' = int (length p) + last_index (last_segment ref) CHR ''@''"
      using True last_index_append [of p "last_segment ref" "CHR ''@''"] p by simp
    ultimately show ?thesis using True slash by simp
  next
    case False
    then have "last_index ref CHR ''@'' = last_index p CHR ''@''"
      using last_index_append [of p "last_segment ref" "CHR ''@''"] p by simp
    with False slash last_index_bounds(2) [of p "CHR ''@''"] show ?thesis by simp
  qed
  with tail show ?thesis
    by (auto simp: pinned_image_reference_def last_segment_def)
qed

section \<open>Resolution\<close>

definition digest_verified_pinned :: "lifecycle_event \<Rightarrow> bool" where
  "digest_verified_pinned scope \<longleftrightarrow>
     le_digest scope \<noteq> '''' \<and> pinned_image_reference (le_imageReference scope)"

record image_conflict =
  ic_kind :: string
  ic_metadataRef :: string
  ic_eventRef :: string

definition detect_adapter_image_conflict ::
  "run_workflow option \<Rightarrow> lifecycle_event \<Rightarrow> string \<Rightarrow> image_conflict option" where
  "detect_adapter_image_conflict wfo scope kind =
     (case wfo of
        None \<Rightarrow> None
      | Some w \<Rightarrow>
          (if kind = '''' then None
           else let meta = smap_get (wf_adapterImages w) kind
                in if \<not> pinned_image_reference meta \<or> \<not> digest_verified_pinned scope then None
                   else if meta = le_imageReference scope then None
                   else Some \<lparr>ic_kind = kind, ic_metadataRef = meta,
                              ic_eventRef = le_imageReference scope\<rparr>))"

record workflow_plan =
  pl_volumes :: "run_workflow_volume list"
  pl_secrets :: "run_workflow_secret list"
  pl_env :: smap
  pl_adapterImages :: smap
  pl_imageConflictPolicy :: string
  pl_runName :: string

definition new_workflow_plan :: "criteria_run \<Rightarrow> workflow_plan option" where
  "new_workflow_plan run =
     map_option (\<lambda>wf. \<lparr>pl_volumes = wf_volumes wf, pl_secrets = wf_secrets wf, pl_env = wf_env wf,
        pl_adapterImages = wf_adapterImages wf, pl_imageConflictPolicy = wf_imageConflictPolicy wf,
        pl_runName = ru_name run\<rparr>) (sp_workflow (ru_spec run))"

definition adapter_image_override :: "workflow_plan option \<Rightarrow> string \<Rightarrow> string" where
  "adapter_image_override p kind =
     (case p of None \<Rightarrow> '''' | Some q \<Rightarrow> smap_get (pl_adapterImages q) kind)"

definition conflict_policy :: "workflow_plan option \<Rightarrow> string" where
  "conflict_policy p =
     (case p of
        None \<Rightarrow> image_conflict_policy_fail_closed
      | Some q \<Rightarrow> (if pl_imageConflictPolicy q = '''' then image_conflict_policy_fail_closed
                  else pl_imageConflictPolicy q))"

definition resolve_image ::
  "workflow_plan option \<Rightarrow> lifecycle_event \<Rightarrow> string \<Rightarrow> string \<Rightarrow> string" where
  "resolve_image plan scope kind fallback =
     (let meta = adapter_image_override plan kind; meta_pinned = pinned_image_reference meta
      in if meta_pinned \<and> digest_verified_pinned scope \<and> meta \<noteq> le_imageReference scope
         then (if conflict_policy plan = image_conflict_policy_prefer_event
               then le_imageReference scope else meta)
         else if meta_pinned then meta
         else if digest_verified_pinned scope then le_imageReference scope
         else if meta \<noteq> '''' then meta
         else fallback)"

text \<open>The operator knobs the defaults come from, and the two default shapes.\<close>

definition default_adapter_registry :: string where
  "default_adapter_registry = ''localhost:5000''"
definition default_adapter_tag :: string where
  "default_adapter_tag = ''k8s-3''"

definition default_adapter_image :: "string \<Rightarrow> string \<Rightarrow> string \<Rightarrow> string" where
  "default_adapter_image registry0 tag0 kind =
     (let registry = first_nonempty [registry0, default_adapter_registry];
          tag = first_nonempty [tag0, default_adapter_tag]
      in registry @ ''/criteria-adapter-'' @ kind @ '':'' @ tag)"

definition default_peer_adapter_image :: "string \<Rightarrow> string \<Rightarrow> string \<Rightarrow> string" where
  "default_peer_adapter_image registry0 tag0 kind =
     (let registry = first_nonempty [registry0, default_adapter_registry];
          tag = first_nonempty [tag0, default_adapter_tag]
      in registry @ ''/criteria-adapter-'' @ kind @ ''-peer:'' @ tag)"

definition resolve_adapter_image ::
  "workflow_plan option \<Rightarrow> lifecycle_event \<Rightarrow> string \<Rightarrow> string \<Rightarrow> string \<Rightarrow> string" where
  "resolve_adapter_image plan scope kind registry tag =
     resolve_image plan scope kind (default_adapter_image registry tag kind)"

definition resolve_peer_adapter_image ::
  "workflow_plan option \<Rightarrow> lifecycle_event \<Rightarrow> string \<Rightarrow> string \<Rightarrow> string \<Rightarrow> string" where
  "resolve_peer_adapter_image plan scope kind registry tag =
     resolve_image plan scope kind (default_peer_adapter_image registry tag kind)"

section \<open>The controller's conflict check\<close>

definition local_adapter_kind :: "lifecycle_event \<Rightarrow> string" where
  "local_adapter_kind m = (if le_adapterType m \<noteq> '''' then le_adapterType m else le_adapterName m)"

definition adapter_image_conflict_policy_arbitrated :: "criteria_run \<Rightarrow> bool" where
  "adapter_image_conflict_policy_arbitrated run \<longleftrightarrow>
     (case sp_workflow (ru_spec run) of
        None \<Rightarrow> False
      | Some w \<Rightarrow> wf_imageConflictPolicy w = image_conflict_policy_prefer_event \<or>
                   wf_imageConflictPolicy w = image_conflict_policy_prefer_metadata)"

text \<open>
  The conflicts of the active scopes, in the order the provisions are listed; the detail text the
  code renders from them is empty exactly when there are none.
\<close>

definition adapter_image_conflicts ::
  "criteria_run \<Rightarrow> lifecycle_event list \<Rightarrow> (lifecycle_event \<times> image_conflict) list" where
  "adapter_image_conflicts run lifecycle =
     (if adapter_image_conflict_policy_arbitrated run then []
      else List.map_filter
             (\<lambda>scope. map_option (Pair scope)
                (detect_adapter_image_conflict (sp_workflow (ru_spec run)) scope
                   (local_adapter_kind scope)))
             (active_provisions lifecycle))"

lemma detect_conflict_iff:
  "detect_adapter_image_conflict (Some w) scope kind \<noteq> None \<longleftrightarrow>
     kind \<noteq> '''' \<and> pinned_image_reference (smap_get (wf_adapterImages w) kind) \<and>
     digest_verified_pinned scope \<and> smap_get (wf_adapterImages w) kind \<noteq> le_imageReference scope"
  by (auto simp: detect_adapter_image_conflict_def Let_def)

lemma conflicts_empty_iff:
  "adapter_image_conflicts run lifecycle = [] \<longleftrightarrow>
     adapter_image_conflict_policy_arbitrated run \<or>
     (\<forall>scope \<in> set (active_provisions lifecycle).
        detect_adapter_image_conflict (sp_workflow (ru_spec run)) scope (local_adapter_kind scope) = None)"
  by (auto simp: adapter_image_conflicts_def map_filter_def filter_empty_conv)

lemma adapter_image_override_plan:
  "adapter_image_override (new_workflow_plan run) kind =
     (case sp_workflow (ru_spec run) of None \<Rightarrow> '''' | Some w \<Rightarrow> smap_get (wf_adapterImages w) kind)"
  by (simp add: adapter_image_override_def new_workflow_plan_def split: option.splits)

lemma unpinned_empty [simp]: "\<not> pinned_image_reference ''''"
  by (simp add: pinned_image_reference_def)

section \<open>Properties\<close>

text \<open>
  A reconcile that the fail-closed check admits never builds against a contradicted pin: for
  every active scope, the resolved image equals the workflow's pin when there is one and equals the
  digest-verified event's pin when there is one, whatever the operator default is.
\<close>

theorem admitted_image_agrees_with_pins:
  assumes "adapter_image_conflicts run lifecycle = []"
    and "\<not> adapter_image_conflict_policy_arbitrated run"
    and "scope \<in> set (active_provisions lifecycle)" and "kind = local_adapter_kind scope"
    and "kind \<noteq> ''''"
  shows "let image = resolve_image (new_workflow_plan run) scope kind fallback;
             meta = adapter_image_override (new_workflow_plan run) kind
         in (pinned_image_reference meta \<longrightarrow> image = meta) \<and>
            (digest_verified_pinned scope \<longrightarrow> image = le_imageReference scope) \<and>
            (\<not> pinned_image_reference meta \<and> \<not> digest_verified_pinned scope \<longrightarrow>
               image = (if meta \<noteq> '''' then meta else fallback))"
proof -
  have none: "detect_adapter_image_conflict (sp_workflow (ru_spec run)) scope kind = None"
    using assms conflicts_empty_iff [of run lifecycle] by simp
  show ?thesis
  proof (cases "sp_workflow (ru_spec run)")
    case None
    then show ?thesis
      by (simp add: resolve_image_def adapter_image_override_plan Let_def)
  next
    case (Some w)
    with none assms(5) detect_conflict_iff [where w = w and scope = scope and kind = kind] show ?thesis
      by (auto simp: resolve_image_def adapter_image_override_plan Let_def)
  qed
qed

definition pinned_run :: "string \<Rightarrow> criteria_run" where
  "pinned_run policy = zero_run\<lparr>ru_spec := zero_spec\<lparr>sp_workflow := Some (zero_workflow
     \<lparr>wf_adapterImages := [(''shell'', ''reg/shell:v1'')], wf_imageConflictPolicy := policy\<rparr>)\<rparr>\<rparr>"

definition pinned_scope :: "string \<Rightarrow> lifecycle_event" where
  "pinned_scope ref = zero_event\<lparr>le_event := event_provision_wanted, le_adapterName := ''shell'',
     le_digest := ''sha256:1'', le_imageReference := ref\<rparr>"

lemmas image_eval = pinned_run_def pinned_scope_def zero_defs zero_event_def
  adapter_image_conflicts_def adapter_image_conflict_policy_arbitrated_def active_provisions_def
  active_step_def is_provision_wanted_def event_provision_wanted_def scope_key_def
  local_adapter_kind_def detect_adapter_image_conflict_def digest_verified_pinned_def
  pinned_image_reference_def smap_get_def resolve_image_def new_workflow_plan_def
  adapter_image_override_def conflict_policy_def image_conflict_policy_fail_closed_def
  image_conflict_policy_prefer_event_def image_conflict_policy_prefer_metadata_def

theorem admitted_image_agrees_with_pins_witness:
  "resolve_image (new_workflow_plan (pinned_run '''')) (pinned_scope ''reg/shell:v1'') ''shell'' ''d''
     = ''reg/shell:v1''"
proof -
  have "let image = resolve_image (new_workflow_plan (pinned_run '''')) (pinned_scope ''reg/shell:v1'')
             ''shell'' ''d'';
           meta = adapter_image_override (new_workflow_plan (pinned_run '''')) ''shell''
       in (pinned_image_reference meta \<longrightarrow> image = meta) \<and>
          (digest_verified_pinned (pinned_scope ''reg/shell:v1'') \<longrightarrow>
             image = le_imageReference (pinned_scope ''reg/shell:v1'')) \<and>
          (\<not> pinned_image_reference meta \<and> \<not> digest_verified_pinned (pinned_scope ''reg/shell:v1'') \<longrightarrow>
             image = (if meta \<noteq> '''' then meta else ''d''))"
    by (rule admitted_image_agrees_with_pins [where lifecycle = "[pinned_scope ''reg/shell:v1'']"])
      (simp_all add: image_eval map_filter_def Let_def)
  then show ?thesis by (simp add: image_eval Let_def)
qed

end
