(* ===== verification/GoPath.thy ===== *)
theory GoPath
  imports Prelude
begin

text \<open>
  The slash-separated path functions of Go's \<open>path\<close> package that the builders use: \<open>Clean\<close>,
  \<open>Join\<close>, \<open>Base\<close> and \<open>Dir\<close> (on Linux \<open>path/filepath\<close> is the same), the ASCII case
  conversions of \<open>strings\<close>, and the reading of integers.
\<close>

fun split_on :: "char \<Rightarrow> string \<Rightarrow> string \<Rightarrow> string list" where
  "split_on sep acc [] = [rev acc]"
| "split_on sep acc (c # cs) =
     (if c = sep then rev acc # split_on sep [] cs else split_on sep (c # acc) cs)"

definition segments :: "string \<Rightarrow> string list" where
  "segments p = split_on CHR ''/'' [] p"

definition is_rooted :: "string \<Rightarrow> bool" where
  "is_rooted p \<longleftrightarrow> (case p of [] \<Rightarrow> False | c # _ \<Rightarrow> c = CHR ''/'')"

text \<open>Segments kept so far in reverse: a \<open>..\<close> drops the last of them, and stays only in front of a
  relative path.\<close>

fun clean_segments :: "bool \<Rightarrow> string list \<Rightarrow> string list \<Rightarrow> string list" where
  "clean_segments rooted acc [] = rev acc"
| "clean_segments rooted acc (s # ss) =
     (if s = '''' \<or> s = ''.'' then clean_segments rooted acc ss
      else if s = ''..''
      then (case acc of
              [] \<Rightarrow> clean_segments rooted (if rooted then [] else [''..'']) ss
            | a # as \<Rightarrow> (if a = ''..'' then clean_segments rooted (''..'' # acc) ss
                        else clean_segments rooted as ss))
      else clean_segments rooted (s # acc) ss)"

definition path_clean :: "string \<Rightarrow> string" where
  "path_clean p =
     (let body = join ''/'' (clean_segments (is_rooted p) [] (segments p))
      in if is_rooted p then CHR ''/'' # body else if body = '''' then ''.'' else body)"

definition path_join :: "string list \<Rightarrow> string" where
  "path_join elems =
     (let present = dropWhile (\<lambda>e. e = '''') elems
      in if present = [] then '''' else path_clean (join ''/'' present))"

definition strip_slashes :: "string \<Rightarrow> string" where
  "strip_slashes p = rev (dropWhile (\<lambda>c. c = CHR ''/'') (rev p))"

definition path_base :: "string \<Rightarrow> string" where
  "path_base p =
     (if p = '''' then ''.''
      else let s = last (segments (strip_slashes p)) in if s = '''' then ''/'' else s)"

text \<open>\<open>Dir\<close> cleans what \<open>Split\<close> leaves up to and including the last slash.\<close>

definition path_dir :: "string \<Rightarrow> string" where
  "path_dir p = path_clean (rev (dropWhile (\<lambda>c. c \<noteq> CHR ''/'') (rev p)))"

definition to_lower :: "char \<Rightarrow> char" where
  "to_lower c = (if CHR ''A'' \<le> c \<and> c \<le> CHR ''Z'' then char_of (of_char c + 32 :: nat) else c)"

definition to_upper :: "char \<Rightarrow> char" where
  "to_upper c = (if CHR ''a'' \<le> c \<and> c \<le> CHR ''z'' then char_of (of_char c - 32 :: nat) else c)"

text \<open>\<open>strconv.ParseInt\<close> in base 10 at 64 bits (and so \<open>Atoi\<close>): an optional sign, at least one digit, and the value in range.\<close>

definition digit_value :: "char \<Rightarrow> int" where
  "digit_value c = int (of_char c) - 48"

definition parse_digits :: "string \<Rightarrow> int option" where
  "parse_digits ds =
     (if ds \<noteq> [] \<and> list_all (\<lambda>c. CHR ''0'' \<le> c \<and> c \<le> CHR ''9'') ds
      then Some (foldl (\<lambda>n c. 10 * n + digit_value c) 0 ds) else None)"

definition parse_int64 :: "string \<Rightarrow> int option" where
  "parse_int64 s =
     (let negative = (s \<noteq> [] \<and> hd s = CHR ''-'');
          ds = (if s \<noteq> [] \<and> (hd s = CHR ''-'' \<or> hd s = CHR ''+'') then tl s else s)
      in case parse_digits ds of
           None \<Rightarrow> None
         | Some n \<Rightarrow> (let v = (if negative then - n else n)
                     in if - 9223372036854775808 \<le> v \<and> v \<le> 9223372036854775807 then Some v else None))"

lemma path_examples:
  "path_clean ''/a/../b//c/.'' = ''/b/c''" "path_clean ''../a/..'' = ''..''" "path_clean '''' = ''.''"
  "path_join [''/secrets'', ''token''] = ''/secrets/token''" "path_join ['''', ''''] = ''''"
  "path_base ''/run/tokens/'' = ''tokens''" "path_base ''/'' = ''/''"
  "path_dir ''/run/tokens/a.token'' = ''/run/tokens''" "path_dir ''a'' = ''.''"
  by code_simp+

lemma case_examples:
  "map to_lower ''Copilot.X9'' = ''copilot.x9''" "map to_upper ''shell.repo'' = ''SHELL.REPO''"
  by code_simp+

end
