(* ===== verification/PodSpec.thy ===== *)
theory PodSpec
  imports AdapterImage GoPath
begin

text \<open>
  What the builders put into a pod (the parts of \<open>corev1.PodSpec\<close> the code sets) and the workflow
  plan of \<open>internal/jobbuilder/workflow.go\<close>: the declared volumes, secrets and environment of the
  stamped workflow rendered into pod volumes, container mounts and variables, and the same-host
  affinity. The shell texts a container runs are named, not modelled.
\<close>

section \<open>Pods\<close>

datatype env_value = EnvText string | EnvPodIP

record env_var =
  ev_name :: string
  ev_value :: env_value

definition env_text :: "string \<Rightarrow> string \<Rightarrow> env_var" where
  "env_text name v = \<lparr>ev_name = name, ev_value = EnvText v\<rparr>"

datatype volume_source =
    PvcSource string bool
  | NfsSource string string bool
  | EmptyDirSource "string option"
  | SecretSource string
  | CsiSource string
  | ConfigMapSource string
  | NoSource

record volume =
  vl_name :: string
  vl_source :: volume_source

record volume_mount =
  vm_name :: string
  vm_mountPath :: string
  vm_subPath :: string
  vm_readOnly :: bool

text \<open>Requests and limits: memory in MiB, CPU in thousandths.\<close>

record resources =
  rs_requestMemory :: int
  rs_requestCPU :: int
  rs_limitMemory :: int
  rs_limitCPU :: int

text \<open>The commands: an argument vector, or a shell with one of the package's scripts.\<close>

datatype script =
    RepoCloneScript
  | SourceRepoCloneScript
  | SourceRunnerScript
  | PeerStageScript string string string string
  | PeerStageImageFallbackScript string

datatype command = Entrypoint | Exec "string list" | Shell "string list" script

record container_security =
  xs_allowPrivilegeEscalation :: bool
  xs_dropCapabilities :: "string list"

record container =
  ct_name :: string
  ct_image :: string
  ct_command :: command
  ct_env :: "env_var list"
  ct_mounts :: "volume_mount list"
  ct_resources :: "resources option"
  ct_security :: container_security

record pod_security =
  xp_runAsNonRoot :: bool
  xp_runAsUser :: int
  xp_runAsGroup :: int
  xp_fsGroup :: int
  xp_seccompRuntimeDefault :: bool

text \<open>
  The affinity is the list of required terms: the label to match on the node's hostname. The
  tolerations are pairs of key and effect with the operator \<open>Exists\<close>.
\<close>

record pod_spec =
  ps_nodeName :: string
  ps_nodeArch :: string
  ps_tolerations :: "(string \<times> string) list"
  ps_restartPolicy :: string
  ps_serviceAccount :: string
  ps_automountToken :: "bool option"
  ps_security :: pod_security
  ps_initContainers :: "container list"
  ps_containers :: "container list"
  ps_volumes :: "volume list"
  ps_affinity :: "smap option"

definition restricted_container_security_context :: container_security where
  "restricted_container_security_context =
     \<lparr>xs_allowPrivilegeEscalation = False, xs_dropCapabilities = [''ALL'']\<rparr>"

definition child_pod_security :: pod_security where
  "child_pod_security = \<lparr>xp_runAsNonRoot = True, xp_runAsUser = 10001, xp_runAsGroup = 10001,
     xp_fsGroup = 10001, xp_seccompRuntimeDefault = True\<rparr>"

definition restart_on_failure :: string where "restart_on_failure = ''OnFailure''"

text \<open>
  Functions of the standard library and of Kubernetes that the builders call: the hex SHA-256, the
  JSON text of the origin record (job, redacted source, ref, image), the check whether a text is a
  quantity, and the port of a parsed URL (empty when there is none or it does not parse).
\<close>

record library =
  lb_sha256 :: "string \<Rightarrow> string"
  lb_originJson :: "string \<Rightarrow> string \<Rightarrow> string \<Rightarrow> string \<Rightarrow> string"
  lb_isQuantity :: "string \<Rightarrow> bool"
  lb_urlPort :: "string \<Rightarrow> string"

section \<open>Names and labels\<close>

definition data_mount_path :: string where "data_mount_path = ''/data''"
definition data_volume_name :: string where "data_volume_name = ''data''"
definition scripts_volume_name :: string where "scripts_volume_name = ''scripts''"
definition scripts_mount_path :: string where "scripts_mount_path = ''/opt/criteria-pod-adapter''"
definition secret_volume_prefix :: string where "secret_volume_prefix = ''secret-''"
definition workflow_volume_prefix :: string where "workflow_volume_prefix = ''wf-''"
definition max_label_value_length :: nat where "max_label_value_length = 63"

text \<open>
  Names and labels are sanitized byte by byte (\<open>strings.ToLower\<close> on ASCII text; a byte of any other
  character is outside both classes). A run of characters outside the class becomes one dash.
\<close>

fun replace_runs :: "(char \<Rightarrow> bool) \<Rightarrow> bool \<Rightarrow> string \<Rightarrow> string" where
  "replace_runs ok inrun [] = []"
| "replace_runs ok inrun (c # cs) =
     (if ok c then c # replace_runs ok False cs
      else if inrun then replace_runs ok True cs
      else CHR ''-'' # replace_runs ok True cs)"

definition trim_chars :: "string \<Rightarrow> string \<Rightarrow> string" where
  "trim_chars cutset s =
     rev (dropWhile (\<lambda>c. c \<in> set cutset) (rev (dropWhile (\<lambda>c. c \<in> set cutset) s)))"

definition in_range :: "char \<Rightarrow> char \<Rightarrow> char \<Rightarrow> bool" where
  "in_range lo hi c \<longleftrightarrow> lo \<le> c \<and> c \<le> hi"

definition dns_char :: "char \<Rightarrow> bool" where
  "dns_char c \<longleftrightarrow> in_range CHR ''a'' CHR ''z'' c \<or> in_range CHR ''0'' CHR ''9'' c \<or> c = CHR ''-''"

definition label_char :: "char \<Rightarrow> bool" where
  "label_char c \<longleftrightarrow> in_range CHR ''A'' CHR ''Z'' c \<or> in_range CHR ''a'' CHR ''z'' c \<or>
     in_range CHR ''0'' CHR ''9'' c \<or> c \<in> set ''_.-''"

definition safe_object_name :: "string \<Rightarrow> string" where
  "safe_object_name s =
     (let s1 = replace_runs dns_char False (map to_lower s);
          s2 = trim_chars ''-'' s1;
          s3 = (if length s2 > 63 then take 63 s2 else s2);
          s4 = trim_chars ''-'' s3
      in if s4 = '''' then ''unknown'' else s4)"

definition safe_label_value :: "string \<Rightarrow> string" where
  "safe_label_value s =
     (let s1 = replace_runs label_char False s;
          s2 = trim_chars ''-_.'' s1;
          s3 = (if length s2 > 63 then take 63 s2 else s2);
          s4 = trim_chars ''-_.'' s3
      in if s4 = '''' then ''unknown'' else s4)"

definition trim_hyphens :: "string \<Rightarrow> string" where
  "trim_hyphens s = (let t = trim_chars ''-'' s in if t = '''' then ''unknown'' else t)"

section \<open>Environment\<close>

definition sort_envs :: "env_var list \<Rightarrow> env_var list" where
  "sort_envs envs = sort_key ev_name envs"

fun append_env_distinct :: "env_var list \<Rightarrow> env_var list \<Rightarrow> env_var list" where
  "append_env_distinct base [] = base"
| "append_env_distinct base (e # extra) =
     append_env_distinct (if ev_name e \<in> ev_name ` set base then base else base @ [e]) extra"

definition join_secret_mount :: "string \<Rightarrow> string \<Rightarrow> string" where
  "join_secret_mount mountPath key = path_join [mountPath, key]"

definition volume_envs :: "workflow_plan option \<Rightarrow> env_var list" where
  "volume_envs p = (case p of None \<Rightarrow> []
     | Some q \<Rightarrow> sort_envs (concat (map (\<lambda>v. map (\<lambda>(n, x). env_text n x) (vo_env v)) (pl_volumes q))))"

definition secret_envs :: "workflow_plan option \<Rightarrow> env_var list" where
  "secret_envs p = (case p of None \<Rightarrow> []
     | Some q \<Rightarrow> sort_envs (concat (map (\<lambda>s. map (\<lambda>(n, key). env_text n (join_secret_mount (se_mountPath s) key))
                                           (se_env s)) (pl_secrets q))))"

definition workflow_envs :: "workflow_plan option \<Rightarrow> env_var list" where
  "workflow_envs p = (case p of None \<Rightarrow> [] | Some q \<Rightarrow> sort_envs (map (\<lambda>(n, x). env_text n x) (pl_env q)))"

definition runner_envs :: "workflow_plan option \<Rightarrow> env_var list" where
  "runner_envs p = workflow_envs p @ volume_envs p"

definition adapter_envs :: "workflow_plan option \<Rightarrow> env_var list" where
  "adapter_envs p = volume_envs p @ secret_envs p"

definition has_secrets :: "workflow_plan option \<Rightarrow> bool" where
  "has_secrets p \<longleftrightarrow> (case p of None \<Rightarrow> False | Some q \<Rightarrow> pl_secrets q \<noteq> [])"

section \<open>Volumes\<close>

definition workflow_pod_volume_name :: "run_workflow_volume \<Rightarrow> string" where
  "workflow_pod_volume_name vol =
     (if vo_mountPath vol = data_mount_path then data_volume_name
      else if vo_name vol = data_volume_name \<or> vo_name vol = scripts_volume_name
      then workflow_volume_prefix @ vo_name vol
      else vo_name vol)"

definition data_volume :: "string \<Rightarrow> volume" where
  "data_volume pvc = \<lparr>vl_name = data_volume_name, vl_source = PvcSource pvc False\<rparr>"

definition csi_volume :: "string \<Rightarrow> string \<Rightarrow> volume" where
  "csi_volume name spc = \<lparr>vl_name = name, vl_source = CsiSource spc\<rparr>"

definition scripts_volume :: volume where
  "scripts_volume = \<lparr>vl_name = scripts_volume_name, vl_source = ConfigMapSource ''pod-adapter-scripts''\<rparr>"

definition volume_pvc :: string where "volume_pvc = ''pvc''"
definition volume_nfs :: string where "volume_nfs = ''nfs''"
definition volume_tmp :: string where "volume_tmp = ''tmp''"
definition volume_k8s_secret :: string where "volume_k8s_secret = ''k8s-secret''"

text \<open>An unparsable size limit leaves the directory unbounded instead of failing the build.\<close>

definition workflow_volume :: "library \<Rightarrow> run_workflow_volume \<Rightarrow> volume" where
  "workflow_volume lib vol =
     \<lparr>vl_name = workflow_pod_volume_name vol,
      vl_source =
        (if vo_kind vol = volume_pvc then PvcSource (vo_claim vol) (vo_readOnly vol)
         else if vo_kind vol = volume_nfs then NfsSource (vo_server vol) (vo_path vol) (vo_readOnly vol)
         else if vo_kind vol = volume_tmp
         then EmptyDirSource (if vo_sizeLimit vol \<noteq> '''' \<and> lb_isQuantity lib (vo_sizeLimit vol)
                              then Some (vo_sizeLimit vol) else None)
         else if vo_kind vol = volume_k8s_secret then SecretSource (vo_secretName vol)
         else NoSource)\<rparr>"

text \<open>The loop over the declared volumes: a declaration at the data path replaces the default data
  volume at the head when that is present.\<close>

fun declared_volumes :: "library \<Rightarrow> bool \<Rightarrow> run_workflow_volume list \<Rightarrow> volume list \<Rightarrow> volume list" where
  "declared_volumes lib includeData [] vols = vols"
| "declared_volumes lib includeData (v # vs) vols =
     declared_volumes lib includeData vs
       (if workflow_pod_volume_name v = data_volume_name \<and> includeData
        then vols[0 := workflow_volume lib v] else vols @ [workflow_volume lib v])"

definition pod_volumes :: "library \<Rightarrow> workflow_plan option \<Rightarrow> string \<Rightarrow> bool \<Rightarrow> volume list" where
  "pod_volumes lib p dataPVC includeData =
     (let base = (if includeData then [data_volume dataPVC] else [])
      in case p of None \<Rightarrow> base
         | Some q \<Rightarrow> declared_volumes lib includeData (pl_volumes q) base @
             map (\<lambda>s. csi_volume (secret_volume_prefix @ se_name s) (se_secretProviderClass s)) (pl_secrets q))"

definition runner_volumes :: "library \<Rightarrow> workflow_plan option \<Rightarrow> string \<Rightarrow> bool \<Rightarrow> volume list" where
  "runner_volumes lib p dataPVC legacySecretVolumes =
     pod_volumes lib p dataPVC True @
     (if p = None \<and> legacySecretVolumes then [csi_volume ''copilot-secrets'' ''copilot-spc''] else []) @
     [scripts_volume]"

definition adapter_volumes :: "library \<Rightarrow> workflow_plan option \<Rightarrow> string \<Rightarrow> bool \<Rightarrow> volume list" where
  "adapter_volumes lib p dataPVC includeData = pod_volumes lib p dataPVC includeData @ [scripts_volume]"

definition declares_data_mount :: "workflow_plan option \<Rightarrow> bool" where
  "declares_data_mount p \<longleftrightarrow>
     (case p of None \<Rightarrow> False | Some q \<Rightarrow> list_ex (\<lambda>v. vo_mountPath v = data_mount_path) (pl_volumes q))"

section \<open>Mounts\<close>

definition plain_mount :: "string \<Rightarrow> string \<Rightarrow> volume_mount" where
  "plain_mount name path = \<lparr>vm_name = name, vm_mountPath = path, vm_subPath = '''', vm_readOnly = False\<rparr>"

definition data_mount :: volume_mount where
  "data_mount = plain_mount data_volume_name data_mount_path"

definition env_mounts :: "workflow_plan \<Rightarrow> bool \<Rightarrow> volume_mount list" where
  "env_mounts q includeData =
     (if includeData then [data_mount] else []) @
     map (\<lambda>v. \<lparr>vm_name = workflow_pod_volume_name v, vm_mountPath = vo_mountPath v,
              vm_subPath = vo_subPath v, vm_readOnly = vo_readOnly v\<rparr>)
       (filter (\<lambda>v. workflow_pod_volume_name v \<noteq> data_volume_name) (pl_volumes q)) @
     map (\<lambda>s. \<lparr>vm_name = secret_volume_prefix @ se_name s, vm_mountPath = se_mountPath s,
              vm_subPath = '''', vm_readOnly = True\<rparr>) (pl_secrets q)"

definition with_scripts_mount :: "volume_mount list \<Rightarrow> volume_mount list" where
  "with_scripts_mount mounts = mounts @ [plain_mount scripts_volume_name scripts_mount_path]"

definition legacy_secret_mount :: volume_mount where
  "legacy_secret_mount = plain_mount ''copilot-secrets'' ''/home/criteria/secrets''"

definition runner_mounts :: "workflow_plan option \<Rightarrow> bool \<Rightarrow> volume_mount list" where
  "runner_mounts p legacySecretVolumes = with_scripts_mount
     (case p of None \<Rightarrow> data_mount # (if legacySecretVolumes then [legacy_secret_mount] else [])
              | Some q \<Rightarrow> env_mounts q True)"

definition clone_mounts :: "workflow_plan option \<Rightarrow> bool \<Rightarrow> volume_mount list" where
  "clone_mounts p legacySecretVolumes =
     (case p of None \<Rightarrow> data_mount # (if legacySecretVolumes then [legacy_secret_mount] else [])
              | Some q \<Rightarrow> with_scripts_mount (env_mounts q True))"

definition adapter_mounts :: "workflow_plan option \<Rightarrow> bool \<Rightarrow> volume_mount list" where
  "adapter_mounts p includeData = with_scripts_mount
     (case p of None \<Rightarrow> (if includeData then [data_mount] else []) | Some q \<Rightarrow> env_mounts q includeData)"

definition peer_adapter_mounts :: "workflow_plan option \<Rightarrow> bool \<Rightarrow> volume_mount list" where
  "peer_adapter_mounts p includeData =
     (case p of None \<Rightarrow> (if includeData then [data_mount] else []) | Some q \<Rightarrow> env_mounts q includeData)"

section \<open>Same-host affinity\<close>

definition label_host_affinity_prefix :: string where
  "label_host_affinity_prefix = ''criteria.brokenbots.dev/affinity-''"
definition host_affinity_label_prefix :: string where
  "host_affinity_label_prefix = ''affinity-''"

fun affinity_keys :: "string list \<Rightarrow> run_workflow_volume list \<Rightarrow> string list" where
  "affinity_keys keys [] = keys"
| "affinity_keys keys (v # vs) =
     affinity_keys (if vo_kind v \<noteq> volume_pvc \<or> workflow_pod_volume_name v \<in> set keys then keys
                    else keys @ [workflow_pod_volume_name v]) vs"

definition host_affinity_volume_keys :: "workflow_plan option \<Rightarrow> string list" where
  "host_affinity_volume_keys p = (case p of None \<Rightarrow> [] | Some q \<Rightarrow> affinity_keys [] (pl_volumes q))"

definition host_affinity_label_key :: "string \<Rightarrow> string" where
  "host_affinity_label_key volumeKey =
     (let name = host_affinity_label_prefix @ volumeKey
      in label_host_affinity_prefix @
         (if length name > max_label_value_length then trim_hyphens (take max_label_value_length name)
          else name))"

text \<open>No host-affinity volume is the nil map, which the callers test for.\<close>

definition host_affinity_labels :: "workflow_plan option \<Rightarrow> smap" where
  "host_affinity_labels p =
     (case p of None \<Rightarrow> []
      | Some q \<Rightarrow> foldl (\<lambda>m key. assoc_put (host_affinity_label_key key) (safe_label_value (pl_runName q)) m)
                   [] (host_affinity_volume_keys p))"

definition pod_affinity :: "workflow_plan option \<Rightarrow> smap option" where
  "pod_affinity p =
     (let labels = host_affinity_labels p
      in if labels = [] then None
         else Some (map (\<lambda>key. (key, smap_get labels key)) (sort (map fst labels))))"

definition put_all :: "smap \<Rightarrow> smap \<Rightarrow> smap" where
  "put_all extra m = foldl (\<lambda>m' (k, v). assoc_put k v m') m extra"

text \<open>The pod labels and the pod after the stamp.\<close>

definition apply_host_affinity ::
  "workflow_plan option \<Rightarrow> smap \<Rightarrow> pod_spec \<Rightarrow> smap \<times> pod_spec" where
  "apply_host_affinity p labels spec =
     (if ps_nodeName spec \<noteq> '''' \<or> ps_affinity spec \<noteq> None then (labels, spec)
      else if host_affinity_labels p = [] then (labels, spec)
      else (put_all (host_affinity_labels p) labels, spec\<lparr>ps_affinity := pod_affinity p\<rparr>))"

end
