(* ===== verification/JobBuilder.thy ===== *)
theory JobBuilder
  imports PodSpec
begin

text \<open>
  The child Jobs of a run as \<open>internal/jobbuilder/jobbuilder.go\<close> (and the source-mode branch in
  \<open>source.go\<close>) builds them: their identity (namespace, name, labels), the containers with the
  images, commands, environment, mounts and resources they carry, the pod template around them, and
  which Jobs a run has.
\<close>

section \<open>Names and labels\<close>

definition label_run :: string where "label_run = ''criteria.brokenbots.dev/run''"
definition label_role :: string where "label_role = ''criteria.brokenbots.dev/role''"
definition label_adapter_kind :: string where
  "label_adapter_kind = ''criteria.brokenbots.dev/adapter-kind''"
definition role_runner :: string where "role_runner = ''runner''"
definition role_adapter :: string where "role_adapter = ''adapter''"
definition label_job_name :: string where "label_job_name = ''criteria.brokenbots.dev/job-name''"
definition annotation_proxy_castle_run_id :: string where
  "annotation_proxy_castle_run_id = ''criteria.brokenbots.dev/proxy-castle-run-id''"
definition annotation_proxy_enroll_token :: string where
  "annotation_proxy_enroll_token = ''criteria.brokenbots.dev/proxy-enroll-token''"
definition runner_container_name :: string where "runner_container_name = ''workflow-runner''"
definition default_workflow_image :: string where
  "default_workflow_image = ''localhost:5000/linear-intake-remote:dev''"
definition criteria_base_image_default :: string where
  "criteria_base_image_default = ''localhost:5000/criteria-base:dev''"
definition env_criteria_base_image :: string where "env_criteria_base_image = ''CRITERIA_BASE_IMAGE''"
definition env_default_image :: string where "env_default_image = ''DEFAULT_CRITERIA_IMAGE''"

definition job_name :: "criteria_run \<Rightarrow> string" where
  "job_name run =
     (let name = smap_get (ru_labels run) label_job_name
      in if name \<noteq> '''' then name
         else if ru_name run \<noteq> '''' then ru_name run
         else ''criteria-run-'' @ safe_object_name (sp_ticketID (ru_spec run)))"

definition runner_job_name :: "criteria_run \<Rightarrow> string" where
  "runner_job_name run = job_name run"

definition adapter_job_name :: "criteria_run \<Rightarrow> string \<Rightarrow> string" where
  "adapter_job_name run kind = job_name run @ ''-adapter-'' @ kind"

definition target_namespace :: "criteria_run \<Rightarrow> string" where
  "target_namespace run =
     (case sp_workflow (ru_spec run) of
        None \<Rightarrow> ru_namespace run
      | Some w \<Rightarrow> (if wf_namespace w \<noteq> '''' then wf_namespace w else ru_namespace run))"

definition base_labels :: "criteria_run \<Rightarrow> smap" where
  "base_labels run =
     [(''app.kubernetes.io/name'', ''criteria-run''), (''app.kubernetes.io/managed-by'', ''criteria-k8s''),
      (label_run, ru_name run), (''ticket'', safe_label_value (sp_ticketID (ru_spec run)))]"

section \<open>Jobs\<close>

record defaults =
  df_image :: string
  df_dataPVC :: string
  df_providerBaseURL :: string
  df_criteriaServerAddr :: string
  df_debugEventsFile :: string
  df_criteriaBaseImage :: string
  df_adapterRegistry :: string
  df_adapterTag :: string
  df_jobArch :: string
  df_legacySecretVolumes :: bool

text \<open>
  The owner reference: the API version and kind are the defaults, because a typed client leaves the
  object's own type information empty.
\<close>

record owner_ref =
  or_apiVersion :: string
  or_kind :: string
  or_name :: string
  or_uid :: string
  or_controller :: bool
  or_blockOwnerDeletion :: bool

definition owner_reference :: "criteria_run \<Rightarrow> owner_ref" where
  "owner_reference run = \<lparr>or_apiVersion = ''criteria.brokenbots.dev/v1'', or_kind = ''CriteriaRun'',
     or_name = ru_name run, or_uid = ru_uid run, or_controller = True, or_blockOwnerDeletion = True\<rparr>"

text \<open>
  A Job: its identity, the pod template (which shares the label map with the Job) and, of its status,
  what the reconciler reads. The conditions are pairs of type and whether the status is \<open>True\<close>.
\<close>

record job =
  jo_namespace :: string
  jo_name :: string
  jo_labels :: smap
  jo_owners :: "owner_ref list"
  jo_ttlSecondsAfterFinished :: int
  jo_spec :: pod_spec
  jo_conditions :: "(string \<times> bool) list"
  jo_active :: int
  jo_succeeded :: int
  jo_failed :: int

definition job_key :: "job \<Rightarrow> nsname" where
  "job_key j = (jo_namespace j, jo_name j)"

definition job_node_arch :: "defaults \<Rightarrow> string" where
  "job_node_arch d = first_nonempty [df_jobArch d, ''amd64'']"

definition child_pod_spec :: "defaults \<Rightarrow> pod_spec" where
  "child_pod_spec d = \<lparr>ps_nodeName = '''', ps_nodeArch = job_node_arch d,
     ps_tolerations = [(''catch'', ''NoSchedule'')], ps_restartPolicy = restart_on_failure,
     ps_serviceAccount = '''', ps_automountToken = None, ps_security = child_pod_security,
     ps_initContainers = [], ps_containers = [], ps_volumes = [], ps_affinity = None\<rparr>"

definition build_job_base :: "criteria_run \<Rightarrow> defaults \<Rightarrow> string \<Rightarrow> string \<Rightarrow> smap \<Rightarrow> job" where
  "build_job_base run d ns name labels = \<lparr>jo_namespace = ns, jo_name = name, jo_labels = labels,
     jo_owners = [owner_reference run], jo_ttlSecondsAfterFinished = 86400,
     jo_spec = child_pod_spec d, jo_conditions = [], jo_active = 0, jo_succeeded = 0, jo_failed = 0\<rparr>"

text \<open>\<open>applyHostAffinity\<close> on a Job: the labels go to the shared map, so the Job carries them too.\<close>

definition job_with_affinity :: "workflow_plan option \<Rightarrow> job \<Rightarrow> job" where
  "job_with_affinity p j =
     (let (labels, spec) = apply_host_affinity p (jo_labels j) (jo_spec j)
      in j\<lparr>jo_labels := labels, jo_spec := spec\<rparr>)"

section \<open>Images\<close>

definition source_mode_image :: "criteria_run \<Rightarrow> defaults \<Rightarrow> string" where
  "source_mode_image run d =
     first_nonempty [sp_image (ru_spec run), df_criteriaBaseImage d, criteria_base_image_default]"

definition resolve_runner_image :: "criteria_run \<Rightarrow> defaults \<Rightarrow> string" where
  "resolve_runner_image run d =
     (if sp_workflowSource (ru_spec run) \<noteq> None then source_mode_image run d
      else first_nonempty [sp_image (ru_spec run), df_image d, default_workflow_image])"

definition runner_job_image :: "job \<Rightarrow> string" where
  "runner_job_image j =
     (case find (\<lambda>c. ct_name c = runner_container_name) (ps_containers (jo_spec j)) of
        None \<Rightarrow> '''' | Some c \<Rightarrow> ct_image c)"

section \<open>Containers\<close>

definition small_resources :: resources where
  "small_resources = \<lparr>rs_requestMemory = 512, rs_requestCPU = 250, rs_limitMemory = 2048, rs_limitCPU = 1000\<rparr>"

definition runner_resources :: resources where
  "runner_resources = \<lparr>rs_requestMemory = 2048, rs_requestCPU = 1000, rs_limitMemory = 8192, rs_limitCPU = 4000\<rparr>"

definition adapter_resources :: "string \<Rightarrow> resources" where
  "adapter_resources kind =
     (if kind = ''copilot''
      then \<lparr>rs_requestMemory = 2048, rs_requestCPU = 500, rs_limitMemory = 8192, rs_limitCPU = 2000\<rparr>
      else if kind = ''shell'' then small_resources\<lparr>rs_limitMemory := 8192, rs_limitCPU := 2000\<rparr>
      else small_resources)"

definition ascii_space :: "char \<Rightarrow> bool" where
  "ascii_space c \<longleftrightarrow> c \<in> {CHR '' '', CHR 0x09, CHR 0x0A, CHR 0x0B, CHR 0x0C, CHR 0x0D}"

definition base_branch_or_default :: "string \<Rightarrow> string" where
  "base_branch_or_default spec = (if dropWhile ascii_space spec \<noteq> '''' then spec else ''main'')"

definition operator_view_url :: "library \<Rightarrow> string \<Rightarrow> string \<Rightarrow> string" where
  "operator_view_url lib ns criteriaServerAddr =
     (let port = first_nonempty [lb_urlPort lib criteriaServerAddr, ''8082'']
      in ''http://criteria-k8s-operator.'' @ ns @ ''.svc.cluster.local:'' @ port @ ''/operator-view'')"

text \<open>\<open>%d\<close>; the fuel is the number itself, more than its digits.\<close>

fun digits :: "nat \<Rightarrow> nat \<Rightarrow> string" where
  "digits 0 n = ''''"
| "digits (Suc fuel) n = (if n < 10 then [char_of (48 + n)]
     else digits fuel (n div 10) @ [char_of (48 + n mod 10)])"

definition show_int :: "int \<Rightarrow> string" where
  "show_int i = (let n = nat (abs i) in (if i < 0 then ''-'' else '''') @ digits (Suc n) n)"

definition proxy_envs :: "criteria_run \<Rightarrow> env_var list" where
  "proxy_envs run =
     env_text ''CRITERIA_RUN_NAME'' (ru_name run) #
     (let tok = smap_get (ru_annotations run) annotation_proxy_enroll_token
      in if tok \<noteq> '''' then [env_text ''CRITERIA_PROXY_ENROLLMENT_TOKEN'' tok] else [])"

definition operator_envs :: "defaults \<Rightarrow> env_var list" where
  "operator_envs d =
     (if df_debugEventsFile d \<noteq> '''' then [env_text ''EVENTS_FILE'' (df_debugEventsFile d)] else []) @
     (if df_criteriaServerAddr d \<noteq> '''' then [env_text ''CASTLE_ADDR'' (df_criteriaServerAddr d)] else [])"

definition pod_ip_env :: env_var where
  "pod_ip_env = \<lparr>ev_name = ''POD_IP'', ev_value = EnvPodIP\<rparr>"

definition repo_clone_container ::
  "string \<Rightarrow> string \<Rightarrow> string \<Rightarrow> workflow_plan option \<Rightarrow> bool \<Rightarrow> container" where
  "repo_clone_container img repoURL repoDir plan legacySecretVolumes =
     \<lparr>ct_name = ''repo-clone'', ct_image = img, ct_command = Shell [''/bin/sh'', ''-c''] RepoCloneScript,
      ct_env = append_env_distinct [env_text ''REPO_URL'' repoURL, env_text ''REPO_DIR'' repoDir]
                 (volume_envs plan),
      ct_mounts = clone_mounts plan legacySecretVolumes, ct_resources = Some small_resources,
      ct_security = restricted_container_security_context\<rparr>"

definition intake_repo_dir :: "criteria_run \<Rightarrow> string" where
  "intake_repo_dir run = ''/data/intake/'' @ sp_ticketID (ru_spec run) @ ''/repo''"

definition source_repo_clone_container ::
  "criteria_run \<Rightarrow> string \<Rightarrow> workflow_plan option \<Rightarrow> bool \<Rightarrow> container" where
  "source_repo_clone_container run img plan legacySecretVolumes =
     \<lparr>ct_name = ''repo-clone'', ct_image = img,
      ct_command = Shell [''/bin/sh'', ''-c''] SourceRepoCloneScript,
      ct_env = append_env_distinct [env_text ''REPO_URL'' (sp_repoURL (ru_spec run)),
                 env_text ''REPO_DIR'' (intake_repo_dir run), env_text ''HOME'' ''/tmp''] (volume_envs plan),
      ct_mounts = clone_mounts plan legacySecretVolumes, ct_resources = Some small_resources,
      ct_security = restricted_container_security_context\<rparr>"

definition workflow_runner_envs ::
  "library \<Rightarrow> criteria_run \<Rightarrow> string \<Rightarrow> string \<Rightarrow> string \<Rightarrow> string \<Rightarrow> int \<Rightarrow> defaults \<Rightarrow> env_var list" where
  "workflow_runner_envs lib run repoDir intakeRoot triageRoot providerBaseURL maxVisits d =
     [env_text ''TICKET_ID'' (sp_ticketID (ru_spec run)),
      env_text ''CRITERIA_RUN_TICKET'' (sp_ticketID (ru_spec run)),
      env_text ''CRITERIA_RUN_JOB'' (job_name run),
      env_text ''CRITERIA_OPERATOR_VIEW_URL'' (operator_view_url lib (ru_namespace run) (df_criteriaServerAddr d)),
      env_text ''REPO_URL'' (sp_repoURL (ru_spec run)), env_text ''REPO_DIR'' repoDir,
      env_text ''INTAKE_ROOT'' intakeRoot, env_text ''TRIAGE_ROOT'' triageRoot,
      env_text ''BASE_BRANCH'' (base_branch_or_default (sp_baseBranch (ru_spec run))),
      env_text ''BUILD_CMD'' (sp_buildCmd (ru_spec run)), env_text ''TEST_CMD'' (sp_testCmd (ru_spec run)),
      env_text ''CI_GATE_CMD'' (sp_ciGateCmd (ru_spec run)),
      env_text ''TEST_REFS'' ''both'', env_text ''MAIN_REF'' ''origin/main'', env_text ''STABLE_REF'' '''',
      env_text ''DESIGN_INTENT_FILE'' '''', env_text ''REPRO_WORKFLOW_DIR'' '''',
      env_text ''ALLOW_DIRTY'' ''false'', env_text ''MAX_AGENT_VISITS'' (show_int maxVisits),
      env_text ''PROVIDER_BASE_URL'' providerBaseURL, env_text ''CRITERIA_HOME'' ''/data/criteria'',
      env_text ''JOB_NAME'' (job_name run), pod_ip_env]
     @ operator_envs d @ proxy_envs run"

definition workflow_runner_container ::
  "library \<Rightarrow> criteria_run \<Rightarrow> string \<Rightarrow> string \<Rightarrow> string \<Rightarrow> string \<Rightarrow> string \<Rightarrow> int \<Rightarrow> defaults \<Rightarrow>
   workflow_plan option \<Rightarrow> container" where
  "workflow_runner_container lib run img repoDir intakeRoot triageRoot providerBaseURL maxVisits d plan =
     \<lparr>ct_name = runner_container_name, ct_image = img,
      ct_command = Exec [''/opt/criteria-pod-adapter/runner.sh''],
      ct_env = append_env_distinct
        (workflow_runner_envs lib run repoDir intakeRoot triageRoot providerBaseURL maxVisits d)
        (runner_envs plan),
      ct_mounts = runner_mounts plan (df_legacySecretVolumes d), ct_resources = Some runner_resources,
      ct_security = restricted_container_security_context\<rparr>"

definition adapter_container :: "string \<Rightarrow> string \<Rightarrow> string \<Rightarrow> workflow_plan option \<Rightarrow> container" where
  "adapter_container kind img runnerJobName plan =
     \<lparr>ct_name = ''adapter-'' @ kind, ct_image = img,
      ct_command = Exec [''/opt/criteria-pod-adapter/adapter.sh''],
      ct_env = append_env_distinct [env_text ''ADAPTER_KIND'' kind,
                 env_text ''CRITERIA_RUN_JOB_NAME'' runnerJobName] (adapter_envs plan),
      ct_mounts = adapter_mounts plan True, ct_resources = Some (adapter_resources kind),
      ct_security = restricted_container_security_context\<rparr>"

section \<open>Source mode\<close>

definition source_criteria_home :: "string \<Rightarrow> string" where
  "source_criteria_home jobName = ''/data/criteria-home/'' @ jobName"

fun index_of_sub :: "string \<Rightarrow> string \<Rightarrow> nat option" where
  "index_of_sub pat [] = (if pat = [] then Some 0 else None)"
| "index_of_sub pat (c # cs) =
     (if has_prefix (c # cs) pat then Some 0 else map_option Suc (index_of_sub pat cs))"

text \<open>The userinfo of the authority component is masked, up to its first at sign.\<close>

definition redact_workflow_source :: "string \<Rightarrow> string" where
  "redact_workflow_source source =
     (case index_of_sub ''://'' source of
        None \<Rightarrow> source
      | Some i \<Rightarrow>
          (let rest = drop (i + 3) source;
               authority = takeWhile (\<lambda>c. c \<notin> set ''/?#'') rest
           in if CHR ''@'' \<in> set authority
              then take (i + 3) source @ ''redacted@'' @ tl (dropWhile (\<lambda>c. c \<noteq> CHR ''@'') rest)
              else source))"

definition workflow_origin_record :: "library \<Rightarrow> criteria_run \<Rightarrow> string \<Rightarrow> run_workflow_source \<Rightarrow> string" where
  "workflow_origin_record lib run jobName source =
     lb_originJson lib jobName (redact_workflow_source (ws_url source)) (ws_ref source) (sp_image (ru_spec run))"

text \<open>
  The secret variables of the entrypoint: per secret the lanes with a key, sorted; a variable name
  seen before is skipped; all pairs sorted, one per line.
\<close>

fun secret_var_lanes :: "string \<Rightarrow> smap \<Rightarrow> string list \<Rightarrow> string list \<Rightarrow> string list \<Rightarrow> string list \<times> string list" where
  "secret_var_lanes mountPath env [] seen pairs = (seen, pairs)"
| "secret_var_lanes mountPath env (lane # lanes) seen pairs =
     (let varName = map to_lower lane
      in if varName \<in> set seen then secret_var_lanes mountPath env lanes seen pairs
         else secret_var_lanes mountPath env lanes (varName # seen)
                (pairs @ [varName @ ''=file:'' @ join_secret_mount mountPath (smap_get env lane)]))"

fun secret_var_pairs :: "run_workflow_secret list \<Rightarrow> string list \<Rightarrow> string list \<Rightarrow> string list" where
  "secret_var_pairs [] seen pairs = pairs"
| "secret_var_pairs (sec # secrets) seen pairs =
     (let lanes = sort (map fst (filter (\<lambda>(lane, key). lane \<noteq> '''' \<and> key \<noteq> '''') (se_env sec)));
          (seen', pairs') = secret_var_lanes (se_mountPath sec) (se_env sec) lanes seen pairs
      in secret_var_pairs secrets seen' pairs')"

definition newline :: string where "newline = [CHR 0x0A]"

definition secret_var_bindings :: "workflow_plan option \<Rightarrow> string" where
  "secret_var_bindings plan =
     (case plan of None \<Rightarrow> '''' | Some q \<Rightarrow> join newline (sort (secret_var_pairs (pl_secrets q) [] [])))"

fun distinct_roots :: "string list \<Rightarrow> run_workflow_secret list \<Rightarrow> string list" where
  "distinct_roots roots [] = roots"
| "distinct_roots roots (sec # secrets) =
     distinct_roots (if se_mountPath sec = '''' \<or> se_mountPath sec \<in> set roots then roots
                     else roots @ [se_mountPath sec]) secrets"

definition trusted_secret_file_roots :: "workflow_plan option \<Rightarrow> string" where
  "trusted_secret_file_roots plan =
     (case plan of None \<Rightarrow> '''' | Some q \<Rightarrow> join newline (sort (distinct_roots [] (pl_secrets q))))"

definition source_runner_envs ::
  "library \<Rightarrow> criteria_run \<Rightarrow> run_workflow_source \<Rightarrow> string \<Rightarrow> int \<Rightarrow> defaults \<Rightarrow> env_var list" where
  "source_runner_envs lib run source providerBaseURL maxVisits d =
     [env_text ''TICKET_ID'' (sp_ticketID (ru_spec run)), env_text ''REPO_URL'' (sp_repoURL (ru_spec run)),
      env_text ''JOB_NAME'' (job_name run), env_text ''PROVIDER_BASE_URL'' providerBaseURL,
      env_text ''MAX_AGENT_VISITS'' (show_int maxVisits),
      env_text ''CRITERIA_HOME'' (source_criteria_home (job_name run)),
      env_text ''TRIAGE_ROOT'' ''/data/triage'',
      env_text ''BUILD_CMD'' (sp_buildCmd (ru_spec run)), env_text ''TEST_CMD'' (sp_testCmd (ru_spec run)),
      env_text ''CI_GATE_CMD'' (sp_ciGateCmd (ru_spec run)),
      env_text ''BASE_BRANCH'' (base_branch_or_default (sp_baseBranch (ru_spec run))),
      env_text ''CRITERIA_RUN_TICKET'' (sp_ticketID (ru_spec run)),
      env_text ''CRITERIA_RUN_JOB'' (job_name run),
      env_text ''CRITERIA_OPERATOR_VIEW_URL'' (operator_view_url lib (ru_namespace run) (df_criteriaServerAddr d)),
      env_text ''WORKFLOW_URL'' (ws_url source)]
     @ (if ws_ref source \<noteq> '''' then [env_text ''WORKFLOW_REF'' (ws_ref source)] else [])
     @ [env_text ''WORKFLOW_ORIGIN_METADATA'' (workflow_origin_record lib run (job_name run) source), pod_ip_env]
     @ operator_envs d @ proxy_envs run"

definition source_runner_container ::
  "library \<Rightarrow> criteria_run \<Rightarrow> run_workflow_source \<Rightarrow> string \<Rightarrow> string \<Rightarrow> int \<Rightarrow> defaults \<Rightarrow>
   workflow_plan option \<Rightarrow> container" where
  "source_runner_container lib run source img providerBaseURL maxVisits d plan =
     \<lparr>ct_name = runner_container_name, ct_image = img,
      ct_command = Shell [''/bin/sh'', ''-c''] SourceRunnerScript,
      ct_env = append_env_distinct (source_runner_envs lib run source providerBaseURL maxVisits d) (runner_envs plan)
        @ [env_text ''CRITERIA_SECRET_VARS'' (secret_var_bindings plan),
           env_text ''CRITERIA_SECRET_FILE_ROOTS'' (trusted_secret_file_roots plan)],
      ct_mounts = runner_mounts plan (df_legacySecretVolumes d), ct_resources = Some runner_resources,
      ct_security = restricted_container_security_context\<rparr>"

section \<open>The Jobs\<close>

definition provider_base_url :: "criteria_run \<Rightarrow> defaults \<Rightarrow> string" where
  "provider_base_url run d = first_nonempty [sp_providerBaseURL (ru_spec run), df_providerBaseURL d,
     ''http://192.168.17.116:11434/v1'']"

definition max_visits :: "criteria_run \<Rightarrow> int" where
  "max_visits run = (if sp_maxAgentVisits (ru_spec run) = 0 then 2 else sp_maxAgentVisits (ru_spec run))"

definition data_pvc :: "defaults \<Rightarrow> string" where
  "data_pvc d = first_nonempty [df_dataPVC d, ''criteria-data'']"

definition runner_labels :: "criteria_run \<Rightarrow> smap" where
  "runner_labels run = assoc_put label_role role_runner (base_labels run)"

definition build_source_runner_job ::
  "library \<Rightarrow> criteria_run \<Rightarrow> defaults \<Rightarrow> run_workflow_source \<Rightarrow> job" where
  "build_source_runner_job lib run d source =
     (let plan = new_workflow_plan run;
          j = build_job_base run d (target_namespace run) (job_name run) (runner_labels run)
      in job_with_affinity plan (j\<lparr>jo_spec := (jo_spec j)\<lparr>
           ps_serviceAccount := ''criteria-runner'',
           ps_initContainers := (if sp_repoURL (ru_spec run) \<noteq> ''''
             then [source_repo_clone_container run (source_mode_image run d) plan (df_legacySecretVolumes d)]
             else []),
           ps_containers := [source_runner_container lib run source (source_mode_image run d)
             (provider_base_url run d) (max_visits run) d plan],
           ps_volumes := runner_volumes lib plan (data_pvc d) (df_legacySecretVolumes d)\<rparr>\<rparr>))"

definition build_runner_job :: "library \<Rightarrow> criteria_run \<Rightarrow> defaults \<Rightarrow> job" where
  "build_runner_job lib run d =
     (case sp_workflowSource (ru_spec run) of
        Some source \<Rightarrow> build_source_runner_job lib run d source
      | None \<Rightarrow>
          (let image = resolve_runner_image run d;
               plan = new_workflow_plan run;
               j = build_job_base run d (target_namespace run) (job_name run) (runner_labels run)
           in job_with_affinity plan (j\<lparr>jo_spec := (jo_spec j)\<lparr>
                ps_serviceAccount := ''criteria-runner'',
                ps_initContainers := [repo_clone_container image (sp_repoURL (ru_spec run))
                  (intake_repo_dir run) plan (df_legacySecretVolumes d)],
                ps_containers := [workflow_runner_container lib run image (intake_repo_dir run)
                  ''/data/intake'' ''/data/triage'' (provider_base_url run d) (max_visits run) d plan],
                ps_volumes := runner_volumes lib plan (data_pvc d) (df_legacySecretVolumes d)\<rparr>\<rparr>)))"

definition build_adapter_job :: "library \<Rightarrow> criteria_run \<Rightarrow> defaults \<Rightarrow> string \<Rightarrow> job" where
  "build_adapter_job lib run d kind =
     (let labels = assoc_put label_adapter_kind kind (assoc_put label_role role_adapter (base_labels run));
          plan = new_workflow_plan run;
          image = resolve_adapter_image plan zero_event kind (df_adapterRegistry d) (df_adapterTag d);
          hasSecrets = has_secrets plan;
          j = build_job_base run d (target_namespace run) (adapter_job_name run kind) labels
      in job_with_affinity plan (j\<lparr>jo_spec := (jo_spec j)\<lparr>
           ps_automountToken := Some hasSecrets,
           ps_serviceAccount := (if hasSecrets then ''criteria-runner'' else ''''),
           ps_containers := [adapter_container kind image (job_name run) plan],
           ps_volumes := adapter_volumes lib plan (data_pvc d) True\<rparr>\<rparr>))"

definition default_adapter_kinds :: "string list" where
  "default_adapter_kinds = [''shell'', ''copilot'']"

definition legacy_adapter_kinds :: "criteria_run \<Rightarrow> string list" where
  "legacy_adapter_kinds run =
     (case sp_workflow (ru_spec run) of
        None \<Rightarrow> default_adapter_kinds
      | Some w \<Rightarrow> (if wf_adapterImages w = [] then default_adapter_kinds
                  else sort (map fst (wf_adapterImages w))))"

definition build_all :: "library \<Rightarrow> criteria_run \<Rightarrow> defaults \<Rightarrow> job list" where
  "build_all lib run d =
     build_runner_job lib run d #
     (if sp_perScopeSessions (ru_spec run) then []
      else map (build_adapter_job lib run d) (legacy_adapter_kinds run))"

section \<open>What the builders guarantee\<close>

lemma replace_runs_chars:
  "ok CHR ''-'' \<Longrightarrow> c \<in> set (replace_runs ok b s) \<Longrightarrow> ok c"
  by (induction ok b s rule: replace_runs.induct) (auto split: if_splits)

lemma dropWhile_set: "c \<in> set (dropWhile P s) \<Longrightarrow> c \<in> set s"
  by (induction s) (auto split: if_splits)

lemma trim_chars_set: "c \<in> set (trim_chars cs s) \<Longrightarrow> c \<in> set s"
  by (auto simp: trim_chars_def dest!: dropWhile_set)

lemma trim_chars_length: "length (trim_chars cs s) \<le> length s"
  unfolding trim_chars_def length_rev
  by (rule order.trans [OF length_dropWhile_le]) (simp add: length_dropWhile_le)

lemma trim_chars_ends:
  assumes "trim_chars cs s \<noteq> []"
  shows "hd (trim_chars cs s) \<notin> set cs" and "last (trim_chars cs s) \<notin> set cs"
proof -
  let ?p = "\<lambda>c. c \<in> set cs"
  let ?u = "dropWhile ?p s"
  let ?v = "dropWhile ?p (rev ?u)"
  have v: "?v \<noteq> []" using assms by (simp add: trim_chars_def)
  have "\<not> ?p (hd ?v)" by (rule hd_dropWhile [OF v])
  then show "last (trim_chars cs s) \<notin> set cs" using v by (simp add: trim_chars_def last_rev)
  have u: "?u \<noteq> []"
  proof
    assume "?u = []"
    with v show False by (auto dest: dropWhile_set)
  qed
  have "\<not> ?p (hd ?u)" by (rule hd_dropWhile [OF u])
  moreover have "hd (rev ?v) = hd ?u"
  proof -
    obtain t where "rev ?u = t @ ?v" by (metis takeWhile_dropWhile_id)
    then have "?u = rev ?v @ rev t" by (metis rev_append rev_rev_ident)
    then show ?thesis using v by (metis hd_append2 rev_is_Nil_conv)
  qed
  ultimately show "hd (trim_chars cs s) \<notin> set cs" by (simp add: trim_chars_def)
qed

lemma dash_ok: "dns_char CHR ''-''" "label_char CHR ''-''"
  by (simp_all add: dns_char_def label_char_def)


lemma job_with_affinity_identity [simp]:
  "jo_namespace (job_with_affinity p j) = jo_namespace j" "jo_name (job_with_affinity p j) = jo_name j"
  "jo_owners (job_with_affinity p j) = jo_owners j"
  "ps_containers (jo_spec (job_with_affinity p j)) = ps_containers (jo_spec j)"
  "ps_initContainers (jo_spec (job_with_affinity p j)) = ps_initContainers (jo_spec j)"
  "ps_volumes (jo_spec (job_with_affinity p j)) = ps_volumes (jo_spec j)"
  by (simp_all add: job_with_affinity_def apply_host_affinity_def Let_def)

lemma smap_get_put_all: "k \<notin> fst ` set extra \<Longrightarrow> smap_get (put_all extra m) k = smap_get m k"
proof (induction extra arbitrary: m)
  case (Cons p extra)
  then show ?case by (cases p) (simp add: put_all_def)
qed (simp add: put_all_def)

lemma affinity_label_shape:
  "k \<in> fst ` set (host_affinity_labels p) \<Longrightarrow> prefix label_host_affinity_prefix k"
proof -
  have step: "fst ` set (foldl (\<lambda>m key. assoc_put (host_affinity_label_key key) v m) m0 keys) \<subseteq>
      fst ` set m0 \<union> range host_affinity_label_key" for v m0 and keys :: "string list"
  proof (induction keys arbitrary: m0)
    case (Cons key keys)
    show ?case using Cons.IH [of "assoc_put (host_affinity_label_key key) v m0"] by auto
  qed simp
  assume "k \<in> fst ` set (host_affinity_labels p)"
  then obtain q :: workflow_plan where "k \<in> fst ` set (foldl (\<lambda>m key. assoc_put (host_affinity_label_key key)
      (safe_label_value (pl_runName q)) m) [] (host_affinity_volume_keys p))"
    by (cases p) (simp_all add: host_affinity_labels_def)
  with step [of "safe_label_value (pl_runName q)" "[]" "host_affinity_volume_keys p"]
  have "k \<in> range host_affinity_label_key" by auto
  then show ?thesis by (auto simp: host_affinity_label_key_def Let_def)
qed

lemma smap_get_job_labels:
  assumes "\<not> prefix label_host_affinity_prefix k"
  shows "smap_get (jo_labels (job_with_affinity p j)) k = smap_get (jo_labels j) k"
proof -
  have "k \<notin> fst ` set (host_affinity_labels p)" using assms affinity_label_shape by blast
  then show ?thesis
    by (simp add: job_with_affinity_def apply_host_affinity_def smap_get_put_all Let_def)
qed

lemma role_is_no_affinity_label [simp]: "\<not> prefix label_host_affinity_prefix label_role"
  by (simp add: label_host_affinity_prefix_def label_role_def)

lemma build_runner_job_key:
  "job_key (build_runner_job lib run d) = (target_namespace run, job_name run)"
  by (simp add: build_runner_job_def build_source_runner_job_def build_job_base_def job_key_def Let_def
      split: option.splits)

lemma build_adapter_job_key:
  "job_key (build_adapter_job lib run d kind) = (target_namespace run, adapter_job_name run kind)"
  by (simp add: build_adapter_job_def build_job_base_def job_key_def Let_def)

lemma role_of_runner_job [simp]: "smap_get (jo_labels (build_runner_job lib run d)) label_role = role_runner"
  by (simp add: build_runner_job_def build_source_runner_job_def build_job_base_def runner_labels_def
      smap_get_job_labels Let_def split: option.splits)

lemma labels_differ [simp]: "label_role \<noteq> label_adapter_kind"
  by (simp add: label_role_def label_adapter_kind_def)

lemma role_of_adapter_job [simp]:
  "smap_get (jo_labels (build_adapter_job lib run d kind)) label_role = role_adapter"
  by (simp add: build_adapter_job_def build_job_base_def smap_get_job_labels Let_def)

lemma runner_containers:
  "runner_job_image (build_runner_job lib run d) = resolve_runner_image run d"
  by (simp add: build_runner_job_def build_source_runner_job_def runner_job_image_def
      source_runner_container_def workflow_runner_container_def resolve_runner_image_def Let_def
      split: option.splits)

definition child_job_keys :: "criteria_run \<Rightarrow> nsname list" where
  "child_job_keys run = (target_namespace run, job_name run) #
     (if sp_perScopeSessions (ru_spec run) then []
      else map (\<lambda>kind. (target_namespace run, adapter_job_name run kind)) (legacy_adapter_kinds run))"

lemma build_all_keys: "map job_key (build_all lib run d) = child_job_keys run"
  by (simp add: build_all_def child_job_keys_def build_runner_job_key build_adapter_job_key comp_def)

section \<open>Properties\<close>

text \<open>
  A generated object name is a DNS-1123 label whatever the ticket id: 1 to 63 characters, all
  lower-case letters, digits or dashes, with no dash at either end.
\<close>

theorem safe_object_name_dns:
  "let n = safe_object_name s
   in 0 < length n \<and> length n \<le> 63 \<and> list_all dns_char n \<and> hd n \<noteq> CHR ''-'' \<and> last n \<noteq> CHR ''-''"
proof -
  define s2 where "s2 = trim_chars ''-'' (replace_runs dns_char False (map to_lower s))"
  define s3 where "s3 = (if length s2 > 63 then take 63 s2 else s2)"
  define s4 where "s4 = trim_chars ''-'' s3"
  have n: "safe_object_name s = (if s4 = '''' then ''unknown'' else s4)"
    by (simp add: safe_object_name_def s2_def s3_def s4_def Let_def)
  show ?thesis
  proof (cases "s4 = ''''")
    case True
    then show ?thesis by (simp add: n Let_def dns_char_def in_range_def)
  next
    case False
    have "length s4 \<le> length s3" unfolding s4_def by (rule trim_chars_length)
    then have "length s4 \<le> 63" by (auto simp: s3_def split: if_splits)
    moreover have "list_all dns_char s4"
    proof (unfold list_all_iff, intro ballI)
      fix c assume "c \<in> set s4"
      then have "c \<in> set s3" unfolding s4_def by (rule trim_chars_set)
      then have "c \<in> set s2" by (auto simp: s3_def split: if_splits dest: in_set_takeD)
      then have "c \<in> set (replace_runs dns_char False (map to_lower s))"
        unfolding s2_def by (rule trim_chars_set)
      then show "dns_char c" using replace_runs_chars dash_ok(1) by blast
    qed
    moreover have "hd s4 \<noteq> CHR ''-''" "last s4 \<noteq> CHR ''-''"
      using trim_chars_ends [of "''-''" s3] False unfolding s4_def by auto
    ultimately show ?thesis using False by (simp add: n Let_def)
  qed
qed

text \<open>An instance of the parameters, for the witnesses.\<close>

definition sample_library :: library where
  "sample_library = \<lparr>lb_sha256 = (\<lambda>s. take 64 (s @ replicate 64 CHR ''0'')),
     lb_originJson = (\<lambda>j s r i. s), lb_isQuantity = (\<lambda>_. True), lb_urlPort = (\<lambda>_. '''')\<rparr>"

definition sample_defaults :: defaults where
  "sample_defaults = \<lparr>df_image = '''', df_dataPVC = '''', df_providerBaseURL = '''',
     df_criteriaServerAddr = '''', df_debugEventsFile = '''', df_criteriaBaseImage = '''',
     df_adapterRegistry = '''', df_adapterTag = '''', df_jobArch = '''', df_legacySecretVolumes = False\<rparr>"

text \<open>
  A run's Jobs always start with its one runner Job, and the Jobs have pairwise different names:
  the set is the same under any operator defaults, so the Jobs one operator build creates are the
  Jobs another one finds.
\<close>

theorem build_all_identity:
  assumes "\<And>w. sp_workflow (ru_spec run) = Some w \<Longrightarrow> distinct (map fst (wf_adapterImages w))"
  shows "map job_key (build_all lib run d) = map job_key (build_all lib run d') \<and>
    distinct (map job_key (build_all lib run d)) \<and>
    filter (\<lambda>j. smap_get (jo_labels j) label_role = role_runner) (build_all lib run d) = [build_runner_job lib run d]"
proof -
  have kinds: "distinct (legacy_adapter_kinds run)"
    using assms by (auto simp: legacy_adapter_kinds_def default_adapter_kinds_def distinct_sort
        split: option.splits)
  have "inj_on (\<lambda>kind. (target_namespace run, adapter_job_name run kind)) (set (legacy_adapter_kinds run))"
    by (auto simp: inj_on_def adapter_job_name_def)
  then have "distinct (child_job_keys run)"
    using kinds by (auto simp: child_job_keys_def distinct_map adapter_job_name_def)
  moreover have "filter (\<lambda>j. smap_get (jo_labels j) label_role = role_runner)
      (map (build_adapter_job lib run d) ks) = []" for ks
    by (simp add: filter_empty_conv role_adapter_def role_runner_def)
  ultimately show ?thesis unfolding build_all_keys by (simp add: build_all_def)
qed

theorem build_all_identity_witness:
  "distinct (map job_key (build_all sample_library zero_run sample_defaults))"
  using build_all_identity [of zero_run sample_library] by (simp add: zero_defs)

text \<open>
  Every container of every Job runs without privilege escalation and with all capabilities
  dropped, in a pod that runs as the unprivileged user, and the runner Job pins the resolved image.
\<close>

theorem child_jobs_restricted:
  "(\<forall>j \<in> set (build_all lib run d).
      ps_security (jo_spec j) = child_pod_security \<and>
      (\<forall>c \<in> set (ps_initContainers (jo_spec j) @ ps_containers (jo_spec j)).
         ct_security c = restricted_container_security_context)) \<and>
   runner_job_image (build_runner_job lib run d) = resolve_runner_image run d"
proof -
  have sec [simp]: "ps_security (jo_spec (job_with_affinity p j)) = ps_security (jo_spec j)" for p j
    by (simp add: job_with_affinity_def apply_host_affinity_def Let_def)
  note builders = build_runner_job_def build_source_runner_job_def build_adapter_job_def
    build_job_base_def child_pod_spec_def repo_clone_container_def source_repo_clone_container_def
    workflow_runner_container_def source_runner_container_def adapter_container_def Let_def
  have "ps_security (jo_spec (build_runner_job lib run d)) = child_pod_security \<and>
    (\<forall>c \<in> set (ps_initContainers (jo_spec (build_runner_job lib run d)) @
                ps_containers (jo_spec (build_runner_job lib run d))).
       ct_security c = restricted_container_security_context)"
    by (simp add: builders split: option.splits)
  moreover have "ps_security (jo_spec (build_adapter_job lib run d kind)) = child_pod_security \<and>
    (\<forall>c \<in> set (ps_initContainers (jo_spec (build_adapter_job lib run d kind)) @
                ps_containers (jo_spec (build_adapter_job lib run d kind))).
       ct_security c = restricted_container_security_context)" for kind
    by (simp add: builders)
  ultimately show ?thesis by (simp add: build_all_def runner_containers)
qed

theorem child_jobs_restricted_witness:
  "runner_job_image (build_runner_job sample_library (zero_run\<lparr>ru_spec := zero_spec\<lparr>sp_image := ''reg/flow:1''\<rparr>\<rparr>) sample_defaults)
     = ''reg/flow:1''"
  using child_jobs_restricted [of sample_library "zero_run\<lparr>ru_spec := zero_spec\<lparr>sp_image := ''reg/flow:1''\<rparr>\<rparr>" sample_defaults]
  by (simp add: resolve_runner_image_def zero_defs)

lemma declared_volumes_names:
  "(includeData \<Longrightarrow> vols \<noteq> [] \<and> vl_name (vols ! 0) = data_volume_name) \<Longrightarrow>
   vl_name ` set (declared_volumes lib includeData vs vols) =
     vl_name ` set vols \<union> workflow_pod_volume_name ` set vs"
proof (induction vs arbitrary: vols)
  case (Cons v vs)
  show ?case
  proof (cases "workflow_pod_volume_name v = data_volume_name \<and> includeData")
    case True
    with Cons.prems obtain h t where vols: "vols = h # t" "vl_name h = data_volume_name"
      by (cases vols) auto
    have "vl_name ` set (declared_volumes lib includeData vs (workflow_volume lib v # t)) =
        vl_name ` set (workflow_volume lib v # t) \<union> workflow_pod_volume_name ` set vs"
      by (rule Cons.IH) (simp add: workflow_volume_def True)
    with True vols show ?thesis by (simp add: workflow_volume_def)
  next
    case False
    have "vl_name ` set (declared_volumes lib includeData vs (vols @ [workflow_volume lib v])) =
        vl_name ` set (vols @ [workflow_volume lib v]) \<union> workflow_pod_volume_name ` set vs"
      by (rule Cons.IH) (use Cons.prems in \<open>simp add: nth_append\<close>)
    moreover have "declared_volumes lib includeData (v # vs) vols =
        declared_volumes lib includeData vs (vols @ [workflow_volume lib v])"
      using False by auto
    ultimately show ?thesis by (simp add: workflow_volume_def)
  qed
qed simp

lemma pod_volumes_names:
  "vl_name ` set (pod_volumes lib (Some q) pvc includeData) =
     (if includeData then {data_volume_name} else {}) \<union>
     workflow_pod_volume_name ` set (pl_volumes q) \<union>
     (\<lambda>s. secret_volume_prefix @ se_name s) ` set (pl_secrets q)"
  using declared_volumes_names [of includeData "if includeData then [data_volume pvc] else []" lib "pl_volumes q"]
  by (simp add: pod_volumes_def data_volume_def csi_volume_def image_Un image_image Let_def)

lemma pod_volumes_names_None:
  "vl_name ` set (pod_volumes lib None pvc includeData) = (if includeData then {data_volume_name} else {})"
  by (simp add: pod_volumes_def data_volume_def)

lemma env_mounts_names:
  "vm_name ` set (env_mounts q includeData) \<subseteq>
     (if includeData then {data_volume_name} else {}) \<union>
     workflow_pod_volume_name ` set (pl_volumes q) \<union>
     (\<lambda>s. secret_volume_prefix @ se_name s) ` set (pl_secrets q)"
  by (auto simp: env_mounts_def data_mount_def plain_mount_def)

lemma env_mounts_backed:
  "m \<in> set (env_mounts q inc) \<Longrightarrow> vm_name m \<in> vl_name ` set (pod_volumes lib (Some q) pvc inc)"
  using env_mounts_names [of q inc] unfolding pod_volumes_names by blast

definition mounts_backed :: "container \<Rightarrow> pod_spec \<Rightarrow> bool" where
  "mounts_backed c ps \<longleftrightarrow> vm_name ` set (ct_mounts c) \<subseteq> vl_name ` set (ps_volumes ps)"

lemma runner_mounts_backed:
  "vm_name ` set (runner_mounts p legacy) \<subseteq> vl_name ` set (runner_volumes lib p pvc legacy)"
  "vm_name ` set (clone_mounts p legacy) \<subseteq> vl_name ` set (runner_volumes lib p pvc legacy)"
proof -
  have "vm_name ` set (runner_mounts p legacy) \<subseteq> vl_name ` set (runner_volumes lib p pvc legacy) \<and>
        vm_name ` set (clone_mounts p legacy) \<subseteq> vl_name ` set (runner_volumes lib p pvc legacy)"
  proof (cases p)
    case None
    then show ?thesis
      by (auto simp: runner_mounts_def clone_mounts_def with_scripts_mount_def plain_mount_def
          data_mount_def legacy_secret_mount_def runner_volumes_def image_Un pod_volumes_names_None
          csi_volume_def scripts_volume_def)
  next
    case (Some q)
    then show ?thesis using env_mounts_backed [of _ q True lib pvc]
      by (simp add: runner_mounts_def clone_mounts_def with_scripts_mount_def plain_mount_def
          runner_volumes_def image_Un scripts_volume_def image_subset_iff)
  qed
  then show "vm_name ` set (runner_mounts p legacy) \<subseteq> vl_name ` set (runner_volumes lib p pvc legacy)"
    and "vm_name ` set (clone_mounts p legacy) \<subseteq> vl_name ` set (runner_volumes lib p pvc legacy)"
    by simp_all
qed

lemma adapter_mounts_backed:
  "vm_name ` set (adapter_mounts p inc) \<subseteq> vl_name ` set (adapter_volumes lib p pvc inc)"
  "vm_name ` set (peer_adapter_mounts p inc) \<subseteq> vl_name ` set (pod_volumes lib p pvc inc)"
proof -
  have "vm_name ` set (adapter_mounts p inc) \<subseteq> vl_name ` set (adapter_volumes lib p pvc inc) \<and>
        vm_name ` set (peer_adapter_mounts p inc) \<subseteq> vl_name ` set (pod_volumes lib p pvc inc)"
  proof (cases p)
    case None
    then show ?thesis
      by (auto simp: adapter_mounts_def peer_adapter_mounts_def with_scripts_mount_def plain_mount_def
          data_mount_def adapter_volumes_def image_Un pod_volumes_names_None scripts_volume_def)
  next
    case (Some q)
    then show ?thesis using env_mounts_backed [of _ q inc lib pvc]
      by (simp add: adapter_mounts_def peer_adapter_mounts_def with_scripts_mount_def plain_mount_def
          adapter_volumes_def image_Un scripts_volume_def image_subset_iff)
  qed
  then show "vm_name ` set (adapter_mounts p inc) \<subseteq> vl_name ` set (adapter_volumes lib p pvc inc)"
    and "vm_name ` set (peer_adapter_mounts p inc) \<subseteq> vl_name ` set (pod_volumes lib p pvc inc)"
    by simp_all
qed

text \<open>
  In every Job each mount of each container names a volume of the pod, whatever volumes and
  secrets the workflow declares and whether or not it re-sources the data volume.
\<close>

theorem child_jobs_mounts_backed:
  "\<forall>j \<in> set (build_all lib run d).
     \<forall>c \<in> set (ps_initContainers (jo_spec j) @ ps_containers (jo_spec j)). mounts_backed c (jo_spec j)"
proof -
  note builders = build_runner_job_def build_source_runner_job_def build_adapter_job_def
    build_job_base_def child_pod_spec_def repo_clone_container_def source_repo_clone_container_def
    workflow_runner_container_def source_runner_container_def adapter_container_def Let_def
  have "\<forall>c \<in> set (ps_initContainers (jo_spec (build_runner_job lib run d)) @
      ps_containers (jo_spec (build_runner_job lib run d))).
      mounts_backed c (jo_spec (build_runner_job lib run d))"
    using runner_mounts_backed [of "new_workflow_plan run" "df_legacySecretVolumes d" lib "data_pvc d"]
    by (simp add: builders mounts_backed_def split: option.splits)
  moreover have "\<forall>c \<in> set (ps_initContainers (jo_spec (build_adapter_job lib run d kind)) @
      ps_containers (jo_spec (build_adapter_job lib run d kind))).
      mounts_backed c (jo_spec (build_adapter_job lib run d kind))" for kind
    using adapter_mounts_backed(1) [of "new_workflow_plan run" True lib "data_pvc d"]
    by (simp add: builders mounts_backed_def)
  ultimately show ?thesis by (simp add: build_all_def)
qed

theorem child_jobs_mounts_backed_witness:
  "mounts_backed (hd (ps_containers (jo_spec (build_runner_job sample_library zero_run sample_defaults))))
     (jo_spec (build_runner_job sample_library zero_run sample_defaults))"
  using child_jobs_mounts_backed [of sample_library zero_run sample_defaults]
  by (simp add: build_all_def build_runner_job_def zero_defs Let_def)

end
