(* ===== verification/RunQueue.thy ===== *)
theory RunQueue
  imports RunTypes
begin

text \<open>
  The admission queue of \<open>criteria-k8s/internal/controller/queue.go\<close>: FIFO admission keyed by
  (repository URL, class), at most one admitted run per key. The two Go maps are partial functions
  of the queue key; the mutex makes each method one atomic step, so a method is a function from
  queue to queue. The theory holds the operations, the invariant they keep, the FIFO contract they
  implement (a locale and its interpretation) and what the contract gives: no preemption, order of
  arrival, progress.
\<close>

section \<open>State and operations\<close>

type_synonym queue_key = "string \<times> string"

record run_queue =
  rq_queues :: "queue_key \<rightharpoonup> nsname list"
  rq_running :: "queue_key \<rightharpoonup> nsname"

definition new_run_queue :: run_queue where
  "new_run_queue = \<lparr>rq_queues = Map.empty, rq_running = Map.empty\<rparr>"

definition admission_lock_key :: "criteria_run \<Rightarrow> string" where
  "admission_lock_key r =
     (case sp_workflow (ru_spec r) of
        Some w \<Rightarrow>
          (case wf_interface w of
             Some iface \<Rightarrow>
               (if if_lockKey iface = interface_lock_key_repo_url
                then sp_repoURL (ru_spec r) else sp_repoURL (ru_spec r))
           | None \<Rightarrow> sp_repoURL (ru_spec r))
      | None \<Rightarrow> sp_repoURL (ru_spec r))"

definition admission_class :: "criteria_run \<Rightarrow> string" where
  "admission_class r =
     (case sp_workflow (ru_spec r) of
        Some w \<Rightarrow> if wf_class w = run_class_triage then run_class_triage else run_class_dev
      | None \<Rightarrow> run_class_dev)"

definition queue_key_of :: "criteria_run \<Rightarrow> queue_key" where
  "queue_key_of r = (admission_lock_key r, admission_class r)"

definition index_of :: "nsname list \<Rightarrow> nsname \<Rightarrow> int" where
  "index_of entries key =
     (case index_where (\<lambda>e. e = key) entries of None \<Rightarrow> -1 | Some i \<Rightarrow> int i)"

text \<open>Reading an absent key of a Go map yields the zero value: the nil slice, the empty name.\<close>

definition zero_name :: nsname where "zero_name = ('''', '''')"

definition entries_at :: "run_queue \<Rightarrow> queue_key \<Rightarrow> nsname list" where
  "entries_at q qk = (case rq_queues q qk of None \<Rightarrow> [] | Some es \<Rightarrow> es)"

definition running_at :: "run_queue \<Rightarrow> queue_key \<Rightarrow> nsname" where
  "running_at q qk = (case rq_running q qk of None \<Rightarrow> zero_name | Some k \<Rightarrow> k)"

fun status_loop :: "nsname \<Rightarrow> nsname \<Rightarrow> nsname list \<Rightarrow> nat \<times> string list \<Rightarrow> nat \<times> string list" where
  "status_loop runKey key [] acc = acc"
| "status_loop runKey key (e # es) (position, pending) =
     (if e = runKey then status_loop runKey key es (position, pending)
      else status_loop runKey key es
             (if e = key then length pending + 1 else position, pending @ [snd e]))"

definition status_locked ::
  "run_queue \<Rightarrow> queue_key \<Rightarrow> nsname \<Rightarrow> nsname list \<Rightarrow> criteria_run_queue_status" where
  "status_locked q qk key entries =
     (let runKey = running_at q qk;
          (position, pending) = status_loop runKey key entries (0, [])
      in \<lparr>qs_repoURL = fst qk, qs_class = snd qk, qs_position = position,
          qs_length = length entries,
          qs_running = (if runKey \<noteq> zero_name then snd runKey else ''''),
          qs_pending = pending\<rparr>)"

definition enqueue ::
  "run_queue \<Rightarrow> criteria_run \<Rightarrow> run_queue \<times> bool \<times> criteria_run_queue_status \<times> nsname option" where
  "enqueue q r =
     (let qk = queue_key_of r; key = run_key r;
          entries0 = entries_at q qk;
          absent = (index_of entries0 key = -1);
          entries = (if absent then entries0 @ [key] else entries0);
          q1 = (if absent then q\<lparr>rq_queues := (rq_queues q)(qk \<mapsto> entries)\<rparr> else q);
          q2 = (if rq_running q1 qk = None \<and> length entries > 0
                then q1\<lparr>rq_running := (rq_running q1)(qk \<mapsto> entries ! 0)\<rparr> else q1);
          admitted = (running_at q2 qk = key);
          prev = (if \<not> admitted \<and> running_at q2 qk \<noteq> zero_name
                  then Some (running_at q2 qk) else None)
      in (q2, admitted, status_locked q2 qk key entries, prev))"

definition release :: "run_queue \<Rightarrow> criteria_run \<Rightarrow> run_queue \<times> nsname option" where
  "release q r =
     (let qk = queue_key_of r; key = run_key r;
          entries0 = entries_at q qk;
          idx = index_of entries0 key
      in if idx = -1 then (q, None)
         else
           let entries = take (nat idx) entries0 @ drop (nat idx + 1) entries0;
               q1 = (if length entries = 0 then q\<lparr>rq_queues := (rq_queues q)(qk := None)\<rparr>
                     else q\<lparr>rq_queues := (rq_queues q)(qk \<mapsto> entries)\<rparr>);
               q2 = (if running_at q1 qk = key
                     then q1\<lparr>rq_running := (rq_running q1)(qk := None)\<rparr> else q1)
           in if length entries > 0 \<and> rq_running q2 qk = None
              then (q2\<lparr>rq_running := (rq_running q2)(qk \<mapsto> entries ! 0)\<rparr>, Some (entries ! 0))
              else (q2, None))"

text \<open>
  \<open>Recover\<close> files every live, non-terminal run of the listing (a failed listing is an error and
  leaves the queue alone), then admits the head of every queue with nothing running. The second
  loop ranges over a map; its iterations touch different keys, so it is one pointwise update.
\<close>

definition recover_file :: "run_queue \<Rightarrow> criteria_run \<Rightarrow> run_queue" where
  "recover_file q r =
     (if ru_deletionTimestamp r \<noteq> None then q
      else if is_terminal_phase (st_phase (ru_status r)) then q
      else
        let qk = queue_key_of r; key = run_key r
        in if index_of (entries_at q qk) key = -1
           then q\<lparr>rq_queues := (rq_queues q)(qk \<mapsto> entries_at q qk @ [key])\<rparr> else q)"

definition admit_heads :: "run_queue \<Rightarrow> run_queue" where
  "admit_heads q =
     q\<lparr>rq_running := (\<lambda>qk. case rq_queues q qk of
          Some (e # es) \<Rightarrow> (case rq_running q qk of None \<Rightarrow> Some e | Some k \<Rightarrow> Some k)
        | _ \<Rightarrow> rq_running q qk)\<rparr>"

definition recover :: "run_queue \<Rightarrow> 'e + criteria_run list \<Rightarrow> 'e + run_queue" where
  "recover q listing =
     (case listing of
        Inl e \<Rightarrow> Inl e
      | Inr runs \<Rightarrow> Inr (admit_heads (foldl recover_file q runs)))"

section \<open>The invariant\<close>

text \<open>
  A key has a running run exactly when it has a queue; the queue is non-empty, without duplicates,
  and the running run is its head.
\<close>

definition queue_inv :: "run_queue \<Rightarrow> bool" where
  "queue_inv q \<longleftrightarrow>
     (\<forall>qk. case rq_queues q qk of
             None \<Rightarrow> rq_running q qk = None
           | Some es \<Rightarrow> es \<noteq> [] \<and> distinct es \<and> rq_running q qk = Some (hd es))"

lemma queue_inv_at:
  "queue_inv q \<Longrightarrow> distinct (entries_at q qk) \<and>
     rq_running q qk = (case entries_at q qk of [] \<Rightarrow> None | e # _ \<Rightarrow> Some e)"
  unfolding queue_inv_def entries_at_def
  by (drule spec [of _ qk]) (auto split: option.splits list.splits simp: hd_conv_nth)

lemma queue_inv_lookup:
  "queue_inv q \<Longrightarrow> rq_queues q qk = (if entries_at q qk = [] then None else Some (entries_at q qk))"
  unfolding queue_inv_def entries_at_def
  by (drule spec [of _ qk]) (auto split: option.splits)

lemma queue_inv_new: "queue_inv new_run_queue"
  by (simp add: queue_inv_def new_run_queue_def)

lemma index_of_absent: "index_of es k = -1 \<longleftrightarrow> k \<notin> set es"
  by (auto simp: index_of_def index_where_None_iff split: option.splits
           dest!: index_where_SomeD nth_mem)

lemma index_of_removes:
  assumes "index_of es k \<noteq> -1"
  shows "take (nat (index_of es k)) es @ drop (nat (index_of es k) + 1) es = remove1 k es"
proof -
  from assms obtain i where i: "index_where (\<lambda>e. e = k) es = Some i"
    by (auto simp: index_of_def split: option.splits)
  then show ?thesis
    using remove_nth_eq_remove1 [of k es i] by (simp add: index_of_def)
qed

lemma entries_at_upd [simp]:
  "entries_at (q\<lparr>rq_queues := (rq_queues q)(qk \<mapsto> es)\<rparr>) qk' = (if qk' = qk then es else entries_at q qk')"
  "entries_at (q\<lparr>rq_queues := (rq_queues q)(qk := None)\<rparr>) qk' = (if qk' = qk then [] else entries_at q qk')"
  "entries_at (q\<lparr>rq_running := f\<rparr>) qk' = entries_at q qk'"
  by (simp_all add: entries_at_def)

text \<open>The line of waiting runs and its admitted head, after each operation.\<close>

lemma enqueue_entries:
  "entries_at (fst (enqueue q r)) qk =
     (if qk = queue_key_of r \<and> run_key r \<notin> set (entries_at q qk)
      then entries_at q qk @ [run_key r] else entries_at q qk)"
  by (auto simp: enqueue_def Let_def index_of_absent)

lemma release_entries:
  "entries_at (fst (release q r)) qk =
     (if qk = queue_key_of r then remove1 (run_key r) (entries_at q qk) else entries_at q qk)"
proof (cases "index_of (entries_at q (queue_key_of r)) (run_key r) = -1")
  case True
  then show ?thesis
    by (auto simp: release_def Let_def index_of_absent remove1_idem)
next
  case False
  then show ?thesis
    using index_of_removes [OF False]
    by (auto simp: release_def Let_def)
qed

lemma enqueue_running:
  assumes "queue_inv q"
  shows "rq_running (fst (enqueue q r)) qk =
     (if qk = queue_key_of r \<and> entries_at q qk = [] then Some (run_key r) else rq_running q qk)"
  using queue_inv_at [OF assms, of "queue_key_of r"]
  by (auto simp: enqueue_def Let_def index_of_absent nth_append split: list.splits)

lemma enqueue_queues:
  "rq_queues (fst (enqueue q r)) =
     (if run_key r \<in> set (entries_at q (queue_key_of r)) then rq_queues q
      else (rq_queues q)(queue_key_of r \<mapsto> entries_at q (queue_key_of r) @ [run_key r]))"
  by (auto simp: enqueue_def Let_def index_of_absent)

lemma queue_inv_enqueue:
  assumes "queue_inv q"
  shows "queue_inv (fst (enqueue q r))"
  unfolding queue_inv_def
proof
  fix qk
  show "case rq_queues (fst (enqueue q r)) qk of
          None \<Rightarrow> rq_running (fst (enqueue q r)) qk = None
        | Some es \<Rightarrow> es \<noteq> [] \<and> distinct es \<and> rq_running (fst (enqueue q r)) qk = Some (hd es)"
    using queue_inv_at [OF assms, of qk] queue_inv_lookup [OF assms, of qk]
    by (auto simp: enqueue_queues enqueue_running [OF assms] hd_append_single
             split: list.splits option.splits)
qed

lemma release_queues:
  assumes "queue_inv q"
  shows "rq_queues (fst (release q r)) =
     (let es = remove1 (run_key r) (entries_at q (queue_key_of r))
      in (rq_queues q)(queue_key_of r := (if es = [] then None else Some es)))"
proof (cases "run_key r \<in> set (entries_at q (queue_key_of r))")
  case True
  then show ?thesis
    using index_of_removes [of "entries_at q (queue_key_of r)" "run_key r"]
    by (auto simp: release_def Let_def index_of_absent)
next
  case False
  then show ?thesis
    using queue_inv_lookup [OF assms, of "queue_key_of r"]
    by (auto simp: release_def Let_def index_of_absent remove1_idem fun_upd_idem)
qed

lemma release_running:
  assumes "queue_inv q"
  shows "rq_running (fst (release q r)) =
     (let es = remove1 (run_key r) (entries_at q (queue_key_of r))
      in (rq_running q)(queue_key_of r := (if es = [] then None else Some (hd es))))"
proof (cases "run_key r \<in> set (entries_at q (queue_key_of r))")
  case True
  then show ?thesis
    using index_of_removes [of "entries_at q (queue_key_of r)" "run_key r"]
      queue_inv_at [OF assms, of "queue_key_of r"]
    by (cases "entries_at q (queue_key_of r)")
      (auto simp: release_def Let_def index_of_absent running_at_def hd_conv_nth fun_eq_iff
            split: option.splits if_splits)
next
  case False
  then show ?thesis
    using queue_inv_at [OF assms, of "queue_key_of r"]
    by (auto simp: release_def Let_def index_of_absent remove1_idem fun_eq_iff split: list.splits)
qed

lemma queue_inv_release:
  assumes "queue_inv q"
  shows "queue_inv (fst (release q r))"
  unfolding queue_inv_def
proof
  fix qk
  show "case rq_queues (fst (release q r)) qk of
          None \<Rightarrow> rq_running (fst (release q r)) qk = None
        | Some es \<Rightarrow> es \<noteq> [] \<and> distinct es \<and> rq_running (fst (release q r)) qk = Some (hd es)"
    using queue_inv_at [OF assms, of qk] queue_inv_lookup [OF assms, of qk]
    by (auto simp: release_queues [OF assms] release_running [OF assms] Let_def distinct_remove1
             split: list.splits option.splits if_splits)
qed

section \<open>The FIFO contract\<close>

text \<open>
  What a client of the queue relies on: a line of waiting identities per lane, arrivals join at the
  end of their lane once, departures leave it, the holder of a lane is the head of its line.
  Everything else (no preemption, order of arrival, progress) follows, once, in the locale.
\<close>

datatype 'r queue_event = Arrive 'r | Leave 'r

locale fifo_admission =
  fixes enq :: "'q \<Rightarrow> 'r \<Rightarrow> 'q"
    and rel :: "'q \<Rightarrow> 'r \<Rightarrow> 'q"
    and lane :: "'r \<Rightarrow> 'l"
    and ident :: "'r \<Rightarrow> 'k"
    and line :: "'q \<Rightarrow> 'l \<Rightarrow> 'k list"
    and holder :: "'q \<Rightarrow> 'l \<Rightarrow> 'k option"
    and inv :: "'q \<Rightarrow> bool"
  assumes inv_enq: "inv q \<Longrightarrow> inv (enq q r)"
    and inv_rel: "inv q \<Longrightarrow> inv (rel q r)"
    and line_enq: "inv q \<Longrightarrow> line (enq q r) l =
          (if l = lane r \<and> ident r \<notin> set (line q l) then line q l @ [ident r] else line q l)"
    and line_rel: "inv q \<Longrightarrow> line (rel q r) l =
          (if l = lane r then remove1 (ident r) (line q l) else line q l)"
    and line_distinct: "inv q \<Longrightarrow> distinct (line q l)"
    and holder_line: "inv q \<Longrightarrow> holder q l = (case line q l of [] \<Rightarrow> None | k # ks \<Rightarrow> Some k)"
begin

fun play :: "'q \<Rightarrow> 'r queue_event list \<Rightarrow> 'q" where
  "play q [] = q"
| "play q (Arrive r # es) = play (enq q r) es"
| "play q (Leave r # es) = play (rel q r) es"

definition spares :: "'l \<Rightarrow> 'k \<Rightarrow> 'r queue_event list \<Rightarrow> bool" where
  "spares l k es \<longleftrightarrow> (\<forall>r. Leave r \<in> set es \<longrightarrow> \<not> (lane r = l \<and> ident r = k))"

lemma inv_play: "inv q \<Longrightarrow> inv (play q es)"
  by (induction q es rule: play.induct) (auto intro: inv_enq inv_rel)

text \<open>
  While \<open>k\<close> does not leave, the line in front of it only shrinks: an event list keeps a prefix
  structure in which what stands before \<open>k\<close> is a subsequence of what stood there.
\<close>

lemma front_shrinks_step_enq:
  assumes "inv q" and "line q l = front @ k # rest"
  shows "\<exists>rest'. line (enq q r) l = front @ k # rest'"
  using assms by (auto simp: line_enq)

lemma front_shrinks_step_rel:
  assumes "inv q" and "line q l = front @ k # rest" and "\<not> (lane r = l \<and> ident r = k)"
  shows "\<exists>rest'. line (rel q r) l = (if lane r = l then remove1 (ident r) front else front) @ k # rest'"
proof (cases "lane r = l \<and> ident r \<in> set front")
  case True
  with assms show ?thesis by (auto simp: line_rel remove1_append)
next
  case False
  with assms show ?thesis by (auto simp: line_rel remove1_append remove1_idem)
qed

lemma front_shrinks:
  assumes "inv q" and "line q l = front @ k # rest" and "spares l k es"
  shows "\<exists>front' rest'. line (play q es) l = front' @ k # rest' \<and> subseq front' front"
  using assms
proof (induction q es arbitrary: front rest rule: play.induct)
  case (1 q)
  then show ?case by auto
next
  case (2 q r es)
  from front_shrinks_step_enq [OF 2(2,3)] obtain rest'
    where "line (enq q r) l = front @ k # rest'" by blast
  moreover have "spares l k es" using 2(4) by (simp add: spares_def)
  ultimately show ?case using 2(1) [OF inv_enq [OF 2(2)]] by auto
next
  case (3 q r es)
  have ne: "\<not> (lane r = l \<and> ident r = k)" and sp: "spares l k es"
    using 3(4) by (auto simp: spares_def)
  let ?front = "if lane r = l then remove1 (ident r) front else front"
  from front_shrinks_step_rel [OF 3(2,3) ne] obtain rest'
    where "line (rel q r) l = ?front @ k # rest'" by blast
  from 3(1) [OF inv_rel [OF 3(2)] this sp] obtain front' rest''
    where "line (play (rel q r) es) l = front' @ k # rest''" and "subseq front' ?front" by blast
  moreover have "subseq ?front front" by (simp add: subseq_remove1)
  ultimately show ?case by (auto intro: subseq_order.trans)
qed

text \<open>No preemption: the holder keeps its lane through everything but its own departure.\<close>

lemma holder_kept:
  assumes "inv q" and "holder q l = Some k" and "spares l k es"
  shows "holder (play q es) l = Some k"
proof -
  from assms(1,2) obtain rest where "line q l = [] @ k # rest"
    by (auto simp: holder_line split: list.splits)
  from front_shrinks [OF assms(1) this assms(3)] obtain rest'
    where "line (play q es) l = k # rest'" by (auto dest: subseq_Nil)
  with inv_play [OF assms(1)] show ?thesis by (simp add: holder_line)
qed

text \<open>Order of arrival: whoever stands behind never gets in front.\<close>

lemma no_overtaking:
  assumes "inv q" and "line q l = front @ k # rest" and "spares l k es"
    and "holder (play q es) l = Some k'"
  shows "k' = k \<or> k' \<in> set front"
proof -
  from front_shrinks [OF assms(1-3)] obtain front' rest'
    where line: "line (play q es) l = front' @ k # rest'" and sub: "subseq front' front" by blast
  show ?thesis
  proof (cases front')
    case Nil
    with line assms(4) inv_play [OF assms(1)] show ?thesis by (simp add: holder_line)
  next
    case (Cons x xs)
    with line assms(4) inv_play [OF assms(1), of es] have "k' = x" by (simp add: holder_line)
    moreover have "x \<in> set front" using sub Cons by (auto elim: list_emb_set)
    ultimately show ?thesis by simp
  qed
qed

text \<open>Progress: when everybody in front has left, the next in line holds the lane.\<close>

lemma leaves_clear_front:
  assumes "inv q" and "line q l = map ident rs @ k # rest" and "\<forall>r \<in> set rs. lane r = l"
  shows "line (play q (map Leave rs)) l = k # rest"
  using assms
proof (induction rs arbitrary: q)
  case (Cons r rs)
  then have "line (rel q r) l = map ident rs @ k # rest" by (simp add: line_rel)
  with Cons show ?case by (simp add: inv_rel)
qed simp

lemma progress:
  assumes "inv q" and "line q l = map ident rs @ k # rest" and "\<forall>r \<in> set rs. lane r = l"
  shows "holder (play q (map Leave rs)) l = Some k"
  using leaves_clear_front [OF assms] inv_play [OF assms(1)] by (simp add: holder_line)

lemma lanes_independent:
  assumes "inv q" and "\<forall>r. (Arrive r \<in> set es \<or> Leave r \<in> set es) \<longrightarrow> lane r \<noteq> l"
  shows "line (play q es) l = line q l"
  using assms by (induction q es rule: play.induct) (auto simp: line_enq line_rel inv_enq inv_rel)

end

text \<open>The queue of the code implements the contract.\<close>

interpretation rq: fifo_admission
  "\<lambda>q r. fst (enqueue q r)" "\<lambda>q r. fst (release q r)" queue_key_of run_key
  entries_at rq_running queue_inv
  by unfold_locales
    (auto simp: queue_inv_enqueue queue_inv_release enqueue_entries release_entries queue_inv_at
          split: list.splits)

definition run_events :: "run_queue \<Rightarrow> criteria_run queue_event list \<Rightarrow> run_queue" where
  "run_events q es = foldl (\<lambda>q e. case e of Arrive r \<Rightarrow> fst (enqueue q r) | Leave r \<Rightarrow> fst (release q r)) q es"

lemma run_events_play: "run_events q es = rq.play q es"
  by (induction q es rule: rq.play.induct) (auto simp: run_events_def)

section \<open>The status a run is shown\<close>

lemma status_loop_pending:
  "snd (status_loop rk key es (p, pend)) = pend @ map snd (filter (\<lambda>e. e \<noteq> rk) es)"
  by (induction es arbitrary: p pend) auto

lemma status_loop_absent:
  "key \<notin> set es \<or> key = rk \<Longrightarrow> fst (status_loop rk key es (p, pend)) = p"
  by (induction es arbitrary: p pend) auto

lemma status_loop_position:
  assumes "distinct es" and "index_where (\<lambda>e. e = key) es = Some i" and "rk \<notin> set es"
  shows "fst (status_loop rk key es (p, pend)) = length pend + i + 1"
  using assms
proof (induction es arbitrary: p pend i)
  case (Cons e es)
  show ?case
  proof (cases "e = key")
    case True
    with Cons.prems show ?thesis by (auto simp: status_loop_absent)
  next
    case False
    with Cons.prems obtain j where j: "index_where (\<lambda>e. e = key) es = Some j" "i = Suc j" by auto
    from Cons.prems(3) have "e \<noteq> rk" by auto
    with Cons.IH [OF _ j(1)] Cons.prems False j(2) show ?thesis by simp
  qed
qed simp

lemma filter_tail_distinct: "distinct (e # es) \<Longrightarrow> filter (\<lambda>x. x \<noteq> e) es = es"
  by (auto intro!: filter_True)

text \<open>What \<open>statusLocked\<close> reports when the running run is the head of the line.\<close>

lemma status_locked_head:
  assumes "running_at q qk = e" and "distinct (e # es)"
  shows "status_locked q qk key (e # es) =
     \<lparr>qs_repoURL = fst qk, qs_class = snd qk,
      qs_position = (case index_where (\<lambda>x. x = key) (e # es) of None \<Rightarrow> 0 | Some i \<Rightarrow> i),
      qs_length = Suc (length es), qs_running = snd e, qs_pending = map snd es\<rparr>"
proof -
  have pend: "snd (status_loop e key (e # es) (0, [])) = map snd es"
    using assms(2) by (simp only: status_loop_pending) (simp add: filter_tail_distinct)
  have pos: "fst (status_loop e key (e # es) (0, [])) =
      (case index_where (\<lambda>x. x = key) (e # es) of None \<Rightarrow> 0 | Some i \<Rightarrow> i)"
  proof (cases "key = e \<or> key \<notin> set es")
    case True
    then have "fst (status_loop e key es (0, [])) = 0" by (auto intro!: status_loop_absent)
    with True show ?thesis by (auto simp: index_where_None_iff split: option.splits dest!: index_where_SomeD nth_mem)
  next
    case False
    then obtain i where i: "index_where (\<lambda>x. x = key) es = Some i"
      using index_where_None_iff [of "\<lambda>x. x = key" es] by (cases "index_where (\<lambda>x. x = key) es") auto
    with assms(2) False status_loop_position [of es key i e 0 "[]"] show ?thesis by auto
  qed
  show ?thesis
    using assms(1) pend pos
    by (cases "status_loop e key (e # es) (0, [])") (simp add: status_locked_def zero_name_def)
qed

section \<open>Recovery\<close>

definition queues_ok :: "run_queue \<Rightarrow> bool" where
  "queues_ok q \<longleftrightarrow>
     (\<forall>qk. case rq_queues q qk of
             None \<Rightarrow> rq_running q qk = None
           | Some es \<Rightarrow> es \<noteq> [] \<and> distinct es \<and> rq_running q qk \<in> {None, Some (hd es)})"

lemma queues_okD:
  "queues_ok q \<Longrightarrow> (case rq_queues q qk of None \<Rightarrow> rq_running q qk = None
      | Some es \<Rightarrow> es \<noteq> [] \<and> distinct es \<and> rq_running q qk \<in> {None, Some (hd es)})"
  unfolding queues_ok_def by (rule spec)

lemma queue_invD:
  "queue_inv q \<Longrightarrow> (case rq_queues q qk of None \<Rightarrow> rq_running q qk = None
      | Some es \<Rightarrow> es \<noteq> [] \<and> distinct es \<and> rq_running q qk = Some (hd es))"
  unfolding queue_inv_def by (rule spec)

lemma queue_inv_queues_ok:
  assumes "queue_inv q"
  shows "queues_ok q"
  unfolding queues_ok_def
proof
  fix qk
  show "case rq_queues q qk of None \<Rightarrow> rq_running q qk = None
      | Some es \<Rightarrow> es \<noteq> [] \<and> distinct es \<and> rq_running q qk \<in> {None, Some (hd es)}"
    using queue_invD [OF assms, of qk] by (auto split: option.splits)
qed

lemma recover_file_entries:
  "entries_at (recover_file q r) qk =
     (if qk = queue_key_of r \<and> ru_deletionTimestamp r = None \<and>
         \<not> is_terminal_phase (st_phase (ru_status r)) \<and> run_key r \<notin> set (entries_at q qk)
      then entries_at q qk @ [run_key r] else entries_at q qk)"
  by (auto simp: recover_file_def Let_def index_of_absent)

lemma queues_ok_recover_file:
  assumes "queues_ok q"
  shows "queues_ok (recover_file q r)"
  unfolding queues_ok_def
proof
  fix qk
  show "case rq_queues (recover_file q r) qk of
          None \<Rightarrow> rq_running (recover_file q r) qk = None
        | Some es \<Rightarrow> es \<noteq> [] \<and> distinct es \<and> rq_running (recover_file q r) qk \<in> {None, Some (hd es)}"
    using queues_okD [OF assms, of qk]
    by (auto simp: recover_file_def Let_def index_of_absent entries_at_def hd_append_single
             split: option.splits)
qed

lemma queues_ok_recover_files: "queues_ok q \<Longrightarrow> queues_ok (foldl recover_file q rs)"
  by (induction rs arbitrary: q) (auto simp: queues_ok_recover_file)

lemma queue_inv_admit_heads:
  assumes "queues_ok q"
  shows "queue_inv (admit_heads q)"
  unfolding queue_inv_def
proof
  fix qk
  show "case rq_queues (admit_heads q) qk of None \<Rightarrow> rq_running (admit_heads q) qk = None
      | Some es \<Rightarrow> es \<noteq> [] \<and> distinct es \<and> rq_running (admit_heads q) qk = Some (hd es)"
    using queues_okD [OF assms, of qk]
    by (auto simp: admit_heads_def split: option.splits list.splits)
qed

lemma admit_heads_entries [simp]: "entries_at (admit_heads q) qk = entries_at q qk"
  by (simp add: admit_heads_def entries_at_def)

lemma recover_file_keeps: "k \<in> set (entries_at q qk) \<Longrightarrow> k \<in> set (entries_at (recover_file q r) qk)"
  by (auto simp: recover_file_entries)

lemma recover_files_keep: "k \<in> set (entries_at q qk) \<Longrightarrow> k \<in> set (entries_at (foldl recover_file q rs) qk)"
  by (induction rs arbitrary: q) (auto simp: recover_file_keeps)

lemma recover_files_entries:
  "set (entries_at (foldl recover_file q rs) qk) = set (entries_at q qk) \<union>
     {run_key r | r. r \<in> set rs \<and> qk = queue_key_of r \<and> ru_deletionTimestamp r = None \<and>
        \<not> is_terminal_phase (st_phase (ru_status r))}"
proof (induction rs arbitrary: q)
  case (Cons r rs)
  have "set (entries_at (recover_file q r) qk) = set (entries_at q qk) \<union>
      {run_key r' | r'. r' = r \<and> qk = queue_key_of r' \<and> ru_deletionTimestamp r' = None \<and>
        \<not> is_terminal_phase (st_phase (ru_status r'))}"
    by (auto simp: recover_file_entries)
  then show ?case by (simp only: foldl_Cons Cons.IH) auto
qed simp

section \<open>Properties\<close>

lemma queue_inv_run_events: "queue_inv q \<Longrightarrow> queue_inv (run_events q es)"
  by (simp add: run_events_play rq.inv_play)

lemma enqueue_parts:
  "fst (snd (enqueue q r)) \<longleftrightarrow> running_at (fst (enqueue q r)) (queue_key_of r) = run_key r"
  "fst (snd (snd (enqueue q r))) =
     status_locked (fst (enqueue q r)) (queue_key_of r) (run_key r)
       (entries_at (fst (enqueue q r)) (queue_key_of r))"
  unfolding enqueue_entries by (simp_all add: enqueue_def Let_def index_of_absent)

lemma enqueue_result:
  assumes "queue_inv q" and "enqueue q r = (q', admitted, st, prev)"
  shows "admitted \<longleftrightarrow> rq_running q' (queue_key_of r) = Some (run_key r)"
    and "st = status_locked q' (queue_key_of r) (run_key r) (entries_at q' (queue_key_of r))"
    and "entries_at q' (queue_key_of r) \<noteq> []"
    and "queue_inv q'"
proof -
  have q': "q' = fst (enqueue q r)" using assms(2) by simp
  show inv': "queue_inv q'" unfolding q' by (rule queue_inv_enqueue [OF assms(1)])
  have e: "entries_at q' (queue_key_of r) =
      (if run_key r \<notin> set (entries_at q (queue_key_of r))
       then entries_at q (queue_key_of r) @ [run_key r] else entries_at q (queue_key_of r))"
    by (simp add: q' enqueue_entries)
  then show ne: "entries_at q' (queue_key_of r) \<noteq> []" by auto
  have "rq_running q' (queue_key_of r) \<noteq> None"
    using queue_inv_at [OF inv', of "queue_key_of r"] ne by (auto split: list.splits)
  moreover have "admitted \<longleftrightarrow> running_at q' (queue_key_of r) = run_key r"
    using enqueue_parts(1) [of q r] assms(2) by simp
  ultimately show "admitted \<longleftrightarrow> rq_running q' (queue_key_of r) = Some (run_key r)"
    by (auto simp: running_at_def)
  show "st = status_locked q' (queue_key_of r) (run_key r) (entries_at q' (queue_key_of r))"
    using enqueue_parts(2) [of q r] assms(2) by simp
qed

definition sample_run :: "string \<Rightarrow> string \<Rightarrow> string option \<Rightarrow> criteria_run" where
  "sample_run name repo cls =
     zero_run\<lparr>ru_namespace := ''ns'', ru_name := name,
       ru_spec := zero_spec\<lparr>sp_repoURL := repo,
         sp_workflow := map_option (\<lambda>c. zero_workflow\<lparr>wf_class := c\<rparr>) cls\<rparr>\<rparr>"

lemmas queue_eval = sample_run_def zero_defs enqueue_def release_def Let_def queue_key_of_def
  admission_lock_key_def admission_class_def run_key_def entries_at_def running_at_def index_of_def
  new_run_queue_def status_locked_def run_class_triage_def run_class_dev_def zero_name_def
  run_events_def recover_def recover_file_def admit_heads_def

text \<open>
  C6. Mutual exclusion of admission. Start from any consistent queue (the empty one, or a recovered
  one) and let run r1 be admitted. Whatever arrives and leaves afterwards, as long as r1 itself does
  not leave, a different run of the same repository and class that asks for admission is refused.
\<close>

theorem admission_exclusive:
  assumes "queue_inv q" and "enqueue q r1 = (q1, True, st1, prev1)"
    and "\<forall>r. Leave r \<in> set es \<longrightarrow> run_key r \<noteq> run_key r1"
    and "queue_key_of r2 = queue_key_of r1" and "run_key r2 \<noteq> run_key r1"
    and "enqueue (run_events q1 es) r2 = (q2, admitted, st2, prev2)"
  shows "\<not> admitted"
proof -
  have h1: "rq_running q1 (queue_key_of r1) = Some (run_key r1)" and i1: "queue_inv q1"
    using enqueue_result [OF assms(1,2)] by auto
  have "rq.spares (queue_key_of r1) (run_key r1) (es @ [Arrive r2])"
    using assms(3) by (auto simp: rq.spares_def)
  then have "rq_running (run_events q1 (es @ [Arrive r2])) (queue_key_of r1) = Some (run_key r1)"
    unfolding run_events_play using rq.holder_kept [OF i1 h1] by blast
  then have "rq_running q2 (queue_key_of r2) = Some (run_key r1)"
    using assms(4,6) by (simp add: run_events_def)
  then show ?thesis
    using enqueue_result(1) [OF queue_inv_run_events [OF i1] assms(6)] assms(5) by auto
qed

theorem admission_exclusive_witness:
  "\<not> fst (snd (enqueue
       (run_events (fst (enqueue new_run_queue (sample_run ''a'' ''repo'' None)))
          [Arrive (sample_run ''b'' ''repo'' None), Leave (sample_run ''b'' ''repo'' None)])
       (sample_run ''c'' ''repo'' None)))"
proof -
  let ?a = "sample_run ''a'' ''repo'' None" and ?b = "sample_run ''b'' ''repo'' None"
    and ?c = "sample_run ''c'' ''repo'' None"
  obtain q1 adm st prev where e: "enqueue new_run_queue ?a = (q1, adm, st, prev)"
    by (cases "enqueue new_run_queue ?a") auto
  have adm: "adm = True"
    using enqueue_result(1) [OF queue_inv_new e] e
    by (auto simp: queue_eval)
  obtain q2 adm2 st2 prev2
    where e2: "enqueue (run_events q1 [Arrive ?b, Leave ?b]) ?c = (q2, adm2, st2, prev2)"
    by (cases "enqueue (run_events q1 [Arrive ?b, Leave ?b]) ?c") auto
  have "\<not> adm2"
    by (rule admission_exclusive [OF queue_inv_new e [unfolded adm] _ _ _ e2])
      (auto simp: sample_run_def zero_defs run_key_def queue_key_of_def
         admission_lock_key_def admission_class_def)
  with e e2 show ?thesis by simp
qed

text \<open>
  C7. First come, first served. Let run k stand in its line behind the runs \<open>front\<close>. Whatever happens
  next, as long as k does not leave, only k or a run that already stood in front of it can be the
  admitted one; and once exactly the runs in front have left, in order, k is admitted.
\<close>

theorem admission_fifo:
  assumes "queue_inv q" and "entries_at q qk = map run_key front @ k # rest"
    and "\<forall>r \<in> set front. queue_key_of r = qk"
  shows "rq_running (run_events q (map Leave front)) qk = Some k \<and>
     (\<forall>es k'. (\<forall>r. Leave r \<in> set es \<longrightarrow> run_key r \<noteq> k) \<and>
        rq_running (run_events q es) qk = Some k' \<longrightarrow> k' = k \<or> k' \<in> run_key ` set front)"
proof (intro conjI allI impI)
  show "rq_running (run_events q (map Leave front)) qk = Some k"
    unfolding run_events_play by (rule rq.progress [OF assms])
next
  fix es k'
  assume a: "(\<forall>r. Leave r \<in> set es \<longrightarrow> run_key r \<noteq> k) \<and> rq_running (run_events q es) qk = Some k'"
  then have sp: "rq.spares qk k es" and h: "rq_running (rq.play q es) qk = Some k'"
    by (auto simp: rq.spares_def run_events_play)
  have "k' = k \<or> k' \<in> set (map run_key front)"
    using rq.no_overtaking [OF assms(1,2) sp h] by simp
  then show "k' = k \<or> k' \<in> run_key ` set front" by simp
qed

theorem admission_fifo_witness:
  "rq_running (run_events
      (run_events new_run_queue [Arrive (sample_run ''a'' ''repo'' None), Arrive (sample_run ''b'' ''repo'' None)])
      (map Leave [sample_run ''a'' ''repo'' None])) (''repo'', ''dev'') = Some (''ns'', ''b'')"
proof -
  let ?a = "sample_run ''a'' ''repo'' None" and ?b = "sample_run ''b'' ''repo'' None"
  let ?q = "run_events new_run_queue [Arrive ?a, Arrive ?b]"
  have e: "entries_at ?q (''repo'', ''dev'') = map run_key [?a] @ (''ns'', ''b'') # []"
    by (simp add: queue_eval)
  have k: "\<forall>r \<in> set [?a]. queue_key_of r = (''repo'', ''dev'')"
    by (simp add: queue_eval)
  show ?thesis
    using admission_fifo [OF queue_inv_run_events [OF queue_inv_new] e k] by blast
qed

text \<open>
  The queue status shown on a run: position 0 exactly for the admitted run, otherwise the number
  of runs in front of it; the admitted run's name; the names waiting, in order; the length; and
  admission is refused exactly when the position is not 0.
\<close>

theorem enqueue_status:
  assumes "queue_inv q" and "enqueue q r = (q', admitted, st, prev)"
  shows "\<exists>front rest. entries_at q' (queue_key_of r) = front @ run_key r # rest \<and>
     run_key r \<notin> set front \<and> qs_position st = length front \<and>
     (admitted \<longleftrightarrow> qs_position st = 0) \<and>
     qs_running st = snd (hd (front @ [run_key r])) \<and>
     qs_pending st = map snd (tl (front @ run_key r # rest)) \<and>
     qs_length st = length (front @ run_key r # rest) \<and>
     (qs_repoURL st, qs_class st) = queue_key_of r"
proof -
  let ?qk = "queue_key_of r" and ?k = "run_key r"
  note res = enqueue_result [OF assms]
  have mem: "?k \<in> set (entries_at q' ?qk)"
    using assms(2) enqueue_entries [of q r ?qk] by (auto split: if_splits)
  then obtain front rest where split: "entries_at q' ?qk = front @ ?k # rest" "?k \<notin> set front"
    by (auto dest: split_list_first)
  have dist: "distinct (front @ ?k # rest)" and run: "rq_running q' ?qk = Some (hd (front @ [?k]))"
    using queue_inv_at [OF res(4), of ?qk] split by (cases front; simp)+
  obtain e es where ees: "front @ ?k # rest = e # es" "e = hd (front @ [?k])"
    by (cases front) auto
  have idx: "index_where (\<lambda>x. x = ?k) (front @ ?k # rest) = Some (length front)"
    using split(2) by (induction front) auto
  have "running_at q' ?qk = e" using run ees by (simp add: running_at_def)
  from status_locked_head [OF this, of es ?k] dist ees idx res(2) split(1)
  have st: "st = \<lparr>qs_repoURL = fst ?qk, qs_class = snd ?qk, qs_position = length front,
      qs_length = Suc (length es), qs_running = snd e, qs_pending = map snd es\<rparr>" by simp
  have adm: "admitted \<longleftrightarrow> length front = 0"
    using res(1) run split(2) by (cases front) auto
  from st adm split ees show ?thesis
    by (intro exI [of _ front] exI [of _ rest]) (auto simp flip: ees(1))
qed

theorem enqueue_status_witness:
  "\<exists>front rest. entries_at (fst (enqueue
       (run_events new_run_queue [Arrive (sample_run ''a'' ''repo'' None)]) (sample_run ''b'' ''repo'' None)))
      (queue_key_of (sample_run ''b'' ''repo'' None)) = front @ (''ns'', ''b'') # rest"
proof -
  let ?q = "run_events new_run_queue [Arrive (sample_run ''a'' ''repo'' None)]"
    and ?b = "sample_run ''b'' ''repo'' None"
  obtain q' adm st prev where e: "enqueue ?q ?b = (q', adm, st, prev)"
    by (cases "enqueue ?q ?b") auto
  have "run_key ?b = (''ns'', ''b'')" by (simp add: sample_run_def zero_defs run_key_def)
  with enqueue_status [OF queue_inv_run_events [OF queue_inv_new] e] e show ?thesis by auto
qed

text \<open>
  Classes and repositories do not interfere: no sequence of arrivals and departures of runs with
  another queue key changes the line or the admitted run of a key.
\<close>

theorem queues_independent:
  assumes "queue_inv q" and "\<forall>r. Arrive r \<in> set es \<or> Leave r \<in> set es \<longrightarrow> queue_key_of r \<noteq> qk"
  shows "entries_at (run_events q es) qk = entries_at q qk \<and>
     rq_running (run_events q es) qk = rq_running q qk"
proof -
  have "entries_at (run_events q es) qk = entries_at q qk"
    unfolding run_events_play by (rule rq.lanes_independent [OF assms])
  moreover have "queue_inv (run_events q es)" by (rule queue_inv_run_events [OF assms(1)])
  ultimately show ?thesis
    using queue_inv_at [OF assms(1), of qk] queue_inv_at [of "run_events q es" qk] by simp
qed

theorem queues_independent_witness:
  "rq_running (run_events (run_events new_run_queue [Arrive (sample_run ''a'' ''repo'' None)])
      [Arrive (sample_run ''t'' ''repo'' (Some ''triage''))]) (''repo'', ''dev'') =
   rq_running (run_events new_run_queue [Arrive (sample_run ''a'' ''repo'' None)]) (''repo'', ''dev'')"
proof -
  let ?q = "run_events new_run_queue [Arrive (sample_run ''a'' ''repo'' None)]"
    and ?es = "[Arrive (sample_run ''t'' ''repo'' (Some ''triage''))]"
  have other: "\<forall>r. Arrive r \<in> set ?es \<or> Leave r \<in> set ?es \<longrightarrow> queue_key_of r \<noteq> (''repo'', ''dev'')"
    by (simp add: queue_eval)
  have "entries_at (run_events ?q ?es) (''repo'', ''dev'') = entries_at ?q (''repo'', ''dev'') \<and>
      rq_running (run_events ?q ?es) (''repo'', ''dev'') = rq_running ?q (''repo'', ''dev'')"
    using other by (intro queues_independent [OF queue_inv_run_events [OF queue_inv_new]])
  then show ?thesis by (rule conjunct2)
qed

text \<open>
  Recovery at operator start: from an empty queue, a successful listing yields a consistent queue
  whose lines hold exactly the live, non-terminal runs of the listing, each in the line of its key,
  so that no run in flight is lost and every non-empty line has its head admitted.
\<close>

theorem recover_complete:
  "\<exists>q. recover new_run_queue (Inr runs :: 'e + criteria_run list) = Inr q \<and> queue_inv q \<and>
     (\<forall>qk. set (entries_at q qk) = {run_key r | r. r \<in> set runs \<and> qk = queue_key_of r \<and>
        ru_deletionTimestamp r = None \<and> \<not> is_terminal_phase (st_phase (ru_status r))})"
proof (intro exI conjI allI)
  show "recover new_run_queue (Inr runs :: 'e + criteria_run list) =
      Inr (admit_heads (foldl recover_file new_run_queue runs))"
    by (simp add: recover_def)
  show "queue_inv (admit_heads (foldl recover_file new_run_queue runs))"
    by (intro queue_inv_admit_heads queues_ok_recover_files queue_inv_queues_ok queue_inv_new)
  fix qk
  show "set (entries_at (admit_heads (foldl recover_file new_run_queue runs)) qk) =
      {run_key r | r. r \<in> set runs \<and> qk = queue_key_of r \<and>
        ru_deletionTimestamp r = None \<and> \<not> is_terminal_phase (st_phase (ru_status r))}"
    by (simp only: admit_heads_entries recover_files_entries)
      (simp add: entries_at_def new_run_queue_def)
qed

text \<open>
  Recovery admits the head of the listing, whatever the runs' recorded state: with a pending run
  listed before a run that is already executing (phase Running, runner Job stamped), the pending run
  is admitted and the executing run is refused, so the executing run's Job and the newly admitted
  run's Job work on the same repository at the same time.
\<close>

theorem recover_admits_listing_head:
  "\<exists>q. recover new_run_queue (Inr
        [(sample_run ''a'' ''repo'' None)\<lparr>ru_status := zero_status\<lparr>st_phase := PhasePending\<rparr>\<rparr>,
         (sample_run ''b'' ''repo'' None)\<lparr>ru_status := zero_status\<lparr>st_phase := PhaseRunning,
            st_jobName := ''job-b''\<rparr>\<rparr>] :: unit + criteria_run list) = Inr q \<and>
     fst (snd (enqueue q (sample_run ''a'' ''repo'' None))) \<and>
     \<not> fst (snd (enqueue q (sample_run ''b'' ''repo'' None)))"
  by (simp add: queue_eval)

text \<open>
  Triage runs of one repository serialize with each other: a second triage run is refused while
  the first is admitted, although it would be admitted beside a dev run.
\<close>

theorem triage_runs_serialize:
  "\<not> fst (snd (enqueue (run_events new_run_queue [Arrive (sample_run ''t1'' ''repo'' (Some ''triage''))])
        (sample_run ''t2'' ''repo'' (Some ''triage'')))) \<and>
   fst (snd (enqueue (run_events new_run_queue [Arrive (sample_run ''d1'' ''repo'' None)])
        (sample_run ''t2'' ''repo'' (Some ''triage''))))"
  by (simp add: queue_eval)

end
