(* ===== verification/ArchiveRecord.thy ===== *)
theory ArchiveRecord
  imports CastleClient RunTypes
begin

text \<open>
  The run-archive record: its ceilings (\<open>ApplyArchiveRecordCeilings\<close> and \<open>truncate\<close> of
  \<open>internal/castle/archive.go\<close>) and how the terminal gate fills it from the run and castle's
  observation (\<open>internal/controller/terminalarchive.go\<close>, the pure half). The rendering of a time
  as RFC 3339 text is the argument \<open>fmt\<close>.
\<close>

section \<open>Rune-safe truncation\<close>

text \<open>\<open>utf8.RuneStart\<close>: every byte that is not a UTF-8 continuation byte.\<close>

definition rune_start :: "char \<Rightarrow> bool" where
  "rune_start c \<longleftrightarrow> \<not> (128 \<le> (of_char c :: nat) \<and> (of_char c :: nat) < 192)"

definition ellipsis :: string where
  "ellipsis = [CHR 0xE2, CHR 0x80, CHR 0xA6]"

text \<open>The nearest rune boundary at or below a byte position.\<close>

fun rune_cut :: "string \<Rightarrow> nat \<Rightarrow> nat" where
  "rune_cut s 0 = 0"
| "rune_cut s (Suc n) = (if rune_start (s ! Suc n) then Suc n else rune_cut s n)"

definition truncate_text :: "string \<Rightarrow> nat \<Rightarrow> string" where
  "truncate_text s mx =
     (if mx = 0 \<or> length s \<le> mx then s
      else if mx \<le> length ellipsis then take (rune_cut s mx) s
      else let cut = rune_cut s (mx - length ellipsis)
           in if cut = 0 then take (rune_cut s mx) s else take cut s @ ellipsis)"

lemma rune_cut_le: "rune_cut s n \<le> n"
  by (induction n) auto

lemma rune_cut_boundary: "rune_cut s n = 0 \<or> rune_start (s ! rune_cut s n)"
  by (induction n) auto

lemma ellipsis_length [simp]: "length ellipsis = 3"
  by (simp add: ellipsis_def)

lemma truncate_text_cases:
  obtains "truncate_text s mx = s" "mx = 0 \<or> length s \<le> mx"
    | "truncate_text s mx = take (rune_cut s mx) s"
    | "truncate_text s mx = take (rune_cut s (mx - 3)) s @ ellipsis" "3 < mx"
  unfolding truncate_text_def ellipsis_length Let_def by (meson not_le)

lemma truncate_text_length: "0 < mx \<Longrightarrow> length (truncate_text s mx) \<le> mx"
  using rune_cut_le [of s mx] rune_cut_le [of s "mx - 3"]
  by (rule_tac truncate_text_cases [of s mx]) auto

lemma truncate_text_idem [simp]: "truncate_text (truncate_text s mx) mx = truncate_text s mx"
proof (cases "mx = 0")
  case False
  then have "length (truncate_text s mx) \<le> mx" by (simp add: truncate_text_length)
  then show ?thesis by (simp add: truncate_text_def [of "truncate_text s mx"])
qed (simp add: truncate_text_def)

section \<open>The record and its ceilings\<close>

record archive_condition =
  ac_type :: string
  ac_status :: string
  ac_reason :: string
  ac_message :: string
  ac_lastTransitionTime :: string

record archive_record =
  ar_schemaVersion :: nat
  ar_runID :: string
  ar_archiveKey :: string
  ar_jobName :: string
  ar_ticket :: string
  ar_repo :: string
  ar_workflowName :: string
  ar_workflowRef :: string
  ar_treeDigest :: string
  ar_bindingConfigmapChecksum :: string
  ar_projectConfigmapChecksum :: string
  ar_operatorVersion :: string
  ar_finalPhase :: string
  ar_failureReason :: string
  ar_restarts :: int
  ar_backoffEvictions :: int
  ar_terminalCleanup :: string
  ar_startedAt :: string
  ar_endedAt :: string
  ar_conditions :: "archive_condition list"
  ar_steps :: "step_record list"

definition max_archive_conditions :: nat where "max_archive_conditions = 32"

definition ceil_step :: "step_record \<Rightarrow> step_record" where
  "ceil_step st = \<lparr>sr_name = truncate_text (sr_name st) 256, sr_outcome = truncate_text (sr_outcome st) 64\<rparr>"

definition ceil_condition :: "archive_condition \<Rightarrow> archive_condition" where
  "ceil_condition c = \<lparr>ac_type = truncate_text (ac_type c) 128, ac_status = truncate_text (ac_status c) 16,
     ac_reason = truncate_text (ac_reason c) 128, ac_message = truncate_text (ac_message c) 512,
     ac_lastTransitionTime = ac_lastTransitionTime c\<rparr>"

definition apply_archive_record_ceilings :: "archive_record \<Rightarrow> archive_record" where
  "apply_archive_record_ceilings r = \<lparr>ar_schemaVersion = 1,
     ar_runID = truncate_text (ar_runID r) 128,
     ar_archiveKey = truncate_text (ar_archiveKey r) 128,
     ar_jobName = truncate_text (ar_jobName r) 64,
     ar_ticket = truncate_text (ar_ticket r) 128,
     ar_repo = truncate_text (ar_repo r) 256,
     ar_workflowName = truncate_text (ar_workflowName r) 128,
     ar_workflowRef = truncate_text (ar_workflowRef r) 512,
     ar_treeDigest = truncate_text (ar_treeDigest r) 256,
     ar_bindingConfigmapChecksum = truncate_text (ar_bindingConfigmapChecksum r) 128,
     ar_projectConfigmapChecksum = truncate_text (ar_projectConfigmapChecksum r) 128,
     ar_operatorVersion = truncate_text (ar_operatorVersion r) 64,
     ar_finalPhase = truncate_text (ar_finalPhase r) 32,
     ar_failureReason = truncate_text (ar_failureReason r) 2048,
     ar_restarts = ar_restarts r, ar_backoffEvictions = ar_backoffEvictions r,
     ar_terminalCleanup = truncate_text (ar_terminalCleanup r) 16,
     ar_startedAt = truncate_text (ar_startedAt r) 64,
     ar_endedAt = truncate_text (ar_endedAt r) 64,
     ar_conditions = map ceil_condition
       (if length (ar_conditions r) > max_archive_conditions
        then take max_archive_conditions (ar_conditions r) else ar_conditions r),
     ar_steps = map ceil_step
       (if length (ar_steps r) > max_archive_steps
        then take max_archive_steps (ar_steps r) else ar_steps r)\<rparr>"

definition cr_uid_archive_key :: "string \<Rightarrow> string" where
  "cr_uid_archive_key uid = ''cr-uid/'' @ uid"

definition rfc3339_archive_time :: "(gotime \<Rightarrow> string) \<Rightarrow> gotime \<Rightarrow> string" where
  "rfc3339_archive_time fmt t = (if is_zero t then '''' else fmt t)"

definition terminal_cleanup_deferred :: string where "terminal_cleanup_deferred = ''deferred''"
definition terminal_cleanup_cleared :: string where "terminal_cleanup_cleared = ''cleared''"

section \<open>Filling the record\<close>

definition condition_terminal_cleanup :: string where
  "condition_terminal_cleanup = ''TerminalCleanup''"

fun phase_text :: "criteria_run_phase \<Rightarrow> string" where
  "phase_text PhaseNone = ''''"
| "phase_text PhasePending = ''Pending''"
| "phase_text PhaseRunning = ''Running''"
| "phase_text PhaseSucceeded = ''Succeeded''"
| "phase_text PhaseFailed = ''Failed''"
| "phase_text PhaseUnknown = ''Unknown''"

definition archive_workflow_verdict :: "criteria_run \<Rightarrow> observation \<Rightarrow> string" where
  "archive_workflow_verdict run obs =
     (if st_finalState (ru_status run) \<noteq> '''' then st_finalState (ru_status run)
      else case ob_terminal obs of
             Some t \<Rightarrow> (if tm_finalState t \<noteq> '''' then tm_finalState t else '''')
           | None \<Rightarrow> '''')"

definition project_configmap_checksum :: "criteria_run \<Rightarrow> string" where
  "project_configmap_checksum run =
     (case sp_configRef (ru_spec run) of
        None \<Rightarrow> ''''
      | Some ref \<Rightarrow>
          (if cr_name ref = '''' then ''''
           else if cr_resourceVersion ref = '''' then cr_name ref
           else cr_name ref @ ''@'' @ cr_resourceVersion ref))"

definition archive_failure_reason :: "criteria_run \<Rightarrow> observation \<Rightarrow> string" where
  "archive_failure_reason run obs =
     (if st_phase (ru_status run) \<noteq> PhaseFailed then ''''
      else case ob_terminal obs of
             Some t \<Rightarrow> (if \<not> tm_success t then tm_reason t
                       else case ob_runRecord obs of Some r \<Rightarrow> rc_failureReason r | None \<Rightarrow> '''')
           | None \<Rightarrow> (case ob_runRecord obs of Some r \<Rightarrow> rc_failureReason r | None \<Rightarrow> ''''))"

definition archive_terminal_cleanup_state :: "criteria_run \<Rightarrow> string" where
  "archive_terminal_cleanup_state run =
     (if \<exists>c \<in> set (st_conditions (ru_status run)). co_type c = condition_terminal_cleanup \<and> co_status c
      then terminal_cleanup_deferred else terminal_cleanup_cleared)"

definition archive_started_at :: "(gotime \<Rightarrow> string) \<Rightarrow> observation \<Rightarrow> string" where
  "archive_started_at fmt obs =
     (case ob_runRecord obs of
        Some r \<Rightarrow> (if \<not> is_zero (rc_startedAt r) then rfc3339_archive_time fmt (rc_startedAt r) else '''')
      | None \<Rightarrow> '''')"

definition archive_ended_at :: "(gotime \<Rightarrow> string) \<Rightarrow> observation \<Rightarrow> string" where
  "archive_ended_at fmt obs =
     (let from_record = (case ob_runRecord obs of
            Some r \<Rightarrow> (if \<not> is_zero (rc_endedAt r) then rfc3339_archive_time fmt (rc_endedAt r) else '''')
          | None \<Rightarrow> '''')
      in case ob_terminal obs of
           Some t \<Rightarrow> (if \<not> is_zero (tm_at t) then rfc3339_archive_time fmt (tm_at t) else from_record)
         | None \<Rightarrow> from_record)"

definition operator_version_fallback :: string where "operator_version_fallback = ''dev''"

definition operator_version_of :: "string \<Rightarrow> string" where
  "operator_version_of v = (if v \<noteq> '''' then v else operator_version_fallback)"

definition is_run_backed_record :: "archive_record \<Rightarrow> bool" where
  "is_run_backed_record r \<longleftrightarrow> ar_runID r \<noteq> '''' \<and> ar_archiveKey r = ''''"

definition archive_run_id :: "criteria_run \<Rightarrow> observation \<Rightarrow> string" where
  "archive_run_id run obs =
     (if st_castleRunID (ru_status run) = '''' then ob_runID obs else st_castleRunID (ru_status run))"

definition archive_workflow_name :: "criteria_run \<Rightarrow> observation \<Rightarrow> string" where
  "archive_workflow_name run obs =
     (let name = (case sp_workflow (ru_spec run) of Some w \<Rightarrow> wf_name w | None \<Rightarrow> '''')
      in case ob_runRecord obs of
           Some r \<Rightarrow> (if name = '''' \<and> rc_workflowName r \<noteq> '''' then rc_workflowName r else name)
         | None \<Rightarrow> name)"

definition archive_workflow_ref :: "criteria_run \<Rightarrow> string" where
  "archive_workflow_ref run =
     (let ref = (case sp_workflow (ru_spec run) of Some w \<Rightarrow> wf_ref w | None \<Rightarrow> '''')
      in case sp_workflowSource (ru_spec run) of
           Some src \<Rightarrow> (if ws_ref src \<noteq> '''' then ws_ref src else ref)
         | None \<Rightarrow> ref)"

text \<open>
  The two refusals that come before the restart count is read: no key can be derived, or the record
  would carry no identity at all. Otherwise the effective archive key.
\<close>

definition archive_effective_key :: "criteria_run \<Rightarrow> observation \<Rightarrow> go_error + string" where
  "archive_effective_key run obs =
     (let runID = archive_run_id run obs
      in if runID = '''' \<and> ru_uid run = '''' then Inl (ErrMsg ''no castle run id and no CR uid: no archive key can be derived'')
         else if archive_workflow_name run obs = '''' \<and> sp_ticketID (ru_spec run) = '''' \<and> runID = ''''
         then Inl (ErrMsg ''archive record would carry no ticket, workflow or castle run identity'')
         else Inr (if runID = '''' then cr_uid_archive_key (ru_uid run) else runID))"

definition archive_conditions :: "(gotime \<Rightarrow> string) \<Rightarrow> criteria_run \<Rightarrow> observation \<Rightarrow> archive_condition list" where
  "archive_conditions fmt run obs =
     map (\<lambda>c. \<lparr>ac_type = co_type c, ac_status = (if co_status c then ''True'' else ''False''),
              ac_reason = co_reason c, ac_message = co_message c,
              ac_lastTransitionTime = rfc3339_archive_time fmt (co_lastTransitionTime c)\<rparr>)
       (filter (\<lambda>c. co_type c \<noteq> condition_terminal_archive_pending) (st_conditions (ru_status run)))
     @ (let verdict = archive_workflow_verdict run obs
        in if verdict \<noteq> ''''
           then [\<lparr>ac_type = ''FinalState'', ac_status = ''True'', ac_reason = verdict,
                  ac_message = ''workflow final state: '' @ verdict, ac_lastTransitionTime = ''''\<rparr>]
           else [])"

definition archive_record_of ::
  "(gotime \<Rightarrow> string) \<Rightarrow> string \<Rightarrow> criteria_run \<Rightarrow> observation \<Rightarrow> string \<Rightarrow> int \<Rightarrow> archive_record" where
  "archive_record_of fmt opversion run obs effectiveKey restarts =
     (let runID = archive_run_id run obs
      in apply_archive_record_ceilings \<lparr>ar_schemaVersion = 0,
           ar_runID = runID,
           ar_archiveKey = (if runID \<noteq> '''' then '''' else effectiveKey),
           ar_jobName = st_jobName (ru_status run),
           ar_ticket = sp_ticketID (ru_spec run),
           ar_repo = sp_repoURL (ru_spec run),
           ar_workflowName = archive_workflow_name run obs,
           ar_workflowRef = archive_workflow_ref run,
           ar_treeDigest = (case ob_runRecord obs of Some r \<Rightarrow> rc_workflowHash r | None \<Rightarrow> ''''),
           ar_bindingConfigmapChecksum = '''',
           ar_projectConfigmapChecksum = project_configmap_checksum run,
           ar_operatorVersion = operator_version_of opversion,
           ar_finalPhase = phase_text (st_phase (ru_status run)),
           ar_failureReason = archive_failure_reason run obs,
           ar_restarts = restarts, ar_backoffEvictions = 0,
           ar_terminalCleanup = archive_terminal_cleanup_state run,
           ar_startedAt = archive_started_at fmt obs,
           ar_endedAt = archive_ended_at fmt obs,
           ar_conditions = archive_conditions fmt run obs,
           ar_steps = ob_steps obs\<rparr>)"

section \<open>Properties\<close>

text \<open>
  Truncation keeps a text within its cap, leaves a short text alone, and otherwise keeps a prefix
  that ends at a rune boundary, so a multi-byte character is never cut in two.
\<close>

theorem truncate_text_rune_safe:
  "(mx = 0 \<or> length s \<le> mx \<longrightarrow> truncate_text s mx = s) \<and>
   (0 < mx \<longrightarrow> length (truncate_text s mx) \<le> mx) \<and>
   (\<exists>k mark. truncate_text s mx = take k s @ mark \<and> mark \<in> {[], ellipsis} \<and>
      (k = 0 \<or> length s \<le> k \<or> rune_start (s ! k)))"
proof -
  have "\<exists>k mark. truncate_text s mx = take k s @ mark \<and> mark \<in> {[], ellipsis} \<and>
      (k = 0 \<or> length s \<le> k \<or> rune_start (s ! k))"
  proof -
    consider "truncate_text s mx = s" | "truncate_text s mx = take (rune_cut s mx) s"
      | "truncate_text s mx = take (rune_cut s (mx - 3)) s @ ellipsis"
      by (rule truncate_text_cases [of s mx])
    then show ?thesis
    proof cases
      case 1
      then show ?thesis by (intro exI [of _ "length s"] exI [of _ "[]"]) simp
    next
      case 2
      then show ?thesis using rune_cut_boundary [of s mx]
        by (intro exI [of _ "rune_cut s mx"] exI [of _ "[]"]) auto
    next
      case 3
      then show ?thesis using rune_cut_boundary [of s "mx - 3"]
        by (intro exI [of _ "rune_cut s (mx - 3)"] exI [of _ ellipsis]) auto
    qed
  qed
  then show ?thesis by (simp add: truncate_text_length) (simp add: truncate_text_def)
qed

theorem truncate_text_rune_safe_witness:
  "truncate_text ''abcdefgh'' 6 = ''abc'' @ ellipsis \<and> length (truncate_text ''abcdefgh'' 6) \<le> 6 \<and>
   truncate_text ''ab'' 6 = ''ab''"
  using truncate_text_rune_safe [of 6 "''abcdefgh''"] truncate_text_rune_safe [of 6 "''ab''"]
  by (simp add: truncate_text_def ellipsis_def rune_start_def numeral_eq_Suc)

text \<open>
  Applying the ceilings twice changes nothing (the builder and the archive client both apply
  them), and a record within the ceilings keeps its steps, its condition types and its key.
\<close>

theorem archive_ceilings_idempotent:
  "apply_archive_record_ceilings (apply_archive_record_ceilings r) = apply_archive_record_ceilings r \<and>
   length (ar_steps (apply_archive_record_ceilings r)) \<le> max_archive_steps \<and>
   length (ar_conditions (apply_archive_record_ceilings r)) \<le> max_archive_conditions \<and>
   length (ar_failureReason (apply_archive_record_ceilings r)) \<le> 2048"
proof -
  have "ceil_step (ceil_step st) = ceil_step st" for st by (simp add: ceil_step_def)
  moreover have "ceil_condition (ceil_condition c) = ceil_condition c" for c
    by (simp add: ceil_condition_def)
  ultimately show ?thesis
    by (simp add: apply_archive_record_ceilings_def truncate_text_length comp_def min_def)
qed

end
