(* ===== verification/PeerPod.thy ===== *)
theory PeerPod
  imports JobBuilder "HOL-Library.Product_Lexorder"
begin

text \<open>
  The per-scope pods of \<open>per_scope_adapter.go\<close> (one adapter, the fallback for events without an
  environment) and \<open>per_scope_peer.go\<close> (one peer container hosting every adapter of an
  environment), both in \<open>internal/jobbuilder\<close>: names that keep their hashes, the multi-adapter
  manifest, token delivery, and the staging of the adapter binaries by lockfile digest.
\<close>

section \<open>Pods as the API knows them\<close>

text \<open>A container's state: Kubernetes sets at most one of the three pointers, the code tests them
  in the order terminated (exit code, reason, message), running, waiting (reason, message).\<close>

record container_status =
  cs_name :: string
  cs_terminated :: "(int \<times> string \<times> string) option"
  cs_running :: bool
  cs_waiting :: "(string \<times> string) option"
  cs_lastTerminated :: bool
  cs_restartCount :: int

record pod_condition =
  pc_type :: string
  pc_status :: string
  pc_reason :: string
  pc_message :: string

record pod =
  po_namespace :: string
  po_name :: string
  po_labels :: smap
  po_annotations :: smap
  po_owners :: "owner_ref list"
  po_deletionTimestamp :: "gotime option"
  po_spec :: pod_spec
  po_phase :: string
  po_podIP :: string
  po_message :: string
  po_initStatuses :: "container_status list"
  po_statuses :: "container_status list"
  po_podConditions :: "pod_condition list"

definition pod_key :: "pod \<Rightarrow> nsname" where
  "pod_key p = (po_namespace p, po_name p)"

section \<open>Names\<close>

definition per_scope_pod_name_limit :: nat where "per_scope_pod_name_limit = 63"
definition per_scope_job_prefix_max :: nat where "per_scope_job_prefix_max = 24"
definition per_scope_pod_hash_length :: nat where "per_scope_pod_hash_length = 12"
definition per_scope_adapter_name_segment :: nat where "per_scope_adapter_name_segment = 5"
definition peer_pod_name_segment :: string where "peer_pod_name_segment = ''-peer-''"

definition short_hash :: "library \<Rightarrow> string \<Rightarrow> string" where
  "short_hash lib s = take per_scope_pod_hash_length (lb_sha256 lib s)"

definition trim_right_hyphens :: "string \<Rightarrow> string" where
  "trim_right_hyphens s = rev (dropWhile (\<lambda>c. c = CHR ''-'') (rev s))"

definition per_scope_job_prefix :: "criteria_run \<Rightarrow> nat \<Rightarrow> string" where
  "per_scope_job_prefix run reserve =
     (let job = safe_object_name (job_name run)
      in if length job + reserve \<le> per_scope_pod_name_limit then job
         else trim_right_hyphens
                (if length job > per_scope_job_prefix_max then take per_scope_job_prefix_max job else job))"

definition keep_suffix_bytes :: "string \<Rightarrow> string" where
  "keep_suffix_bytes base =
     (if length base \<le> per_scope_pod_name_limit then base
      else trim_hyphens (drop (length base - per_scope_pod_name_limit) base))"

definition per_scope_adapter_pod_name :: "library \<Rightarrow> criteria_run \<Rightarrow> string \<Rightarrow> string \<Rightarrow> string" where
  "per_scope_adapter_pod_name lib run kind scopeID =
     (let sanitizedKind = safe_object_name kind
      in keep_suffix_bytes
           (per_scope_job_prefix run
              (per_scope_adapter_name_segment + length sanitizedKind + 1 + per_scope_pod_hash_length)
            @ ''-adp-'' @ sanitizedKind @ ''-'' @ short_hash lib scopeID))"

definition per_scope_peer_pod_name :: "library \<Rightarrow> criteria_run \<Rightarrow> string \<Rightarrow> string \<Rightarrow> string" where
  "per_scope_peer_pod_name lib run scopeID environment =
     keep_suffix_bytes
       (per_scope_job_prefix run
          (length peer_pod_name_segment + per_scope_pod_hash_length + 1 + per_scope_pod_hash_length)
        @ peer_pod_name_segment @ short_hash lib scopeID @ ''-'' @ short_hash lib environment)"

section \<open>Token delivery and dialling\<close>

definition adapter_kind :: "lifecycle_event \<Rightarrow> string" where
  "adapter_kind scope = (if le_adapterType scope \<noteq> '''' then le_adapterType scope else le_adapterName scope)"

definition has_digest_prefix :: "string \<Rightarrow> bool" where
  "has_digest_prefix s \<longleftrightarrow> length s > 7 \<and> take 7 s = ''sha256:''"

definition qualified_digest :: "string \<Rightarrow> string" where
  "qualified_digest digest =
     (if digest \<noteq> '''' \<and> \<not> has_digest_prefix digest then ''sha256:'' @ digest else digest)"

text \<open>\<open>net.SplitHostPort\<close>, the port or the error: the last colon splits, brackets enclose a host
  with colons of its own and occur nowhere else.\<close>

definition split_host_port :: "string \<Rightarrow> string option" where
  "split_host_port hostport =
     (let port = rev (takeWhile (\<lambda>c. c \<noteq> CHR '':'') (rev hostport));
          host = take (length hostport - Suc (length port)) hostport
      in if CHR '':'' \<notin> set hostport then None
         else if hostport ! 0 = CHR ''[''
         then (let inner = takeWhile (\<lambda>c. c \<noteq> CHR '']'') (tl host)
               in if host = CHR ''['' # inner @ '']'' \<and> CHR ''['' \<notin> set inner \<and>
                     CHR ''['' \<notin> set port \<and> CHR '']'' \<notin> set port
                  then Some port else None)
         else if CHR '':'' \<in> set host \<or> CHR ''['' \<in> set hostport \<or> CHR '']'' \<in> set hostport then None
         else Some port)"

definition shim_port :: "string \<Rightarrow> string" where
  "shim_port shimListenAddress =
     (case split_host_port shimListenAddress of
        Some port \<Rightarrow> (if port \<noteq> '''' then port else ''7778'')
      | None \<Rightarrow> ''7778'')"

definition runner_dial_addr :: "string \<Rightarrow> string \<Rightarrow> string" where
  "runner_dial_addr runnerIP shimListenAddress = runnerIP @ '':'' @ shim_port shimListenAddress"

definition wire_token_delivery :: "lifecycle_event \<Rightarrow> string \<Rightarrow> bool" where
  "wire_token_delivery scope runnerIP \<longleftrightarrow> le_acceptToken scope \<noteq> '''' \<and> runnerIP \<noteq> ''''"

definition peer_wire_delivery :: "lifecycle_event list \<Rightarrow> string \<Rightarrow> bool" where
  "peer_wire_delivery members runnerIP \<longleftrightarrow>
     runnerIP \<noteq> '''' \<and> list_all (\<lambda>m. le_acceptToken m \<noteq> '''') members \<and> members \<noteq> []"

fun remote_tokens_ancestor :: "nat \<Rightarrow> string \<Rightarrow> string" where
  "remote_tokens_ancestor 0 dir = ''''"
| "remote_tokens_ancestor (Suc hops) dir =
     (if path_base dir = ''remote-tokens'' then dir
      else if path_dir dir = dir then '''' else remote_tokens_ancestor hops (path_dir dir))"

definition peer_discovery_root :: "string \<Rightarrow> string" where
  "peer_discovery_root tokenRef =
     (if tokenRef = '''' then ''''
      else let clean = path_clean tokenRef
           in if path_base (path_dir clean) = ''tokens''
              then path_join [path_dir (path_dir clean), ''remote-tokens'']
              else remote_tokens_ancestor 4 (path_dir clean))"

section \<open>The fallback pod\<close>

definition label_scope_id :: string where "label_scope_id = ''criteria.brokenbots.dev/scope-id''"
definition label_environment :: string where "label_environment = ''criteria.brokenbots.dev/environment''"
definition annotation_adapter_kinds :: string where
  "annotation_adapter_kinds = ''criteria.brokenbots.dev/adapter-kinds''"

definition adapter_handshake_envs :: "criteria_run \<Rightarrow> lifecycle_event \<Rightarrow> string \<Rightarrow> env_var list" where
  "adapter_handshake_envs run scope runnerIP =
     [env_text ''ADAPTER_KIND'' (adapter_kind scope), env_text ''CRITERIA_ADAPTER_NAME'' (adapter_kind scope),
      env_text ''CRITERIA_RUN_JOB_NAME'' (job_name run),
      env_text ''CRITERIA_REMOTE_DIGEST'' (qualified_digest (le_digest scope)),
      env_text ''CRITERIA_REMOTE_SCOPE'' (le_scopeTag scope @ ''/'' @ le_scopeID scope),
      env_text ''CRITERIA_SCOPE_ID'' (le_scopeID scope)]
     @ (if le_scopeTag scope \<noteq> '''' then [env_text ''CRITERIA_SCOPE_TAG'' (le_scopeTag scope)] else [])
     @ (if wire_token_delivery scope runnerIP
        then [env_text ''CRITERIA_REMOTE_HOST'' (runner_dial_addr runnerIP (le_shimAddress scope)),
              env_text ''CRITERIA_REMOTE_TOKEN'' (le_acceptToken scope)]
        else if le_tokenFile scope \<noteq> ''''
        then [env_text ''CRITERIA_REMOTE_TOKEN_FILE'' (le_tokenFile scope)] else [])"

definition per_scope_adapter_container ::
  "criteria_run \<Rightarrow> defaults \<Rightarrow> lifecycle_event \<Rightarrow> workflow_plan option \<Rightarrow> string \<Rightarrow> string \<Rightarrow> container" where
  "per_scope_adapter_container run d scope plan name runnerIP =
     \<lparr>ct_name = name,
      ct_image = resolve_adapter_image plan scope (adapter_kind scope) (df_adapterRegistry d) (df_adapterTag d),
      ct_command = Exec [''/opt/criteria-pod-adapter/adapter.sh''],
      ct_env = append_env_distinct (adapter_handshake_envs run scope runnerIP) (adapter_envs plan),
      ct_mounts = adapter_mounts plan (\<not> wire_token_delivery scope runnerIP \<or> declares_data_mount plan),
      ct_resources = Some (adapter_resources (adapter_kind scope)),
      ct_security = restricted_container_security_context\<rparr>"

definition new_pod :: "string \<Rightarrow> string \<Rightarrow> smap \<Rightarrow> smap \<Rightarrow> criteria_run \<Rightarrow> pod_spec \<Rightarrow> pod" where
  "new_pod ns name labels annotations run spec =
     \<lparr>po_namespace = ns, po_name = name, po_labels = labels, po_annotations = annotations,
      po_owners = [owner_reference run], po_deletionTimestamp = None, po_spec = spec, po_phase = '''',
      po_podIP = '''', po_message = '''', po_initStatuses = [], po_statuses = [], po_podConditions = []\<rparr>"

text \<open>The service account token is mounted for a workflow with declared secrets only.\<close>

definition secret_access :: "workflow_plan option \<Rightarrow> pod_spec \<Rightarrow> pod_spec" where
  "secret_access plan spec = spec\<lparr>ps_automountToken := Some (has_secrets plan),
     ps_serviceAccount := (if has_secrets plan then ''criteria-runner'' else ps_serviceAccount spec)\<rparr>"

definition build_per_scope_adapter_pod ::
  "library \<Rightarrow> criteria_run \<Rightarrow> defaults \<Rightarrow> lifecycle_event \<Rightarrow> string \<Rightarrow> pod" where
  "build_per_scope_adapter_pod lib run d scope runnerIP =
     (let kind = adapter_kind scope;
          plan = new_workflow_plan run;
          includeData = (\<not> wire_token_delivery scope runnerIP \<or> declares_data_mount plan);
          labels = assoc_put label_scope_id (safe_label_value (le_scopeID scope))
            (assoc_put label_adapter_kind kind (assoc_put label_role role_adapter (base_labels run)));
          spec = (secret_access plan (child_pod_spec d))\<lparr>
            ps_containers := [per_scope_adapter_container run d scope plan (''adapter-'' @ kind) runnerIP],
            ps_volumes := adapter_volumes lib plan (data_pvc d) includeData\<rparr>;
          (labels', spec') = apply_host_affinity plan labels spec
      in new_pod (target_namespace run) (per_scope_adapter_pod_name lib run kind (le_scopeID scope))
           labels' [] run spec')"

section \<open>The manifest of a peer\<close>

definition definition_id :: "lifecycle_event \<Rightarrow> string" where
  "definition_id m = adapter_kind m @ ''.'' @ le_adapterName m"

fun first_by :: "('a \<Rightarrow> string) \<Rightarrow> string list \<Rightarrow> 'a list \<Rightarrow> 'a list" where
  "first_by key seen [] = []"
| "first_by key seen (x # xs) =
     (if key x \<in> set seen then first_by key seen xs else x # first_by key (key x # seen) xs)"

definition peer_adapter_definitions :: "lifecycle_event list \<Rightarrow> string list" where
  "peer_adapter_definitions members = sort (map definition_id (first_by definition_id [] members))"

definition peer_adapter_definitions_label :: "lifecycle_event list \<Rightarrow> string" where
  "peer_adapter_definitions_label members = join '','' (peer_adapter_definitions members)"

definition peer_adapter_kinds :: "lifecycle_event list \<Rightarrow> string list" where
  "peer_adapter_kinds members = sort (map adapter_kind (first_by adapter_kind [] members))"

definition adapter_kinds_label :: "lifecycle_event list \<Rightarrow> string" where
  "adapter_kinds_label members = join '','' (map safe_label_value (peer_adapter_kinds members))"

definition peer_adapter_env_name :: "string \<Rightarrow> string" where
  "peer_adapter_env_name kind = ''CRITERIA_ADAPTER_'' @
     map (\<lambda>c. if in_range CHR ''A'' CHR ''Z'' c \<or> in_range CHR ''0'' CHR ''9'' c then c else CHR ''_'')
       (map to_upper kind)"

definition peer_adapter_manifest_env :: "lifecycle_event list \<Rightarrow> env_var list" where
  "peer_adapter_manifest_env members =
     map (\<lambda>m. env_text (peer_adapter_env_name (definition_id m) @ ''_DIGEST'') (qualified_digest (le_digest m)))
       (filter (\<lambda>m. le_digest m \<noteq> '''') (first_by definition_id [] members))"

definition distinct_scopes :: "lifecycle_event list \<Rightarrow> nat" where
  "distinct_scopes members = card (set (map (\<lambda>m. le_scopeTag m @ ''/'' @ le_scopeID m) members))"

definition scope_set_delivery :: "lifecycle_event list \<Rightarrow> bool" where
  "scope_set_delivery members \<longleftrightarrow> length members > 1 \<or> distinct_scopes members > 1"

section \<open>Staging the binaries\<close>

definition per_scope_peer_container_name :: string where "per_scope_peer_container_name = ''criteria-peer''"
definition per_scope_peer_bin_volume_name :: string where
  "per_scope_peer_bin_volume_name = ''peer-adapter-binaries''"
definition per_scope_peer_bin_volume_path :: string where
  "per_scope_peer_bin_volume_path = ''/usr/local/share/criteria-peer-adapters''"
definition engine_image_adapter_binary_path :: string where
  "engine_image_adapter_binary_path = ''/usr/local/bin/criteria-adapter-''"

definition peer_bin_binary_path :: "string \<Rightarrow> string" where
  "peer_bin_binary_path kind = path_join [per_scope_peer_bin_volume_path, ''criteria-adapter-'' @ kind]"

definition valid_artifact_digest :: "string \<Rightarrow> bool" where
  "valid_artifact_digest digest \<longleftrightarrow> has_digest_prefix digest \<and> length digest = 7 + 64 \<and>
     list_all (\<lambda>c. in_range CHR ''0'' CHR ''9'' c \<or> in_range CHR ''a'' CHR ''f'' c) (drop 7 digest)"

text \<open>The pin suffix after the last slash is dropped: a digest at the last at sign, else a tag at the
  last colon.\<close>

definition artifact_pull_repo :: "string \<Rightarrow> string" where
  "artifact_pull_repo ref =
     (let lastSlash = last_index ref CHR ''/''; at = last_index ref CHR ''@''; colon = last_index ref CHR '':''
      in if at > lastSlash then take (nat at) ref
         else if colon > lastSlash then take (nat colon) ref else ref)"

definition safe_shell_token :: "string \<Rightarrow> string \<Rightarrow> bool" where
  "safe_shell_token s extra \<longleftrightarrow> list_all (\<lambda>c. in_range CHR ''a'' CHR ''z'' c \<or> in_range CHR ''A'' CHR ''Z'' c \<or>
     in_range CHR ''0'' CHR ''9'' c \<or> c = CHR ''_'' \<or> c \<in> set extra) s"

definition safe_pull_repo :: "string \<Rightarrow> bool" where
  "safe_pull_repo repo \<longleftrightarrow> 0 < length repo \<and> length repo \<le> 300 \<and> CHR ''/'' \<in> set repo \<and>
     safe_shell_token repo '':/._-''"

definition safe_staged_kind :: "string \<Rightarrow> bool" where
  "safe_staged_kind kind \<longleftrightarrow> 0 < length kind \<and> length kind \<le> 64 \<and> safe_shell_token kind ''.-''"

definition digest_pull_ref :: "lifecycle_event \<Rightarrow> string option" where
  "digest_pull_ref m =
     (if le_digest m = '''' \<or> le_imageReference m = '''' then None
      else let digest = qualified_digest (le_digest m); repo = artifact_pull_repo (le_imageReference m)
           in if \<not> valid_artifact_digest digest then None
              else if \<not> safe_pull_repo repo then None
              else Some (repo @ ''@'' @ digest))"

record adapter_stage =
  ag_kind :: string
  ag_pullRef :: string

definition digest_staged :: "adapter_stage \<Rightarrow> bool" where
  "digest_staged s \<longleftrightarrow> ag_pullRef s \<noteq> ''''"

definition stage_of :: "lifecycle_event \<Rightarrow> adapter_stage" where
  "stage_of m = \<lparr>ag_kind = adapter_kind m,
     ag_pullRef = (case digest_pull_ref m of Some ref \<Rightarrow> ref | None \<Rightarrow> '''')\<rparr>"

definition adapter_stages :: "lifecycle_event list \<Rightarrow> adapter_stage list" where
  "adapter_stages members = sort_key ag_kind (map stage_of (first_by adapter_kind [] members))"

definition stages_adapter_binaries :: "adapter_stage list \<Rightarrow> bool" where
  "stages_adapter_binaries stages \<longleftrightarrow> length stages > 1 \<or> list_ex digest_staged stages"

definition runner_stage_criteria_home :: "criteria_run \<Rightarrow> string" where
  "runner_stage_criteria_home run =
     (if sp_workflowSource (ru_spec run) \<noteq> None then source_criteria_home (job_name run) else ''/data/criteria'')"

text \<open>The staging script of a stage: the digest after the first at sign must be valid, else the
  script stages the image's own binary.\<close>

definition peer_stage_script :: "criteria_run \<Rightarrow> adapter_stage \<Rightarrow> script" where
  "peer_stage_script run stage =
     (let digest = tl (dropWhile (\<lambda>c. c \<noteq> CHR ''@'') (ag_pullRef stage))
      in if CHR ''@'' \<notin> set (ag_pullRef stage) \<or> \<not> valid_artifact_digest digest
         then PeerStageImageFallbackScript (ag_kind stage)
         else PeerStageScript (ag_kind stage) digest (ag_pullRef stage) (runner_stage_criteria_home run))"

definition peer_bin_init_container_name :: "string \<Rightarrow> string \<Rightarrow> string" where
  "peer_bin_init_container_name lane kind = trim_hyphens (lane @ ''-'' @
     map (\<lambda>c. if dns_char c then c else CHR ''-'') (map to_lower kind))"

definition kind_member :: "lifecycle_event list \<Rightarrow> string \<Rightarrow> lifecycle_event" where
  "kind_member members kind =
     (case find (\<lambda>m. adapter_kind m = kind) members of Some m \<Rightarrow> m | None \<Rightarrow> zero_event)"

definition stage_container ::
  "criteria_run \<Rightarrow> workflow_plan option \<Rightarrow> defaults \<Rightarrow> bool \<Rightarrow> lifecycle_event list \<Rightarrow> adapter_stage \<Rightarrow> container" where
  "stage_container run plan d includeData members stage =
     (let pull = digest_staged stage \<and> safe_staged_kind (ag_kind stage)
      in \<lparr>ct_name = peer_bin_init_container_name (if pull then ''pull'' else ''copy'') (ag_kind stage),
          ct_image = resolve_peer_adapter_image plan (kind_member members (ag_kind stage)) (ag_kind stage)
            (df_adapterRegistry d) (df_adapterTag d),
          ct_command = (if pull then Shell [''/bin/sh'', ''-ec''] (peer_stage_script run stage)
            else Exec [''/bin/cp'', engine_image_adapter_binary_path @ ag_kind stage,
                       peer_bin_binary_path (ag_kind stage)]),
          ct_env = [],
          ct_mounts = plain_mount per_scope_peer_bin_volume_name per_scope_peer_bin_volume_path #
            (if includeData then [data_mount\<lparr>vm_readOnly := True\<rparr>] else []),
          ct_resources = None, ct_security = restricted_container_security_context\<rparr>)"

definition peer_bin_copy_containers ::
  "criteria_run \<Rightarrow> workflow_plan option \<Rightarrow> defaults \<Rightarrow> bool \<Rightarrow> lifecycle_event list \<Rightarrow> container list" where
  "peer_bin_copy_containers run plan d includeData members =
     (let stages = adapter_stages members
      in if \<not> stages_adapter_binaries stages then []
         else map (stage_container run plan d includeData members) stages)"

definition stage_for :: "adapter_stage list \<Rightarrow> string \<Rightarrow> bool" where
  "stage_for stages kind \<longleftrightarrow> list_ex (\<lambda>s. ag_kind s = kind \<and> digest_staged s) stages"

definition peer_adapter_binaries_env :: "lifecycle_event list \<Rightarrow> env_var list" where
  "peer_adapter_binaries_env members =
     (let stages = adapter_stages members
      in map (\<lambda>m. env_text (peer_adapter_env_name (definition_id m) @ ''_BINARY'')
                 (if stage_for stages (adapter_kind m) \<or> length stages > 1
                  then peer_bin_binary_path (adapter_kind m)
                  else engine_image_adapter_binary_path @ adapter_kind m))
           (first_by definition_id [] members))"

definition peer_pod_volumes :: "library \<Rightarrow> workflow_plan option \<Rightarrow> string \<Rightarrow> bool \<Rightarrow> lifecycle_event list \<Rightarrow> volume list" where
  "peer_pod_volumes lib plan dataPVC includeData members =
     pod_volumes lib plan dataPVC includeData @
     (if stages_adapter_binaries (adapter_stages members)
      then [\<lparr>vl_name = per_scope_peer_bin_volume_name, vl_source = EmptyDirSource None\<rparr>] else [])"

definition peer_container_mounts :: "workflow_plan option \<Rightarrow> bool \<Rightarrow> lifecycle_event list \<Rightarrow> volume_mount list" where
  "peer_container_mounts plan includeData members =
     peer_adapter_mounts plan includeData @
     (if stages_adapter_binaries (adapter_stages members)
      then [(plain_mount per_scope_peer_bin_volume_name per_scope_peer_bin_volume_path)\<lparr>vm_readOnly := True\<rparr>]
      else [])"

definition resources_max :: "resources \<Rightarrow> resources \<Rightarrow> resources" where
  "resources_max a b = \<lparr>rs_requestMemory = max (rs_requestMemory a) (rs_requestMemory b),
     rs_requestCPU = max (rs_requestCPU a) (rs_requestCPU b),
     rs_limitMemory = max (rs_limitMemory a) (rs_limitMemory b),
     rs_limitCPU = max (rs_limitCPU a) (rs_limitCPU b)\<rparr>"

definition peer_container_resources :: "lifecycle_event list \<Rightarrow> resources" where
  "peer_container_resources members =
     foldl (\<lambda>res m. resources_max res (adapter_resources (adapter_kind m)))
       (adapter_resources (adapter_kind (hd members))) (tl members)"

section \<open>The peer pod\<close>

definition peer_envs :: "criteria_run \<Rightarrow> lifecycle_event \<Rightarrow> lifecycle_event list \<Rightarrow> string \<Rightarrow> env_var list" where
  "peer_envs run dial members runnerIP =
     [env_text ''CRITERIA_RUN_JOB_NAME'' (job_name run), env_text ''CRITERIA_HEARTBEAT_INTERVAL'' ''5s'',
      env_text ''CRITERIA_REMOTE_ADAPTERS'' (peer_adapter_definitions_label members)]
     @ (if scope_set_delivery members then [env_text ''CRITERIA_SCOPE_SET'' ''1'']
        else [env_text ''CRITERIA_REMOTE_SCOPE'' (le_scopeTag dial @ ''/'' @ le_scopeID dial),
              env_text ''CRITERIA_SCOPE_ID'' (le_scopeID dial)]
             @ (if le_scopeTag dial \<noteq> '''' then [env_text ''CRITERIA_SCOPE_TAG'' (le_scopeTag dial)] else []))
     @ peer_adapter_manifest_env members
     @ (if peer_wire_delivery members runnerIP \<and> \<not> scope_set_delivery members
        then [env_text ''CRITERIA_REMOTE_HOST'' (runner_dial_addr runnerIP (le_shimAddress dial)),
              env_text ''CRITERIA_REMOTE_TOKEN'' (le_acceptToken dial)]
        else (if runnerIP \<noteq> ''''
              then [env_text ''CRITERIA_REMOTE_HOST'' (runner_dial_addr runnerIP (le_shimAddress dial))] else [])
           @ (let root = peer_discovery_root (le_tokenFile dial)
              in if root \<noteq> '''' then [env_text ''CRITERIA_REMOTE_SCOPES_DIR'' root] else []))
     @ peer_adapter_binaries_env members"

definition per_scope_peer_container ::
  "criteria_run \<Rightarrow> defaults \<Rightarrow> workflow_plan option \<Rightarrow> lifecycle_event \<Rightarrow> lifecycle_event list \<Rightarrow> string \<Rightarrow>
   bool \<Rightarrow> container" where
  "per_scope_peer_container run d plan dial members runnerIP includeData =
     \<lparr>ct_name = per_scope_peer_container_name,
      ct_image = resolve_peer_adapter_image plan dial (adapter_kind dial) (df_adapterRegistry d) (df_adapterTag d),
      ct_command = Entrypoint,
      ct_env = append_env_distinct (peer_envs run dial members runnerIP) (adapter_envs plan),
      ct_mounts = peer_container_mounts plan includeData members,
      ct_resources = Some (peer_container_resources members),
      ct_security = restricted_container_security_context\<rparr>"

text \<open>The members in the builder's order (members equal in all three keys keep their order here), and
  the one whose identity the pod dials with.\<close>

definition sort_members :: "lifecycle_event list \<Rightarrow> lifecycle_event list" where
  "sort_members members = sort_key (\<lambda>m. (scope_key m, adapter_kind m, le_adapterName m)) members"

definition dial_member :: "lifecycle_event list \<Rightarrow> lifecycle_event" where
  "dial_member members =
     (case find (\<lambda>m. le_tokenFile m \<noteq> '''' \<or> le_acceptToken m \<noteq> '''' \<or> le_shimAddress m \<noteq> '''') members of
        Some m \<Rightarrow> m | None \<Rightarrow> hd members)"

definition peer_include_data :: "workflow_plan option \<Rightarrow> lifecycle_event list \<Rightarrow> string \<Rightarrow> bool" where
  "peer_include_data plan members runnerIP \<longleftrightarrow> \<not> peer_wire_delivery members runnerIP \<or>
     declares_data_mount plan \<or> scope_set_delivery members"

definition peer_pod_spec ::
  "library \<Rightarrow> criteria_run \<Rightarrow> defaults \<Rightarrow> workflow_plan option \<Rightarrow> lifecycle_event list \<Rightarrow> string \<Rightarrow> pod_spec" where
  "peer_pod_spec lib run d plan members runnerIP =
     (let includeData = peer_include_data plan members runnerIP
      in (secret_access plan (child_pod_spec d))\<lparr>
        ps_initContainers := peer_bin_copy_containers run plan d includeData members,
        ps_containers := [per_scope_peer_container run d plan (dial_member members) members runnerIP includeData],
        ps_volumes := peer_pod_volumes lib plan (data_pvc d) includeData members\<rparr>)"

definition build_per_scope_peer_pod ::
  "library \<Rightarrow> criteria_run \<Rightarrow> defaults \<Rightarrow> string \<Rightarrow> string \<Rightarrow> lifecycle_event list \<Rightarrow> string \<Rightarrow> pod option" where
  "build_per_scope_peer_pod lib run d scopeID environment members0 runnerIP =
     (if members0 = [] then None
      else
        let members = sort_members members0;
            plan = new_workflow_plan run;
            labels = assoc_put label_environment (safe_label_value environment)
              (assoc_put label_scope_id (safe_label_value scopeID)
                (assoc_put label_role role_adapter (base_labels run)));
            (labels', spec') = apply_host_affinity plan labels (peer_pod_spec lib run d plan members runnerIP)
        in Some (new_pod (target_namespace run) (per_scope_peer_pod_name lib run scopeID environment)
             labels' [(annotation_adapter_kinds, adapter_kinds_label members)] run spec'))"

end
