(* ===== verification/SingleActive.thy ===== *)
theory SingleActive
  imports RunTypes
begin

text \<open>
  The single-active invariant of \<open>criteriarun_controller.go\<close> (\<open>singleActiveTicketRun\<close>,
  \<open>runOlder\<close>): the run that blocks another run of the same ticket at admission. The age of a run
  is a linear order, creation time first and name as the tie break, so the order theory of the
  library gives the oldest run of a ticket.
\<close>

section \<open>The age order\<close>

datatype age_key = Age (age_time: gotime) (age_name: string)

instantiation age_key :: linorder
begin

definition less_age_key :: "age_key \<Rightarrow> age_key \<Rightarrow> bool" where
  "less_age_key a b \<longleftrightarrow>
     age_time a < age_time b \<or> age_time a = age_time b \<and> age_name a < age_name b"

definition less_eq_age_key :: "age_key \<Rightarrow> age_key \<Rightarrow> bool" where
  "less_eq_age_key a b \<longleftrightarrow>
     age_time a < age_time b \<or> age_time a = age_time b \<and> age_name a \<le> age_name b"

instance
  by standard (auto simp: less_age_key_def less_eq_age_key_def age_key.expand)

end

definition age_key_of :: "criteria_run \<Rightarrow> age_key" where
  "age_key_of r = Age (ru_creationTimestamp r) (ru_name r)"

definition run_older :: "criteria_run \<Rightarrow> criteria_run \<Rightarrow> bool" where
  "run_older a b =
     (if ru_creationTimestamp a \<noteq> ru_creationTimestamp b
      then ru_creationTimestamp a < ru_creationTimestamp b
      else ru_name a < ru_name b)"

lemma run_older_age: "run_older a b \<longleftrightarrow> age_key_of a < age_key_of b"
  by (auto simp: run_older_def age_key_of_def less_age_key_def)

section \<open>The blocker\<close>

definition is_deleting :: "criteria_run \<Rightarrow> bool" where
  "is_deleting r \<longleftrightarrow> (case ru_deletionTimestamp r of None \<Rightarrow> False | Some t \<Rightarrow> \<not> is_zero t)"

text \<open>The loop over the listed runs; the empty name stands for no blocker.\<close>

fun single_active_blocker :: "criteria_run list \<Rightarrow> criteria_run \<Rightarrow> string" where
  "single_active_blocker [] run = ''''"
| "single_active_blocker (other # rest) run =
     (if ru_name other = ru_name run \<or> sp_ticketID (ru_spec other) \<noteq> sp_ticketID (ru_spec run)
      then single_active_blocker rest run
      else if is_deleting other \<or> is_terminal_phase (st_phase (ru_status other))
      then single_active_blocker rest run
      else if st_jobName (ru_status other) \<noteq> '''' \<or> run_older other run then ru_name other
      else single_active_blocker rest run)"

definition live_for :: "string \<Rightarrow> criteria_run \<Rightarrow> bool" where
  "live_for ticket r \<longleftrightarrow> sp_ticketID (ru_spec r) = ticket \<and> \<not> is_deleting r \<and>
     \<not> is_terminal_phase (st_phase (ru_status r))"

definition actuated :: "criteria_run \<Rightarrow> bool" where
  "actuated r \<longleftrightarrow> st_jobName (ru_status r) \<noteq> ''''"

definition blocks :: "criteria_run \<Rightarrow> criteria_run \<Rightarrow> bool" where
  "blocks other run \<longleftrightarrow> ru_name other \<noteq> ru_name run \<and>
     live_for (sp_ticketID (ru_spec run)) other \<and> (actuated other \<or> run_older other run)"

lemma blocks_simp:
  "blocks other run \<longleftrightarrow> \<not> (ru_name other = ru_name run \<or> sp_ticketID (ru_spec other) \<noteq> sp_ticketID (ru_spec run)) \<and>
     \<not> (is_deleting other \<or> is_terminal_phase (st_phase (ru_status other))) \<and>
     (st_jobName (ru_status other) \<noteq> '''' \<or> run_older other run)"
  by (auto simp: blocks_def live_for_def actuated_def)

lemma single_active_blocker_find:
  "single_active_blocker runs run =
     (case find (\<lambda>other. blocks other run) runs of None \<Rightarrow> '''' | Some other \<Rightarrow> ru_name other)"
  by (induction runs) (simp_all add: blocks_simp del: not_Cons_self2)

lemma unblocked_iff:
  assumes "\<forall>r \<in> set runs. ru_name r \<noteq> ''''"
  shows "single_active_blocker runs run = '''' \<longleftrightarrow> (\<forall>other \<in> set runs. \<not> blocks other run)"
  using assms by (auto simp: single_active_blocker_find find_None_iff find_Some_iff split: option.splits)

section \<open>Properties\<close>

text \<open>
  C14. At most one of a ticket's runs that the controller has not actuated passes the single-active
  check, and none passes while an actuated run of the ticket is live: whatever the listing order,
  the runs that pass are never two.
\<close>

theorem single_active_exclusive:
  assumes "\<forall>r \<in> set runs. ru_name r \<noteq> ''''" and "distinct (map ru_name runs)"
    and "a \<in> set runs" and "b \<in> set runs" and "live_for t a" and "live_for t b"
    and "single_active_blocker runs a = ''''" and "\<not> actuated a"
    and "actuated b \<or> single_active_blocker runs b = ''''"
  shows "a = b"
proof (rule ccontr)
  assume "a \<noteq> b"
  then have names: "ru_name a \<noteq> ru_name b" using assms(2-4) by (auto dest: map_of_eqI simp: distinct_map inj_on_def)
  then have "age_key_of a \<noteq> age_key_of b" by (simp add: age_key_of_def)
  then consider "run_older a b" | "run_older b a"
    unfolding run_older_age by (meson neqE)
  moreover have "\<not> blocks b a" using assms(1,4,7) unblocked_iff by blast
  moreover have "actuated b \<or> \<not> blocks a b" using assms(1,3,9) unblocked_iff by blast
  ultimately show False using assms(5,6) names by (auto simp: blocks_def live_for_def)
qed

definition ticket_run :: "string \<Rightarrow> gotime \<Rightarrow> criteria_run" where
  "ticket_run name t = zero_run\<lparr>ru_name := name, ru_creationTimestamp := t,
     ru_spec := zero_spec\<lparr>sp_ticketID := ''KB-1''\<rparr>\<rparr>"

lemmas ticket_run_eval = ticket_run_def zero_defs live_for_def is_deleting_def actuated_def
  run_older_def is_terminal_phase_def

theorem single_active_exclusive_witness:
  "let runs = [ticket_run ''y'' 5, ticket_run ''x'' 5]
   in single_active_blocker runs (ticket_run ''x'' 5) = '''' \<and>
      single_active_blocker runs (ticket_run ''y'' 5) = ''x'' \<and>
      (\<forall>b \<in> set runs. single_active_blocker runs b = '''' \<longrightarrow> ticket_run ''x'' 5 = b)"
proof -
  let ?runs = "[ticket_run ''y'' 5, ticket_run ''x'' 5]"
  have x: "single_active_blocker ?runs (ticket_run ''x'' 5) = ''''"
    and y: "single_active_blocker ?runs (ticket_run ''y'' 5) = ''x''"
    by (simp_all add: ticket_run_eval)
  have "ticket_run ''x'' 5 = b" if "b \<in> set ?runs" "single_active_blocker ?runs b = ''''" for b
    by (rule single_active_exclusive [where runs = ?runs and t = "''KB-1''"])
      (use that x in \<open>auto simp: ticket_run_eval\<close>)
  with x y show ?thesis by (auto simp: Let_def)
qed

text \<open>
  C15. The single-active check never blocks a whole ticket: when no live run of the ticket is
  actuated, its oldest live run passes, and it is the run every other one waits for or follows.
\<close>

theorem single_active_progress:
  assumes "\<forall>r \<in> set runs. ru_name r \<noteq> ''''" and "a \<in> set runs" and "live_for t a"
    and "\<forall>r \<in> set runs. live_for t r \<longrightarrow> \<not> actuated r"
  shows "\<exists>r \<in> set runs. live_for t r \<and> single_active_blocker runs r = '''' \<and>
    (\<forall>s \<in> set runs. live_for t s \<and> ru_name s \<noteq> ru_name r \<longrightarrow>
       run_older r s \<and> single_active_blocker runs s \<noteq> '''')"
proof -
  let ?L = "age_key_of ` {r \<in> set runs. live_for t r}"
  have fin: "finite ?L" "?L \<noteq> {}" using assms(2,3) by auto
  obtain r where least: "r \<in> {r \<in> set runs. live_for t r}" "Min ?L = age_key_of r" using Min_in [OF fin] by (rule imageE)
  then have r: "r \<in> set runs" "live_for t r" "age_key_of r = Min ?L" by simp_all
  have min: "age_key_of r \<le> age_key_of s" if "s \<in> set runs" "live_for t s" for s
    unfolding r(3) using fin(1) that by (intro Min_le) auto
  have tick: "sp_ticketID (ru_spec r) = t" using r(2) by (simp add: live_for_def)
  have "\<not> blocks s r" if "s \<in> set runs" for s
    using min [OF that] assms(4) that by (auto simp: blocks_def tick run_older_age)
  then have free: "single_active_blocker runs r = ''''" using assms(1) unblocked_iff by blast
  have "run_older r s \<and> single_active_blocker runs s \<noteq> ''''"
    if s: "s \<in> set runs" "live_for t s" "ru_name s \<noteq> ru_name r" for s
  proof -
    have older: "run_older r s"
      using min [OF s(1,2)] s(3) by (auto simp: run_older_age age_key_of_def le_less)
    then have "blocks r s" using r(2) s by (auto simp: blocks_def live_for_def)
    then show ?thesis using older r(1) assms(1) unblocked_iff by blast
  qed
  with r free show ?thesis by blast
qed

theorem single_active_progress_witness:
  "let runs = [ticket_run ''y'' 7, ticket_run ''x'' 5]
   in \<exists>r \<in> set runs. live_for ''KB-1'' r \<and> single_active_blocker runs r = ''''"
proof -
  let ?runs = "[ticket_run ''y'' 7, ticket_run ''x'' 5]"
  have "\<exists>r \<in> set ?runs. live_for ''KB-1'' r \<and> single_active_blocker ?runs r = '''' \<and>
    (\<forall>s \<in> set ?runs. live_for ''KB-1'' s \<and> ru_name s \<noteq> ru_name r \<longrightarrow>
       run_older r s \<and> single_active_blocker ?runs s \<noteq> '''')"
    by (rule single_active_progress [where a = "ticket_run ''y'' 7"])
      (auto simp: ticket_run_eval)
  then show ?thesis by (auto simp: Let_def)
qed

end
