(* ===== verification/RunStatus.thy ===== *)
theory RunStatus
  imports CastleObserve ArchiveRecord PeerPod InterfaceBinding SingleActive
begin

text \<open>
  The decisions of the reconciler that read or write no API object: the phase a Job's status stands
  for, the conditions on a run's status and their transition times, the terminal clock, the stall
  watchdog, what counts as a settled runner pod, and the pod-state reports. The current time is an
  argument. Sources: \<open>criteriarun_controller.go\<close>, \<open>workflowsource.go\<close>, \<open>stallwatchdog.go\<close>,
  \<open>terminalcleanup.go\<close>, \<open>crretention.go\<close> (the clock), \<open>podstate.go\<close>, \<open>baseimage.go\<close> under
  \<open>internal/controller\<close>.
\<close>

section \<open>Phases and ids\<close>

fun job_condition_phase :: "(string \<times> bool) list \<Rightarrow> criteria_run_phase option" where
  "job_condition_phase [] = None"
| "job_condition_phase ((type, is_true) # cs) =
     (if is_true \<and> type = ''Complete'' then Some PhaseSucceeded
      else if is_true \<and> type = ''Failed'' then Some PhaseFailed
      else job_condition_phase cs)"

definition derive_phase :: "job \<Rightarrow> criteria_run_phase" where
  "derive_phase j =
     (case job_condition_phase (jo_conditions j) of
        Some p \<Rightarrow> p
      | None \<Rightarrow>
          (if jo_active j > 0 then PhaseRunning
           else if jo_succeeded j > 0 then PhaseSucceeded
           else if jo_failed j > 0 then PhaseFailed
           else PhasePending))"

definition run_status_paused :: string where "run_status_paused = ''paused''"
definition run_status_stopped :: string where "run_status_stopped = ''stopped''"

definition castle_run_status_idle :: "string \<Rightarrow> bool" where
  "castle_run_status_idle status \<longleftrightarrow> status = run_status_paused \<or> status = run_status_stopped"

definition ann_assignment_run_id :: string where
  "ann_assignment_run_id = ''criteria.brokenbots.dev/assignment-run-id''"

definition castle_run_id_from_run :: "criteria_run \<Rightarrow> string" where
  "castle_run_id_from_run run =
     (if st_castleRunID (ru_status run) \<noteq> '''' then st_castleRunID (ru_status run)
      else let asg = smap_get (ru_annotations run) ann_assignment_run_id
           in if asg \<noteq> '''' then asg
              else smap_get (ru_annotations run) annotation_proxy_castle_run_id)"

definition runner_job_name_for_run :: "criteria_run \<Rightarrow> string" where
  "runner_job_name_for_run run =
     (if st_jobName (ru_status run) \<noteq> '''' then st_jobName (ru_status run) else runner_job_name run)"

definition workflow_source_missing :: "criteria_run \<Rightarrow> bool" where
  "workflow_source_missing run \<longleftrightarrow>
     (case sp_workflow (ru_spec run) of
        None \<Rightarrow> False
      | Some w \<Rightarrow> wf_type w = type_url \<and> sp_workflowSource (ru_spec run) = None)"

definition runner_image_mismatch :: "criteria_run_status \<Rightarrow> job \<Rightarrow> string \<Rightarrow> string option" where
  "runner_image_mismatch status runnerJob current =
     (if st_baseImage status \<noteq> '''' \<and> st_baseImage status \<noteq> current then Some (st_baseImage status)
      else let img = runner_job_image runnerJob
           in if img \<noteq> '''' \<and> img \<noteq> current then Some img else None)"

section \<open>Conditions\<close>

text \<open>
  \<open>upsertCondition\<close>: the first condition of the type is replaced and keeps its transition time when
  its status does not change; otherwise the new condition is appended. \<open>now\<close> is the clock value.
\<close>

fun upsert_conditions :: "gotime \<Rightarrow> condition \<Rightarrow> condition list \<Rightarrow> condition list" where
  "upsert_conditions now cond [] = [cond\<lparr>co_lastTransitionTime := now\<rparr>]"
| "upsert_conditions now cond (c # cs) =
     (if co_type c \<noteq> co_type cond then c # upsert_conditions now cond cs
      else cond\<lparr>co_lastTransitionTime :=
             (if co_status c \<noteq> co_status cond then now else co_lastTransitionTime c)\<rparr> # cs)"

definition upsert_condition :: "gotime \<Rightarrow> condition \<Rightarrow> criteria_run \<Rightarrow> criteria_run" where
  "upsert_condition now cond run = run\<lparr>ru_status := (ru_status run)\<lparr>
     st_conditions := upsert_conditions now cond (st_conditions (ru_status run))\<rparr>\<rparr>"

definition true_condition :: "string \<Rightarrow> string \<Rightarrow> string \<Rightarrow> int \<Rightarrow> condition" where
  "true_condition type reason message generation =
     \<lparr>co_type = type, co_status = True, co_reason = reason, co_message = message,
      co_observedGeneration = generation, co_lastTransitionTime = zero_time\<rparr>"

definition true_condition_of :: "string \<Rightarrow> criteria_run_status \<Rightarrow> condition option" where
  "true_condition_of type status = find (\<lambda>c. co_type c = type \<and> co_status c) (st_conditions status)"

definition terminal_cleanup_condition :: "criteria_run \<Rightarrow> condition option" where
  "terminal_cleanup_condition run = true_condition_of condition_terminal_cleanup (ru_status run)"

definition stall_watchdog_fired :: "criteria_run_status \<Rightarrow> bool" where
  "stall_watchdog_fired status \<longleftrightarrow> true_condition_of condition_stall_watchdog status \<noteq> None"

definition castle_terminal_observed :: "criteria_run_status \<Rightarrow> bool" where
  "castle_terminal_observed status \<longleftrightarrow> st_castleTerminalObserved status"

text \<open>\<open>clearTerminalCleanup\<close> cuts the first condition of the type out of the list.\<close>

fun drop_condition :: "string \<Rightarrow> condition list \<Rightarrow> condition list" where
  "drop_condition type [] = []"
| "drop_condition type (c # cs) = (if co_type c = type then cs else c # drop_condition type cs)"

section \<open>The terminal clock\<close>

definition stamp_terminal_at :: "gotime \<Rightarrow> observation option \<Rightarrow> criteria_run \<Rightarrow> criteria_run" where
  "stamp_terminal_at now obs update =
     (if \<not> is_terminal_phase (st_phase (ru_status update)) \<or> st_terminalAt (ru_status update) \<noteq> None
      then update
      else
        let recorded = (case obs of
                None \<Rightarrow> now
              | Some ob \<Rightarrow>
                  (case ob_runRecord ob of
                     Some rec \<Rightarrow> (if \<not> is_zero (rc_endedAt rec) then rc_endedAt rec else now)
                   | None \<Rightarrow> now));
            at = (case obs of
                None \<Rightarrow> now
              | Some ob \<Rightarrow>
                  (case ob_terminal ob of
                     Some t \<Rightarrow> (if \<not> is_zero (tm_at t) then tm_at t else recorded)
                   | None \<Rightarrow> recorded))
        in update\<lparr>ru_status := (ru_status update)\<lparr>st_terminalAt := Some at\<rparr>\<rparr>)"

section \<open>The stall watchdog\<close>

text \<open>UTF-8 of the long dash the condition messages use.\<close>

definition long_dash :: string where "long_dash = [CHR 0xE2, CHR 0x80, CHR 0x94]"

definition mark_stall_watchdog ::
  "(gotime \<Rightarrow> string) \<Rightarrow> (duration \<Rightarrow> string) \<Rightarrow> gotime \<Rightarrow> int \<Rightarrow> gotime \<Rightarrow> duration \<Rightarrow> criteria_run \<Rightarrow>
   criteria_run" where
  "mark_stall_watchdog fmt dur now generation lastProgress window update =
     upsert_condition now
       (true_condition condition_stall_watchdog condition_stall_watchdog
          (''no step progress for '' @ dur window @ '' (last step event '' @ fmt lastProgress @
           ''); the run is parked failed '' @ long_dash @
           '' refire decisions belong to the shepherd (KB-24, KB-302)'') generation)
       update"

definition apply_stall_watchdog ::
  "(gotime \<Rightarrow> string) \<Rightarrow> (duration \<Rightarrow> string) \<Rightarrow> duration \<Rightarrow> gotime \<Rightarrow> criteria_run \<Rightarrow> observation \<Rightarrow>
   criteria_run \<Rightarrow> bool \<times> criteria_run" where
  "apply_stall_watchdog fmt dur window now run obs update =
     (if window \<le> 0 then (False, update)
      else if is_zero (ob_lastProgress obs) \<and> st_lastStepProgress (ru_status update) = None
      then (False, update\<lparr>ru_status := (ru_status update)\<lparr>st_lastStepProgress := Some now\<rparr>\<rparr>)
      else
        let progress = (if is_zero (ob_lastProgress obs)
                        then the (st_lastStepProgress (ru_status update)) else ob_lastProgress obs);
            stamped = (if is_zero (ob_lastProgress obs) then update
                       else update\<lparr>ru_status := (ru_status update)\<lparr>
                              st_lastStepProgress := Some progress\<rparr>\<rparr>)
        in if st_phase (ru_status stamped) \<noteq> PhaseRunning then (False, stamped)
           else if time_sub now progress \<le> window then (False, stamped)
           else (True, mark_stall_watchdog fmt dur now (ru_generation run) progress window
                   (stamped\<lparr>ru_status := (ru_status stamped)\<lparr>st_phase := PhaseFailed\<rparr>\<rparr>)))"

section \<open>Pods that can still restart\<close>

definition container_pending :: "string \<Rightarrow> string \<Rightarrow> container_status \<Rightarrow> string" where
  "container_pending policy podName cs =
     (let name = podName @ ''/'' @ cs_name cs
      in case cs_terminated cs of
           Some (code, reason, message) \<Rightarrow>
             (if code = 0 \<or> policy = ''Never'' then ''''
              else ''container '' @ name @ '' exited with code '' @ show_int code @ ''; an '' @ policy @
                   '' restart will follow'')
         | None \<Rightarrow>
             (if cs_running cs then ''container '' @ name @ '' is running''
              else case cs_waiting cs of
                     Some (reason, message) \<Rightarrow>
                       (if cs_lastTerminated cs
                        then ''container '' @ name @ '' is between restart attempts ('' @ reason @
                             '', restarts='' @ show_int (cs_restartCount cs) @ '')''
                        else ''container '' @ name @ '' has not started yet ('' @ reason @
                             '', restarts='' @ show_int (cs_restartCount cs) @
                             ''); a start attempt can still land'')
                   | None \<Rightarrow> ''container '' @ name @
                             '' has no observed state yet; a start attempt can still land''))"

definition pod_restart_pending :: "pod \<Rightarrow> string" where
  "pod_restart_pending p =
     (if po_deletionTimestamp p \<noteq> None then ''''
      else if po_phase p = ''Succeeded'' \<or> po_phase p = ''Failed'' then ''''
      else first_nonempty (map (container_pending (ps_restartPolicy (po_spec p)) (po_name p))
             (po_initStatuses p @ po_statuses p)))"

section \<open>Pod-state reports\<close>

definition pod_state_max_message :: nat where "pod_state_max_message = 2048"

text \<open>\<open>[]rune(s)\<close> splits before every byte that starts a rune.\<close>

fun runes :: "string \<Rightarrow> string list" where
  "runes [] = []"
| "runes (c # cs) =
     (case runes cs of
        [] \<Rightarrow> [[c]]
      | r # rs \<Rightarrow> (if rune_start (hd r) then [c] # r # rs else (c # r) # rs))"

definition clamp_message :: "string \<Rightarrow> string" where
  "clamp_message s =
     (if length s \<le> pod_state_max_message then s
      else if length (runes s) > pod_state_max_message
      then concat (take pod_state_max_message (runes s)) else concat (runes s))"

fun container_wait :: "container_status list \<Rightarrow> (string \<times> string) option" where
  "container_wait [] = None"
| "container_wait (cs # rest) =
     (case cs_waiting cs of
        Some (reason, message) \<Rightarrow>
          (if reason \<noteq> '''' then Some (reason, clamp_message message) else
             (case cs_terminated cs of
                Some (code, treason, tmessage) \<Rightarrow>
                  (if treason \<noteq> '''' then Some (treason, clamp_message tmessage) else container_wait rest)
              | None \<Rightarrow> container_wait rest))
      | None \<Rightarrow>
          (case cs_terminated cs of
             Some (code, treason, tmessage) \<Rightarrow>
               (if treason \<noteq> '''' then Some (treason, clamp_message tmessage) else container_wait rest)
           | None \<Rightarrow> container_wait rest))"

definition pod_state_wait_reason :: "pod \<Rightarrow> string \<times> string" where
  "pod_state_wait_reason p =
     (case find (\<lambda>c. pc_type c = ''PodScheduled'' \<and> pc_status c = ''False'' \<and> pc_reason c \<noteq> '''')
             (po_podConditions p) of
        Some c \<Rightarrow> (pc_reason c, clamp_message (pc_message c))
      | None \<Rightarrow>
          (case container_wait (po_statuses p) of
             Some wait \<Rightarrow> wait
           | None \<Rightarrow> (if po_message p \<noteq> '''' then ('''', clamp_message (po_message p)) else ('''', ''''))))"

end
