(* ===== verification/PodState.thy ===== *)
theory PodState
  imports RunStatus
begin

text \<open>
  The pod-state lane: the reports a reconcile pass derives from the adapter pods it listed
  (\<open>internal/controller/podstate.go\<close>), their validation and wire shape
  (\<open>internal/events/podstate.go\<close>), and the feed that submits them on transitions only, with bounded
  retries and bounded memory (\<open>internal/castle/podstate.go\<close>).

  The stream submission, the waiting between attempts and the clock are parameters over an abstract
  world; the feed's two maps are association lists. The mutex makes each of its critical sections
  one step. The logging of skips is the list of notes \<open>emit\<close> answers with.
\<close>

section \<open>Reports\<close>

record pod_state_report =
  pr_adapterName :: string
  pr_adapterType :: string
  pr_scopeName :: string
  pr_scopeID :: string
  pr_pod :: string
  pr_phase :: string
  pr_reason :: string
  pr_message :: string
  pr_observedAt :: gotime

definition report_scope_key :: "pod_state_report \<Rightarrow> string" where
  "report_scope_key r = pr_adapterType r @ ''/'' @ pr_scopeName r @ ''/'' @ pr_scopeID r"

definition pod_state_signal :: "pod_state_report \<Rightarrow> string" where
  "pod_state_signal r = pr_phase r @ ''|'' @ pr_reason r"

definition pod_phases :: "string list" where
  "pod_phases = [''Pending'', ''Running'', ''Succeeded'', ''Failed'', ''Unknown'']"

definition validate_report :: "pod_state_report \<Rightarrow> go_error option" where
  "validate_report r =
     (if pr_adapterType r = '''' then Some (ErrMsg ''pod-state report: empty adapter_type'')
      else if pr_scopeID r = '''' then Some (ErrMsg ''pod-state report: empty scope_instance_id'')
      else if pr_phase r \<notin> set pod_phases
      then Some (ErrMsg (''pod-state report: unsupported phase '' @ go_quote (pr_phase r)))
      else None)"

text \<open>One report per member of an observed pod; a stable sort stands for \<open>sort.Slice\<close>.\<close>

definition member_report :: "gotime \<Rightarrow> pod \<Rightarrow> lifecycle_event \<Rightarrow> pod_state_report option" where
  "member_report now p scope =
     (if le_adapterType scope = '''' then None
      else if le_scopeID scope = '''' then None
      else if po_phase p = '''' then None
      else let (reason, message) = pod_state_wait_reason p
           in Some \<lparr>pr_adapterName = le_adapterName scope, pr_adapterType = le_adapterType scope,
                pr_scopeName = le_scopeTag scope, pr_scopeID = le_scopeID scope, pr_pod = po_name p,
                pr_phase = po_phase p, pr_reason = reason, pr_message = message,
                pr_observedAt = now\<rparr>)"

definition members_of :: "(string \<times> lifecycle_event list) list \<Rightarrow> string \<Rightarrow> lifecycle_event list" where
  "members_of memberPods name = (case map_of memberPods name of None \<Rightarrow> [] | Some ms \<Rightarrow> ms)"

definition pod_state_reports ::
  "pod list \<Rightarrow> (string \<times> lifecycle_event list) list \<Rightarrow> gotime \<Rightarrow> pod_state_report list" where
  "pod_state_reports existing memberPods now =
     sort_key report_scope_key
       (concat (map (\<lambda>p. List.map_filter (member_report now p) (members_of memberPods (po_name p))) existing))"

section \<open>The event\<close>

definition pod_state_observed_kind :: string where
  "pod_state_observed_kind = ''adapter.podstate.observed''"

definition report_data :: "(gotime \<Rightarrow> string) \<Rightarrow> pod_state_report \<Rightarrow> smap" where
  "report_data fmt r =
     [(''adapter'', pr_adapterName r), (''adapter_type'', pr_adapterType r),
      (''scope_instance_id'', pr_scopeID r), (''scope_name'', pr_scopeName r), (''pod'', pr_pod r),
      (''phase'', pr_phase r), (''reason'', pr_reason r), (''message'', pr_message r),
      (''observed_at'', fmt (pr_observedAt r))]"

record adapter_envelope =
  ae_schemaVersion :: int
  ae_runID :: string
  ae_adapter :: string
  ae_kind :: string
  ae_data :: smap

text \<open>\<open>structpb.NewStruct\<close> refuses text that is not UTF-8: \<open>utf8\<close>. The schema version is the SDK's.\<close>

definition pod_state_event_envelope ::
  "(string \<Rightarrow> bool) \<Rightarrow> (gotime \<Rightarrow> string) \<Rightarrow> int \<Rightarrow> string \<Rightarrow> pod_state_report \<Rightarrow> go_error + adapter_envelope" where
  "pod_state_event_envelope utf8 fmt schemaVersion runID r =
     (if \<not> (\<forall>(k, v) \<in> set (report_data fmt r). utf8 v)
      then Inl (Wrapped ''building pod-state data'' (ErrMsg ''invalid UTF-8 in string''))
      else case validate_report r of
             Some e \<Rightarrow> Inl e
           | None \<Rightarrow>
               (if runID = '''' then Inl (ErrMsg ''pod-state event: empty run_id'')
                else Inr \<lparr>ae_schemaVersion = schemaVersion, ae_runID = runID,
                       ae_adapter = pr_adapterName r, ae_kind = pod_state_observed_kind,
                       ae_data = report_data fmt r\<rparr>))"

text \<open>The stored line: the same content under version 1, encoded by the standard library.\<close>

definition marshal_pod_state_event ::
  "(adapter_envelope \<Rightarrow> go_error + string) \<Rightarrow> (gotime \<Rightarrow> string) \<Rightarrow> string \<Rightarrow> pod_state_report \<Rightarrow>
   go_error + string" where
  "marshal_pod_state_event json fmt runID r =
     (case validate_report r of
        Some e \<Rightarrow> Inl e
      | None \<Rightarrow>
          (if runID = '''' then Inl (ErrMsg ''pod-state report: empty run_id'')
           else case json \<lparr>ae_schemaVersion = 1, ae_runID = runID, ae_adapter = pr_adapterName r,
                           ae_kind = pod_state_observed_kind, ae_data = report_data fmt r\<rparr> of
                  Inl e \<Rightarrow> Inl (Wrapped ''marshaling pod-state event'' e)
                | Inr out \<Rightarrow> Inr out))"

section \<open>The feed\<close>

record signal_state =
  sg_signal :: string
  sg_at :: gotime

record skip_state =
  sk_count :: nat
  sk_logged :: gotime

record pod_state_feed =
  fd_addr :: string
  fd_maxAttempts :: nat
  fd_backoffBase :: duration
  fd_signalTTL :: duration
  fd_skipLogTTL :: duration
  fd_last :: "(string \<times> signal_state) list"
  fd_skips :: "(string \<times> skip_state) list"

record skip_log =
  sl_event :: pod_state_report
  sl_count :: nat
  sl_noted :: bool

definition pod_state_max_attempts :: nat where "pod_state_max_attempts = 3"
definition pod_state_backoff_base :: duration where "pod_state_backoff_base = 250000000"
definition pod_state_backoff_max :: duration where "pod_state_backoff_max = 2 * second"
definition pod_state_signal_ttl :: duration where "pod_state_signal_ttl = 24 * hour"
definition pod_state_skip_log_ttl :: duration where "pod_state_skip_log_ttl = hour"

definition new_pod_state_feed :: "string \<Rightarrow> pod_state_feed" where
  "new_pod_state_feed addr = \<lparr>fd_addr = addr, fd_maxAttempts = pod_state_max_attempts,
     fd_backoffBase = pod_state_backoff_base, fd_signalTTL = pod_state_signal_ttl,
     fd_skipLogTTL = pod_state_skip_log_ttl, fd_last = [], fd_skips = []\<rparr>"

definition feed_disabled :: "pod_state_feed option \<Rightarrow> bool" where
  "feed_disabled f = (case f of None \<Rightarrow> True | Some fd \<Rightarrow> fd_addr fd = '''')"

definition prune_stale :: "gotime \<Rightarrow> pod_state_feed \<Rightarrow> pod_state_feed" where
  "prune_stale now f = f\<lparr>
     fd_last := filter (\<lambda>(k, s). \<not> fd_signalTTL f < time_sub now (sg_at s)) (fd_last f),
     fd_skips := filter (\<lambda>(k, s). \<not> fd_signalTTL f < time_sub now (sk_logged s)) (fd_skips f)\<rparr>"

definition feed_key :: "string \<Rightarrow> pod_state_report \<Rightarrow> string" where
  "feed_key runID r = runID @ ''/'' @ report_scope_key r"

definition last_signal :: "pod_state_feed \<Rightarrow> string \<Rightarrow> string" where
  "last_signal f key = (case map_of (fd_last f) key of None \<Rightarrow> '''' | Some s \<Rightarrow> sg_signal s)"

text \<open>The loop under the lock: the reports that changed, and the skips.\<close>

definition skip_of :: "pod_state_feed \<Rightarrow> string \<Rightarrow> skip_state" where
  "skip_of f key = (case map_of (fd_skips f) key of None \<Rightarrow> \<lparr>sk_count = 0, sk_logged = zero_time\<rparr> | Some s \<Rightarrow> s)"

fun choose_pending ::
  "string \<Rightarrow> gotime \<Rightarrow> pod_state_feed \<Rightarrow> pod_state_report list \<Rightarrow>
   pod_state_feed \<times> pod_state_report list \<times> skip_log list" where
  "choose_pending runID now f [] = (f, [], [])"
| "choose_pending runID now f (r # rs) =
     (let key = feed_key runID r
      in if pr_scopeID r = '''' then
           let state = skip_of f key;
               noted = (is_zero (sk_logged state) \<or> fd_skipLogTTL f \<le> time_sub now (sk_logged state));
               state' = \<lparr>sk_count = sk_count state + 1,
                         sk_logged = (if noted then now else sk_logged state)\<rparr>;
               (f', pending, skipped) =
                 choose_pending runID now (f\<lparr>fd_skips := assoc_put key state' (fd_skips f)\<rparr>) rs
           in (f', pending, \<lparr>sl_event = r, sl_count = sk_count state', sl_noted = noted\<rparr> # skipped)
         else
           let (f', pending, skipped) = choose_pending runID now f rs
           in (f', if last_signal f key = pod_state_signal r then pending else r # pending, skipped))"

text \<open>
  The retry loop: attempt number \<open>i\<close> of \<open>n + i\<close>, after a wait that a cancelled context ends. An
  attempt that reports cancellation is not retried.
\<close>

definition backoff_delay :: "pod_state_feed \<Rightarrow> nat \<Rightarrow> duration" where
  "backoff_delay f i = min (fd_backoffBase f * 2 ^ (i - 1)) pod_state_backoff_max"

fun retry ::
  "(duration \<Rightarrow> 'w \<Rightarrow> go_error option \<times> 'w) \<Rightarrow> ('w \<Rightarrow> (go_error + unit) \<times> 'w) \<Rightarrow> pod_state_feed \<Rightarrow>
   nat \<Rightarrow> nat \<Rightarrow> go_error \<Rightarrow> 'w \<Rightarrow> (go_error + unit) \<times> 'w" where
  "retry wait step f 0 i lastErr w = (Inl (Wrapped ''castle podstate'' lastErr), w)"
| "retry wait step f (Suc n) i lastErr w =
     (let (stop, w1) = (if 0 < i then wait (backoff_delay f i) w else (None, w))
      in case stop of
           Some e \<Rightarrow> (Inl (Wrapped ''castle podstate'' e), w1)
         | None \<Rightarrow>
             (let (r, w2) = step w1
              in case r of
                   Inr u \<Rightarrow> (Inr (), w2)
                 | Inl e \<Rightarrow> (if err_is e CtxCanceled then (Inl (Wrapped ''castle podstate'' e), w2)
                           else retry wait step f n (Suc i) e w2)))"

record 'w feed_world =
  fw_wait :: "duration \<Rightarrow> 'w \<Rightarrow> go_error option \<times> 'w"
  fw_submit :: "adapter_envelope \<Rightarrow> 'w \<Rightarrow> (go_error + unit) \<times> 'w"
  fw_now :: "'w \<Rightarrow> gotime \<times> 'w"
  fw_utf8 :: "string \<Rightarrow> bool"
  fw_fmt :: "gotime \<Rightarrow> string"
  fw_schemaVersion :: int

definition emit_attempt :: "'w feed_world \<Rightarrow> string \<Rightarrow> pod_state_report \<Rightarrow> 'w \<Rightarrow> (go_error + unit) \<times> 'w" where
  "emit_attempt fw runID r w =
     (case pod_state_event_envelope (fw_utf8 fw) (fw_fmt fw) (fw_schemaVersion fw) runID r of
        Inl e \<Rightarrow> (Inl e, w)
      | Inr env \<Rightarrow> fw_submit fw env w)"

definition emit_one ::
  "'w feed_world \<Rightarrow> pod_state_feed \<Rightarrow> string \<Rightarrow> pod_state_report \<Rightarrow> 'w \<Rightarrow> (go_error + unit) \<times> 'w" where
  "emit_one fw f runID r w =
     retry (fw_wait fw) (emit_attempt fw runID r) f (fd_maxAttempts f) 0 (ErrMsg ''nil'') w"

fun submit_pending ::
  "'w feed_world \<Rightarrow> string \<Rightarrow> pod_state_feed \<times> 'w \<Rightarrow> pod_state_report list \<Rightarrow> pod_state_feed \<times> 'w" where
  "submit_pending fw runID (f, w) [] = (f, w)"
| "submit_pending fw runID (f, w) (r # rs) =
     (let (res, w1) = emit_one fw f runID r w
      in case res of
           Inl e \<Rightarrow> submit_pending fw runID (f, w1) rs
         | Inr u \<Rightarrow>
             (let (at, w2) = fw_now fw w1
              in submit_pending fw runID
                   (f\<lparr>fd_last := assoc_put (feed_key runID r)
                        \<lparr>sg_signal = pod_state_signal r, sg_at = at\<rparr> (fd_last f)\<rparr>, w2) rs))"

definition feed_emit ::
  "'w feed_world \<Rightarrow> string \<Rightarrow> pod_state_report list \<Rightarrow> pod_state_feed \<times> 'w \<Rightarrow>
   (pod_state_feed \<times> 'w) \<times> skip_log list" where
  "feed_emit fw runID reports fe =
     (let (f, w) = fe
      in if feed_disabled (Some f) \<or> runID = '''' then (fe, [])
         else
           let (now, w1) = fw_now fw w;
               (f1, pending, skipped) = choose_pending runID now (prune_stale now f) reports
           in (submit_pending fw runID (f1, w1) pending, skipped))"

end
