(* ===== verification/RouteTable.thy ===== *)
theory RouteTable
  imports RunStatus
begin

text \<open>
  The routes payload (\<open>internal/routes/routes.go\<close>): its types, the validators, the defaults applied
  before validation, and the deprecation warnings. JSON decoding is a parameter of the parser.

  A Go map is an association list whose order stands for the iteration order; a validator answers the
  first error in the code's order of checks, \<open>None\<close> when it accepts.
\<close>

section \<open>Types\<close>

record route_volume =
  rv_name :: string
  rv_kind :: string
  rv_mountPath :: string
  rv_subPath :: string
  rv_readOnly :: bool
  rv_claim :: string
  rv_server :: string
  rv_path :: string
  rv_sizeLimit :: string
  rv_secretName :: string
  rv_env :: smap

record route_secret =
  rk_name :: string
  rk_secretProviderClass :: string
  rk_mountPath :: string
  rk_env :: smap

record interface_mount =
  im_name :: string
  im_mountPath :: string
  im_kind :: string

record interface_slot =
  is_slot :: string
  is_variable :: string
  is_target :: string
  is_description :: string

record workflow_interface =
  wi_apiVersion :: string
  wi_kind :: string
  wi_workflow :: string
  wi_description :: string
  wi_adapters :: "string list"
  wi_mounts :: "interface_mount list"
  wi_secretEnv :: "string list"
  wi_env :: "string list"
  wi_configSlots :: "interface_slot list"
  wi_lockKey :: string

record workflow =
  wo_type :: string
  wo_namespace :: string
  wo_class :: string
  wo_image :: string
  wo_url :: string
  wo_ref :: string
  wo_volumes :: "route_volume list"
  wo_secrets :: "route_secret list"
  wo_env :: smap
  wo_adapterImages :: smap
  wo_imageConflictPolicy :: string
  wo_interface :: "workflow_interface option"

record config_entry =
  ce_buildCmd :: string
  ce_testCmd :: string
  ce_ciGateCmd :: string
  ce_baseBranch :: string
  ce_tags :: "string list"
  ce_tagMatch :: string

record project_entry =
  pe_namespace :: string
  pe_repos :: "string list"
  pe_cutover :: string
  pe_imageConflictPolicy :: string

record route =
  rt_name :: string
  rt_workflow :: string
  rt_project :: string
  rt_tags :: "string list"
  rt_tagMatch :: string
  rt_states :: "string list"
  rt_configRef :: string

record payload =
  py_apiVersion :: string
  py_kind :: string
  py_workflowLibrary :: "(string \<times> workflow) list"
  py_configLibrary :: "(string \<times> config_entry) list"
  py_projectRegistry :: "(string \<times> project_entry) list"
  py_dispatch :: "(string \<times> route list) list"
  py_routes :: "route list"

definition routes_api_version :: string where "routes_api_version = ''criteria.brokenbots.dev/v1''"
definition routes_kind :: string where "routes_kind = ''Routes''"
definition tag_match_all :: string where "tag_match_all = ''all''"
definition tag_match_any :: string where "tag_match_any = ''any''"
definition cutover_done :: string where "cutover_done = ''done''"
definition default_state :: string where "default_state = ''Triage''"
definition class_dev :: string where "class_dev = ''dev''"
definition class_triage :: string where "class_triage = ''triage''"

section \<open>Patterns\<close>

text \<open>
  The regular expressions, over the bytes of the text; only the two that look at arbitrary characters
  (\<open>interfacePathRe\<close>, whose dot is a rune, and \<open>whitespaceRe\<close>) see others than ASCII.
\<close>

definition upper_char :: "char \<Rightarrow> bool" where "upper_char c \<longleftrightarrow> CHR ''A'' \<le> c \<and> c \<le> CHR ''Z''"
definition lower_char :: "char \<Rightarrow> bool" where "lower_char c \<longleftrightarrow> CHR ''a'' \<le> c \<and> c \<le> CHR ''z''"
definition digit_char :: "char \<Rightarrow> bool" where "digit_char c \<longleftrightarrow> CHR ''0'' \<le> c \<and> c \<le> CHR ''9''"

definition first_then :: "(char \<Rightarrow> bool) \<Rightarrow> (char \<Rightarrow> bool) \<Rightarrow> string \<Rightarrow> bool" where
  "first_then p q s = (case s of [] \<Rightarrow> False | c # cs \<Rightarrow> p c \<and> list_all q cs)"

definition label_re :: "string \<Rightarrow> bool" where
  "label_re s \<longleftrightarrow> s \<noteq> [] \<and> length s \<le> 63 \<and> list_all (\<lambda>c. lower_char c \<or> digit_char c \<or> c = CHR ''-'') s \<and>
     hd s \<noteq> CHR ''-'' \<and> last s \<noteq> CHR ''-''"

definition env_name_re :: "string \<Rightarrow> bool" where
  "env_name_re = first_then (\<lambda>c. upper_char c \<or> lower_char c \<or> c = CHR ''_'')
     (\<lambda>c. upper_char c \<or> lower_char c \<or> digit_char c \<or> c = CHR ''_'')"

definition secret_key_char :: "char \<Rightarrow> bool" where
  "secret_key_char c \<longleftrightarrow> upper_char c \<or> lower_char c \<or> digit_char c \<or> c \<in> set ''._-''"

definition secret_key_re :: "string \<Rightarrow> bool" where
  "secret_key_re s \<longleftrightarrow> s \<noteq> [] \<and> list_all secret_key_char s"

definition repo_ref_re :: "string \<Rightarrow> bool" where
  "repo_ref_re s = (case split_on CHR ''/'' [] s of [owner, name] \<Rightarrow> secret_key_re owner \<and> secret_key_re name
     | _ \<Rightarrow> False)"

definition whitespace_re :: "string \<Rightarrow> bool" where
  "whitespace_re s \<longleftrightarrow> list_ex (\<lambda>c. c \<in> {CHR 0x09, CHR 0x0A, CHR 0x0C, CHR 0x0D, CHR '' ''}) s"

definition interface_name_re :: "string \<Rightarrow> bool" where
  "interface_name_re = first_then (\<lambda>c. upper_char c \<or> lower_char c)
     (\<lambda>c. upper_char c \<or> lower_char c \<or> digit_char c \<or> c = CHR ''_'' \<or> c = CHR ''-'')"

definition interface_path_re :: "string \<Rightarrow> bool" where
  "interface_path_re s =
     (case runes s of
        r # rs \<Rightarrow> r = ''/'' \<and> 2 \<le> length rs \<and> list_all (\<lambda>x. x \<noteq> [CHR 0x0A]) (butlast rs) \<and> last rs \<noteq> ''/''
      | [] \<Rightarrow> False)"

definition interface_env_re :: "string \<Rightarrow> bool" where
  "interface_env_re = first_then upper_char (\<lambda>c. upper_char c \<or> digit_char c \<or> c = CHR ''_'')"

definition interface_slot_re :: "string \<Rightarrow> bool" where
  "interface_slot_re = first_then lower_char
     (\<lambda>c. lower_char c \<or> upper_char c \<or> digit_char c \<or> c = CHR ''_'')"

text \<open>\<open>strings.TrimSpace\<close>: the Unicode white space, as UTF-8.\<close>

definition space_runes :: "string list" where
  "space_runes = map (\<lambda>c. [c]) [CHR 0x09, CHR 0x0A, CHR 0x0B, CHR 0x0C, CHR 0x0D, CHR '' ''] @
     [[CHR 0xC2, CHR 0x85], [CHR 0xC2, CHR 0xA0], [CHR 0xE1, CHR 0x9A, CHR 0x80]] @
     map (\<lambda>n. [CHR 0xE2, CHR 0x80, char_of (0x80 + n :: nat)]) [0, 1, 2, 3, 4, 5, 6, 7, 8, 9, 10, 40, 41, 47] @
     [[CHR 0xE2, CHR 0x81, CHR 0x9F], [CHR 0xE3, CHR 0x80, CHR 0x80]]"

function strip_runes :: "string list \<Rightarrow> string \<Rightarrow> string" where
  "strip_runes rs s =
     (case find (\<lambda>r. r \<noteq> [] \<and> prefix r s) rs of
        None \<Rightarrow> s
      | Some r \<Rightarrow> strip_runes rs (drop (length r) s))"
  by pat_completeness auto
termination
  by (relation "measure (\<lambda>(rs, s). length s)") (auto simp: find_Some_iff prefix_def)

declare strip_runes.simps [simp del]

definition trim_space :: "string \<Rightarrow> string" where
  "trim_space s = rev (strip_runes (map rev space_runes) (rev (strip_runes space_runes s)))"

section \<open>Validators\<close>

text \<open>The first error of a sequence of checks, and of a loop with an index.\<close>

fun first_error :: "go_error option list \<Rightarrow> go_error option" where
  "first_error [] = None"
| "first_error (c # cs) = (case c of Some e \<Rightarrow> Some e | None \<Rightarrow> first_error cs)"

fun each_from :: "(nat \<Rightarrow> 'a \<Rightarrow> go_error option) \<Rightarrow> nat \<Rightarrow> 'a list \<Rightarrow> go_error option" where
  "each_from check i [] = None"
| "each_from check i (x # xs) = (case check i x of Some e \<Rightarrow> Some e | None \<Rightarrow> each_from check (Suc i) xs)"

definition refuse :: "bool \<Rightarrow> string \<Rightarrow> go_error option" where
  "refuse bad message = (if bad then Some (ErrMsg message) else None)"

definition within :: "string \<Rightarrow> go_error option \<Rightarrow> go_error option" where
  "within ctx r = map_option (Wrapped ctx) r"

text \<open>A loop that also refuses a name it has seen.\<close>

fun each_unique ::
  "('a \<Rightarrow> string) \<Rightarrow> (nat \<Rightarrow> 'a \<Rightarrow> go_error option) \<Rightarrow> (nat \<Rightarrow> 'a \<Rightarrow> go_error) \<Rightarrow> string list \<Rightarrow> nat \<Rightarrow>
   'a list \<Rightarrow> go_error option" where
  "each_unique name check dup seen i [] = None"
| "each_unique name check dup seen i (x # xs) =
     (case check i x of
        Some e \<Rightarrow> Some e
      | None \<Rightarrow> (if name x \<in> set seen then Some (dup i x)
                else each_unique name check dup (name x # seen) (Suc i) xs))"

fun has_duplicate :: "string list \<Rightarrow> string list \<Rightarrow> bool" where
  "has_duplicate seen [] = False"
| "has_duplicate seen (n # ns) = (n \<in> set seen \<or> has_duplicate (n # seen) ns)"

definition show_nat :: "nat \<Rightarrow> string" where "show_nat n = show_int (int n)"

definition validate_env_map :: "smap \<Rightarrow> string \<Rightarrow> go_error option" where
  "validate_env_map env place =
     each_from (\<lambda>i (name, value). first_error
       [refuse (\<not> env_name_re name) (place @ '' has invalid env var name '' @ go_quote name),
        refuse (value = '''') (place @ ''.'' @ name @ '' must be a string value'')]) 0 env"

definition validate_adapter_images :: "smap \<Rightarrow> go_error option" where
  "validate_adapter_images images =
     each_from (\<lambda>i (kind, ref). first_error
       [refuse (\<not> label_re kind) (''adapterImages has invalid adapter kind '' @ go_quote kind),
        refuse (ref = '''' \<or> whitespace_re ref)
          (''adapterImages.'' @ kind @ '' must be a non-empty image reference without whitespace'')]) 0 images"

definition validate_secret_env :: "smap \<Rightarrow> go_error option" where
  "validate_secret_env env =
     each_from (\<lambda>i (name, key). first_error
       [refuse (\<not> env_name_re name) (''env has invalid env var name '' @ go_quote name),
        refuse (\<not> secret_key_re key)
          (''env.'' @ name @ '' value '' @ go_quote key @ '' is not a valid key name'')]) 0 env"

definition validate_volume_kind :: "route_volume \<Rightarrow> go_error option" where
  "validate_volume_kind v =
     (if rv_kind v = volume_pvc then first_error
        [refuse (rv_claim v = '''') ''kind=pvc requires a claim'',
         refuse (rv_server v \<noteq> '''' \<or> rv_path v \<noteq> '''' \<or> rv_sizeLimit v \<noteq> '''' \<or> rv_secretName v \<noteq> '''')
           ''kind=pvc must not declare server, path, sizeLimit, or secretName'']
      else if rv_kind v = volume_nfs then first_error
        [refuse (rv_server v = '''' \<or> rv_path v = '''') ''kind=nfs requires server and path'',
         refuse (rv_claim v \<noteq> '''' \<or> rv_sizeLimit v \<noteq> '''' \<or> rv_secretName v \<noteq> '''')
           ''kind=nfs must not declare claim, sizeLimit, or secretName'']
      else if rv_kind v = volume_tmp then
        refuse (rv_claim v \<noteq> '''' \<or> rv_server v \<noteq> '''' \<or> rv_path v \<noteq> '''' \<or> rv_secretName v \<noteq> '''')
           ''kind=tmp must not declare claim, server, path, or secretName''
      else if rv_kind v = volume_k8s_secret then first_error
        [refuse (rv_secretName v = '''') ''kind=k8s-secret requires a secretName'',
         refuse (rv_claim v \<noteq> '''' \<or> rv_server v \<noteq> '''' \<or> rv_path v \<noteq> '''' \<or> rv_sizeLimit v \<noteq> '''')
           ''kind=k8s-secret must not declare claim, server, path, or sizeLimit'']
      else Some (ErrMsg (''kind must be '' @ go_quote volume_pvc @ '', '' @ go_quote volume_nfs @ '', '' @
             go_quote volume_tmp @ '', or '' @ go_quote volume_k8s_secret @ '', got '' @ go_quote (rv_kind v))))"

definition validate_volume :: "route_volume \<Rightarrow> go_error option" where
  "validate_volume v = first_error
     [refuse (\<not> label_re (rv_name v)) (''name '' @ go_quote (rv_name v) @ '' is not a DNS-1123 label''),
      refuse (\<not> has_prefix (rv_mountPath v) ''/'') (''mountPath '' @ go_quote (rv_mountPath v) @ '' must be absolute''),
      validate_env_map (rv_env v) ''env'',
      validate_volume_kind v]"

definition validate_secret :: "route_secret \<Rightarrow> go_error option" where
  "validate_secret s = first_error
     [refuse (\<not> label_re (rk_name s)) (''name '' @ go_quote (rk_name s) @ '' is not a DNS-1123 label''),
      refuse (rk_secretProviderClass s = '''') ''secretProviderClass is required'',
      refuse (\<not> has_prefix (rk_mountPath s) ''/'') (''mountPath '' @ go_quote (rk_mountPath s) @ '' must be absolute''),
      validate_secret_env (rk_env s)]"

definition validate_config_entry :: "string \<Rightarrow> config_entry \<Rightarrow> go_error option" where
  "validate_config_entry name entry = first_error
     [refuse (\<not> label_re name) ''name is not a DNS-1123 label'',
      each_from (\<lambda>i (slot, value). refuse (value \<noteq> '''' \<and> trim_space value = '''')
          (slot @ '' must not be blank when declared'')) 0
        [(''buildCmd'', ce_buildCmd entry), (''testCmd'', ce_testCmd entry),
         (''ciGateCmd'', ce_ciGateCmd entry), (''baseBranch'', ce_baseBranch entry)],
      refuse (whitespace_re (ce_baseBranch entry))
        (''baseBranch '' @ go_quote (ce_baseBranch entry) @ '' must be a git ref name without whitespace''),
      refuse ('''' \<in> set (ce_tags entry)) ''tags must not contain empty names'',
      refuse (ce_tagMatch entry \<notin> {'''', tag_match_all, tag_match_any})
        (''tagMatch must be '' @ go_quote tag_match_all @ '' or '' @ go_quote tag_match_any @ '', got '' @
         go_quote (ce_tagMatch entry))]"

section \<open>The interface declaration\<close>

definition interface_api_version :: string where
  "interface_api_version = ''criteria.brokenbots.dev/v1''"
definition interface_kind :: string where "interface_kind = ''WorkflowInterface''"

definition config_slot_variables :: smap where
  "config_slot_variables = [(''buildCmd'', ''build_cmd''), (''testCmd'', ''test_cmd''),
     (''ciGateCmd'', ''ci_gate_cmd''), (''baseBranch'', ''base_branch'')]"

fun check_mount_decls :: "string list \<Rightarrow> nat \<Rightarrow> interface_mount list \<Rightarrow> go_error option" where
  "check_mount_decls seen i [] = None"
| "check_mount_decls seen i (m # ms) =
     (let at = ''mounts['' @ show_nat i @ '']''; at_name = at @ '' ('' @ im_name m @ '')''
      in case first_error
           [refuse (\<not> interface_name_re (im_name m)) (at @ '': name '' @ go_quote (im_name m) @ '' is not a mount name''),
            refuse (im_name m \<in> set seen) (at_name @ '': name is not unique''),
            refuse (\<not> interface_path_re (im_mountPath m))
              (at_name @ '': mountPath '' @ go_quote (im_mountPath m) @ '' must be an absolute path without trailing slash''),
            refuse (im_kind m \<noteq> ''pvc'' \<and> im_kind m \<noteq> ''tmp'')
              (at_name @ '': kind '' @ go_quote (im_kind m) @ '' must be pvc or tmp'')] of
           Some e \<Rightarrow> Some e
         | None \<Rightarrow> check_mount_decls (im_name m # seen) (Suc i) ms)"

fun check_slots :: "string list \<Rightarrow> nat \<Rightarrow> interface_slot list \<Rightarrow> go_error option" where
  "check_slots seen i [] = None"
| "check_slots seen i (s # ss) =
     (let at = ''configSlots['' @ show_nat i @ '']''; at_slot = at @ '' ('' @ is_slot s @ '')'';
          wanted = smap_get config_slot_variables (is_slot s)
      in case first_error
           [refuse (\<not> interface_slot_re (is_slot s))
              (at @ '': slot '' @ go_quote (is_slot s) @ '' is not a slot name (lowercase-first)''),
            refuse (is_slot s \<in> set seen) (at_slot @ '': slot is not unique''),
            refuse (\<not> has_key config_slot_variables (is_slot s))
              (at_slot @ '': slot is not a platform config key (declare only buildCmd, testCmd, ciGateCmd, or baseBranch '' @
               long_dash @ '' the keys a project binding can carry, KB-310)''),
            refuse (is_variable s \<noteq> wanted)
              (at_slot @ '': variable '' @ go_quote (is_variable s) @ '' is not the slot'' @ [CHR 0x27] @
               ''s delivery variable '' @ go_quote wanted @
               '' (the KB-103 render delivers the value as the tree variable, KB-310)''),
            refuse (\<not> env_name_re (is_variable s))
              (at_slot @ '': variable '' @ go_quote (is_variable s) @ '' is not a tree variable''),
            refuse (is_target s = '''') (at_slot @ '': target is required'')] of
           Some e \<Rightarrow> Some e
         | None \<Rightarrow> check_slots (is_slot s # seen) (Suc i) ss)"

definition validate_interface :: "workflow_interface \<Rightarrow> go_error option" where
  "validate_interface iface = first_error
     [refuse (wi_apiVersion iface \<noteq> interface_api_version)
        (''apiVersion must be '' @ go_quote interface_api_version @ '', got '' @ go_quote (wi_apiVersion iface)),
      refuse (wi_kind iface \<noteq> interface_kind)
        (''kind must be '' @ go_quote interface_kind @ '', got '' @ go_quote (wi_kind iface)),
      refuse (wi_workflow iface = '''' \<or> \<not> interface_name_re (wi_workflow iface))
        (''workflow ('' @ go_quote (wi_workflow iface) @ '') is not a tree name''),
      each_from (\<lambda>i kind. refuse (\<not> interface_name_re kind)
          (''adapter kind '' @ go_quote kind @ '' is not a valid kind name'')) 0 (wi_adapters iface),
      refuse (has_duplicate [] (wi_adapters iface)) ''adapter kinds are not unique'',
      check_mount_decls [] 0 (wi_mounts iface),
      refuse (has_duplicate [] (wi_secretEnv iface)) ''secretEnv lanes are not unique'',
      each_from (\<lambda>i name. refuse (\<not> interface_env_re name)
          (''secretEnv '' @ go_quote name @ '' is not an env name (UPPER_SNAKE)'')) 0 (wi_secretEnv iface),
      refuse (has_duplicate [] (wi_env iface)) ''env names are not unique'',
      each_from (\<lambda>i name. refuse (\<not> interface_env_re name)
          (''env '' @ go_quote name @ '' is not an env name (UPPER_SNAKE)'')) 0 (wi_env iface),
      check_slots [] 0 (wi_configSlots iface),
      refuse (wi_lockKey iface \<noteq> '''' \<and> wi_lockKey iface \<noteq> interface_lock_key_repo_url)
        (''lockKey must be '' @ go_quote interface_lock_key_repo_url @ '' or absent, got '' @ go_quote (wi_lockKey iface))]"

section \<open>The workflow entry\<close>

definition image_policies :: "string list" where
  "image_policies = [image_conflict_policy_fail_closed, image_conflict_policy_prefer_event,
     image_conflict_policy_prefer_metadata]"

definition check_image_policy :: "string \<Rightarrow> string \<Rightarrow> go_error option" where
  "check_image_policy at policy = refuse (policy \<noteq> '''' \<and> policy \<notin> set image_policies)
     (at @ ''imageConflictPolicy must be '' @ go_quote image_conflict_policy_fail_closed @ '', '' @
      go_quote image_conflict_policy_prefer_event @ '' or '' @ go_quote image_conflict_policy_prefer_metadata @
      '', got '' @ go_quote policy)"

definition validate_workflow_type :: "workflow \<Rightarrow> go_error option" where
  "validate_workflow_type w =
     (if wo_type w = type_image then first_error
        [refuse (wo_image w = '''') ''type=image requires an image'',
         refuse (wo_url w \<noteq> '''' \<or> wo_ref w \<noteq> '''') ''type=image must not declare url or ref'',
         refuse (wo_interface w \<noteq> None) ''type=image must not declare interface'']
      else if wo_type w = type_url then
        (if wo_url w = '''' then Some (ErrMsg ''type=url requires a url'')
         else case wo_interface w of
                None \<Rightarrow> Some (ErrMsg ''type=url requires interface (KB-310)'')
              | Some iface \<Rightarrow> within ''interface'' (validate_interface iface))
      else Some (ErrMsg (''type must be '' @ go_quote type_image @ '' or '' @ go_quote type_url @ '', got '' @
             go_quote (wo_type w))))"

definition validate_workflow :: "string \<Rightarrow> workflow \<Rightarrow> go_error option" where
  "validate_workflow name w = first_error
     [refuse (\<not> label_re name) ''name is not a DNS-1123 label'',
      validate_workflow_type w,
      refuse (wo_class w \<notin> {'''', class_dev, class_triage})
        (''class must be '' @ go_quote class_dev @ '' or '' @ go_quote class_triage @ '', got '' @ go_quote (wo_class w)),
      check_image_policy '''' (wo_imageConflictPolicy w),
      refuse (wo_namespace w \<noteq> '''' \<and> \<not> label_re (wo_namespace w))
        (''namespace '' @ go_quote (wo_namespace w) @ '' is not a DNS-1123 label''),
      validate_env_map (wo_env w) ''env'',
      validate_adapter_images (wo_adapterImages w),
      each_unique rv_name
        (\<lambda>i v. within (''volumes['' @ show_nat i @ ''] ('' @ rv_name v @ '')'') (validate_volume v))
        (\<lambda>i v. ErrMsg (''volumes['' @ show_nat i @ ''] ('' @ rv_name v @ ''): name is not unique within the workflow''))
        [] 0 (wo_volumes w),
      each_unique rk_name
        (\<lambda>i s. within (''secrets['' @ show_nat i @ ''] ('' @ rk_name s @ '')'') (validate_secret s))
        (\<lambda>i s. ErrMsg (''secrets['' @ show_nat i @ ''] ('' @ rk_name s @ ''): name is not unique within the workflow''))
        [] 0 (wo_secrets w)]"

section \<open>The payload\<close>

definition is_cutover_done :: "project_entry \<Rightarrow> bool" where
  "is_cutover_done e \<longleftrightarrow> pe_cutover e = cutover_done"

definition post_cutover :: "payload \<Rightarrow> bool" where
  "post_cutover p \<longleftrightarrow> py_projectRegistry p \<noteq> [] \<and> (\<forall>(name, e) \<in> set (py_projectRegistry p). is_cutover_done e)"

definition stale_keys :: "workflow \<Rightarrow> string list" where
  "stale_keys w =
     (if wo_volumes w \<noteq> [] then [''volumes''] else []) @ (if wo_secrets w \<noteq> [] then [''secrets''] else []) @
     (if wo_env w \<noteq> [] then [''env''] else []) @ (if wo_adapterImages w \<noteq> [] then [''adapterImages''] else [])"

definition stale_binding_shapes :: "payload \<Rightarrow> string list" where
  "stale_binding_shapes p =
     List.map_filter
       (\<lambda>name. case map_of (py_workflowLibrary p) name of
          None \<Rightarrow> None
        | Some w \<Rightarrow> (if stale_keys w \<noteq> []
                    then Some (''workflowLibrary['' @ go_quote name @ '']: '' @ join '', '' (stale_keys w)) else None))
       (sort (map fst (py_workflowLibrary p)))"

definition check_project :: "string \<Rightarrow> project_entry \<Rightarrow> go_error option" where
  "check_project name e =
     (let at = ''projectRegistry['' @ go_quote name @ '']: ''
      in first_error
        [refuse (trim_space name = '''') ''projectRegistry has a blank project name'',
         refuse (\<not> label_re (pe_namespace e)) (at @ ''namespace '' @ go_quote (pe_namespace e) @ '' is not a DNS-1123 label''),
         each_from (\<lambda>i repo. refuse (\<not> repo_ref_re repo)
             (at @ ''repo '' @ go_quote repo @ '' is not an '' @ go_quote ''owner/name'' @ '' reference'')) 0 (pe_repos e),
         refuse (pe_cutover e \<noteq> '''' \<and> pe_cutover e \<noteq> cutover_done)
           (at @ ''cutover must be '' @ go_quote cutover_done @ '' or absent, got '' @ go_quote (pe_cutover e) @
            '' (binding-first, deletion second)''),
         check_image_policy at (pe_imageConflictPolicy e)])"

definition validate_rule_body :: "payload \<Rightarrow> string \<Rightarrow> route \<Rightarrow> go_error option" where
  "validate_rule_body p at r = first_error
     [refuse (\<not> label_re (rt_name r)) (at @ '': name '' @ go_quote (rt_name r) @ '' is not a DNS-1123 label''),
      refuse (\<not> has_key (py_workflowLibrary p) (rt_workflow r))
        (at @ '': workflow '' @ go_quote (rt_workflow r) @ '' is not present in workflowLibrary''),
      refuse (rt_configRef r \<noteq> '''' \<and> \<not> has_key (py_configLibrary p) (rt_configRef r))
        (at @ '': configRef '' @ go_quote (rt_configRef r) @ '' is not present in configLibrary''),
      refuse (rt_states r = [])
        (at @ '': states must not be empty (omit the states key to default to ['' @ default_state @ ''])''),
      refuse ('''' \<in> set (rt_states r)) (at @ '': states must not contain empty names''),
      refuse ('''' \<in> set (rt_tags r)) (at @ '': tags must not contain empty names''),
      refuse (rt_tagMatch r \<notin> {'''', tag_match_all, tag_match_any})
        (at @ '': tagMatch must be '' @ go_quote tag_match_all @ '' or '' @ go_quote tag_match_any @ '', got '' @
         go_quote (rt_tagMatch r))]"

fun check_routes :: "payload \<Rightarrow> string list \<Rightarrow> nat \<Rightarrow> route list \<Rightarrow> go_error option" where
  "check_routes p seen i [] = None"
| "check_routes p seen i (r # rs) =
     (let at = ''routes['' @ show_nat i @ ''] ('' @ rt_name r @ '')''
      in case first_error
           [refuse (rt_name r \<in> set seen) (''routes['' @ show_nat i @ ''].name '' @ go_quote (rt_name r) @ '' is not unique''),
            validate_rule_body p at r,
            refuse (rt_project r = '''') (at @ '': project is required''),
            refuse (py_projectRegistry p \<noteq> [] \<and> \<not> has_key (py_projectRegistry p) (rt_project r))
              (at @ '': project '' @ go_quote (rt_project r) @ '' is not present in projectRegistry'')] of
           Some e \<Rightarrow> Some e
         | None \<Rightarrow> check_routes p (rt_name r # seen) (Suc i) rs)"

fun check_record :: "payload \<Rightarrow> string \<Rightarrow> string list \<Rightarrow> nat \<Rightarrow> route list \<Rightarrow> go_error option" where
  "check_record p project seen i [] = None"
| "check_record p project seen i (r # rs) =
     (let rec_at = ''dispatch['' @ go_quote project @ '']''; idx = ''rules['' @ show_nat i @ ''] ('' @ rt_name r @ '')''
      in case first_error
           [refuse (rt_name r \<in> set seen)
              (rec_at @ '': rule name '' @ go_quote (rt_name r) @ '' is not unique within the record''),
            validate_rule_body p (rec_at @ ''.'' @ idx) r,
            refuse (rt_project r \<noteq> '''' \<and> rt_project r \<noteq> project)
              (rec_at @ ''.'' @ idx @ '': a record rule must not declare project '' @ go_quote (rt_project r) @ '' '' @
               long_dash @ '' the record key is the project''),
            refuse (py_projectRegistry p \<noteq> [] \<and> \<not> has_key (py_projectRegistry p) project)
              (rec_at @ '' '' @ idx @ '': project '' @ go_quote project @ '' is not present in projectRegistry'')] of
           Some e \<Rightarrow> Some e
         | None \<Rightarrow> check_record p project (rt_name r # seen) (Suc i) rs)"

definition validate_payload :: "payload \<Rightarrow> go_error option" where
  "validate_payload p = first_error
     [refuse (py_apiVersion p \<noteq> routes_api_version)
        (''apiVersion must be '' @ go_quote routes_api_version @ '', got '' @ go_quote (py_apiVersion p)),
      refuse (py_kind p \<noteq> routes_kind) (''kind must be '' @ go_quote routes_kind @ '', got '' @ go_quote (py_kind p)),
      refuse (py_workflowLibrary p = []) ''workflowLibrary must not be empty'',
      each_from (\<lambda>i (name, w). within (''workflowLibrary['' @ go_quote name @ '']'') (validate_workflow name w)) 0
        (py_workflowLibrary p),
      each_from (\<lambda>i (name, e). within (''configLibrary['' @ go_quote name @ '']'') (validate_config_entry name e)) 0
        (py_configLibrary p),
      each_from (\<lambda>i (name, e). check_project name e) 0 (py_projectRegistry p),
      refuse (stale_binding_shapes p \<noteq> [] \<and> post_cutover p)
        (''post-cutover payload still carries global run-config surfaces the CM no longer owns (KB-313, ADR 307): '' @
         join ''; '' (stale_binding_shapes p)),
      refuse (py_routes p = []) ''routes must not be empty'',
      check_routes p [] 0 (py_routes p),
      each_from (\<lambda>i (project, rules). first_error
          [refuse (trim_space project = '''') ''dispatch has a blank project name'',
           refuse (rules = []) (''dispatch['' @ go_quote project @ '']: rules must not be empty''),
           check_record p project [] 0 rules]) 0 (py_dispatch p)]"

text \<open>
  The defaults: a rule whose JSON has no \<open>states\<close> key gets the default state; a present list is kept,
  an empty one too. \<open>presence\<close> says, position by position, whether the key was there.
\<close>

definition default_rule :: "bool list \<Rightarrow> nat \<Rightarrow> route \<Rightarrow> route" where
  "default_rule present i r =
     (if i < length present \<and> present ! i then r else r\<lparr>rt_states := [default_state]\<rparr>)"

record states_presence =
  sp_routesPresent :: "bool list"
  sp_dispatchPresent :: "(string \<times> bool list) list"

definition apply_defaults :: "states_presence \<Rightarrow> payload \<Rightarrow> payload" where
  "apply_defaults presence p = p\<lparr>
     py_routes := map (\<lambda>(i, r). default_rule (sp_routesPresent presence) i r) (enumerate 0 (py_routes p)),
     py_dispatch := map (\<lambda>(project, rules).
        (project, map (\<lambda>(i, r). default_rule
            (case map_of (sp_dispatchPresent presence) project of None \<Rightarrow> [] | Some b \<Rightarrow> b) i r)
          (enumerate 0 rules))) (py_dispatch p)\<rparr>"

definition parse_routes ::
  "(string \<Rightarrow> go_error + payload) \<Rightarrow> (string \<Rightarrow> go_error + states_presence) \<Rightarrow> string \<Rightarrow> go_error + payload" where
  "parse_routes decode decode_presence text =
     (case decode text of
        Inl e \<Rightarrow> Inl (Wrapped ''parsing routes.json'' e)
      | Inr p \<Rightarrow>
          (case decode_presence text of
             Inl e \<Rightarrow> Inl (Wrapped ''parsing routes.json'' e)
           | Inr presence \<Rightarrow>
               (let p' = apply_defaults presence p
                in case validate_payload p' of Some e \<Rightarrow> Inl e | None \<Rightarrow> Inr p')))"

definition dead_rules :: "payload \<Rightarrow> string \<Rightarrow> nat" where
  "dead_rules p project = length (filter (\<lambda>r. rt_project r = project) (py_routes p))"

definition deprecation_warnings :: "payload \<Rightarrow> string list" where
  "deprecation_warnings p =
     (if stale_binding_shapes p \<noteq> [] \<and> \<not> post_cutover p
      then map (\<lambda>entry. entry @ '': deprecated global run-config surfaces (KB-313, ADR 307) '' @ long_dash @
             '' per-project bindings own run config; these reject once every projectRegistry entry is cutover-done'')
           (stale_binding_shapes p) else []) @
     List.map_filter
       (\<lambda>project. if dead_rules p project > 0
          then Some (''dispatch['' @ go_quote project @ '']: the record is the project'' @ [CHR 0x27] @
                 ''s dispatch surface '' @ long_dash @ '' its '' @ show_nat (dead_rules p project) @
                 '' routes-array rule(s) are dead config the dual-read ignores (delete in the KB-322 follow-up)'')
          else None)
       (sort (map fst (py_dispatch p)))"

end
