(* ===== verification/RouteResolve.thy ===== *)
theory RouteResolve
  imports RouteTable "HOL-Library.Multiset"
begin

text \<open>
  Resolving a ticket against the routes payload (\<open>Resolve\<close> and what it calls in
  \<open>internal/routes/routes.go\<close>): the rule that matches, the label overrides, the configuration entry and
  the image-conflict policy. The lemmas relate the scan over the rules to its declarative reading, show
  that a validated payload is closed under resolution, and that the map iteration order is not observed.
\<close>

section \<open>The selection\<close>

record selector =
  qr_project :: string
  qr_state :: string
  qr_labels :: "string list"
  qr_labelGroups :: smap
  qr_workflowsLabelGroup :: string
  qr_configsLabelGroup :: string

record selection =
  sn_route :: route
  sn_name :: string
  sn_workflow :: workflow
  sn_configName :: string
  sn_config :: config_entry
  sn_conflictPolicy :: string

definition err_no_route :: go_error where
  "err_no_route = ErrMsg (''no route matches the ticket'' @ [CHR 0x27] @ ''s project and state'')"
definition err_unknown_workflow :: go_error where
  "err_unknown_workflow = ErrMsg ''workflow is not present in the routes workflowLibrary''"
definition err_ambiguous_workflow :: go_error where
  "err_ambiguous_workflow = ErrMsg ''multiple workflow labels in the workflows label group''"
definition err_unknown_config :: go_error where
  "err_unknown_config = ErrMsg ''config is not present in the routes configLibrary''"
definition err_ambiguous_config :: go_error where
  "err_ambiguous_config = ErrMsg ''multiple config labels in the configs label group''"

definition zero_config_entry :: config_entry where
  "zero_config_entry = \<lparr>ce_buildCmd = '''', ce_testCmd = '''', ce_ciGateCmd = '''', ce_baseBranch = '''',
     ce_tags = [], ce_tagMatch = ''''\<rparr>"

definition effective_image_conflict_policy :: "payload \<Rightarrow> workflow \<Rightarrow> string \<Rightarrow> string" where
  "effective_image_conflict_policy p w project =
     (let own = (if wo_imageConflictPolicy w \<noteq> '''' then wo_imageConflictPolicy w
                 else image_conflict_policy_fail_closed)
      in case map_of (py_projectRegistry p) project of
           None \<Rightarrow> own
         | Some e \<Rightarrow> (if pe_imageConflictPolicy e \<noteq> '''' then pe_imageConflictPolicy e else own))"

section \<open>Matching a rule\<close>

definition tags_satisfied :: "route \<Rightarrow> string list \<Rightarrow> bool" where
  "tags_satisfied r labels =
     (if rt_tagMatch r = tag_match_any then list_ex (\<lambda>tag. tag \<in> set labels) (rt_tags r)
      else list_all (\<lambda>tag. tag \<in> set labels) (rt_tags r))"

definition project_rules :: "payload \<Rightarrow> string \<Rightarrow> bool \<times> route list" where
  "project_rules p project =
     (case map_of (py_dispatch p) project of Some rules \<Rightarrow> (True, rules) | None \<Rightarrow> (False, py_routes p))"

text \<open>The scan keeps the first specific and the first general rule it meets.\<close>

fun scan_rules :: "bool \<Rightarrow> selector \<Rightarrow> route option \<Rightarrow> route option \<Rightarrow> route list \<Rightarrow> route option \<times> route option" where
  "scan_rules fromRecord sel specific general [] = (specific, general)"
| "scan_rules fromRecord sel specific general (r # rs) =
     (if \<not> fromRecord \<and> rt_project r \<noteq> qr_project sel then scan_rules fromRecord sel specific general rs
      else if qr_state sel \<notin> set (rt_states r) then scan_rules fromRecord sel specific general rs
      else if rt_tags r = [] then
        scan_rules fromRecord sel specific (if general = None then Some r else general) rs
      else if tags_satisfied r (qr_labels sel) \<and> specific = None then scan_rules fromRecord sel (Some r) general rs
      else scan_rules fromRecord sel specific general rs)"

definition match_route :: "payload \<Rightarrow> selector \<Rightarrow> go_error + route" where
  "match_route p sel =
     (let (fromRecord, rules) = project_rules p (qr_project sel)
      in case scan_rules fromRecord sel None None rules of
           (Some r, _) \<Rightarrow> Inr r
         | (None, Some r) \<Rightarrow> Inr r
         | (None, None) \<Rightarrow> Inl (Wrapped (''(project '' @ go_quote (qr_project sel) @ '', state '' @
                                 go_quote (qr_state sel) @ '')'') err_no_route))"

section \<open>Overrides\<close>

definition labels_in_group :: "selector \<Rightarrow> string \<Rightarrow> string list" where
  "labels_in_group sel grp = filter (\<lambda>label. smap_get (qr_labelGroups sel) label = grp) (qr_labels sel)"

definition workflow_override :: "selector \<Rightarrow> go_error + string" where
  "workflow_override sel =
     (case labels_in_group sel (qr_workflowsLabelGroup sel) of
        [] \<Rightarrow> Inr ''''
      | [label] \<Rightarrow> Inr label
      | labels \<Rightarrow> Inl (Wrapped (join '', '' labels) err_ambiguous_workflow))"

definition entry_tags_satisfied :: "config_entry \<Rightarrow> string \<Rightarrow> bool" where
  "entry_tags_satisfied entry tag =
     (if ce_tagMatch entry = tag_match_any then tag \<in> set (ce_tags entry) else ce_tags entry = [tag])"

definition config_matches :: "payload \<Rightarrow> string \<Rightarrow> string list" where
  "config_matches p label = map fst (filter (\<lambda>(name, entry). entry_tags_satisfied entry label) (py_configLibrary p))"

definition config_name_for_label :: "payload \<Rightarrow> string \<Rightarrow> go_error + string" where
  "config_name_for_label p label =
     (if has_key (py_configLibrary p) label then Inr label
      else case config_matches p label of
             [] \<Rightarrow> Inl (Wrapped (go_quote label) err_unknown_config)
           | [name] \<Rightarrow> Inr name
           | names \<Rightarrow> Inl (Wrapped (join '', '' names) err_ambiguous_config))"

definition config_override :: "payload \<Rightarrow> selector \<Rightarrow> go_error + string" where
  "config_override p sel =
     (if qr_configsLabelGroup sel = '''' then Inr ''''
      else case labels_in_group sel (qr_configsLabelGroup sel) of
             [] \<Rightarrow> Inr ''''
           | [label] \<Rightarrow> config_name_for_label p label
           | labels \<Rightarrow> Inl (Wrapped (join '', '' labels) err_ambiguous_config))"

definition configs_tag_group_member :: "payload \<Rightarrow> string \<Rightarrow> bool" where
  "configs_tag_group_member p tag \<longleftrightarrow> has_key (py_configLibrary p) tag \<or>
     list_ex (\<lambda>(name, entry). entry_tags_satisfied entry tag) (py_configLibrary p)"

section \<open>Resolution\<close>

definition resolve :: "payload \<Rightarrow> selector \<Rightarrow> go_error + selection" where
  "resolve p sel =
     (case match_route p sel of
        Inl e \<Rightarrow> Inl e
      | Inr r \<Rightarrow>
     (case workflow_override sel of
        Inl e \<Rightarrow> Inl e
      | Inr override \<Rightarrow>
     (let name = (if override \<noteq> '''' then override else rt_workflow r)
      in case map_of (py_workflowLibrary p) name of
        None \<Rightarrow> Inl (Wrapped (go_quote name) err_unknown_workflow)
      | Some w \<Rightarrow>
     (case (if rt_configRef r = '''' then config_override p sel else Inr (rt_configRef r)) of
        Inl e \<Rightarrow> Inl e
      | Inr configName \<Rightarrow>
     (case (if configName = '''' then Some zero_config_entry else map_of (py_configLibrary p) configName) of
        None \<Rightarrow> Inl (Wrapped (go_quote configName) err_unknown_config)
      | Some config \<Rightarrow>
          Inr \<lparr>sn_route = r, sn_name = name, sn_workflow = w, sn_configName = configName,
               sn_config = config,
               sn_conflictPolicy = effective_image_conflict_policy p w (qr_project sel)\<rparr>)))))"

section \<open>The states the rules name\<close>

fun add_states :: "string list \<Rightarrow> string list \<Rightarrow> string list" where
  "add_states acc [] = acc"
| "add_states acc (s # ss) = add_states (if s \<in> set acc then acc else acc @ [s]) ss"

definition ticket_states :: "payload \<Rightarrow> string list" where
  "ticket_states p = sort (add_states [] (concat (map rt_states (py_routes p)) @
     concat (map (\<lambda>(project, rules). concat (map rt_states rules)) (py_dispatch p))))"

definition project_states :: "payload \<Rightarrow> string \<Rightarrow> string list" where
  "project_states p project =
     (let (fromRecord, rules) = project_rules p project
      in sort (add_states []
           (concat (map rt_states (filter (\<lambda>r. fromRecord \<or> rt_project r = project) rules)))))"

section \<open>What the scan finds\<close>

definition eligible :: "bool \<Rightarrow> selector \<Rightarrow> route \<Rightarrow> bool" where
  "eligible fromRecord sel r \<longleftrightarrow>
     (fromRecord \<or> rt_project r = qr_project sel) \<and> qr_state sel \<in> set (rt_states r)"

definition specific_match :: "bool \<Rightarrow> selector \<Rightarrow> route \<Rightarrow> bool" where
  "specific_match fromRecord sel r \<longleftrightarrow>
     eligible fromRecord sel r \<and> rt_tags r \<noteq> [] \<and> tags_satisfied r (qr_labels sel)"

definition general_match :: "bool \<Rightarrow> selector \<Rightarrow> route \<Rightarrow> bool" where
  "general_match fromRecord sel r \<longleftrightarrow> eligible fromRecord sel r \<and> rt_tags r = []"

definition or_else :: "'a option \<Rightarrow> 'a option \<Rightarrow> 'a option" where
  "or_else a b = (case a of None \<Rightarrow> b | Some x \<Rightarrow> Some x)"

lemma scan_rules_find:
  "scan_rules fromRecord sel specific general rs =
     (or_else specific (find (specific_match fromRecord sel) rs),
      or_else general (find (general_match fromRecord sel) rs))"
  by (induction rs arbitrary: specific general)
    (auto simp: or_else_def specific_match_def general_match_def eligible_def split: option.splits)

lemma match_route_spec:
  "match_route p sel =
     (let (fromRecord, rules) = project_rules p (qr_project sel)
      in case or_else (find (specific_match fromRecord sel) rules) (find (general_match fromRecord sel) rules) of
           Some r \<Rightarrow> Inr r
         | None \<Rightarrow> Inl (Wrapped (''(project '' @ go_quote (qr_project sel) @ '', state '' @
                          go_quote (qr_state sel) @ '')'') err_no_route))"
  by (auto simp: match_route_def scan_rules_find or_else_def split: prod.splits option.splits)

lemma match_route_in_rules:
  "match_route p sel = Inr r \<Longrightarrow> r \<in> set (snd (project_rules p (qr_project sel))) \<and>
     eligible (fst (project_rules p (qr_project sel))) sel r"
  by (auto simp: match_route_spec or_else_def specific_match_def general_match_def find_Some_iff
      split: prod.splits option.splits)

section \<open>Validated payloads\<close>

lemma first_error_None: "first_error cs = None \<longleftrightarrow> (\<forall>c \<in> set cs. c = None)"
  by (induction cs) (auto split: option.splits)

lemma each_from_None: "each_from check i xs = None \<Longrightarrow> x \<in> set xs \<Longrightarrow> \<exists>j. check j x = None"
  by (induction xs arbitrary: i) (auto split: option.splits)

lemma refuse_None [simp]: "refuse bad m = None \<longleftrightarrow> \<not> bad"
  by (simp add: refuse_def)

lemma within_None [simp]: "within ctx r = None \<longleftrightarrow> r = None"
  by (simp add: within_def)

lemma check_routes_rule: "check_routes p seen i rs = None \<Longrightarrow> r \<in> set rs \<Longrightarrow> \<exists>at. validate_rule_body p at r = None"
  by (induction rs arbitrary: seen i) (auto simp: Let_def first_error_None split: option.splits)

lemma check_record_rule:
  "check_record p project seen i rs = None \<Longrightarrow> r \<in> set rs \<Longrightarrow> \<exists>at. validate_rule_body p at r = None"
  by (induction rs arbitrary: seen i) (auto simp: Let_def first_error_None split: option.splits)

lemma validated_parts:
  assumes "validate_payload p = None"
  shows "\<And>name w. (name, w) \<in> set (py_workflowLibrary p) \<Longrightarrow> validate_workflow name w = None"
    and "check_routes p [] 0 (py_routes p) = None"
    and "\<And>project rules. (project, rules) \<in> set (py_dispatch p) \<Longrightarrow> check_record p project [] 0 rules = None"
proof -
  note all = assms [unfolded validate_payload_def first_error_None]
  show "check_routes p [] 0 (py_routes p) = None" using all by simp
  show "validate_workflow name w = None" if m: "(name, w) \<in> set (py_workflowLibrary p)" for name w
  proof -
    have "each_from (\<lambda>i (name, w). within (''workflowLibrary['' @ go_quote name @ '']'') (validate_workflow name w)) 0
        (py_workflowLibrary p) = None" using all by simp
    from each_from_None [OF this m] show ?thesis by simp
  qed
  show "check_record p project [] 0 rules = None" if m: "(project, rules) \<in> set (py_dispatch p)" for project rules
  proof -
    have "each_from (\<lambda>i (project, rules). first_error
          [refuse (trim_space project = '''') ''dispatch has a blank project name'',
           refuse (rules = []) (''dispatch['' @ go_quote project @ '']: rules must not be empty''),
           check_record p project [] 0 rules]) 0 (py_dispatch p) = None" using all by simp
    from each_from_None [OF this m, unfolded prod.case first_error_None] show ?thesis by simp
  qed
qed

lemma validated_rule:
  assumes "validate_payload p = None" and "r \<in> set (snd (project_rules p project))"
  shows "rt_workflow r \<in> fst ` set (py_workflowLibrary p) \<and>
    (rt_configRef r \<noteq> '''' \<longrightarrow> rt_configRef r \<in> fst ` set (py_configLibrary p))"
proof -
  have "\<exists>at. validate_rule_body p at r = None"
  proof (cases "map_of (py_dispatch p) project")
    case None
    then show ?thesis
      using assms(2) check_routes_rule [OF validated_parts(2) [OF assms(1)]] by (simp add: project_rules_def)
  next
    case (Some rules)
    then show ?thesis
      using assms(2) check_record_rule [OF validated_parts(3) [OF assms(1) map_of_SomeD [OF Some]]]
      by (simp add: project_rules_def)
  qed
  then show ?thesis unfolding validate_rule_body_def first_error_None by auto
qed

section \<open>An instance\<close>

definition zero_routes_workflow :: workflow where
  "zero_routes_workflow = \<lparr>wo_type = '''', wo_namespace = '''', wo_class = '''', wo_image = '''', wo_url = '''',
     wo_ref = '''', wo_volumes = [], wo_secrets = [], wo_env = [], wo_adapterImages = [],
     wo_imageConflictPolicy = '''', wo_interface = None\<rparr>"

definition sample_route :: "string \<Rightarrow> string list \<Rightarrow> route" where
  "sample_route name tags = \<lparr>rt_name = name, rt_workflow = ''dev'', rt_project = ''P'', rt_tags = tags,
     rt_tagMatch = '''', rt_states = [default_state], rt_configRef = ''''\<rparr>"

definition sample_payload :: payload where
  "sample_payload = \<lparr>py_apiVersion = routes_api_version, py_kind = routes_kind,
     py_workflowLibrary = [(''dev'', zero_routes_workflow\<lparr>wo_type := type_image, wo_image := ''img''\<rparr>)],
     py_configLibrary = [(''a'', zero_config_entry\<lparr>ce_tags := [''go'']\<rparr>), (''b'', zero_config_entry)],
     py_projectRegistry = [], py_dispatch = [],
     py_routes = [sample_route ''general'' [], sample_route ''special'' [''go'']]\<rparr>"

definition sample_selector :: selector where
  "sample_selector = \<lparr>qr_project = ''P'', qr_state = default_state, qr_labels = [''go''],
     qr_labelGroups = [], qr_workflowsLabelGroup = ''workflows'', qr_configsLabelGroup = ''''\<rparr>"

lemma sample_payload_valid: "validate_payload sample_payload = None"
  by code_simp

section \<open>Properties\<close>

text \<open>
  C11. Resolution against a validated payload is closed: a ticket with no override label resolves as
  soon as a rule matches it, to a workflow entry that passed the validation; the rule is the first
  tagged one its labels satisfy, otherwise the first untagged one, of the project's own record when it
  has one.
\<close>

theorem resolve_validated:
  assumes "validate_payload p = None" and "workflow_override sel = Inr ''''"
    and "config_override p sel = Inr ''''"
    and "project_rules p (qr_project sel) = (fromRecord, rules)"
    and "or_else (find (specific_match fromRecord sel) rules) (find (general_match fromRecord sel) rules) = Some r"
  shows "\<exists>s. resolve p sel = Inr s \<and> sn_route s = r \<and> sn_name s = rt_workflow r \<and>
    map_of (py_workflowLibrary p) (sn_name s) = Some (sn_workflow s) \<and>
    validate_workflow (sn_name s) (sn_workflow s) = None \<and> sn_configName s = rt_configRef r"
proof -
  have m: "match_route p sel = Inr r" using assms(4,5) by (simp add: match_route_spec)
  have "r \<in> set (snd (project_rules p (qr_project sel)))" using match_route_in_rules [OF m] by simp
  from validated_rule [OF assms(1) this]
  have keys: "rt_workflow r \<in> fst ` set (py_workflowLibrary p)"
    "rt_configRef r \<noteq> '''' \<Longrightarrow> rt_configRef r \<in> fst ` set (py_configLibrary p)" by auto
  then obtain w where w: "map_of (py_workflowLibrary p) (rt_workflow r) = Some w"
    using has_key_iff has_key_def by (metis option.exhaust)
  then have valid: "validate_workflow (rt_workflow r) w = None"
    using validated_parts(1) [OF assms(1) map_of_SomeD [OF w]] by simp
  have "\<exists>c. (if rt_configRef r = '''' then Some zero_config_entry
             else map_of (py_configLibrary p) (rt_configRef r)) = Some c"
    using keys(2) has_key_iff has_key_def by (metis option.exhaust)
  then obtain c where "(if rt_configRef r = '''' then Some zero_config_entry
             else map_of (py_configLibrary p) (rt_configRef r)) = Some c" ..
  with m w valid assms(2,3) show ?thesis
    by (auto simp: resolve_def Let_def split: if_splits)
qed

theorem resolve_validated_witness:
  "\<exists>s. resolve sample_payload sample_selector = Inr s \<and> rt_name (sn_route s) = ''special'' \<and> sn_name s = ''dev''"
proof -
  have "\<exists>s. resolve sample_payload sample_selector = Inr s \<and> sn_route s = sample_route ''special'' [''go''] \<and>
      sn_name s = rt_workflow (sample_route ''special'' [''go'']) \<and>
      map_of (py_workflowLibrary sample_payload) (sn_name s) = Some (sn_workflow s) \<and>
      validate_workflow (sn_name s) (sn_workflow s) = None \<and>
      sn_configName s = rt_configRef (sample_route ''special'' [''go''])"
    by (rule resolve_validated [OF sample_payload_valid, where fromRecord = False and rules = "py_routes sample_payload"];
      code_simp)
  then show ?thesis by (auto simp: sample_route_def)
qed

text \<open>
  The iteration order of the configuration map is not observed: over the same entries in any order
  a label selects the same configuration, or fails with the same sentinel error.
\<close>

theorem config_order_irrelevant:
  assumes "mset (py_configLibrary p) = mset (py_configLibrary p')"
  shows "case (config_name_for_label p label, config_name_for_label p' label) of
      (Inr a, Inr b) \<Rightarrow> a = b
    | (Inl a, Inl b) \<Rightarrow> err_root a = err_root b
    | _ \<Rightarrow> False"
proof -
  have keys: "has_key (py_configLibrary p) label = has_key (py_configLibrary p') label"
    using mset_eq_setD [OF assms] by simp
  have ms: "mset (config_matches p label) = mset (config_matches p' label)"
    using assms by (simp add: config_matches_def mset_filter)
  then have len: "length (config_matches p label) = length (config_matches p' label)"
    by (metis size_mset)
  consider "config_matches p label = []" | x where "config_matches p label = [x]"
    | x y zs where "config_matches p label = x # y # zs"
    by (cases "config_matches p label" rule: list.exhaust; metis neq_Nil_conv)
  then show ?thesis
  proof cases
    case 1
    then show ?thesis using len keys by (simp add: config_name_for_label_def)
  next
    case 2
    then have "config_matches p' label = [x]" using ms by simp
    with 2 keys show ?thesis by (simp add: config_name_for_label_def)
  next
    case 3
    then obtain x' y' zs' where "config_matches p' label = x' # y' # zs'"
      using len by (cases "config_matches p' label" rule: list.exhaust; metis length_0_conv length_Suc_conv list.size(3) list.size(4) Suc_length_conv)
    with 3 keys show ?thesis by (simp add: config_name_for_label_def)
  qed
qed

theorem config_order_irrelevant_witness:
  "config_name_for_label (sample_payload\<lparr>py_configLibrary := rev (py_configLibrary sample_payload)\<rparr>) ''go'' = Inr ''a''"
proof -
  have "case (config_name_for_label sample_payload ''go'',
         config_name_for_label (sample_payload\<lparr>py_configLibrary := rev (py_configLibrary sample_payload)\<rparr>) ''go'') of
      (Inr a, Inr b) \<Rightarrow> a = b
    | (Inl a, Inl b) \<Rightarrow> err_root a = err_root b
    | _ \<Rightarrow> False"
    by (rule config_order_irrelevant) simp
  moreover have "config_name_for_label sample_payload ''go'' = Inr ''a''" by code_simp
  ultimately show ?thesis by (auto split: sum.splits)
qed

end
