(* ===== verification/Binding.thy ===== *)
theory Binding
  imports RouteResolve
begin

text \<open>
  The project binding (\<open>internal/binding/binding.go\<close>): the payload, its validation on the routes
  validators, its checksum and its application to a workflow entry, and the in-memory materialization
  of a binding onto a run (\<open>internal/controller/projectbinding.go\<close>). Decoding, encoding and hashing
  are parameters.
\<close>

section \<open>The payload\<close>

record binding_payload =
  bp_apiVersion :: string
  bp_kind :: string
  bp_images :: smap
  bp_env :: smap
  bp_volumes :: "route_volume list"
  bp_secrets :: "route_secret list"
  bp_config :: smap

definition binding_api_version :: string where "binding_api_version = ''criteria.brokenbots.dev/v1''"
definition binding_kind :: string where "binding_kind = ''CriteriaBinding''"
definition binding_key :: string where "binding_key = ''binding.json''"

definition config_slots :: "string list" where
  "config_slots = [''buildCmd'', ''testCmd'', ''ciGateCmd'', ''baseBranch'']"

text \<open>The loops over volumes and secrets refuse a repeated name before they look at the entry.\<close>

fun each_named ::
  "('a \<Rightarrow> string) \<Rightarrow> (nat \<Rightarrow> 'a \<Rightarrow> go_error) \<Rightarrow> ('a \<Rightarrow> go_error option) \<Rightarrow> string list \<Rightarrow> nat \<Rightarrow> 'a list \<Rightarrow>
   go_error option" where
  "each_named name dup check seen i [] = None"
| "each_named name dup check seen i (x # xs) =
     (if name x \<in> set seen then Some (dup i x)
      else case check x of
             Some e \<Rightarrow> Some e
           | None \<Rightarrow> each_named name dup check (name x # seen) (Suc i) xs)"

definition validate_binding :: "binding_payload \<Rightarrow> go_error option" where
  "validate_binding p = first_error
     [refuse (bp_apiVersion p \<noteq> binding_api_version)
        (''binding apiVersion must be '' @ go_quote binding_api_version @ '', got '' @ go_quote (bp_apiVersion p)),
      refuse (bp_kind p \<noteq> binding_kind)
        (''binding kind must be '' @ go_quote binding_kind @ '', got '' @ go_quote (bp_kind p)),
      within ''binding images'' (validate_adapter_images (bp_images p)),
      within ''binding'' (validate_env_map (bp_env p) ''env''),
      each_named rv_name
        (\<lambda>i v. ErrMsg (''binding volumes['' @ show_nat i @ ''] duplicates name '' @ go_quote (rv_name v)))
        (\<lambda>v. within (''binding volume '' @ go_quote (rv_name v)) (validate_volume v)) [] 0 (bp_volumes p),
      each_named rk_name
        (\<lambda>i s. ErrMsg (''binding secrets['' @ show_nat i @ ''] duplicates name '' @ go_quote (rk_name s)))
        (\<lambda>s. within (''binding secret '' @ go_quote (rk_name s)) (validate_secret s)) [] 0 (bp_secrets p),
      each_from (\<lambda>i (slot, value). first_error
        [refuse (slot \<notin> set config_slots)
           (''binding config slot '' @ go_quote slot @
            '' is not one of the platform config keys (buildCmd, testCmd, ciGateCmd, baseBranch)''),
         refuse (value = '''') (''binding config.'' @ slot @ '' must be a string value'')]) 0 (bp_config p)]"

text \<open>\<open>decode\<close> is the decoder with unknown fields refused.\<close>

definition parse_binding :: "(string \<Rightarrow> go_error + binding_payload) \<Rightarrow> string \<Rightarrow> go_error + binding_payload" where
  "parse_binding decode text =
     (case decode text of
        Inl e \<Rightarrow> Inl (Wrapped ''binding payload'' e)
      | Inr p \<Rightarrow> (case validate_binding p of Some e \<Rightarrow> Inl e | None \<Rightarrow> Inr p))"

definition binding_checksum ::
  "(binding_payload \<Rightarrow> go_error + string) \<Rightarrow> (string \<Rightarrow> string) \<Rightarrow> binding_payload \<Rightarrow> string" where
  "binding_checksum json sha p = (case json p of Inl e \<Rightarrow> '''' | Inr canonical \<Rightarrow> sha canonical)"

definition apply_binding :: "binding_payload \<Rightarrow> workflow \<Rightarrow> workflow" where
  "apply_binding p w = w\<lparr>wo_volumes := bp_volumes p, wo_secrets := bp_secrets p, wo_env := bp_env p,
     wo_adapterImages := bp_images p\<rparr>"

section \<open>Onto a run\<close>

definition run_workflow_volume_of :: "route_volume \<Rightarrow> run_workflow_volume" where
  "run_workflow_volume_of v = \<lparr>vo_name = rv_name v, vo_kind = rv_kind v, vo_mountPath = rv_mountPath v,
     vo_subPath = rv_subPath v, vo_readOnly = rv_readOnly v, vo_claim = rv_claim v,
     vo_server = rv_server v, vo_path = rv_path v, vo_sizeLimit = rv_sizeLimit v,
     vo_secretName = rv_secretName v, vo_env = rv_env v\<rparr>"

definition run_workflow_secret_of :: "route_secret \<Rightarrow> run_workflow_secret" where
  "run_workflow_secret_of s = \<lparr>se_name = rk_name s, se_secretProviderClass = rk_secretProviderClass s,
     se_mountPath = rk_mountPath s, se_env = rk_env s\<rparr>"

definition materialize_project_binding :: "criteria_run \<Rightarrow> binding_payload \<Rightarrow> criteria_run" where
  "materialize_project_binding run p =
     (case sp_workflow (ru_spec run) of
        None \<Rightarrow> run
      | Some w \<Rightarrow> run\<lparr>ru_spec := (ru_spec run)\<lparr>sp_workflow := Some (w\<lparr>
          wf_volumes := map run_workflow_volume_of (bp_volumes p),
          wf_secrets := map run_workflow_secret_of (bp_secrets p),
          wf_env := bp_env p, wf_adapterImages := bp_images p\<rparr>)\<rparr>\<rparr>)"

section \<open>Lemmas\<close>

lemma each_named_None:
  "each_named name dup check seen i xs = None \<longleftrightarrow>
     distinct (map name xs) \<and> name ` set xs \<inter> set seen = {} \<and> (\<forall>x \<in> set xs. check x = None)"
  by (induction xs arbitrary: seen i) (auto split: option.splits)

lemma each_from_None_iff: "each_from (\<lambda>i. check) i xs = None \<longleftrightarrow> (\<forall>x \<in> set xs. check x = None)"
  by (induction xs arbitrary: i) (auto split: option.splits)

lemma each_unique_accepts:
  "(\<And>i x. x \<in> set xs \<Longrightarrow> check i x = None) \<Longrightarrow> distinct (map name xs) \<Longrightarrow> name ` set xs \<inter> set seen = {} \<Longrightarrow>
     each_unique name check dup seen i xs = None"
  by (induction xs arbitrary: seen i) auto

text \<open>
  C17. A binding that passed its own validation keeps a valid workflow entry valid: the entry it is
  applied to still passes the route validation, so binding and entry need no second check together.
\<close>

theorem apply_binding_valid:
  assumes "validate_binding p = None" and "validate_workflow name w = None"
  shows "validate_workflow name (apply_binding p w) = None"
proof -
  have "each_from (\<lambda>i (name, value). first_error
       [refuse (\<not> env_name_re name) (''env'' @ '' has invalid env var name '' @ go_quote name),
        refuse (value = '''') (''env'' @ ''.'' @ name @ '' must be a string value'')]) 0 (bp_env p) = None"
    using assms(1) unfolding validate_binding_def first_error_None validate_env_map_def by simp
  then have env: "validate_env_map (bp_env p) ''env'' = None" by (simp only: validate_env_map_def)
  have images: "validate_adapter_images (bp_images p) = None"
    using assms(1) unfolding validate_binding_def first_error_None by simp
  have vols: "distinct (map rv_name (bp_volumes p)) \<and> (\<forall>v \<in> set (bp_volumes p). validate_volume v = None)"
    using assms(1) unfolding validate_binding_def first_error_None by (simp add: each_named_None)
  have secs: "distinct (map rk_name (bp_secrets p)) \<and> (\<forall>s \<in> set (bp_secrets p). validate_secret s = None)"
    using assms(1) unfolding validate_binding_def first_error_None by (simp add: each_named_None)
  have type: "validate_workflow_type (apply_binding p w) = validate_workflow_type w"
    by (simp add: validate_workflow_type_def apply_binding_def)
  have vu: "each_unique rv_name
        (\<lambda>i v. within (''volumes['' @ show_nat i @ ''] ('' @ rv_name v @ '')'') (validate_volume v))
        (\<lambda>i v. ErrMsg (''volumes['' @ show_nat i @ ''] ('' @ rv_name v @ ''): name is not unique within the workflow''))
        [] 0 (bp_volumes p) = None"
    by (rule each_unique_accepts) (use vols in auto)
  have su: "each_unique rk_name
        (\<lambda>i s. within (''secrets['' @ show_nat i @ ''] ('' @ rk_name s @ '')'') (validate_secret s))
        (\<lambda>i s. ErrMsg (''secrets['' @ show_nat i @ ''] ('' @ rk_name s @ ''): name is not unique within the workflow''))
        [] 0 (bp_secrets p) = None"
    by (rule each_unique_accepts) (use secs in auto)
  have tree: "wo_class (apply_binding p w) = wo_class w" "wo_namespace (apply_binding p w) = wo_namespace w"
    "wo_imageConflictPolicy (apply_binding p w) = wo_imageConflictPolicy w"
    by (simp_all add: apply_binding_def)
  have parts: "wo_env (apply_binding p w) = bp_env p" "wo_adapterImages (apply_binding p w) = bp_images p"
    "wo_volumes (apply_binding p w) = bp_volumes p" "wo_secrets (apply_binding p w) = bp_secrets p"
    by (simp_all add: apply_binding_def)
  show ?thesis
    using assms(2) env images vu su
    unfolding validate_workflow_def first_error_None type tree parts by simp
qed

definition sample_binding :: binding_payload where
  "sample_binding = \<lparr>bp_apiVersion = binding_api_version, bp_kind = binding_kind,
     bp_images = [(''shell'', ''reg/shell:1'')], bp_env = [(''A'', ''1'')], bp_volumes = [], bp_secrets = [],
     bp_config = [(''buildCmd'', ''make'')]\<rparr>"

theorem apply_binding_valid_witness:
  "validate_workflow ''dev'' (apply_binding sample_binding
     (zero_routes_workflow\<lparr>wo_type := type_image, wo_image := ''img''\<rparr>)) = None"
  by (rule apply_binding_valid) code_simp+

end
