(* ===== verification/GraphDefs.thy ===== *)
theory GraphDefs
  imports RunStatus
begin

text \<open>
  The compiled workflow graphs as the pod composition reads them
  (\<open>internal/controller/peer_composition.go\<close>): the definitions bound to each environment, and the
  manifest member a definition without a provision becomes. The two JSON decodings are parameters: the
  payload's layers as pairs of name and body, and the definitions of a body.
\<close>

record graph_adapter_def =
  gd_type :: string
  gd_name :: string
  gd_environment :: string
  gd_source :: string
  gd_pinnedDigest :: string

text \<open>\<open>strings.Cut\<close> at the first dot; without one the second half is empty.\<close>

definition cut_dot :: "string \<Rightarrow> string \<times> string" where
  "cut_dot s = (takeWhile (\<lambda>c. c \<noteq> CHR ''.'') s, drop 1 (dropWhile (\<lambda>c. c \<noteq> CHR ''.'') s))"

definition env_key_of :: "graph_adapter_def \<Rightarrow> string" where
  "env_key_of ad = (let (envType, envName) = cut_dot (gd_environment ad) in envType @ ''/'' @ envName)"

definition def_key :: "graph_adapter_def \<Rightarrow> string" where
  "def_key ad = gd_type ad @ ''.'' @ gd_name ad"

type_synonym graph_map = "(string \<times> graph_adapter_def list) list"

definition defs_at :: "graph_map \<Rightarrow> string \<Rightarrow> graph_adapter_def list" where
  "defs_at g env = (case map_of g env of None \<Rightarrow> [] | Some ds \<Rightarrow> ds)"

definition add_def :: "graph_adapter_def \<Rightarrow> string list \<times> graph_map \<Rightarrow> string list \<times> graph_map" where
  "add_def ad acc =
     (let (seen, out) = acc; key = def_key ad @ ''@'' @ env_key_of ad
      in if gd_type ad = '''' \<or> gd_name ad = '''' \<or> gd_environment ad = '''' then acc
         else if key \<in> set seen then acc
         else (key # seen, assoc_put (env_key_of ad) (defs_at out (env_key_of ad) @ [ad]) out))"

fun add_layers ::
  "(string \<Rightarrow> go_error + graph_adapter_def list) \<Rightarrow> string list \<times> graph_map \<Rightarrow> (string \<times> string) list \<Rightarrow>
   go_error + graph_map" where
  "add_layers decode_body acc [] = Inr (snd acc)"
| "add_layers decode_body acc ((name, body) # layers) =
     (case decode_body body of
        Inl e \<Rightarrow> Inl (Wrapped (''parse layer '' @ go_quote name @ '' body'') e)
      | Inr ads \<Rightarrow> add_layers decode_body (fold add_def ads acc) layers)"

definition sort_defs :: "graph_adapter_def list \<Rightarrow> graph_adapter_def list" where
  "sort_defs = sort_key (\<lambda>d. (gd_environment d, gd_type d, gd_name d))"

definition env_graph_defs ::
  "(string \<Rightarrow> go_error + (string \<times> string) list) \<Rightarrow> (string \<Rightarrow> go_error + graph_adapter_def list) \<Rightarrow>
   string \<Rightarrow> go_error + graph_map" where
  "env_graph_defs decode_payload decode_body raw =
     (if raw = '''' then Inr []
      else case decode_payload raw of
             Inl e \<Rightarrow> Inl (Wrapped ''parse workflowGraphs payload'' e)
           | Inr layers \<Rightarrow>
               (case add_layers decode_body ([], []) layers of
                  Inl e \<Rightarrow> Inl e
                | Inr out \<Rightarrow> Inr (map (\<lambda>(env, ds). (env, sort_defs ds)) out)))"

definition trim_prefix :: "string \<Rightarrow> string \<Rightarrow> string" where
  "trim_prefix s p = (if has_prefix s p then drop (length p) s else s)"

definition synthetic_manifest_member :: "graph_adapter_def \<Rightarrow> lifecycle_event" where
  "synthetic_manifest_member d =
     (let envName = trim_prefix (gd_environment d) (gd_type d @ ''.'')
      in zero_event\<lparr>le_event := event_provision_wanted, le_adapterType := gd_type d,
           le_adapterName := gd_name d, le_digest := gd_pinnedDigest d, le_imageReference := gd_source d,
           le_environmentType := gd_type d, le_environmentName := envName,
           le_environment := environment_identity (gd_type d) envName\<rparr>)"

text \<open>
  A synthetic member's environment is built from the adapter's type instead of the environment's, so it
  is not the identity of the group it joins.
\<close>

lemma synthetic_member_wrong_environment:
  "let d = \<lparr>gd_type = ''shell'', gd_name = ''intake'', gd_environment = ''remote.prod'', gd_source = '''',
            gd_pinnedDigest = ''''\<rparr>
   in env_key_of d = ''remote/prod'' \<and> le_environment (synthetic_manifest_member d) = ''shell/remote.prod''"
  by code_simp

section \<open>Lemmas\<close>

lemma defs_at_put: "defs_at (assoc_put k v g) k' = (if k' = k then v else defs_at g k')"
  by (simp add: defs_at_def)

definition collected :: "string list \<times> graph_map \<Rightarrow> bool" where
  "collected acc \<longleftrightarrow>
     (\<forall>env. \<forall>d \<in> set (defs_at (snd acc) env). env_key_of d = env \<and> gd_type d \<noteq> '''' \<and> gd_name d \<noteq> '''' \<and>
        def_key d @ ''@'' @ env \<in> set (fst acc)) \<and>
     (\<forall>env. distinct (map def_key (defs_at (snd acc) env)))"

lemma collected_add: "collected acc \<Longrightarrow> collected (add_def ad acc)"
proof -
  assume c: "collected acc"
  obtain seen out where acc: "acc = (seen, out)" by fastforce
  show ?thesis
  proof (cases "gd_type ad = '''' \<or> gd_name ad = '''' \<or> gd_environment ad = '''' \<or>
      def_key ad @ ''@'' @ env_key_of ad \<in> set seen")
    case True
    then have "add_def ad acc = acc" unfolding acc add_def_def by (auto simp: Let_def)
    with c show ?thesis by simp
  next
    case False
    let ?e = "env_key_of ad"
    have eq: "add_def ad acc = ((def_key ad @ ''@'' @ ?e) # seen, assoc_put ?e (defs_at out ?e @ [ad]) out)"
      using False unfolding acc add_def_def by (auto simp: Let_def)
    have fresh: "def_key ad \<notin> def_key ` set (defs_at out ?e)"
      using c False unfolding acc collected_def by fastforce
    show ?thesis using c False fresh unfolding eq unfolding acc collected_def
      by (auto simp: defs_at_put)
  qed
qed

lemma collected_fold: "collected acc \<Longrightarrow> collected (fold add_def ads acc)"
proof (induction ads arbitrary: acc)
  case (Cons ad ads)
  from Cons.IH [OF collected_add [OF Cons.prems]] show ?case by simp
qed simp

lemma collected_layers:
  "collected acc \<Longrightarrow> add_layers dec acc layers = Inr out \<Longrightarrow> \<exists>seen. collected (seen, out)"
proof (induction layers arbitrary: acc)
  case Nil
  then show ?case by (cases acc) auto
next
  case (Cons l layers)
  then obtain name body ads where "l = (name, body)" "dec body = Inr ads"
    "add_layers dec (fold add_def ads acc) layers = Inr out"
    by (cases l) (auto split: sum.splits)
  with Cons.IH [OF collected_fold [OF Cons.prems(1)]] show ?case by blast
qed

lemma env_graph_defs_sound:
  assumes "env_graph_defs dp db raw = Inr g"
  shows "(\<forall>d \<in> set (defs_at g env). env_key_of d = env \<and> gd_type d \<noteq> '''' \<and> gd_name d \<noteq> '''') \<and>
    distinct (map def_key (defs_at g env))"
proof (cases "raw = ''''")
  case True
  with assms show ?thesis by (simp add: env_graph_defs_def defs_at_def)
next
  case False
  with assms obtain layers out where out: "add_layers db ([], []) layers = Inr out"
    and g: "g = map (\<lambda>(env, ds). (env, sort_defs ds)) out"
    by (auto simp: env_graph_defs_def split: sum.splits)
  have "collected ([], [])" by (simp add: collected_def defs_at_def)
  from collected_layers [OF this out] obtain seen where c: "collected (seen, out)" ..
  have at: "defs_at g env = sort_defs (defs_at out env)"
    unfolding g by (auto simp: defs_at_def map_of_map sort_defs_def split: option.splits)
  have "set (defs_at g env) = set (defs_at out env)" unfolding at by (simp add: sort_defs_def)
  moreover have "distinct (map def_key (defs_at g env))"
    using c unfolding at collected_def sort_defs_def by (auto simp: distinct_map)
  ultimately show ?thesis using c unfolding collected_def by auto
qed

end
