(* ===== verification/Kube.thy ===== *)
theory Kube
  imports RunQueue PodState Binding GraphDefs "HOL-Library.State_Monad"
begin

text \<open>
  The surroundings of the reconciler: the Kubernetes API client, castle, the archive service and the
  clock, the operator's configuration (\<open>CriteriaRunReconciler\<close> in
  \<open>criteriarun_controller.go\<close>), and the state a reconcile pass threads.

  Each remote operation is a function argument over an abstract world, so a theorem about the
  reconciler is a theorem about every API behaviour: reads may be stale, writes may fail, a stored
  object may come back changed. The pass keeps, besides the world and the admission queue, the list
  of its observable effects in order; the safety properties are predicates of that list.
\<close>

section \<open>Objects\<close>

record config_map =
  cm_resourceVersion :: string
  cm_data :: smap

datatype propagation = Foreground | Background

section \<open>The remote operations\<close>

record 'w kube_api =
  k_get_run :: "nsname \<Rightarrow> 'w \<Rightarrow> (go_error + criteria_run) \<times> 'w"
  k_update_run :: "criteria_run \<Rightarrow> 'w \<Rightarrow> (go_error + criteria_run) \<times> 'w"
  k_update_status :: "criteria_run \<Rightarrow> 'w \<Rightarrow> (go_error + criteria_run) \<times> 'w"
  k_list_runs :: "string \<Rightarrow> 'w \<Rightarrow> (go_error + criteria_run list) \<times> 'w"
  k_get_job :: "nsname \<Rightarrow> 'w \<Rightarrow> (go_error + job) \<times> 'w"
  k_create_job :: "criteria_run \<Rightarrow> job \<Rightarrow> 'w \<Rightarrow> (go_error + job) \<times> 'w"
  k_delete_job :: "job \<Rightarrow> propagation \<Rightarrow> 'w \<Rightarrow> (go_error + unit) \<times> 'w"
  k_list_pods :: "string \<Rightarrow> string \<Rightarrow> string \<Rightarrow> 'w \<Rightarrow> (go_error + pod list) \<times> 'w"
  k_create_pod :: "criteria_run \<Rightarrow> pod \<Rightarrow> 'w \<Rightarrow> (go_error + pod) \<times> 'w"
  k_delete_pod :: "pod \<Rightarrow> 'w \<Rightarrow> (go_error + unit) \<times> 'w"
  k_get_configmap :: "nsname \<Rightarrow> 'w \<Rightarrow> (go_error + config_map) \<times> 'w"
  k_now :: "'w \<Rightarrow> gotime \<times> 'w"
  k_observe :: "string \<Rightarrow> string \<Rightarrow> 'w \<Rightarrow> (go_error + observation) \<times> 'w"
  k_archive :: "archive_record \<Rightarrow> 'w \<Rightarrow> (go_error + string) \<times> 'w"
  k_operator_env :: "string list \<Rightarrow> 'w \<Rightarrow> (go_error + smap) \<times> 'w"
  k_enroll :: "string \<Rightarrow> 'w \<Rightarrow> (go_error + string) \<times> 'w"
  k_wait :: "duration \<Rightarrow> 'w \<Rightarrow> go_error option \<times> 'w"
  k_submit :: "adapter_envelope \<Rightarrow> 'w \<Rightarrow> (go_error + unit) \<times> 'w"

text \<open>
  The reconciler's configuration. The flags say whether an optional collaborator is wired and not
  disabled; \<open>op_fmt\<close> renders a time as RFC 3339 text, \<open>op_errText\<close> an error and
  \<open>op_showDuration\<close> a duration, the two JSON encoders are the standard library's, the functions the
  builders call are in \<open>op_lib\<close>.
\<close>

record 'w reconciler =
  op_api :: "'w kube_api"
  op_castle :: bool
  op_envProbe :: bool
  op_defaults :: defaults
  op_stallWindow :: duration
  op_terminalReapForceAfter :: duration
  op_runArchiver :: bool
  op_operatorVersion :: string
  op_runEvents :: bool
  op_recorder :: bool
  op_errText :: "go_error \<Rightarrow> string"
  op_fmt :: "gotime \<Rightarrow> string"
  op_showDuration :: "duration \<Rightarrow> string"
  op_utf8 :: "string \<Rightarrow> bool"
  op_schemaVersion :: int
  op_jsonInterface :: "run_workflow_interface \<Rightarrow> go_error + string"
  op_jsonWorkflow :: "run_workflow \<Rightarrow> go_error + string"
  op_decodeBinding :: "string \<Rightarrow> go_error + binding_payload"
  op_jsonBinding :: "binding_payload \<Rightarrow> go_error + string"
  op_decodeGraphs :: "string \<Rightarrow> go_error + (string \<times> string) list"
  op_decodeLayer :: "string \<Rightarrow> go_error + graph_adapter_def list"
  op_lib :: library

section \<open>The state of a pass\<close>

text \<open>
  Effects: what the API returned (\<open>GotRun\<close>, \<open>StoredStatus\<close>), what the pass asked for
  (writes, creations, deletions; a deletion names the run it is done for), and what it did to the
  admission queue.
\<close>

datatype effect =
    GotRun criteria_run
  | PutRun criteria_run
  | PutStatus criteria_run
  | StoredStatus criteria_run
  | MadeJob nsname job
  | CutJob nsname nsname
  | MadePod nsname pod
  | CutPod nsname nsname
  | ArchivedRun nsname string
  | Warned nsname string
  | FedPodState nsname
  | Admitted nsname
  | LeftQueue nsname

record 'w op_state =
  os_world :: 'w
  os_queue :: run_queue
  os_feed :: "pod_state_feed option"
  os_log :: "effect list"

type_synonym ('w, 'a) pass = "('w op_state, 'a) state"
type_synonym ('w, 'a) attempt = "('w op_state, go_error + 'a) state"

abbreviation ret :: "'a \<Rightarrow> ('w, 'a) pass" where
  "ret \<equiv> State_Monad.return"

definition ok :: "'a \<Rightarrow> ('w, 'a) attempt" where
  "ok a = ret (Inr a)"

definition fail :: "go_error \<Rightarrow> ('w, 'a) attempt" where
  "fail e = ret (Inl e)"

text \<open>The \<open>if err != nil\<close> idiom: an error returns, wrapped in its context when there is one.\<close>

definition with_context :: "string \<Rightarrow> go_error \<Rightarrow> go_error" where
  "with_context ctx e = (if ctx = '''' then e else Wrapped ctx e)"

definition attempt :: "string \<Rightarrow> ('w, 'a) attempt \<Rightarrow> ('a \<Rightarrow> ('w, 'b) attempt) \<Rightarrow> ('w, 'b) attempt" where
  "attempt ctx m f = do {
     r \<leftarrow> m;
     case r of Inl e \<Rightarrow> fail (with_context ctx e) | Inr a \<Rightarrow> f a
   }"

definition call :: "('w \<Rightarrow> 'a \<times> 'w) \<Rightarrow> ('a \<Rightarrow> effect list) \<Rightarrow> ('w, 'a) pass" where
  "call f eff = State (\<lambda>s. let (a, w) = f (os_world s)
     in (a, s\<lparr>os_world := w, os_log := os_log s @ eff a\<rparr>))"

definition emit :: "effect \<Rightarrow> ('w, unit) pass" where
  "emit e = State (\<lambda>s. ((), s\<lparr>os_log := os_log s @ [e]\<rparr>))"

definition on_ok :: "('a \<Rightarrow> effect list) \<Rightarrow> go_error + 'a \<Rightarrow> effect list" where
  "on_ok f r = (case r of Inl e \<Rightarrow> [] | Inr a \<Rightarrow> f a)"

definition get_run :: "'w reconciler \<Rightarrow> nsname \<Rightarrow> ('w, criteria_run) attempt" where
  "get_run op key = call (k_get_run (op_api op) key) (on_ok (\<lambda>r. [GotRun r]))"

definition update_run :: "'w reconciler \<Rightarrow> criteria_run \<Rightarrow> ('w, criteria_run) attempt" where
  "update_run op run = do { emit (PutRun run); call (k_update_run (op_api op) run) (\<lambda>_. []) }"

definition update_status :: "'w reconciler \<Rightarrow> criteria_run \<Rightarrow> ('w, criteria_run) attempt" where
  "update_status op run = do {
     emit (PutStatus run);
     call (k_update_status (op_api op) run) (on_ok (\<lambda>r. [StoredStatus r])) }"

definition list_runs :: "'w reconciler \<Rightarrow> string \<Rightarrow> ('w, criteria_run list) attempt" where
  "list_runs op ns = call (k_list_runs (op_api op) ns) (\<lambda>_. [])"

definition get_job :: "'w reconciler \<Rightarrow> nsname \<Rightarrow> ('w, job) attempt" where
  "get_job op key = call (k_get_job (op_api op) key) (\<lambda>_. [])"

definition create_job :: "'w reconciler \<Rightarrow> criteria_run \<Rightarrow> job \<Rightarrow> ('w, job) attempt" where
  "create_job op run j = do {
     emit (MadeJob (run_key run) j); call (k_create_job (op_api op) run j) (\<lambda>_. []) }"

definition delete_job :: "'w reconciler \<Rightarrow> criteria_run \<Rightarrow> job \<Rightarrow> propagation \<Rightarrow> ('w, unit) attempt" where
  "delete_job op run j prop = do {
     emit (CutJob (run_key run) (job_key j)); call (k_delete_job (op_api op) j prop) (\<lambda>_. []) }"

definition list_pods :: "'w reconciler \<Rightarrow> criteria_run \<Rightarrow> string \<Rightarrow> ('w, pod list) attempt" where
  "list_pods op run role = call (k_list_pods (op_api op) (ru_namespace run) (ru_name run) role) (\<lambda>_. [])"

definition create_pod :: "'w reconciler \<Rightarrow> criteria_run \<Rightarrow> pod \<Rightarrow> ('w, pod) attempt" where
  "create_pod op run p = do {
     emit (MadePod (run_key run) p); call (k_create_pod (op_api op) run p) (\<lambda>_. []) }"

definition delete_pod :: "'w reconciler \<Rightarrow> criteria_run \<Rightarrow> pod \<Rightarrow> ('w, unit) attempt" where
  "delete_pod op run p = do {
     emit (CutPod (run_key run) (pod_key p)); call (k_delete_pod (op_api op) p) (\<lambda>_. []) }"

definition get_configmap :: "'w reconciler \<Rightarrow> nsname \<Rightarrow> ('w, config_map) attempt" where
  "get_configmap op key = call (k_get_configmap (op_api op) key) (\<lambda>_. [])"

definition time_now :: "'w reconciler \<Rightarrow> ('w, gotime) pass" where
  "time_now op = call (k_now (op_api op)) (\<lambda>_. [])"

definition archive_run :: "'w reconciler \<Rightarrow> criteria_run \<Rightarrow> archive_record \<Rightarrow> ('w, string) attempt" where
  "archive_run op run rec =
     call (k_archive (op_api op) rec) (on_ok (\<lambda>aid. [ArchivedRun (run_key run) aid]))"

definition warn :: "'w reconciler \<Rightarrow> criteria_run \<Rightarrow> string \<Rightarrow> ('w, unit) pass" where
  "warn op run reason = (if op_recorder op then emit (Warned (run_key run) reason) else ret ())"

definition queue_enqueue ::
  "criteria_run \<Rightarrow> ('w, bool \<times> criteria_run_queue_status) pass" where
  "queue_enqueue run = State (\<lambda>s.
     let (q, adm, st, prev) = enqueue (os_queue s) run
     in ((adm, st), s\<lparr>os_queue := q,
          os_log := os_log s @ (if adm then [Admitted (run_key run)] else [])\<rparr>))"

definition queue_release :: "criteria_run \<Rightarrow> ('w, unit) pass" where
  "queue_release run = State (\<lambda>s.
     ((), s\<lparr>os_queue := fst (release (os_queue s) run), os_log := os_log s @ [LeftQueue (run_key run)]\<rparr>))"

text \<open>The pod-state feed works on its own state and the world; the castle run id marks the effect.\<close>

definition feed_of :: "'w reconciler \<Rightarrow> 'w feed_world" where
  "feed_of op = \<lparr>fw_wait = k_wait (op_api op), fw_submit = k_submit (op_api op),
     fw_now = k_now (op_api op), fw_utf8 = op_utf8 op, fw_fmt = op_fmt op,
     fw_schemaVersion = op_schemaVersion op\<rparr>"

definition feed_emit_pass :: "'w reconciler \<Rightarrow> criteria_run \<Rightarrow> string \<Rightarrow> pod_state_report list \<Rightarrow> ('w, unit) pass" where
  "feed_emit_pass op run castleRunID reports = State (\<lambda>s.
     case os_feed s of
       None \<Rightarrow> ((), s)
     | Some f \<Rightarrow>
         (let ((f', w'), skipped) = feed_emit (feed_of op) castleRunID reports (f, os_world s)
          in ((), s\<lparr>os_world := w', os_feed := Some f', os_log := os_log s @ [FedPodState (run_key run)]\<rparr>)))"

definition feed_off :: "('w, bool) pass" where
  "feed_off = State (\<lambda>s. (feed_disabled (os_feed s), s))"

section \<open>Reasoning about the effects of a pass\<close>

text \<open>
  \<open>hoare P m Q\<close>: from a log with \<open>P\<close>, the pass ends with a result and a log with \<open>Q\<close>.
  \<open>appends A m\<close>: the pass only appends effects of the kind \<open>A\<close>; whatever such effects do not
  disturb (\<open>stable\<close>) survives it.
\<close>

named_theorems effects \<open>what an operation appends to the log\<close>

definition hoare ::
  "(effect list \<Rightarrow> bool) \<Rightarrow> ('w, 'a) pass \<Rightarrow> ('a \<Rightarrow> effect list \<Rightarrow> bool) \<Rightarrow> bool" where
  "hoare P m Q \<longleftrightarrow>
     (\<forall>s a s'. run_state m s = (a, s') \<longrightarrow> P (os_log s) \<longrightarrow> Q a (os_log s'))"

definition appends :: "(effect \<Rightarrow> bool) \<Rightarrow> ('w, 'a) pass \<Rightarrow> bool" where
  "appends A m \<longleftrightarrow>
     (\<forall>s a s'. run_state m s = (a, s') \<longrightarrow>
        (\<exists>new. os_log s' = os_log s @ new \<and> (\<forall>e \<in> set new. A e)))"

definition stable :: "(effect \<Rightarrow> bool) \<Rightarrow> (effect list \<Rightarrow> bool) \<Rightarrow> bool" where
  "stable A P \<longleftrightarrow> (\<forall>l e. P l \<longrightarrow> A e \<longrightarrow> P (l @ [e]))"

lemma stable_list: "stable A P \<Longrightarrow> P l \<Longrightarrow> (\<forall>e \<in> set new. A e) \<Longrightarrow> P (l @ new)"
proof (induction new rule: rev_induct)
  case (snoc e new)
  then have "P (l @ new)" by simp
  with snoc.prems show ?case unfolding stable_def by (metis append_assoc in_set_conv_decomp)
qed simp

lemma appends_hoare: "appends A m \<Longrightarrow> stable A P \<Longrightarrow> hoare P m (\<lambda>_. P)"
  unfolding appends_def hoare_def using stable_list by metis

lemma hoare_ret: "(\<And>l. P l \<Longrightarrow> Q a l) \<Longrightarrow> hoare P (ret a) Q"
  by (simp add: hoare_def)

lemma hoare_bind:
  "hoare P m R \<Longrightarrow> (\<And>a. hoare (R a) (f a) Q) \<Longrightarrow> hoare P (State_Monad.bind m f) Q"
  unfolding hoare_def by (auto split: prod.splits)

lemma hoare_quiet:
  "appends A m \<Longrightarrow> stable A P \<Longrightarrow> (\<And>a. hoare P (f a) Q) \<Longrightarrow> hoare P (State_Monad.bind m f) Q"
  by (rule hoare_bind [OF appends_hoare])

lemma hoare_strengthen: "hoare P m R \<Longrightarrow> (\<And>a l. R a l \<Longrightarrow> Q a l) \<Longrightarrow> hoare P m Q"
  unfolding hoare_def by blast

lemma hoare_weaken: "hoare P m Q \<Longrightarrow> (\<And>l. P' l \<Longrightarrow> P l) \<Longrightarrow> hoare P' m Q"
  unfolding hoare_def by blast

lemma hoare_assume: "(\<And>l. P l \<Longrightarrow> C) \<Longrightarrow> (C \<Longrightarrow> hoare P m Q) \<Longrightarrow> hoare P m Q"
  unfolding hoare_def by blast

lemma hoare_false: "(\<And>l. \<not> P l) \<Longrightarrow> hoare P m Q"
  unfolding hoare_def by blast

lemma hoare_conj: "hoare P m Q \<Longrightarrow> hoare P m R \<Longrightarrow> hoare P m (\<lambda>a l. Q a l \<and> R a l)"
  unfolding hoare_def by blast

lemma hoare_attempt:
  assumes "hoare P m (\<lambda>r l. case r of Inl e \<Rightarrow> (\<forall>e'. Q (Inl e') l) | Inr a \<Rightarrow> R a l)"
    and "\<And>a. hoare (R a) (f a) Q"
  shows "hoare P (attempt ctx m f) Q"
  unfolding attempt_def
proof (rule hoare_bind [OF assms(1)])
  fix r
  show "hoare (\<lambda>l. case r of Inl e \<Rightarrow> \<forall>e'. Q (Inl e') l | Inr a \<Rightarrow> R a l)
    (case r of Inl e \<Rightarrow> fail (with_context ctx e) | Inr a \<Rightarrow> f a) Q"
    using assms(2) by (cases r) (auto simp: fail_def intro: hoare_ret)
qed

lemma hoare_attempt_quiet:
  assumes "appends A m" and "stable A P" and "\<And>e l. P l \<Longrightarrow> Q (Inl e) l"
    and "\<And>a. hoare P (f a) Q"
  shows "hoare P (attempt ctx m f) Q"
proof (rule hoare_attempt [where R = "\<lambda>_. P"])
  show "hoare P m (\<lambda>r l. case r of Inl e \<Rightarrow> \<forall>e'. Q (Inl e') l | Inr a \<Rightarrow> P l)"
    by (rule hoare_strengthen [OF appends_hoare [OF assms(1,2)]]) (use assms(3) in \<open>auto split: sum.splits\<close>)
qed (rule assms(4))

lemma hoare_fail: "(\<And>l. P l \<Longrightarrow> Q (Inl e) l) \<Longrightarrow> hoare P (fail e) Q"
  unfolding fail_def by (rule hoare_ret)

lemma hoare_ok: "(\<And>l. P l \<Longrightarrow> Q (Inr a) l) \<Longrightarrow> hoare P (ok a) Q"
  unfolding ok_def by (rule hoare_ret)

lemma hoare_if:
  "(b \<Longrightarrow> hoare P m Q) \<Longrightarrow> (\<not> b \<Longrightarrow> hoare P n Q) \<Longrightarrow> hoare P (if b then m else n) Q"
  by simp

lemma hoare_option:
  "(x = None \<Longrightarrow> hoare P m Q) \<Longrightarrow> (\<And>a. x = Some a \<Longrightarrow> hoare P (f a) Q) \<Longrightarrow>
   hoare P (case x of None \<Rightarrow> m | Some a \<Rightarrow> f a) Q"
  by (cases x) auto

lemma hoare_sum:
  "(\<And>e. x = Inl e \<Longrightarrow> hoare P (g e) Q) \<Longrightarrow> (\<And>a. x = Inr a \<Longrightarrow> hoare P (f a) Q) \<Longrightarrow>
   hoare P (case x of Inl e \<Rightarrow> g e | Inr a \<Rightarrow> f a) Q"
  by (cases x) auto

lemma appends_weaken: "appends A m \<Longrightarrow> (\<And>e. A e \<Longrightarrow> B e) \<Longrightarrow> appends B m"
  unfolding appends_def by blast

lemma appends_ret [effects]: "appends A (ret a)"
  by (simp add: appends_def)

lemma appends_ok [effects]: "appends A (ok a)" "appends A (fail e)"
  by (simp_all add: ok_def fail_def appends_ret)

lemma appends_bind [effects]:
  assumes "appends A m" and "\<And>a. appends A (f a)"
  shows "appends A (State_Monad.bind m f)"
  unfolding appends_def
proof (intro allI impI)
  fix s b s'
  assume run: "run_state (State_Monad.bind m f) s = (b, s')"
  obtain a t where m: "run_state m s = (a, t)" by fastforce
  with run have f: "run_state (f a) t = (b, s')" by simp
  from assms(1) m obtain n1 where "os_log t = os_log s @ n1" "\<forall>e \<in> set n1. A e"
    unfolding appends_def by blast
  moreover from assms(2) f obtain n2 where "os_log s' = os_log t @ n2" "\<forall>e \<in> set n2. A e"
    unfolding appends_def by blast
  ultimately show "\<exists>new. os_log s' = os_log s @ new \<and> (\<forall>e \<in> set new. A e)"
    by (intro exI [of _ "n1 @ n2"]) auto
qed

lemma appends_attempt [effects]:
  "appends A m \<Longrightarrow> (\<And>a. appends A (f a)) \<Longrightarrow> appends A (attempt ctx m f)"
  unfolding attempt_def by (rule appends_bind) (auto intro: effects split: sum.splits)

lemma appends_if [effects]: "appends A m \<Longrightarrow> appends A n \<Longrightarrow> appends A (if b then m else n)"
  by simp

lemma appends_option [effects]:
  "appends A m \<Longrightarrow> (\<And>a. appends A (f a)) \<Longrightarrow> appends A (case x of None \<Rightarrow> m | Some a \<Rightarrow> f a)"
  by (cases x) auto

lemma appends_sum [effects]:
  "(\<And>e. appends A (g e)) \<Longrightarrow> (\<And>a. appends A (f a)) \<Longrightarrow>
   appends A (case x of Inl e \<Rightarrow> g e | Inr a \<Rightarrow> f a)"
  by (cases x) auto

lemma appends_prod [effects]: "(\<And>a b. appends A (f a b)) \<Longrightarrow> appends A (case x of (a, b) \<Rightarrow> f a b)"
  by (cases x) auto

lemma appends_list [effects]:
  "appends A m \<Longrightarrow> (\<And>x xs. appends A (f x xs)) \<Longrightarrow> appends A (case l of [] \<Rightarrow> m | x # xs \<Rightarrow> f x xs)"
  by (cases l) auto

lemma appends_call: "(\<And>a e. e \<in> set (eff a) \<Longrightarrow> A e) \<Longrightarrow> appends A (call f eff)"
  unfolding appends_def call_def by (auto split: prod.splits)

lemma appends_emit [effects]: "A e \<Longrightarrow> appends A (emit e)"
  unfolding appends_def emit_def by auto

lemma appends_read [effects]:
  "appends A (call f (\<lambda>_. []))" "(\<And>r. A (GotRun r)) \<Longrightarrow> appends A (get_run op key)"
  "appends A (list_runs op ns)" "appends A (get_job op key)" "appends A (list_pods op run role)"
  "appends A (get_configmap op key)" "appends A (time_now op)"
  unfolding get_run_def list_runs_def get_job_def list_pods_def get_configmap_def time_now_def
  by (rule appends_call; auto simp: on_ok_def split: sum.splits)+

lemma appends_write [effects]:
  "A (PutRun r) \<Longrightarrow> appends A (update_run op r)"
  "A (PutStatus r) \<Longrightarrow> (\<And>r'. A (StoredStatus r')) \<Longrightarrow> appends A (update_status op r)"
  "A (MadeJob (run_key r) j) \<Longrightarrow> appends A (create_job op r j)"
  "A (CutJob (run_key r) (job_key j)) \<Longrightarrow> appends A (delete_job op r j prop)"
  "A (MadePod (run_key r) p) \<Longrightarrow> appends A (create_pod op r p)"
  "A (CutPod (run_key r) (pod_key p)) \<Longrightarrow> appends A (delete_pod op r p)"
  "(\<And>aid. A (ArchivedRun (run_key r) aid)) \<Longrightarrow> appends A (archive_run op r rec)"
  "(\<And>reason. A (Warned (run_key r) reason)) \<Longrightarrow> appends A (warn op r reason)"
  unfolding update_run_def update_status_def create_job_def delete_job_def create_pod_def
    delete_pod_def archive_run_def warn_def
  by (auto intro!: appends_bind appends_emit appends_call appends_ret simp: on_ok_def split: sum.splits)

lemma appends_queue [effects]:
  "A (Admitted (run_key r)) \<Longrightarrow> appends A (queue_enqueue r)"
  "A (LeftQueue (run_key r)) \<Longrightarrow> appends A (queue_release r)"
  unfolding appends_def queue_enqueue_def queue_release_def by (auto split: prod.splits)

lemma appends_feed [effects]:
  "A (FedPodState (run_key r)) \<Longrightarrow> appends A (feed_emit_pass op r rid reports)"
  "appends A feed_off"
  unfolding appends_def feed_emit_pass_def feed_off_def by (auto split: prod.splits option.splits)

end
