(* ===== verification/RunSpec.thy ===== *)
theory RunSpec
  imports Kube
begin

text \<open>
  Stamping a resolved selection onto a new CriteriaRun (\<open>internal/runspec/runspec.go\<close>,
  \<open>internal/runstamp/stamp.go\<close>). The copies of maps and slices are the identity on values. The lookup
  of the configuration pin is an argument; its error is dropped by the code and here.
\<close>

record run_defaults =
  rd_buildCmd :: string
  rd_testCmd :: string
  rd_ciGateCmd :: string
  rd_baseBranch :: string
  rd_maxAgentVisits :: int
  rd_providerBaseURL :: string

record stamp_input =
  si_name :: string
  si_ticketID :: string
  si_repoURL :: string
  si_selection :: selection
  si_defaults :: run_defaults
  si_namespace :: string
  si_cutoverNamespace :: string
  si_bindingRefName :: string
  si_bindingResourceVersion :: string
  si_resolveConfigPin :: "(string \<Rightarrow> selection \<Rightarrow> criteria_run_config_ref option) option"

definition label_ticket :: string where "label_ticket = ''ticket''"
definition label_managed_by :: string where "label_managed_by = ''app.kubernetes.io/managed-by''"
definition label_source :: string where "label_source = ''criteria.brokenbots.dev/source''"
definition managed_by :: string where "managed_by = ''criteria-kanboard-watcher''"
definition source_kanboard :: string where "source_kanboard = ''kanboard''"

definition landing_ns :: "string \<Rightarrow> string \<Rightarrow> string" where
  "landing_ns bindingNS ns = (if bindingNS \<noteq> '''' then bindingNS else ns)"

definition exec_namespace :: "string \<Rightarrow> selection \<Rightarrow> string" where
  "exec_namespace defaultNS sel =
     (if wo_namespace (sn_workflow sel) \<noteq> '''' then wo_namespace (sn_workflow sel) else defaultNS)"

definition stamp_class :: "workflow \<Rightarrow> string" where
  "stamp_class w = (if wo_class w = class_triage then class_triage else class_dev)"

definition stamp_mount :: "interface_mount \<Rightarrow> run_workflow_interface_mount" where
  "stamp_mount m = \<lparr>mt_name = im_name m, mt_mountPath = im_mountPath m, mt_kind = im_kind m\<rparr>"

definition stamp_slot :: "interface_slot \<Rightarrow> run_workflow_interface_config_slot" where
  "stamp_slot s = \<lparr>sl_slot = is_slot s, sl_variable = is_variable s, sl_target = is_target s,
     sl_description = is_description s\<rparr>"

definition stamp_workflow_interface :: "workflow_interface option \<Rightarrow> run_workflow_interface option" where
  "stamp_workflow_interface wi = map_option (\<lambda>i. \<lparr>if_apiVersion = wi_apiVersion i, if_kind = wi_kind i,
     if_workflow = wi_workflow i, if_description = wi_description i, if_adapters = wi_adapters i,
     if_mounts = map stamp_mount (wi_mounts i), if_secretEnv = wi_secretEnv i, if_env = wi_env i,
     if_configSlots = map stamp_slot (wi_configSlots i), if_lockKey = wi_lockKey i\<rparr>) wi"

definition stamp_workflow_spec :: "string \<Rightarrow> workflow \<Rightarrow> string \<Rightarrow> run_workflow" where
  "stamp_workflow_spec name w conflictPolicy = \<lparr>wf_name = name, wf_type = wo_type w,
     wf_namespace = wo_namespace w, wf_class = stamp_class w, wf_image = wo_image w, wf_url = wo_url w,
     wf_ref = wo_ref w, wf_volumes = map run_workflow_volume_of (wo_volumes w),
     wf_secrets = map run_workflow_secret_of (wo_secrets w), wf_env = wo_env w,
     wf_adapterImages = wo_adapterImages w, wf_imageConflictPolicy = conflictPolicy,
     wf_interface = stamp_workflow_interface (wo_interface w)\<rparr>"

definition stamp_binding_ref_workflow_spec :: "string \<Rightarrow> workflow \<Rightarrow> string \<Rightarrow> run_workflow" where
  "stamp_binding_ref_workflow_spec name w conflictPolicy = \<lparr>wf_name = name, wf_type = wo_type w,
     wf_namespace = '''', wf_class = stamp_class w, wf_image = wo_image w, wf_url = wo_url w,
     wf_ref = wo_ref w, wf_volumes = [], wf_secrets = [], wf_env = [], wf_adapterImages = [],
     wf_imageConflictPolicy = conflictPolicy, wf_interface = stamp_workflow_interface (wo_interface w)\<rparr>"

definition stamp_repo_config ::
  "criteria_run_spec \<Rightarrow> selection \<Rightarrow> criteria_run_config_ref option \<Rightarrow> criteria_run_spec" where
  "stamp_repo_config spec sel cfg =
     (let c = sn_config sel
      in spec\<lparr>sp_buildCmd := first_nonempty [ce_buildCmd c, sp_buildCmd spec],
              sp_testCmd := first_nonempty [ce_testCmd c, sp_testCmd spec],
              sp_ciGateCmd := first_nonempty [ce_ciGateCmd c, sp_ciGateCmd spec],
              sp_baseBranch := first_nonempty [ce_baseBranch c, sp_baseBranch spec],
              sp_configRef := cfg\<rparr>)"

text \<open>The pin of the configuration ConfigMap: with a read error other than absence, the name alone.\<close>

definition pin_config_ref ::
  "(nsname \<Rightarrow> go_error + config_map) \<Rightarrow> string \<Rightarrow> selection \<Rightarrow> criteria_run_config_ref option \<times> go_error option" where
  "pin_config_ref get ns sel =
     (if sn_configName sel = '''' then (None, None)
      else let ref = \<lparr>cr_name = sn_configName sel, cr_resourceVersion = ''''\<rparr>
           in case get (ns, sn_configName sel) of
                Inl e \<Rightarrow> (Some ref, if is_not_found e then None else Some e)
              | Inr cm \<Rightarrow> (Some (ref\<lparr>cr_resourceVersion := cm_resourceVersion cm\<rparr>), None))"

definition stamp_workflow_source :: "criteria_run_spec \<Rightarrow> workflow \<Rightarrow> criteria_run_spec" where
  "stamp_workflow_source spec w =
     (if wo_type w \<noteq> type_url \<or> trim_space (wo_url w) = '''' then spec
      else spec\<lparr>sp_workflowSource := Some \<lparr>ws_type = ''url'', ws_url = wo_url w, ws_ref = wo_ref w\<rparr>,
                sp_image := (if trim_space (wo_image w) \<noteq> '''' then wo_image w else sp_image spec)\<rparr>)"

definition base_spec :: "stamp_input \<Rightarrow> criteria_run_spec" where
  "base_spec si = zero_spec\<lparr>sp_ticketID := si_ticketID si, sp_repoURL := si_repoURL si,
     sp_perScopeSessions := True, sp_maxAgentVisits := rd_maxAgentVisits (si_defaults si),
     sp_providerBaseURL := rd_providerBaseURL (si_defaults si)\<rparr>"

definition binding_spec :: "stamp_input \<Rightarrow> criteria_run_spec" where
  "binding_spec si =
     (let sel = si_selection si
      in (base_spec si)\<lparr>
        sp_workflow := Some (stamp_binding_ref_workflow_spec (sn_name sel) (sn_workflow sel) (sn_conflictPolicy sel)),
        sp_projectBindingRef := (if si_bindingRefName si \<noteq> ''''
          then Some \<lparr>pb_name = si_bindingRefName si, pb_resourceVersion = si_bindingResourceVersion si\<rparr>
          else None)\<rparr>)"

definition inline_spec :: "stamp_input \<Rightarrow> criteria_run_spec" where
  "inline_spec si =
     (let sel = si_selection si; d = si_defaults si;
          spec = (base_spec si)\<lparr>
            sp_workflow := Some (stamp_workflow_spec (sn_name sel) (sn_workflow sel) (sn_conflictPolicy sel)),
            sp_buildCmd := rd_buildCmd d, sp_testCmd := rd_testCmd d, sp_ciGateCmd := rd_ciGateCmd d,
            sp_baseBranch := rd_baseBranch d\<rparr>
      in if sn_configName sel = '''' then spec
         else stamp_repo_config spec sel
                (case si_resolveConfigPin si of None \<Rightarrow> None
                 | Some pin \<Rightarrow> pin (exec_namespace (si_namespace si) sel) sel))"

definition stamp_run :: "stamp_input \<Rightarrow> criteria_run" where
  "stamp_run si =
     (let spec = (if si_cutoverNamespace si \<noteq> '''' then binding_spec si else inline_spec si)
      in zero_run\<lparr>ru_name := si_name si,
           ru_namespace := landing_ns (si_cutoverNamespace si) (si_namespace si),
           ru_labels := [(label_ticket, map to_lower (si_ticketID si)), (label_managed_by, managed_by),
                         (label_source, source_kanboard)],
           ru_spec := stamp_workflow_source spec (sn_workflow (si_selection si))\<rparr>)"

section \<open>Properties\<close>

lemma stamped_workflow:
  "\<exists>w. sp_workflow (ru_spec (stamp_run si)) = Some w \<and> wf_type w = wo_type (sn_workflow (si_selection si)) \<and>
     wf_interface w = stamp_workflow_interface (wo_interface (sn_workflow (si_selection si)))"
  by (auto simp: stamp_run_def stamp_workflow_source_def binding_spec_def inline_spec_def
      stamp_repo_config_def stamp_workflow_spec_def stamp_binding_ref_workflow_spec_def Let_def)

lemma stamped_source:
  "sp_workflowSource (ru_spec (stamp_run si)) =
     (let w = sn_workflow (si_selection si)
      in if wo_type w \<noteq> type_url \<or> trim_space (wo_url w) = '''' then None
         else Some \<lparr>ws_type = ''url'', ws_url = wo_url w, ws_ref = wo_ref w\<rparr>)"
  by (auto simp: stamp_run_def stamp_workflow_source_def binding_spec_def inline_spec_def base_spec_def
      stamp_repo_config_def zero_spec_def Let_def)

text \<open>
  A run stamped from a workflow entry that passed the route validation passes the admission gates
  for a missing source and a missing interface, except in one case: a url that is only white space is
  accepted by the validator and stamped without a source, so admission refuses the run.
\<close>

theorem stamped_run_admissible:
  assumes "validate_workflow name (sn_workflow (si_selection si)) = None"
  shows "interface_binding_gap (stamp_run si) = None \<and>
    (workflow_source_missing (stamp_run si) \<longleftrightarrow>
       wo_type (sn_workflow (si_selection si)) = type_url \<and>
       trim_space (wo_url (sn_workflow (si_selection si))) = '''')"
proof -
  let ?w = "sn_workflow (si_selection si)"
  have ty: "validate_workflow_type ?w = None"
    using assms unfolding validate_workflow_def first_error_None by simp
  have types: "type_image \<noteq> type_url" by (simp add: type_image_def type_url_def)
  have decl: "wo_type ?w = type_image \<or> wo_interface ?w \<noteq> None"
    using ty unfolding validate_workflow_type_def by (auto split: if_splits option.splits)
  obtain w where w: "sp_workflow (ru_spec (stamp_run si)) = Some w" "wf_type w = wo_type ?w"
    "wf_interface w = stamp_workflow_interface (wo_interface ?w)" using stamped_workflow by blast
  have "interface_binding_gap (stamp_run si) = None"
    using w decl by (auto simp: interface_binding_gap_def stamp_workflow_interface_def)
  moreover have "workflow_source_missing (stamp_run si) \<longleftrightarrow>
       wo_type ?w = type_url \<and> trim_space (wo_url ?w) = ''''"
    using w by (auto simp: workflow_source_missing_def stamped_source Let_def)
  ultimately show ?thesis by simp
qed

definition sample_input :: "workflow \<Rightarrow> stamp_input" where
  "sample_input w = \<lparr>si_name = ''kb-1'', si_ticketID = ''KB-1'', si_repoURL = ''o/r'',
     si_selection = \<lparr>sn_route = sample_route ''general'' [], sn_name = ''dev'', sn_workflow = w,
       sn_configName = '''', sn_config = zero_config_entry, sn_conflictPolicy = ''''\<rparr>,
     si_defaults = \<lparr>rd_buildCmd = '''', rd_testCmd = '''', rd_ciGateCmd = '''', rd_baseBranch = '''',
       rd_maxAgentVisits = 0, rd_providerBaseURL = ''''\<rparr>,
     si_namespace = ''jobs'', si_cutoverNamespace = '''', si_bindingRefName = '''',
     si_bindingResourceVersion = '''', si_resolveConfigPin = None\<rparr>"

definition sample_interface :: workflow_interface where
  "sample_interface = \<lparr>wi_apiVersion = interface_api_version, wi_kind = interface_kind, wi_workflow = ''tree'',
     wi_description = '''', wi_adapters = [], wi_mounts = [], wi_secretEnv = [], wi_env = [],
     wi_configSlots = [], wi_lockKey = ''''\<rparr>"

theorem stamped_run_admissible_witness:
  "workflow_source_missing (stamp_run (sample_input (zero_routes_workflow\<lparr>wo_type := type_url, wo_url := '' '',
     wo_interface := Some sample_interface\<rparr>)))"
proof -
  let ?w = "zero_routes_workflow\<lparr>wo_type := type_url, wo_url := '' '', wo_interface := Some sample_interface\<rparr>"
  have sel: "sn_workflow (si_selection (sample_input ?w)) = ?w" by (simp add: sample_input_def)
  have "validate_workflow ''dev'' ?w = None" by code_simp
  then have "workflow_source_missing (stamp_run (sample_input ?w)) \<longleftrightarrow>
       wo_type ?w = type_url \<and> trim_space (wo_url ?w) = ''''"
    using stamped_run_admissible [of "''dev''" "sample_input ?w"] unfolding sel by blast
  moreover have "trim_space '' '' = ''''" by code_simp
  ultimately show ?thesis by simp
qed

text \<open>
  The two ways a binding reaches a run agree: materializing it at admission onto a run stamped
  with the reference alone gives the workflow object that stamping the entry with the binding applied
  gives, up to the entry's namespace, which the binding lane never carries.
\<close>

theorem materialize_agrees_with_apply:
  "sp_workflow (ru_spec (materialize_project_binding
      (run\<lparr>ru_spec := (ru_spec run)\<lparr>sp_workflow := Some (stamp_binding_ref_workflow_spec name w policy)\<rparr>\<rparr>) p)) =
   Some ((stamp_workflow_spec name (apply_binding p w) policy)\<lparr>wf_namespace := ''''\<rparr>)"
  by (simp add: materialize_project_binding_def stamp_binding_ref_workflow_spec_def
      stamp_workflow_spec_def apply_binding_def stamp_class_def)

end
