(* ===== verification/PodFeed.thy ===== *)
theory PodFeed
  imports PodState
begin

text \<open>
  The pod-state feed: it sends what changed, keeps trying what was not accepted, and a pass through it
  is bounded in submissions and in waiting.
\<close>

section \<open>What is chosen\<close>

lemma last_signal_skips [simp]: "last_signal (f\<lparr>fd_skips := s\<rparr>) k = last_signal f k"
  by (simp add: last_signal_def)

lemma choose_pending_exact:
  "fst (snd (choose_pending runID now f rs)) =
     filter (\<lambda>r. pr_scopeID r \<noteq> '''' \<and> last_signal f (feed_key runID r) \<noteq> pod_state_signal r) rs"
  by (induction runID now f rs rule: choose_pending.induct) (auto simp: Let_def split: prod.splits)

lemma choose_pending_frame:
  "fd_last (fst (choose_pending runID now f rs)) = fd_last f \<and>
   fd_maxAttempts (fst (choose_pending runID now f rs)) = fd_maxAttempts f \<and>
   fd_backoffBase (fst (choose_pending runID now f rs)) = fd_backoffBase f"
  by (induction runID now f rs rule: choose_pending.induct) (auto simp: Let_def split: prod.splits)

lemma choose_pending_skips:
  "map sl_event (snd (snd (choose_pending runID now f rs))) = filter (\<lambda>r. pr_scopeID r = '''') rs"
  by (induction runID now f rs rule: choose_pending.induct) (auto simp: Let_def split: prod.splits)

section \<open>What is recorded\<close>

lemma last_signal_put:
  "last_signal (f\<lparr>fd_last := assoc_put k sg (fd_last f)\<rparr>) k' = (if k' = k then sg_signal sg else last_signal f k')"
  by (simp add: last_signal_def)

lemma retry_frame: "retry wait step (f\<lparr>fd_last := l\<rparr>) n i e w = retry wait step f n i e w"
  by (induction n arbitrary: i e w) (auto simp: backoff_delay_def Let_def split: prod.splits option.splits sum.splits)

lemma emit_one_frame: "emit_one fw (f\<lparr>fd_last := l\<rparr>) = emit_one fw f"
  by (simp add: emit_one_def fun_eq_iff retry_frame)

text \<open>An outage: nothing is recorded, so every report is chosen again.\<close>

lemma submit_all_fail:
  assumes "\<And>r w. r \<in> set rs \<Longrightarrow> \<exists>e. fst (emit_one fw f runID r w) = Inl e"
  shows "fst (submit_pending fw runID (f, w) rs) = f"
  using assms
proof (induction rs arbitrary: w)
  case (Cons r rs)
  obtain e w1 where "emit_one fw f runID r w = (Inl e, w1)"
    using Cons.prems [of r w] by (metis list.set_intros(1) prod.collapse)
  with Cons show ?case by simp
qed simp

lemma submit_others:
  "k \<notin> feed_key runID ` set rs \<Longrightarrow> last_signal (fst (submit_pending fw runID (f, w) rs)) k = last_signal f k"
proof (induction rs arbitrary: f w)
  case (Cons r rs)
  then show ?case
    by (auto simp: Let_def last_signal_put split: prod.splits sum.splits)
qed simp

lemma submit_all_accepted:
  assumes "\<And>r w. r \<in> set rs \<Longrightarrow> fst (emit_one fw f runID r w) = Inr ()" and "distinct (map (feed_key runID) rs)"
    and "r \<in> set rs"
  shows "last_signal (fst (submit_pending fw runID (f, w) rs)) (feed_key runID r) = pod_state_signal r"
  using assms
proof (induction rs arbitrary: f w)
  case (Cons q qs)
  obtain w1 where w1: "emit_one fw f runID q w = (Inr (), w1)"
    using Cons.prems(1) [of q w] by (metis list.set_intros(1) prod.collapse)
  obtain at w2 where w2: "fw_now fw w1 = (at, w2)" by (metis surj_pair)
  let ?f = "f\<lparr>fd_last := assoc_put (feed_key runID q) \<lparr>sg_signal = pod_state_signal q, sg_at = at\<rparr> (fd_last f)\<rparr>"
  have step: "submit_pending fw runID (f, w) (q # qs) = submit_pending fw runID (?f, w2) qs"
    using w1 w2 by simp
  show ?case
  proof (cases "r \<in> set qs")
    case True
    have "last_signal (fst (submit_pending fw runID (?f, w2) qs)) (feed_key runID r) = pod_state_signal r"
      by (rule Cons.IH) (use Cons.prems True in \<open>auto simp: emit_one_frame\<close>)
    then show ?thesis using step by simp
  next
    case False
    with Cons.prems(2,3) have "r = q" "feed_key runID q \<notin> feed_key runID ` set qs" by auto
    with submit_others [of "feed_key runID q" runID qs fw ?f w2] step show ?thesis
      by (simp add: last_signal_put)
  qed
qed simp

section \<open>Bounds\<close>

text \<open>The feed's world with a count of submissions and of the time waited.\<close>

definition metered :: "'w feed_world \<Rightarrow> ('w \<times> nat \<times> duration) feed_world" where
  "metered fw = \<lparr>
     fw_wait = (\<lambda>d (w, n, t). let (r, w') = fw_wait fw d w in (r, (w', n, t + d))),
     fw_submit = (\<lambda>env (w, n, t). let (r, w') = fw_submit fw env w in (r, (w', n + 1, t))),
     fw_now = (\<lambda>(w, n, t). let (now, w') = fw_now fw w in (now, (w', n, t))),
     fw_utf8 = fw_utf8 fw, fw_fmt = fw_fmt fw, fw_schemaVersion = fw_schemaVersion fw\<rparr>"

definition submissions :: "'w \<times> nat \<times> duration \<Rightarrow> nat" where "submissions w = fst (snd w)"
definition waited :: "'w \<times> nat \<times> duration \<Rightarrow> duration" where "waited w = snd (snd w)"

lemma metered_facts:
  "submissions (snd (fw_wait (metered fw) d w)) = submissions w" "waited (snd (fw_wait (metered fw) d w)) = waited w + d"
  "submissions (snd (fw_submit (metered fw) env w)) = submissions w + 1" "waited (snd (fw_submit (metered fw) env w)) = waited w"
  "submissions (snd (fw_now (metered fw) w)) = submissions w" "waited (snd (fw_now (metered fw) w)) = waited w"
  by (auto simp: metered_def submissions_def waited_def split: prod.splits)

lemma attempt_bound:
  "submissions (snd (emit_attempt (metered fw) runID r w)) \<le> submissions w + 1 \<and>
   waited (snd (emit_attempt (metered fw) runID r w)) = waited w"
  by (auto simp: emit_attempt_def metered_facts split: sum.splits)

lemma backoff_bound: "backoff_delay f i \<le> pod_state_backoff_max"
  by (simp add: backoff_delay_def)

lemma backoff_max_nonneg: "0 \<le> pod_state_backoff_max"
  by (simp add: pod_state_backoff_max_def second_def)

lemma retry_bound:
  assumes "\<And>w. submissions (snd (step w)) \<le> submissions w + 1 \<and> waited (snd (step w)) = waited w"
    and "wait = fw_wait (metered fw)"
  shows "submissions (snd (retry wait step f n i e w)) \<le> submissions w + n \<and>
    waited (snd (retry wait step f n i e w)) \<le> waited w + int (if i = 0 then n - 1 else n) * pod_state_backoff_max"
proof (induction n arbitrary: i e w)
  case (Suc n)
  obtain stop w1 where w1: "(if 0 < i then wait (backoff_delay f i) w else (None, w)) = (stop, w1)" by (metis surj_pair)
  have m1: "submissions w1 = submissions w" "waited w1 \<le> waited w + (if i = 0 then 0 else pod_state_backoff_max)"
    using w1 metered_facts(1,2) [of fw "backoff_delay f i" w] backoff_bound [of f i]
    by (auto simp: assms(2) split: if_splits)
  obtain r w2 where w2: "step w1 = (r, w2)" by (metis surj_pair)
  have m2: "submissions w2 \<le> submissions w1 + 1" "waited w2 = waited w1" using assms(1) [of w1] w2 by simp_all
  have nonneg: "0 \<le> int n * pod_state_backoff_max" using backoff_max_nonneg by simp
  have subs: "submissions (snd (retry wait step f n (Suc i) e' w2)) \<le> submissions w + Suc n" for e'
    using Suc.IH [of "Suc i" e' w2] m1(1) m2(1) by simp
  define b where "b = int (if i = 0 then Suc n - 1 else Suc n) * pod_state_backoff_max"
  have waits: "waited (snd (retry wait step f n (Suc i) e' w2)) \<le> waited w + b" for e'
    using Suc.IH [of "Suc i" e' w2] m1(2) m2(2) by (auto simp: b_def distrib_right split: if_splits)
  have here: "submissions w1 \<le> submissions w + Suc n" "submissions w2 \<le> submissions w + Suc n"
    "waited w1 \<le> waited w + b" "waited w2 \<le> waited w + b"
    using m1 m2 nonneg by (auto simp: b_def distrib_right split: if_splits)
  have eq: "retry wait step f (Suc n) i e w = (case stop of
      Some e \<Rightarrow> (Inl (Wrapped ''castle podstate'' e), w1)
    | None \<Rightarrow> (case r of Inr u \<Rightarrow> (Inr (), w2)
        | Inl e \<Rightarrow> if err_is e CtxCanceled then (Inl (Wrapped ''castle podstate'' e), w2) else retry wait step f n (Suc i) e w2))"
    unfolding retry.simps w1 Let_def prod.case w2 ..
  show ?case unfolding eq b_def [symmetric] using here subs waits by (simp split: option.splits sum.splits)
qed simp

lemma submit_bound:
  assumes "fd_maxAttempts f = m"
  shows "submissions (snd (submit_pending (metered fw) runID (f, w) rs)) \<le> submissions w + m * length rs \<and>
    waited (snd (submit_pending (metered fw) runID (f, w) rs)) \<le> waited w + int ((m - 1) * length rs) * pod_state_backoff_max"
  using assms
proof (induction rs arbitrary: f w)
  case (Cons r rs)
  obtain res w1 where w1: "emit_one (metered fw) f runID r w = (res, w1)" by (metis surj_pair)
  obtain at w2 where w2: "fw_now (metered fw) w1 = (at, w2)" by (metis surj_pair)
  have b1: "submissions w1 \<le> submissions w + m" "waited w1 \<le> waited w + int (m - 1) * pod_state_backoff_max"
  proof -
    have "submissions (snd (emit_one (metered fw) f runID r w)) \<le> submissions w + m \<and>
        waited (snd (emit_one (metered fw) f runID r w)) \<le> waited w + int (if (0::nat) = 0 then m - 1 else m) * pod_state_backoff_max"
      unfolding emit_one_def Cons.prems by (rule retry_bound [OF attempt_bound refl])
    then show "submissions w1 \<le> submissions w + m" "waited w1 \<le> waited w + int (m - 1) * pod_state_backoff_max"
      by (simp_all add: w1)
  qed
  have b2: "submissions w2 = submissions w1" "waited w2 = waited w1" using metered_facts(5,6) [of fw w1] w2 by simp_all
  let ?f = "f\<lparr>fd_last := assoc_put (feed_key runID r) \<lparr>sg_signal = pod_state_signal r, sg_at = at\<rparr> (fd_last f)\<rparr>"
  have split: "int ((m - 1) * length (r # rs)) * pod_state_backoff_max =
      int (m - 1) * pod_state_backoff_max + int ((m - 1) * length rs) * pod_state_backoff_max"
    by (simp only: list.size(4) add_Suc_right add_0_right mult_Suc_right of_nat_add distrib_right)
  have eq: "submit_pending (metered fw) runID (f, w) (r # rs) = (case res of
      Inl e \<Rightarrow> submit_pending (metered fw) runID (f, w1) rs
    | Inr u \<Rightarrow> submit_pending (metered fw) runID (?f, w2) rs)"
    using w1 w2 by (simp add: w2 split: sum.splits)
  show ?case unfolding eq split
    using Cons.IH [of f w1] Cons.IH [of ?f w2] Cons.prems b1 b2 by (auto split: sum.splits)
qed simp

section \<open>Properties\<close>

text \<open>
  A pass through the feed submits, in the order of the reports, exactly the reports of a scope whose state
  differs from the last accepted one, and reports every report without a scope as skipped: nothing that is
  unchanged is sent again and nothing that changed is left out.
\<close>

theorem feed_sends_changes:
  "(let (f', pending, skipped) = choose_pending runID now f reports
    in pending = filter (\<lambda>r. pr_scopeID r \<noteq> '''' \<and> last_signal f (feed_key runID r) \<noteq> pod_state_signal r) reports \<and>
       map sl_event skipped = filter (\<lambda>r. pr_scopeID r = '''') reports \<and> fd_last f' = fd_last f)"
  using choose_pending_exact [of runID now f reports] choose_pending_frame [of runID now f reports]
    choose_pending_skips [of runID now f reports]
  by (simp add: split_beta)

text \<open>
  A state is recorded as sent only when castle accepted it: after a pass in which every submission failed
  the feed chooses the same reports again, and after one in which every submission was accepted it chooses none of them.
\<close>

theorem feed_retries_until_accepted:
  assumes "distinct (map (feed_key runID) rs)"
    and "rs = fst (snd (choose_pending runID now f rs))"
  shows "((\<forall>r \<in> set rs. \<forall>w. \<exists>e. fst (emit_one fw f runID r w) = Inl e) \<longrightarrow>
      fst (snd (choose_pending runID now' (fst (submit_pending fw runID (f, w) rs)) rs)) = rs) \<and>
    ((\<forall>r \<in> set rs. \<forall>w. fst (emit_one fw f runID r w) = Inr ()) \<longrightarrow>
      fst (snd (choose_pending runID now' (fst (submit_pending fw runID (f, w) rs)) rs)) = [])"
proof (intro conjI impI)
  assume "\<forall>r \<in> set rs. \<forall>w. \<exists>e. fst (emit_one fw f runID r w) = Inl e"
  then have "fst (submit_pending fw runID (f, w) rs) = f" by (intro submit_all_fail) blast
  then show "fst (snd (choose_pending runID now' (fst (submit_pending fw runID (f, w) rs)) rs)) = rs"
    using assms(2) by (simp add: choose_pending_exact)
next
  assume "\<forall>r \<in> set rs. \<forall>w. fst (emit_one fw f runID r w) = Inr ()"
  then have "last_signal (fst (submit_pending fw runID (f, w) rs)) (feed_key runID r) = pod_state_signal r"
    if "r \<in> set rs" for r
    using that by (intro submit_all_accepted assms(1)) auto
  then show "fst (snd (choose_pending runID now' (fst (submit_pending fw runID (f, w) rs)) rs)) = []"
    by (auto simp: choose_pending_exact filter_empty_conv)
qed


text \<open>Witness: one report, against a castle that is down and one that accepts.\<close>

definition sample_feed_world :: "(go_error + unit) \<Rightarrow> unit feed_world" where
  "sample_feed_world answer = \<lparr>fw_wait = (\<lambda>d w. (None, w)), fw_submit = (\<lambda>env w. (answer, w)), fw_now = (\<lambda>w. (9, w)),
     fw_utf8 = (\<lambda>_. True), fw_fmt = (\<lambda>_. ''T''), fw_schemaVersion = 1\<rparr>"

definition sample_report :: pod_state_report where
  "sample_report = \<lparr>pr_adapterName = ''shell'', pr_adapterType = ''shell'', pr_scopeName = ''dev'', pr_scopeID = ''s-1'',
     pr_pod = ''p'', pr_phase = ''Pending'', pr_reason = ''ImagePullBackOff'', pr_message = '''', pr_observedAt = 3\<rparr>"

theorem feed_retries_until_accepted_witness:
  "fst (snd (choose_pending ''c-1'' 5 (fst (submit_pending (sample_feed_world (Inl CodeNotFound)) ''c-1''
     (new_pod_state_feed ''castle'', ()) [sample_report])) [sample_report])) = [sample_report] \<and>
   fst (snd (choose_pending ''c-1'' 5 (fst (submit_pending (sample_feed_world (Inr ())) ''c-1''
     (new_pod_state_feed ''castle'', ()) [sample_report])) [sample_report])) = []"
proof -
  have new: "[sample_report] = fst (snd (choose_pending ''c-1'' 4 (new_pod_state_feed ''castle'') [sample_report]))"
    by code_simp
  have down: "\<forall>r \<in> set [sample_report]. \<forall>w. \<exists>e.
      fst (emit_one (sample_feed_world (Inl CodeNotFound)) (new_pod_state_feed ''castle'') ''c-1'' r w) = Inl e"
  proof (intro ballI allI)
    fix r w assume "r \<in> set [sample_report]"
    moreover have "fst (emit_one (sample_feed_world (Inl CodeNotFound)) (new_pod_state_feed ''castle'') ''c-1'' sample_report ()) =
        Inl (Wrapped ''castle podstate'' CodeNotFound)" by code_simp
    ultimately show "\<exists>e. fst (emit_one (sample_feed_world (Inl CodeNotFound)) (new_pod_state_feed ''castle'') ''c-1'' r w) = Inl e"
      by simp
  qed
  have up: "\<forall>r \<in> set [sample_report]. \<forall>w.
      fst (emit_one (sample_feed_world (Inr ())) (new_pod_state_feed ''castle'') ''c-1'' r w) = Inr ()"
  proof (intro ballI allI)
    fix r w assume "r \<in> set [sample_report]"
    moreover have "fst (emit_one (sample_feed_world (Inr ())) (new_pod_state_feed ''castle'') ''c-1'' sample_report ()) = Inr ()"
      by code_simp
    ultimately show "fst (emit_one (sample_feed_world (Inr ())) (new_pod_state_feed ''castle'') ''c-1'' r w) = Inr ()"
      by simp
  qed
  have one: "distinct (map (feed_key ''c-1'') [sample_report])" by simp
  show ?thesis
    using conjunct1 [OF feed_retries_until_accepted [OF one new], THEN mp, OF down]
      conjunct2 [OF feed_retries_until_accepted [OF one new], THEN mp, OF up] by blast
qed

text \<open>
  The count of skips of a scope only grows: a note does not reset it, so the number a later note shows counts
  from the start of the process and not from the note before.
\<close>

lemma skip_count_not_reset:
  "let r = sample_report\<lparr>pr_scopeID := ''''\<rparr>; f1 = fst (choose_pending ''c-1'' 1 (new_pod_state_feed ''castle'') [r]);
       skipped = snd (snd (choose_pending ''c-1'' (1 + 2 * hour) f1 [r]))
   in map sl_noted skipped = [True] \<and> map sl_count skipped = [2]"
  by code_simp

end
