(* ===== verification/Watchdog.thy ===== *)
theory Watchdog
  imports RunStatus
begin

text \<open>The stall watchdog (\<open>stallwatchdog.go\<close>): exactly when it fires and what it leaves behind.\<close>

definition last_progress :: "observation \<Rightarrow> criteria_run \<Rightarrow> gotime option" where
  "last_progress obs update =
     (if \<not> is_zero (ob_lastProgress obs) then Some (ob_lastProgress obs) else st_lastStepProgress (ru_status update))"

lemma upsert_true_found:
  "co_status c \<Longrightarrow> find (\<lambda>x. co_type x = co_type c \<and> co_status x) (upsert_conditions now c cs) \<noteq> None"
  by (induction cs) auto

lemma mark_fires: "stall_watchdog_fired (ru_status (mark_stall_watchdog fmt dur now gen t w u))"
  using upsert_true_found [of "true_condition condition_stall_watchdog condition_stall_watchdog
      (''no step progress for '' @ dur w @ '' (last step event '' @ fmt t @
       ''); the run is parked failed '' @ long_dash @ '' refire decisions belong to the shepherd (KB-24, KB-302)'') gen"]
  by (simp add: mark_stall_watchdog_def stall_watchdog_fired_def true_condition_of_def upsert_condition_def true_condition_def)

lemma mark_keeps [simp]:
  "st_phase (ru_status (mark_stall_watchdog fmt dur now gen t w u)) = st_phase (ru_status u)"
  "st_lastStepProgress (ru_status (mark_stall_watchdog fmt dur now gen t w u)) = st_lastStepProgress (ru_status u)"
  by (simp_all add: mark_stall_watchdog_def upsert_condition_def)

text \<open>
  The watchdog fires exactly on a running run, with a window configured, whose last known step progress
  (castle's, else the recorded one) is more than the window old. A run without any known progress gets the
  clock of this pass instead and is not failed. When it fires the run is failed with the condition set;
  otherwise the phase and the conditions are as they were.
\<close>

theorem watchdog_exact:
  "(let (stalled, v) = apply_stall_watchdog fmt dur window now run obs update; last = last_progress obs update
    in (stalled \<longleftrightarrow> window > 0 \<and> st_phase (ru_status update) = PhaseRunning \<and>
          (case last of None \<Rightarrow> False | Some t \<Rightarrow> time_sub now t > window)) \<and>
       (if stalled then st_phase (ru_status v) = PhaseFailed \<and> stall_watchdog_fired (ru_status v)
        else st_phase (ru_status v) = st_phase (ru_status update) \<and>
             st_conditions (ru_status v) = st_conditions (ru_status update)) \<and>
       st_lastStepProgress (ru_status v) =
         (if window > 0 then Some (case last of None \<Rightarrow> now | Some t \<Rightarrow> t) else st_lastStepProgress (ru_status update)))"
  using mark_fires
  by (cases "is_zero (ob_lastProgress obs)"; cases "st_lastStepProgress (ru_status update)")
    (simp_all add: apply_stall_watchdog_def last_progress_def Let_def)

end
