(* ===== verification/Teardown.thy ===== *)
theory Teardown
  imports Kube
begin

text \<open>
  What ends a run: the terminal archive gate (\<open>terminalarchive.go\<close>), the restart guard and the
  cleanup of child Jobs (\<open>terminalcleanup.go\<close>, \<open>baseimage.go\<close>), the deletion of adapter pods
  (\<open>criteriarun_controller.go\<close>) and the operations that park a run failed (\<open>baseimage.go\<close>,
  \<open>configrender.go\<close>, \<open>adapterimageconflict.go\<close>, \<open>stallwatchdog.go\<close>, \<open>workflowsource.go\<close>,
  \<open>interfacebinding.go\<close>).

  A status write rebinds the object to what the server answered, as the client does.
\<close>

section \<open>The archive gate\<close>

text \<open>The restart counts of the runner pods, narrowed to 32 bits as the record's field is.\<close>

definition pod_restarts :: "pod \<Rightarrow> int" where
  "pod_restarts p = sum_list (map cs_restartCount (po_statuses p @ po_initStatuses p))"

definition to_int32 :: "int \<Rightarrow> int" where
  "to_int32 i = (i + 2 ^ 31) mod 2 ^ 32 - 2 ^ 31"

definition runner_pod_restarts :: "'w reconciler \<Rightarrow> criteria_run \<Rightarrow> ('w, int) attempt" where
  "runner_pod_restarts op run =
     attempt ''listing runner pods for the archive record'' (list_pods op run role_runner) (\<lambda>pods.
       ok (sum_list (map pod_restarts pods)))"

definition build_terminal_archive_record ::
  "'w reconciler \<Rightarrow> criteria_run \<Rightarrow> observation option \<Rightarrow> ('w, archive_record) attempt" where
  "build_terminal_archive_record op run obs =
     (let ob = (case obs of None \<Rightarrow> zero_observation | Some ob \<Rightarrow> ob)
      in case archive_effective_key run ob of
           Inl e \<Rightarrow> fail e
         | Inr key \<Rightarrow>
             attempt '''' (runner_pod_restarts op run) (\<lambda>restarts.
               ok (archive_record_of (op_fmt op) (op_operatorVersion op) run ob key (to_int32 restarts))))"

definition mark_terminal_archive_pending ::
  "'w reconciler \<Rightarrow> criteria_run \<Rightarrow> string \<Rightarrow> string \<Rightarrow> ('w, unit) attempt" where
  "mark_terminal_archive_pending op run reason message =
     attempt ''re-reading CriteriaRun for the TerminalArchivePending condition'' (get_run op (run_key run)) (\<lambda>fresh.
       do {
         now \<leftarrow> time_now op;
         let marked = upsert_condition now
               (true_condition condition_terminal_archive_pending reason message (ru_generation fresh)) fresh;
         let update = marked\<lparr>ru_status := (ru_status marked)\<lparr>st_archivePending := True\<rparr>\<rparr>;
         if ru_status fresh \<noteq> ru_status update
         then attempt ''stamping TerminalArchivePending condition'' (update_status op update)
                (\<lambda>_. fail (ErrMsg message))
         else fail (ErrMsg message)
       })"

definition archived_condition :: "string \<Rightarrow> condition \<Rightarrow> condition" where
  "archived_condition aid c =
     (if co_type c = condition_terminal_archive_pending
      then c\<lparr>co_status := False, co_reason := ''Archived'',
             co_message := ''castle run archive stored: '' @ aid\<rparr>
      else c)"

definition archived_status :: "string \<Rightarrow> criteria_run_status \<Rightarrow> criteria_run_status" where
  "archived_status aid st = st\<lparr>st_archiveID := aid, st_archivePending := False,
     st_conditions := map (archived_condition aid) (st_conditions st)\<rparr>"

definition mark_terminal_archived ::
  "'w reconciler \<Rightarrow> criteria_run \<Rightarrow> string \<Rightarrow> ('w, unit) attempt" where
  "mark_terminal_archived op run aid =
     attempt ''re-reading CriteriaRun for the archive stamp'' (get_run op (run_key run)) (\<lambda>fresh.
       let update = fresh\<lparr>ru_status := archived_status aid (ru_status fresh)\<rparr>
       in if ru_status fresh \<noteq> ru_status update
          then attempt ''stamping archive id into CriteriaRun status'' (update_status op update) (\<lambda>_. ok ())
          else ok ())"

definition archive_with_cr_uid_key ::
  "'w reconciler \<Rightarrow> criteria_run \<Rightarrow> archive_record \<Rightarrow> ('w, string) attempt" where
  "archive_with_cr_uid_key op run rec =
     (if ru_uid run = ''''
      then fail (ErrMsg ''run has no CastleRunID and no CR uid: no archive key can be derived'')
      else archive_run op run
             (rec\<lparr>ar_archiveKey := cr_uid_archive_key (ru_uid run), ar_runID := ''''\<rparr>))"

definition not_yet_stored :: "'w reconciler \<Rightarrow> criteria_run \<Rightarrow> go_error \<Rightarrow> ('w, unit) attempt" where
  "not_yet_stored op run e =
     mark_terminal_archive_pending op run ''ArchiveRunFailed''
       (''castle run archive not yet stored (requeued with backoff): '' @ op_errText op e)"

definition ensure_terminal_archived ::
  "'w reconciler \<Rightarrow> criteria_run \<Rightarrow> observation option \<Rightarrow> ('w, unit) attempt" where
  "ensure_terminal_archived op run obs =
     (if \<not> op_runArchiver op then ok ()
      else if st_archiveID (ru_status run) \<noteq> '''' \<and> \<not> st_archivePending (ru_status run) then ok ()
      else do {
        built \<leftarrow> build_terminal_archive_record op run obs;
        case built of
          Inl e \<Rightarrow> mark_terminal_archive_pending op run ''ArchiveRecordBuildFailed''
                     (''castle run archive not attempted (record build failed): '' @ op_errText op e)
        | Inr rec \<Rightarrow> do {
            resp \<leftarrow> archive_run op run rec;
            case resp of
              Inr aid \<Rightarrow> mark_terminal_archived op run aid
            | Inl e \<Rightarrow>
                (if is_run_backed_record rec \<and> ru_uid run \<noteq> '''' \<and>
                    (err_is e CodeNotFound \<or> err_is e CodePermissionDenied)
                 then do {
                   again \<leftarrow> archive_with_cr_uid_key op run rec;
                   case again of
                     Inr aid \<Rightarrow> mark_terminal_archived op run aid
                   | Inl fb \<Rightarrow> not_yet_stored op run e
                 }
                 else not_yet_stored op run e)
          }
      })"

section \<open>Deleting the children\<close>

fun delete_jobs_loop ::
  "'w reconciler \<Rightarrow> criteria_run \<Rightarrow> propagation \<Rightarrow> job list \<Rightarrow> string list \<Rightarrow> ('w, string list) attempt" where
  "delete_jobs_loop op run prop [] deleted = ok deleted"
| "delete_jobs_loop op run prop (desired # rest) deleted = do {
     found \<leftarrow> get_job op (job_key desired);
     case found of
       Inr j \<Rightarrow> do {
         gone \<leftarrow> delete_job op run j prop;
         case gone of
           Inl e \<Rightarrow> (if \<not> is_not_found e
                     then fail (Wrapped (''deleting child job '' @ jo_name desired) e)
                     else delete_jobs_loop op run prop rest (deleted @ [jo_name desired]))
         | Inr u \<Rightarrow> delete_jobs_loop op run prop rest (deleted @ [jo_name desired])
       }
     | Inl e \<Rightarrow> (if \<not> is_not_found e
                 then fail (Wrapped (''getting child job '' @ jo_name desired @ '' for deletion'') e)
                 else delete_jobs_loop op run prop rest deleted)
   }"

definition delete_jobs :: "'w reconciler \<Rightarrow> criteria_run \<Rightarrow> propagation \<Rightarrow> ('w, string list) attempt" where
  "delete_jobs op run prop = delete_jobs_loop op run prop (build_all (op_lib op) run (op_defaults op)) []"

definition delete_child_jobs :: "'w reconciler \<Rightarrow> criteria_run \<Rightarrow> ('w, unit) attempt" where
  "delete_child_jobs op run = attempt '''' (delete_jobs op run Foreground) (\<lambda>_. ok ())"

fun delete_pods_loop :: "'w reconciler \<Rightarrow> criteria_run \<Rightarrow> pod list \<Rightarrow> ('w, unit) attempt" where
  "delete_pods_loop op run [] = ok ()"
| "delete_pods_loop op run (p # ps) = do {
     gone \<leftarrow> delete_pod op run p;
     case gone of
       Inl e \<Rightarrow> (if \<not> is_not_found e then fail (Wrapped (''deleting adapter pod '' @ po_name p) e)
                 else delete_pods_loop op run ps)
     | Inr u \<Rightarrow> delete_pods_loop op run ps
   }"

definition delete_run_adapter_pods :: "'w reconciler \<Rightarrow> criteria_run \<Rightarrow> ('w, unit) attempt" where
  "delete_run_adapter_pods op run =
     attempt ''listing adapter pods'' (list_pods op run role_adapter) (delete_pods_loop op run)"

section \<open>The restart guard\<close>

text \<open>The reason a runner pod may still start an attempt; a failed listing is a reason too.\<close>

definition runner_restart_pending :: "'w reconciler \<Rightarrow> criteria_run \<Rightarrow> ('w, string) pass" where
  "runner_restart_pending op run = do {
     pods \<leftarrow> list_pods op run role_runner;
     case pods of
       Inl e \<Rightarrow> ret (''runner pod list failed: '' @ op_errText op e)
     | Inr ps \<Rightarrow> ret (first_nonempty (map pod_restart_pending ps))
   }"

definition reason_terminal_restart_pending :: string where
  "reason_terminal_restart_pending = ''runnerRestartPending''"

definition reap_window_passed :: "duration \<Rightarrow> gotime \<Rightarrow> condition option \<Rightarrow> bool" where
  "reap_window_passed force now cond =
     (case cond of None \<Rightarrow> False | Some c \<Rightarrow> force > 0 \<and> time_sub now (co_lastTransitionTime c) > force)"

definition mark_terminal_cleanup_deferred ::
  "'w reconciler \<Rightarrow> criteria_run \<Rightarrow> string \<Rightarrow> ('w, bool) attempt" where
  "mark_terminal_cleanup_deferred op run reason =
     attempt ''re-reading CriteriaRun for the TerminalCleanup condition'' (get_run op (run_key run)) (\<lambda>fresh.
       do {
         seen \<leftarrow> time_now op;
         now \<leftarrow> time_now op;
         let force = reap_window_passed (op_terminalReapForceAfter op) seen (terminal_cleanup_condition fresh);
         let update = upsert_condition now
               (true_condition condition_terminal_cleanup reason_terminal_restart_pending
                  (''terminal child-job deletion deferred: '' @ reason @ '' (KB-302)'') (ru_generation fresh)) fresh;
         if ru_status fresh \<noteq> ru_status update
         then attempt ''stamping TerminalCleanup condition'' (update_status op update) (\<lambda>_. ok force)
         else ok force
       })"

definition clear_terminal_cleanup :: "'w reconciler \<Rightarrow> criteria_run \<Rightarrow> ('w, unit) attempt" where
  "clear_terminal_cleanup op run =
     attempt ''re-reading CriteriaRun to clear the TerminalCleanup condition'' (get_run op (run_key run)) (\<lambda>fresh.
       if terminal_cleanup_condition fresh = None then ok ()
       else attempt ''clearing TerminalCleanup condition''
              (update_status op (fresh\<lparr>ru_status := (ru_status fresh)\<lparr>
                 st_conditions := drop_condition condition_terminal_cleanup (st_conditions (ru_status fresh))\<rparr>\<rparr>))
              (\<lambda>_. ok ()))"

definition reap_terminal_jobs :: "'w reconciler \<Rightarrow> criteria_run \<Rightarrow> ('w, bool) attempt" where
  "reap_terminal_jobs op run =
     attempt '''' (delete_jobs op run Background) (\<lambda>_.
     attempt '''' (clear_terminal_cleanup op run) (\<lambda>_. ok False))"

definition delete_terminal_child_jobs :: "'w reconciler \<Rightarrow> criteria_run \<Rightarrow> ('w, bool) attempt" where
  "delete_terminal_child_jobs op run = do {
     reason \<leftarrow> runner_restart_pending op run;
     if reason \<noteq> ''''
     then attempt '''' (mark_terminal_cleanup_deferred op run reason) (\<lambda>force.
            if force then reap_terminal_jobs op run else ok True)
     else reap_terminal_jobs op run
   }"

section \<open>Parking a run failed\<close>

text \<open>
  The part the refusals share, in the code's order: the failed status is written first, the queue slot
  is released, the archive record must land, and only then are the children deleted.
\<close>

definition park_failed ::
  "'w reconciler \<Rightarrow> string \<Rightarrow> criteria_run \<Rightarrow> criteria_run \<Rightarrow> observation option \<Rightarrow> ('w, unit) attempt" where
  "park_failed op ctx run update obs =
     attempt ctx (update_status op update) (\<lambda>stored. do {
       queue_release run;
       attempt '''' (ensure_terminal_archived op stored obs) (\<lambda>_.
       attempt '''' (delete_child_jobs op run) (\<lambda>_.
         if sp_perScopeSessions (ru_spec run) then delete_run_adapter_pods op run else ok ()))
     })"

definition failed_with :: "gotime \<Rightarrow> string \<Rightarrow> string \<Rightarrow> int \<Rightarrow> criteria_run \<Rightarrow> criteria_run" where
  "failed_with now type message generation update =
     upsert_condition now (true_condition type type message generation)
       (update\<lparr>ru_status := (ru_status update)\<lparr>st_phase := PhaseFailed\<rparr>\<rparr>)"

type_synonym requeue = "duration option"

definition fail_base_image_mismatch ::
  "'w reconciler \<Rightarrow> criteria_run \<Rightarrow> string \<Rightarrow> string \<Rightarrow> ('w, requeue) attempt" where
  "fail_base_image_mismatch op run pinned current = do {
     now \<leftarrow> time_now op;
     attempt '''' (park_failed op ''marking CriteriaRun failed on base-image mismatch'' run
       (failed_with now condition_base_image_mismatch
          (''runner image pinned as '' @ go_quote pinned @ '' at admission but the operator now resolves '' @
           go_quote current @ ''; the run is parked failed '' @ long_dash @
           '' refire decisions belong to the shepherd (CRI-264, KB-302)'') (ru_generation run) run) None)
       (\<lambda>_. ok None)
   }"

definition fail_config_render_drift ::
  "'w reconciler \<Rightarrow> criteria_run \<Rightarrow> criteria_run \<Rightarrow> string \<Rightarrow> ('w, requeue) attempt" where
  "fail_config_render_drift op run update detail = do {
     now \<leftarrow> time_now op;
     attempt '''' (park_failed op ''marking CriteriaRun failed on config render drift'' run
       (failed_with now condition_config_render_drift
          (detail @ ''; the run is parked failed '' @ long_dash @
           '' refire decisions belong to the shepherd (KB-103, KB-302)'') (ru_generation run) update) None)
       (\<lambda>_. ok None)
   }"

definition fail_adapter_image_conflict ::
  "'w reconciler \<Rightarrow> criteria_run \<Rightarrow> criteria_run \<Rightarrow> string \<Rightarrow> ('w, requeue) attempt" where
  "fail_adapter_image_conflict op run update detail = do {
     now \<leftarrow> time_now op;
     attempt '''' (park_failed op ''marking CriteriaRun failed on adapter image conflict'' run
       (failed_with now condition_adapter_image_conflict
          (detail @ ''; the run is parked failed '' @ long_dash @
           '' refire decisions belong to the shepherd (KB-319, KB-302)'') (ru_generation run) update) None)
       (\<lambda>_. ok None)
   }"

text \<open>The watchdog has stamped the phase and the condition on the update already.\<close>

definition fail_run_stalled ::
  "'w reconciler \<Rightarrow> criteria_run \<Rightarrow> criteria_run \<Rightarrow> observation \<Rightarrow> ('w, requeue) attempt" where
  "fail_run_stalled op run update obs =
     attempt '''' (park_failed op ''marking CriteriaRun failed on step-progress stall'' run update (Some obs))
       (\<lambda>_. ok None)"

definition condition_workflow_source_missing :: string where
  "condition_workflow_source_missing = ''WorkflowSourceMissing''"

definition refuse_missing_workflow_source :: "'w reconciler \<Rightarrow> criteria_run \<Rightarrow> ('w, requeue) attempt" where
  "refuse_missing_workflow_source op run = do {
     now \<leftarrow> time_now op;
     let w = (case sp_workflow (ru_spec run) of Some w \<Rightarrow> w | None \<Rightarrow> zero_workflow);
     let message = ''workflow '' @ go_quote (wf_name w) @ '' is type '' @ go_quote (wf_type w) @
       '' but spec.workflowSource is absent: the url contract says the URL is the workflow source, so there is no source to fetch and the run is refused instead of falling back to the baked workflow image; declare spec.workflowSource (or a type='' @
       go_quote type_image @ '' workflow) and re-fire (KB-6)'';
     attempt '''' (park_failed op ''marking CriteriaRun failed on missing workflowSource'' run
       (failed_with now condition_workflow_source_missing message (ru_generation run) run) None)
       (\<lambda>_. do { warn op run ''WorkflowSourceMissing''; ok None })
   }"

definition refuse_interface_binding_mismatch ::
  "'w reconciler \<Rightarrow> criteria_run \<Rightarrow> string \<Rightarrow> ('w, requeue) attempt" where
  "refuse_interface_binding_mismatch op run message = do {
     now \<leftarrow> time_now op;
     attempt '''' (park_failed op ''marking CriteriaRun failed on interface binding mismatch'' run
       (failed_with now condition_interface_binding_mismatch message (ru_generation run) run) None)
       (\<lambda>_. do { warn op run ''InterfaceBindingMismatch''; ok None })
   }"

end
