(* ===== verification/PeerNames.thy ===== *)
theory PeerNames
  imports PeerPod
begin

text \<open>
  What the per-scope pods guarantee: names that fit the object-name limit and keep the hashes that
  tell scopes and environments apart, mounts backed by volumes, a complete multi-adapter manifest, and
  staging commands made of registry-reference characters only.
\<close>

section \<open>Names\<close>

lemma safe_object_name_shape:
  "safe_object_name s \<noteq> ''''" "length (safe_object_name s) \<le> 63" "hd (safe_object_name s) \<noteq> CHR ''-''"
proof -
  define s3 where "s3 = (let s2 = trim_chars ''-'' (replace_runs dns_char False (map to_lower s))
    in if length s2 > 63 then take 63 s2 else s2)"
  define s4 where "s4 = trim_chars ''-'' s3"
  have n: "safe_object_name s = (if s4 = '''' then ''unknown'' else s4)"
    by (simp add: safe_object_name_def s3_def s4_def Let_def)
  have "length s4 \<le> length s3" unfolding s4_def by (rule trim_chars_length)
  then have "length s4 \<le> 63" by (auto simp: s3_def Let_def split: if_splits)
  with n show "length (safe_object_name s) \<le> 63" by simp
  show "safe_object_name s \<noteq> ''''" by (simp add: n)
  show "hd (safe_object_name s) \<noteq> CHR ''-''"
    using trim_chars_ends(1) [of "''-''" s3] by (auto simp: n s4_def)
qed

lemma trim_right_hyphens_length: "length (trim_right_hyphens s) \<le> length s"
  using length_dropWhile_le [of "\<lambda>c. c = CHR ''-''" "rev s"] by (simp add: trim_right_hyphens_def)

lemma job_prefix_fits:
  assumes "per_scope_job_prefix_max + reserve \<le> per_scope_pod_name_limit"
  shows "length (per_scope_job_prefix run reserve) + reserve \<le> per_scope_pod_name_limit"
proof -
  have "length (trim_right_hyphens (take per_scope_job_prefix_max (safe_object_name (job_name run))))
      \<le> per_scope_job_prefix_max"
    using trim_right_hyphens_length [of "take per_scope_job_prefix_max (safe_object_name (job_name run))"]
    by simp
  moreover have "length (trim_right_hyphens (safe_object_name (job_name run)))
      \<le> length (safe_object_name (job_name run))" by (rule trim_right_hyphens_length)
  ultimately show ?thesis using assms by (simp add: per_scope_job_prefix_def Let_def)
qed

lemma short_hash_length: "length (lb_sha256 lib s) = 64 \<Longrightarrow> length (short_hash lib s) = 12"
  by (simp add: short_hash_def per_scope_pod_hash_length_def)

lemma peer_name_eq:
  assumes "\<And>s. length (lb_sha256 lib s) = 64"
  shows "per_scope_peer_pod_name lib run scopeID environment =
      per_scope_job_prefix run 31 @ ''-peer-'' @ short_hash lib scopeID @ ''-'' @ short_hash lib environment"
    and "length (per_scope_peer_pod_name lib run scopeID environment) \<le> 63"
proof -
  let ?base = "per_scope_job_prefix run 31 @ ''-peer-'' @ short_hash lib scopeID @ ''-'' @ short_hash lib environment"
  have "length (per_scope_job_prefix run 31) + 31 \<le> 63"
    using job_prefix_fits [of 31 run] by (simp add: per_scope_job_prefix_max_def per_scope_pod_name_limit_def)
  then have len: "length ?base \<le> 63" using assms by (simp add: short_hash_length)
  then have "keep_suffix_bytes ?base = ?base"
    by (simp add: keep_suffix_bytes_def per_scope_pod_name_limit_def)
  then show eq: "per_scope_peer_pod_name lib run scopeID environment = ?base"
    by (simp add: per_scope_peer_pod_name_def peer_pod_name_segment_def per_scope_pod_hash_length_def)
  show "length (per_scope_peer_pod_name lib run scopeID environment) \<le> 63" using eq len by simp
qed

definition hex_digest :: "string \<Rightarrow> bool" where
  "hex_digest h \<longleftrightarrow> length h = 64 \<and> CHR ''-'' \<notin> set h"

lemma drop_keeps_suffix: "length t \<le> n \<Longrightarrow> n \<le> length (p @ t) \<Longrightarrow> \<exists>q. drop (length (p @ t) - n) (p @ t) = q @ t"
  by (intro exI [of _ "drop (length (p @ t) - n) p"]) simp

lemma trim_chars_keeps_suffix:
  assumes "t \<noteq> []" and "set t \<inter> set cs = {}"
  shows "\<exists>q. trim_chars cs (p @ t) = q @ t"
proof -
  obtain a as where t: "t = a # as" using assms(1) by (cases t) auto
  obtain b bs where r: "rev t = b # bs" using assms(1) by (cases "rev t") auto
  have a: "a \<notin> set cs" and b: "b \<notin> set cs"
  proof -
    show "a \<notin> set cs" using assms(2) t by auto
    have "b \<in> set (rev t)" using r by simp
    then show "b \<notin> set cs" using assms(2) by auto
  qed
  have "\<exists>q. dropWhile (\<lambda>c. c \<in> set cs) (p @ t) = q @ t"
  proof (cases "\<forall>c \<in> set p. c \<in> set cs")
    case True
    then have "dropWhile (\<lambda>c. c \<in> set cs) (p @ t) = t" using a t by (simp add: dropWhile_append2)
    then show ?thesis by auto
  next
    case False
    then obtain c where "c \<in> set p" "c \<notin> set cs" by auto
    then have "dropWhile (\<lambda>c. c \<in> set cs) (p @ t) = dropWhile (\<lambda>c. c \<in> set cs) p @ t"
      by (rule dropWhile_append1)
    then show ?thesis by auto
  qed
  then obtain q where q: "dropWhile (\<lambda>c. c \<in> set cs) (p @ t) = q @ t" by blast
  then show ?thesis using b r by (simp add: trim_chars_def)
qed

lemma adapter_name_suffix:
  assumes "\<And>s. hex_digest (lb_sha256 lib s)"
  shows "\<exists>p. per_scope_adapter_pod_name lib run kind scopeID = p @ short_hash lib scopeID"
    and "length (per_scope_adapter_pod_name lib run kind scopeID) \<le> 63"
proof -
  let ?h = "short_hash lib scopeID"
  define front where "front = per_scope_job_prefix run
      (per_scope_adapter_name_segment + length (safe_object_name kind) + 1 + per_scope_pod_hash_length)
      @ ''-adp-'' @ safe_object_name kind @ ''-''"
  have name: "per_scope_adapter_pod_name lib run kind scopeID = keep_suffix_bytes (front @ ?h)"
    by (simp add: per_scope_adapter_pod_name_def front_def Let_def)
  have h: "length ?h = 12" "CHR ''-'' \<notin> set ?h" "?h \<noteq> []"
    using assms [of scopeID] short_hash_length [of lib scopeID]
    by (auto simp: hex_digest_def short_hash_def dest: in_set_takeD)
  have "(\<exists>p. keep_suffix_bytes (front @ ?h) = p @ ?h) \<and> length (keep_suffix_bytes (front @ ?h)) \<le> 63"
  proof (cases "length (front @ ?h) \<le> 63")
    case True
    then show ?thesis by (auto simp: keep_suffix_bytes_def per_scope_pod_name_limit_def)
  next
    case False
    then obtain q where q: "drop (length (front @ ?h) - 63) (front @ ?h) = q @ ?h"
      using drop_keeps_suffix [of ?h 63 front] h(1) by auto
    obtain r where r: "trim_chars ''-'' (q @ ?h) = r @ ?h"
      using trim_chars_keeps_suffix [of ?h "''-''" q] h by auto
    have "length (r @ ?h) \<le> length (q @ ?h)" using trim_chars_length [of "''-''" "q @ ?h"] r by simp
    also have "\<dots> \<le> 63" using False by (simp flip: q)
    finally have "length (r @ ?h) \<le> 63" .
    moreover have "keep_suffix_bytes (front @ ?h) = r @ ?h"
      using False q r h(3) by (simp add: keep_suffix_bytes_def per_scope_pod_name_limit_def trim_hyphens_def Let_def)
    ultimately show ?thesis by auto
  qed
  then show "\<exists>p. per_scope_adapter_pod_name lib run kind scopeID = p @ ?h"
    and "length (per_scope_adapter_pod_name lib run kind scopeID) \<le> 63"
    by (simp_all add: name)
qed

section \<open>The manifest\<close>

lemma first_by_keys: "key ` set (first_by key seen xs) = key ` set xs - set seen"
  by (induction key seen xs rule: first_by.induct) auto

lemma first_by_subset: "set (first_by key seen xs) \<subseteq> set xs"
  by (induction key seen xs rule: first_by.induct) auto

lemma first_by_distinct: "distinct (map key (first_by key seen xs))"
proof (induction key seen xs rule: first_by.induct)
  case (2 key seen x xs)
  then show ?case using first_by_keys [of key "key x # seen" xs] by auto
qed simp

lemma sort_members_set [simp]: "set (sort_members ms) = set ms"
  by (simp add: sort_members_def)

lemma find_hit: "find P xs = Some x \<Longrightarrow> x \<in> set xs \<and> P x"
  by (induction xs) (auto split: if_splits)

lemma find_found: "x \<in> set xs \<Longrightarrow> P x \<Longrightarrow> \<exists>y. find P xs = Some y"
  by (induction xs) auto

definition has_identity :: "lifecycle_event \<Rightarrow> bool" where
  "has_identity m \<longleftrightarrow> le_tokenFile m \<noteq> '''' \<or> le_acceptToken m \<noteq> '''' \<or> le_shimAddress m \<noteq> ''''"

lemma dial_member_find:
  "dial_member ms = (case find has_identity ms of Some m \<Rightarrow> m | None \<Rightarrow> hd ms)"
  unfolding dial_member_def has_identity_def ..

lemma dial_member_in: "ms \<noteq> [] \<Longrightarrow> dial_member ms \<in> set ms"
  by (auto simp: dial_member_find dest: find_hit split: option.splits)

lemma dial_member_identity: "m \<in> set ms \<Longrightarrow> has_identity m \<Longrightarrow> has_identity (dial_member ms)"
  using find_found [of m ms has_identity] by (auto simp: dial_member_find dest: find_hit)

section \<open>Staging\<close>

definition reference_char :: "char \<Rightarrow> bool" where
  "reference_char c \<longleftrightarrow> safe_shell_token [c] '':/._-@''"

lemma hex_letter: "in_range CHR ''a'' CHR ''f'' c \<Longrightarrow> in_range CHR ''a'' CHR ''z'' c"
proof -
  assume "in_range CHR ''a'' CHR ''f'' c"
  then have "CHR ''a'' \<le> c" "c \<le> CHR ''f''" by (simp_all add: in_range_def)
  moreover have "CHR ''f'' \<le> CHR ''z''" by simp
  ultimately show ?thesis unfolding in_range_def by (blast intro: order.trans)
qed

lemma digest_pull_ref_chars:
  assumes "digest_pull_ref m = Some ref"
  shows "list_all reference_char ref"
proof -
  let ?digest = "qualified_digest (le_digest m)" and ?repo = "artifact_pull_repo (le_imageReference m)"
  from assms have v: "valid_artifact_digest ?digest" and s: "safe_pull_repo ?repo"
    and ref: "ref = ?repo @ ''@'' @ ?digest"
    by (auto simp: digest_pull_ref_def Let_def split: if_splits)
  have "list_all reference_char ?repo"
    using s by (auto simp: safe_pull_repo_def safe_shell_token_def reference_char_def list_all_iff)
  moreover have "list_all reference_char ?digest"
  proof -
    have "?digest = ''sha256:'' @ drop 7 ?digest"
      using v unfolding valid_artifact_digest_def has_digest_prefix_def by (metis append_take_drop_id)
    moreover have "list_all reference_char (drop 7 ?digest)"
      using v by (auto simp: valid_artifact_digest_def reference_char_def safe_shell_token_def
          list_all_iff dest: hex_letter)
    moreover have "list_all reference_char ''sha256:''"
      by (simp add: reference_char_def safe_shell_token_def in_range_def)
    ultimately show ?thesis by (metis list_all_append)
  qed
  ultimately show ?thesis
    by (simp add: ref reference_char_def safe_shell_token_def)
qed

lemma append_env_distinct_base: "set base \<subseteq> set (append_env_distinct base extra)"
proof (induction extra arbitrary: base)
  case (Cons e extra)
  show ?case using Cons.IH [of "base @ [e]"] Cons.IH [of base] by auto
qed simp

lemma adapter_stage_for:
  assumes "m \<in> set members"
  shows "\<exists>s \<in> set (adapter_stages members). ag_kind s = adapter_kind m"
proof -
  have "adapter_kind ` set (first_by adapter_kind [] members) = adapter_kind ` set members"
    using first_by_keys [of adapter_kind "[]" members] by simp
  then have "adapter_kind m \<in> adapter_kind ` set (first_by adapter_kind [] members)" using assms by auto
  then obtain x where "x \<in> set (first_by adapter_kind [] members)" "adapter_kind m = adapter_kind x" by auto
  then show ?thesis by (intro bexI [of _ "stage_of x"]) (auto simp: adapter_stages_def stage_of_def)
qed

lemma stage_in:
  assumes "s \<in> set (adapter_stages members)"
  shows "\<exists>m \<in> set members. s = stage_of m"
  using assms first_by_subset [of adapter_kind "[]" members] by (auto simp: adapter_stages_def)

definition stages_kind :: "container \<Rightarrow> criteria_run \<Rightarrow> string \<Rightarrow> bool" where
  "stages_kind c run kind \<longleftrightarrow>
     ct_command c = Exec [''/bin/cp'', engine_image_adapter_binary_path @ kind, peer_bin_binary_path kind] \<or>
     (\<exists>digest ref. ct_command c = Shell [''/bin/sh'', ''-ec'']
        (PeerStageScript kind digest ref (runner_stage_criteria_home run)))"

lemma digest_pull_ref_script:
  assumes "digest_pull_ref m = Some ref"
  shows "\<exists>digest. peer_stage_script run \<lparr>ag_kind = kind, ag_pullRef = ref\<rparr> =
     PeerStageScript kind digest ref (runner_stage_criteria_home run) \<and> valid_artifact_digest digest"
proof -
  let ?digest = "qualified_digest (le_digest m)" and ?repo = "artifact_pull_repo (le_imageReference m)"
  from assms have v: "valid_artifact_digest ?digest" and s: "safe_pull_repo ?repo"
    and ref: "ref = ?repo @ ''@'' @ ?digest"
    by (auto simp: digest_pull_ref_def Let_def split: if_splits)
  have "CHR ''@'' \<notin> set ?repo"
    using s by (auto simp: safe_pull_repo_def safe_shell_token_def in_range_def list_all_iff)
  then have "dropWhile (\<lambda>c. c \<noteq> CHR ''@'') ref = ''@'' @ ?digest"
    unfolding ref by (subst dropWhile_append2) auto
  moreover have "CHR ''@'' \<in> set ref" by (simp add: ref)
  ultimately show ?thesis using v by (simp add: peer_stage_script_def)
qed

lemma stage_container_stages:
  assumes "s \<in> set (adapter_stages members)"
  shows "stages_kind (stage_container run plan d inc members s) run (ag_kind s)"
proof -
  obtain m where m: "m \<in> set members" "s = stage_of m" using stage_in [OF assms] by blast
  show ?thesis
  proof (cases "digest_pull_ref m")
    case None
    then show ?thesis
      by (simp add: stages_kind_def stage_container_def m(2) stage_of_def digest_staged_def)
  next
    case (Some ref)
    then have "s = \<lparr>ag_kind = adapter_kind m, ag_pullRef = ref\<rparr>" by (simp add: m(2) stage_of_def)
    then show ?thesis using digest_pull_ref_script [OF Some, of run "adapter_kind m"]
      by (auto simp: stages_kind_def stage_container_def Let_def)
  qed
qed

section \<open>The parts of a peer pod\<close>

lemma apply_host_affinity_spec [simp]:
  "ps_containers (snd (apply_host_affinity p l s)) = ps_containers s"
  "ps_initContainers (snd (apply_host_affinity p l s)) = ps_initContainers s"
  "ps_volumes (snd (apply_host_affinity p l s)) = ps_volumes s"
  "ps_security (snd (apply_host_affinity p l s)) = ps_security s"
  by (simp_all add: apply_host_affinity_def)

lemma peer_pod_of_build:
  assumes "build_per_scope_peer_pod lib run d scopeID env members ip = Some p"
  defines "ms \<equiv> sort_members members" and "plan \<equiv> new_workflow_plan run"
  shows "ps_containers (po_spec p) =
      [per_scope_peer_container run d plan (dial_member ms) ms ip (peer_include_data plan ms ip)]"
    and "ps_initContainers (po_spec p) = peer_bin_copy_containers run plan d (peer_include_data plan ms ip) ms"
    and "ps_volumes (po_spec p) = peer_pod_volumes lib plan (data_pvc d) (peer_include_data plan ms ip) ms"
    and "po_name p = per_scope_peer_pod_name lib run scopeID env"
    and "members \<noteq> []"
  using assms by (auto simp: build_per_scope_peer_pod_def new_pod_def peer_pod_spec_def
      case_prod_beta Let_def split: if_splits)

section \<open>Properties\<close>

text \<open>
  Per-scope pod names fit the object-name limit for every run name, kind, scope and environment,
  and two names of one run are equal only when the hashes they carry are equal: both of the peer's, the
  scope's for a fallback pod.
\<close>

theorem per_scope_names_discriminate:
  assumes "\<And>s. hex_digest (lb_sha256 lib s)"
  shows "length (per_scope_peer_pod_name lib run s e) \<le> 63 \<and>
    length (per_scope_adapter_pod_name lib run k s) \<le> 63 \<and>
    (per_scope_peer_pod_name lib run s e = per_scope_peer_pod_name lib run s' e' \<longrightarrow>
       short_hash lib s = short_hash lib s' \<and> short_hash lib e = short_hash lib e') \<and>
    (per_scope_adapter_pod_name lib run k s = per_scope_adapter_pod_name lib run k' s' \<longrightarrow>
       short_hash lib s = short_hash lib s')"
proof -
  have len: "length (lb_sha256 lib s) = 64" for s using assms [of s] by (simp add: hex_digest_def)
  have "per_scope_peer_pod_name lib run s e = per_scope_peer_pod_name lib run s' e' \<longrightarrow>
      short_hash lib s = short_hash lib s' \<and> short_hash lib e = short_hash lib e'"
    unfolding peer_name_eq(1) [of lib, OF len] by (auto simp: short_hash_length [OF len])
  moreover have "short_hash lib s = short_hash lib s'"
    if eq: "per_scope_adapter_pod_name lib run k s = per_scope_adapter_pod_name lib run k' s'"
  proof -
    obtain p p' where p: "per_scope_adapter_pod_name lib run k s = p @ short_hash lib s"
      "per_scope_adapter_pod_name lib run k' s' = p' @ short_hash lib s'"
      using adapter_name_suffix(1) [of lib, OF assms] by metis
    have "p @ short_hash lib s = p' @ short_hash lib s'" using p eq by simp
    then show ?thesis by (simp add: append_eq_append_conv short_hash_length [OF len])
  qed
  ultimately show ?thesis
    using peer_name_eq(2) [of lib, OF len] adapter_name_suffix(2) [of lib, OF assms] by blast
qed

definition two_hash_library :: library where
  "two_hash_library = sample_library\<lparr>lb_sha256 := (\<lambda>s. replicate 64 (if s = '''' then CHR ''0'' else CHR ''f''))\<rparr>"

theorem per_scope_names_discriminate_witness:
  "per_scope_peer_pod_name two_hash_library (zero_run\<lparr>ru_name := replicate 60 CHR ''x''\<rparr>) '''' ''shell/a'' \<noteq>
     per_scope_peer_pod_name two_hash_library (zero_run\<lparr>ru_name := replicate 60 CHR ''x''\<rparr>) '''' ''''"
proof -
  have "short_hash two_hash_library ''shell/a'' \<noteq> short_hash two_hash_library ''''"
    by (simp add: short_hash_def two_hash_library_def per_scope_pod_hash_length_def numeral_eq_Suc)
  moreover have "hex_digest (lb_sha256 two_hash_library s)" for s
    by (simp add: hex_digest_def two_hash_library_def)
  ultimately show ?thesis
    using per_scope_names_discriminate [of two_hash_library "zero_run\<lparr>ru_name := replicate 60 CHR ''x''\<rparr>"]
    by blast
qed


definition staging_safe :: "container \<Rightarrow> bool" where
  "staging_safe c \<longleftrightarrow> (case ct_command c of
     Shell sh (PeerStageScript kind digest ref home) \<Rightarrow>
       safe_staged_kind kind \<and> valid_artifact_digest digest \<and> list_all reference_char ref
   | Shell sh other \<Rightarrow> False
   | _ \<Rightarrow> True)"

lemma stage_container_safe:
  assumes "s \<in> set (adapter_stages members)"
  shows "staging_safe (stage_container run plan d inc members s)"
proof -
  obtain m where m: "s = stage_of m" using stage_in [OF assms] by blast
  show ?thesis
  proof (cases "digest_pull_ref m")
    case None
    then show ?thesis
      by (simp add: staging_safe_def stage_container_def m stage_of_def digest_staged_def)
  next
    case (Some ref)
    then have "s = \<lparr>ag_kind = adapter_kind m, ag_pullRef = ref\<rparr>" by (simp add: m stage_of_def)
    then show ?thesis using digest_pull_ref_script [OF Some, of run "adapter_kind m"]
        digest_pull_ref_chars [OF Some]
      by (auto simp: staging_safe_def stage_container_def Let_def)
  qed
qed

text \<open>
  A peer pod is safe to start: every container runs restricted and mounts only volumes of the pod,
  a staging shell script is given only a plain kind, a valid digest and a reference of
  registry-reference characters, and the pod dials with a member that has an identity to dial with
  whenever some member has one.
\<close>

theorem peer_pod_safe:
  assumes "build_per_scope_peer_pod lib run d scopeID env members ip = Some p"
  shows "(\<forall>c \<in> set (ps_initContainers (po_spec p) @ ps_containers (po_spec p)).
      ct_security c = restricted_container_security_context \<and> mounts_backed c (po_spec p)) \<and>
    (\<forall>c \<in> set (ps_initContainers (po_spec p)). staging_safe c) \<and>
    ((\<exists>m \<in> set members. has_identity m) \<longrightarrow>
       dial_member (sort_members members) \<in> set members \<and> has_identity (dial_member (sort_members members)))"
proof (intro conjI)
  let ?ms = "sort_members members" and ?plan = "new_workflow_plan run"
  let ?inc = "peer_include_data ?plan ?ms ip"
  note parts = peer_pod_of_build [OF assms]
  have vols: "vm_name ` set (peer_adapter_mounts ?plan ?inc) \<subseteq> vl_name ` set (pod_volumes lib ?plan (data_pvc d) ?inc)"
    by (rule adapter_mounts_backed)
  have data: "?inc \<Longrightarrow> data_volume_name \<in> vl_name ` set (pod_volumes lib ?plan (data_pvc d) ?inc)"
    by (cases ?plan) (simp_all add: pod_volumes_names pod_volumes_names_None)
  show "\<forall>c \<in> set (ps_initContainers (po_spec p) @ ps_containers (po_spec p)).
      ct_security c = restricted_container_security_context \<and> mounts_backed c (po_spec p)"
  proof (unfold set_append, intro ballI)
    fix c assume "c \<in> set (ps_initContainers (po_spec p)) \<union> set (ps_containers (po_spec p))"
    then consider (stage) s where "stages_adapter_binaries (adapter_stages ?ms)" "c = stage_container run ?plan d ?inc ?ms s"
      | (peer) "c = per_scope_peer_container run d ?plan (dial_member ?ms) ?ms ip ?inc"
      by (auto simp: parts peer_bin_copy_containers_def Let_def split: if_splits)
    then show "ct_security c = restricted_container_security_context \<and> mounts_backed c (po_spec p)"
    proof cases
      case stage
      then show ?thesis using data
        by (auto simp: stage_container_def mounts_backed_def parts peer_pod_volumes_def plain_mount_def
            data_mount_def image_Un Let_def)
    next
      case peer
      then show ?thesis using vols
        by (auto simp: per_scope_peer_container_def mounts_backed_def parts peer_pod_volumes_def
            peer_container_mounts_def plain_mount_def image_Un)
    qed
  qed
  show "\<forall>c \<in> set (ps_initContainers (po_spec p)). staging_safe c"
    using stage_container_safe [of _ ?ms run ?plan d ?inc]
    by (auto simp: parts peer_bin_copy_containers_def Let_def)
  show "(\<exists>m \<in> set members. has_identity m) \<longrightarrow>
      dial_member ?ms \<in> set members \<and> has_identity (dial_member ?ms)"
    using dial_member_in [of ?ms] dial_member_identity [of _ ?ms] parts(5)
    by (metis sort_members_set set_empty)
qed

definition sample_member :: "string \<Rightarrow> string \<Rightarrow> lifecycle_event" where
  "sample_member kind name = zero_event\<lparr>le_event := event_provision_wanted, le_adapterType := kind,
     le_adapterName := name, le_scopeID := name, le_shimAddress := ''[::]:7778''\<rparr>"

theorem peer_pod_safe_witness:
  "\<exists>p. build_per_scope_peer_pod sample_library zero_run sample_defaults '''' ''remote/a''
         [sample_member ''shell'' ''repo''] ''10.0.0.7'' = Some p \<and>
       (\<forall>c \<in> set (ps_initContainers (po_spec p)). staging_safe c)"
proof -
  obtain p where "build_per_scope_peer_pod sample_library zero_run sample_defaults '''' ''remote/a''
         [sample_member ''shell'' ''repo''] ''10.0.0.7'' = Some p"
    by (auto simp: build_per_scope_peer_pod_def case_prod_beta Let_def)
  with peer_pod_safe [OF this] show ?thesis by blast
qed


end
