(* ===== verification/PerScope.thy ===== *)
theory PerScope
  imports Teardown PeerNames
begin

text \<open>
  The per-scope reconcile (\<open>internal/controller/per_scope.go\<close>): from the lifecycle events of a run to
  the set of adapter pods that should exist, and the deletions and creations that get there.

  The Go maps of groups and desired pods are association lists; their order stands for the iteration
  order. \<open>SetControllerReference\<close> has no counterpart: the builders already stamp the same reference.
\<close>

section \<open>The runner's address\<close>

definition runner_ip_order :: "pod list \<Rightarrow> pod list" where
  "runner_ip_order pods =
     (let with_ip = filter (\<lambda>p. po_podIP p \<noteq> '''') pods
      in sort_key po_name (filter (\<lambda>p. po_phase p = ''Running'') with_ip) @
         sort_key po_name (filter (\<lambda>p. po_phase p \<noteq> ''Running'') with_ip))"

definition resolve_runner_ip :: "'w reconciler \<Rightarrow> criteria_run \<Rightarrow> ('w, string) attempt" where
  "resolve_runner_ip op run =
     attempt ''listing runner pods'' (list_pods op run role_runner) (\<lambda>pods.
       ok (first_nonempty (map po_podIP (runner_ip_order pods))))"

definition needs_runner_ip :: "lifecycle_event list \<Rightarrow> bool" where
  "needs_runner_ip active = list_ex (\<lambda>s. le_acceptToken s \<noteq> '''' \<or> le_environment s \<noteq> '''') active"

section \<open>Groups\<close>

type_synonym groups = "(string \<times> lifecycle_event list) list"

definition join_group :: "string \<Rightarrow> lifecycle_event \<Rightarrow> groups \<Rightarrow> groups" where
  "join_group env m g = assoc_put env (members_of g env @ [m]) g"

definition env_groups :: "lifecycle_event list \<Rightarrow> groups" where
  "env_groups active =
     foldl (\<lambda>g s. if le_environment s = '''' then g else join_group (le_environment s) s g) [] active"

definition member_key :: "lifecycle_event \<Rightarrow> string" where
  "member_key m = local_adapter_kind m @ ''.'' @ le_adapterName m"

text \<open>The graph fills in where to pull a digest-carrying member from, and adds the missing definitions.\<close>

definition fill_reference :: "graph_adapter_def list \<Rightarrow> lifecycle_event \<Rightarrow> lifecycle_event" where
  "fill_reference defs m =
     (if le_digest m = '''' \<or> le_imageReference m \<noteq> '''' then m
      else case find (\<lambda>d. gd_source d \<noteq> '''' \<and> gd_type d = local_adapter_kind m \<and> gd_name d = le_adapterName m) defs of
             None \<Rightarrow> m
           | Some d \<Rightarrow> m\<lparr>le_imageReference := gd_source d\<rparr>)"

fun add_synthetic :: "string list \<Rightarrow> graph_adapter_def list \<Rightarrow> lifecycle_event list" where
  "add_synthetic existing [] = []"
| "add_synthetic existing (d # ds) =
     (if def_key d \<in> set existing then add_synthetic existing ds
      else synthetic_manifest_member d # add_synthetic (def_key d # existing) ds)"

definition complete_group :: "graph_map \<Rightarrow> string \<Rightarrow> lifecycle_event list \<Rightarrow> lifecycle_event list" where
  "complete_group graphs env members =
     (let defs = defs_at graphs env
      in map (fill_reference defs) members @ add_synthetic (map member_key members) defs)"

definition complete_groups :: "graph_map \<Rightarrow> groups \<Rightarrow> groups" where
  "complete_groups graphs g =
     (if graphs = [] then g else map (\<lambda>(env, ms). (env, complete_group graphs env ms)) g)"

section \<open>The desired pods\<close>

type_synonym desired_pods = "(string \<times> pod) list"

definition want_pod :: "pod \<Rightarrow> lifecycle_event list \<Rightarrow> desired_pods \<times> groups \<Rightarrow> desired_pods \<times> groups" where
  "want_pod p ms acc =
     (let (desired, memberPods) = acc
      in (assoc_put (po_name p) p desired, assoc_put (po_name p) (members_of memberPods (po_name p) @ ms) memberPods))"

definition want_fallback ::
  "'w reconciler \<Rightarrow> criteria_run \<Rightarrow> string \<Rightarrow> desired_pods \<times> groups \<Rightarrow> lifecycle_event \<Rightarrow> desired_pods \<times> groups" where
  "want_fallback op run ip acc scope =
     (if le_environment scope \<noteq> '''' then acc
      else want_pod (build_per_scope_adapter_pod (op_lib op) run (op_defaults op) scope ip) [scope] acc)"

definition want_group ::
  "'w reconciler \<Rightarrow> criteria_run \<Rightarrow> string \<Rightarrow> desired_pods \<times> groups \<Rightarrow> string \<times> lifecycle_event list \<Rightarrow>
   desired_pods \<times> groups" where
  "want_group op run ip acc entry =
     (let (env, members) = entry
      in case build_per_scope_peer_pod (op_lib op) run (op_defaults op) '''' env members ip of
           None \<Rightarrow> acc
         | Some p \<Rightarrow> want_pod p members acc)"

definition run_graphs :: "'w reconciler \<Rightarrow> string \<Rightarrow> graph_map" where
  "run_graphs op raw =
     (case env_graph_defs (op_decodeGraphs op) (op_decodeLayer op) raw of Inl e \<Rightarrow> [] | Inr g \<Rightarrow> g)"

definition desired_adapter_pods ::
  "'w reconciler \<Rightarrow> criteria_run \<Rightarrow> graph_map \<Rightarrow> lifecycle_event list \<Rightarrow> string \<Rightarrow> desired_pods \<times> groups" where
  "desired_adapter_pods op run graphs active ip =
     foldl (want_group op run ip) (foldl (want_fallback op run ip) ([], []) active)
       (complete_groups graphs (env_groups active))"

section \<open>The reconcile\<close>

fun delete_undesired ::
  "'w reconciler \<Rightarrow> criteria_run \<Rightarrow> desired_pods \<Rightarrow> pod list \<Rightarrow> string list \<Rightarrow> ('w, string list) attempt" where
  "delete_undesired op run desired [] deleted = ok deleted"
| "delete_undesired op run desired (p # ps) deleted =
     (if has_key desired (po_name p) then delete_undesired op run desired ps deleted
      else do {
        gone \<leftarrow> delete_pod op run p;
        case gone of
          Inl e \<Rightarrow> (if \<not> is_not_found e then fail (Wrapped (''deleting adapter pod '' @ po_name p) e)
                    else delete_undesired op run desired ps (po_name p # deleted))
        | Inr u \<Rightarrow> delete_undesired op run desired ps (po_name p # deleted)
      })"

fun create_missing :: "'w reconciler \<Rightarrow> criteria_run \<Rightarrow> string list \<Rightarrow> desired_pods \<Rightarrow> ('w, unit) attempt" where
  "create_missing op run existing [] = ok ()"
| "create_missing op run existing ((name, p) # rest) =
     (if name \<in> set existing then create_missing op run existing rest
      else do {
        made \<leftarrow> create_pod op run p;
        case made of
          Inl e \<Rightarrow> (if err_is e ApiAlreadyExists then create_missing op run existing rest
                    else fail (Wrapped (''creating adapter pod '' @ name) e))
        | Inr u \<Rightarrow> create_missing op run existing rest
      })"

definition report_pod_states ::
  "'w reconciler \<Rightarrow> criteria_run \<Rightarrow> string \<Rightarrow> pod list \<Rightarrow> groups \<Rightarrow> ('w, unit) pass" where
  "report_pod_states op run castleRunID existing memberPods = do {
     off \<leftarrow> feed_off;
     if \<not> off \<and> castleRunID \<noteq> ''''
     then do {
       now \<leftarrow> time_now op;
       feed_emit_pass op run castleRunID (pod_state_reports existing memberPods now)
     }
     else ret ()
   }"

definition converge_pods ::
  "'w reconciler \<Rightarrow> criteria_run \<Rightarrow> string \<Rightarrow> nat \<Rightarrow> desired_pods \<times> groups \<Rightarrow> ('w, nat) attempt" where
  "converge_pods op run castleRunID active want =
     (let (desired, memberPods) = want
      in attempt ''listing adapter pods'' (list_pods op run role_adapter) (\<lambda>existing. do {
           report_pod_states op run castleRunID existing memberPods;
           attempt '''' (delete_undesired op run desired existing []) (\<lambda>deleted.
           attempt '''' (create_missing op run (filter (\<lambda>n. n \<notin> set deleted) (map po_name existing)) desired) (\<lambda>_.
             ok active))
         }))"

definition reconcile_per_scope_adapters ::
  "'w reconciler \<Rightarrow> criteria_run \<Rightarrow> string \<Rightarrow> lifecycle_event list \<Rightarrow> string \<Rightarrow> ('w, nat) attempt" where
  "reconcile_per_scope_adapters op run castleRunID lifecycle graphsRaw =
     (if \<not> sp_perScopeSessions (ru_spec run) then ok 0
      else
        let active = active_provisions lifecycle; graphs = run_graphs op graphsRaw;
            converge = (\<lambda>ip. converge_pods op run castleRunID (length active)
                          (desired_adapter_pods op run graphs active ip))
        in if needs_runner_ip active
           then attempt ''resolving runner pod for peer/adapter token delivery'' (resolve_runner_ip op run)
                  (\<lambda>ip. if ip = '''' then ok (length active) else converge ip)
           else converge '''')"

definition peer_manifest_kinds :: "pod \<Rightarrow> string" where
  "peer_manifest_kinds p =
     (case find (\<lambda>ev. ev_name ev = ''CRITERIA_REMOTE_ADAPTERS'') (concat (map ct_env (ps_containers (po_spec p)))) of
        Some ev \<Rightarrow> (case ev_value ev of EnvText v \<Rightarrow> v | _ \<Rightarrow> '''')
      | None \<Rightarrow> '''')"

definition adapter_pod_log_label :: "pod \<Rightarrow> string" where
  "adapter_pod_log_label p =
     (let kind = smap_get (po_labels p) label_adapter_kind
      in if kind \<noteq> '''' then kind else smap_get (po_annotations p) annotation_adapter_kinds)"

section \<open>Lemmas\<close>

text \<open>What the two loops may append.\<close>

lemma delete_undesired_appends:
  "(\<forall>p \<in> set ps. \<not> has_key desired (po_name p) \<longrightarrow> A (CutPod (run_key run) (pod_key p))) \<Longrightarrow>
     appends A (delete_undesired op run desired ps deleted)"
  by (induction ps arbitrary: deleted) (auto intro!: effects)

lemma create_missing_appends:
  "(\<forall>(n, p) \<in> set want. n \<notin> set existing \<longrightarrow> A (MadePod (run_key run) p)) \<Longrightarrow>
     appends A (create_missing op run existing want)"
  by (induction op run existing want rule: create_missing.induct) (auto intro!: effects)

lemma report_pod_states_appends [effects]:
  "A (FedPodState (run_key run)) \<Longrightarrow> appends A (report_pod_states op run rid existing mp)"
  unfolding report_pod_states_def by (auto intro!: effects)

lemma resolve_runner_ip_appends [effects]: "appends A (resolve_runner_ip op run)"
  unfolding resolve_runner_ip_def by (intro effects)

end
