(* ===== verification/Cluster.thy ===== *)
theory Cluster
  imports Kube
begin

text \<open>
  An in-memory cluster for the witnesses: one run, a set of Jobs by name and a list of pods. Reads
  and writes do what a faithful server does; the archive service stores under a fixed id.
\<close>

record cluster =
  cl_run :: criteria_run
  cl_jobs :: "job list"
  cl_pods :: "pod list"
  cl_obs :: observation
  cl_configs :: "(nsname \<times> config_map) list"

definition selected :: "string \<Rightarrow> string \<Rightarrow> string \<Rightarrow> pod \<Rightarrow> bool" where
  "selected ns n role p \<longleftrightarrow> po_namespace p = ns \<and> smap_get (po_labels p) label_run = n \<and>
     smap_get (po_labels p) label_role = role"

definition cluster_api :: "cluster kube_api" where
  "cluster_api = \<lparr>
     k_get_run = (\<lambda>k w. (if run_key (cl_run w) = k then Inr (cl_run w) else Inl ApiNotFound, w)),
     k_update_run = (\<lambda>r w. (Inr r, w\<lparr>cl_run := r\<rparr>)),
     k_update_status = (\<lambda>r w. (if run_key (cl_run w) = run_key r then Inr r else Inl ApiNotFound,
        if run_key (cl_run w) = run_key r then w\<lparr>cl_run := (cl_run w)\<lparr>ru_status := ru_status r\<rparr>\<rparr> else w)),
     k_list_runs = (\<lambda>ns w. (Inr [cl_run w], w)),
     k_get_job = (\<lambda>k w. (case find (\<lambda>j. job_key j = k) (cl_jobs w) of Some j \<Rightarrow> Inr j | None \<Rightarrow> Inl ApiNotFound, w)),
     k_create_job = (\<lambda>r j w. (Inr j, w\<lparr>cl_jobs := j # cl_jobs w\<rparr>)),
     k_delete_job = (\<lambda>j p w. (Inr (), w\<lparr>cl_jobs := filter (\<lambda>x. job_key x \<noteq> job_key j) (cl_jobs w)\<rparr>)),
     k_list_pods = (\<lambda>ns n role w. (Inr (filter (selected ns n role) (cl_pods w)), w)),
     k_create_pod = (\<lambda>r p w. (Inr p, w\<lparr>cl_pods := cl_pods w @ [p]\<rparr>)),
     k_delete_pod = (\<lambda>p w. (Inr (), w\<lparr>cl_pods := filter (\<lambda>x. pod_key x \<noteq> pod_key p) (cl_pods w)\<rparr>)),
     k_get_configmap = (\<lambda>k w. (case map_of (cl_configs w) k of Some cm \<Rightarrow> Inr cm | None \<Rightarrow> Inl ApiNotFound, w)),
     k_now = (\<lambda>w. (0, w)),
     k_observe = (\<lambda>j r w. (Inr (cl_obs w), w)),
     k_archive = (\<lambda>rec w. (Inr ''archive-1'', w)),
     k_operator_env = (\<lambda>ks w. (Inr [], w)),
     k_enroll = (\<lambda>n w. (Inr ''token'', w)),
     k_wait = (\<lambda>d w. (None, w)),
     k_submit = (\<lambda>e w. (Inr (), w))\<rparr>"

definition cluster_op :: "cluster reconciler" where
  "cluster_op = \<lparr>op_api = cluster_api, op_castle = True, op_envProbe = False, op_defaults = sample_defaults,
     op_stallWindow = 0, op_terminalReapForceAfter = 0, op_runArchiver = True, op_operatorVersion = ''1'',
     op_runEvents = False, op_recorder = True, op_errText = (\<lambda>_. ''failed''), op_fmt = (\<lambda>_. ''T''),
     op_showDuration = (\<lambda>_. ''D''), op_utf8 = (\<lambda>_. True), op_schemaVersion = 1,
     op_jsonInterface = (\<lambda>_. Inr ''i''), op_jsonWorkflow = (\<lambda>_. Inr ''w''),
     op_decodeBinding = (\<lambda>_. Inl (ErrMsg ''none'')), op_jsonBinding = (\<lambda>_. Inr ''b''),
     op_decodeGraphs = (\<lambda>_. Inr []), op_decodeLayer = (\<lambda>_. Inr []), op_lib = sample_library\<rparr>"

definition cluster_state :: "criteria_run \<Rightarrow> job list \<Rightarrow> pod list \<Rightarrow> observation \<Rightarrow> cluster op_state" where
  "cluster_state run jobs pods obs = \<lparr>os_world = \<lparr>cl_run = run, cl_jobs = jobs, cl_pods = pods, cl_obs = obs, cl_configs = []\<rparr>,
     os_queue = new_run_queue, os_feed = None, os_log = []\<rparr>"

end
