(* ===== verification/ConfigRender.thy ===== *)
theory ConfigRender
  imports Cluster
begin

text \<open>
  The configuration of a run at admission: the render from a pinned ConfigMap or from the spec fields
  (\<open>internal/controller/configrender.go\<close>) and from a project binding
  (\<open>internal/controller/projectbinding.go\<close>). A render is recorded once and afterwards only verified.

  The code updates the run's in-memory spec and the pending status in place; here both are returned,
  with the drift detail (empty when the render is admitted).
\<close>

type_synonym 'w render_result = "('w, string \<times> criteria_run \<times> criteria_run) attempt"

definition empty_render :: run_config_render where
  "empty_render = \<lparr>rr_configMap = '''', rr_resourceVersion = '''', rr_buildCmd = '''', rr_testCmd = '''',
     rr_ciGateCmd = '''', rr_baseBranch = ''''\<rparr>"

definition spec_fields_render :: "criteria_run_spec \<Rightarrow> run_config_render" where
  "spec_fields_render spec = empty_render\<lparr>rr_buildCmd := sp_buildCmd spec, rr_testCmd := sp_testCmd spec,
     rr_ciGateCmd := sp_ciGateCmd spec, rr_baseBranch := sp_baseBranch spec\<rparr>"

definition has_spec_render :: "criteria_run_spec \<Rightarrow> bool" where
  "has_spec_render spec \<longleftrightarrow> sp_buildCmd spec \<noteq> '''' \<or> sp_testCmd spec \<noteq> '''' \<or> sp_ciGateCmd spec \<noteq> ''''"

definition apply_render_to_spec :: "criteria_run \<Rightarrow> run_config_render \<Rightarrow> criteria_run" where
  "apply_render_to_spec run r = run\<lparr>ru_spec := (ru_spec run)\<lparr>sp_buildCmd := rr_buildCmd r,
     sp_testCmd := rr_testCmd r, sp_ciGateCmd := rr_ciGateCmd r, sp_baseBranch := rr_baseBranch r\<rparr>\<rparr>"

definition record_render :: "criteria_run \<Rightarrow> run_config_render \<Rightarrow> criteria_run" where
  "record_render update r = update\<lparr>ru_status := (ru_status update)\<lparr>st_configRender := Some r\<rparr>\<rparr>"

definition drift_message :: "string \<Rightarrow> string \<Rightarrow> string \<Rightarrow> string" where
  "drift_message name recorded current = ''the config ConfigMap '' @ go_quote name @
     '' was pinned at resourceVersion '' @ go_quote recorded @ '' but now reads '' @ go_quote current"

definition gone_message :: "string \<Rightarrow> string \<Rightarrow> string \<Rightarrow> string" where
  "gone_message what name version = ''the '' @ what @ '' ConfigMap '' @ go_quote name @ '' (resourceVersion '' @
     go_quote version @ '') no longer exists''"

definition truncate_for_status :: "string \<Rightarrow> string" where
  "truncate_for_status value =
     (if length (runes value) \<le> 64 then value else concat (take 63 (runes value)) @ ellipsis)"

definition binding_source :: "smap \<Rightarrow> string \<Rightarrow> string" where
  "binding_source cmData key =
     (if smap_get cmData key \<noteq> '''' then '' in the project'' @ [CHR 0x27] @ ''s config ConfigMap''
      else '' in the project'' @ [CHR 0x27] @ ''s config binding'')"

section \<open>Slots the tree declares\<close>

definition declared_slots :: "run_workflow_interface \<Rightarrow> string list" where
  "declared_slots iface = map sl_slot (if_configSlots iface)"

fun slot_value_detail :: "run_workflow_interface \<Rightarrow> smap \<Rightarrow> (string \<times> string) list \<Rightarrow> string" where
  "slot_value_detail iface cmData [] = ''''"
| "slot_value_detail iface cmData ((name, value) # slots) =
     (if value \<noteq> '''' \<and> name \<notin> set (declared_slots iface)
      then ''config slot '' @ go_quote name @ '' carries a value ('' @ go_quote (truncate_for_status value) @
           '') but the workflow interface of tree '' @ go_quote (if_workflow iface) @
           '' declares no such config slot'' @ binding_source cmData name @
           '' (unknown-slot, fail closed: the tree decides what may be overridden, KB-310)''
      else slot_value_detail iface cmData slots)"

fun slot_key_detail :: "run_workflow_interface \<Rightarrow> string list \<Rightarrow> string" where
  "slot_key_detail iface [] = ''''"
| "slot_key_detail iface (key # keys) =
     (if has_key config_slot_variables key then slot_key_detail iface keys
      else if key \<notin> set (declared_slots iface)
      then ''config key '' @ go_quote key @ '' present in the project'' @ [CHR 0x27] @
           ''s config ConfigMap is not declared by the workflow interface of tree '' @ go_quote (if_workflow iface) @
           '' (unknown-slot, fail closed; no silent ignore, KB-310)''
      else slot_key_detail iface keys)"

definition render_slots :: "run_config_render \<Rightarrow> (string \<times> string) list" where
  "render_slots r = [(''buildCmd'', rr_buildCmd r), (''testCmd'', rr_testCmd r),
     (''ciGateCmd'', rr_ciGateCmd r), (''baseBranch'', rr_baseBranch r)]"

definition config_slot_detail :: "criteria_run \<Rightarrow> run_config_render \<Rightarrow> smap \<Rightarrow> string" where
  "config_slot_detail run r cmData =
     (case sp_workflow (ru_spec run) of
        None \<Rightarrow> ''''
      | Some w \<Rightarrow>
          (case wf_interface w of
             None \<Rightarrow> ''''
           | Some iface \<Rightarrow>
               (let d = slot_value_detail iface cmData (render_slots r)
                in if d \<noteq> '''' then d else slot_key_detail iface (map fst cmData))))"

section \<open>The render\<close>

definition render_spec_fields :: "criteria_run \<Rightarrow> criteria_run \<Rightarrow> 'w render_result" where
  "render_spec_fields run update =
     (let detail = config_slot_detail run (spec_fields_render (ru_spec run)) []
      in if detail \<noteq> '''' then ok (detail, run, update)
         else ok ('''', run, record_render update (spec_fields_render (ru_spec run))))"

text \<open>The pass that only verifies a recorded render.\<close>

definition verify_render ::
  "'w reconciler \<Rightarrow> string \<Rightarrow> string \<Rightarrow> criteria_run \<Rightarrow> criteria_run \<Rightarrow> run_config_render \<Rightarrow> 'w render_result" where
  "verify_render op what ctx run update r =
     (if rr_configMap r = '''' then ok ('''', run, update)
      else do {
        found \<leftarrow> get_configmap op (target_namespace run, rr_configMap r);
        case found of
          Inr cm \<Rightarrow>
            (if cm_resourceVersion cm = rr_resourceVersion r
             then ok ('''', apply_render_to_spec run r, update)
             else ok (drift_message (rr_configMap r) (rr_resourceVersion r) (cm_resourceVersion cm), run, update))
        | Inl e \<Rightarrow>
            (if \<not> is_not_found e then fail (Wrapped ctx e)
             else ok (gone_message what (rr_configMap r) (rr_resourceVersion r), run, update))
      })"

definition rendered_from :: "criteria_run_config_ref \<Rightarrow> config_map \<Rightarrow> criteria_run_spec \<Rightarrow> run_config_render" where
  "rendered_from ref cm spec = \<lparr>rr_configMap = cr_name ref, rr_resourceVersion = cm_resourceVersion cm,
     rr_buildCmd = first_nonempty [smap_get (cm_data cm) ''buildCmd'', sp_buildCmd spec],
     rr_testCmd = first_nonempty [smap_get (cm_data cm) ''testCmd'', sp_testCmd spec],
     rr_ciGateCmd = first_nonempty [smap_get (cm_data cm) ''ciGateCmd'', sp_ciGateCmd spec],
     rr_baseBranch = first_nonempty [smap_get (cm_data cm) ''baseBranch'', sp_baseBranch spec]\<rparr>"

definition render_run_config :: "'w reconciler \<Rightarrow> criteria_run \<Rightarrow> criteria_run \<Rightarrow> 'w render_result" where
  "render_run_config op run update =
     (case sp_configRef (ru_spec run) of
        None \<Rightarrow>
          (if st_configRender (ru_status run) = None \<and> has_spec_render (ru_spec run)
           then render_spec_fields run update else ok ('''', run, update))
      | Some ref \<Rightarrow>
          (case st_configRender (ru_status run) of
             Some r \<Rightarrow> verify_render op ''rendered config'' ''verifying criteriaRun config render'' run update r
           | None \<Rightarrow> do {
               found \<leftarrow> get_configmap op (target_namespace run, cr_name ref);
               case found of
                 Inl e \<Rightarrow>
                   (if \<not> is_not_found e then fail (Wrapped ''reading pinned config ConfigMap'' e)
                    else if cr_resourceVersion ref \<noteq> ''''
                    then ok (gone_message ''pinned config'' (cr_name ref) (cr_resourceVersion ref), run, update)
                    else render_spec_fields run update)
               | Inr cm \<Rightarrow>
                   (if cr_resourceVersion ref \<noteq> '''' \<and> cr_resourceVersion ref \<noteq> cm_resourceVersion cm
                    then ok (drift_message (cr_name ref) (cr_resourceVersion ref) (cm_resourceVersion cm), run, update)
                    else
                      let r = rendered_from ref cm (ru_spec run); detail = config_slot_detail run r (cm_data cm)
                      in if detail \<noteq> '''' then ok (detail, run, update)
                         else ok ('''', apply_render_to_spec run r, record_render update r))
             }))"

section \<open>Project bindings\<close>

definition read_project_binding ::
  "'w reconciler \<Rightarrow> criteria_run \<Rightarrow> criteria_run_project_binding_ref \<Rightarrow>
   ('w, string + (binding_payload \<times> string)) attempt" where
  "read_project_binding op run ref = do {
     found \<leftarrow> get_configmap op (ru_namespace run, pb_name ref);
     case found of
       Inl e \<Rightarrow>
         (if is_not_found e then ok (Inl (gone_message ''project binding'' (pb_name ref) (pb_resourceVersion ref)))
          else fail (Wrapped ''reading project binding ConfigMap'' e))
     | Inr cm \<Rightarrow>
         (if pb_resourceVersion ref \<noteq> '''' \<and> pb_resourceVersion ref \<noteq> cm_resourceVersion cm
          then ok (Inl (''the project binding ConfigMap '' @ go_quote (pb_name ref) @
                 '' was pinned at resourceVersion '' @ go_quote (pb_resourceVersion ref) @ '' but now reads '' @
                 go_quote (cm_resourceVersion cm)))
          else case parse_binding (op_decodeBinding op) (smap_get (cm_data cm) binding_key) of
                 Inl e \<Rightarrow> ok (Inl (op_errText op e))
               | Inr p \<Rightarrow>
                   ok (Inr (p, ''sha256:'' @ binding_checksum (op_jsonBinding op) (lb_sha256 (op_lib op)) p)))
   }"

definition binding_render :: "string \<Rightarrow> config_map \<Rightarrow> binding_payload \<Rightarrow> run_config_render" where
  "binding_render name cm p = \<lparr>rr_configMap = name, rr_resourceVersion = cm_resourceVersion cm,
     rr_buildCmd = smap_get (bp_config p) ''buildCmd'', rr_testCmd = smap_get (bp_config p) ''testCmd'',
     rr_ciGateCmd = smap_get (bp_config p) ''ciGateCmd'', rr_baseBranch = smap_get (bp_config p) ''baseBranch''\<rparr>"

definition render_project_binding_config ::
  "'w reconciler \<Rightarrow> criteria_run_project_binding_ref \<Rightarrow> criteria_run \<Rightarrow> criteria_run \<Rightarrow> 'w render_result" where
  "render_project_binding_config op ref run update =
     (case st_configRender (ru_status run) of
        Some r \<Rightarrow> verify_render op ''rendered project binding'' ''verifying criteriaRun project binding render''
                    run update r
      | None \<Rightarrow> do {
          found \<leftarrow> get_configmap op (target_namespace run, pb_name ref);
          case found of
            Inl e \<Rightarrow>
              (if is_not_found e
               then ok (gone_message ''project binding'' (pb_name ref) (pb_resourceVersion ref), run, update)
               else fail (Wrapped ''reading project binding ConfigMap'' e))
          | Inr cm \<Rightarrow>
              (if pb_resourceVersion ref \<noteq> '''' \<and> pb_resourceVersion ref \<noteq> cm_resourceVersion cm
               then ok (drift_message (pb_name ref) (pb_resourceVersion ref) (cm_resourceVersion cm), run, update)
               else case parse_binding (op_decodeBinding op) (smap_get (cm_data cm) binding_key) of
                      Inl e \<Rightarrow> fail (Wrapped ''parsing project binding ConfigMap'' e)
                    | Inr p \<Rightarrow>
                        (let r = binding_render (pb_name ref) cm p; detail = config_slot_detail run r []
                         in if detail \<noteq> '''' then ok (detail, run, update)
                            else ok ('''', apply_render_to_spec run r, record_render update r)))
        })"

section \<open>Lemmas\<close>

lemma slot_value_detail_empty:
  "slot_value_detail iface m slots = '''' \<longleftrightarrow>
     (\<forall>(name, value) \<in> set slots. value \<noteq> '''' \<longrightarrow> name \<in> set (declared_slots iface))"
  by (induction iface m slots rule: slot_value_detail.induct) auto

lemma slot_key_detail_empty:
  "slot_key_detail iface keys = '''' \<longleftrightarrow>
     (\<forall>k \<in> set keys. has_key config_slot_variables k \<or> k \<in> set (declared_slots iface))"
  by (induction iface keys rule: slot_key_detail.induct) auto

text \<open>What the slots of a tree admit: the rendered values and the other keys of the ConfigMap.\<close>

definition within_slots :: "run_workflow_interface \<Rightarrow> run_config_render \<Rightarrow> smap \<Rightarrow> bool" where
  "within_slots iface r cmData \<longleftrightarrow>
     (\<forall>(name, value) \<in> set (render_slots r). value \<noteq> '''' \<longrightarrow> name \<in> set (declared_slots iface)) \<and>
     (\<forall>k \<in> fst ` set cmData. has_key config_slot_variables k \<or> k \<in> set (declared_slots iface))"

lemma config_slot_detail_empty:
  assumes "sp_workflow (ru_spec run) = Some w" and "wf_interface w = Some iface"
  shows "config_slot_detail run r cmData = '''' \<longleftrightarrow> within_slots iface r cmData"
proof -
  have keys: "slot_key_detail iface (map fst cmData) = '''' \<longleftrightarrow>
      (\<forall>k \<in> fst ` set cmData. has_key config_slot_variables k \<or> k \<in> set (declared_slots iface))"
    unfolding slot_key_detail_empty set_map ..
  show ?thesis unfolding within_slots_def keys [symmetric] slot_value_detail_empty [where m = cmData, symmetric]
    by (simp add: config_slot_detail_def assms Let_def)
qed

section \<open>Properties\<close>

lemma verify_render_answer:
  assumes "run_state (verify_render op what ctx run update r) s = (Inr (d, q, v), s')" and "rr_configMap r \<noteq> ''''"
  shows "v = update \<and> (if d = ''''
    then q = apply_render_to_spec run r \<and>
      (\<exists>cm w. k_get_configmap (op_api op) (target_namespace run, rr_configMap r) (os_world s) = (Inr cm, w) \<and>
         cm_resourceVersion cm = rr_resourceVersion r)
    else q = run)"
  using assms
  by (auto simp: verify_render_def get_configmap_def call_def ok_def fail_def drift_message_def gone_message_def
      split: prod.splits sum.splits if_splits)

lemma verify_keeps: "run_state (verify_render op what ctx run update r) s = (Inr (d, q, v), s') \<Longrightarrow> v = update"
  by (auto simp: verify_render_def get_configmap_def call_def ok_def fail_def split: prod.splits sum.splits if_splits)

text \<open>
  C9. A recorded render is final: as long as the run names its configuration, every later pass reads the
  recorded ConfigMap again and either runs with exactly the recorded commands and branch, the ConfigMap being at
  the recorded resource version, or reports drift and leaves the run as it is. The record itself never
  changes.
\<close>

theorem recorded_render_is_final:
  assumes "st_configRender (ru_status run) = Some r" and "rr_configMap r \<noteq> ''''"
    and "(sp_configRef (ru_spec run) \<noteq> None \<and> m = render_run_config op run update) \<or>
         (\<exists>ref. m = render_project_binding_config op ref run update)"
    and "run_state m s = (Inr (d, q, v), s')"
  shows "v = update \<and> (if d = ''''
    then q = apply_render_to_spec run r \<and>
      (\<exists>cm w. k_get_configmap (op_api op) (target_namespace run, rr_configMap r) (os_world s) = (Inr cm, w) \<and>
         cm_resourceVersion cm = rr_resourceVersion r)
    else q = run)"
proof -
  obtain what ctx where "m = verify_render op what ctx run update r"
    using assms(1,3) unfolding render_run_config_def render_project_binding_config_def by auto
  with assms(2,4) show ?thesis by (auto dest: verify_render_answer)
qed

text \<open>
  C10. A render that a pass records for a run with a workflow interface carries a value only in a slot the
  interface declares, whichever of the three sources it comes from (the ConfigMap of the run, its own fields, the project
  binding).
\<close>

theorem recorded_render_within_slots:
  assumes "sp_workflow (ru_spec run) = Some w" and "wf_interface w = Some iface"
    and "m = render_run_config op run update \<or> (\<exists>ref. m = render_project_binding_config op ref run update)"
    and "run_state m s = (Inr (d, q, v), s')"
    and "st_configRender (ru_status v) = Some r" and "st_configRender (ru_status update) = None"
  shows "d = '''' \<and> (\<exists>cmData. within_slots iface r cmData)"
proof -
  have changed: "v \<noteq> update" using assms(5,6) by auto
  show ?thesis
  proof (cases "st_configRender (ru_status run)")
    case (Some r0)
    have "False" if "m = verify_render op what ctx run update r0" for what ctx
      using verify_keeps [OF assms(4) [unfolded that]] changed by blast
    moreover from assms(3) have "(\<exists>what ctx. m = verify_render op what ctx run update r0) \<or> m = ok ('''', run, update)"
      unfolding render_run_config_def render_project_binding_config_def Some by (auto split: option.splits)
    ultimately show ?thesis using assms(4) changed by (auto simp: ok_def)
  next
    case None
    from assms(3) show ?thesis
    proof
      assume "m = render_run_config op run update"
      with assms(4-6) changed None show ?thesis
        by (auto simp: render_run_config_def render_spec_fields_def record_render_def get_configmap_def
            call_def ok_def fail_def Let_def config_slot_detail_empty [OF assms(1,2)]
            split: option.splits prod.splits sum.splits if_splits)
    next
      assume "\<exists>ref. m = render_project_binding_config op ref run update"
      then obtain ref where "m = render_project_binding_config op ref run update" ..
      from assms(4) [unfolded this render_project_binding_config_def None option.case] assms(5,6) changed
      show ?thesis
        by (auto simp: record_render_def get_configmap_def call_def ok_def fail_def Let_def
            config_slot_detail_empty [OF assms(1,2)] split: prod.splits sum.splits if_splits)
    qed
  qed
qed

text \<open>
  Witnesses: a run whose interface declares the slots of the build and test commands, its ConfigMap, and the
  first and a later pass.
\<close>

definition config_run :: criteria_run where
  "config_run = zero_run\<lparr>ru_namespace := ''ci'', ru_name := ''r1'', ru_spec := zero_spec\<lparr>
     sp_configRef := Some \<lparr>cr_name = ''cfg'', cr_resourceVersion = ''7''\<rparr>,
     sp_workflow := Some (zero_workflow\<lparr>wf_interface := Some (zero_interface\<lparr>if_configSlots :=
       [\<lparr>sl_slot = ''buildCmd'', sl_variable = ''BUILD'', sl_target = '''', sl_description = ''''\<rparr>,
        \<lparr>sl_slot = ''testCmd'', sl_variable = ''TEST'', sl_target = '''', sl_description = ''''\<rparr>]\<rparr>)\<rparr>)\<rparr>\<rparr>"

definition config_interface :: run_workflow_interface where
  "config_interface = zero_interface\<lparr>if_configSlots :=
       [\<lparr>sl_slot = ''buildCmd'', sl_variable = ''BUILD'', sl_target = '''', sl_description = ''''\<rparr>,
        \<lparr>sl_slot = ''testCmd'', sl_variable = ''TEST'', sl_target = '''', sl_description = ''''\<rparr>]\<rparr>"

definition config_render :: run_config_render where
  "config_render = empty_render\<lparr>rr_configMap := ''cfg'', rr_resourceVersion := ''7'',
     rr_buildCmd := ''make'', rr_testCmd := ''make test''\<rparr>"

definition rendered_run :: criteria_run where
  "rendered_run = config_run\<lparr>ru_status := zero_status\<lparr>st_configRender := Some config_render\<rparr>\<rparr>"

definition config_state :: "cluster op_state" where
  "config_state = (let s = cluster_state config_run [] [] zero_observation
     in s\<lparr>os_world := (os_world s)\<lparr>cl_configs := [((''ci'', ''cfg''),
          \<lparr>cm_resourceVersion = ''7'', cm_data = [(''buildCmd'', ''make''), (''testCmd'', ''make test'')]\<rparr>)]\<rparr>\<rparr>)"

lemma config_passes:
  "fst (run_state (render_run_config cluster_op config_run config_run) config_state) =
     Inr ('''', apply_render_to_spec config_run config_render, rendered_run)"
  "fst (run_state (render_run_config cluster_op rendered_run rendered_run) config_state) =
     Inr ('''', apply_render_to_spec rendered_run config_render, rendered_run)"
  by code_simp+

theorem recorded_render_is_final_witness:
  "\<exists>q s'. run_state (render_run_config cluster_op rendered_run rendered_run) config_state = (Inr ('''', q, rendered_run), s') \<and>
     q = apply_render_to_spec rendered_run config_render"
proof -
  have pinned: "st_configRender (ru_status rendered_run) = Some config_render" "rr_configMap config_render \<noteq> ''''"
    "sp_configRef (ru_spec rendered_run) \<noteq> None"
    by (simp_all add: rendered_run_def config_run_def config_render_def)
  obtain q s' where run: "run_state (render_run_config cluster_op rendered_run rendered_run) config_state =
      (Inr ('''', q, rendered_run), s')"
    using config_passes(2) by (metis prod.collapse)
  from recorded_render_is_final [OF pinned(1,2) disjI1 [OF conjI [OF pinned(3) refl]] run] run show ?thesis by simp
qed

theorem recorded_render_within_slots_witness:
  "\<exists>cmData. within_slots config_interface config_render cmData"
proof -
  obtain s' where run: "run_state (render_run_config cluster_op config_run config_run) config_state =
      (Inr ('''', apply_render_to_spec config_run config_render, rendered_run), s')"
    using config_passes(1) by (metis prod.collapse)
  have facts: "sp_workflow (ru_spec config_run) = Some (zero_workflow\<lparr>wf_interface := Some config_interface\<rparr>)"
    "wf_interface (zero_workflow\<lparr>wf_interface := Some config_interface\<rparr>) = Some config_interface"
    "st_configRender (ru_status rendered_run) = Some config_render" "st_configRender (ru_status config_run) = None"
    by (simp_all add: config_run_def rendered_run_def config_interface_def zero_run_def zero_status_def)
  from recorded_render_within_slots [OF facts(1,2) disjI1 [OF refl] run facts(3,4)] show ?thesis by simp
qed

section \<open>What the render lets through\<close>

text \<open>
  A branch alone is no reason to record a render, so a branch that the run's spec sets reaches the run although
  the interface declares no slot for it.
\<close>

lemma base_branch_bypasses_slots:
  "let run = config_run\<lparr>ru_spec := (ru_spec config_run)\<lparr>sp_configRef := None, sp_baseBranch := ''evil''\<rparr>\<rparr>
   in fst (run_state (render_run_config cluster_op run run) config_state) = Inr ('''', run, run) \<and>
      ''baseBranch'' \<notin> set (declared_slots config_interface)"
  by code_simp

text \<open>A recorded render of the spec fields is not applied again: an edit of the fields after admission reaches the run.\<close>

lemma spec_render_not_applied:
  "let run = rendered_run\<lparr>ru_spec := (ru_spec rendered_run)\<lparr>sp_configRef := None, sp_testCmd := ''edited''\<rparr>,
         ru_status := zero_status\<lparr>st_configRender := Some (empty_render\<lparr>rr_testCmd := ''make test''\<rparr>)\<rparr>\<rparr>
   in fst (run_state (render_run_config cluster_op run run) config_state) = Inr ('''', run, run)"
  by code_simp

end
