(* ===== verification/Reconcile.thy ===== *)
theory Reconcile
  imports PerScope ConfigRender SingleActive
begin

text \<open>
  The reconcile pass of a CriteriaRun (\<open>internal/controller/criteriarun_controller.go\<close>): deletion,
  the pass over a finished run, admission, and the pass over an admitted run. A pass answers the
  requeue interval (\<open>None\<close>: no timed requeue) or an error.
\<close>

definition criteria_run_finalizer :: string where
  "criteria_run_finalizer = ''criteriarun.criteria.brokenbots.dev/finalizer''"
definition per_scope_requeue_interval :: duration where "per_scope_requeue_interval = 10 * second"
definition queue_requeue_interval :: duration where "queue_requeue_interval = 5 * second"
definition terminal_reap_requeue_interval :: duration where "terminal_reap_requeue_interval = 5 * second"

definition has_finalizer :: "criteria_run \<Rightarrow> bool" where
  "has_finalizer run \<longleftrightarrow> criteria_run_finalizer \<in> set (ru_finalizers run)"

definition add_finalizer :: "criteria_run \<Rightarrow> criteria_run" where
  "add_finalizer run = (if has_finalizer run then run
     else run\<lparr>ru_finalizers := ru_finalizers run @ [criteria_run_finalizer]\<rparr>)"

definition remove_finalizer :: "criteria_run \<Rightarrow> criteria_run" where
  "remove_finalizer run = run\<lparr>ru_finalizers := filter (\<lambda>f. f \<noteq> criteria_run_finalizer) (ru_finalizers run)\<rparr>"

text \<open>A status write that is skipped when nothing changed; the object is what the server answered.\<close>

definition write_status ::
  "'w reconciler \<Rightarrow> string \<Rightarrow> criteria_run \<Rightarrow> criteria_run \<Rightarrow> ('w, criteria_run) attempt" where
  "write_status op ctx run update =
     (if ru_status run \<noteq> ru_status update then attempt ctx (update_status op update) ok else ok update)"

section \<open>Observing castle\<close>

definition layer_observation :: "criteria_run \<Rightarrow> observation \<Rightarrow> criteria_run \<Rightarrow> criteria_run" where
  "layer_observation run obs update =
     (let st = ru_status update;
          st1 = (if ob_runID obs \<noteq> '''' \<and> ob_runID obs \<noteq> st_castleRunID (ru_status run)
                 then st\<lparr>st_castleRunID := ob_runID obs\<rparr> else st);
          st2 = (case ob_terminal obs of
                   None \<Rightarrow> st1
                 | Some t \<Rightarrow> st1\<lparr>st_castleTerminalObserved := True,
                     st_phase := (if tm_success t then PhaseSucceeded else PhaseFailed),
                     st_finalState := (if tm_finalState t \<noteq> '''' then tm_finalState t else st_finalState st1)\<rparr>)
      in update\<lparr>ru_status := st2\<rparr>)"

definition observe_castle ::
  "'w reconciler \<Rightarrow> criteria_run \<Rightarrow> criteria_run \<Rightarrow> ('w, observation \<times> criteria_run) attempt" where
  "observe_castle op run update =
     (if \<not> op_castle op then ok (zero_observation, update)
      else attempt '''' (call (k_observe (op_api op) (job_name run) (castle_run_id_from_run run)) (\<lambda>_. []))
             (\<lambda>obs. ok (obs, layer_observation run obs update)))"

section \<open>Deletion\<close>

definition finalize :: "'w reconciler \<Rightarrow> criteria_run \<Rightarrow> ('w, requeue) attempt" where
  "finalize op run =
     (if \<not> has_finalizer run then ok None
      else do {
        queue_release run;
        attempt '''' (ensure_terminal_archived op run None) (\<lambda>_.
        attempt ''re-reading CriteriaRun after the archive stamp'' (get_run op (run_key run)) (\<lambda>fresh.
        attempt '''' (delete_child_jobs op fresh) (\<lambda>_.
        attempt '''' (if sp_perScopeSessions (ru_spec fresh) then delete_run_adapter_pods op fresh else ok ()) (\<lambda>_.
        attempt ''removing finalizer'' (update_run op (remove_finalizer fresh)) (\<lambda>_. ok None)))))
      })"

section \<open>A finished run\<close>

text \<open>
  The observation of a finished run, with whether castle can add nothing more; \<open>None\<close> when castle is
  unavailable and the pass must be retried.
\<close>

definition observe_terminal ::
  "'w reconciler \<Rightarrow> criteria_run \<Rightarrow> ('w, (observation \<times> criteria_run \<times> bool) option) pass" where
  "observe_terminal op run =
     (if \<not> op_castle op then ret (Some (zero_observation, run, True))
      else do {
        seen \<leftarrow> observe_castle op run run;
        case seen of
          Inr (obs, update) \<Rightarrow> ret (Some (obs, update, False))
        | Inl e \<Rightarrow> ret (if err_is e ErrRunNotFound then Some (zero_observation, run, True) else None)
      })"

definition sweep_terminal_pods :: "'w reconciler \<Rightarrow> criteria_run \<Rightarrow> bool \<Rightarrow> ('w, requeue) attempt" where
  "sweep_terminal_pods op run stop = do {
     swept \<leftarrow> (if sp_perScopeSessions (ru_spec run) then delete_run_adapter_pods op run else ok ());
     case swept of
       Inl e \<Rightarrow> ok (Some per_scope_requeue_interval)
     | Inr u \<Rightarrow>
         (if stop \<or> castle_terminal_observed (ru_status run) \<or> stall_watchdog_fired (ru_status run)
          then ok None else ok (Some per_scope_requeue_interval))
   }"

definition reconcile_terminal :: "'w reconciler \<Rightarrow> criteria_run \<Rightarrow> ('w, requeue) attempt" where
  "reconcile_terminal op run = do {
     queue_release run;
     seen \<leftarrow> observe_terminal op run;
     case seen of
       None \<Rightarrow> ok (Some per_scope_requeue_interval)
     | Some (obs, update0, stop) \<Rightarrow> do {
         now \<leftarrow> time_now op;
         attempt '''' (write_status op ''updating terminal status'' run (stamp_terminal_at now (Some obs) update0)) (\<lambda>update.
         attempt '''' (ensure_terminal_archived op update (Some obs)) (\<lambda>_.
         attempt '''' (delete_terminal_child_jobs op update) (\<lambda>deferred.
           if deferred then ok (Some terminal_reap_requeue_interval)
           else sweep_terminal_pods op update stop)))
       }
   }"

section \<open>Admission\<close>

text \<open>A refusal message, or the run with its binding materialized and the binding's checksum.\<close>

definition admit_binding ::
  "'w reconciler \<Rightarrow> criteria_run \<Rightarrow> ('w, string + (criteria_run \<times> string)) attempt" where
  "admit_binding op run =
     (case sp_projectBindingRef (ru_spec run) of
        None \<Rightarrow> ok (Inr (run, ''''))
      | Some ref \<Rightarrow>
          (if sp_workflow (ru_spec run) = None
           then ok (Inl (''run carries a project binding pin ('' @ go_quote (pb_name ref) @
                  '') but no stamped workflow: the binding has no tree to satisfy, so admission is refused (KB-311)''))
           else attempt '''' (read_project_binding op run ref) (\<lambda>r. case r of
                  Inl refusal \<Rightarrow> ok (Inl refusal)
                | Inr (p, checksum) \<Rightarrow> ok (Inr (materialize_project_binding run p, checksum)))))"

definition binding_refusal :: "criteria_run \<Rightarrow> bool \<Rightarrow> string option" where
  "binding_refusal run projectBound =
     (case sp_workflow (ru_spec run) of
        None \<Rightarrow> None
      | Some w \<Rightarrow>
          (case wf_interface w of
             None \<Rightarrow> None
           | Some iface \<Rightarrow> map_option (mismatch_text w iface) (validate_interface_binding w iface projectBound)))"

definition single_active_ticket_run :: "'w reconciler \<Rightarrow> criteria_run \<Rightarrow> ('w, string) attempt" where
  "single_active_ticket_run op run =
     attempt ''listing CriteriaRuns for the single-active invariant'' (list_runs op (ru_namespace run)) (\<lambda>runs.
       ok (single_active_blocker runs run))"

definition env_criteria_base_image_default :: "smap \<Rightarrow> defaults \<Rightarrow> defaults" where
  "env_criteria_base_image_default env d =
     (let d1 = (if smap_get env env_criteria_base_image \<noteq> ''''
                then d\<lparr>df_criteriaBaseImage := smap_get env env_criteria_base_image\<rparr> else d)
      in if smap_get env env_default_image \<noteq> '''' then d1\<lparr>df_image := smap_get env env_default_image\<rparr> else d1)"

definition resolve_runner_defaults :: "'w reconciler \<Rightarrow> ('w, defaults \<times> bool) pass" where
  "resolve_runner_defaults op =
     (if \<not> op_envProbe op then ret (op_defaults op, True)
      else do {
        r \<leftarrow> call (k_operator_env (op_api op) [env_criteria_base_image, env_default_image]) (\<lambda>_. []);
        case r of
          Inl e \<Rightarrow> ret (op_defaults op, False)
        | Inr env \<Rightarrow> ret (env_criteria_base_image_default env (op_defaults op), True)
      })"

text \<open>The image the children are pinned with, when it is not the one the operator resolves now.\<close>

definition image_mismatch ::
  "criteria_run \<Rightarrow> job option \<Rightarrow> bool \<Rightarrow> string \<Rightarrow> string option" where
  "image_mismatch run existing live current =
     (case existing of
        Some j \<Rightarrow> (if live \<and> \<not> is_terminal_phase (derive_phase j)
                   then runner_image_mismatch (ru_status run) j current else None)
      | None \<Rightarrow> (if live \<and> st_baseImage (ru_status run) \<noteq> '''' \<and> st_baseImage (ru_status run) \<noteq> current
                 then Some (st_baseImage (ru_status run)) else None))"

definition enroll_run :: "'w reconciler \<Rightarrow> defaults \<Rightarrow> criteria_run \<Rightarrow> ('w, criteria_run) attempt" where
  "enroll_run op d run =
     (if op_runEvents op \<and> df_criteriaServerAddr d \<noteq> ''''
      then attempt '''' (call (k_enroll (op_api op) (ru_name run)) (\<lambda>_. [])) (\<lambda>token.
             ok (run\<lparr>ru_annotations := assoc_put annotation_proxy_enroll_token token (ru_annotations run)\<rparr>))
      else ok run)"

section \<open>The child Jobs\<close>

text \<open>The existing Job of each desired one, or a new one; the runner's Job and whether one was created.\<close>

fun ensure_jobs ::
  "'w reconciler \<Rightarrow> criteria_run \<Rightarrow> job option \<times> bool \<Rightarrow> job list \<Rightarrow> ('w, job option \<times> bool) attempt" where
  "ensure_jobs op run (runner, provisioned) [] = ok (runner, provisioned)"
| "ensure_jobs op run (runner, provisioned) (desired # rest) = do {
     found \<leftarrow> get_job op (job_key desired);
     case found of
       Inr j \<Rightarrow>
         ensure_jobs op run
           (if smap_get (jo_labels desired) label_role = role_runner then Some j else runner, provisioned) rest
     | Inl e \<Rightarrow>
         (if \<not> is_not_found e then fail (Wrapped (''getting job '' @ jo_name desired) e)
          else attempt (''creating job '' @ jo_name desired) (create_job op run desired) (\<lambda>made.
                 ensure_jobs op run
                   (if smap_get (jo_labels desired) label_role = role_runner then Some made else runner, True) rest))
   }"

section \<open>An admitted run\<close>

definition adapter_image_conflict_detail :: "criteria_run \<Rightarrow> lifecycle_event list \<Rightarrow> string" where
  "adapter_image_conflict_detail run lifecycle =
     (let details = map (\<lambda>(scope, c). ''scope '' @ go_quote (le_scopeID scope) @ '' adapter '' @
            go_quote (le_adapterName scope) @ '' (kind '' @ go_quote (ic_kind c) @ ''): the workflow pins '' @
            go_quote (ic_metadataRef c) @ '' but the castle event pins '' @ go_quote (ic_eventRef c) @ '' '' @
            long_dash @ '' ImageConflictPolicy is fail-closed'') (adapter_image_conflicts run lifecycle)
      in case details of
           [] \<Rightarrow> ''''
         | [d] \<Rightarrow> d
         | _ \<Rightarrow> show_nat (length details) @ '' adapter-image conflicts ('' @ sort details ! 0 @ ''; '' @
                sort details ! 1 @ '')'')"

text \<open>What the pass answers: the poll intervals of a run that is still to be watched.\<close>

definition requeue_policy ::
  "'w reconciler \<Rightarrow> criteria_run \<Rightarrow> criteria_run_status \<Rightarrow> bool \<Rightarrow> nat \<Rightarrow> requeue" where
  "requeue_policy op run status observed activeAdapters =
     (let terminal = is_terminal_phase (st_phase status); poll = Some per_scope_requeue_interval
      in if \<not> observed then poll
         else if sp_perScopeSessions (ru_spec run) \<and> (activeAdapters > 0 \<or> \<not> terminal) then poll
         else if \<not> terminal \<and> op_stallWindow op > 0 \<and> op_castle op then poll
         else if terminal \<and> \<not> castle_terminal_observed status \<and> \<not> stall_watchdog_fired status \<and> op_castle op
         then poll else None)"

definition finish_pass ::
  "'w reconciler \<Rightarrow> criteria_run \<Rightarrow> criteria_run_status \<Rightarrow> bool \<Rightarrow> nat \<Rightarrow> ('w, requeue) attempt" where
  "finish_pass op run status observed activeAdapters = do {
     (if is_terminal_phase (st_phase status) then queue_release run else ret ());
     ok (requeue_policy op run status observed activeAdapters)
   }"

text \<open>The operator signals on an authoritative observation: hold, tear down, or converge.\<close>

definition actuate_adapters ::
  "'w reconciler \<Rightarrow> criteria_run \<Rightarrow> criteria_run \<Rightarrow> observation option \<Rightarrow> ('w, requeue) attempt" where
  "actuate_adapters op run update obs =
     (case obs of
        None \<Rightarrow> finish_pass op run (ru_status update) False 0
      | Some ob \<Rightarrow>
          (if ob_runID ob = '''' then finish_pass op run (ru_status update) True 0
           else if sp_perScopeSessions (ru_spec run) \<and> ob_runStatus ob = run_status_paused
           then finish_pass op run (ru_status update) True 0
           else if sp_perScopeSessions (ru_spec run) \<and> ob_runStatus ob = run_status_stopped
           then attempt '''' (delete_run_adapter_pods op run) (\<lambda>_. finish_pass op run (ru_status update) True 0)
           else
             let detail = adapter_image_conflict_detail run (ob_lifecycle ob)
             in if detail \<noteq> '''' then fail_adapter_image_conflict op run update detail
                else attempt '''' (reconcile_per_scope_adapters op run (ob_runID ob) (ob_lifecycle ob)
                       (ob_workflowGraphs ob)) (\<lambda>active. finish_pass op run (ru_status update) True active)))"

text \<open>The cleanup of a pass that resolved the run as finished; \<open>True\<close> when it is deferred.\<close>

definition reap_if_terminal ::
  "'w reconciler \<Rightarrow> criteria_run \<Rightarrow> criteria_run \<Rightarrow> observation option \<Rightarrow> bool \<Rightarrow> ('w, bool) attempt" where
  "reap_if_terminal op run update obs provisioned =
     (if is_terminal_phase (st_phase (ru_status update)) \<and> \<not> provisioned
      then attempt '''' (ensure_terminal_archived op update obs) (\<lambda>_. delete_terminal_child_jobs op run)
      else ok False)"

definition persist_and_actuate ::
  "'w reconciler \<Rightarrow> criteria_run \<Rightarrow> string \<Rightarrow> bool \<Rightarrow> criteria_run \<Rightarrow> observation option \<Rightarrow> ('w, requeue) attempt" where
  "persist_and_actuate op run bindingSum provisioned update0 obs = do {
     now \<leftarrow> time_now op;
     attempt '''' (write_status op ''updating status'' run
       (stamp_launch_manifest (op_jsonInterface op) (op_jsonWorkflow op) (lb_sha256 (op_lib op))
          (operator_version_of (op_operatorVersion op)) (stamp_terminal_at now obs update0) bindingSum)) (\<lambda>update.
     attempt '''' (reap_if_terminal op run update obs provisioned) (\<lambda>deferred.
       if deferred then ok (Some terminal_reap_requeue_interval)
       else actuate_adapters op run update obs))
   }"

definition base_status :: "job \<Rightarrow> string \<Rightarrow> criteria_run \<Rightarrow> criteria_run" where
  "base_status runner current update =
     (let st = ru_status update;
          image_of = (if runner_job_image runner \<noteq> '''' then runner_job_image runner else current)
      in update\<lparr>ru_status := st\<lparr>st_baseImage := (if st_baseImage st = '''' then image_of else st_baseImage st),
           st_phase := derive_phase runner, st_jobName := jo_name runner\<rparr>\<rparr>)"

definition watchdog_step ::
  "'w reconciler \<Rightarrow> criteria_run \<Rightarrow> observation \<Rightarrow> criteria_run \<Rightarrow> ('w, bool \<times> criteria_run) pass" where
  "watchdog_step op run obs update =
     (if ob_runID obs \<noteq> '''' \<and> \<not> castle_run_status_idle (ob_runStatus obs)
      then do {
        now \<leftarrow> time_now op;
        ret (apply_stall_watchdog (op_fmt op) (op_showDuration op) (op_stallWindow op) now run obs update)
      }
      else ret (False, update))"

definition observe_and_persist ::
  "'w reconciler \<Rightarrow> criteria_run \<Rightarrow> string \<Rightarrow> string \<Rightarrow> criteria_run \<Rightarrow> job \<Rightarrow> bool \<Rightarrow> ('w, requeue) attempt" where
  "observe_and_persist op run bindingSum current update runner provisioned = do {
     let based = base_status runner current update;
     seen \<leftarrow> observe_castle op run based;
     case seen of
       Inl e \<Rightarrow> persist_and_actuate op run bindingSum provisioned based None
     | Inr (obs, layered) \<Rightarrow> do {
         (stalled, judged) \<leftarrow> watchdog_step op run obs layered;
         if stalled then fail_run_stalled op run judged obs
         else persist_and_actuate op run bindingSum provisioned judged (Some obs)
       }
   }"

definition provision ::
  "'w reconciler \<Rightarrow> criteria_run \<Rightarrow> string \<Rightarrow> defaults \<Rightarrow> string \<Rightarrow> criteria_run \<Rightarrow> ('w, requeue) attempt" where
  "provision op run bindingSum resolved current update =
     attempt '''' (enroll_run op resolved run) (\<lambda>enrolled.
     attempt '''' (ensure_jobs op enrolled (None, False) (build_all (op_lib op) enrolled resolved))
       (\<lambda>(runner, provisioned). case runner of
          None \<Rightarrow> fail (ErrMsg ''no runner job found in desired set'')
        | Some j \<Rightarrow> observe_and_persist op enrolled bindingSum current update j provisioned))"

definition render_for ::
  "'w reconciler \<Rightarrow> criteria_run \<Rightarrow> criteria_run \<Rightarrow> 'w render_result" where
  "render_for op run update =
     (case sp_projectBindingRef (ru_spec run) of
        Some ref \<Rightarrow> render_project_binding_config op ref run update
      | None \<Rightarrow> render_run_config op run update)"

definition build_pass ::
  "'w reconciler \<Rightarrow> criteria_run \<Rightarrow> string \<Rightarrow> criteria_run \<Rightarrow> job option \<Rightarrow> ('w, requeue) attempt" where
  "build_pass op run bindingSum update existing = do {
     (resolved, live) \<leftarrow> resolve_runner_defaults op;
     let current = resolve_runner_image run resolved;
     case image_mismatch run existing live current of
       Some pinned \<Rightarrow> fail_base_image_mismatch op run pinned current
     | None \<Rightarrow>
         attempt '''' (render_for op run update) (\<lambda>(drift, run', update').
           if drift \<noteq> '''' then fail_config_render_drift op run' update' drift
           else provision op run' bindingSum resolved current update')
   }"

definition admitted_pass ::
  "'w reconciler \<Rightarrow> criteria_run \<Rightarrow> string \<Rightarrow> criteria_run \<Rightarrow> ('w, requeue) attempt" where
  "admitted_pass op run bindingSum update = do {
     found \<leftarrow> get_job op (target_namespace run, runner_job_name run);
     case found of
       Inr j \<Rightarrow> build_pass op run bindingSum update (Some j)
     | Inl e \<Rightarrow> (if \<not> is_not_found e then fail (Wrapped ''peeking runner job'' e)
                 else build_pass op run bindingSum update None)
   }"

definition queued_update :: "'w reconciler \<Rightarrow> criteria_run \<Rightarrow> criteria_run_queue_status \<Rightarrow> criteria_run" where
  "queued_update op run qstatus = run\<lparr>ru_status := (ru_status run)\<lparr>
     st_observedGeneration := ru_generation run, st_eventsPath := df_debugEventsFile (op_defaults op),
     st_queue := Some qstatus\<rparr>\<rparr>"

definition hold_in_queue :: "'w reconciler \<Rightarrow> criteria_run \<Rightarrow> criteria_run \<Rightarrow> ('w, requeue) attempt" where
  "hold_in_queue op run update =
     attempt '''' (write_status op ''updating queue status'' run
       (update\<lparr>ru_status := (ru_status update)\<lparr>st_phase := PhasePending, st_jobName := ''''\<rparr>\<rparr>))
       (\<lambda>_. ok (Some queue_requeue_interval))"

definition refuse_second_active :: "'w reconciler \<Rightarrow> criteria_run \<Rightarrow> string \<Rightarrow> ('w, requeue) attempt" where
  "refuse_second_active op run blocker = do {
     warn op run ''SecondActiveRunForTicket'';
     queue_release run;
     fail (ErrMsg (''refusing to admit CriteriaRun '' @ ru_name run @ '': ticket '' @ sp_ticketID (ru_spec run) @
       '' already has a live CriteriaRun '' @ blocker @ ''; at most one active workflow is allowed per ticket''))
   }"

definition admit ::
  "'w reconciler \<Rightarrow> criteria_run \<Rightarrow> string \<Rightarrow> ('w, requeue) attempt" where
  "admit op run bindingSum = do {
     (admitted, qstatus) \<leftarrow> queue_enqueue run;
     let update = queued_update op run qstatus;
     if \<not> admitted then hold_in_queue op run update
     else if st_jobName (ru_status run) = ''''
     then attempt '''' (single_active_ticket_run op run) (\<lambda>blocker.
            if blocker \<noteq> '''' then refuse_second_active op run blocker
            else admitted_pass op run bindingSum update)
     else admitted_pass op run bindingSum update
   }"

definition reconcile_live :: "'w reconciler \<Rightarrow> criteria_run \<Rightarrow> ('w, requeue) attempt" where
  "reconcile_live op run =
     (if workflow_source_missing run then refuse_missing_workflow_source op run
      else case interface_binding_gap run of
        Some message \<Rightarrow> refuse_interface_binding_mismatch op run message
      | None \<Rightarrow>
          attempt '''' (admit_binding op run) (\<lambda>r. case r of
            Inl refusal \<Rightarrow> refuse_interface_binding_mismatch op run refusal
          | Inr (run', bindingSum) \<Rightarrow>
              (case binding_refusal run' (bindingSum \<noteq> '''') of
                 Some message \<Rightarrow> refuse_interface_binding_mismatch op run' message
               | None \<Rightarrow> admit op run' bindingSum)))"

section \<open>The pass\<close>

definition reconcile_fetched :: "'w reconciler \<Rightarrow> criteria_run \<Rightarrow> ('w, requeue) attempt" where
  "reconcile_fetched op run =
     (if is_terminal_phase (st_phase (ru_status run)) then reconcile_terminal op run
      else reconcile_live op run)"

definition reconcile :: "'w reconciler \<Rightarrow> nsname \<Rightarrow> ('w, requeue) attempt" where
  "reconcile op key = do {
     found \<leftarrow> get_run op key;
     case found of
       Inl e \<Rightarrow> (if is_not_found e then ok None else fail e)
     | Inr run \<Rightarrow>
         (if is_deleting run then finalize op run
          else if has_finalizer run then reconcile_fetched op run
          else attempt ''adding finalizer'' (update_run op (add_finalizer run)) (\<lambda>_.
               attempt '''' (get_run op key) (reconcile_fetched op)))
   }"

end
