(* ===== verification/PassLog.thy ===== *)
theory PassLog
  imports Reconcile
begin

text \<open>
  What a reconcile pass may do, and only after what: a safety monitor over the list of its effects, the
  rules to show that a pass keeps to it, and what each part of the pass appends.
  Every deletion of a child Job and every removal of the finalizer needs the run's archive evidence and
  its end to be on record before it; every creation needs the admission slot to be held.
\<close>

section \<open>The monitor\<close>

definition archived :: "criteria_run \<Rightarrow> bool" where
  "archived r \<longleftrightarrow> st_archiveID (ru_status r) \<noteq> '''' \<and> \<not> st_archivePending (ru_status r)"

definition evidence :: "nsname \<Rightarrow> effect list \<Rightarrow> bool" where
  "evidence k l \<longleftrightarrow> (\<exists>aid. ArchivedRun k aid \<in> set l) \<or>
     (\<exists>r. (GotRun r \<in> set l \<or> StoredStatus r \<in> set l) \<and> run_key r = k \<and> archived r)"

definition over :: "criteria_run \<Rightarrow> bool" where
  "over r \<longleftrightarrow> is_deleting r \<or> is_terminal_phase (st_phase (ru_status r))"

definition ended :: "nsname \<Rightarrow> effect list \<Rightarrow> bool" where
  "ended k l \<longleftrightarrow> (\<exists>r. (GotRun r \<in> set l \<or> PutStatus r \<in> set l \<or> StoredStatus r \<in> set l) \<and> run_key r = k \<and> over r)"

definition may_tear :: "bool \<Rightarrow> nsname \<Rightarrow> effect list \<Rightarrow> bool" where
  "may_tear arch k l \<longleftrightarrow> (arch \<longrightarrow> evidence k l) \<and> ended k l"

definition holding :: "nsname \<Rightarrow> effect list \<Rightarrow> bool" where
  "holding k l \<longleftrightarrow> (\<exists>a b. l = a @ Admitted k # b \<and> LeftQueue k \<notin> set b)"

fun allowed :: "bool \<Rightarrow> effect list \<Rightarrow> effect \<Rightarrow> bool" where
  "allowed arch l (CutJob k j) = may_tear arch k l"
| "allowed arch l (PutRun r) = (has_finalizer r \<or> may_tear arch (run_key r) l)"
| "allowed arch l (MadeJob k j) = holding k l"
| "allowed arch l (MadePod k p) = holding k l"
| "allowed arch l e = True"

definition safe :: "bool \<Rightarrow> effect list \<Rightarrow> bool" where
  "safe arch l \<longleftrightarrow> (\<forall>pre e post. l = pre @ e # post \<longrightarrow> allowed arch pre e)"

lemma safe_Nil [simp]: "safe arch []"
  by (simp add: safe_def)

lemma safe_snoc: "safe arch (l @ [e]) \<longleftrightarrow> safe arch l \<and> allowed arch l e"
proof
  assume s: "safe arch (l @ [e])"
  have "allowed arch l e" using s unfolding safe_def by blast
  moreover have "safe arch l" unfolding safe_def
  proof (intro allI impI)
    fix pre e' post
    assume "l = pre @ e' # post"
    then have "l @ [e] = pre @ e' # (post @ [e])" by simp
    with s show "allowed arch pre e'" unfolding safe_def by blast
  qed
  ultimately show "safe arch l \<and> allowed arch l e" by simp
next
  assume s: "safe arch l \<and> allowed arch l e"
  show "safe arch (l @ [e])" unfolding safe_def
  proof (intro allI impI)
    fix pre e' post
    assume eq: "l @ [e] = pre @ e' # post"
    show "allowed arch pre e'"
    proof (cases post rule: rev_cases)
      case Nil
      with eq s show ?thesis by simp
    next
      case (snoc post' x)
      with eq have "l = pre @ e' # post'" by simp
      with s show ?thesis unfolding safe_def by blast
    qed
  qed
qed

text \<open>The kinds of effect: free of obligations, not leaving the queue, and talk with the API.\<close>

fun free :: "effect \<Rightarrow> bool" where
  "free (CutJob k j) = False"
| "free (PutRun r) = has_finalizer r"
| "free (MadeJob k j) = False"
| "free (MadePod k p) = False"
| "free e = True"

fun talk :: "effect \<Rightarrow> bool" where
  "talk (GotRun r) = True"
| "talk (PutStatus r) = True"
| "talk (StoredStatus r) = True"
| "talk (ArchivedRun k a) = True"
| "talk (Warned k m) = True"
| "talk (FedPodState k) = True"
| "talk e = False"

lemma talk_free: "talk e \<Longrightarrow> free e"
  by (cases e) auto

lemma talk_not_left: "talk e \<Longrightarrow> e \<noteq> LeftQueue k"
  by (cases e) auto

lemma free_allowed: "free e \<Longrightarrow> allowed arch l e"
  by (cases e) auto

lemma evidence_snoc: "evidence k l \<Longrightarrow> evidence k (l @ [e])"
  by (auto simp: evidence_def)

lemma ended_snoc: "ended k l \<Longrightarrow> ended k (l @ [e])"
  by (auto simp: ended_def)

lemma may_tear_snoc: "may_tear arch k l \<Longrightarrow> may_tear arch k (l @ [e])"
  by (auto simp: may_tear_def intro: evidence_snoc ended_snoc)

lemma holding_snoc: "holding k l \<Longrightarrow> e \<noteq> LeftQueue k \<Longrightarrow> holding k (l @ [e])"
  unfolding holding_def by fastforce

lemma holding_admitted: "holding k (l @ [Admitted k])"
  unfolding holding_def by fastforce

section \<open>Guarded passes\<close>

text \<open>
  \<open>guarded arch P m Q\<close>: from a safe log with \<open>P\<close> the pass keeps the log safe, and when it succeeds its
  result satisfies \<open>Q\<close>.
\<close>

definition guarded ::
  "bool \<Rightarrow> (effect list \<Rightarrow> bool) \<Rightarrow> ('w, 'a) attempt \<Rightarrow> ('a \<Rightarrow> effect list \<Rightarrow> bool) \<Rightarrow> bool" where
  "guarded arch P m Q \<longleftrightarrow>
     hoare (\<lambda>l. safe arch l \<and> P l) m (\<lambda>r l. safe arch l \<and> (\<forall>a. r = Inr a \<longrightarrow> Q a l))"

definition lasting :: "(effect list \<Rightarrow> bool) \<Rightarrow> bool" where
  "lasting P \<longleftrightarrow> stable (\<lambda>_. True) P"

lemma lasting_facts:
  "lasting (evidence k)" "lasting (ended k)" "lasting (may_tear arch k)" "lasting (\<lambda>_. c)"
  "lasting (\<lambda>l. e \<in> set l)"
  "lasting P \<Longrightarrow> lasting Q \<Longrightarrow> lasting (\<lambda>l. P l \<and> Q l)"
  "lasting P \<Longrightarrow> lasting (\<lambda>l. c \<longrightarrow> P l)"
  by (auto simp: lasting_def stable_def intro: evidence_snoc ended_snoc may_tear_snoc)

lemma lasting_stable: "lasting P \<Longrightarrow> stable A P"
  by (simp add: lasting_def stable_def)

lemma stable_safe: "(\<And>e. A e \<Longrightarrow> free e) \<Longrightarrow> stable A (safe arch)"
  by (auto simp: stable_def safe_snoc free_allowed)

lemma stable_conj: "stable A P \<Longrightarrow> stable A Q \<Longrightarrow> stable A (\<lambda>l. P l \<and> Q l)"
  by (simp add: stable_def)

lemma stable_holding: "stable (\<lambda>e. free e \<and> e \<noteq> LeftQueue k) (holding k)"
  by (auto simp: stable_def intro: holding_snoc)

lemma stable_talk_holding: "stable talk (holding k)"
  by (auto simp: stable_def intro: holding_snoc dest: talk_not_left)

lemma guarded_appends:
  assumes "appends A m" and "\<And>e. A e \<Longrightarrow> free e" and "stable A P"
  shows "guarded arch P m (\<lambda>_. P)"
  unfolding guarded_def
  by (rule hoare_strengthen [OF appends_hoare [OF assms(1) stable_conj [OF stable_safe [OF assms(2)] assms(3)]]]) auto

lemma guarded_free: "appends free m \<Longrightarrow> lasting P \<Longrightarrow> guarded arch P m (\<lambda>_. P)"
  by (rule guarded_appends) (auto intro: lasting_stable)

lemma guarded_post: "guarded arch P m R \<Longrightarrow> (\<And>a l. R a l \<Longrightarrow> Q a l) \<Longrightarrow> guarded arch P m Q"
  unfolding guarded_def hoare_def by blast

lemma guarded_pre: "guarded arch P m Q \<Longrightarrow> (\<And>l. P' l \<Longrightarrow> P l) \<Longrightarrow> guarded arch P' m Q"
  unfolding guarded_def hoare_def by blast

lemma guarded_assume: "(C \<Longrightarrow> guarded arch P m Q) \<Longrightarrow> guarded arch (\<lambda>l. C \<and> P l) m Q"
  unfolding guarded_def by (rule hoare_assume [where C = C]) (auto intro: hoare_weaken)

lemma guarded_attempt:
  assumes "guarded arch P m R" and "\<And>a. guarded arch (R a) (f a) Q"
  shows "guarded arch P (attempt ctx m f) Q"
  unfolding guarded_def
proof (rule hoare_attempt [where R = "\<lambda>a l. safe arch l \<and> R a l"])
  show "hoare (\<lambda>l. safe arch l \<and> P l) m
    (\<lambda>r l. case r of Inl e \<Rightarrow> \<forall>e'. safe arch l \<and> (\<forall>a. Inl e' = Inr a \<longrightarrow> Q a l)
           | Inr a \<Rightarrow> safe arch l \<and> R a l)"
    by (rule hoare_strengthen [OF assms(1) [unfolded guarded_def]]) (auto split: sum.splits)
qed (use assms(2) in \<open>simp add: guarded_def\<close>)

text \<open>A step that is not an attempt, and a step whose error the code inspects.\<close>

lemma guarded_bind:
  "hoare (\<lambda>l. safe arch l \<and> P l) m (\<lambda>a l. safe arch l \<and> R a l) \<Longrightarrow> (\<And>a. guarded arch (R a) (f a) Q) \<Longrightarrow>
   guarded arch P (State_Monad.bind m f) Q"
  unfolding guarded_def by (rule hoare_bind)

lemma guarded_quiet:
  assumes "appends A m" and "\<And>e. A e \<Longrightarrow> free e" and "stable A P" and "\<And>a. guarded arch P (f a) Q"
  shows "guarded arch P (State_Monad.bind m f) Q"
  by (rule guarded_bind [where R = "\<lambda>_. P"])
    (auto intro!: appends_hoare [OF assms(1)] stable_conj stable_safe assms)

lemma guarded_ok: "(\<And>l. P l \<Longrightarrow> Q a l) \<Longrightarrow> guarded arch P (ok a) Q"
  unfolding guarded_def by (rule hoare_ok) auto

lemma guarded_fail: "guarded arch P (fail e) Q"
  unfolding guarded_def by (rule hoare_fail) auto

lemma guarded_if:
  "(b \<Longrightarrow> guarded arch P m Q) \<Longrightarrow> (\<not> b \<Longrightarrow> guarded arch P n Q) \<Longrightarrow> guarded arch P (if b then m else n) Q"
  by simp

lemma guarded_option:
  "(x = None \<Longrightarrow> guarded arch P m Q) \<Longrightarrow> (\<And>a. x = Some a \<Longrightarrow> guarded arch P (f a) Q) \<Longrightarrow>
   guarded arch P (case x of None \<Rightarrow> m | Some a \<Rightarrow> f a) Q"
  by (cases x) auto

lemma guarded_sum:
  "(\<And>e. x = Inl e \<Longrightarrow> guarded arch P (g e) Q) \<Longrightarrow> (\<And>a. x = Inr a \<Longrightarrow> guarded arch P (f a) Q) \<Longrightarrow>
   guarded arch P (case x of Inl e \<Rightarrow> g e | Inr a \<Rightarrow> f a) Q"
  by (cases x) auto

lemma guarded_let: "guarded arch P (f v) Q \<Longrightarrow> guarded arch P (let x = v in f x) Q"
  by (simp add: Let_def)

section \<open>What the parts append\<close>

lemma mark_pending_appends [effects]:
  "(\<And>e. talk e \<Longrightarrow> A e) \<Longrightarrow> appends A (mark_terminal_archive_pending op run reason msg)"
  unfolding mark_terminal_archive_pending_def Let_def by (auto intro!: effects)

lemma mark_archived_appends [effects]:
  "(\<And>e. talk e \<Longrightarrow> A e) \<Longrightarrow> appends A (mark_terminal_archived op run aid)"
  unfolding mark_terminal_archived_def Let_def by (auto intro!: effects)

lemma build_record_appends [effects]: "appends A (build_terminal_archive_record op run obs)"
  unfolding build_terminal_archive_record_def runner_pod_restarts_def Let_def by (auto intro!: effects)

lemma cr_uid_appends [effects]:
  "(\<And>e. talk e \<Longrightarrow> A e) \<Longrightarrow> appends A (archive_with_cr_uid_key op run rec)"
  unfolding archive_with_cr_uid_key_def by (auto intro!: effects)

lemma not_yet_appends [effects]:
  "(\<And>e. talk e \<Longrightarrow> A e) \<Longrightarrow> appends A (not_yet_stored op run e)"
  unfolding not_yet_stored_def by (auto intro!: effects)

lemma ensure_appends [effects]:
  "(\<And>e. talk e \<Longrightarrow> A e) \<Longrightarrow> appends A (ensure_terminal_archived op run obs)"
  unfolding ensure_terminal_archived_def by (auto intro!: effects)

lemma restart_pending_appends [effects]: "appends A (runner_restart_pending op run)"
  unfolding runner_restart_pending_def by (auto intro!: effects)

lemma deferred_appends [effects]:
  "(\<And>e. talk e \<Longrightarrow> A e) \<Longrightarrow> appends A (mark_terminal_cleanup_deferred op run reason)"
  unfolding mark_terminal_cleanup_deferred_def Let_def by (auto intro!: effects)

lemma clear_appends [effects]:
  "(\<And>e. talk e \<Longrightarrow> A e) \<Longrightarrow> appends A (clear_terminal_cleanup op run)"
  unfolding clear_terminal_cleanup_def by (auto intro!: effects)

lemma delete_jobs_appends [effects]:
  assumes "\<And>j. A (CutJob (run_key run) (job_key j))"
  shows "appends A (delete_jobs_loop op run prop js deleted)"
  by (induction js arbitrary: deleted) (auto intro!: effects simp: assms)

lemma delete_pods_appends [effects]:
  assumes "\<And>p. A (CutPod (run_key run) (pod_key p))"
  shows "appends A (delete_pods_loop op run ps)"
  by (induction ps) (auto intro!: effects simp: assms)

lemma delete_adapter_pods_appends [effects]:
  "(\<And>p. A (CutPod (run_key run) (pod_key p))) \<Longrightarrow> appends A (delete_run_adapter_pods op run)"
  unfolding delete_run_adapter_pods_def by (auto intro!: effects)

lemma write_status_appends [effects]:
  "(\<And>e. talk e \<Longrightarrow> A e) \<Longrightarrow> appends A (write_status op ctx run update)"
  unfolding write_status_def by (auto intro!: effects)

lemma observe_appends [effects]: "appends A (observe_castle op run update)"
  unfolding observe_castle_def by (auto intro!: effects)

lemma observe_terminal_appends [effects]: "appends A (observe_terminal op run)"
  unfolding observe_terminal_def by (auto intro!: effects)

lemma read_binding_appends [effects]: "appends A (read_project_binding op run ref)"
  unfolding read_project_binding_def by (auto intro!: effects)

lemma admit_binding_appends [effects]: "appends A (admit_binding op run)"
  unfolding admit_binding_def by (auto intro!: effects split: sum.splits)

lemma single_active_appends [effects]: "appends A (single_active_ticket_run op run)"
  unfolding single_active_ticket_run_def by (auto intro!: effects)

lemma resolve_defaults_appends [effects]: "appends A (resolve_runner_defaults op)"
  unfolding resolve_runner_defaults_def by (auto intro!: effects)

lemma enroll_appends [effects]: "appends A (enroll_run op d run)"
  unfolding enroll_run_def by (auto intro!: effects)

lemma render_appends [effects]: "appends A (render_for op run update)"
  unfolding render_for_def render_run_config_def render_project_binding_config_def verify_render_def
    render_spec_fields_def Let_def
  by (auto intro!: effects)

lemma watchdog_appends [effects]: "appends A (watchdog_step op run obs update)"
  unfolding watchdog_step_def by (auto intro!: effects)

end
