(* ===== verification/ReconcileSafety.thy ===== *)
theory ReconcileSafety
  imports PassLog Cluster
begin

text \<open>
  Every reconcile pass keeps to the monitor of \<open>PassLog\<close>, for every behaviour of the API server,
  castle, the archive service and the clock that answers a read or a status write with an object of the
  key that was asked for (\<open>keyed\<close>). The content of what comes back is free: objects may be
  stale or changed, and every call may fail.
\<close>

definition keyed :: "'w reconciler \<Rightarrow> bool" where
  "keyed op \<longleftrightarrow>
     (\<forall>k w r w'. k_get_run (op_api op) k w = (Inr r, w') \<longrightarrow> run_key r = k) \<and>
     (\<forall>q w r w'. k_update_status (op_api op) q w = (Inr r, w') \<longrightarrow> run_key r = run_key q)"

lemma keyed_get: "keyed op \<Longrightarrow> k_get_run (op_api op) k w = (Inr r, w') \<Longrightarrow> run_key r = k"
  unfolding keyed_def by metis

lemma keyed_put: "keyed op \<Longrightarrow> k_update_status (op_api op) q w = (Inr r, w') \<Longrightarrow> run_key r = run_key q"
  unfolding keyed_def by metis

section \<open>Rules\<close>

text \<open>What a pass can answer, whatever the log.\<close>

definition answers :: "('w, 'a) attempt \<Rightarrow> ('a \<Rightarrow> bool) \<Rightarrow> bool" where
  "answers m F \<longleftrightarrow> (\<forall>s a s'. run_state m s = (Inr a, s') \<longrightarrow> F a)"

lemma answers_attempt: "(\<And>a. answers (f a) F) \<Longrightarrow> answers (attempt ctx m f) F"
  unfolding answers_def attempt_def
  by (auto simp: fail_def split: prod.splits sum.splits)

lemma answers_bind: "(\<And>a. answers (f a) F) \<Longrightarrow> answers (State_Monad.bind m f) F"
  unfolding answers_def by (auto split: prod.splits)

lemma answers_ok: "F a \<Longrightarrow> answers (ok a) F"
  by (simp add: answers_def ok_def)

lemma answers_fail: "answers (fail e) F"
  by (simp add: answers_def fail_def)

lemma answers_if: "answers m F \<Longrightarrow> answers n F \<Longrightarrow> answers (if b then m else n) F"
  by simp

lemma guarded_answers:
  "answers m F \<Longrightarrow> guarded arch P m Q \<Longrightarrow> guarded arch P m (\<lambda>a l. F a \<and> Q a l)"
  unfolding answers_def guarded_def hoare_def by blast

text \<open>A call whose error the code inspects.\<close>

lemma guarded_case:
  assumes "guarded arch P m R" and "appends A m" and "\<And>e. A e \<Longrightarrow> free e" and "stable A P"
    and "\<And>e. guarded arch P (g e) Q" and "\<And>a. guarded arch (R a) (f a) Q"
  shows "guarded arch P (State_Monad.bind m (\<lambda>r. case r of Inl e \<Rightarrow> g e | Inr a \<Rightarrow> f a)) Q"
proof (rule guarded_bind [where R = "\<lambda>r l. case r of Inl e \<Rightarrow> P l | Inr a \<Rightarrow> R a l"])
  have "hoare (\<lambda>l. safe arch l \<and> P l) m (\<lambda>_ l. safe arch l \<and> P l)"
    by (rule appends_hoare [OF assms(2)]) (auto intro: stable_conj stable_safe assms)
  from hoare_conj [OF this assms(1) [unfolded guarded_def]]
  show "hoare (\<lambda>l. safe arch l \<and> P l) m
      (\<lambda>r l. safe arch l \<and> (case r of Inl e \<Rightarrow> P l | Inr a \<Rightarrow> R a l))"
    by (rule hoare_strengthen) (auto split: sum.splits)
next
  fix r
  show "guarded arch (\<lambda>l. case r of Inl e \<Rightarrow> P l | Inr a \<Rightarrow> R a l) (case r of Inl e \<Rightarrow> g e | Inr a \<Rightarrow> f a) Q"
    by (cases r) (simp_all add: assms)
qed

text \<open>Effects that the condition allows.\<close>

lemma guarded_allowed:
  assumes "appends A m" and "\<And>l e. P l \<Longrightarrow> A e \<Longrightarrow> allowed arch l e" and "stable A P"
  shows "guarded arch P m (\<lambda>_. P)"
proof -
  have "stable A (\<lambda>l. safe arch l \<and> P l)"
    using assms(2,3) by (auto simp: stable_def safe_snoc)
  from appends_hoare [OF assms(1) this] show ?thesis
    unfolding guarded_def by (rule hoare_strengthen) auto
qed

lemma guarded_then:
  "guarded arch P m (\<lambda>_. R) \<Longrightarrow> guarded arch R n Q \<Longrightarrow> guarded arch P (attempt ctx m (\<lambda>_. n)) Q"
  by (rule guarded_attempt)

lemma guarded_false: "guarded arch (\<lambda>_. False) m Q"
  by (simp add: guarded_def hoare_def)

section \<open>What is on record of a run\<close>

definition known :: "criteria_run \<Rightarrow> effect list \<Rightarrow> bool" where
  "known r l \<longleftrightarrow> (\<exists>q. (GotRun q \<in> set l \<or> StoredStatus q \<in> set l) \<and> run_key q = run_key r \<and> ru_status q = ru_status r)"

lemma lasting_known: "lasting (known r)"
  by (auto simp: lasting_def stable_def known_def)

lemma known_archived: "known r l \<Longrightarrow> archived r \<Longrightarrow> evidence (run_key r) l"
  unfolding known_def evidence_def archived_def by metis

lemma known_over: "known r l \<Longrightarrow> is_terminal_phase (st_phase (ru_status r)) \<Longrightarrow> ended (run_key r) l"
  unfolding known_def ended_def over_def by metis

lemma known_same: "known r l \<Longrightarrow> run_key q = run_key r \<Longrightarrow> ru_status q = ru_status r \<Longrightarrow> known q l"
  by (simp add: known_def)

lemma lasting_stable_talk: "lasting P \<Longrightarrow> stable talk P"
  by (rule lasting_stable)

section \<open>Calls\<close>

lemma get_run_guarded:
  assumes "keyed op" and "stable talk X"
  shows "guarded arch X (get_run op k) (\<lambda>r l. run_key r = k \<and> GotRun r \<in> set l \<and> X l)"
proof -
  have "hoare (\<lambda>_. True) (get_run op k) (\<lambda>r l. \<forall>a. r = Inr a \<longrightarrow> run_key a = k \<and> GotRun a \<in> set l)"
    by (auto simp: hoare_def get_run_def call_def on_ok_def split: prod.splits sum.splits
        intro: keyed_get [OF assms(1)])
  moreover have "guarded arch X (get_run op k) (\<lambda>_. X)"
    by (rule guarded_appends [where A = talk]) (auto intro!: effects talk_free assms(2))
  ultimately show ?thesis unfolding guarded_def hoare_def by blast
qed

lemma update_status_guarded:
  assumes "keyed op" and "stable talk X"
  shows "guarded arch X (update_status op q)
    (\<lambda>r l. run_key r = run_key q \<and> PutStatus q \<in> set l \<and> StoredStatus r \<in> set l \<and> X l)"
proof -
  have "hoare (\<lambda>_. True) (update_status op q)
      (\<lambda>r l. \<forall>a. r = Inr a \<longrightarrow> run_key a = run_key q \<and> PutStatus q \<in> set l \<and> StoredStatus a \<in> set l)"
    by (auto simp: hoare_def update_status_def emit_def call_def on_ok_def split: prod.splits sum.splits
        intro: keyed_put [OF assms(1)])
  moreover have "guarded arch X (update_status op q) (\<lambda>_. X)"
    by (rule guarded_appends [where A = talk]) (auto intro!: effects talk_free assms(2))
  ultimately show ?thesis unfolding guarded_def hoare_def by blast
qed

lemma archive_run_guarded:
  assumes "stable talk X"
  shows "guarded arch X (archive_run op r rec) (\<lambda>aid l. evidence (run_key r) l \<and> X l)"
proof -
  have "hoare (\<lambda>_. True) (archive_run op r rec)
      (\<lambda>x l. \<forall>aid. x = Inr aid \<longrightarrow> ArchivedRun (run_key r) aid \<in> set l)"
    by (auto simp: hoare_def archive_run_def call_def on_ok_def split: prod.splits sum.splits)
  moreover have "guarded arch X (archive_run op r rec) (\<lambda>_. X)"
    by (rule guarded_appends [where A = talk]) (auto intro!: effects talk_free assms)
  ultimately show ?thesis unfolding guarded_def hoare_def evidence_def by blast
qed

lemma write_status_guarded:
  assumes "keyed op" and "stable talk X" and "run_key update = run_key run"
  shows "guarded arch (\<lambda>l. known run l \<and> X l) (write_status op ctx run update)
    (\<lambda>u l. run_key u = run_key run \<and> known u l \<and> X l)"
proof (cases "ru_status run = ru_status update")
  case True
  then show ?thesis unfolding write_status_def
    by (auto intro!: guarded_ok simp: assms(3) intro: known_same)
next
  case False
  have "guarded arch (\<lambda>l. known run l \<and> X l) (attempt ctx (update_status op update) ok)
    (\<lambda>u l. run_key u = run_key run \<and> known u l \<and> X l)"
  proof (rule guarded_attempt [OF update_status_guarded [OF assms(1)]])
    show "stable talk (\<lambda>l. known run l \<and> X l)"
      by (intro stable_conj lasting_stable_talk lasting_known assms(2))
    show "guarded arch (\<lambda>l. run_key u = run_key update \<and> PutStatus update \<in> set l \<and> StoredStatus u \<in> set l \<and>
        known run l \<and> X l) (ok u) (\<lambda>u l. run_key u = run_key run \<and> known u l \<and> X l)" for u
      by (rule guarded_ok) (auto simp: assms(3) known_def)
  qed
  with False show ?thesis by (simp add: write_status_def)
qed

section \<open>The archive gate\<close>

lemma guarded_talk: "appends talk m \<Longrightarrow> stable talk X \<Longrightarrow> guarded arch X m (\<lambda>_. X)"
  by (rule guarded_appends [where A = talk]) (auto intro: talk_free)

lemma pending_fails: "answers (mark_terminal_archive_pending op run reason msg) F"
  unfolding mark_terminal_archive_pending_def Let_def
  by (intro answers_attempt answers_bind answers_if answers_fail)

lemma pending_guarded:
  assumes "stable talk X"
  shows "guarded arch X (mark_terminal_archive_pending op run reason msg) Q"
proof (rule guarded_post [OF guarded_answers [OF pending_fails [where F = "\<lambda>_. False"] guarded_talk [OF _ assms]]])
  show "appends talk (mark_terminal_archive_pending op run reason msg)" by (auto intro!: effects)
qed simp

definition gate :: "bool \<Rightarrow> nsname \<Rightarrow> (effect list \<Rightarrow> bool) \<Rightarrow> effect list \<Rightarrow> bool" where
  "gate arch k X l \<longleftrightarrow> (arch \<longrightarrow> evidence k l) \<and> X l"

lemma lasting_gate: "lasting X \<Longrightarrow> lasting (gate arch k X)"
  unfolding lasting_def stable_def gate_def by (auto intro: evidence_snoc)

lemma marked_guarded:
  assumes "stable talk X"
  shows "guarded arch (\<lambda>l. evidence k l \<and> X l) (mark_terminal_archived op run aid) (\<lambda>_. gate g k X)"
proof (rule guarded_post [OF guarded_talk])
  show "stable talk (\<lambda>l. evidence k l \<and> X l)"
    by (intro stable_conj lasting_stable_talk lasting_facts assms)
  show "appends talk (mark_terminal_archived op run aid)" by (auto intro!: effects)
qed (simp add: gate_def)

lemma stable_known: "stable talk X \<Longrightarrow> stable talk (\<lambda>l. known r l \<and> X l)"
  by (rule stable_conj [OF lasting_stable_talk [OF lasting_known]])

text \<open>The step both attempts share: the stored record is marked, a failure is handled by \<open>g\<close>.\<close>

lemma stored_guarded:
  assumes "stable talk X" and "guarded arch (\<lambda>l. known run l \<and> X l) m (\<lambda>aid l. evidence k l \<and> X l)"
    and "appends talk m" and "\<And>e. guarded arch (\<lambda>l. known run l \<and> X l) (h e) (\<lambda>_. gate g k X)"
  shows "guarded arch (\<lambda>l. known run l \<and> X l)
    (State_Monad.bind m (\<lambda>r. case r of Inl e \<Rightarrow> h e | Inr aid \<Rightarrow> mark_terminal_archived op run aid))
    (\<lambda>_. gate g k X)"
  by (rule guarded_case [OF assms(2,3) talk_free stable_known [OF assms(1)] assms(4) marked_guarded [OF assms(1)]])

lemma ensure_guarded:
  assumes X: "stable talk X"
  shows "guarded arch (\<lambda>l. known run l \<and> X l) (ensure_terminal_archived op run obs)
    (\<lambda>_. gate (op_runArchiver op) (run_key run) X)"
proof -
  let ?P = "\<lambda>l. known run l \<and> X l" and ?Q = "\<lambda>_. gate (op_runArchiver op) (run_key run) X"
  have P: "stable talk ?P" by (rule stable_known [OF X])
  have skip: "guarded arch ?P (ok ()) ?Q" if "op_runArchiver op \<longrightarrow> archived run"
    using that by (auto intro!: guarded_ok simp: gate_def intro: known_archived)
  have store: "guarded arch ?P (archive_run op run rec) (\<lambda>aid l. evidence (run_key run) l \<and> X l)" for rec
    by (rule guarded_pre [OF archive_run_guarded [OF X]]) auto
  have again: "guarded arch ?P (archive_with_cr_uid_key op run rec) (\<lambda>aid l. evidence (run_key run) l \<and> X l)" for rec
    unfolding archive_with_cr_uid_key_def by (intro guarded_if guarded_fail store)
  show ?thesis unfolding ensure_terminal_archived_def not_yet_stored_def
    by (intro guarded_if skip guarded_case [OF guarded_talk _ talk_free P] pending_guarded P
        stored_guarded [OF X again] stored_guarded [OF X store])
      (auto intro!: effects P simp: archived_def)
qed

section \<open>Teardown\<close>

text \<open>What every effect but a departure from the queue leaves alone.\<close>

definition steady :: "effect \<Rightarrow> bool" where
  "steady e \<longleftrightarrow> (\<forall>k. e \<noteq> LeftQueue k)"

lemma steady_simps [simp]:
  "steady (GotRun r)" "steady (PutRun r)" "steady (PutStatus r)" "steady (StoredStatus r)" "steady (MadeJob k j)"
  "steady (CutJob k c)" "steady (MadePod k p)" "steady (CutPod k c)" "steady (ArchivedRun k a)" "steady (Warned k m)"
  "steady (FedPodState k)" "steady (Admitted k)" "\<not> steady (LeftQueue k)"
  by (simp_all add: steady_def)

lemma talk_steady: "talk e \<Longrightarrow> steady e"
  by (cases e) auto

lemma stable_sub: "stable B P \<Longrightarrow> (\<And>e. A e \<Longrightarrow> B e) \<Longrightarrow> stable A P"
  by (simp add: stable_def)

lemma steady_talk: "stable steady X \<Longrightarrow> stable talk X"
  by (rule stable_sub [OF _ talk_steady])

lemma steady_holding: "stable steady (holding k)"
  by (auto simp: stable_def intro!: holding_snoc)

lemma steady_tear: "stable steady X \<Longrightarrow> stable steady (\<lambda>l. may_tear arch k l \<and> X l)"
  by (rule stable_conj [OF lasting_stable]) (simp_all add: lasting_facts)

lemma steady_true: "stable steady (\<lambda>_. True)"
  by (simp add: stable_def)

definition tears :: "nsname \<Rightarrow> effect \<Rightarrow> bool" where
  "tears k e \<longleftrightarrow> talk e \<or> (\<exists>j. e = CutJob k j) \<or> (\<exists>p. e = CutPod k p)"

lemma tears_steady: "tears k e \<Longrightarrow> steady e"
  by (auto simp: tears_def intro: talk_steady)

lemma tears_guarded:
  assumes "appends (tears k) m" and "stable steady X"
  shows "guarded arch (\<lambda>l. may_tear arch k l \<and> X l) m (\<lambda>_ l. may_tear arch k l \<and> X l)"
proof (rule guarded_allowed [OF assms(1)])
  show "stable (tears k) (\<lambda>l. may_tear arch k l \<and> X l)"
    by (rule stable_sub [OF steady_tear [OF assms(2)] tears_steady])
  show "allowed arch l e" if "may_tear arch k l \<and> X l" "tears k e" for l e
    using that by (auto simp: tears_def intro: free_allowed talk_free)
qed

lemma delete_child_jobs_appends [effects]:
  "(\<And>j. A (CutJob (run_key run) (job_key j))) \<Longrightarrow> appends A (delete_child_jobs op run)"
  unfolding delete_child_jobs_def delete_jobs_def by (auto intro!: effects)

lemma delete_terminal_appends [effects]:
  "(\<And>e. talk e \<Longrightarrow> A e) \<Longrightarrow> (\<And>j. A (CutJob (run_key run) (job_key j))) \<Longrightarrow>
   appends A (delete_terminal_child_jobs op run)"
  unfolding delete_terminal_child_jobs_def reap_terminal_jobs_def delete_jobs_def by (auto intro!: effects)

lemma delete_pods_if_appends [effects]:
  "(\<And>p. A (CutPod (run_key run) (pod_key p))) \<Longrightarrow>
   appends A (if b then delete_run_adapter_pods op run else ok ())"
  by (auto intro!: effects)

section \<open>Parking a run failed\<close>


lemma park_failed_guarded:
  assumes "keyed op" and "run_key update = run_key run" and "is_terminal_phase (st_phase (ru_status update))"
  shows "guarded (op_runArchiver op) (\<lambda>_. True) (park_failed op ctx run update obs) (\<lambda>_ _. True)"
  unfolding park_failed_def
proof (rule guarded_attempt [OF update_status_guarded [OF assms(1)]])
  let ?k = "run_key run" and ?g = "op_runArchiver op"
  show "stable talk (\<lambda>_. True)" by (simp add: stable_def)
  fix stored
  let ?S = "\<lambda>l. known stored l \<and> ended ?k l"
  let ?del = "attempt '''' (delete_child_jobs op run) (\<lambda>_.
      if sp_perScopeSessions (ru_spec run) then delete_run_adapter_pods op run else ok ())"
  have S: "stable free ?S" by (intro lasting_stable lasting_facts lasting_known)
  show "guarded ?g (\<lambda>l. run_key stored = run_key update \<and> PutStatus update \<in> set l \<and> StoredStatus stored \<in> set l \<and> True)
    (State_Monad.bind (queue_release run) (\<lambda>_. attempt '''' (ensure_terminal_archived op stored obs) (\<lambda>_. ?del)))
    (\<lambda>_ _. True)"
  proof (rule guarded_assume)
    assume key: "run_key stored = run_key update"
    have del: "guarded ?g (gate ?g (run_key stored) (ended ?k)) ?del (\<lambda>_ _. True)"
      by (rule guarded_post [OF guarded_pre [OF tears_guarded [where k = ?k and X = "\<lambda>_. True"]]])
        (auto intro!: effects steady_true simp: tears_def gate_def may_tear_def key assms(2))
    have "guarded ?g ?S (attempt '''' (ensure_terminal_archived op stored obs) (\<lambda>_. ?del)) (\<lambda>_ _. True)"
      by (rule guarded_attempt [OF ensure_guarded del]) (intro lasting_stable_talk lasting_facts)
    then have "guarded ?g ?S (State_Monad.bind (queue_release run)
        (\<lambda>_. attempt '''' (ensure_terminal_archived op stored obs) (\<lambda>_. ?del))) (\<lambda>_ _. True)"
      by (intro guarded_quiet [where A = free, OF _ _ S]) (auto intro!: effects)
    then show "guarded ?g (\<lambda>l. PutStatus update \<in> set l \<and> StoredStatus stored \<in> set l \<and> True)
        (State_Monad.bind (queue_release run)
          (\<lambda>_. attempt '''' (ensure_terminal_archived op stored obs) (\<lambda>_. ?del))) (\<lambda>_ _. True)"
      by (rule guarded_pre) (use key assms(2,3) in \<open>auto simp: known_def ended_def over_def\<close>)
  qed
qed

lemma guarded_done: "appends free m \<Longrightarrow> guarded arch P m (\<lambda>_ _. True)"
  by (rule guarded_pre [OF guarded_free]) (simp_all add: lasting_facts)

lemma guarded_answer: "guarded arch P m (\<lambda>_ _. True) \<Longrightarrow> (\<And>a. appends free (f a)) \<Longrightarrow> guarded arch P (attempt ctx m f) (\<lambda>_ _. True)"
  by (rule guarded_attempt [where R = "\<lambda>_ _. True"]) (auto intro: guarded_done)

lemma guarded_now:
  "(\<And>now. guarded arch P (f now) Q) \<Longrightarrow> stable free P \<Longrightarrow> guarded arch P (State_Monad.bind (time_now op) f) Q"
  by (rule guarded_quiet [where A = free]) (auto intro!: effects)

lemma failed_with_facts [simp]:
  "run_key (failed_with now t msg gen u) = run_key u"
  "is_terminal_phase (st_phase (ru_status (failed_with now t msg gen u)))"
  by (simp_all add: failed_with_def upsert_condition_def run_key_def is_terminal_phase_def Let_def)

lemma stable_True: "stable A (\<lambda>_. True)"
  by (simp add: stable_def)

lemma fail_guarded:
  assumes "keyed op" and "run_key update = run_key run"
  shows "guarded (op_runArchiver op) (\<lambda>_. True) (fail_config_render_drift op run update d) (\<lambda>_ _. True)"
    and "guarded (op_runArchiver op) (\<lambda>_. True) (fail_adapter_image_conflict op run update d) (\<lambda>_ _. True)"
  unfolding fail_config_render_drift_def fail_adapter_image_conflict_def
  by (intro guarded_now stable_True guarded_answer park_failed_guarded assms; auto intro!: effects simp: assms)+

lemma refuse_guarded:
  assumes "keyed op"
  shows "guarded (op_runArchiver op) (\<lambda>_. True) (fail_base_image_mismatch op run p c) (\<lambda>_ _. True)"
    and "guarded (op_runArchiver op) (\<lambda>_. True) (refuse_missing_workflow_source op run) (\<lambda>_ _. True)"
    and "guarded (op_runArchiver op) (\<lambda>_. True) (refuse_interface_binding_mismatch op run d) (\<lambda>_ _. True)"
  unfolding fail_base_image_mismatch_def refuse_missing_workflow_source_def refuse_interface_binding_mismatch_def Let_def
  by (intro guarded_now stable_True guarded_answer park_failed_guarded assms; auto intro!: effects)+

lemma stalled_guarded:
  assumes "keyed op" and "run_key update = run_key run" and "is_terminal_phase (st_phase (ru_status update))"
  shows "guarded (op_runArchiver op) (\<lambda>_. True) (fail_run_stalled op run update obs) (\<lambda>_ _. True)"
  unfolding fail_run_stalled_def
  by (intro guarded_answer park_failed_guarded assms) (auto intro!: effects)

section \<open>Deletion\<close>

lemma finalize_guarded:
  assumes "keyed op" and "is_deleting run"
  shows "guarded (op_runArchiver op) (\<lambda>l. GotRun run \<in> set l) (finalize op run) (\<lambda>_ _. True)"
proof -
  let ?g = "op_runArchiver op" and ?k = "run_key run"
  let ?S = "\<lambda>l. known run l \<and> ended ?k l"
  let ?T = "\<lambda>l. may_tear ?g ?k l \<and> True"
  have S: "stable free ?S" by (intro lasting_stable lasting_facts lasting_known)
  have last: "guarded ?g ?T (attempt ctx (update_run op (remove_finalizer fresh)) (\<lambda>_. ok None)) (\<lambda>_ _. True)"
    if "run_key fresh = ?k" for fresh ctx
  proof (rule guarded_answer)
    show "guarded ?g ?T (update_run op (remove_finalizer fresh)) (\<lambda>_ _. True)"
      by (rule guarded_post [OF guarded_allowed [where A = "\<lambda>e. e = PutRun (remove_finalizer fresh)"]])
        (use that in \<open>auto intro!: effects lasting_stable lasting_facts simp: remove_finalizer_def run_key_def\<close>)
  qed (auto intro!: effects)
  have rest: "guarded ?g (\<lambda>l. run_key fresh = ?k \<and> GotRun fresh \<in> set l \<and> gate ?g ?k (ended ?k) l)
     (attempt '''' (delete_child_jobs op fresh) (\<lambda>_.
      attempt '''' (if sp_perScopeSessions (ru_spec fresh) then delete_run_adapter_pods op fresh else ok ()) (\<lambda>_.
      attempt ''removing finalizer'' (update_run op (remove_finalizer fresh)) (\<lambda>_. ok None)))) (\<lambda>_ _. True)" for fresh
  proof (rule guarded_assume)
    assume key: "run_key fresh = ?k"
    show "guarded ?g (\<lambda>l. GotRun fresh \<in> set l \<and> gate ?g ?k (ended ?k) l)
     (attempt '''' (delete_child_jobs op fresh) (\<lambda>_.
      attempt '''' (if sp_perScopeSessions (ru_spec fresh) then delete_run_adapter_pods op fresh else ok ()) (\<lambda>_.
      attempt ''removing finalizer'' (update_run op (remove_finalizer fresh)) (\<lambda>_. ok None)))) (\<lambda>_ _. True)"
      by (rule guarded_pre [where P = ?T],
          intro guarded_attempt [OF tears_guarded] guarded_attempt [OF tears_guarded] last key steady_true)
        (auto intro!: effects simp: tears_def gate_def may_tear_def key)
  qed
  have gated: "guarded ?g ?S (attempt '''' (ensure_terminal_archived op run None) (\<lambda>_.
      attempt ''re-reading CriteriaRun after the archive stamp'' (get_run op ?k) (\<lambda>fresh.
      attempt '''' (delete_child_jobs op fresh) (\<lambda>_.
      attempt '''' (if sp_perScopeSessions (ru_spec fresh) then delete_run_adapter_pods op fresh else ok ()) (\<lambda>_.
      attempt ''removing finalizer'' (update_run op (remove_finalizer fresh)) (\<lambda>_. ok None)))))) (\<lambda>_ _. True)"
    by (rule guarded_attempt [OF ensure_guarded guarded_attempt [OF get_run_guarded [OF assms(1)] rest]])
      (intro lasting_stable_talk lasting_gate lasting_facts)+
  show ?thesis unfolding finalize_def
  proof (intro guarded_if)
    assume "\<not> \<not> has_finalizer run"
    show "guarded ?g (\<lambda>l. GotRun run \<in> set l) (State_Monad.bind (queue_release run) (\<lambda>_.
      attempt '''' (ensure_terminal_archived op run None) (\<lambda>_.
      attempt ''re-reading CriteriaRun after the archive stamp'' (get_run op ?k) (\<lambda>fresh.
      attempt '''' (delete_child_jobs op fresh) (\<lambda>_.
      attempt '''' (if sp_perScopeSessions (ru_spec fresh) then delete_run_adapter_pods op fresh else ok ()) (\<lambda>_.
      attempt ''removing finalizer'' (update_run op (remove_finalizer fresh)) (\<lambda>_. ok None))))))) (\<lambda>_ _. True)"
      by (rule guarded_pre [OF guarded_quiet [where A = free, OF _ _ S gated]])
        (use assms(2) in \<open>auto intro!: effects simp: known_def ended_def over_def\<close>)
  qed (auto intro: guarded_done effects)
qed

section \<open>A finished run\<close>

text \<open>The value of a step that is not an attempt.\<close>

definition yields :: "('w, 'a) pass \<Rightarrow> ('a \<Rightarrow> bool) \<Rightarrow> bool" where
  "yields m F \<longleftrightarrow> (\<forall>s a s'. run_state m s = (a, s') \<longrightarrow> F a)"

lemma yields_ret: "F a \<Longrightarrow> yields (ret a) F"
  by (simp add: yields_def)

lemma yields_bind: "yields m G \<Longrightarrow> (\<And>a. G a \<Longrightarrow> yields (f a) F) \<Longrightarrow> yields (State_Monad.bind m f) F"
  unfolding yields_def by (auto split: prod.splits; blast)

lemma yields_any: "yields m (\<lambda>_. True)"
  by (simp add: yields_def)

lemma answers_yields: "answers m F \<Longrightarrow> yields m (\<lambda>r. \<forall>a. r = Inr a \<longrightarrow> F a)"
  unfolding answers_def yields_def by blast

lemma guarded_step:
  assumes "appends free m" and "yields m F" and "stable free P" and "\<And>a. F a \<Longrightarrow> guarded arch P (f a) Q"
  shows "guarded arch P (State_Monad.bind m f) Q"
proof (rule guarded_bind [where R = "\<lambda>a l. F a \<and> P l"])
  have "hoare (\<lambda>l. safe arch l \<and> P l) m (\<lambda>_ l. safe arch l \<and> P l)"
    by (rule appends_hoare [OF assms(1)]) (intro stable_conj stable_safe assms(3))
  then show "hoare (\<lambda>l. safe arch l \<and> P l) m (\<lambda>a l. safe arch l \<and> F a \<and> P l)"
    using assms(2) unfolding yields_def hoare_def by blast
  show "guarded arch (\<lambda>l. F a \<and> P l) (f a) Q" for a
    by (rule guarded_assume) (rule assms(4))
qed

lemma layer_observation_key [simp]: "run_key (layer_observation run obs u) = run_key u"
  by (simp add: layer_observation_def Let_def run_key_def)

lemma observe_castle_answers: "answers (observe_castle op run u) (\<lambda>(obs, v). run_key v = run_key u)"
  unfolding observe_castle_def by (auto intro!: answers_if answers_ok answers_attempt)

lemma observe_terminal_yields:
  "yields (observe_terminal op run) (\<lambda>seen. \<forall>obs u stop. seen = Some (obs, u, stop) \<longrightarrow> run_key u = run_key run)"
  unfolding observe_terminal_def
  by (auto intro!: yields_ret yields_bind [OF answers_yields [OF observe_castle_answers]] split: sum.splits)

lemma stamp_terminal_at_key [simp]: "run_key (stamp_terminal_at now obs u) = run_key u"
  by (auto simp: stamp_terminal_at_def run_key_def Let_def split: option.splits)

lemma sweep_appends: "appends free (sweep_terminal_pods op run stop)"
  unfolding sweep_terminal_pods_def by (auto intro!: effects split: sum.splits)

lemma terminal_tail_guarded:
  assumes "keyed op" and "run_key update0 = run_key run"
  shows "guarded (op_runArchiver op) (\<lambda>l. known run l \<and> ended (run_key run) l)
    (attempt '''' (write_status op ctx run update0) (\<lambda>update.
     attempt '''' (ensure_terminal_archived op update (Some obs)) (\<lambda>_.
     attempt '''' (delete_terminal_child_jobs op update) (\<lambda>deferred.
       if deferred then ok (Some terminal_reap_requeue_interval) else sweep_terminal_pods op update stop)))) (\<lambda>_ _. True)"
proof (rule guarded_attempt [OF write_status_guarded [OF assms(1)]])
  let ?g = "op_runArchiver op" and ?k = "run_key run"
  fix u
  have tail: "guarded ?g (gate ?g (run_key u) (ended ?k))
     (attempt '''' (delete_terminal_child_jobs op u) (\<lambda>deferred.
       if deferred then ok (Some terminal_reap_requeue_interval) else sweep_terminal_pods op u stop)) (\<lambda>_ _. True)"
    if "run_key u = ?k"
  proof (rule guarded_answer)
    show "guarded ?g (gate ?g (run_key u) (ended ?k)) (delete_terminal_child_jobs op u) (\<lambda>_ _. True)"
      by (rule guarded_post [OF guarded_pre [OF tears_guarded [where k = ?k and X = "\<lambda>_. True"]]])
        (auto intro!: effects steady_true simp: tears_def gate_def may_tear_def that)
  qed (auto intro!: effects sweep_appends)
  show "guarded ?g (\<lambda>l. run_key u = ?k \<and> known u l \<and> ended ?k l)
     (attempt '''' (ensure_terminal_archived op u (Some obs)) (\<lambda>_.
      attempt '''' (delete_terminal_child_jobs op u) (\<lambda>deferred.
        if deferred then ok (Some terminal_reap_requeue_interval) else sweep_terminal_pods op u stop))) (\<lambda>_ _. True)"
    by (rule guarded_assume, rule guarded_attempt [OF ensure_guarded tail]) (intro lasting_stable_talk lasting_facts)
qed (use assms(2) in \<open>auto intro: lasting_stable_talk lasting_facts\<close>)

lemma reconcile_terminal_guarded:
  assumes "keyed op" and "is_terminal_phase (st_phase (ru_status run))"
  shows "guarded (op_runArchiver op) (known run) (reconcile_terminal op run) (\<lambda>_ _. True)"
proof -
  let ?S = "\<lambda>l. known run l \<and> ended (run_key run) l"
  have S: "stable free ?S" by (intro lasting_stable lasting_facts lasting_known)
  have free: "appends free (queue_release run)" "appends free (observe_terminal op run)"
    "appends free (ok (Some per_scope_requeue_interval))"
    by (auto intro!: effects)
  have "guarded (op_runArchiver op) ?S (reconcile_terminal op run) (\<lambda>_ _. True)"
    unfolding reconcile_terminal_def
  proof (rule guarded_step [OF free(1) yields_any S], rule guarded_step [OF free(2) observe_terminal_yields S],
      rule guarded_option, rule guarded_done, rule free(3))
    fix seen and a :: "observation \<times> criteria_run \<times> bool"
    assume F: "\<forall>obs u stop. seen = Some (obs, u, stop) \<longrightarrow> run_key u = run_key run" and seen: "seen = Some a"
    obtain obs u stop where a: "a = (obs, u, stop)" by (cases a)
    show "guarded (op_runArchiver op) ?S (case a of (obs, update0, stop) \<Rightarrow> State_Monad.bind (time_now op) (\<lambda>now.
      attempt '''' (write_status op ''updating terminal status'' run (stamp_terminal_at now (Some obs) update0)) (\<lambda>update.
      attempt '''' (ensure_terminal_archived op update (Some obs)) (\<lambda>_.
      attempt '''' (delete_terminal_child_jobs op update) (\<lambda>deferred.
        if deferred then ok (Some terminal_reap_requeue_interval)
        else sweep_terminal_pods op update stop))))) (\<lambda>_ _. True)"
      unfolding a prod.case
      by (intro guarded_now S terminal_tail_guarded [OF assms(1)]) (use F seen a in simp)
  qed
  then show ?thesis by (rule guarded_pre) (simp add: assms(2) known_over)
qed

section \<open>An admitted run\<close>

definition acts :: "nsname \<Rightarrow> effect \<Rightarrow> bool" where
  "acts k e \<longleftrightarrow> talk e \<or> (\<exists>j. e = MadeJob k j) \<or> (\<exists>p. e = MadePod k p) \<or> (\<exists>p. e = CutPod k p)"

lemma acts_intros [simp, intro]:
  "talk e \<Longrightarrow> acts k e" "acts k (MadeJob k j)" "acts k (MadePod k p)" "acts k (CutPod k c)"
  by (simp_all add: acts_def)

lemma acts_guarded:
  assumes "appends (acts k) m" and "stable steady X"
  shows "guarded arch (\<lambda>l. holding k l \<and> X l) m (\<lambda>_ l. holding k l \<and> X l)"
proof (rule guarded_allowed [OF assms(1)])
  show "stable (acts k) (\<lambda>l. holding k l \<and> X l)"
    by (rule stable_sub [OF stable_conj [OF steady_holding assms(2)]]) (auto simp: acts_def intro: talk_steady)
  show "allowed arch l e" if "holding k l \<and> X l" "acts k e" for l e
    using that by (auto simp: acts_def intro: free_allowed talk_free)
qed

lemma ensure_jobs_appends [effects]:
  assumes "\<And>j. A (MadeJob (run_key run) j)"
  shows "appends A (ensure_jobs op run acc js)"
proof (induction js arbitrary: acc)
  case Nil
  show ?case by (cases acc) (auto intro!: effects)
next
  case (Cons j js)
  show ?case by (cases acc) (auto intro!: effects assms Cons.IH)
qed

lemma converge_appends [effects]:
  assumes "\<And>p. A (MadePod (run_key run) p)" "\<And>p. A (CutPod (run_key run) (pod_key p))" "A (FedPodState (run_key run))"
  shows "appends A (converge_pods op run rid n want)"
  unfolding converge_pods_def
  by (auto intro!: effects delete_undesired_appends create_missing_appends assms)

lemma per_scope_appends [effects]:
  assumes "\<And>p. A (MadePod (run_key run) p)" "\<And>p. A (CutPod (run_key run) (pod_key p))" "A (FedPodState (run_key run))"
  shows "appends A (reconcile_per_scope_adapters op run rid lc raw)"
  unfolding reconcile_per_scope_adapters_def Let_def by (auto intro!: effects assms)

lemma finish_appends: "appends free (finish_pass op run st obs n)"
  unfolding finish_pass_def by (auto intro!: effects)

lemma actuate_guarded:
  assumes "keyed op" and "run_key update = run_key run"
  shows "guarded (op_runArchiver op) (holding (run_key run)) (actuate_adapters op run update obs) (\<lambda>_ _. True)"
proof -
  let ?g = "op_runArchiver op" and ?H = "holding (run_key run)"
  have scope: "guarded ?g ?H (reconcile_per_scope_adapters op run rid lc raw) (\<lambda>_ _. True)" for rid lc raw
    by (rule guarded_post [OF guarded_pre [OF acts_guarded [where k = "run_key run" and X = "\<lambda>_. True"]]])
      (auto intro!: effects steady_true)
  have conflict: "guarded ?g ?H (fail_adapter_image_conflict op run update d) (\<lambda>_ _. True)" for d
    by (rule guarded_pre [OF fail_guarded(2) [OF assms]]) simp
  have stop: "guarded ?g ?H (delete_run_adapter_pods op run) (\<lambda>_ _. True)"
    by (auto intro!: guarded_done effects)
  show ?thesis unfolding actuate_adapters_def Let_def
    by (intro guarded_option guarded_if guarded_answer [OF scope] guarded_answer [OF stop] conflict
        guarded_done finish_appends)
qed

lemma reap_guarded:
  assumes "keyed op" and "run_key update = run_key run"
  shows "guarded (op_runArchiver op) (\<lambda>l. known update l \<and> holding (run_key run) l)
    (reap_if_terminal op run update obs provisioned) (\<lambda>_. holding (run_key run))"
proof -
  let ?g = "op_runArchiver op" and ?k = "run_key run"
  let ?X = "\<lambda>l. ended ?k l \<and> holding ?k l"
  have X: "stable talk ?X"
    by (intro stable_conj lasting_stable_talk lasting_facts steady_talk steady_holding)
  have cut: "guarded ?g (gate ?g ?k ?X) (delete_terminal_child_jobs op run) (\<lambda>_. holding ?k)"
    by (rule guarded_post [OF guarded_pre [OF tears_guarded [where k = ?k and X = "holding ?k"]]])
      (auto intro!: effects steady_holding simp: tears_def gate_def may_tear_def)
  have "guarded ?g (\<lambda>l. known update l \<and> ?X l)
      (attempt '''' (ensure_terminal_archived op update obs) (\<lambda>_. delete_terminal_child_jobs op run)) (\<lambda>_. holding ?k)"
    by (rule guarded_attempt [OF ensure_guarded [OF X]]) (simp add: assms(2) cut)
  moreover have "ended ?k l" if "known update l" "is_terminal_phase (st_phase (ru_status update))" for l
    using known_over [OF that] assms(2) by simp
  ultimately show ?thesis unfolding reap_if_terminal_def
    by (intro guarded_if guarded_ok) (auto elim!: guarded_pre)
qed

lemma stamp_launch_key [simp]: "run_key (stamp_launch_manifest a b c d u s) = run_key u"
  by (simp add: stamp_launch_manifest_def run_key_def Let_def split: option.splits sum.splits)

lemma persist_guarded:
  assumes "keyed op" and "run_key update0 = run_key run"
  shows "guarded (op_runArchiver op) (\<lambda>l. known run l \<and> holding (run_key run) l)
    (persist_and_actuate op run csum provisioned update0 obs) (\<lambda>_ _. True)"
  unfolding persist_and_actuate_def
proof (rule guarded_quiet [where A = talk])
  let ?g = "op_runArchiver op" and ?k = "run_key run"
  show "stable talk (\<lambda>l. known run l \<and> holding ?k l)"
    by (intro stable_known steady_talk steady_holding)
  fix now
  have tail: "guarded ?g (\<lambda>l. run_key u = ?k \<and> known u l \<and> holding ?k l)
     (attempt '''' (reap_if_terminal op run u obs provisioned) (\<lambda>deferred.
        if deferred then ok (Some terminal_reap_requeue_interval) else actuate_adapters op run u obs))
     (\<lambda>_ _. True)" for u
    by (rule guarded_assume, rule guarded_attempt [OF reap_guarded [OF assms(1)]])
      (auto intro!: guarded_if actuate_guarded [OF assms(1)] guarded_ok)
  show "guarded ?g (\<lambda>l. known run l \<and> holding ?k l)
     (attempt '''' (write_status op ''updating status'' run (stamp_launch_manifest (op_jsonInterface op)
        (op_jsonWorkflow op) (lb_sha256 (op_lib op)) (operator_version_of (op_operatorVersion op))
        (stamp_terminal_at now obs update0) csum)) (\<lambda>update.
      attempt '''' (reap_if_terminal op run update obs provisioned) (\<lambda>deferred.
        if deferred then ok (Some terminal_reap_requeue_interval) else actuate_adapters op run update obs)))
     (\<lambda>_ _. True)"
    by (rule guarded_attempt [OF write_status_guarded [OF assms(1)] tail])
      (auto intro: steady_talk steady_holding simp: assms(2))
qed (auto intro!: effects talk_free)

text \<open>An object with the key and the status of the run that was read; only these two carry the argument.\<close>

definition alike :: "criteria_run \<Rightarrow> criteria_run \<Rightarrow> bool" where
  "alike r q \<longleftrightarrow> run_key q = run_key r \<and> ru_status q = ru_status r"

definition kept :: "criteria_run \<Rightarrow> effect list \<Rightarrow> bool" where
  "kept r l \<longleftrightarrow> known r l \<and> holding (run_key r) l"

lemma steady_kept: "stable steady (kept r)"
  unfolding kept_def by (intro stable_conj lasting_stable lasting_known steady_holding)

lemma kept_alike: "alike r q \<Longrightarrow> kept q l = kept r l"
  by (simp add: alike_def kept_def known_def)

lemma alike_refl: "alike r r"
  by (simp add: alike_def)

lemma watchdog_facts:
  "apply_stall_watchdog fmt dur w now run obs u = (stalled, v) \<Longrightarrow>
     run_key v = run_key u \<and> (stalled \<longrightarrow> is_terminal_phase (st_phase (ru_status v)))"
  by (auto simp: apply_stall_watchdog_def mark_stall_watchdog_def upsert_condition_def run_key_def
      is_terminal_phase_def Let_def split: if_splits)

lemma watchdog_yields:
  "yields (watchdog_step op run obs u)
     (\<lambda>(stalled, v). run_key v = run_key u \<and> (stalled \<longrightarrow> is_terminal_phase (st_phase (ru_status v))))"
  unfolding watchdog_step_def
  by (auto intro!: yields_ret yields_bind [OF yields_any] dest: watchdog_facts)

lemma base_status_key [simp]: "run_key (base_status j c u) = run_key u"
  by (simp add: base_status_def run_key_def Let_def)

lemma observe_persist_guarded:
  assumes "keyed op" and "run_key update = run_key run"
  shows "guarded (op_runArchiver op) (kept run) (observe_and_persist op run csum cur update j prov) (\<lambda>_ _. True)"
proof -
  let ?g = "op_runArchiver op" and ?u = "base_status j cur update"
  have K: "stable free (\<lambda>_. True)" by (simp add: stable_def)
  have talk: "stable talk (kept run)" by (intro steady_talk steady_kept)
  have persist: "guarded ?g (kept run) (persist_and_actuate op run csum prov v obs) (\<lambda>_ _. True)"
    if "run_key v = run_key run" for v obs
    by (rule guarded_pre [OF persist_guarded [OF assms(1) that]]) (simp add: kept_def)
  have judged: "guarded ?g (kept run) (State_Monad.bind (watchdog_step op run obs v) (\<lambda>(stalled, judged).
       if stalled then fail_run_stalled op run judged obs
       else persist_and_actuate op run csum prov judged (Some obs))) (\<lambda>_ _. True)"
    if "run_key v = run_key run" for obs v
  proof (rule guarded_bind [where R = "\<lambda>(stalled, w) l. (run_key w = run_key run \<and>
        (stalled \<longrightarrow> is_terminal_phase (st_phase (ru_status w)))) \<and> kept run l"])
    have "hoare (\<lambda>l. safe ?g l \<and> kept run l) (watchdog_step op run obs v) (\<lambda>_ l. safe ?g l \<and> kept run l)"
      by (rule appends_hoare [where A = talk])
        (auto intro!: effects stable_conj stable_safe talk intro: talk_free)
    then show "hoare (\<lambda>l. safe ?g l \<and> kept run l) (watchdog_step op run obs v)
      (\<lambda>a l. safe ?g l \<and> (case a of (stalled, w) \<Rightarrow> \<lambda>l. (run_key w = run_key run \<and>
        (stalled \<longrightarrow> is_terminal_phase (st_phase (ru_status w)))) \<and> kept run l) l)"
      using watchdog_yields [of op run obs v] that unfolding yields_def hoare_def by fastforce
    show "guarded ?g ((case a of (stalled, w) \<Rightarrow> \<lambda>l. (run_key w = run_key run \<and>
        (stalled \<longrightarrow> is_terminal_phase (st_phase (ru_status w)))) \<and> kept run l))
      (case a of (stalled, judged) \<Rightarrow> if stalled then fail_run_stalled op run judged obs
       else persist_and_actuate op run csum prov judged (Some obs)) (\<lambda>_ _. True)" for a
      by (cases a)
        (auto intro!: guarded_assume persist intro: guarded_pre [OF stalled_guarded [OF assms(1)]])
  qed
  show ?thesis unfolding observe_and_persist_def Let_def
  proof (rule guarded_case [where A = talk and R = "\<lambda>(obs, v) l. run_key v = run_key run \<and> kept run l"])
    have "guarded ?g (kept run) (observe_castle op run ?u) (\<lambda>_. kept run)"
      by (rule guarded_talk [OF _ talk]) (auto intro!: effects)
    from guarded_answers [OF observe_castle_answers this]
    show "guarded ?g (kept run) (observe_castle op run ?u) (\<lambda>(obs, v) l. run_key v = run_key run \<and> kept run l)"
      by (rule guarded_post) (simp add: assms(2) split: prod.splits)
  qed (use assms(2) in \<open>auto intro!: effects talk_free talk persist judged guarded_assume\<close>)
qed

lemma enroll_answers: "answers (enroll_run op d run) (alike run)"
  unfolding enroll_run_def alike_def
  by (auto intro!: answers_if answers_ok answers_attempt simp: run_key_def)

lemma answers_option:
  "(x = None \<Longrightarrow> answers m F) \<Longrightarrow> (\<And>a. x = Some a \<Longrightarrow> answers (f a) F) \<Longrightarrow>
   answers (case x of None \<Rightarrow> m | Some a \<Rightarrow> f a) F"
  by (cases x) auto

lemma answers_sum:
  "(\<And>e. x = Inl e \<Longrightarrow> answers (g e) F) \<Longrightarrow> (\<And>a. x = Inr a \<Longrightarrow> answers (f a) F) \<Longrightarrow>
   answers (case x of Inl e \<Rightarrow> g e | Inr a \<Rightarrow> f a) F"
  by (cases x) auto

lemmas answers_rules = answers_if answers_ok answers_fail answers_attempt answers_bind answers_option answers_sum

lemma render_alike [simp]:
  "alike run (apply_render_to_spec run r)" "run_key (record_render u r) = run_key u"
  by (simp_all add: alike_def apply_render_to_spec_def record_render_def run_key_def)

lemma render_answers: "answers (render_for op run u) (\<lambda>(d, q, v). alike run q \<and> run_key v = run_key u)"
  unfolding render_for_def render_run_config_def render_project_binding_config_def verify_render_def
    render_spec_fields_def Let_def
  by (intro answers_rules; simp add: alike_refl)

lemma materialize_alike: "alike run (materialize_project_binding run p)"
  by (simp add: materialize_project_binding_def alike_def run_key_def split: option.splits)

lemma admit_binding_answers:
  "answers (admit_binding op run) (\<lambda>r. \<forall>q csum. r = Inr (q, csum) \<longrightarrow> alike run q)"
  unfolding admit_binding_def
  by (auto intro!: answers_rules simp: alike_refl materialize_alike split: sum.splits)

lemma kept_talk: "appends talk m \<Longrightarrow> guarded arch (kept r) m (\<lambda>_. kept r)"
  by (rule guarded_talk [OF _ steady_talk [OF steady_kept]])

lemma guarded_weak: "guarded arch (\<lambda>_. True) m Q \<Longrightarrow> guarded arch P m Q"
  by (rule guarded_pre) simp_all

lemma guarded_alike:
  assumes "guarded arch (kept q) m Q" and "alike r q"
  shows "guarded arch (kept r) m Q"
  by (rule guarded_pre [OF assms(1)]) (simp add: kept_alike [OF assms(2)])

lemma provision_guarded:
  assumes "keyed op" and "run_key update = run_key run"
  shows "guarded (op_runArchiver op) (kept run) (provision op run csum d cur update) (\<lambda>_ _. True)"
proof -
  let ?g = "op_runArchiver op"
  have jobs: "guarded ?g (kept run) (ensure_jobs op q acc js) (\<lambda>_. kept run)" if "alike run q" for q acc js
  proof -
    have "appends (acts (run_key run)) (ensure_jobs op q acc js)"
      using that by (auto simp: alike_def intro!: effects)
    from acts_guarded [OF this lasting_stable [OF lasting_known], of ?g run]
    show ?thesis by (simp add: kept_def [abs_def] conj_commute)
  qed
  have go: "guarded ?g (kept run) (case x of (runner, prov) \<Rightarrow> case runner of
       None \<Rightarrow> fail (ErrMsg ''no runner job found in desired set'')
     | Some j \<Rightarrow> observe_and_persist op q csum cur update j prov) (\<lambda>_ _. True)" if "alike run q" for q x
    by (cases x) (auto intro!: guarded_option guarded_fail
        guarded_alike [OF observe_persist_guarded [OF assms(1)] that] simp: assms(2) that [unfolded alike_def])
  show ?thesis unfolding provision_def
  proof (rule guarded_attempt)
    show "guarded ?g (kept run) (enroll_run op d run) (\<lambda>q l. alike run q \<and> kept run l)"
      by (rule guarded_answers [OF enroll_answers kept_talk]) (auto intro!: effects)
    show "guarded ?g (\<lambda>l. alike run q \<and> kept run l)
      (attempt '''' (ensure_jobs op q (None, False) (build_all (op_lib op) q d)) (\<lambda>(runner, provisioned).
         case runner of None \<Rightarrow> fail (ErrMsg ''no runner job found in desired set'')
         | Some j \<Rightarrow> observe_and_persist op q csum cur update j provisioned)) (\<lambda>_ _. True)" for q
      by (rule guarded_assume, rule guarded_attempt [OF jobs go])
  qed
qed

lemma build_guarded:
  assumes "keyed op" and "run_key update = run_key run"
  shows "guarded (op_runArchiver op) (kept run) (build_pass op run csum update existing) (\<lambda>_ _. True)"
proof -
  let ?g = "op_runArchiver op"
  have K: "stable talk (kept run)" by (intro steady_talk steady_kept)
  have render: "guarded ?g (kept run) (render_for op run update)
      (\<lambda>(d, q, v) l. (alike run q \<and> run_key v = run_key update) \<and> kept run l)"
    by (rule guarded_post [OF guarded_answers [OF render_answers kept_talk]]) (auto intro!: effects)
  have go: "guarded ?g (\<lambda>l. (alike run q \<and> run_key v = run_key update) \<and> kept run l)
     (if d \<noteq> '''' then fail_config_render_drift op q v d else provision op q csum res cur v) (\<lambda>_ _. True)" for q v d res cur
  proof (rule guarded_assume, intro guarded_if)
    assume "alike run q \<and> run_key v = run_key update"
    then have q: "alike run q" and key: "run_key v = run_key q" using assms(2) by (simp_all add: alike_def)
    show "guarded ?g (kept run) (fail_config_render_drift op q v d) (\<lambda>_ _. True)"
      by (rule guarded_weak [OF fail_guarded(1) [OF assms(1) key]])
    show "guarded ?g (kept run) (provision op q csum res cur v) (\<lambda>_ _. True)"
      by (rule guarded_alike [OF provision_guarded [OF assms(1) key] q])
  qed
  show ?thesis unfolding build_pass_def Let_def
    by (rule guarded_quiet [where A = talk])
      (auto intro!: effects talk_free K guarded_option guarded_attempt [OF render] go
        guarded_weak [OF refuse_guarded(1) [OF assms(1)]] split: prod.splits)
qed

lemma admitted_guarded:
  assumes "keyed op" and "run_key update = run_key run"
  shows "guarded (op_runArchiver op) (kept run) (admitted_pass op run csum update) (\<lambda>_ _. True)"
  unfolding admitted_pass_def
  by (rule guarded_quiet [where A = talk])
    (auto intro!: effects talk_free steady_talk steady_kept guarded_sum guarded_if guarded_fail build_guarded assms)

section \<open>Admission and the pass\<close>

lemma enqueue_guarded:
  "guarded arch (known run) (State_Monad.bind (queue_enqueue run) f) Q"
  if "\<And>st. guarded arch (known run) (f (False, st)) Q" and "\<And>st. guarded arch (kept run) (f (True, st)) Q"
proof (rule guarded_bind [where R = "\<lambda>(adm, st) l. if adm then kept run l else known run l"])
  show "hoare (\<lambda>l. safe arch l \<and> known run l) (queue_enqueue run)
    (\<lambda>a l. safe arch l \<and> (case a of (adm, st) \<Rightarrow> \<lambda>l. if adm then kept run l else known run l) l)"
    by (auto simp: hoare_def queue_enqueue_def kept_def known_def safe_snoc holding_admitted
        split: prod.splits if_splits)
  show "guarded arch ((case a of (adm, st) \<Rightarrow> \<lambda>l. if adm then kept run l else known run l)) (f a) Q" for a
    using that by (cases a; cases "fst a") auto
qed

lemma queued_update_key [simp]: "run_key (queued_update op run st) = run_key run"
  by (simp add: queued_update_def run_key_def)

lemma hold_in_queue_appends: "appends free (hold_in_queue op run update)"
  unfolding hold_in_queue_def by (auto intro!: effects talk_free)

lemma refuse_second_appends: "appends free (refuse_second_active op run b)"
  unfolding refuse_second_active_def by (auto intro!: effects)

lemma admit_guarded:
  assumes "keyed op"
  shows "guarded (op_runArchiver op) (known run) (admit op run csum) (\<lambda>_ _. True)"
  unfolding admit_def Let_def
proof (rule enqueue_guarded)
  let ?g = "op_runArchiver op"
  have go: "guarded ?g (kept run) (admitted_pass op run csum (queued_update op run st)) (\<lambda>_ _. True)" for st
    by (rule admitted_guarded [OF assms]) simp
  have election: "guarded ?g (kept run) (single_active_ticket_run op run) (\<lambda>_. kept run)"
    by (rule kept_talk) (auto intro!: effects)
  have elected: "guarded ?g (kept run) (if blocker \<noteq> '''' then refuse_second_active op run blocker
      else admitted_pass op run csum (queued_update op run st)) (\<lambda>_ _. True)" for blocker st
    by (rule guarded_if) (rule guarded_done [OF refuse_second_appends], rule go)
  show "guarded ?g (kept run) (case (True, st) of (admitted, qstatus) \<Rightarrow>
      if \<not> admitted then hold_in_queue op run (queued_update op run qstatus)
      else if st_jobName (ru_status run) = '''' then attempt '''' (single_active_ticket_run op run) (\<lambda>blocker.
             if blocker \<noteq> '''' then refuse_second_active op run blocker
             else admitted_pass op run csum (queued_update op run qstatus))
      else admitted_pass op run csum (queued_update op run qstatus)) (\<lambda>_ _. True)" for st
    using guarded_attempt [OF election elected] go by simp
qed (auto intro!: guarded_done hold_in_queue_appends)

lemma reconcile_live_guarded:
  assumes "keyed op"
  shows "guarded (op_runArchiver op) (known run) (reconcile_live op run) (\<lambda>_ _. True)"
proof -
  let ?g = "op_runArchiver op"
  have refuse: "guarded ?g P (refuse_interface_binding_mismatch op q d) (\<lambda>_ _. True)" for P q d
    by (rule guarded_weak [OF refuse_guarded(3) [OF assms]])
  have binding: "guarded ?g (known run) (admit_binding op run)
      (\<lambda>r l. (\<forall>q csum. r = Inr (q, csum) \<longrightarrow> alike run q) \<and> known run l)"
    by (rule guarded_answers [OF admit_binding_answers guarded_talk])
      (auto intro!: effects intro: lasting_stable_talk lasting_known)
  have next_step: "guarded ?g (\<lambda>l. (\<forall>q csum. r = Inr (q, csum) \<longrightarrow> alike run q) \<and> known run l)
      (case r of Inl refusal \<Rightarrow> refuse_interface_binding_mismatch op run refusal
       | Inr (q, csum) \<Rightarrow> (case binding_refusal q (csum \<noteq> '''') of
           Some message \<Rightarrow> refuse_interface_binding_mismatch op q message
         | None \<Rightarrow> admit op q csum)) (\<lambda>_ _. True)" for r
  proof (rule guarded_assume, cases r)
    fix a assume "\<forall>q csum. r = Inr (q, csum) \<longrightarrow> alike run q" and r: "r = Inr a"
    then obtain q csum where a: "a = (q, csum)" "alike run q" by (cases a) auto
    have "guarded ?g (known run) (admit op q csum) (\<lambda>_ _. True)"
      by (rule guarded_pre [OF admit_guarded [OF assms]]) (use a(2) in \<open>auto simp: alike_def intro: known_same\<close>)
    with r a(1) show "guarded ?g (known run)
      (case r of Inl refusal \<Rightarrow> refuse_interface_binding_mismatch op run refusal
       | Inr (q, csum) \<Rightarrow> (case binding_refusal q (csum \<noteq> '''') of
           Some message \<Rightarrow> refuse_interface_binding_mismatch op q message
         | None \<Rightarrow> admit op q csum)) (\<lambda>_ _. True)"
      by (auto intro: refuse split: option.splits)
  qed (auto intro: refuse)
  show ?thesis unfolding reconcile_live_def
    by (intro guarded_if guarded_option guarded_attempt [OF binding next_step] refuse
        guarded_weak [OF refuse_guarded(2) [OF assms]])
qed

lemma reconcile_fetched_guarded:
  "keyed op \<Longrightarrow> guarded (op_runArchiver op) (known run) (reconcile_fetched op run) (\<lambda>_ _. True)"
  unfolding reconcile_fetched_def
  by (intro guarded_if reconcile_terminal_guarded reconcile_live_guarded)

lemma add_finalizer_free: "free (PutRun (add_finalizer run))"
  by (auto simp: add_finalizer_def has_finalizer_def)

lemma reconcile_guarded:
  assumes "keyed op"
  shows "guarded (op_runArchiver op) (\<lambda>_. True) (reconcile op key) (\<lambda>_ _. True)"
proof -
  let ?g = "op_runArchiver op"
  have got: "guarded ?g (\<lambda>_. True) (get_run op key) (\<lambda>r l. GotRun r \<in> set l)"
    by (rule guarded_post [OF get_run_guarded [OF assms stable_True]]) auto
  have fetched: "guarded ?g (\<lambda>l. GotRun r \<in> set l) (reconcile_fetched op r) (\<lambda>_ _. True)" for r
    by (rule guarded_pre [OF reconcile_fetched_guarded [OF assms]]) (auto simp: known_def)
  have adding: "guarded ?g (\<lambda>l. GotRun r \<in> set l)
      (attempt ''adding finalizer'' (update_run op (add_finalizer r)) (\<lambda>_.
         attempt '''' (get_run op key) (reconcile_fetched op))) (\<lambda>_ _. True)" for r
    by (rule guarded_attempt [where R = "\<lambda>_ _. True"])
      (auto intro!: guarded_done guarded_attempt [OF got fetched] effects add_finalizer_free)
  show ?thesis unfolding reconcile_def
    by (rule guarded_case [OF got _ talk_free stable_True])
      (auto intro!: effects guarded_if guarded_ok guarded_fail finalize_guarded [OF assms] fetched adding)
qed

text \<open>The result of the section: every pass from an empty log keeps to the monitor.\<close>

lemma reconcile_safe:
  assumes "keyed op" and "run_state (reconcile op key) s = (res, s')" and "os_log s = []"
  shows "safe (op_runArchiver op) (os_log s')"
  using reconcile_guarded [OF assms(1), of key] assms(2,3) unfolding guarded_def hoare_def by fastforce

section \<open>A concrete cluster\<close>

lemma cluster_keyed: "keyed cluster_op"
  by (auto simp: keyed_def cluster_op_def cluster_api_def)

text \<open>A run with its finalizer and its runner Job, waiting in a cluster, and the same after \<open>kubectl delete\<close>.\<close>

definition cluster_run :: criteria_run where
  "cluster_run = zero_run\<lparr>ru_namespace := ''ci'', ru_name := ''r1'', ru_uid := ''u-1'',
     ru_finalizers := [criteria_run_finalizer], ru_status := zero_status\<lparr>st_castleRunID := ''c-1''\<rparr>\<rparr>"

definition deleted_state :: "cluster op_state" where
  "deleted_state = (let run = cluster_run\<lparr>ru_deletionTimestamp := Some 5\<rparr>
     in cluster_state run [build_runner_job sample_library run sample_defaults] [] zero_observation)"

text \<open>What kind of effect each entry is, for the witnesses to name.\<close>

definition effect_name :: "effect \<Rightarrow> string" where
  "effect_name e = (case e of GotRun r \<Rightarrow> ''get''
     | PutRun r \<Rightarrow> (if has_finalizer r then ''put'' else ''release'') | PutStatus r \<Rightarrow> ''put-status''
     | StoredStatus r \<Rightarrow> ''stored'' | MadeJob k j \<Rightarrow> ''make-job'' | CutJob k j \<Rightarrow> ''cut-job'' | MadePod k p \<Rightarrow> ''make-pod''
     | CutPod k p \<Rightarrow> ''cut-pod'' | ArchivedRun k a \<Rightarrow> ''archive'' | Warned k m \<Rightarrow> ''warn'' | FedPodState k \<Rightarrow> ''feed''
     | Admitted k \<Rightarrow> ''admit'' | LeftQueue k \<Rightarrow> ''leave'')"

lemma effect_split:
  assumes "map effect_name l = names" and "n < length names"
  shows "l = take n l @ l ! n # drop (Suc n) l \<and> effect_name (l ! n) = names ! n"
proof -
  have "n < length l" using assms by auto
  then show ?thesis using assms(1) id_take_nth_drop [of n l] by auto
qed

lemma named_cut: "effect_name e = ''cut-job'' \<Longrightarrow> \<exists>k j. e = CutJob k j"
  and named_release: "effect_name e = ''release'' \<Longrightarrow> \<exists>r. e = PutRun r \<and> \<not> has_finalizer r"
  and named_made: "effect_name e = ''make-job'' \<Longrightarrow> \<exists>k j. e = MadeJob k j"
  and named_admit: "effect_name e = ''admit'' \<Longrightarrow> \<exists>k. e = Admitted k"
  by (cases e; simp add: effect_name_def split: if_splits)+

definition log_after :: "cluster op_state \<Rightarrow> effect list" where
  "log_after s = os_log (snd (run_state (reconcile cluster_op (''ci'', ''r1'')) s))"

definition started_state :: "cluster op_state" where
  "started_state = cluster_state cluster_run [] [] zero_observation"

lemma deletion_log: "map effect_name (log_after deleted_state) =
  [''get'', ''leave'', ''archive'', ''get'', ''put-status'', ''stored'', ''get'', ''cut-job'', ''release'']"
  by code_simp

lemma creation_log: "map effect_name (log_after started_state) =
  [''get'', ''admit'', ''make-job'', ''make-job'', ''make-job'', ''put-status'', ''stored'']"
  by code_simp

lemma log_after_run: "run_state (reconcile cluster_op (''ci'', ''r1'')) s =
  (fst (run_state (reconcile cluster_op (''ci'', ''r1'')) s), snd (run_state (reconcile cluster_op (''ci'', ''r1'')) s))"
  by simp

lemma cluster_logs [simp]: "os_log deleted_state = []" "os_log started_state = []" "op_runArchiver cluster_op"
  by (simp_all add: deleted_state_def started_state_def cluster_state_def cluster_op_def Let_def)

section \<open>Properties\<close>

text \<open>
  C1. With an archiver wired, a pass deletes a child Job of a run only when the run's record is in the
  archive (the service answered an id earlier in the pass, or the object read or written carries one that
  is not pending) and the run is over (deleted, or in a terminal phase), whatever the API server,
  castle and the archive service answer and whichever calls fail.
\<close>

theorem jobs_deleted_after_archive:
  assumes "keyed op" and "op_runArchiver op" and "os_log s = []"
    and "run_state (reconcile op key) s = (res, s')"
    and "os_log s' = before @ CutJob k j # after"
  shows "evidence k before \<and> ended k before"
proof -
  have "allowed (op_runArchiver op) before (CutJob k j)"
    using reconcile_safe [OF assms(1,4,3)] assms(5) unfolding safe_def by blast
  then show ?thesis using assms(2) by (simp add: may_tear_def)
qed

text \<open>Witness: the deletion of an archived run with one Job left.\<close>

theorem jobs_deleted_after_archive_witness:
  "\<exists>k j. log_after deleted_state ! 7 = CutJob k j \<and>
     evidence k (take 7 (log_after deleted_state)) \<and> ended k (take 7 (log_after deleted_state))"
proof -
  have split: "log_after deleted_state = take 7 (log_after deleted_state) @ log_after deleted_state ! 7 #
      drop (Suc 7) (log_after deleted_state)" and name: "effect_name (log_after deleted_state ! 7) = ''cut-job''"
    using effect_split [OF deletion_log, of 7] by simp_all
  from named_cut [OF name] obtain k j where e: "log_after deleted_state ! 7 = CutJob k j" by blast
  have "evidence k (take 7 (log_after deleted_state)) \<and> ended k (take 7 (log_after deleted_state))"
    by (rule jobs_deleted_after_archive [OF cluster_keyed cluster_logs(3,1) log_after_run
        trans [OF log_after_def [symmetric] split [unfolded e]]])
  with e show ?thesis by blast
qed

text \<open>
  C5. With an archiver wired, the finalizer of a run is removed only after its record is in the archive and
  the run is over.
\<close>

theorem finalizer_removed_after_archive:
  assumes "keyed op" and "op_runArchiver op" and "os_log s = []"
    and "run_state (reconcile op key) s = (res, s')"
    and "os_log s' = before @ PutRun r # after" and "\<not> has_finalizer r"
  shows "evidence (run_key r) before \<and> ended (run_key r) before"
proof -
  have "allowed (op_runArchiver op) before (PutRun r)"
    using reconcile_safe [OF assms(1,4,3)] assms(5) unfolding safe_def by blast
  then show ?thesis using assms(2,6) by (simp add: may_tear_def)
qed

text \<open>Witness: the same deletion, at its last write.\<close>

theorem finalizer_removed_after_archive_witness:
  "\<exists>r. log_after deleted_state ! 8 = PutRun r \<and> evidence (run_key r) (take 8 (log_after deleted_state))"
proof -
  have split: "log_after deleted_state = take 8 (log_after deleted_state) @ log_after deleted_state ! 8 #
      drop (Suc 8) (log_after deleted_state)" and name: "effect_name (log_after deleted_state ! 8) = ''release''"
    using effect_split [OF deletion_log, of 8] by simp_all
  from named_release [OF name] obtain r where e: "log_after deleted_state ! 8 = PutRun r" "\<not> has_finalizer r" by blast
  from finalizer_removed_after_archive [OF cluster_keyed cluster_logs(3,1) log_after_run
      trans [OF log_after_def [symmetric] split [unfolded e(1)]] e(2)]
  show ?thesis using e(1) by blast
qed

text \<open>
  C2. A pass creates a Job or a pod for a run only while the run holds its admission slot: it was admitted
  earlier in the pass and has not been released since.
\<close>

theorem children_made_while_admitted:
  assumes "keyed op" and "os_log s = []" and "run_state (reconcile op key) s = (res, s')"
    and "os_log s' = before @ e # after" and "e = MadeJob k j \<or> e = MadePod k p"
  shows "holding k before"
proof -
  have "allowed (op_runArchiver op) before e"
    using reconcile_safe [OF assms(1,3,2)] assms(4) unfolding safe_def by blast
  then show ?thesis using assms(5) by auto
qed

text \<open>Witness: the first pass of a run, at its first Job.\<close>

theorem children_made_while_admitted_witness:
  "\<exists>k j. log_after started_state ! 2 = MadeJob k j \<and> holding k (take 2 (log_after started_state))"
proof -
  have split: "log_after started_state = take 2 (log_after started_state) @ log_after started_state ! 2 #
      drop (Suc 2) (log_after started_state)" and name: "effect_name (log_after started_state ! 2) = ''make-job''"
    using effect_split [OF creation_log, of 2] by simp_all
  from named_made [OF name] obtain k j where e: "log_after started_state ! 2 = MadeJob k j" by blast
  have "holding k (take 2 (log_after started_state))"
    by (rule children_made_while_admitted [OF cluster_keyed cluster_logs(2) log_after_run
        trans [OF log_after_def [symmetric] split] disjI1 [OF e]])
  with e show ?thesis by blast
qed

end
