(* ===== verification/SlotInvariant.thy ===== *)
theory SlotInvariant
  imports ReconcileSafety
begin

text \<open>
  The operator over many passes: the log and the admission queue stay in step. Whoever was admitted and
  has not left since is the running run of its lane, so two runs of a lane are never admitted at once.
\<close>

definition slots_agree :: "'w op_state \<Rightarrow> bool" where
  "slots_agree s \<longleftrightarrow> queue_inv (os_queue s) \<and>
     (\<forall>k. holding k (os_log s) \<longrightarrow> (\<exists>qk. rq_running (os_queue s) qk = Some k))"

lemma holding_Nil [simp]: "\<not> holding k []"
  by (simp add: holding_def)

lemma holding_snoc_iff:
  "holding k (l @ [e]) \<longleftrightarrow> e = Admitted k \<or> (e \<noteq> LeftQueue k \<and> holding k l)"
proof
  assume "holding k (l @ [e])"
  then obtain a b where eq: "l @ [e] = a @ Admitted k # b" and b: "LeftQueue k \<notin> set b"
    unfolding holding_def by blast
  show "e = Admitted k \<or> (e \<noteq> LeftQueue k \<and> holding k l)"
  proof (cases b rule: rev_cases)
    case Nil
    with eq show ?thesis by simp
  next
    case (snoc b' x)
    with eq b have "l = a @ Admitted k # b'" "LeftQueue k \<notin> set b'" "e \<noteq> LeftQueue k" by auto
    then show ?thesis unfolding holding_def by blast
  qed
next
  assume "e = Admitted k \<or> (e \<noteq> LeftQueue k \<and> holding k l)"
  then show "holding k (l @ [e])" by (auto intro: holding_snoc holding_admitted)
qed

section \<open>Passes that keep it\<close>

named_theorems keeping \<open>what keeps the queue and the log in step\<close>

definition keeps :: "('w, 'a) pass \<Rightarrow> bool" where
  "keeps m \<longleftrightarrow> (\<forall>s a s'. run_state m s = (a, s') \<longrightarrow> slots_agree s \<longrightarrow> slots_agree s')"

text \<open>Effects that are no queue operation leave the holders as they are.\<close>

definition idle :: "effect \<Rightarrow> bool" where
  "idle e \<longleftrightarrow> (\<forall>k. e \<noteq> Admitted k \<and> e \<noteq> LeftQueue k)"

lemma idle_simps [simp]:
  "idle (GotRun r)" "idle (PutRun r)" "idle (PutStatus r)" "idle (StoredStatus r)" "idle (MadeJob k j)"
  "idle (CutJob k c)" "idle (MadePod k p)" "idle (CutPod k c)" "idle (ArchivedRun k a)" "idle (Warned k m)"
  "idle (FedPodState k)"
  by (simp_all add: idle_def)

lemma idle_not: "idle e \<Longrightarrow> e \<noteq> Admitted k"
  unfolding idle_def by blast

lemma agreeD: "slots_agree s \<Longrightarrow> holding k (os_log s) \<Longrightarrow> \<exists>qk. rq_running (os_queue s) qk = Some k"
  unfolding slots_agree_def by blast

lemma holding_idle: "\<forall>e \<in> set new. idle e \<Longrightarrow> holding k (l @ new) \<Longrightarrow> holding k l"
proof (induction new rule: rev_induct)
  case (snoc e new)
  then have "holding k ((l @ new) @ [e])" by simp
  moreover have "e \<noteq> Admitted k" using snoc.prems(1) by (intro idle_not) simp
  ultimately show ?case using snoc unfolding holding_snoc_iff by simp
qed simp

lemma keeps_ret [keeping]: "keeps (ret a)" "keeps (ok b)" "keeps (fail e)"
  by (simp_all add: keeps_def ok_def fail_def)

lemma keeps_bind [keeping]: "keeps m \<Longrightarrow> (\<And>a. keeps (f a)) \<Longrightarrow> keeps (State_Monad.bind m f)"
  unfolding keeps_def by (auto split: prod.splits; blast)

lemma keeps_attempt [keeping]: "keeps m \<Longrightarrow> (\<And>a. keeps (f a)) \<Longrightarrow> keeps (attempt ctx m f)"
  unfolding attempt_def by (rule keeps_bind) (auto intro: keeping split: sum.splits)

lemma keeps_if [keeping]: "keeps m \<Longrightarrow> keeps n \<Longrightarrow> keeps (if b then m else n)"
  by simp

lemma keeps_case [keeping]:
  "keeps m \<Longrightarrow> (\<And>a. keeps (f a)) \<Longrightarrow> keeps (case x of None \<Rightarrow> m | Some a \<Rightarrow> f a)"
  "(\<And>e. keeps (g e)) \<Longrightarrow> (\<And>b. keeps (h b)) \<Longrightarrow> keeps (case y of Inl e \<Rightarrow> g e | Inr b \<Rightarrow> h b)"
  "(\<And>c d. keeps (i c d)) \<Longrightarrow> keeps (case z of (c, d) \<Rightarrow> i c d)"
  by (auto split: option.splits sum.splits prod.splits)

lemma slots_agree_idle:
  "slots_agree s \<Longrightarrow> os_queue s' = os_queue s \<Longrightarrow> os_log s' = os_log s @ new \<Longrightarrow> \<forall>e \<in> set new. idle e \<Longrightarrow> slots_agree s'"
  unfolding slots_agree_def using holding_idle by metis

lemma keeps_call: "(\<And>a e. e \<in> set (eff a) \<Longrightarrow> idle e) \<Longrightarrow> keeps (call f eff)"
  unfolding keeps_def call_def by (auto split: prod.splits elim!: slots_agree_idle)

lemma keeps_emit: "idle e \<Longrightarrow> keeps (emit e)"
  unfolding keeps_def emit_def by (auto elim!: slots_agree_idle)

lemma keeps_calls [keeping]:
  "keeps (call f (\<lambda>_. []))" "keeps (get_run op key)" "keeps (update_run op r)" "keeps (update_status op r)"
  "keeps (list_runs op ns)" "keeps (get_job op key)" "keeps (create_job op r j)" "keeps (delete_job op r j prop)"
  "keeps (list_pods op r role)" "keeps (create_pod op r p)" "keeps (delete_pod op r p)"
  "keeps (get_configmap op key)" "keeps (time_now op)" "keeps (archive_run op r rec)" "keeps (warn op r reason)"
  unfolding get_run_def update_run_def update_status_def list_runs_def get_job_def create_job_def delete_job_def
    list_pods_def create_pod_def delete_pod_def get_configmap_def time_now_def archive_run_def warn_def
  by (auto intro!: keeps_bind keeps_emit keeps_call keeps_ret simp: on_ok_def split: sum.splits)

lemma keeps_feed [keeping]: "keeps feed_off" "keeps (feed_emit_pass op r rid reports)"
  unfolding keeps_def feed_off_def feed_emit_pass_def
  by (auto split: option.splits prod.splits elim!: slots_agree_idle)

section \<open>The queue operations\<close>

lemma keeps_enqueue [keeping]: "keeps (queue_enqueue r)"
  unfolding keeps_def
proof (intro allI impI)
  fix s :: "'a op_state" and a s'
  assume run: "run_state (queue_enqueue r) s = (a, s')" and agree: "slots_agree s"
  let ?q = "os_queue s" and ?q' = "fst (enqueue (os_queue s) r)"
  have inv: "queue_inv ?q" using agree by (simp add: slots_agree_def)
  obtain adm st prev where e: "enqueue ?q r = (?q', adm, st, prev)" by (metis prod.collapse)
  from run e have s': "os_queue s' = ?q'"
    "os_log s' = os_log s @ (if adm then [Admitted (run_key r)] else [])"
    by (auto simp: queue_enqueue_def split: prod.splits)
  have running: "rq_running ?q' qk = (if qk = queue_key_of r \<and> entries_at ?q qk = [] then Some (run_key r) else rq_running ?q qk)" for qk
    by (rule enqueue_running [OF inv])
  have adm: "adm \<longleftrightarrow> running_at ?q' (queue_key_of r) = run_key r"
    using e by (auto simp: enqueue_def Let_def)
  have some: "rq_running ?q' (queue_key_of r) \<noteq> None"
    using running [of "queue_key_of r"] queue_inv_at [OF inv, of "queue_key_of r"] by (auto split: list.splits)
  have kept: "\<exists>qk. rq_running ?q' qk = Some k" if "holding k (os_log s)" for k
  proof -
    from agreeD [OF agree that] obtain qk where "rq_running ?q qk = Some k" by blast
    moreover from this have "entries_at ?q qk \<noteq> []" using queue_inv_at [OF inv, of qk] by auto
    ultimately have "rq_running ?q' qk = Some k" by (simp add: running)
    then show ?thesis ..
  qed
  have "rq_running ?q' (queue_key_of r) = Some (run_key r)" if adm
    using that adm some by (auto simp: running_at_def)
  then have own: "\<exists>qk. rq_running ?q' qk = Some (run_key r)" if adm
    using that by blast
  show "slots_agree s'" unfolding slots_agree_def s'
    using queue_inv_enqueue [OF inv] kept own by (auto simp: holding_snoc_iff)
qed

lemma keeps_release [keeping]: "keeps (queue_release r)"
  unfolding keeps_def
proof (intro allI impI)
  fix s :: "'a op_state" and a s'
  assume run: "run_state (queue_release r) s = (a, s')" and agree: "slots_agree s"
  let ?q = "os_queue s" and ?q' = "fst (release (os_queue s) r)"
  have inv: "queue_inv ?q" using agree by (simp add: slots_agree_def)
  from run have s': "os_queue s' = ?q'" "os_log s' = os_log s @ [LeftQueue (run_key r)]"
    by (auto simp: queue_release_def)
  have "\<exists>qk. rq_running ?q' qk = Some k" if "holding k (os_log s)" "k \<noteq> run_key r" for k
  proof -
    from agreeD [OF agree that(1)] obtain qk where qk: "rq_running ?q qk = Some k" by blast
    then obtain es where "entries_at ?q qk = k # es" using queue_inv_at [OF inv, of qk] by (auto split: list.splits)
    with qk that(2) have "rq_running ?q' qk = Some k"
      by (auto simp: release_running [OF inv] Let_def)
    then show ?thesis ..
  qed
  then show "slots_agree s'" unfolding slots_agree_def s'
    using queue_inv_release [OF inv] by (auto simp: holding_snoc_iff)
qed

section \<open>The parts of a pass\<close>

lemma keeps_archive [keeping]: "keeps (ensure_terminal_archived op run obs)"
  unfolding ensure_terminal_archived_def build_terminal_archive_record_def runner_pod_restarts_def
    mark_terminal_archive_pending_def mark_terminal_archived_def archive_with_cr_uid_key_def not_yet_stored_def Let_def
  by (auto intro!: keeping)

lemma keeps_delete_jobs_loop [keeping]: "keeps (delete_jobs_loop op run prop js deleted)"
  by (induction js arbitrary: deleted) (auto intro!: keeping)

lemma keeps_delete_pods_loop [keeping]: "keeps (delete_pods_loop op run ps)"
  by (induction ps) (auto intro!: keeping)

lemma keeps_deletions [keeping]:
  "keeps (delete_child_jobs op run)" "keeps (delete_run_adapter_pods op run)" "keeps (delete_terminal_child_jobs op run)"
  unfolding delete_child_jobs_def delete_jobs_def delete_run_adapter_pods_def delete_terminal_child_jobs_def
    reap_terminal_jobs_def runner_restart_pending_def mark_terminal_cleanup_deferred_def clear_terminal_cleanup_def Let_def
  by (auto intro!: keeping)

lemma keeps_park [keeping]: "keeps (park_failed op ctx run update obs)"
  unfolding park_failed_def by (auto intro!: keeping)

lemma keeps_refusals [keeping]:
  "keeps (fail_base_image_mismatch op run p c)" "keeps (fail_config_render_drift op run u d)"
  "keeps (fail_adapter_image_conflict op run u d)" "keeps (fail_run_stalled op run u ob)"
  "keeps (refuse_missing_workflow_source op run)" "keeps (refuse_interface_binding_mismatch op run m)"
  "keeps (refuse_second_active op run b)"
  unfolding fail_base_image_mismatch_def fail_config_render_drift_def fail_adapter_image_conflict_def
    fail_run_stalled_def refuse_missing_workflow_source_def refuse_interface_binding_mismatch_def
    refuse_second_active_def Let_def
  by (auto intro!: keeping)

lemma keeps_delete_undesired [keeping]: "keeps (delete_undesired op run desired ps deleted)"
  by (induction ps arbitrary: deleted) (auto intro!: keeping)

lemma keeps_create_missing [keeping]: "keeps (create_missing op run existing want)"
  by (induction op run existing want rule: create_missing.induct) (auto intro!: keeping)

lemma keeps_per_scope [keeping]: "keeps (reconcile_per_scope_adapters op run rid lc raw)"
  unfolding reconcile_per_scope_adapters_def converge_pods_def report_pod_states_def resolve_runner_ip_def Let_def
  by (auto intro!: keeping split: prod.splits)

lemma keeps_observe [keeping]: "keeps (observe_castle op run u)" "keeps (write_status op ctx run u)"
  unfolding observe_castle_def write_status_def by (auto intro!: keeping)

lemma keeps_finalize [keeping]: "keeps (finalize op run)"
  unfolding finalize_def by (auto intro!: keeping)

lemma keeps_terminal [keeping]: "keeps (reconcile_terminal op run)"
  unfolding reconcile_terminal_def observe_terminal_def sweep_terminal_pods_def
  by (auto intro!: keeping split: prod.splits)

lemma keeps_ensure_jobs [keeping]: "keeps (ensure_jobs op run acc js)"
proof (induction js arbitrary: acc)
  case Nil
  show ?case by (cases acc) (auto intro!: keeping)
next
  case (Cons j js)
  show ?case by (cases acc) (auto intro!: keeping Cons.IH)
qed

lemma keeps_actuate [keeping]: "keeps (actuate_adapters op run u obs)"
  unfolding actuate_adapters_def finish_pass_def Let_def by (auto intro!: keeping)

lemma keeps_persist [keeping]: "keeps (persist_and_actuate op run csum prov u obs)"
  unfolding persist_and_actuate_def reap_if_terminal_def Let_def by (auto intro!: keeping)

lemma keeps_provision [keeping]: "keeps (provision op run csum d cur u)"
  unfolding provision_def enroll_run_def observe_and_persist_def watchdog_step_def Let_def
  by (auto intro!: keeping split: prod.splits)

lemma keeps_render [keeping]: "keeps (render_for op run u)"
  unfolding render_for_def render_run_config_def render_project_binding_config_def verify_render_def
    render_spec_fields_def Let_def
  by (auto intro!: keeping)

lemma keeps_admitted [keeping]: "keeps (admitted_pass op run csum u)"
  unfolding admitted_pass_def build_pass_def resolve_runner_defaults_def Let_def
  by (auto intro!: keeping split: prod.splits)

lemma keeps_live [keeping]: "keeps (reconcile_live op run)"
  unfolding reconcile_live_def admit_binding_def read_project_binding_def admit_def hold_in_queue_def
    single_active_ticket_run_def Let_def
  by (auto intro!: keeping split: prod.splits option.splits sum.splits)

lemma keeps_reconcile: "keeps (reconcile op key)"
  unfolding reconcile_def reconcile_fetched_def by (auto intro!: keeping)

section \<open>The operator's runs\<close>

text \<open>
  The operator runs pass after pass on its own queue and log, from the queue \<open>Recover\<close> left; between
  passes the cluster changes in any way.
\<close>

inductive operator_runs :: "'w reconciler \<Rightarrow> 'w op_state \<Rightarrow> bool" for op where
  started: "queue_inv (os_queue s) \<Longrightarrow> os_log s = [] \<Longrightarrow> operator_runs op s"
| passed: "operator_runs op s \<Longrightarrow> run_state (reconcile op key) s = (res, s') \<Longrightarrow> operator_runs op s'"
| changed: "operator_runs op s \<Longrightarrow> operator_runs op (s\<lparr>os_world := w\<rparr>)"

lemma operator_runs_agree: "operator_runs op s \<Longrightarrow> slots_agree s"
proof (induction rule: operator_runs.induct)
  case (started s)
  then show ?case by (simp add: slots_agree_def)
next
  case (passed s key res s')
  then show ?case using keeps_reconcile [of op key] unfolding keeps_def by blast
next
  case (changed s w)
  then show ?case by (simp add: slots_agree_def)
qed

section \<open>Properties\<close>


text \<open>Witness: after the first pass of a run.\<close>

lemma cluster_admits: "\<exists>k. holding k (log_after started_state)"
proof -
  have split: "log_after started_state = take 1 (log_after started_state) @ log_after started_state ! 1 #
      drop (Suc 1) (log_after started_state)" and name: "effect_name (log_after started_state ! 1) = ''admit''"
    using effect_split [OF creation_log, of 1] by simp_all
  from named_admit [OF name] obtain k where e: "log_after started_state ! 1 = Admitted k" by blast
  have "map effect_name (drop (Suc 1) (log_after started_state)) =
      [''make-job'', ''make-job'', ''make-job'', ''put-status'', ''stored'']"
    using arg_cong [OF creation_log, of "drop (Suc 1)"] by (simp add: drop_map)
  then have "''leave'' \<notin> set (map effect_name (drop (Suc 1) (log_after started_state)))" by simp
  then have "effect_name (LeftQueue k) \<notin> effect_name ` set (drop (Suc 1) (log_after started_state))"
    by (simp add: effect_name_def)
  then have "LeftQueue k \<notin> set (drop (Suc 1) (log_after started_state))" by blast
  with split e show ?thesis unfolding holding_def by metis
qed


end
