(* ===== verification/Convergence.thy ===== *)
theory Convergence
  imports PerScope Cluster
begin

text \<open>
  The per-scope reconcile against a pod store: when the API does what it answers, one pass turns the
  adapter pods into the desired ones. The store is an interface (\<open>pod_store\<close>): a listing answers the
  pods, a deletion removes a pod by name, a creation adds one, and the clock and the feed leave the pods alone.
\<close>

locale pod_store =
  fixes op :: "'w reconciler"
    and run :: criteria_run
    and pods :: "'w \<Rightarrow> pod list"
    and mine :: "pod \<Rightarrow> bool"
  assumes listed: "\<exists>w'. k_list_pods (op_api op) (ru_namespace run) (ru_name run) role_adapter w = (Inr (pods w), w') \<and> pods w' = pods w"
    and placed: "p \<in> set (pods w) \<Longrightarrow> po_namespace p = ru_namespace run"
    and deleted: "po_namespace p = ru_namespace run \<Longrightarrow> \<exists>w'. k_delete_pod (op_api op) p w = (Inr (), w') \<and>
      pods w' = filter (\<lambda>q. po_name q \<noteq> po_name p) (pods w)"
    and created: "mine p \<Longrightarrow> \<exists>w'. k_create_pod (op_api op) run p w = (Inr p, w') \<and> pods w' = pods w @ [p]"
    and told: "pods (snd (k_now (op_api op) w)) = pods w"
    and waited: "pods (snd (k_wait (op_api op) d w)) = pods w"
    and submitted: "pods (snd (k_submit (op_api op) env w)) = pods w"
begin

lemma retry_pods:
  assumes "\<And>w. pods (snd (step w)) = pods w"
  shows "pods (snd (retry (k_wait (op_api op)) step f n i e w)) = pods w"
proof (induction n arbitrary: i e w)
  case (Suc n)
  have wait: "pods (snd (if 0 < i then k_wait (op_api op) (backoff_delay f i) w else (None, w))) = pods w"
    by (simp add: waited)
  show ?case using wait assms Suc.IH
    by (auto simp: Let_def split: prod.splits option.splits sum.splits if_splits) (metis snd_conv)+
qed simp

lemma emit_one_pods: "pods (snd (emit_one (feed_of op) f rid r w)) = pods w"
  unfolding emit_one_def feed_of_def feed_world.simps
  by (rule retry_pods) (simp add: emit_attempt_def submitted split: sum.splits)

lemma submit_pods: "pods (snd (submit_pending (feed_of op) rid (f, w) rs)) = pods w"
proof (induction "feed_of op" rid "(f, w)" rs arbitrary: f w rule: submit_pending.induct)
  case (2 rid f w r rs)
  then show ?case using emit_one_pods [of f rid r w] told
    by (auto simp: feed_of_def Let_def split: prod.splits sum.splits) (metis snd_conv)+
qed simp

lemma feed_pods: "pods (snd (fst (feed_emit (feed_of op) rid reports (f, w)))) = pods w"
  using told submit_pods
  by (auto simp: feed_emit_def feed_of_def Let_def split: prod.splits) (metis snd_conv)+

section \<open>The two loops\<close>

lemma delete_loop:
  assumes "\<forall>p \<in> set ps. po_namespace p = ru_namespace run"
  shows "\<exists>s' del'. run_state (delete_undesired op run desired ps del) s = (Inr del', s') \<and>
    pods (os_world s') = filter (\<lambda>q. po_name q \<notin> po_name ` {p \<in> set ps. \<not> has_key desired (po_name p)}) (pods (os_world s)) \<and>
    set del' = set del \<union> po_name ` {p \<in> set ps. \<not> has_key desired (po_name p)}"
  using assms
proof (induction ps arbitrary: del s)
  case Nil
  then show ?case by (simp add: ok_def)
next
  case (Cons p ps)
  let ?gone = "po_name ` {p \<in> set ps. \<not> has_key desired (po_name p)}"
  show ?case
  proof (cases "has_key desired (po_name p)")
    case True
    then have "{q \<in> set (p # ps). \<not> has_key desired (po_name q)} = {q \<in> set ps. \<not> has_key desired (po_name q)}" by auto
    with True Cons show ?thesis by simp
  next
    case False
    then have gone: "po_name ` {q \<in> set (p # ps). \<not> has_key desired (po_name q)} = insert (po_name p) ?gone" by auto
    obtain w' where w': "k_delete_pod (op_api op) p (os_world s) = (Inr (), w')"
      "pods w' = filter (\<lambda>q. po_name q \<noteq> po_name p) (pods (os_world s))"
      using deleted [of p "os_world s"] Cons.prems by auto
    let ?t = "s\<lparr>os_world := w', os_log := os_log s @ [CutPod (run_key run) (pod_key p)]\<rparr>"
    have step: "run_state (delete_pod op run p) s = (Inr (), ?t)"
      by (simp add: delete_pod_def emit_def call_def w')
    from Cons.IH [of "po_name p # del" ?t] Cons.prems obtain s' del' where
      s': "run_state (delete_undesired op run desired ps (po_name p # del)) ?t = (Inr del', s')"
      "pods (os_world s') = filter (\<lambda>q. po_name q \<notin> ?gone) (pods w')" "set del' = set (po_name p # del) \<union> ?gone"
      by auto
    show ?thesis unfolding gone
      using False step s' w'(2) by (auto simp: conj_commute intro!: filter_cong)
  qed
qed

lemma create_loop:
  assumes "\<forall>(n, p) \<in> set want. mine p"
  shows "\<exists>s'. run_state (create_missing op run existing want) s = (Inr (), s') \<and>
    pods (os_world s') = pods (os_world s) @ map snd (filter (\<lambda>(n, p). n \<notin> set existing) want)"
  using assms
proof (induction want arbitrary: s)
  case Nil
  then show ?case by (simp add: ok_def)
next
  case (Cons np want)
  obtain n p where np: "np = (n, p)" by (cases np)
  show ?case
  proof (cases "n \<in> set existing")
    case True
    with Cons np show ?thesis by simp
  next
    case False
    from Cons.prems np have "mine p" by simp
    from created [OF this, of "os_world s"] obtain w' where
      w': "k_create_pod (op_api op) run p (os_world s) = (Inr p, w')" "pods w' = pods (os_world s) @ [p]" by blast
    let ?t = "s\<lparr>os_world := w', os_log := os_log s @ [MadePod (run_key run) p]\<rparr>"
    have step: "run_state (create_pod op run p) s = (Inr p, ?t)"
      by (simp add: create_pod_def emit_def call_def w')
    from Cons.IH [of ?t] Cons.prems obtain s' where
      "run_state (create_missing op run existing want) ?t = (Inr (), s')"
      "pods (os_world s') = pods w' @ map snd (filter (\<lambda>(n, p). n \<notin> set existing) want)" by auto
    with False np step w'(2) show ?thesis by auto
  qed
qed

lemma report_pods: "pods (os_world (snd (run_state (report_pod_states op run rid existing mp) s))) = pods (os_world s)"
proof -
  have feed: "pods (os_world (snd (run_state (feed_emit_pass op run rid reports) t))) = pods (os_world t)" for reports t
    using feed_pods [of rid reports _ "os_world t"]
    by (auto simp: feed_emit_pass_def split: option.splits prod.splits) (metis fst_conv snd_conv)
  show ?thesis using told feed
    by (auto simp: report_pod_states_def feed_off_def time_now_def call_def split: prod.splits) (metis snd_conv op_state.simps)+
qed

text \<open>One pass over a listing: what is not desired goes, what is missing comes, the rest stays as it is.\<close>

lemma converge:
  assumes "\<forall>(n, p) \<in> set desired. mine p"
  shows "\<exists>s'. run_state (converge_pods op run rid active (desired, mp)) s = (Inr active, s') \<and>
    pods (os_world s') = filter (\<lambda>p. has_key desired (po_name p)) (pods (os_world s)) @
      map snd (filter (\<lambda>(n, p). n \<notin> po_name ` set (pods (os_world s))) desired)"
proof -
  obtain w1 where w1: "k_list_pods (op_api op) (ru_namespace run) (ru_name run) role_adapter (os_world s) =
      (Inr (pods (os_world s)), w1)" "pods w1 = pods (os_world s)" using listed by blast
  let ?ps = "pods (os_world s)" and ?s1 = "s\<lparr>os_world := w1, os_log := os_log s @ []\<rparr>"
  let ?gone = "po_name ` {p \<in> set ?ps. \<not> has_key desired (po_name p)}"
  obtain u s2 where s2: "run_state (report_pod_states op run rid ?ps mp) ?s1 = (u, s2)" by (metis surj_pair)
  have p2: "pods (os_world s2) = ?ps"
    using report_pods [of rid ?ps mp ?s1] s2 w1(2) by simp
  have ns: "\<forall>p \<in> set ?ps. po_namespace p = ru_namespace run" using placed by blast
  obtain s3 del where s3: "run_state (delete_undesired op run desired ?ps []) s2 = (Inr del, s3)"
    "pods (os_world s3) = filter (\<lambda>q. po_name q \<notin> ?gone) ?ps" "set del = ?gone"
    using delete_loop [OF ns, of desired "[]" s2] p2 by auto
  let ?kept = "filter (\<lambda>n. n \<notin> set del) (map po_name ?ps)"
  obtain s4 where s4: "run_state (create_missing op run ?kept desired) s3 = (Inr (), s4)"
    "pods (os_world s4) = pods (os_world s3) @ map snd (filter (\<lambda>(n, p). n \<notin> set ?kept) desired)"
    using create_loop [OF assms(1), of ?kept s3] by blast
  have "filter (\<lambda>q. po_name q \<notin> ?gone) ?ps = filter (\<lambda>p. has_key desired (po_name p)) ?ps"
    by (rule filter_cong) (auto simp del: has_key_iff)
  moreover have kept: "n \<in> set ?kept \<longleftrightarrow> n \<in> po_name ` set ?ps" if "(n, p) \<in> set desired" for n p
  proof -
    have "n \<in> fst ` set desired" using that by (rule image_eqI [rotated]) simp
    then have "has_key desired n" by simp
    then show ?thesis using s3(3) by (auto simp del: has_key_iff)
  qed
  have "filter (\<lambda>(n, p). n \<notin> set ?kept) desired = filter (\<lambda>(n, p). n \<notin> po_name ` set ?ps) desired"
  proof (rule filter_cong [OF refl])
    fix x assume x: "x \<in> set desired"
    obtain n p where np: "x = (n, p)" by (rule prod.exhaust)
    show "(case x of (n, p) \<Rightarrow> n \<notin> set ?kept) = (case x of (n, p) \<Rightarrow> n \<notin> po_name ` set ?ps)"
      using kept [OF x [unfolded np]] by (simp only: np prod.case)
  qed
  ultimately have "pods (os_world s4) = filter (\<lambda>p. has_key desired (po_name p)) ?ps @
      map snd (filter (\<lambda>(n, p). n \<notin> po_name ` set ?ps) desired)"
    using s3(2) s4(2) by simp
  moreover have "run_state (converge_pods op run rid active (desired, mp)) s = (Inr active, s4)"
    using w1 s2 s3(1) s4(1) by (simp add: converge_pods_def attempt_def list_pods_def call_def ok_def)
  ultimately show ?thesis by blast
qed

end

section \<open>The desired pods of a run\<close>

definition owned :: "criteria_run \<Rightarrow> string \<Rightarrow> pod \<Rightarrow> bool" where
  "owned run n p \<longleftrightarrow> po_name p = n \<and> selected (target_namespace run) (ru_name run) role_adapter p"

definition all_owned :: "criteria_run \<Rightarrow> desired_pods \<times> groups \<Rightarrow> bool" where
  "all_owned run acc \<longleftrightarrow> (\<forall>(n, p) \<in> set (fst acc). owned run n p)"

lemma run_is_no_affinity_label: "\<not> prefix label_host_affinity_prefix label_run"
  by (simp add: label_host_affinity_prefix_def label_run_def)

lemma affinity_keeps:
  assumes "\<not> prefix label_host_affinity_prefix k"
  shows "smap_get (fst (apply_host_affinity plan labels spec)) k = smap_get labels k"
proof -
  have "k \<notin> fst ` set (host_affinity_labels plan)" using assms affinity_label_shape by blast
  then show ?thesis by (simp add: apply_host_affinity_def smap_get_put_all)
qed

lemma pod_labels_differ [simp]:
  "label_run \<noteq> label_role" "label_run \<noteq> label_adapter_kind" "label_run \<noteq> label_scope_id" "label_run \<noteq> label_environment"
  "label_role \<noteq> label_adapter_kind" "label_role \<noteq> label_scope_id" "label_role \<noteq> label_environment"
  by (simp_all add: label_run_def label_role_def label_adapter_kind_def label_scope_id_def label_environment_def)

lemma base_labels_run [simp]: "smap_get (base_labels run) label_run = ru_name run"
  by (simp add: base_labels_def smap_get_def label_run_def)

lemma adapter_pod_owned: "owned run (po_name (build_per_scope_adapter_pod lib run d scope ip)) (build_per_scope_adapter_pod lib run d scope ip)"
  by (simp add: owned_def selected_def build_per_scope_adapter_pod_def new_pod_def Let_def split_beta
      affinity_keeps [OF run_is_no_affinity_label] affinity_keeps [OF role_is_no_affinity_label])

lemma peer_pod_owned: "build_per_scope_peer_pod lib run d sid env ms ip = Some p \<Longrightarrow> owned run (po_name p) p"
  by (auto simp: owned_def selected_def build_per_scope_peer_pod_def new_pod_def Let_def split_beta
      affinity_keeps [OF run_is_no_affinity_label] affinity_keeps [OF role_is_no_affinity_label] split: if_splits)

lemma want_pod_owned: "owned run (po_name p) p \<Longrightarrow> all_owned run acc \<Longrightarrow> all_owned run (want_pod p ms acc)"
  using set_assoc_put_subset [of "po_name p" p "fst acc"]
  by (auto simp: all_owned_def want_pod_def split_beta)

lemma foldl_keeps: "(\<And>a x. P a \<Longrightarrow> P (f a x)) \<Longrightarrow> P a \<Longrightarrow> P (foldl f a xs)"
  by (induction xs arbitrary: a) auto

lemma desired_owned: "all_owned run (desired_adapter_pods op run graphs active ip)"
  unfolding desired_adapter_pods_def
proof (rule foldl_keeps [where P = "all_owned run"], goal_cases)
  case (1 acc entry)
  then show ?case
    by (auto simp: want_group_def intro: want_pod_owned peer_pod_owned split: prod.splits option.splits)
next
  case 2
  show ?case
  proof (rule foldl_keeps [where P = "all_owned run"])
  show "all_owned run ([], [])" by (simp add: all_owned_def)
  show "all_owned run (want_fallback op run ip acc scope)" if "all_owned run acc" for acc scope
    using that by (auto simp: want_fallback_def intro: want_pod_owned adapter_pod_owned)
  qed
qed

section \<open>The in-memory cluster as a pod store\<close>

definition adapter_pods :: "criteria_run \<Rightarrow> cluster \<Rightarrow> pod list" where
  "adapter_pods run w = filter (selected (ru_namespace run) (ru_name run) role_adapter) (cl_pods w)"

text \<open>A new object is listed last.\<close>

definition on_cluster :: "cluster reconciler \<Rightarrow> cluster reconciler" where
  "on_cluster op = op\<lparr>op_api := cluster_api\<rparr>"

interpretation cs: pod_store "on_cluster op" run "adapter_pods run"
  "selected (ru_namespace run) (ru_name run) role_adapter" for op run
proof unfold_locales
  fix p :: pod and w :: cluster
  show "po_namespace p = ru_namespace run" if "p \<in> set (adapter_pods run w)"
    using that by (simp add: adapter_pods_def selected_def)
  show "\<exists>w'. k_delete_pod (op_api (on_cluster op)) p w = (Inr (), w') \<and>
      adapter_pods run w' = filter (\<lambda>q. po_name q \<noteq> po_name p) (adapter_pods run w)"
    if "po_namespace p = ru_namespace run"
    using that by (auto simp: adapter_pods_def on_cluster_def cluster_api_def pod_key_def selected_def intro!: filter_cong)
qed (auto simp: adapter_pods_def on_cluster_def cluster_api_def)

section \<open>Properties\<close>

text \<open>The address the pass works with: none is looked up when no scope needs one.\<close>

definition pass_ip :: "criteria_run \<Rightarrow> lifecycle_event list \<Rightarrow> cluster \<Rightarrow> string" where
  "pass_ip run active w =
     (if needs_runner_ip active
      then first_nonempty (map po_podIP (runner_ip_order
             (filter (selected (ru_namespace run) (ru_name run) role_runner) (cl_pods w))))
      else '''')"

lemma reconcile_reduces:
  assumes "sp_perScopeSessions (ru_spec run)"
    and "needs_runner_ip (active_provisions lc) \<longrightarrow> pass_ip run (active_provisions lc) (os_world s) \<noteq> ''''"
  shows "\<exists>s1. os_world s1 = os_world s \<and>
    run_state (reconcile_per_scope_adapters (on_cluster op) run rid lc raw) s =
    run_state (converge_pods (on_cluster op) run rid (length (active_provisions lc))
      (desired_adapter_pods (on_cluster op) run (run_graphs (on_cluster op) raw) (active_provisions lc)
        (pass_ip run (active_provisions lc) (os_world s)))) s1"
proof (cases "needs_runner_ip (active_provisions lc)")
  case True
  with assms show ?thesis
    by (intro exI [of _ "s\<lparr>os_log := os_log s @ []\<rparr>"])
      (simp add: reconcile_per_scope_adapters_def Let_def resolve_runner_ip_def attempt_def list_pods_def call_def
        on_cluster_def cluster_api_def ok_def pass_ip_def)
next
  case False
  with assms(1) show ?thesis
    by (intro exI [of _ s]) (simp add: reconcile_per_scope_adapters_def Let_def pass_ip_def)
qed


text \<open>Witness: one scope wanted, one pod of a released scope left over.\<close>

definition scoped_run :: criteria_run where
  "scoped_run = zero_run\<lparr>ru_namespace := ''ci'', ru_name := ''r1'',
     ru_spec := zero_spec\<lparr>sp_perScopeSessions := True\<rparr>\<rparr>"

definition scope_named :: "string \<Rightarrow> lifecycle_event" where
  "scope_named sid = zero_event\<lparr>le_event := event_provision_wanted, le_adapterName := ''shell'',
     le_adapterType := ''shell'', le_scopeID := sid\<rparr>"

definition scoped_state :: "cluster op_state" where
  "scoped_state = cluster_state scoped_run []
     [build_per_scope_adapter_pod sample_library scoped_run sample_defaults (scope_named ''s-2'') ''''] zero_observation"

definition scoped_desired :: desired_pods where
  "scoped_desired = fst (desired_adapter_pods (on_cluster cluster_op) scoped_run (run_graphs (on_cluster cluster_op) '''')
     (active_provisions [scope_named ''s-1'']) (pass_ip scoped_run (active_provisions [scope_named ''s-1'']) (os_world scoped_state)))"

lemma scoped_facts:
  "map fst scoped_desired = [per_scope_adapter_pod_name sample_library scoped_run ''shell'' ''s-1'']"
  "map po_name (adapter_pods scoped_run (os_world scoped_state)) =
     [per_scope_adapter_pod_name sample_library scoped_run ''shell'' ''s-2'']"
  "per_scope_adapter_pod_name sample_library scoped_run ''shell'' ''s-1'' \<noteq>
     per_scope_adapter_pod_name sample_library scoped_run ''shell'' ''s-2''"
  "\<not> needs_runner_ip (active_provisions [scope_named ''s-1''])"
  "sp_perScopeSessions (ru_spec scoped_run)" "target_namespace scoped_run = ru_namespace scoped_run"
  by code_simp+


end
