(* ===== verification/CleanupGuard.thy ===== *)
theory CleanupGuard
  imports ReconcileSafety
begin

text \<open>
  The restart guard of a finished run (\<open>terminalcleanup.go\<close>): child Jobs are not deleted while a runner pod
  may start another attempt, unless the deferral has stood longer than the configured window; and the
  clock of the deferral, which runs from its first mark.
\<close>

section \<open>No deletion while a restart is pending\<close>

definition uncut :: "effect list \<Rightarrow> bool" where
  "uncut l \<longleftrightarrow> (\<forall>k j. CutJob k j \<notin> set l)"

text \<open>A deferral read in this pass has stood longer than the window by the clock's answer in this pass.\<close>

definition window_passed :: "'w reconciler \<Rightarrow> effect list \<Rightarrow> bool" where
  "window_passed op l \<longleftrightarrow>
     (\<exists>fresh c now w w'. GotRun fresh \<in> set l \<and> terminal_cleanup_condition fresh = Some c \<and>
        k_now (op_api op) w = (now, w') \<and> op_terminalReapForceAfter op > 0 \<and>
        time_sub now (co_lastTransitionTime c) > op_terminalReapForceAfter op)"

lemma stable_uncut: "stable talk uncut"
  by (auto simp: stable_def uncut_def)

lemma uncut_appends: "appends talk m \<Longrightarrow> hoare uncut m (\<lambda>_. uncut)"
  by (rule appends_hoare [OF _ stable_uncut])

lemma window_passed_more: "window_passed op l \<Longrightarrow> window_passed op (l @ new)"
  unfolding window_passed_def set_append by blast

lemma window_passedI:
  "GotRun fresh \<in> set l \<Longrightarrow> k_now (op_api op) w = (now, w') \<Longrightarrow>
   reap_window_passed (op_terminalReapForceAfter op) now (terminal_cleanup_condition fresh) \<Longrightarrow> window_passed op l"
  unfolding window_passed_def reap_window_passed_def by (simp split: option.splits) blast

lemma mark_deferred_window:
  "hoare uncut (mark_terminal_cleanup_deferred op run reason)
     (\<lambda>r l. uncut l \<and> (r = Inr True \<longrightarrow> window_passed op l))"
proof -
  have force: "hoare (\<lambda>l. uncut l \<and> (force \<longrightarrow> window_passed op l)) (if b then attempt ctx (update_status op u) (\<lambda>_. ok force) else ok force)
      (\<lambda>r l. uncut l \<and> (r = Inr True \<longrightarrow> window_passed op l))" for force b ctx u
  proof (rule hoare_if)
    show "hoare (\<lambda>l. uncut l \<and> (force \<longrightarrow> window_passed op l)) (attempt ctx (update_status op u) (\<lambda>_. ok force))
      (\<lambda>r l. uncut l \<and> (r = Inr True \<longrightarrow> window_passed op l))"
      by (rule hoare_attempt_quiet [where A = talk])
        (auto intro!: effects hoare_ok simp: stable_def uncut_def dest: window_passed_more)
  qed (auto intro: hoare_ok)
  have clock: "hoare P (time_now op) (\<lambda>now l. P l \<and> (\<exists>w w'. k_now (op_api op) w = (now, w')))" for P
    by (auto simp: hoare_def time_now_def call_def split: prod.splits)
  show ?thesis unfolding mark_terminal_cleanup_deferred_def Let_def
  proof (rule hoare_attempt [where R = "\<lambda>fresh l. uncut l \<and> GotRun fresh \<in> set l"])
    show "hoare uncut (get_run op (run_key run))
      (\<lambda>r l. case r of Inl e \<Rightarrow> \<forall>e'. uncut l \<and> (Inl e' = Inr True \<longrightarrow> window_passed op l)
             | Inr fresh \<Rightarrow> uncut l \<and> GotRun fresh \<in> set l)"
      by (auto simp: hoare_def get_run_def call_def on_ok_def uncut_def split: prod.splits sum.splits)
    show "hoare (\<lambda>l. uncut l \<and> GotRun fresh \<in> set l) (State_Monad.bind (time_now op) (\<lambda>seen.
        State_Monad.bind (time_now op) (\<lambda>now. if ru_status fresh \<noteq> ru_status (upsert_condition now
            (true_condition condition_terminal_cleanup reason_terminal_restart_pending
              (''terminal child-job deletion deferred: '' @ reason @ '' (KB-302)'') (ru_generation fresh)) fresh)
          then attempt ''stamping TerminalCleanup condition'' (update_status op (upsert_condition now
            (true_condition condition_terminal_cleanup reason_terminal_restart_pending
              (''terminal child-job deletion deferred: '' @ reason @ '' (KB-302)'') (ru_generation fresh)) fresh))
            (\<lambda>_. ok (reap_window_passed (op_terminalReapForceAfter op) seen (terminal_cleanup_condition fresh)))
          else ok (reap_window_passed (op_terminalReapForceAfter op) seen (terminal_cleanup_condition fresh)))))
      (\<lambda>r l. uncut l \<and> (r = Inr True \<longrightarrow> window_passed op l))" for fresh
      by (rule hoare_bind [OF clock], rule hoare_bind [OF clock], rule hoare_weaken [OF force])
        (auto intro: window_passedI)
  qed
qed

lemma deferred_jobs_kept:
  "hoare uncut (attempt '''' (mark_terminal_cleanup_deferred op run reason) (\<lambda>force.
     if force then reap_terminal_jobs op run else ok True)) (\<lambda>_ l. uncut l \<or> window_passed op l)"
proof (rule hoare_attempt [where R = "\<lambda>force l. uncut l \<and> (force \<longrightarrow> window_passed op l)"])
  show "hoare uncut (mark_terminal_cleanup_deferred op run reason)
     (\<lambda>r l. case r of Inl e \<Rightarrow> \<forall>e'. uncut l \<or> window_passed op l
            | Inr force \<Rightarrow> uncut l \<and> (force \<longrightarrow> window_passed op l))"
    by (rule hoare_strengthen [OF mark_deferred_window]) (auto split: sum.splits)
  fix force
  have "appends (\<lambda>_. True) (reap_terminal_jobs op run)"
    unfolding reap_terminal_jobs_def delete_jobs_def by (auto intro!: effects)
  from appends_hoare [OF this, of "window_passed op"]
  have reap: "hoare (window_passed op) (reap_terminal_jobs op run) (\<lambda>_. window_passed op)"
    by (simp add: stable_def window_passed_more)
  show "hoare (\<lambda>l. uncut l \<and> (force \<longrightarrow> window_passed op l))
      (if force then reap_terminal_jobs op run else ok True) (\<lambda>_ l. uncut l \<or> window_passed op l)"
  proof (rule hoare_if)
    assume force
    then show "hoare (\<lambda>l. uncut l \<and> (force \<longrightarrow> window_passed op l)) (reap_terminal_jobs op run)
        (\<lambda>_ l. uncut l \<or> window_passed op l)"
      by (intro hoare_weaken [OF hoare_strengthen [OF reap]]) auto
  qed (auto intro: hoare_ok)
qed

section \<open>Properties\<close>

text \<open>
  C12. The cleanup of a finished run deletes no child Job while the listing shows a runner pod that may start
  another attempt, or while the pods cannot be listed: the only way past that is a deferral, read in the
  same pass, that has stood longer than the configured window by the clock's answer.
\<close>

theorem jobs_kept_while_restart_pending:
  assumes "run_state (delete_terminal_child_jobs op run) s = (res, s')" and "os_log s = []"
    and "CutJob k j \<in> set (os_log s')"
    and "k_list_pods (op_api op) (ru_namespace run) (ru_name run) role_runner (os_world s) = (listing, w)"
  shows "(\<exists>pods. listing = Inr pods \<and> (\<forall>p \<in> set pods. pod_restart_pending p = '''')) \<or> window_passed op (os_log s')"
proof (rule disjCI)
  assume closed: "\<not> window_passed op (os_log s')"
  let ?s1 = "s\<lparr>os_world := w, os_log := os_log s @ []\<rparr>"
  let ?m = "\<lambda>reason. if reason \<noteq> '''' then attempt '''' (mark_terminal_cleanup_deferred op run reason) (\<lambda>force.
            if force then reap_terminal_jobs op run else ok True) else reap_terminal_jobs op run"
  have step: "run_state (runner_restart_pending op run) s = (case listing of
      Inl e \<Rightarrow> ''runner pod list failed: '' @ op_errText op e
    | Inr ps \<Rightarrow> first_nonempty (map pod_restart_pending ps), ?s1)"
    using assms(4) by (simp add: runner_restart_pending_def list_pods_def call_def split: sum.splits)
  then have run: "run_state (?m (case listing of Inl e \<Rightarrow> ''runner pod list failed: '' @ op_errText op e
      | Inr ps \<Rightarrow> first_nonempty (map pod_restart_pending ps))) ?s1 = (res, s')"
    using assms(1) by (simp add: delete_terminal_child_jobs_def)
  have "uncut (os_log s') \<or> window_passed op (os_log s')" if "reason \<noteq> ''''" "run_state (?m reason) ?s1 = (res, s')" for reason
    using deferred_jobs_kept [of op run reason] that assms(2) by (fastforce simp: hoare_def uncut_def)
  with closed assms(3) run have "(case listing of Inl e \<Rightarrow> ''runner pod list failed: '' @ op_errText op e
      | Inr ps \<Rightarrow> first_nonempty (map pod_restart_pending ps)) = ''''"
    unfolding uncut_def by blast
  then show "\<exists>pods. listing = Inr pods \<and> (\<forall>p \<in> set pods. pod_restart_pending p = '''')"
    by (auto simp: first_nonempty_empty_iff split: sum.splits)
qed

text \<open>Witness: a finished run with one Job and no runner pod left.\<close>

definition finished_state :: "cluster op_state" where
  "finished_state = cluster_state cluster_run [build_runner_job sample_library cluster_run sample_defaults] [] zero_observation"

lemma finished_log: "map effect_name (os_log (snd (run_state (delete_terminal_child_jobs cluster_op cluster_run) finished_state))) =
  [''cut-job'', ''get'']"
  by code_simp

theorem jobs_kept_while_restart_pending_witness:
  "\<exists>k j. CutJob k j \<in> set (os_log (snd (run_state (delete_terminal_child_jobs cluster_op cluster_run) finished_state))) \<and>
     ((\<exists>pods. snd (k_list_pods (op_api cluster_op) (ru_namespace cluster_run) (ru_name cluster_run) role_runner (os_world finished_state))
        = os_world finished_state \<and> (\<forall>p \<in> set pods. pod_restart_pending p = '''')) \<or>
      window_passed cluster_op (os_log (snd (run_state (delete_terminal_child_jobs cluster_op cluster_run) finished_state))))"
proof -
  let ?run = "run_state (delete_terminal_child_jobs cluster_op cluster_run) finished_state"
  let ?list = "k_list_pods (op_api cluster_op) (ru_namespace cluster_run) (ru_name cluster_run) role_runner (os_world finished_state)"
  have "''cut-job'' \<in> effect_name ` set (os_log (snd ?run))"
    unfolding set_map [symmetric] finished_log by simp
  then obtain e where "e \<in> set (os_log (snd ?run))" "effect_name e = ''cut-job''"
    by (elim imageE) simp
  then obtain k j where cut: "CutJob k j \<in> set (os_log (snd ?run))" using named_cut by metis
  have "os_log finished_state = []" by (simp add: finished_state_def cluster_state_def)
  from jobs_kept_while_restart_pending [OF surjective_pairing this cut surjective_pairing]
  have "(\<exists>pods. fst ?list = Inr pods \<and> (\<forall>p \<in> set pods. pod_restart_pending p = '''')) \<or>
      window_passed cluster_op (os_log (snd ?run))" .
  moreover have "snd ?list = os_world finished_state" by (simp add: cluster_op_def cluster_api_def)
  ultimately show ?thesis using cut by blast
qed

section \<open>The clock of the deferral\<close>

lemma upsert_types: "co_type ` set (upsert_conditions now c cs) = insert (co_type c) (co_type ` set cs)"
  by (induction cs) auto

lemma upsert_distinct: "distinct (map co_type cs) \<Longrightarrow> distinct (map co_type (upsert_conditions now c cs))"
proof (induction cs)
  case (Cons d cs)
  then have "distinct (map co_type (upsert_conditions now c cs))" by simp
  moreover have "set (map co_type (upsert_conditions now c cs)) = insert (co_type c) (co_type ` set cs)"
    using upsert_types [of now c cs] by simp
  ultimately show ?case using Cons.prems by auto
qed simp

lemma upsert_find_true:
  assumes "distinct (map co_type cs)" and "co_status c"
    and "find (\<lambda>x. co_type x = co_type c \<and> co_status x) cs = Some d"
  shows "find (\<lambda>x. co_type x = co_type c \<and> co_status x) (upsert_conditions now c cs) =
    Some (c\<lparr>co_lastTransitionTime := co_lastTransitionTime d\<rparr>)"
  using assms
proof (induction cs)
  case (Cons x xs)
  show ?case
  proof (cases "co_type x = co_type c")
    case True
    have "co_status x"
    proof (rule ccontr)
      assume "\<not> co_status x"
      with Cons.prems(3) have "find (\<lambda>x. co_type x = co_type c \<and> co_status x) xs = Some d" by simp
      then have "co_type c \<in> co_type ` set xs" by (auto simp: find_Some_iff) (metis imageI nth_mem)
      with Cons.prems(1) True show False by simp
    qed
    with True Cons.prems show ?thesis by simp
  qed (use Cons in auto)
qed simp

lemma upsert_find_new:
  "co_type c \<notin> co_type ` set cs \<Longrightarrow> co_status c \<Longrightarrow>
   find (\<lambda>x. co_type x = co_type c \<and> co_status x) (upsert_conditions now c cs) = Some (c\<lparr>co_lastTransitionTime := now\<rparr>)"
  by (induction cs) auto

lemma drop_upsert: "co_type c \<notin> co_type ` set cs \<Longrightarrow> drop_condition (co_type c) (upsert_conditions now c cs) = cs"
  by (induction cs) auto

definition deferral :: "string \<Rightarrow> criteria_run \<Rightarrow> condition" where
  "deferral reason fresh = true_condition condition_terminal_cleanup reason_terminal_restart_pending
     (''terminal child-job deletion deferred: '' @ reason @ '' (KB-302)'') (ru_generation fresh)"

text \<open>
  The deferral's clock starts at its first mark and no later mark resets it: whatever reasons and
  times the marks of the following passes have, a pass at time \<open>now\<close> forces the cleanup exactly when more
  than the window has gone by since the first mark.
\<close>

theorem deferral_clock_runs:
  assumes "distinct (map co_type (st_conditions (ru_status run)))"
    and "condition_terminal_cleanup \<notin> co_type ` set (st_conditions (ru_status run))"
    and "marked = upsert_condition t0 (deferral reason run) run"
  shows "reap_window_passed window now (terminal_cleanup_condition
      (foldl (\<lambda>r (t, why). upsert_condition t (deferral why r) r) marked marks)) \<longleftrightarrow>
    window > 0 \<and> time_sub now t0 > window"
proof -
  have "distinct (map co_type (st_conditions (ru_status (foldl (\<lambda>r (t, why). upsert_condition t (deferral why r) r) marked marks)))) \<and>
    (\<exists>c. terminal_cleanup_condition (foldl (\<lambda>r (t, why). upsert_condition t (deferral why r) r) marked marks) = Some c \<and>
       co_lastTransitionTime c = t0)"
  proof (induction marks rule: rev_induct)
    case Nil
    have "co_type (deferral reason run) = condition_terminal_cleanup" "co_status (deferral reason run)"
      by (simp_all add: deferral_def true_condition_def)
    with assms upsert_find_new [of "deferral reason run" "st_conditions (ru_status run)" t0] upsert_distinct
    show ?case by (auto simp: upsert_condition_def terminal_cleanup_condition_def true_condition_of_def)
  next
    case (snoc m ms)
    let ?r = "foldl (\<lambda>r (t, why). upsert_condition t (deferral why r) r) marked ms"
    from snoc obtain c where c: "distinct (map co_type (st_conditions (ru_status ?r)))"
      "terminal_cleanup_condition ?r = Some c" "co_lastTransitionTime c = t0" by blast
    obtain t why where m: "m = (t, why)" by (rule prod.exhaust)
    have "co_type (deferral why ?r) = condition_terminal_cleanup" "co_status (deferral why ?r)"
      by (simp_all add: deferral_def true_condition_def)
    with c upsert_find_true [of "st_conditions (ru_status ?r)" "deferral why ?r" c t] upsert_distinct
    show ?case by (auto simp: m upsert_condition_def terminal_cleanup_condition_def true_condition_of_def)
  qed
  then show ?thesis by (auto simp: reap_window_passed_def)
qed

text \<open>Witness: marked at 10, again at 40 for another reason; a window of 50 has passed at 61 and not at 60.\<close>

theorem deferral_clock_runs_witness:
  "reap_window_passed 50 61 (terminal_cleanup_condition
     (upsert_condition 40 (deferral ''b'' (upsert_condition 10 (deferral ''a'' cluster_run) cluster_run))
       (upsert_condition 10 (deferral ''a'' cluster_run) cluster_run))) \<and>
   \<not> reap_window_passed 50 60 (terminal_cleanup_condition
     (upsert_condition 40 (deferral ''b'' (upsert_condition 10 (deferral ''a'' cluster_run) cluster_run))
       (upsert_condition 10 (deferral ''a'' cluster_run) cluster_run)))"
proof -
  have none: "st_conditions (ru_status cluster_run) = []" by (simp add: cluster_run_def zero_status_def)
  show ?thesis
    using deferral_clock_runs [of cluster_run "upsert_condition 10 (deferral ''a'' cluster_run) cluster_run" 10 "''a''" 50 61 "[(40, ''b'')]"]
      deferral_clock_runs [of cluster_run "upsert_condition 10 (deferral ''a'' cluster_run) cluster_run" 10 "''a''" 50 60 "[(40, ''b'')]"]
    unfolding none by (simp add: time_sub_def min_duration_def max_duration_def)
qed

text \<open>
  Clearing the deferral undoes marking it: on a run that had no such condition the status is again what
  it was, whatever the reason and the time of the mark.
\<close>

theorem deferral_mark_clear_roundtrip:
  assumes "condition_terminal_cleanup \<notin> co_type ` set (st_conditions (ru_status run))"
  shows "drop_condition condition_terminal_cleanup
      (st_conditions (ru_status (upsert_condition now (deferral reason run) run))) = st_conditions (ru_status run)"
  using drop_upsert [of "deferral reason run"] assms
  by (simp add: upsert_condition_def deferral_def true_condition_def)

theorem deferral_mark_clear_roundtrip_witness:
  "drop_condition condition_terminal_cleanup
     (st_conditions (ru_status (upsert_condition 7 (deferral ''r'' cluster_run) cluster_run))) = []"
  using deferral_mark_clear_roundtrip [of cluster_run 7 "''r''"] by (simp add: cluster_run_def zero_status_def)

end
