(* ===== verification/Json.thy ===== *)
theory Json
  imports Prelude
begin

text \<open>
  JSON as the standard library's \<open>encoding/json\<close> writes and reads it: UTF-8 runes, the string escapes of
  the encoder (HTML-safe), the scanner of the decoder as a lexer and a step relation over a stack of open
  containers, and the field matching of struct decoding. The assignment lane's envelope and its comparison reports
  are built on it. The main fact: what is rendered parses back to the same value.

  Numbers keep their text. A malformed byte sequence is replaced by U+FFFD in both directions, as in Go.
\<close>

section \<open>UTF-8\<close>

definition byte :: "char \<Rightarrow> nat" where "byte c = of_char c"
definition chr :: "nat \<Rightarrow> char" where "chr n = char_of n"

definition cont_byte :: "char \<Rightarrow> bool" where "cont_byte c \<longleftrightarrow> 0x80 \<le> byte c \<and> byte c \<le> 0xBF"

text \<open>\<open>utf8.DecodeRune\<close>: the length of the well-formed rune at the head, \<open>None\<close> when there is none.\<close>

definition second_byte_ok :: "nat \<Rightarrow> char \<Rightarrow> bool" where
  "second_byte_ok b0 c \<longleftrightarrow>
     (if b0 = 0xE0 then 0xA0 \<le> byte c \<and> byte c \<le> 0xBF
      else if b0 = 0xED then 0x80 \<le> byte c \<and> byte c \<le> 0x9F
      else if b0 = 0xF0 then 0x90 \<le> byte c \<and> byte c \<le> 0xBF
      else if b0 = 0xF4 then 0x80 \<le> byte c \<and> byte c \<le> 0x8F
      else cont_byte c)"

definition rune_size :: "nat \<Rightarrow> nat option" where
  "rune_size b0 =
     (if b0 < 0x80 then Some 1
      else if 0xC2 \<le> b0 \<and> b0 \<le> 0xDF then Some 2
      else if 0xE0 \<le> b0 \<and> b0 \<le> 0xEF then Some 3
      else if 0xF0 \<le> b0 \<and> b0 \<le> 0xF4 then Some 4
      else None)"

definition rune_len :: "string \<Rightarrow> nat option" where
  "rune_len s =
     (case s of [] \<Rightarrow> None
      | c # cs \<Rightarrow>
          (case rune_size (byte c) of None \<Rightarrow> None
           | Some n \<Rightarrow>
               if n = 1 then Some 1
               else if n \<le> length s \<and> second_byte_ok (byte c) (hd cs) \<and> list_all cont_byte (take (n - 1) cs)
               then Some n else None))"

text \<open>The runes of a text: the loop over \<open>DecodeRune\<close>, a malformed byte being a chunk of its own.\<close>

function chunks :: "string \<Rightarrow> string list" where
  "chunks s =
     (if s = [] then []
      else let n = (case rune_len s of None \<Rightarrow> 1 | Some n \<Rightarrow> max 1 n) in take n s # chunks (drop n s))"
  by pat_completeness auto
termination
  by (relation "measure length") (auto split: option.splits)

declare chunks.simps [simp del]

definition valid_rune :: "string \<Rightarrow> bool" where "valid_rune r \<longleftrightarrow> rune_len r = Some (length r)"
definition valid_utf8 :: "string \<Rightarrow> bool" where "valid_utf8 s \<longleftrightarrow> list_all valid_rune (chunks s)"

definition replacement_rune :: string where "replacement_rune = [chr 0xEF, chr 0xBF, chr 0xBD]"

text \<open>\<open>utf8.EncodeRune\<close>.\<close>

definition encode_rune :: "nat \<Rightarrow> string" where
  "encode_rune r =
     (if r < 0x80 then [chr r]
      else if r < 0x800 then [chr (0xC0 + r div 64), chr (0x80 + r mod 64)]
      else if (0xD800 \<le> r \<and> r < 0xE000) \<or> 0x110000 \<le> r then replacement_rune
      else if r < 0x10000 then [chr (0xE0 + r div 4096), chr (0x80 + r div 64 mod 64), chr (0x80 + r mod 64)]
      else [chr (0xF0 + r div 262144), chr (0x80 + r div 4096 mod 64), chr (0x80 + r div 64 mod 64),
            chr (0x80 + r mod 64)])"

section \<open>Strings\<close>

definition quote_char :: char where "quote_char = CHR 0x22"
definition escape_char :: char where "escape_char = CHR 0x5C"

definition hex_digit :: "nat \<Rightarrow> char" where
  "hex_digit d = (if d < 10 then chr (48 + d) else chr (87 + d))"

definition unhex :: "char \<Rightarrow> nat option" where
  "unhex c =
     (let b = byte c
      in if 48 \<le> b \<and> b \<le> 57 then Some (b - 48)
         else if 97 \<le> b \<and> b \<le> 102 then Some (b - 87)
         else if 65 \<le> b \<and> b \<le> 70 then Some (b - 55) else None)"

definition u_escape :: "nat \<Rightarrow> string" where
  "u_escape r = [escape_char, CHR ''u'', hex_digit (r div 4096 mod 16), hex_digit (r div 256 mod 16),
     hex_digit (r div 16 mod 16), hex_digit (r mod 16)]"

text \<open>One rune as \<open>appendString\<close> writes it, with the HTML-safe escapes.\<close>

definition render_rune :: "string \<Rightarrow> string" where
  "render_rune r =
     (if \<not> valid_rune r then u_escape 0xFFFD
      else if length r = 1 then
        (let c = hd r
         in if c = quote_char \<or> c = escape_char then [escape_char, c]
            else if c = CHR 0x08 then [escape_char, CHR ''b'']
            else if c = CHR 0x0C then [escape_char, CHR ''f'']
            else if c = CHR 0x0A then [escape_char, CHR ''n'']
            else if c = CHR 0x0D then [escape_char, CHR ''r'']
            else if c = CHR 0x09 then [escape_char, CHR ''t'']
            else if byte c < 0x20 \<or> c \<in> {CHR ''<'', CHR ''>'', CHR ''&''} then u_escape (byte c)
            else [c])
      else if r = encode_rune 0x2028 then u_escape 0x2028
      else if r = encode_rune 0x2029 then u_escape 0x2029
      else r)"

definition render_string :: "string \<Rightarrow> string" where
  "render_string s = [quote_char] @ concat (map render_rune (chunks s)) @ [quote_char]"

text \<open>\<open>getu4\<close>, and an escape: the decoded text and how many bytes follow the backslash.\<close>

definition get_u4 :: "string \<Rightarrow> nat option" where
  "get_u4 s =
     (case s of
        a # b # c # d # rest \<Rightarrow>
          (case (unhex a, unhex b, unhex c, unhex d) of
             (Some w, Some x, Some y, Some z) \<Rightarrow> Some (4096 * w + 256 * x + 16 * y + z)
           | _ \<Rightarrow> None)
      | _ \<Rightarrow> None)"

definition surrogate_pair :: "nat \<Rightarrow> string \<Rightarrow> nat option" where
  "surrogate_pair r rest =
     (case rest of
        x # y # more \<Rightarrow>
          (if x = escape_char \<and> y = CHR ''u'' then
             (case get_u4 more of None \<Rightarrow> None
              | Some r2 \<Rightarrow>
                  if r < 0xDC00 \<and> 0xDC00 \<le> r2 \<and> r2 < 0xE000
                  then Some ((r - 0xD800) * 1024 + (r2 - 0xDC00) + 0x10000) else None)
           else None)
      | _ \<Rightarrow> None)"

definition escape :: "string \<Rightarrow> (string \<times> nat) option" where
  "escape s =
     (case s of [] \<Rightarrow> None
      | e # rest \<Rightarrow>
          if e = quote_char \<or> e = escape_char \<or> e = CHR ''/'' then Some ([e], 1)
          else if e = CHR ''b'' then Some ([CHR 0x08], 1)
          else if e = CHR ''f'' then Some ([CHR 0x0C], 1)
          else if e = CHR ''n'' then Some ([CHR 0x0A], 1)
          else if e = CHR ''r'' then Some ([CHR 0x0D], 1)
          else if e = CHR ''t'' then Some ([CHR 0x09], 1)
          else if e = CHR ''u'' then
            (case get_u4 rest of None \<Rightarrow> None
             | Some r \<Rightarrow>
                 if 0xD800 \<le> r \<and> r < 0xE000 then
                   (case surrogate_pair r (drop 4 rest) of
                      Some x \<Rightarrow> Some (encode_rune x, 11)
                    | None \<Rightarrow> Some (replacement_rune, 5))
                 else Some (encode_rune r, 5))
          else None)"

text \<open>The rest of a string after its opening quote: the decoded text and what follows the closing quote.\<close>

function unquote :: "string \<Rightarrow> (string \<times> string) option" where
  "unquote [] = None"
| "unquote (c # s) =
     (if c = quote_char then Some ([], s)
      else if c = escape_char then
        (case escape s of None \<Rightarrow> None
         | Some (out, k) \<Rightarrow> map_option (apfst ((@) out)) (unquote (drop k s)))
      else if byte c < 0x20 then None
      else case rune_len (c # s) of
             None \<Rightarrow> map_option (apfst ((@) replacement_rune)) (unquote s)
           | Some n \<Rightarrow> map_option (apfst ((@) (take n (c # s)))) (unquote (drop (n - 1) s)))"
  by pat_completeness auto
termination
  by (relation "measure length") auto

declare unquote.simps(2) [simp del]

section \<open>Values\<close>

datatype json =
    JNull
  | JBool bool
  | JNum string
  | JStr string
  | JArr "json list"
  | JObj "(string \<times> json) list"

fun render :: "json \<Rightarrow> string" and
    render_items :: "json list \<Rightarrow> string" and
    render_fields :: "(string \<times> json) list \<Rightarrow> string" where
  "render JNull = ''null''"
| "render (JBool b) = (if b then ''true'' else ''false'')"
| "render (JNum n) = n"
| "render (JStr s) = render_string s"
| "render (JArr vs) = ''['' @ render_items vs @ '']''"
| "render (JObj fs) = ''{'' @ render_fields fs @ ''}''"
| "render_items [] = ''''"
| "render_items (v # vs) = render v @ (if vs = [] then '''' else '','' @ render_items vs)"
| "render_fields [] = ''''"
| "render_fields ((k, v) # fs) =
     render_string k @ '':'' @ render v @ (if fs = [] then '''' else '','' @ render_fields fs)"

text \<open>The lexer. A literal is a maximal run of letters, digits and signs.\<close>

datatype token = TPunct char | TStr string | TLit string

definition lit_char :: "char \<Rightarrow> bool" where
  "lit_char c \<longleftrightarrow> (48 \<le> byte c \<and> byte c \<le> 57) \<or> (65 \<le> byte c \<and> byte c \<le> 90) \<or> (97 \<le> byte c \<and> byte c \<le> 122) \<or>
     c \<in> {CHR ''+'', CHR ''-'', CHR ''.''}"

definition json_space :: "char \<Rightarrow> bool" where
  "json_space c \<longleftrightarrow> c \<in> {CHR '' '', CHR 0x09, CHR 0x0A, CHR 0x0D}"

definition punct :: "char \<Rightarrow> bool" where
  "punct c \<longleftrightarrow> c \<in> {CHR ''{'', CHR ''}'', CHR ''['', CHR '']'', CHR '':'', CHR '',''}"

lemma unquote_shorter: "unquote s = Some (out, rest) \<Longrightarrow> length rest < length s"
proof (induction s arbitrary: out rest rule: unquote.induct)
  case (2 c s)
  then show ?case
    by (auto simp: unquote.simps(2) split: if_splits option.splits)
      (fastforce dest!: less_imp_le simp: le_diff_conv)+
qed simp

function tokenize :: "string \<Rightarrow> token list option" where
  "tokenize [] = Some []"
| "tokenize (c # s) =
     (if json_space c then tokenize s
      else if punct c then map_option ((#) (TPunct c)) (tokenize s)
      else if c = quote_char then
        (case unquote s of None \<Rightarrow> None
         | Some (str, rest) \<Rightarrow> map_option ((#) (TStr str)) (tokenize rest))
      else if lit_char c then
        map_option ((#) (TLit (c # takeWhile lit_char s))) (tokenize (dropWhile lit_char s))
      else None)"
  by pat_completeness auto
termination
  by (relation "measure length") (auto dest: unquote_shorter simp: length_dropWhile_le le_imp_less_Suc)

declare tokenize.simps(2) [simp del]

text \<open>Numbers, by the grammar of the scanner's number states.\<close>

definition digits1 :: "string \<Rightarrow> string option" where
  "digits1 s = (if s \<noteq> [] \<and> 48 \<le> byte (hd s) \<and> byte (hd s) \<le> 57
     then Some (dropWhile (\<lambda>c. 48 \<le> byte c \<and> byte c \<le> 57) s) else None)"

definition int_part :: "string \<Rightarrow> string option" where
  "int_part s = (case s of [] \<Rightarrow> None | c # rest \<Rightarrow> if c = CHR ''0'' then Some rest else digits1 s)"

definition frac_part :: "string \<Rightarrow> string option" where
  "frac_part s = (case s of [] \<Rightarrow> Some [] | c # rest \<Rightarrow> if c = CHR ''.'' then digits1 rest else Some s)"

definition exp_part :: "string \<Rightarrow> string option" where
  "exp_part s =
     (case s of [] \<Rightarrow> Some []
      | c # rest \<Rightarrow>
          if c = CHR ''e'' \<or> c = CHR ''E'' then
            digits1 (case rest of [] \<Rightarrow> [] | x # more \<Rightarrow> if x = CHR ''+'' \<or> x = CHR ''-'' then more else rest)
          else Some s)"

definition is_number :: "string \<Rightarrow> bool" where
  "is_number s =
     (let unsigned = (case s of [] \<Rightarrow> [] | c # rest \<Rightarrow> if c = CHR ''-'' then rest else s)
      in case int_part unsigned of None \<Rightarrow> False
         | Some t \<Rightarrow> (case frac_part t of None \<Rightarrow> False | Some u \<Rightarrow> exp_part u = Some []))"

definition literal :: "string \<Rightarrow> json option" where
  "literal s =
     (if s = ''null'' then Some JNull
      else if s = ''true'' then Some (JBool True)
      else if s = ''false'' then Some (JBool False)
      else if is_number s then Some (JNum s) else None)"

text \<open>The scanner: what it expects next, and the containers it stands in, innermost first.\<close>

datatype frame = FArr "json list" | FObj "(string \<times> json) list" | FKey "(string \<times> json) list" string

datatype expecting = EValue | EValueOrEnd | EKey | EKeyOrEnd | EColon string | EAfter json

definition max_nesting_depth :: nat where "max_nesting_depth = 10000"

definition open_container :: "frame list \<Rightarrow> frame \<Rightarrow> expecting \<Rightarrow> (expecting \<times> frame list) option" where
  "open_container st f e = (if length st < max_nesting_depth then Some (e, f # st) else None)"

definition value_step :: "frame list \<Rightarrow> token \<Rightarrow> (expecting \<times> frame list) option" where
  "value_step st t =
     (case t of
        TStr s \<Rightarrow> Some (EAfter (JStr s), st)
      | TLit l \<Rightarrow> map_option (\<lambda>v. (EAfter v, st)) (literal l)
      | TPunct c \<Rightarrow>
          if c = CHR ''{'' then open_container st (FObj []) EKeyOrEnd
          else if c = CHR ''['' then open_container st (FArr []) EValueOrEnd else None)"

definition key_step :: "frame list \<Rightarrow> token \<Rightarrow> (expecting \<times> frame list) option" where
  "key_step st t = (case t of TStr k \<Rightarrow> Some (EColon k, st) | _ \<Rightarrow> None)"

fun step :: "expecting \<Rightarrow> frame list \<Rightarrow> token \<Rightarrow> (expecting \<times> frame list) option" where
  "step EValue st t = value_step st t"
| "step EValueOrEnd (FArr vs # st) t =
     (if t = TPunct (CHR '']'') then Some (EAfter (JArr vs), st) else value_step (FArr vs # st) t)"
| "step EKey st t = key_step st t"
| "step EKeyOrEnd (FObj fs # st) t =
     (if t = TPunct (CHR ''}'') then Some (EAfter (JObj fs), st) else key_step (FObj fs # st) t)"
| "step (EColon k) (FObj fs # st) t = (if t = TPunct (CHR '':'') then Some (EValue, FKey fs k # st) else None)"
| "step (EAfter v) (FArr vs # st) t =
     (if t = TPunct (CHR '','') then Some (EValue, FArr (vs @ [v]) # st)
      else if t = TPunct (CHR '']'') then Some (EAfter (JArr (vs @ [v])), st) else None)"
| "step (EAfter v) (FKey fs k # st) t =
     (if t = TPunct (CHR '','') then Some (EKey, FObj (fs @ [(k, v)]) # st)
      else if t = TPunct (CHR ''}'') then Some (EAfter (JObj (fs @ [(k, v)])), st) else None)"
| "step e st t = None"

fun parse_tokens :: "expecting \<Rightarrow> frame list \<Rightarrow> token list \<Rightarrow> json option" where
  "parse_tokens e st [] = (case (e, st) of (EAfter v, []) \<Rightarrow> Some v | _ \<Rightarrow> None)"
| "parse_tokens e st (t # ts) =
     (case step e st t of None \<Rightarrow> None | Some (e', st') \<Rightarrow> parse_tokens e' st' ts)"

definition parse_json :: "string \<Rightarrow> json option" where
  "parse_json s = (case tokenize s of None \<Rightarrow> None | Some ts \<Rightarrow> parse_tokens EValue [] ts)"

section \<open>Rendered strings are read back\<close>

lemma byte_chr [simp]: "n < 256 \<Longrightarrow> byte (chr n) = n"
  by (simp add: byte_def chr_def)

lemma chr_byte [simp]: "chr (byte c) = c"
  by (simp add: byte_def chr_def)

lemma rune_len_bounds: "rune_len s = Some n \<Longrightarrow> 0 < n \<and> n \<le> length s \<and> n \<le> 4"
  by (auto simp: rune_len_def rune_size_def split: list.splits option.splits if_splits)

lemma rune_len_take:
  assumes "rune_len s = Some n"
  shows "rune_len (take n s @ t) = Some n"
proof -
  obtain c cs where s: "s = c # cs" using assms by (cases s) (auto simp: rune_len_def)
  obtain m where m: "rune_size (byte c) = Some m" and n: "n = m"
    using assms by (auto simp: s rune_len_def split: option.splits if_splits)
  have "n = 1 \<or> (n = length (take n s) \<and> 1 < n)"
    using assms n m rune_len_bounds [OF assms] by (auto simp: rune_size_def split: if_splits)
  then show ?thesis
  proof
    assume "n = 1" then show ?thesis using m n by (simp add: s rune_len_def)
  next
    assume len: "n = length (take n s) \<and> 1 < n"
    then obtain k where k: "n = Suc (Suc k)" by (metis Suc_lessD less_imp_Suc_add One_nat_def Suc_less_eq2 less_SucE)
    obtain d ds where cs: "cs = d # ds" using len by (cases cs) (auto simp: s k)
    show ?thesis
      using assms m n k len by (auto simp: s cs rune_len_def take_Cons split: if_splits)
  qed
qed

lemma concat_chunks: "concat (chunks s) = s"
proof (induction s rule: chunks.induct)
  case (1 s)
  show ?case
    using 1 by (subst chunks.simps) (auto simp: Let_def)
qed

lemma unhex_digit: "d < 16 \<Longrightarrow> unhex (hex_digit d) = Some d"
  by (simp add: unhex_def hex_digit_def Let_def)

lemma hex_value:
  assumes "(n::nat) < 65536"
  shows "4096 * (n div 4096 mod 16) + 256 * (n div 256 mod 16) + 16 * (n div 16 mod 16) + n mod 16 = n"
proof -
  define a b d where "a = n div 16" and "b = a div 16" and "d = b div 16"
  have "n div 4096 = d" "n div 256 = b" by (simp_all add: a_def b_def d_def div_mult2_eq [symmetric])
  moreover have "d < 16" using assms by (simp add: a_def b_def d_def div_mult2_eq [symmetric])
  moreover have "n = 16 * a + n mod 16" "a = 16 * b + a mod 16" "b = 16 * d + b mod 16"
    unfolding a_def b_def d_def by (simp_all only: mult_div_mod_eq)
  ultimately show ?thesis by (simp only: a_def [symmetric] mod_less)
qed

lemma get_u4_digits:
  "n < 65536 \<Longrightarrow> get_u4 ([hex_digit (n div 4096 mod 16), hex_digit (n div 256 mod 16),
     hex_digit (n div 16 mod 16), hex_digit (n mod 16)] @ t) = Some n"
  using hex_value [of n] by (simp add: get_u4_def unhex_digit)

lemma unquote_u_escape:
  assumes "n < 65536" and "n < 0xD800 \<or> 0xE000 \<le> n"
  shows "unquote (u_escape n @ t) = map_option (apfst ((@) (encode_rune n))) (unquote t)"
proof -
  let ?rest = "drop 1 (u_escape n @ t)"
  have "escape ?rest = Some (encode_rune n, 5)"
    using get_u4_digits [OF assms(1), of t] assms(2)
    by (auto simp: escape_def u_escape_def quote_char_def escape_char_def)
  moreover have "u_escape n @ t = escape_char # ?rest" "drop 5 ?rest = t" by (simp_all add: u_escape_def)
  moreover have "escape_char \<noteq> quote_char" by (simp add: quote_char_def escape_char_def)
  ultimately show ?thesis using unquote.simps(2) [of escape_char ?rest] by simp
qed

lemma unquote_escaped:
  "escape (e # t) = Some ([c], 1) \<Longrightarrow> unquote (escape_char # e # t) = map_option (apfst ((@) [c])) (unquote t)"
  using unquote.simps(2) [of escape_char "e # t"] by (simp add: quote_char_def escape_char_def)

lemma unquote_plain:
  assumes "rune_len (r @ t) = Some (length r)" and "hd (r @ t) \<notin> {quote_char, escape_char}" and "0x20 \<le> byte (hd (r @ t))"
  shows "unquote (r @ t) = map_option (apfst ((@) r)) (unquote t)"
proof -
  obtain c cs where r: "r = c # cs" using rune_len_bounds [OF assms(1)] by (cases r) auto
  show ?thesis
    using assms by (simp add: r unquote.simps(2))
qed

lemma valid_runeD: "valid_rune r \<Longrightarrow> rune_len (r @ t) = Some (length r)"
  using rune_len_take [of r "length r" t] by (simp add: valid_rune_def)

lemma valid_rune_ascii: "valid_rune [c] \<longleftrightarrow> byte c < 0x80"
  by (auto simp: valid_rune_def rune_len_def rune_size_def split: if_splits)

lemma valid_rune_long:
  assumes "valid_rune r" and "length r \<noteq> 1"
  shows "0x80 \<le> byte (hd r)"
proof -
  obtain c cs where "r = c # cs" using assms by (cases r) (auto simp: valid_rune_def rune_len_def)
  with assms show ?thesis
    by (auto simp: valid_rune_def rune_len_def rune_size_def split: if_splits)
qed

lemma byte_special: "byte quote_char = 0x22" "byte escape_char = 0x5C"
  by (simp_all add: byte_def quote_char_def escape_char_def)

lemma unquote_rune:
  assumes "valid_rune r"
  shows "unquote (render_rune r @ t) = map_option (apfst ((@) r)) (unquote t)"
proof (cases "length r = 1")
  case True
  then obtain c where r: "r = [c]" by (auto simp: length_Suc_conv)
  have ascii: "byte c < 0x80" using assms r valid_rune_ascii by simp
  have enc: "encode_rune (byte c) = [c]" using ascii by (simp add: encode_rune_def)
  consider "c \<in> {quote_char, escape_char, CHR 0x08, CHR 0x0C, CHR 0x0A, CHR 0x0D, CHR 0x09}"
    | "c \<notin> {quote_char, escape_char, CHR 0x08, CHR 0x0C, CHR 0x0A, CHR 0x0D, CHR 0x09}"
      "byte c < 0x20 \<or> c \<in> {CHR ''<'', CHR ''>'', CHR ''&''}"
    | "c \<notin> {quote_char, escape_char, CHR 0x08, CHR 0x0C, CHR 0x0A, CHR 0x0D, CHR 0x09}"
      "\<not> (byte c < 0x20 \<or> c \<in> {CHR ''<'', CHR ''>'', CHR ''&''})" by blast
  then show ?thesis
  proof cases
    case 1
    then obtain e where "render_rune r = [escape_char, e]" "escape (e # t) = Some ([c], 1)"
      using assms by (auto simp: r render_rune_def escape_def quote_char_def escape_char_def)
    then show ?thesis using unquote_escaped [of e t c] by (simp add: r)
  next
    case 2
    then have "render_rune r = u_escape (byte c)" using assms by (auto simp: r render_rune_def Let_def)
    then show ?thesis using ascii enc unquote_u_escape [of "byte c" t] by (simp add: r)
  next
    case 3
    then have "render_rune r = r" using assms by (auto simp: r render_rune_def Let_def)
    then show ?thesis
      using 3 valid_runeD [OF assms] by (simp add: r unquote_plain [of "[c]" t, simplified])
  qed
next
  case False
  have r: "r \<noteq> []" using assms by (auto simp: valid_rune_def rune_len_def)
  have big: "0x80 \<le> byte (hd r)" using valid_rune_long [OF assms False] .
  consider "r = encode_rune 0x2028" | "r = encode_rune 0x2029" | "render_rune r = r"
    using assms False
    by (cases "r = encode_rune 0x2028"; cases "r = encode_rune 0x2029") (auto simp: render_rune_def)
  then show ?thesis
  proof cases
    case 1
    then have "render_rune r = u_escape 0x2028" using assms False by (simp add: render_rune_def)
    then show ?thesis using unquote_u_escape [of "0x2028" t] 1 by simp
  next
    case 2
    moreover have "encode_rune 0x2029 \<noteq> encode_rune 0x2028" by (simp add: encode_rune_def chr_def)
    ultimately have "render_rune r = u_escape 0x2029" using assms False by (simp add: render_rune_def)
    then show ?thesis using unquote_u_escape [of "0x2029" t] 2 by simp
  next
    case 3
    have "hd r \<notin> {quote_char, escape_char}" using big byte_special by auto
    then show ?thesis using 3 unquote_plain [OF valid_runeD [OF assms]] big r by simp
  qed
qed

lemma unquote_runes:
  "list_all valid_rune rs \<Longrightarrow> unquote (concat (map render_rune rs) @ quote_char # t) = Some (concat rs, t)"
  by (induction rs) (simp_all add: unquote.simps(2) unquote_rune)

lemma unquote_rendered:
  "valid_utf8 s \<Longrightarrow> unquote (concat (map render_rune (chunks s)) @ quote_char # t) = Some (s, t)"
  unfolding valid_utf8_def using unquote_runes [of "chunks s" t] by (simp add: concat_chunks)

section \<open>Rendered values are read back\<close>

text \<open>The tokens of a value, and what makes a value renderable: well-formed text and numbers, bounded nesting.\<close>

fun tokens :: "json \<Rightarrow> token list" and
    item_tokens :: "json list \<Rightarrow> token list" and
    field_tokens :: "(string \<times> json) list \<Rightarrow> token list" where
  "tokens (JStr s) = [TStr s]"
| "tokens (JArr vs) = TPunct (CHR ''['') # item_tokens vs @ [TPunct (CHR '']'')]"
| "tokens (JObj fs) = TPunct (CHR ''{'') # field_tokens fs @ [TPunct (CHR ''}'')]"
| "tokens v = [TLit (render v)]"
| "item_tokens [] = []"
| "item_tokens (v # vs) = tokens v @ (if vs = [] then [] else TPunct (CHR '','') # item_tokens vs)"
| "field_tokens [] = []"
| "field_tokens ((k, v) # fs) =
     TStr k # TPunct (CHR '':'') # tokens v @ (if fs = [] then [] else TPunct (CHR '','') # field_tokens fs)"

fun renderable :: "nat \<Rightarrow> json \<Rightarrow> bool" and
    renderable_items :: "nat \<Rightarrow> json list \<Rightarrow> bool" and
    renderable_fields :: "nat \<Rightarrow> (string \<times> json) list \<Rightarrow> bool" where
  "renderable d JNull = True"
| "renderable d (JBool b) = True"
| "renderable d (JNum n) = (literal n = Some (JNum n) \<and> list_all lit_char n)"
| "renderable d (JStr s) = valid_utf8 s"
| "renderable d (JArr vs) = (d < max_nesting_depth \<and> renderable_items (Suc d) vs)"
| "renderable d (JObj fs) = (d < max_nesting_depth \<and> renderable_fields (Suc d) fs)"
| "renderable_items d [] = True"
| "renderable_items d (v # vs) = (renderable d v \<and> renderable_items d vs)"
| "renderable_fields d [] = True"
| "renderable_fields d ((k, v) # fs) = (valid_utf8 k \<and> renderable d v \<and> renderable_fields d fs)"

definition closes :: "string \<Rightarrow> bool" where "closes s \<longleftrightarrow> s = [] \<or> punct (hd s)"

lemma closes_punct [simp]:
  "closes (CHR '','' # t)" "closes (CHR '']'' # t)" "closes (CHR ''}'' # t)" "closes (CHR '':'' # t)"
  by (simp_all add: closes_def punct_def)

lemma punct_chars:
  "punct (CHR ''{'')" "punct (CHR ''}'')" "punct (CHR ''['')" "punct (CHR '']'')" "punct (CHR '':'')" "punct (CHR '','')"
  by (simp_all add: punct_def)

lemma closes_not_literal: "closes s \<Longrightarrow> takeWhile lit_char s = [] \<and> dropWhile lit_char s = s"
  by (cases s) (auto simp: closes_def punct_def lit_char_def byte_def)

lemma tokenize_punct: "punct c \<Longrightarrow> tokenize (c # s) = map_option ((#) (TPunct c)) (tokenize s)"
  by (auto simp: tokenize.simps(2) punct_def json_space_def)

lemma tokenize_string:
  "valid_utf8 s \<Longrightarrow> tokenize (render_string s @ t) = map_option ((#) (TStr s)) (tokenize t)"
  using unquote_rendered [of s t]
  by (simp add: render_string_def tokenize.simps(2) punct_def json_space_def quote_char_def)

lemma tokenize_literal:
  assumes "l \<noteq> []" and "list_all lit_char l" and "closes t"
  shows "tokenize (l @ t) = map_option ((#) (TLit l)) (tokenize t)"
proof -
  obtain c cs where l: "l = c # cs" using assms(1) by (cases l) auto
  have "takeWhile lit_char (cs @ t) = cs" "dropWhile lit_char (cs @ t) = t"
    using assms(2) closes_not_literal [OF assms(3)] by (simp_all add: l list_all_iff)
  moreover have "lit_char c" using assms(2) by (simp add: l)
  moreover have "\<not> json_space c" "\<not> punct c" "c \<noteq> quote_char"
    using \<open>lit_char c\<close> by (auto simp: lit_char_def json_space_def punct_def quote_char_def byte_def)
  ultimately show ?thesis by (simp add: l tokenize.simps(2))
qed

lemma lit_words: "list_all lit_char ''null''" "list_all lit_char ''true''" "list_all lit_char ''false''"
  by code_simp+

lemma prepend_one: "map_option ((@) [x]) r = map_option ((#) x) r" "map_option ((@) []) r = r"
  by (cases r; simp)+

lemma literal_nonempty: "literal n = Some (JNum n) \<Longrightarrow> n \<noteq> []"
  by (auto simp: literal_def is_number_def int_part_def)

lemma tokenize_render:
  "renderable d v \<Longrightarrow> closes t \<Longrightarrow> tokenize (render v @ t) = map_option ((@) (tokens v)) (tokenize t)"
  "renderable_items d vs \<Longrightarrow> closes t \<Longrightarrow> tokenize (render_items vs @ t) = map_option ((@) (item_tokens vs)) (tokenize t)"
  "renderable_fields d fs \<Longrightarrow> closes t \<Longrightarrow> tokenize (render_fields fs @ t) = map_option ((@) (field_tokens fs)) (tokenize t)"
proof (induction v and vs and fs arbitrary: d t and d t and d t rule: render_render_items_render_fields.induct)
  case (3 n)
  then show ?case using tokenize_literal [of n t] literal_nonempty [of n] by (simp add: prepend_one)
next
  case (5 vs)
  from 5(2, 3) 5(1) [of "Suc d" "CHR '']'' # t"] show ?case
    by (cases "tokenize t") (simp_all add: tokenize_punct punct_chars)
next
  case (6 fs)
  from 6(2, 3) 6(1) [of "Suc d" "CHR ''}'' # t"] show ?case
    by (cases "tokenize t") (simp_all add: tokenize_punct punct_chars)
next
  case (8 v vs)
  then show ?case
    by (cases "tokenize t") (auto simp: tokenize_punct punct_chars)
next
  case (10 k v fs)
  then show ?case
    by (cases "tokenize t") (auto simp: tokenize_string tokenize_punct punct_chars)
next
  case 1
  then show ?case using tokenize_literal [of "''null''" t] lit_words by (simp add: prepend_one)
next
  case (2 b)
  then show ?case
    using tokenize_literal [of "''true''" t] tokenize_literal [of "''false''" t] lit_words by (simp add: prepend_one)
qed (simp_all add: tokenize_string prepend_one)

lemma literal_words: "literal ''null'' = Some JNull" "literal ''true'' = Some (JBool True)" "literal ''false'' = Some (JBool False)"
  by (simp_all add: literal_def)

text \<open>The scanner, started on the tokens of a value, arrives after that value in the same containers.\<close>

lemma parse_rendered:
  "renderable (length st) v \<Longrightarrow> parse_tokens EValue st (tokens v @ ts) = parse_tokens (EAfter v) st ts"
  "renderable_items (length (FArr us # st)) vs \<Longrightarrow> vs \<noteq> [] \<Longrightarrow>
     parse_tokens EValue (FArr us # st) (item_tokens vs @ TPunct (CHR '']'') # ts) = parse_tokens (EAfter (JArr (us @ vs))) st ts"
  "renderable_fields (length (FObj gs # st)) fs \<Longrightarrow> fs \<noteq> [] \<Longrightarrow>
     parse_tokens EKey (FObj gs # st) (field_tokens fs @ TPunct (CHR ''}'') # ts) = parse_tokens (EAfter (JObj (gs @ fs))) st ts"
proof (induction v and vs and fs arbitrary: st ts and us st ts and gs st ts
    rule: render_render_items_render_fields.induct)
  case (5 vs)
  have first: "vs \<noteq> [] \<Longrightarrow> parse_tokens EValueOrEnd (FArr [] # st) (item_tokens vs @ us) =
      parse_tokens EValue (FArr [] # st) (item_tokens vs @ us)" for us
    by (cases vs rule: list.exhaust; cases "hd vs") simp_all
  show ?case
    using 5 first
    by (cases "vs = []") (simp_all add: value_step_def open_container_def)
next
  case (6 fs)
  have first: "fs \<noteq> [] \<Longrightarrow> parse_tokens EKeyOrEnd (FObj [] # st) (field_tokens fs @ us) =
      parse_tokens EKey (FObj [] # st) (field_tokens fs @ us)" for us
    by (cases fs; cases "hd fs") simp_all
  show ?case
    using 6 first
    by (cases "fs = []") (simp_all add: value_step_def open_container_def)
next
  case (8 v vs)
  then show ?case by (cases "vs = []") simp_all
next
  case (10 k v fs)
  then show ?case by (cases "fs = []") (simp_all add: key_step_def)
qed (simp_all add: value_step_def literal_words)

theorem json_round_trip: "renderable 0 v \<Longrightarrow> parse_json (render v) = Some v"
proof -
  assume v: "renderable 0 v"
  have "tokenize (render v) = Some (tokens v)"
    using tokenize_render(1) [OF v, of "[]"] by (simp add: closes_def)
  then show "parse_json (render v) = Some v"
    using parse_rendered(1) [of "[]" v "[]"] v by (simp add: parse_json_def)
qed

section \<open>Structs\<close>

text \<open>
  The fields of a struct as the encoder writes them (\<open>omitempty\<close> drops the empty text, list and map; map
  keys are sorted), and as the decoder reads them: an exact field name first, then one equal under case
  folding; unknown names are ignored; \<open>null\<close> leaves a field as it is and empties a map. The decoder goes on
  after a type mismatch and answers the error at the end; here the first one ends the decoding.
\<close>

definition text_field :: "string \<Rightarrow> string \<Rightarrow> (string \<times> json) list" where
  "text_field name s = [(name, JStr s)]"

definition opt_text :: "string \<Rightarrow> string \<Rightarrow> (string \<times> json) list" where
  "opt_text name s = (if s = '''' then [] else [(name, JStr s)])"

definition text_entries :: "(string \<times> string) list \<Rightarrow> (string \<times> json) list" where
  "text_entries m = map (\<lambda>(k, v). (k, JStr v)) m"

definition sorted_entries :: "smap \<Rightarrow> smap" where
  "sorted_entries m = map (\<lambda>k. (k, smap_get m k)) (sort (remdups (map fst m)))"

definition opt_map :: "string \<Rightarrow> smap \<Rightarrow> (string \<times> json) list" where
  "opt_map name m = (if m = [] then [] else [(name, JObj (text_entries (sorted_entries m)))])"

definition opt_flag :: "string \<Rightarrow> bool \<Rightarrow> (string \<times> json) list" where
  "opt_flag name b = (if b then [(name, JBool True)] else [])"

definition opt_list :: "string \<Rightarrow> json list \<Rightarrow> (string \<times> json) list" where
  "opt_list name vs = (if vs = [] then [] else [(name, JArr vs)])"

text \<open>\<open>EqualFold\<close> against an ASCII name: besides the letters, the Kelvin sign and the long s fold to ASCII.\<close>

definition fold_rune :: "string \<Rightarrow> string" where
  "fold_rune r =
     (if r = encode_rune 0x212A then ''k''
      else if r = encode_rune 0x017F then ''s''
      else map (\<lambda>c. if 65 \<le> byte c \<and> byte c \<le> 90 then chr (byte c + 32) else c) r)"

definition fold_name :: "string \<Rightarrow> string" where "fold_name s = concat (map fold_rune (chunks s))"

type_synonym 'e setter = "json \<Rightarrow> 'e \<Rightarrow> go_error + 'e"

definition struct_field :: "(string \<times> 'e setter) list \<Rightarrow> string \<Rightarrow> 'e setter option" where
  "struct_field table k =
     (case map_of table k of Some f \<Rightarrow> Some f
      | None \<Rightarrow> map_option snd (find (\<lambda>(n, f). fold_name n = fold_name k) table))"

definition set_text :: "(string \<Rightarrow> 'e \<Rightarrow> 'e) \<Rightarrow> 'e setter" where
  "set_text put v e = (case v of JStr s \<Rightarrow> Inr (put s e) | JNull \<Rightarrow> Inr e
     | _ \<Rightarrow> Inl (ErrMsg ''json: cannot unmarshal into a string''))"

fun read_map :: "smap \<Rightarrow> (string \<times> json) list \<Rightarrow> go_error + smap" where
  "read_map m [] = Inr m"
| "read_map m ((k, v) # fs) =
     (case v of JStr s \<Rightarrow> read_map (assoc_put k s m) fs
      | JNull \<Rightarrow> read_map (assoc_put k '''' m) fs
      | _ \<Rightarrow> Inl (ErrMsg ''json: cannot unmarshal into a string''))"

definition set_map :: "('e \<Rightarrow> smap) \<Rightarrow> (smap \<Rightarrow> 'e \<Rightarrow> 'e) \<Rightarrow> 'e setter" where
  "set_map get put v e =
     (case v of
        JNull \<Rightarrow> Inr (put [] e)
      | JObj fs \<Rightarrow> (case read_map (get e) fs of Inl err \<Rightarrow> Inl err | Inr m \<Rightarrow> Inr (put m e))
      | _ \<Rightarrow> Inl (ErrMsg ''json: cannot unmarshal into a map''))"

fun decode_fields :: "(string \<Rightarrow> 'e setter option) \<Rightarrow> (string \<times> json) list \<Rightarrow> 'e \<Rightarrow> go_error + 'e" where
  "decode_fields table [] e = Inr e"
| "decode_fields table ((k, v) # fs) e =
     (case table k of None \<Rightarrow> decode_fields table fs e
      | Some f \<Rightarrow> (case f v e of Inl err \<Rightarrow> Inl err | Inr e' \<Rightarrow> decode_fields table fs e'))"

definition unmarshal :: "(string \<times> 'e setter) list \<Rightarrow> 'e \<Rightarrow> string \<Rightarrow> go_error + 'e" where
  "unmarshal table zero text =
     (case parse_json text of
        None \<Rightarrow> Inl (ErrMsg ''invalid JSON'')
      | Some JNull \<Rightarrow> Inr zero
      | Some (JObj fs) \<Rightarrow> decode_fields (struct_field table) fs zero
      | Some _ \<Rightarrow> Inl (ErrMsg ''json: cannot unmarshal into a struct''))"

lemma decode_fields_append:
  "decode_fields table (fs @ gs) e =
     (case decode_fields table fs e of Inl err \<Rightarrow> Inl err | Inr e' \<Rightarrow> decode_fields table gs e')"
  by (induction table fs e rule: decode_fields.induct) (auto split: option.splits sum.splits)

lemma assoc_put_fresh: "k \<notin> fst ` set m \<Longrightarrow> assoc_put k v m = m @ [(k, v)]"
  by (induction k v m rule: assoc_put.induct) auto

lemma read_map_entries:
  "distinct (map fst (m @ es)) \<Longrightarrow> read_map m (text_entries es) = Inr (m @ es)"
proof (induction es arbitrary: m)
  case (Cons x es)
  then show ?case by (cases x) (auto simp: text_entries_def assoc_put_fresh)
qed (simp add: text_entries_def)

lemma renderable_fields_iff: "renderable_fields d fs \<longleftrightarrow> (\<forall>(k, v) \<in> set fs. valid_utf8 k \<and> renderable d v)"
  by (induction fs) auto

lemma renderable_append [simp]: "renderable_fields d (fs @ gs) \<longleftrightarrow> renderable_fields d fs \<and> renderable_fields d gs"
  by (auto simp: renderable_fields_iff)

lemma valid_ascii: "list_all (\<lambda>c. byte c < 0x80) s \<Longrightarrow> valid_utf8 s"
proof (induction s)
  case (Cons c cs)
  then have "chunks (c # cs) = [c] # chunks cs"
    by (subst chunks.simps) (simp add: rune_len_def rune_size_def)
  with Cons show ?case by (simp add: valid_utf8_def valid_rune_ascii)
qed (simp add: valid_utf8_def chunks.simps)

text \<open>What the encoder writes of a map depends on its bindings alone, not on the order of its entries.\<close>

definition same_map :: "smap \<Rightarrow> smap \<Rightarrow> bool" where
  "same_map m m' \<longleftrightarrow> list_all (\<lambda>k. map_of m k = map_of m' k) (map fst m @ map fst m')"

lemma same_map_iff: "same_map m m' \<longleftrightarrow> map_of m = map_of m'"
proof
  assume same: "same_map m m'"
  show "map_of m = map_of m'"
  proof
    fix k
    show "map_of m k = map_of m' k"
    proof (cases "k \<in> fst ` set m \<union> fst ` set m'")
      case True
      then show ?thesis using same unfolding same_map_def by (auto simp: list_all_iff)
    next
      case False
      then show ?thesis by (metis Un_iff map_of_eq_None_iff)
    qed
  qed
qed (simp add: same_map_def list_all_iff)

lemma sorted_entries_Nil [simp]: "sorted_entries [] = []"
  by (simp add: sorted_entries_def)

lemma distinct_sorted_entries: "distinct (map fst (sorted_entries m))"
  by (simp add: sorted_entries_def comp_def)

lemma set_sorted_entries: "set (sorted_entries m) \<subseteq> set m"
proof
  fix x assume "x \<in> set (sorted_entries m)"
  then obtain k where k: "k \<in> fst ` set m" "x = (k, smap_get m k)" by (auto simp: sorted_entries_def)
  then obtain v where "map_of m k = Some v" by (metis map_of_eq_None_iff not_Some_eq)
  then show "x \<in> set m" using k(2) map_of_SomeD by (simp add: smap_get_def)
qed

lemma sorted_entries_same: "map_of m = map_of m' \<Longrightarrow> sorted_entries m = sorted_entries m'"
proof -
  assume same: "map_of m = map_of m'"
  then have "set (map fst m) = set (map fst m')" by (metis dom_map_of_conv_image_fst set_map)
  then have "sort (remdups (map fst m)) = sort (remdups (map fst m'))"
    by (metis sorted_list_of_set_sort_remdups)
  with same show ?thesis by (simp add: sorted_entries_def smap_get_def)
qed

definition sound_map :: "smap \<Rightarrow> bool" where
  "sound_map m \<longleftrightarrow> list_all (\<lambda>(k, v). valid_utf8 k \<and> valid_utf8 v) m"

lemma renderable_entries:
  "sound_map m \<Longrightarrow> renderable_fields d (text_entries (sorted_entries m))"
  using set_sorted_entries [of m]
  by (fastforce simp: renderable_fields_iff sound_map_def text_entries_def list_all_iff)

end
