(* ===== verification/Assignment.thy ===== *)
theory Assignment
  imports RunSpec Json
begin

text \<open>
  The assignment lane's data (\<open>internal/control/control.go\<close>, \<open>payload.go\<close>) and the run it would stamp
  (\<open>run.go\<close>): the assignment of the Control stream, the decision derived from its labels, the dispatch
  envelope carried in the workflow source, and the run builder. What one build reads of its surroundings (the
  routes file, the clock, a ConfigMap) is a record of functions; the clients and the stream are in \<open>AgentLane\<close>.
\<close>

section \<open>Assignments and decisions\<close>

record assignment =
  as_runID :: string
  as_workflowName :: string
  as_workflowSource :: string
  as_lockfileSource :: string
  as_labels :: smap

definition default_label_ticket :: string where "default_label_ticket = ''ticket''"
definition default_label_repo_url :: string where
  "default_label_repo_url = ''criteria.brokenbots.dev/repo-url''"
definition default_label_class :: string where "default_label_class = ''criteria.brokenbots.dev/class''"
definition default_label_project :: string where
  "default_label_project = ''criteria.brokenbots.dev/project''"

record control_config =
  cc_addr :: string
  cc_token :: string
  cc_criteriaID :: string
  cc_labelTicket :: string
  cc_labelRepoURL :: string
  cc_labelClass :: string
  cc_labelProject :: string

definition lane_disabled :: "control_config \<Rightarrow> bool" where "lane_disabled cfg \<longleftrightarrow> cc_addr cfg = ''''"

definition label_key :: "string \<Rightarrow> string \<Rightarrow> string" where
  "label_key key def = (if key = '''' then def else key)"

definition ticket_label :: "control_config \<Rightarrow> string" where
  "ticket_label c = label_key (cc_labelTicket c) default_label_ticket"
definition repo_url_label :: "control_config \<Rightarrow> string" where
  "repo_url_label c = label_key (cc_labelRepoURL c) default_label_repo_url"
definition class_label :: "control_config \<Rightarrow> string" where
  "class_label c = label_key (cc_labelClass c) default_label_class"
definition project_label :: "control_config \<Rightarrow> string" where
  "project_label c = label_key (cc_labelProject c) default_label_project"

record decision =
  de_ticket :: string
  de_project :: string
  de_repoURL :: string
  de_class :: string
  de_workflowName :: string
  de_slot :: string
  de_missing :: "string list"

definition read_label :: "control_config \<Rightarrow> decision \<Rightarrow> string \<times> string \<Rightarrow> decision" where
  "read_label cfg d kv =
     (let (k, v) = kv
      in if k = ticket_label cfg then d\<lparr>de_ticket := v\<rparr>
         else if k = project_label cfg then d\<lparr>de_project := v\<rparr>
         else if k = repo_url_label cfg then d\<lparr>de_repoURL := v\<rparr>
         else if k = class_label cfg then d\<lparr>de_class := v\<rparr> else d)"

definition em_dash :: string where "em_dash = [CHR 0xE2, CHR 0x80, CHR 0x94]"

text \<open>The names of the fields that are empty.\<close>

definition absent :: "(string \<times> string) list \<Rightarrow> string list" where
  "absent checks = map snd (filter (\<lambda>(have, what). have = '''') checks)"

definition translate :: "control_config \<Rightarrow> assignment \<Rightarrow> decision" where
  "translate cfg a =
     (let d = foldl (read_label cfg)
            \<lparr>de_ticket = '''', de_project = '''', de_repoURL = '''', de_class = '''',
             de_workflowName = as_workflowName a, de_slot = '''', de_missing = []\<rparr> (as_labels a)
      in d\<lparr>de_missing := absent [(de_ticket d, ''ticket''), (de_repoURL d, ''repo-url''), (de_class d, ''class''),
             (de_workflowName d, ''workflow_name'')]\<rparr>)"

section \<open>The dispatch envelope\<close>

record dispatch_envelope =
  en_kind :: string
  en_ticket :: string
  en_repo :: string
  en_class :: string
  en_slot :: string
  en_targetImages :: smap

definition dispatch_envelope_kind :: string where
  "dispatch_envelope_kind = ''criteria-workflow-assignment/1''"

definition zero_envelope :: dispatch_envelope where
  "zero_envelope = \<lparr>en_kind = '''', en_ticket = '''', en_repo = '''', en_class = '''', en_slot = '''', en_targetImages = []\<rparr>"

definition validate_envelope :: "dispatch_envelope \<Rightarrow> go_error option" where
  "validate_envelope e = first_error
     [refuse (en_kind e \<noteq> dispatch_envelope_kind)
        (''dispatch envelope: unknown kind '' @ go_quote (en_kind e) @ '' (want '' @ go_quote dispatch_envelope_kind @ '')''),
      refuse (en_ticket e = '''') ''dispatch envelope: ticket empty'',
      refuse (en_repo e = '''') ''dispatch envelope: repo empty'',
      each_from (\<lambda>i (kind, ref). first_error
        [refuse (kind = '''') ''dispatch envelope: target image with empty adapter kind'',
         refuse (ref = '''') (''dispatch envelope: target image '' @ go_quote kind @ '' empty reference'')]) 0
        (en_targetImages e)]"

definition envelope_fields :: "dispatch_envelope \<Rightarrow> (string \<times> json) list" where
  "envelope_fields e = text_field ''kind'' (en_kind e) @ text_field ''ticket'' (en_ticket e) @
     text_field ''repo'' (en_repo e) @ opt_text ''class'' (en_class e) @ opt_text ''slot'' (en_slot e) @
     opt_map ''targetImages'' (en_targetImages e)"

definition envelope_table :: "(string \<times> dispatch_envelope setter) list" where
  "envelope_table =
     [(''kind'', set_text (\<lambda>s e. e\<lparr>en_kind := s\<rparr>)), (''ticket'', set_text (\<lambda>s e. e\<lparr>en_ticket := s\<rparr>)),
      (''repo'', set_text (\<lambda>s e. e\<lparr>en_repo := s\<rparr>)), (''class'', set_text (\<lambda>s e. e\<lparr>en_class := s\<rparr>)),
      (''slot'', set_text (\<lambda>s e. e\<lparr>en_slot := s\<rparr>)),
      (''targetImages'', set_map en_targetImages (\<lambda>m e. e\<lparr>en_targetImages := m\<rparr>))]"

definition marshal_dispatch_envelope :: "dispatch_envelope \<Rightarrow> go_error + string" where
  "marshal_dispatch_envelope e =
     (let e' = (if en_kind e = '''' then e\<lparr>en_kind := dispatch_envelope_kind\<rparr> else e)
      in case validate_envelope e' of
           Some err \<Rightarrow> Inl err
         | None \<Rightarrow> Inr (render (JObj (envelope_fields e'))))"

definition parse_dispatch_envelope :: "string \<Rightarrow> go_error + dispatch_envelope" where
  "parse_dispatch_envelope source =
     (if source = '''' then Inl (ErrMsg ''dispatch envelope: workflow_source empty'')
      else case unmarshal envelope_table zero_envelope source of
             Inl err \<Rightarrow> Inl (Wrapped ''dispatch envelope: workflow_source is not a dispatch payload'' err)
           | Inr e \<Rightarrow> (case validate_envelope e of Some err \<Rightarrow> Inl err | None \<Rightarrow> Inr e))"

section \<open>The run builder\<close>

record run_builder =
  rb_defaults :: run_defaults
  rb_namespace :: string
  rb_routes :: "payload option"
  rb_routesFile :: string
  rb_client :: bool
  rb_pins :: bool

text \<open>
  What a build reads: the routes file and its decoding, the seconds of the clock, the resource version of a
  ConfigMap, and the answer of the configuration pinner. \<open>rb_client\<close> and \<open>rb_pins\<close> say whether the client and
  the pinner are wired.
\<close>

record surroundings =
  su_read_file :: "string \<Rightarrow> go_error + string"
  su_decode :: "string \<Rightarrow> go_error + payload"
  su_presence :: "string \<Rightarrow> go_error + states_presence"
  su_now_unix :: int
  su_get_configmap :: "nsname \<Rightarrow> go_error + config_map"
  su_pin_config :: "string \<Rightarrow> selection \<Rightarrow> criteria_run_config_ref option"

definition load_routes_file :: "surroundings \<Rightarrow> string \<Rightarrow> go_error + payload" where
  "load_routes_file su path =
     (case su_read_file su path of
        Inl e \<Rightarrow> Inl (Wrapped (''reading routes file '' @ path) e)
      | Inr data \<Rightarrow> parse_routes (su_decode su) (su_presence su) data)"

fun error_text :: "go_error \<Rightarrow> string" where
  "error_text (ErrMsg s) = s"
| "error_text (Wrapped ctx e) = ctx @ '': '' @ error_text e"
| "error_text ErrRunNotFound = ''run not found''"
| "error_text ApiNotFound = ''not found''"
| "error_text ApiAlreadyExists = ''already exists''"
| "error_text CodeNotFound = ''not_found''"
| "error_text CodePermissionDenied = ''permission_denied''"
| "error_text CodeUnauthenticated = ''unauthenticated''"
| "error_text CodeUnimplemented = ''unimplemented''"
| "error_text EndOfStream = ''EOF''"
| "error_text CtxCanceled = ''context canceled''"
| "error_text CtxDeadline = ''context deadline exceeded''"
| "error_text CodeUnavailable = ''unavailable''"
| "error_text CodeCanceled = ''canceled''"

definition configured :: "run_builder option \<Rightarrow> bool" where
  "configured b \<longleftrightarrow> (case b of None \<Rightarrow> False | Some r \<Rightarrow> rb_routes r \<noteq> None \<or> rb_routesFile r \<noteq> '''')"

definition assignment_selection :: "decision \<Rightarrow> payload \<Rightarrow> string list + selection" where
  "assignment_selection d rp =
     (case map_of (py_workflowLibrary rp) (de_workflowName d) of
        None \<Rightarrow> Inl [''spec.workflow.name: assignment names unknown workflow '' @ go_quote (de_workflowName d) @
                  '' (absent from the routes workflow library)'']
      | Some w \<Rightarrow>
          (let sel = \<lparr>sn_route = \<lparr>rt_name = '''', rt_workflow = '''', rt_project = '''', rt_tags = [], rt_tagMatch = '''',
                                 rt_states = [], rt_configRef = ''''\<rparr>,
                      sn_name = de_workflowName d, sn_workflow = w, sn_configName = de_slot d,
                      sn_config = zero_config_entry,
                      sn_conflictPolicy = effective_image_conflict_policy rp w (de_project d)\<rparr>
           in if de_slot d = '''' then Inr sel
              else case map_of (py_configLibrary rp) (de_slot d) of
                     None \<Rightarrow> Inl [''dispatch slot: assignment slot '' @ go_quote (de_slot d) @
                               '' (absent from the routes configuration library)'']
                   | Some entry \<Rightarrow> Inr (sel\<lparr>sn_config := entry\<rparr>)))"

definition binding_cm_name :: string where "binding_cm_name = ''criteria-binding''"

definition binding_pin :: "run_builder \<Rightarrow> surroundings \<Rightarrow> string \<Rightarrow> string" where
  "binding_pin b su ns =
     (if \<not> rb_client b then ''''
      else case su_get_configmap su (ns, binding_cm_name) of
             Inl e \<Rightarrow> '''' | Inr cm \<Rightarrow> cm_resourceVersion cm)"

definition assignment_run_name :: "surroundings \<Rightarrow> decision \<Rightarrow> string \<Rightarrow> string" where
  "assignment_run_name su d nameSuffix =
     (let name = map to_lower (de_ticket d) @ ''-'' @ show_int (su_now_unix su)
      in if nameSuffix = '''' then name else name @ ''-'' @ nameSuffix)"

definition assignment_stamp ::
  "run_builder \<Rightarrow> surroundings \<Rightarrow> decision \<Rightarrow> selection \<Rightarrow> payload \<Rightarrow> string \<Rightarrow> criteria_run" where
  "assignment_stamp b su d sel rp nameSuffix =
     (let si = \<lparr>si_name = assignment_run_name su d nameSuffix, si_ticketID = de_ticket d, si_repoURL = de_repoURL d,
            si_selection = sel, si_defaults = rb_defaults b, si_namespace = rb_namespace b,
            si_cutoverNamespace = '''', si_bindingRefName = '''', si_bindingResourceVersion = '''',
            si_resolveConfigPin = None\<rparr>
      in case map_of (py_projectRegistry rp) (de_project d) of
           Some entry \<Rightarrow>
             (if is_cutover_done entry
              then stamp_run (si\<lparr>si_cutoverNamespace := pe_namespace entry, si_bindingRefName := binding_cm_name,
                     si_bindingResourceVersion := binding_pin b su (pe_namespace entry)\<rparr>)
              else stamp_run (if rb_pins b \<and> sn_configName sel \<noteq> ''''
                     then si\<lparr>si_resolveConfigPin := Some (su_pin_config su)\<rparr> else si))
         | None \<Rightarrow> stamp_run (if rb_pins b \<and> sn_configName sel \<noteq> ''''
                     then si\<lparr>si_resolveConfigPin := Some (su_pin_config su)\<rparr> else si))"

definition not_configured :: string where
  "not_configured = ''routes payload not configured: spec-level comparison unavailable''"

text \<open>The payload a build uses: with a routes file, that file read afresh and never the snapshot of the start.\<close>

definition build_payload :: "run_builder \<Rightarrow> surroundings \<Rightarrow> string list + payload" where
  "build_payload b su =
     (if rb_routesFile b \<noteq> [] then
        (case load_routes_file su (rb_routesFile b) of
           Inl err \<Rightarrow> Inl [''routes payload reload failed: '' @ error_text err @
             '' (refusing to stamp the startup snapshot: the assignment would admit the pre-repin pin)'']
         | Inr fresh \<Rightarrow> Inr fresh)
      else case rb_routes b of None \<Rightarrow> Inl [not_configured] | Some rp \<Rightarrow> Inr rp)"

definition build_run ::
  "run_builder option \<Rightarrow> surroundings \<Rightarrow> decision \<Rightarrow> string \<Rightarrow> string list + criteria_run" where
  "build_run builder su d nameSuffix =
     (case builder of
        None \<Rightarrow> Inl [not_configured]
      | Some b \<Rightarrow>
          (case build_payload b su of
             Inl reasons \<Rightarrow> Inl reasons
           | Inr rp \<Rightarrow>
               (let reasons = (if de_ticket d = [] then [''assignment-labels missing: ticket (cannot build a spec)''] else []) @
                      (if de_repoURL d = [] then [''assignment-labels missing: '' @ default_label_repo_url] else [])
                in case assignment_selection d rp of
                     Inl selReasons \<Rightarrow> Inl (reasons @ selReasons)
                   | Inr sel \<Rightarrow>
                       if reasons \<noteq> [] then Inl reasons else Inr (assignment_stamp b su d sel rp nameSuffix))))"

section \<open>Properties\<close>

text \<open>
  A cut-over project's run is stamped into the project's own namespace, whatever the builder's: a reader of the
  builder's namespace does not see it.
\<close>

lemma cutover_run_lands_in_project:
  "map_of (py_projectRegistry rp) (de_project d) = Some entry \<Longrightarrow> is_cutover_done entry \<Longrightarrow> pe_namespace entry \<noteq> [] \<Longrightarrow>
   ru_namespace (assignment_stamp b su d sel rp nameSuffix) = pe_namespace entry"
  by (simp add: assignment_stamp_def stamp_run_def landing_ns_def Let_def)

text \<open>The decoder reads back what the encoder wrote.\<close>

lemma validate_envelope_None:
  "validate_envelope e = None \<longleftrightarrow> en_kind e = dispatch_envelope_kind \<and> en_ticket e \<noteq> [] \<and> en_repo e \<noteq> [] \<and>
     (\<forall>(k, v) \<in> set (en_targetImages e). k \<noteq> [] \<and> v \<noteq> [])"
  unfolding validate_envelope_def first_error_None by (auto simp: each_from_None_iff first_error_None simp del: first_error.simps)

definition sound_envelope :: "dispatch_envelope \<Rightarrow> bool" where
  "sound_envelope e \<longleftrightarrow> valid_utf8 (en_ticket e) \<and> valid_utf8 (en_repo e) \<and> valid_utf8 (en_class e) \<and>
     valid_utf8 (en_slot e) \<and> sound_map (en_targetImages e)"

lemma envelope_lookup:
  "struct_field envelope_table ''kind'' = Some (set_text (\<lambda>s e. e\<lparr>en_kind := s\<rparr>))"
  "struct_field envelope_table ''ticket'' = Some (set_text (\<lambda>s e. e\<lparr>en_ticket := s\<rparr>))"
  "struct_field envelope_table ''repo'' = Some (set_text (\<lambda>s e. e\<lparr>en_repo := s\<rparr>))"
  "struct_field envelope_table ''class'' = Some (set_text (\<lambda>s e. e\<lparr>en_class := s\<rparr>))"
  "struct_field envelope_table ''slot'' = Some (set_text (\<lambda>s e. e\<lparr>en_slot := s\<rparr>))"
  "struct_field envelope_table ''targetImages'' =
     Some (set_map en_targetImages (\<lambda>m e. e\<lparr>en_targetImages := m\<rparr>))"
  by (simp_all add: struct_field_def envelope_table_def)

lemma decode_envelope:
  "decode_fields (struct_field envelope_table) (envelope_fields e) zero_envelope =
    Inr (e\<lparr>en_targetImages := sorted_entries (en_targetImages e)\<rparr>)"
proof -
  have "read_map [] (text_entries (sorted_entries (en_targetImages e))) = Inr (sorted_entries (en_targetImages e))"
    using read_map_entries [of "[]" "sorted_entries (en_targetImages e)"] distinct_sorted_entries by simp
  then show ?thesis
    by (simp add: envelope_fields_def text_field_def opt_text_def opt_map_def decode_fields_append
        envelope_lookup set_text_def set_map_def zero_envelope_def)
qed

lemma renderable_envelope:
  assumes "sound_envelope e" and "valid_utf8 (en_kind e)"
  shows "renderable 0 (JObj (envelope_fields e))"
proof -
  have names: "valid_utf8 ''kind''" "valid_utf8 ''ticket''" "valid_utf8 ''repo''" "valid_utf8 ''class''"
    "valid_utf8 ''slot''" "valid_utf8 ''targetImages''"
    by (rule valid_ascii, code_simp)+
  then show ?thesis
    using assms by (simp add: envelope_fields_def text_field_def opt_text_def opt_map_def sound_envelope_def
        renderable_entries max_nesting_depth_def)
qed

lemma parse_rendered_envelope:
  assumes "sound_envelope e" and "validate_envelope e = None"
  shows "parse_dispatch_envelope (render (JObj (envelope_fields e))) =
    Inr (e\<lparr>en_targetImages := sorted_entries (en_targetImages e)\<rparr>)"
proof -
  have kind: "en_kind e = dispatch_envelope_kind" using assms(2) by (simp add: validate_envelope_None)
  have "valid_utf8 dispatch_envelope_kind" by (rule valid_ascii) code_simp
  then have "parse_json (render (JObj (envelope_fields e))) = Some (JObj (envelope_fields e))"
    using json_round_trip [OF renderable_envelope [OF assms(1)]] kind by simp
  moreover have "validate_envelope (e\<lparr>en_targetImages := sorted_entries (en_targetImages e)\<rparr>) = None"
    using assms(2) set_sorted_entries [of "en_targetImages e"] by (auto simp: validate_envelope_None)
  ultimately show ?thesis
    by (simp add: parse_dispatch_envelope_def unmarshal_def decode_envelope)
qed

text \<open>
  C24. An envelope that the writer accepts, over well-formed text, is read back by the agent as it was written: with
  the kind filled in, and the target images in the order of their kinds. Every character that JSON must
  escape survives, and so does the omission of the empty fields.
\<close>

theorem dispatch_envelope_round_trip:
  assumes "marshal_dispatch_envelope e = Inr src" and "sound_envelope e"
  shows "parse_dispatch_envelope src =
    Inr (e\<lparr>en_kind := dispatch_envelope_kind, en_targetImages := sorted_entries (en_targetImages e)\<rparr>)"
proof -
  let ?e = "e\<lparr>en_kind := dispatch_envelope_kind\<rparr>"
  have valid: "validate_envelope ?e = None" and src: "src = render (JObj (envelope_fields ?e))"
    using assms(1) by (cases e; auto simp: marshal_dispatch_envelope_def Let_def validate_envelope_None
        simp del: render.simps split: if_splits option.splits)+
  show ?thesis
    unfolding src using parse_rendered_envelope [OF _ valid] assms(2) by (simp add: sound_envelope_def)
qed

definition sample_envelope :: dispatch_envelope where
  "sample_envelope = zero_envelope\<lparr>en_ticket := ''KB-1'', en_repo := ''o/'' @ [quote_char] @ ''<r>'', en_slot := ''s'',
     en_targetImages := [(''shell'', ''r/s:1''), (''copilot'', ''r/c:2'')]\<rparr>"

theorem dispatch_envelope_round_trip_witness:
  "case marshal_dispatch_envelope sample_envelope of
     Inl err \<Rightarrow> False
   | Inr src \<Rightarrow> parse_dispatch_envelope src = Inr (sample_envelope\<lparr>en_kind := dispatch_envelope_kind,
       en_targetImages := [(''copilot'', ''r/c:2''), (''shell'', ''r/s:1'')]\<rparr>)"
proof -
  have sound: "sound_envelope sample_envelope"
    by (simp add: sound_envelope_def sound_map_def sample_envelope_def zero_envelope_def valid_ascii byte_def
        quote_char_def)
  have valid: "validate_envelope (sample_envelope\<lparr>en_kind := dispatch_envelope_kind\<rparr>) = None"
    by code_simp
  then obtain src where src: "marshal_dispatch_envelope sample_envelope = Inr src"
    by (auto simp: marshal_dispatch_envelope_def sample_envelope_def zero_envelope_def Let_def)
  have "sorted_entries (en_targetImages sample_envelope) = [(''copilot'', ''r/c:2''), (''shell'', ''r/s:1'')]"
    by code_simp
  with dispatch_envelope_round_trip [OF src sound] src show ?thesis by simp
qed

end
