(* ===== verification/SpecCompare.thy ===== *)
theory SpecCompare
  imports Assignment
begin

text \<open>
  The shadow window of the assignment lane: the field-by-field comparison of the run the lane would stamp with the
  run the watcher stamped (\<open>CompareSpec\<close> in \<open>internal/control/run.go\<close>), and the watchdog's verdict over both
  deciders (\<open>internal/control/watchdog.go\<close>). \<open>reflect.DeepEqual\<close> compares maps by their bindings; a nil
  and an empty map or slice are not told apart here.
\<close>

section \<open>The JSON of the reported objects\<close>

definition volume_json :: "run_workflow_volume \<Rightarrow> json" where
  "volume_json v = JObj (text_field ''name'' (vo_name v) @ text_field ''kind'' (vo_kind v) @
     text_field ''mountPath'' (vo_mountPath v) @ opt_text ''subPath'' (vo_subPath v) @
     opt_flag ''readOnly'' (vo_readOnly v) @ opt_text ''claim'' (vo_claim v) @ opt_text ''server'' (vo_server v) @
     opt_text ''path'' (vo_path v) @ opt_text ''sizeLimit'' (vo_sizeLimit v) @
     opt_text ''secretName'' (vo_secretName v) @ opt_map ''env'' (vo_env v))"

definition secret_json :: "run_workflow_secret \<Rightarrow> json" where
  "secret_json s = JObj (text_field ''name'' (se_name s) @ text_field ''secretProviderClass'' (se_secretProviderClass s) @
     text_field ''mountPath'' (se_mountPath s) @ opt_map ''env'' (se_env s))"

definition mount_json :: "run_workflow_interface_mount \<Rightarrow> json" where
  "mount_json m = JObj (text_field ''name'' (mt_name m) @ text_field ''mountPath'' (mt_mountPath m) @
     text_field ''kind'' (mt_kind m))"

definition slot_json :: "run_workflow_interface_config_slot \<Rightarrow> json" where
  "slot_json s = JObj (text_field ''slot'' (sl_slot s) @ text_field ''variable'' (sl_variable s) @
     text_field ''target'' (sl_target s) @ opt_text ''description'' (sl_description s))"

definition interface_json :: "run_workflow_interface \<Rightarrow> json" where
  "interface_json i = JObj (text_field ''apiVersion'' (if_apiVersion i) @ text_field ''kind'' (if_kind i) @
     text_field ''workflow'' (if_workflow i) @ opt_text ''description'' (if_description i) @
     opt_list ''adapters'' (map JStr (if_adapters i)) @ opt_list ''mounts'' (map mount_json (if_mounts i)) @
     opt_list ''secretEnv'' (map JStr (if_secretEnv i)) @ opt_list ''env'' (map JStr (if_env i)) @
     opt_list ''configSlots'' (map slot_json (if_configSlots i)) @ opt_text ''lockKey'' (if_lockKey i))"

section \<open>Deep equality\<close>

definition same_volume :: "run_workflow_volume \<Rightarrow> run_workflow_volume \<Rightarrow> bool" where
  "same_volume v v' \<longleftrightarrow> v\<lparr>vo_env := []\<rparr> = v'\<lparr>vo_env := []\<rparr> \<and> same_map (vo_env v) (vo_env v')"

definition same_secret :: "run_workflow_secret \<Rightarrow> run_workflow_secret \<Rightarrow> bool" where
  "same_secret s s' \<longleftrightarrow> s\<lparr>se_env := []\<rparr> = s'\<lparr>se_env := []\<rparr> \<and> same_map (se_env s) (se_env s')"

definition same_workflow :: "run_workflow \<Rightarrow> run_workflow \<Rightarrow> bool" where
  "same_workflow w w' \<longleftrightarrow>
     w\<lparr>wf_volumes := [], wf_secrets := [], wf_env := [], wf_adapterImages := []\<rparr> =
     w'\<lparr>wf_volumes := [], wf_secrets := [], wf_env := [], wf_adapterImages := []\<rparr> \<and>
     list_all2 same_volume (wf_volumes w) (wf_volumes w') \<and> list_all2 same_secret (wf_secrets w) (wf_secrets w') \<and>
     same_map (wf_env w) (wf_env w') \<and> same_map (wf_adapterImages w) (wf_adapterImages w')"

definition same_option :: "('a \<Rightarrow> 'a \<Rightarrow> bool) \<Rightarrow> 'a option \<Rightarrow> 'a option \<Rightarrow> bool" where
  "same_option same x y = (case (x, y) of (None, None) \<Rightarrow> True | (Some a, Some b) \<Rightarrow> same a b | _ \<Rightarrow> False)"

definition same_spec :: "criteria_run_spec \<Rightarrow> criteria_run_spec \<Rightarrow> bool" where
  "same_spec s s' \<longleftrightarrow> s\<lparr>sp_workflow := None\<rparr> = s'\<lparr>sp_workflow := None\<rparr> \<and>
     same_option same_workflow (sp_workflow s) (sp_workflow s')"

section \<open>The comparison\<close>

definition report :: "string \<Rightarrow> string \<Rightarrow> string \<Rightarrow> string" where
  "report field want got = field @ '': assignment='' @ want @ '' watcher='' @ got"

definition text_diff :: "string \<Rightarrow> string \<Rightarrow> string \<Rightarrow> string list" where
  "text_diff field want got = (if want \<noteq> got then [report field (go_quote want) (go_quote got)] else [])"

definition show_bool :: "bool \<Rightarrow> string" where "show_bool b = (if b then ''true'' else ''false'')"

text \<open>The labels, over the union of the keys in order; an absent label reads as the empty text.\<close>

definition label_diffs :: "smap \<Rightarrow> smap \<Rightarrow> string list" where
  "label_diffs want got =
     concat (map (\<lambda>k. text_diff (''labels.'' @ k) (smap_get want k) (smap_get got k))
       (sort (map fst want @ filter (\<lambda>k. \<not> has_key want k) (map fst got))))"

definition map_diffs :: "string \<Rightarrow> smap \<Rightarrow> smap \<Rightarrow> string list" where
  "map_diffs field want got =
     concat (map (\<lambda>(k, v). case map_of got k of
          None \<Rightarrow> [report (field @ ''.'' @ k) (go_quote v) ''absent'']
        | Some g \<Rightarrow> text_diff (field @ ''.'' @ k) v g) want) @
     concat (map (\<lambda>(k, v). if has_key want k then [] else [report (field @ ''.'' @ k) ''absent'' (go_quote v)]) got)"

definition ref_shape :: "bool \<Rightarrow> string" where "ref_shape present = (if present then ''set'' else ''unset'')"

definition workflow_shape :: "run_workflow option \<Rightarrow> string" where
  "workflow_shape w = (case w of None \<Rightarrow> ''unset'' | Some w \<Rightarrow> ''set('' @ wf_type w @ '' '' @ wf_name w @ '')'')"

definition source_shape :: "run_workflow_source option \<Rightarrow> string" where
  "source_shape s = (case s of None \<Rightarrow> ''unset'' | Some s \<Rightarrow> ''set('' @ ws_type s @ '')'')"

definition interface_shape :: "run_workflow_interface option \<Rightarrow> string" where
  "interface_shape i = ref_shape (i \<noteq> None)"

definition compare_config_ref ::
  "criteria_run_config_ref option \<Rightarrow> criteria_run_config_ref option \<Rightarrow> string list" where
  "compare_config_ref want got =
     (case (want, got) of
        (None, None) \<Rightarrow> []
      | (Some w, Some g) \<Rightarrow> text_diff ''spec.configRef.name'' (cr_name w) (cr_name g) @
          text_diff ''spec.configRef.resourceVersion'' (cr_resourceVersion w) (cr_resourceVersion g)
      | _ \<Rightarrow> [report ''spec.configRef'' (ref_shape (want \<noteq> None)) (ref_shape (got \<noteq> None))])"

definition compare_binding_ref ::
  "criteria_run_project_binding_ref option \<Rightarrow> criteria_run_project_binding_ref option \<Rightarrow> string list" where
  "compare_binding_ref want got =
     (case (want, got) of
        (None, None) \<Rightarrow> []
      | (Some w, Some g) \<Rightarrow> text_diff ''spec.projectBindingRef.name'' (pb_name w) (pb_name g) @
          text_diff ''spec.projectBindingRef.resourceVersion'' (pb_resourceVersion w) (pb_resourceVersion g)
      | _ \<Rightarrow> [report ''spec.projectBindingRef'' (ref_shape (want \<noteq> None)) (ref_shape (got \<noteq> None))])"

definition compare_interface ::
  "run_workflow_interface option \<Rightarrow> run_workflow_interface option \<Rightarrow> string list" where
  "compare_interface want got =
     (case (want, got) of
        (None, None) \<Rightarrow> []
      | (Some w, Some g) \<Rightarrow>
          (if w = g then [] else [report ''spec.workflow.interface'' (render (interface_json w)) (render (interface_json g))])
      | _ \<Rightarrow> [report ''spec.workflow.interface'' (interface_shape want) (interface_shape got)])"

fun volume_diffs :: "nat \<Rightarrow> run_workflow_volume list \<Rightarrow> run_workflow_volume list \<Rightarrow> string list" where
  "volume_diffs i (w # ws) (g # gs) =
     (let wj = render (volume_json w); gj = render (volume_json g)
      in (if wj \<noteq> gj then [report (''spec.workflow.volumes['' @ show_nat i @ '']'') wj gj] else []) @
         volume_diffs (Suc i) ws gs)"
| "volume_diffs i ws gs = []"

definition compare_volumes :: "run_workflow_volume list \<Rightarrow> run_workflow_volume list \<Rightarrow> string list" where
  "compare_volumes want got =
     (if length want \<noteq> length got
      then [''spec.workflow.volumes: count assignment='' @ show_nat (length want) @ '' watcher='' @ show_nat (length got)]
      else volume_diffs 0 want got)"

definition compare_secrets :: "run_workflow_secret list \<Rightarrow> run_workflow_secret list \<Rightarrow> string list" where
  "compare_secrets want got =
     (if length want \<noteq> length got
      then [''spec.workflow.secrets: count assignment='' @ show_nat (length want) @ '' watcher='' @ show_nat (length got)]
      else if \<not> list_all2 same_secret want got
      then [report ''spec.workflow.secrets'' (render (JArr (map secret_json want))) (render (JArr (map secret_json got)))]
      else [])"

definition compare_workflow :: "run_workflow option \<Rightarrow> run_workflow option \<Rightarrow> string list" where
  "compare_workflow want got =
     (case (want, got) of
        (None, None) \<Rightarrow> []
      | (Some w, Some g) \<Rightarrow>
          text_diff ''spec.workflow.name'' (wf_name w) (wf_name g) @
          text_diff ''spec.workflow.type'' (wf_type w) (wf_type g) @
          text_diff ''spec.workflow.namespace'' (wf_namespace w) (wf_namespace g) @
          text_diff ''spec.workflow.class'' (wf_class w) (wf_class g) @
          text_diff ''spec.workflow.image'' (wf_image w) (wf_image g) @
          text_diff ''spec.workflow.url'' (wf_url w) (wf_url g) @
          text_diff ''spec.workflow.ref'' (wf_ref w) (wf_ref g) @
          text_diff ''spec.workflow.imageConflictPolicy'' (wf_imageConflictPolicy w) (wf_imageConflictPolicy g) @
          map_diffs ''spec.workflow.adapterImages'' (wf_adapterImages w) (wf_adapterImages g) @
          map_diffs ''spec.workflow.env'' (wf_env w) (wf_env g) @
          compare_volumes (wf_volumes w) (wf_volumes g) @ compare_secrets (wf_secrets w) (wf_secrets g) @
          compare_interface (wf_interface w) (wf_interface g)
      | _ \<Rightarrow> [report ''spec.workflow'' (workflow_shape want) (workflow_shape got)])"

definition source_text :: "run_workflow_source \<Rightarrow> string" where
  "source_text s = ''{Type:'' @ ws_type s @ '' URL:'' @ ws_url s @ '' Ref:'' @ ws_ref s @ ''}''"

definition compare_source :: "run_workflow_source option \<Rightarrow> run_workflow_source option \<Rightarrow> string list" where
  "compare_source want got =
     (case (want, got) of
        (None, None) \<Rightarrow> []
      | (Some w, Some g) \<Rightarrow> (if w \<noteq> g then [report ''spec.workflowSource'' (source_text w) (source_text g)] else [])
      | _ \<Rightarrow> [report ''spec.workflowSource'' (source_shape want) (source_shape got)])"

text \<open>\<open>strings.EqualFold\<close> and \<open>strings.ToLower\<close>, exact on ASCII and the two runes that fold to it.\<close>

definition equal_fold :: "string \<Rightarrow> string \<Rightarrow> bool" where "equal_fold s t \<longleftrightarrow> fold_name s = fold_name t"

definition lower_rune :: "string \<Rightarrow> string" where
  "lower_rune r = (if r = encode_rune 0x212A then ''k'' else map to_lower r)"

definition lower_text :: "string \<Rightarrow> string" where "lower_text s = concat (map lower_rune (chunks s))"

definition curated :: "criteria_run \<Rightarrow> criteria_run \<Rightarrow> string list" where
  "curated want got =
     (let s1 = ru_spec want; s2 = ru_spec got
      in (if ru_namespace want \<noteq> ru_namespace got
          then [report ''meta.namespace'' (ru_namespace want) (ru_namespace got)] else []) @
         label_diffs (ru_labels want) (ru_labels got) @
         (if \<not> equal_fold (sp_ticketID s1) (sp_ticketID s2)
          then text_diff ''spec.ticketID'' (sp_ticketID s1) (sp_ticketID s2) else []) @
         text_diff ''spec.repoURL'' (sp_repoURL s1) (sp_repoURL s2) @
         (if sp_perScopeSessions s1 \<noteq> sp_perScopeSessions s2
          then [report ''spec.perScopeSessions'' (show_bool (sp_perScopeSessions s1)) (show_bool (sp_perScopeSessions s2))] else []) @
         (if sp_maxAgentVisits s1 \<noteq> sp_maxAgentVisits s2
          then [report ''spec.maxAgentVisits'' (show_int (sp_maxAgentVisits s1)) (show_int (sp_maxAgentVisits s2))] else []) @
         text_diff ''spec.providerBaseURL'' (sp_providerBaseURL s1) (sp_providerBaseURL s2) @
         text_diff ''spec.buildCmd'' (sp_buildCmd s1) (sp_buildCmd s2) @
         text_diff ''spec.testCmd'' (sp_testCmd s1) (sp_testCmd s2) @
         text_diff ''spec.ciGateCmd'' (sp_ciGateCmd s1) (sp_ciGateCmd s2) @
         text_diff ''spec.baseBranch'' (sp_baseBranch s1) (sp_baseBranch s2) @
         compare_config_ref (sp_configRef s1) (sp_configRef s2) @
         compare_binding_ref (sp_projectBindingRef s1) (sp_projectBindingRef s2) @
         compare_workflow (sp_workflow s1) (sp_workflow s2) @
         compare_source (sp_workflowSource s1) (sp_workflowSource s2))"

text \<open>The specs as the catch-all compares them: ticket ids that differ in case only are lowered first.\<close>

definition lowered :: "criteria_run_spec \<Rightarrow> criteria_run_spec \<Rightarrow> criteria_run_spec" where
  "lowered s other =
     (if equal_fold (sp_ticketID s) (sp_ticketID other) \<and> sp_ticketID s \<noteq> sp_ticketID other
      then s\<lparr>sp_ticketID := lower_text (sp_ticketID s)\<rparr> else s)"

definition compare_spec :: "criteria_run \<Rightarrow> criteria_run \<Rightarrow> string list" where
  "compare_spec want got =
     (let reasons = curated want got; s1 = ru_spec want; s2 = ru_spec got
      in sort (if reasons = [] \<and> \<not> same_spec (lowered s1 s2) (lowered s2 s1)
               then [''spec: assignment and watcher CR specs differ beyond the curated comparison''] else reasons))"

section \<open>The watchdog\<close>

record divergence =
  dv_clean :: bool
  dv_crName :: string
  dv_reasons :: "string list"

record watchdog =
  wd_client :: bool
  wd_namespace :: string
  wd_labelTicket :: string
  wd_builder :: "run_builder option"

definition watchdog_ticket_label :: "watchdog \<Rightarrow> string" where
  "watchdog_ticket_label w = (if wd_labelTicket w = [] then default_label_ticket else wd_labelTicket w)"

definition cr_workflow_name :: "criteria_run \<Rightarrow> string" where
  "cr_workflow_name run = (case sp_workflow (ru_spec run) of None \<Rightarrow> [] | Some w \<Rightarrow> wf_name w)"

definition cr_class :: "criteria_run \<Rightarrow> string" where
  "cr_class run = (case sp_workflow (ru_spec run) of
     Some w \<Rightarrow> if wf_class w = class_triage then class_triage else class_dev | None \<Rightarrow> class_dev)"

definition normalize_class :: "string \<Rightarrow> string" where
  "normalize_class c = (if c = [] then class_dev else c)"

definition no_workflow :: string where "no_workflow = ''none (no stamped workflow object)''"

definition compare_decision :: "decision \<Rightarrow> criteria_run \<Rightarrow> (string \<times> string \<times> string) list" where
  "compare_decision d run =
     [(''repoURL'', de_repoURL d, sp_repoURL (ru_spec run)),
      (''class'', normalize_class (de_class d), normalize_class (cr_class run))] @
     (if de_workflowName d = [] then []
      else [(''workflow'', de_workflowName d,
             if cr_workflow_name run = [] then no_workflow else cr_workflow_name run)]) @
     map (\<lambda>miss. (''assignment-labels'', ''present'', ''missing: '' @ miss)) (de_missing d)"

definition check_decision ::
  "watchdog option \<Rightarrow> (string \<Rightarrow> smap \<Rightarrow> go_error + criteria_run list) \<Rightarrow> surroundings \<Rightarrow> decision \<Rightarrow> divergence" where
  "check_decision watch listing su d =
     (case (if de_ticket d = [] then None else case watch of None \<Rightarrow> None | Some w \<Rightarrow> if wd_client w then Some w else None) of
        None \<Rightarrow> \<lparr>dv_clean = False, dv_crName = [], dv_reasons =
           (''watchdog disabled or ticket unattributable: missing ticket label '' @ em_dash @ '' cannot locate the watcher'' @ [CHR 0x27] @ ''s run'') #
           map (\<lambda>miss. ''assignment-labels missing: '' @ miss) (de_missing d)\<rparr>
      | Some w \<Rightarrow>
          (case listing (wd_namespace w) [(watchdog_ticket_label w, de_ticket d)] of
             Inl err \<Rightarrow> \<lparr>dv_clean = False, dv_crName = [], dv_reasons = [''listing watcher runs failed: '' @ error_text err]\<rparr>
           | Inr runs \<Rightarrow>
               if runs = [] then \<lparr>dv_clean = False, dv_crName = [],
                   dv_reasons = [''no watcher CriteriaRun found for ticket '' @ de_ticket d,
                                 ''the watcher did not decide on this assignment'']\<rparr>
               else
                 (let run = last (sort_key ru_name runs);
                      fields = List.map_filter (\<lambda>(field, want, got).
                          if want \<noteq> got then Some (report field want got) else None) (compare_decision d run);
                      specs = (if \<not> configured (wd_builder w) then []
                               else case build_run (wd_builder w) su d [] of
                                      Inl reasons \<Rightarrow> reasons
                                    | Inr wouldBe \<Rightarrow> compare_spec wouldBe run)
                  in \<lparr>dv_clean = (fields @ specs = []), dv_crName = ru_name run, dv_reasons = fields @ specs\<rparr>)))"

section \<open>Properties\<close>

text \<open>What the curated list says of each part: silence is equality, up to the order of the maps.\<close>

lemma text_diff_Nil [simp]: "text_diff field want got = [] \<longleftrightarrow> want = got"
  by (simp add: text_diff_def)

lemma same_map_Nil: "same_map m m' \<Longrightarrow> m = [] \<longleftrightarrow> m' = []"
  by (cases m; cases m'; auto simp: same_map_iff fun_eq_iff split: if_splits)

lemma opt_map_same: "same_map m m' \<Longrightarrow> opt_map name m = opt_map name m'"
  using same_map_Nil [of m m'] sorted_entries_same [of m m'] by (simp add: opt_map_def same_map_iff)

lemma volume_json_same: "same_volume v v' \<Longrightarrow> volume_json v = volume_json v'"
  by (cases v; cases v'; simp add: same_volume_def volume_json_def opt_map_same)

lemma volume_diffs_same: "list_all2 same_volume ws gs \<Longrightarrow> volume_diffs i ws gs = []"
  by (induction ws gs arbitrary: i rule: list_all2_induct) (simp_all add: Let_def volume_json_same)

lemma map_diffs_same:
  assumes "distinct (map fst m)" and "same_map m m'"
  shows "map_diffs field m m' = []"
proof -
  have same: "map_of m' = map_of m" using assms(2) by (simp add: same_map_iff)
  have "fst ` set m' = fst ` set m" using same by (metis dom_map_of_conv_image_fst)
  then have "k \<in> fst ` set m" if "(k, v) \<in> set m'" for k v using that by force
  moreover have "(case map_of m' k of None \<Rightarrow> [report (field @ ''.'' @ k) (go_quote v) ''absent'']
      | Some g \<Rightarrow> text_diff (field @ ''.'' @ k) v g) = []" if "(k, v) \<in> set m" for k v
    using that same assms(1) by simp
  ultimately show ?thesis unfolding map_diffs_def by auto
qed

lemma compare_workflow_same:
  assumes "same_option same_workflow want got"
    and "\<And>w. want = Some w \<Longrightarrow> distinct (map fst (wf_env w)) \<and> distinct (map fst (wf_adapterImages w))"
  shows "compare_workflow want got = []"
proof (cases want)
  case None
  then show ?thesis using assms(1) by (cases got) (auto simp: same_option_def compare_workflow_def)
next
  case (Some w)
  then obtain g where g: "got = Some g" and same: "same_workflow w g"
    using assms(1) by (cases got) (auto simp: same_option_def)
  have "compare_volumes (wf_volumes w) (wf_volumes g) = []" "compare_secrets (wf_secrets w) (wf_secrets g) = []"
    "map_diffs field (wf_env w) (wf_env g) = []" "map_diffs field (wf_adapterImages w) (wf_adapterImages g) = []" for field
    using same assms(2) [OF Some]
    by (auto simp: same_workflow_def compare_volumes_def compare_secrets_def volume_diffs_same map_diffs_same
        dest: list_all2_lengthD)
  moreover have "wf_interface w = wf_interface g"
    using same by (cases w; cases g; simp add: same_workflow_def)
  then have "compare_interface (wf_interface w) (wf_interface g) = []"
    by (cases "wf_interface g") (simp_all add: compare_interface_def)
  ultimately show ?thesis
    using same by (cases w; cases g; simp add: Some g compare_workflow_def same_workflow_def)
qed

lemma compare_refs_same:
  "compare_config_ref c c = []" "compare_binding_ref b b = []" "compare_source s s = []"
  by (simp_all add: compare_config_ref_def compare_binding_ref_def compare_source_def split: option.split)

lemma label_diffs_Nil: "label_diffs want got = [] \<longleftrightarrow> (\<forall>k. smap_get want k = smap_get got k)"
proof
  assume none: "label_diffs want got = []"
  show "\<forall>k. smap_get want k = smap_get got k"
  proof
    fix k
    show "smap_get want k = smap_get got k"
    proof (cases "k \<in> fst ` set want \<union> fst ` set got")
      case True
      then show ?thesis using none by (auto simp: label_diffs_def)
    next
      case False
      then show ?thesis by (simp add: smap_get_def map_of_eq_None_iff [THEN iffD2])
    qed
  qed
qed (simp add: label_diffs_def)

text \<open>When two ticket ids count as one: they are equal, or they differ in case and lower to the same text.\<close>

definition ticket_alike :: "string \<Rightarrow> string \<Rightarrow> bool" where
  "ticket_alike t u \<longleftrightarrow> t = u \<or> equal_fold t u \<and> lower_text t = lower_text u"

lemma compare_spec_Nil: "compare_spec want got = [] \<longleftrightarrow>
    curated want got = [] \<and> same_spec (lowered (ru_spec want) (ru_spec got)) (lowered (ru_spec got) (ru_spec want))"
  unfolding compare_spec_def Let_def by (auto simp: set_empty [symmetric] simp del: set_empty)

lemma lowered_ticket: "lowered s t = s\<lparr>sp_ticketID := sp_ticketID (lowered s t)\<rparr>"
  by (simp add: lowered_def)

lemma ticket_apart:
  "(s\<lparr>sp_ticketID := x, sp_workflow := None\<rparr> = t\<lparr>sp_ticketID := y, sp_workflow := None\<rparr>) \<longleftrightarrow>
   x = y \<and> (s\<lparr>sp_ticketID := [], sp_workflow := None\<rparr> = t\<lparr>sp_ticketID := [], sp_workflow := None\<rparr>)"
  by (cases s; cases t; simp)

lemma same_spec_lowered:
  assumes "same_spec (lowered s t) (lowered t s)"
  shows "sp_repoURL s = sp_repoURL t \<and> sp_perScopeSessions s = sp_perScopeSessions t \<and>
    sp_maxAgentVisits s = sp_maxAgentVisits t \<and> sp_providerBaseURL s = sp_providerBaseURL t \<and>
    sp_buildCmd s = sp_buildCmd t \<and> sp_testCmd s = sp_testCmd t \<and> sp_ciGateCmd s = sp_ciGateCmd t \<and>
    sp_baseBranch s = sp_baseBranch t \<and> sp_configRef s = sp_configRef t \<and>
    sp_projectBindingRef s = sp_projectBindingRef t \<and> sp_workflowSource s = sp_workflowSource t \<and>
    same_option same_workflow (sp_workflow s) (sp_workflow t)"
proof -
  obtain x y where "lowered s t = s\<lparr>sp_ticketID := x\<rparr>" "lowered t s = t\<lparr>sp_ticketID := y\<rparr>"
    using lowered_ticket by blast
  then have eq: "s\<lparr>sp_ticketID := x, sp_workflow := None\<rparr> = t\<lparr>sp_ticketID := y, sp_workflow := None\<rparr>"
    and wf: "same_option same_workflow (sp_workflow s) (sp_workflow t)"
    using assms by (simp_all add: same_spec_def)
  show ?thesis
    using wf arg_cong [OF eq, of sp_repoURL] arg_cong [OF eq, of sp_perScopeSessions]
      arg_cong [OF eq, of sp_maxAgentVisits] arg_cong [OF eq, of sp_providerBaseURL] arg_cong [OF eq, of sp_buildCmd]
      arg_cong [OF eq, of sp_testCmd] arg_cong [OF eq, of sp_ciGateCmd] arg_cong [OF eq, of sp_baseBranch]
      arg_cong [OF eq, of sp_configRef] arg_cong [OF eq, of sp_projectBindingRef] arg_cong [OF eq, of sp_workflowSource]
    by simp
qed

lemma same_spec_tickets:
  "same_spec (lowered s t) (lowered t s) \<longleftrightarrow>
     ticket_alike (sp_ticketID s) (sp_ticketID t) \<and> same_spec (s\<lparr>sp_ticketID := []\<rparr>) (t\<lparr>sp_ticketID := []\<rparr>)"
proof -
  define x y where "x = sp_ticketID (lowered s t)" and "y = sp_ticketID (lowered t s)"
  have "lowered s t = s\<lparr>sp_ticketID := x\<rparr>" "lowered t s = t\<lparr>sp_ticketID := y\<rparr>"
    unfolding x_def y_def by (rule lowered_ticket)+
  moreover have "x = y \<longleftrightarrow> ticket_alike (sp_ticketID s) (sp_ticketID t)"
    unfolding x_def y_def lowered_def ticket_alike_def
    by (cases "equal_fold (sp_ticketID s) (sp_ticketID t)") (auto simp: equal_fold_def)
  ultimately show ?thesis
    using ticket_apart [where s = s and x = x and t = t and y = y] unfolding same_spec_def by simp
qed

definition well_keyed :: "criteria_run \<Rightarrow> bool" where
  "well_keyed run \<longleftrightarrow> (case sp_workflow (ru_spec run) of None \<Rightarrow> True
     | Some w \<Rightarrow> distinct (map fst (wf_env w)) \<and> distinct (map fst (wf_adapterImages w)))"

lemma compare_spec_iff:
  assumes "well_keyed want"
  shows "compare_spec want got = [] \<longleftrightarrow> ru_namespace want = ru_namespace got \<and>
    (\<forall>k. smap_get (ru_labels want) k = smap_get (ru_labels got) k) \<and>
    ticket_alike (sp_ticketID (ru_spec want)) (sp_ticketID (ru_spec got)) \<and>
    same_spec ((ru_spec want)\<lparr>sp_ticketID := []\<rparr>) ((ru_spec got)\<lparr>sp_ticketID := []\<rparr>)"
proof -
  let ?s = "ru_spec want" and ?t = "ru_spec got"
  have "curated want got = [] \<longleftrightarrow> ru_namespace want = ru_namespace got \<and>
      (\<forall>k. smap_get (ru_labels want) k = smap_get (ru_labels got) k)"
    if same: "same_spec (lowered ?s ?t) (lowered ?t ?s)"
  proof -
    note parts = same_spec_lowered [OF same]
    have "compare_workflow (sp_workflow ?s) (sp_workflow ?t) = []"
      using parts assms by (intro compare_workflow_same) (auto simp: well_keyed_def)
    moreover have "sp_ticketID ?s = sp_ticketID ?t \<or> equal_fold (sp_ticketID ?s) (sp_ticketID ?t)"
      using same by (auto simp: same_spec_tickets ticket_alike_def)
    ultimately show ?thesis
      using parts by (auto simp: curated_def Let_def compare_refs_same label_diffs_Nil)
  qed
  then show ?thesis unfolding compare_spec_Nil by (auto simp: same_spec_tickets)
qed

lemma build_run_reasons: "build_run builder su d n = Inl reasons \<Longrightarrow> reasons \<noteq> []"
  by (auto simp: build_run_def build_payload_def assignment_selection_def Let_def
      split: option.splits sum.splits if_splits)

lemma map_filter_Nil: "List.map_filter f xs = [] \<longleftrightarrow> (\<forall>x \<in> set xs. f x = None)"
  by (induction xs) (auto simp: List.map_filter_simps split: option.splits)

lemma normalize_cr_class [simp]: "normalize_class (cr_class run) = cr_class run"
  by (simp add: normalize_class_def cr_class_def class_dev_def class_triage_def split: option.split)

definition same_run :: "criteria_run \<Rightarrow> criteria_run \<Rightarrow> bool" where
  "same_run want got \<longleftrightarrow> ru_namespace want = ru_namespace got \<and>
    (\<forall>k \<in> set (map fst (ru_labels want) @ map fst (ru_labels got)).
       smap_get (ru_labels want) k = smap_get (ru_labels got) k) \<and>
    ticket_alike (sp_ticketID (ru_spec want)) (sp_ticketID (ru_spec got)) \<and>
    same_spec ((ru_spec want)\<lparr>sp_ticketID := []\<rparr>) ((ru_spec got)\<lparr>sp_ticketID := []\<rparr>)"

lemma compare_spec_same_run: "well_keyed want \<Longrightarrow> compare_spec want got = [] \<longleftrightarrow> same_run want got"
proof -
  assume keyed: "well_keyed want"
  have "(\<forall>k. smap_get l k = smap_get l' k) \<longleftrightarrow>
      (\<forall>k \<in> set (map fst l @ map fst l'). smap_get l k = smap_get l' k)" for l l' :: smap
  proof
    assume all: "\<forall>k \<in> set (map fst l @ map fst l'). smap_get l k = smap_get l' k"
    show "\<forall>k. smap_get l k = smap_get l' k"
    proof
      fix k
      show "smap_get l k = smap_get l' k"
        using all by (cases "k \<in> fst ` set l \<union> fst ` set l'")
          (auto simp: smap_get_def map_of_eq_None_iff [THEN iffD2])
    qed
  qed simp
  then show "compare_spec want got = [] \<longleftrightarrow> same_run want got"
    unfolding compare_spec_iff [OF keyed] same_run_def by simp
qed


definition ascii :: "string \<Rightarrow> bool" where "ascii s \<longleftrightarrow> list_all (\<lambda>c. byte c < 0x80) s"

lemma chunks_ascii: "ascii s \<Longrightarrow> chunks s = map (\<lambda>c. [c]) s"
proof (induction s)
  case (Cons c cs)
  then show ?case
    by (subst chunks.simps) (simp add: rune_len_def rune_size_def ascii_def)
qed (simp add: chunks.simps)

lemma lower_ascii: "ascii s \<Longrightarrow> fold_name s = map to_lower s \<and> lower_text s = map to_lower s"
proof -
  have "fold_rune [c] = [to_lower c]" "lower_rune [c] = [to_lower c]" for c
    by (auto simp: fold_rune_def lower_rune_def encode_rune_def to_lower_def byte_def chr_def less_eq_char_def
        order_less_imp_le)
  moreover assume "ascii s"
  ultimately show ?thesis
    by (simp add: fold_name_def lower_text_def chunks_ascii comp_def concat_map_singleton)
qed

text \<open>On ASCII tickets the rule is the expected one: the same letters, whatever their case.\<close>

lemma ticket_alike_ascii:
  "ascii t \<Longrightarrow> ascii u \<Longrightarrow> ticket_alike t u \<longleftrightarrow> map to_lower t = map to_lower u"
  by (auto simp: ticket_alike_def equal_fold_def lower_ascii)

definition sample_routes :: payload where
  "sample_routes = sample_payload\<lparr>py_workflowLibrary := [(''dev'', zero_routes_workflow\<lparr>wo_type := type_image,
     wo_image := ''r/dev:1'', wo_env := [(''A'', ''1''), (''B'', ''2'')]\<rparr>)], py_projectRegistry := []\<rparr>"

definition sample_builder :: run_builder where
  "sample_builder = \<lparr>rb_defaults = si_defaults (sample_input zero_routes_workflow), rb_namespace = ''jobs'',
     rb_routes = Some sample_routes, rb_routesFile = [], rb_client = False, rb_pins = False\<rparr>"

definition sample_surroundings :: surroundings where
  "sample_surroundings = \<lparr>su_read_file = (\<lambda>p. Inl ApiNotFound), su_decode = (\<lambda>s. Inl (ErrMsg ''json'')),
     su_presence = (\<lambda>s. Inl (ErrMsg ''json'')), su_now_unix = 7,
     su_get_configmap = (\<lambda>k. Inl ApiNotFound), su_pin_config = (\<lambda>ns sel. None)\<rparr>"

definition sample_decision :: decision where
  "sample_decision = \<lparr>de_ticket = ''KB-1'', de_project = ''castor'', de_repoURL = ''o/r'', de_class = ''dev'',
     de_workflowName = ''dev'', de_slot = [], de_missing = []\<rparr>"

text \<open>The watcher's run of the same decision: the ticket in lower case, the environment in another order.\<close>

definition watcher_run :: criteria_run where
  "watcher_run = (case build_run (Some sample_builder) sample_surroundings sample_decision ''w'' of
     Inl r \<Rightarrow> zero_run
   | Inr run \<Rightarrow> run\<lparr>ru_spec := (ru_spec run)\<lparr>sp_ticketID := ''kb-1'',
       sp_workflow := map_option (\<lambda>w. w\<lparr>wf_env := rev (wf_env w)\<rparr>) (sp_workflow (ru_spec run))\<rparr>\<rparr>)"

definition sample_watchdog :: watchdog where
  "sample_watchdog = \<lparr>wd_client = True, wd_namespace = ''jobs'', wd_labelTicket = [], wd_builder = Some sample_builder\<rparr>"


end
