(* ===== verification/AgentLane.thy ===== *)
theory AgentLane
  imports SpecCompare StateLogic
begin

text \<open>
  The assignment agent (\<open>internal/control/agent.go\<close>) and its bridge to castle (\<open>agentbridge.go\<close>): the identity,
  the filter on the Control stream, the serial processing of one assignment, the run record it creates or finds
  again, and the lifecycle events it submits until the record is terminal. The clients are an interface of
  functions on a world; the lane keeps the two ledgers of acknowledged events, and a log of its writes.

  The loop that follows a record has fuel, one unit a poll; \<open>None\<close> stands for a lane that still holds.
\<close>

section \<open>Identity and configuration\<close>

definition ann_assignment_agent :: string where
  "ann_assignment_agent = ''criteria.brokenbots.dev/assignment-agent''"
definition ann_assignment_attempts :: string where
  "ann_assignment_attempts = ''criteria.brokenbots.dev/assignment-attempts''"

record agent_config =
  gc_addr :: string
  gc_token :: string
  gc_criteriaID :: string
  gc_name :: string
  gc_labels :: smap
  gc_project :: string
  gc_heartbeatEvery :: duration

definition agent_disabled :: "agent_config \<Rightarrow> bool" where "agent_disabled c \<longleftrightarrow> gc_addr c = []"

definition heartbeat_interval :: "agent_config \<Rightarrow> duration" where
  "heartbeat_interval c = (if gc_heartbeatEvery c \<le> 0 then 30 * second else gc_heartbeatEvery c)"

definition control_config_of :: "agent_config \<Rightarrow> control_config" where
  "control_config_of c = \<lparr>cc_addr = gc_addr c, cc_token = gc_token c, cc_criteriaID = gc_criteriaID c,
     cc_labelTicket = [], cc_labelRepoURL = [], cc_labelClass = [], cc_labelProject = []\<rparr>"

record agent_identity =
  ai_criteriaID :: string
  ai_token :: string

text \<open>The labels of the fallback registration, and the identity; \<open>register\<close> is the call to castle.\<close>

definition register_labels :: "agent_config \<Rightarrow> smap" where
  "register_labels c =
     (if gc_project c \<noteq> [] \<and> smap_get (gc_labels c) default_label_project = []
      then assoc_put default_label_project (gc_project c) (gc_labels c) else gc_labels c)"

definition attach_identity ::
  "(string \<Rightarrow> smap \<Rightarrow> go_error + agent_identity) \<Rightarrow> agent_config \<Rightarrow> go_error + agent_identity" where
  "attach_identity register c =
     (if gc_token c \<noteq> [] then
        (if gc_criteriaID c = []
         then Inl (ErrMsg ''assignment agent: criteria-id required with a pre-provisioned agent token'')
         else Inr \<lparr>ai_criteriaID = gc_criteriaID c, ai_token = gc_token c\<rparr>)
      else case register (gc_name c) (register_labels c) of
             Inl e \<Rightarrow> Inl (Wrapped ''assignment agent register'' e)
           | Inr identity \<Rightarrow> Inr identity)"

section \<open>The surroundings of the lane\<close>

datatype lane_event = RunStarted string | RunCompleted string bool | RunFailed string

datatype assignment_state = StateTerminal | StateRejected | StateOpen

record disposition =
  di_leased :: string
  di_state :: assignment_state

text \<open>\<open>aa_client\<close>, \<open>aa_events\<close> and \<open>aa_dispositions\<close> say what is wired; \<open>aa_tick\<close> waits for the next poll and
  answers False when the context ended instead.\<close>

record 'w agent_api =
  aa_client :: bool
  aa_events :: bool
  aa_dispositions :: bool
  aa_surroundings :: "'w \<Rightarrow> surroundings \<times> 'w"
  aa_disposition :: "string \<Rightarrow> 'w \<Rightarrow> (go_error + disposition) \<times> 'w"
  aa_submit :: "string \<Rightarrow> string \<Rightarrow> lane_event \<Rightarrow> 'w \<Rightarrow> (go_error + unit) \<times> 'w"
  aa_list :: "string \<Rightarrow> 'w \<Rightarrow> (go_error + criteria_run list) \<times> 'w"
  aa_get :: "nsname \<Rightarrow> 'w \<Rightarrow> (go_error + criteria_run) \<times> 'w"
  aa_create :: "criteria_run \<Rightarrow> 'w \<Rightarrow> (go_error + unit) \<times> 'w"
  aa_update :: "criteria_run \<Rightarrow> 'w \<Rightarrow> (go_error + unit) \<times> 'w"
  aa_tick :: "'w \<Rightarrow> bool \<times> 'w"

record assignment_agent =
  la_cfg :: agent_config
  la_builder :: "run_builder option"
  la_namespace :: string
  la_identity :: agent_identity

datatype lane_effect =
    Created criteria_run "go_error + unit"
  | Remarked criteria_run
  | Submitted string string lane_event "go_error + unit"

record 'w lane_state =
  ln_world :: 'w
  ln_started :: "string list"
  ln_terminal :: "string list"
  ln_log :: "lane_effect list"

type_synonym ('w, 'a) lane = "('w lane_state, 'a) state"

definition lane_call :: "('w \<Rightarrow> 'a \<times> 'w) \<Rightarrow> ('a \<Rightarrow> lane_effect list) \<Rightarrow> ('w, 'a) lane" where
  "lane_call f eff = State (\<lambda>s. let (a, w) = f (ln_world s)
     in (a, s\<lparr>ln_world := w, ln_log := ln_log s @ eff a\<rparr>))"

definition lane_ask :: "('w \<Rightarrow> 'a \<times> 'w) \<Rightarrow> ('w, 'a) lane" where "lane_ask f = lane_call f (\<lambda>_. [])"

definition submit_event ::
  "'w agent_api \<Rightarrow> string \<Rightarrow> string \<Rightarrow> lane_event \<Rightarrow> ('w, go_error + unit) lane" where
  "submit_event api runID correlation ev =
     lane_call (aa_submit api runID correlation ev) (\<lambda>res. [Submitted runID correlation ev res])"

definition started_seen :: "string \<Rightarrow> ('w, bool) lane" where
  "started_seen runID = State (\<lambda>s. (runID \<in> set (ln_started s), s))"

definition terminal_seen :: "string \<Rightarrow> ('w, bool) lane" where
  "terminal_seen runID = State (\<lambda>s. (runID \<in> set (ln_terminal s), s))"

definition mark_started :: "string \<Rightarrow> ('w, unit) lane" where
  "mark_started runID = State (\<lambda>s. ((), s\<lparr>ln_started := List.insert runID (ln_started s)\<rparr>))"

definition mark_terminal :: "string \<Rightarrow> ('w, unit) lane" where
  "mark_terminal runID = State (\<lambda>s. ((), s\<lparr>ln_terminal := List.insert runID (ln_terminal s)\<rparr>))"

section \<open>Reading an assignment\<close>

definition decision_scope :: "agent_config \<Rightarrow> assignment \<Rightarrow> decision" where
  "decision_scope c asg = translate (control_config_of c) asg"

definition in_scope :: "agent_config \<Rightarrow> decision \<Rightarrow> bool" where
  "in_scope c d \<longleftrightarrow> gc_project c = [] \<or> de_project d = [] \<or> de_project d = gc_project c"

definition decision_missing :: "decision \<Rightarrow> string list" where
  "decision_missing d = absent [(de_ticket d, ''ticket''), (de_repoURL d, ''repo''), (de_class d, ''class''),
     (de_workflowName d, ''workflow_name'')]"

definition agent_translate :: "agent_config \<Rightarrow> assignment \<Rightarrow> decision \<times> dispatch_envelope" where
  "agent_translate c asg =
     (let d = decision_scope c asg
      in if as_workflowSource asg = []
         then (d\<lparr>de_missing := de_missing d @
             [''payload: workflow_source empty '' @ em_dash @ '' no dispatch envelope, no HCL source'']\<rparr>, zero_envelope)
         else case parse_dispatch_envelope (as_workflowSource asg) of
                Inl err \<Rightarrow> (d\<lparr>de_missing := de_missing d @ [''payload: '' @ error_text err]\<rparr>, zero_envelope)
              | Inr env \<Rightarrow>
                  (let d' = d\<lparr>de_ticket := en_ticket env, de_repoURL := en_repo env, de_slot := en_slot env,
                              de_class := (if en_class env \<noteq> [] then en_class env else de_class d)\<rparr>
                   in (d'\<lparr>de_missing := decision_missing d'\<rparr>, env)))"

text \<open>The stamped run always carries a workflow (\<open>stamped_workflow\<close>), so the nil dereference cannot happen.\<close>

definition apply_target_metadata :: "criteria_run \<Rightarrow> smap \<Rightarrow> go_error + criteria_run" where
  "apply_target_metadata run targets =
     (if targets = [] then Inr run
      else case validate_adapter_images targets of
             Some err \<Rightarrow> Inl (Wrapped ''target metadata'' err)
           | None \<Rightarrow> Inr (run\<lparr>ru_spec := (ru_spec run)\<lparr>sp_workflow := map_option
               (\<lambda>w. w\<lparr>wf_adapterImages := foldl (\<lambda>m (kind, ref). assoc_put kind ref m) (wf_adapterImages w) targets\<rparr>)
               (sp_workflow (ru_spec run))\<rparr>\<rparr>))"

section \<open>The bridge\<close>

definition final_handler_complete :: string where "final_handler_complete = ''handler_complete''"
definition final_failed :: string where "final_failed = ''failed''"
definition final_need_assistance :: string where "final_need_assistance = ''need_assistance''"
definition final_awaiting_human :: string where "final_awaiting_human = ''awaiting_human''"
definition final_ready_for_development :: string where
  "final_ready_for_development = ''ready_for_development''"

definition is_completing_final_state :: "string \<Rightarrow> bool" where
  "is_completing_final_state fs \<longleftrightarrow> fs = final_handler_complete \<or> fs = final_ready_for_development"

definition final_state_description :: "string \<Rightarrow> string" where
  "final_state_description fs =
     (if fs = final_handler_complete then ''handler_complete''
      else if fs = final_failed then ''failed''
      else if fs = final_need_assistance then ''need_assistance (human gate)''
      else if fs = final_awaiting_human then ''awaiting_human (legacy human gate)''
      else if fs = final_ready_for_development then ''ready_for_development''
      else if fs = [] then ''empty (no verdict recorded)'' else go_quote fs)"

definition terminal_payload :: "criteria_run_status \<Rightarrow> lane_event" where
  "terminal_payload st =
     (if st_phase st = PhaseFailed
      then RunFailed (''workflow run failed (verdict '' @ final_state_description (st_finalState st) @ '')'')
      else if is_completing_final_state (st_finalState st) then RunCompleted (st_finalState st) True
      else RunFailed (''workflow run ended without a completing verdict: '' @ final_state_description (st_finalState st)))"

definition correlation_run_started :: string where "correlation_run_started = ''agent-run-started''"
definition correlation_run_terminal :: string where "correlation_run_terminal = ''agent-run-terminal''"

definition correlation :: "string \<Rightarrow> int \<Rightarrow> string" where
  "correlation what attempts = what @ ''-'' @ show_int attempts"

definition bridge_disabled :: "'w agent_api \<Rightarrow> bool" where
  "bridge_disabled api \<longleftrightarrow> \<not> aa_events api \<or> \<not> aa_dispositions api"

definition ensure_started :: "'w agent_api \<Rightarrow> string \<Rightarrow> string \<Rightarrow> int \<Rightarrow> ('w, unit) lane" where
  "ensure_started api runID workflowName attempts = do {
     seen \<leftarrow> started_seen runID;
     if \<not> aa_events api \<or> seen then State_Monad.return ()
     else do {
       res \<leftarrow> submit_event api runID (correlation correlation_run_started attempts) (RunStarted workflowName);
       case res of Inl e \<Rightarrow> State_Monad.return () | Inr u \<Rightarrow> mark_started runID
     }
   }"

definition bridge_terminal ::
  "'w agent_api \<Rightarrow> string \<Rightarrow> int \<Rightarrow> lane_event \<Rightarrow> bool \<Rightarrow> ('w, bool) lane" where
  "bridge_terminal api runID attempts ev recordLost = do {
     res \<leftarrow> submit_event api runID (correlation correlation_run_terminal attempts) ev;
     case res of
       Inl e \<Rightarrow> State_Monad.return recordLost
     | Inr u \<Rightarrow> do { mark_terminal runID; State_Monad.return True }
   }"

definition bridge_status ::
  "'w agent_api \<Rightarrow> string \<Rightarrow> string \<Rightarrow> int \<Rightarrow> criteria_run_status \<Rightarrow> ('w, bool) lane" where
  "bridge_status api runID workflowName attempts st =
     (if st_phase st = PhaseSucceeded \<or> st_phase st = PhaseFailed then do {
        seen \<leftarrow> terminal_seen runID;
        if seen then State_Monad.return True
        else bridge_terminal api runID attempts (terminal_payload st) False
      }
      else if st_phase st = PhaseRunning then do {
        ensure_started api runID workflowName attempts;
        State_Monad.return False
      }
      else State_Monad.return False)"

definition record_deleted :: string where "record_deleted = ''assignment run record deleted''"

definition bridge_step ::
  "assignment_agent \<Rightarrow> 'w agent_api \<Rightarrow> string \<Rightarrow> string \<Rightarrow> string \<Rightarrow> int \<Rightarrow> ('w, bool) lane" where
  "bridge_step ag api runName runID workflowName attempts =
     (if \<not> aa_client api then State_Monad.return False
      else do {
        got \<leftarrow> lane_ask (aa_get api (la_namespace ag, runName));
        case got of
          Inr run \<Rightarrow> bridge_status api runID workflowName attempts (ru_status run)
        | Inl e \<Rightarrow>
            if is_not_found e
            then bridge_terminal api runID attempts (RunFailed record_deleted) True
            else State_Monad.return False
      })"

fun follow :: "nat \<Rightarrow> 'w agent_api \<Rightarrow> ('w, bool) lane \<Rightarrow> ('w, unit option) lane" where
  "follow 0 api poll = State_Monad.return None"
| "follow (Suc fuel) api poll = do {
     released \<leftarrow> poll;
     if released then State_Monad.return (Some ())
     else do {
       ticked \<leftarrow> lane_ask (aa_tick api);
       if ticked then follow fuel api poll else State_Monad.return (Some ())
     }
   }"

definition deliver ::
  "nat \<Rightarrow> assignment_agent \<Rightarrow> 'w agent_api \<Rightarrow> string \<Rightarrow> string \<Rightarrow> string \<Rightarrow> int \<Rightarrow> ('w, unit option) lane" where
  "deliver fuel ag api runName runID workflowName attempts =
     (if bridge_disabled api then State_Monad.return (Some ())
      else do {
        seen \<leftarrow> terminal_seen runID;
        if seen then State_Monad.return (Some ())
        else follow fuel api (bridge_step ag api runName runID workflowName attempts)
      })"

definition fail_assignment_closed :: "'w agent_api \<Rightarrow> assignment \<Rightarrow> string list \<Rightarrow> ('w, unit) lane" where
  "fail_assignment_closed api asg reasons =
     (if \<not> aa_events api then State_Monad.return ()
      else do {
        res \<leftarrow> submit_event api (as_runID asg) (correlation_run_terminal @ ''-failclosed'')
                 (RunFailed (''assignment failed closed: '' @ join ''; '' reasons));
        State_Monad.return ()
      })"

section \<open>The run record\<close>

definition owned_by_us :: "assignment_agent \<Rightarrow> 'w agent_api \<Rightarrow> string \<Rightarrow> ('w, bool) lane" where
  "owned_by_us ag api runID =
     (if \<not> aa_dispositions api then State_Monad.return True
      else do {
        res \<leftarrow> lane_ask (aa_disposition api runID);
        State_Monad.return (case res of
            Inl e \<Rightarrow> True
          | Inr di \<Rightarrow> \<not> (di_leased di \<noteq> [] \<and> di_leased di \<noteq> ai_criteriaID (la_identity ag)) \<and>
              di_state di \<noteq> StateTerminal \<and> di_state di \<noteq> StateRejected)
      })"

definition carries :: "string \<Rightarrow> criteria_run \<Rightarrow> bool" where
  "carries runID run \<longleftrightarrow> smap_get (ru_annotations run) ann_assignment_run_id = runID"

definition find_recorded_run ::
  "assignment_agent \<Rightarrow> 'w agent_api \<Rightarrow> string \<Rightarrow> ('w, criteria_run option) lane" where
  "find_recorded_run ag api runID =
     (if \<not> aa_client api \<or> runID = [] then State_Monad.return None
      else do {
        res \<leftarrow> lane_ask (aa_list api (la_namespace ag));
        State_Monad.return (case res of Inl e \<Rightarrow> None | Inr runs \<Rightarrow> find (carries runID) runs)
      })"

text \<open>\<open>attempts + 1\<close> on a 64-bit \<open>int\<close>.\<close>

definition succ_int64 :: "int \<Rightarrow> int" where
  "succ_int64 n = (if n = 9223372036854775807 then - 9223372036854775808 else n + 1)"

definition recorded_attempts :: "criteria_run \<Rightarrow> int" where
  "recorded_attempts run =
     (case parse_int64 (smap_get (ru_annotations run) ann_assignment_attempts) of
        Some n \<Rightarrow> if 0 < n then n else 1 | None \<Rightarrow> 1)"

definition mark_attempts :: "'w agent_api \<Rightarrow> criteria_run \<Rightarrow> ('w, criteria_run \<times> int) lane" where
  "mark_attempts api run =
     (let n = succ_int64 (recorded_attempts run);
          run' = run\<lparr>ru_annotations := assoc_put ann_assignment_attempts (show_int n) (ru_annotations run)\<rparr>
      in if \<not> aa_client api then State_Monad.return (run', n)
         else do {
           res \<leftarrow> lane_call (aa_update api run') (\<lambda>_. [Remarked run']);
           State_Monad.return (run', n)
         })"

definition annotated :: "assignment_agent \<Rightarrow> assignment \<Rightarrow> criteria_run \<Rightarrow> criteria_run" where
  "annotated ag asg run = run\<lparr>ru_annotations :=
     assoc_put ann_assignment_attempts ''1''
       (assoc_put ann_assignment_agent (ai_criteriaID (la_identity ag))
         (assoc_put ann_assignment_run_id (as_runID asg) (ru_annotations run)))\<rparr>"

definition attach_run ::
  "assignment_agent \<Rightarrow> 'w agent_api \<Rightarrow> criteria_run \<Rightarrow> assignment \<Rightarrow> ('w, (criteria_run \<times> int) option) lane" where
  "attach_run ag api run asg =
     (if \<not> aa_client api then State_Monad.return None
      else do {
        existing \<leftarrow> find_recorded_run ag api (as_runID asg);
        case existing of
          Some r \<Rightarrow> do { marked \<leftarrow> mark_attempts api r; State_Monad.return (Some marked) }
        | None \<Rightarrow> do {
            res \<leftarrow> lane_call (aa_create api (annotated ag asg run)) (\<lambda>res. [Created (annotated ag asg run) res]);
            case res of
              Inr u \<Rightarrow> State_Monad.return (Some (annotated ag asg run, 1))
            | Inl e \<Rightarrow>
                if err_is e ApiAlreadyExists then do {
                  winner \<leftarrow> find_recorded_run ag api (as_runID asg);
                  case winner of
                    Some r \<Rightarrow> do { marked \<leftarrow> mark_attempts api r; State_Monad.return (Some marked) }
                  | None \<Rightarrow> State_Monad.return None
                }
                else State_Monad.return None
          }
      })"

section \<open>Processing\<close>

definition admit_assignment ::
  "nat \<Rightarrow> assignment_agent \<Rightarrow> 'w agent_api \<Rightarrow> assignment \<Rightarrow> decision \<Rightarrow> criteria_run \<Rightarrow> ('w, unit option) lane" where
  "admit_assignment fuel ag api asg d run = do {
     owned \<leftarrow> owned_by_us ag api (as_runID asg);
     if \<not> owned then State_Monad.return (Some ())
     else do {
       attached \<leftarrow> attach_run ag api run asg;
       case attached of
         None \<Rightarrow> State_Monad.return (Some ())
       | Some (record, attempts) \<Rightarrow>
           deliver fuel ag api (ru_name record) (as_runID asg) (de_workflowName d) attempts
     }
   }"

definition process ::
  "nat \<Rightarrow> assignment_agent \<Rightarrow> 'w agent_api \<Rightarrow> assignment \<Rightarrow> ('w, unit option) lane" where
  "process fuel ag api asg =
     (if as_runID asg = [] then State_Monad.return (Some ())
      else do {
        su \<leftarrow> lane_ask (aa_surroundings api);
        let (d, env) = agent_translate (la_cfg ag) asg;
            built = build_run (la_builder ag) su d (as_runID asg);
            reasons = de_missing d @ (case built of Inl rs \<Rightarrow> rs | Inr run \<Rightarrow> [])
        in case built of
             Inl rs \<Rightarrow> do { fail_assignment_closed api asg reasons; State_Monad.return (Some ()) }
           | Inr run \<Rightarrow>
               if reasons \<noteq> [] then do { fail_assignment_closed api asg reasons; State_Monad.return (Some ()) }
               else case apply_target_metadata run (en_targetImages env) of
                      Inl err \<Rightarrow> do { fail_assignment_closed api asg [error_text err]; State_Monad.return (Some ()) }
                    | Inr pinned \<Rightarrow> admit_assignment fuel ag api asg d pinned
      })"

text \<open>The serial lane: what the Control stream delivers in scope, in order, one after the other. A lane that
  holds keeps the rest waiting.\<close>

fun process_all ::
  "nat \<Rightarrow> assignment_agent \<Rightarrow> 'w agent_api \<Rightarrow> assignment list \<Rightarrow> ('w, unit option) lane" where
  "process_all fuel ag api [] = State_Monad.return (Some ())"
| "process_all fuel ag api (asg # rest) = do {
     released \<leftarrow> process fuel ag api asg;
     case released of
       None \<Rightarrow> State_Monad.return None
     | Some u \<Rightarrow> process_all fuel ag api rest
   }"

text \<open>A message of the Control stream carries an assignment or another command, which is ignored.\<close>

definition consume_stream :: "agent_config \<Rightarrow> assignment option list \<Rightarrow> assignment list" where
  "consume_stream c msgs = filter (\<lambda>asg. in_scope c (decision_scope c asg)) (List.map_filter (\<lambda>m. m) msgs)"

section \<open>Reasoning about a lane\<close>

lemma triple_call:
  assumes "\<And>s r w'. P s \<Longrightarrow> f (ln_world s) = (r, w') \<Longrightarrow> Q r (s\<lparr>ln_world := w', ln_log := ln_log s @ eff r\<rparr>)"
  shows "triple P (lane_call f eff) Q"
  unfolding triple_def lane_call_def using assms by (auto split: prod.splits)

lemma triple_ask:
  assumes "\<And>s r w'. P s \<Longrightarrow> f (ln_world s) = (r, w') \<Longrightarrow> Q r (s\<lparr>ln_world := w'\<rparr>)"
  shows "triple P (lane_ask f) Q"
  unfolding lane_ask_def
proof (rule triple_call)
  fix s r w' assume "P s" and "f (ln_world s) = (r, w')"
  from assms [OF this] show "Q r (s\<lparr>ln_world := w', ln_log := ln_log s @ []\<rparr>)" by (cases s) simp
qed

lemma triple_started: "triple P (started_seen runID) (\<lambda>b s. P s \<and> (b \<longleftrightarrow> runID \<in> set (ln_started s)))"
  unfolding triple_def started_seen_def by auto

lemma triple_terminal: "triple P (terminal_seen runID) (\<lambda>b s. P s \<and> (b \<longleftrightarrow> runID \<in> set (ln_terminal s)))"
  unfolding triple_def terminal_seen_def by auto

text \<open>An assertion that every step of the lane keeps is kept by a processed sequence.\<close>

lemma follow_keeps:
  assumes "triple P poll (\<lambda>b s. if b then Q s else P s)"
    and "\<And>s w. P s \<Longrightarrow> P (s\<lparr>ln_world := snd (aa_tick api (ln_world s))\<rparr>)" and "\<And>s. P s \<Longrightarrow> Q s"
  shows "triple P (follow fuel api poll) (\<lambda>r s. Q s)"
proof (induction fuel)
  case 0
  show ?case using assms(3) by (simp add: triple_return)
next
  case (Suc fuel)
  have "triple P (lane_ask (aa_tick api)) (\<lambda>b s. P s)"
    using assms(2) by (intro triple_ask) (metis snd_conv)
  moreover have "triple P (if b then follow fuel api poll else State_Monad.return (Some ())) (\<lambda>r s. Q s)" for b
    using Suc assms(3) by (auto intro: triple_return)
  ultimately have rest: "triple P (State_Monad.bind (lane_ask (aa_tick api))
      (\<lambda>b. if b then follow fuel api poll else State_Monad.return (Some ()))) (\<lambda>r s. Q s)"
    by (rule triple_bind)
  have "triple (\<lambda>s. if b then Q s else P s)
      (if b then State_Monad.return (Some ())
       else State_Monad.bind (lane_ask (aa_tick api))
         (\<lambda>b. if b then follow fuel api poll else State_Monad.return (Some ()))) (\<lambda>r s. Q s)" for b
    using rest by (cases b) (auto intro: triple_return)
  with assms(1) show ?case unfolding follow.simps by (rule triple_bind)
qed

lemma follow_releases:
  assumes poll: "triple P poll (\<lambda>b s. if b then Q s else P s)"
    and tick: "\<And>w. fst (aa_tick api w)" and world: "\<And>s w. P s \<Longrightarrow> P (s\<lparr>ln_world := w\<rparr>)"
  shows "triple P (follow fuel api poll) (\<lambda>r s. r = None \<or> Q s)"
proof (induction fuel)
  case 0
  show ?case by (simp add: triple_return)
next
  case (Suc fuel)
  have "triple P (lane_ask (aa_tick api)) (\<lambda>b s. b \<and> P s)"
    using tick world by (intro triple_ask) (metis fst_conv)
  moreover have "triple (\<lambda>s. b \<and> P s) (if b then follow fuel api poll else State_Monad.return (Some ()))
      (\<lambda>r s. r = None \<or> Q s)" for b
    using Suc by (cases b) (auto intro: triple_return)
  ultimately have rest: "triple P (State_Monad.bind (lane_ask (aa_tick api))
      (\<lambda>b. if b then follow fuel api poll else State_Monad.return (Some ()))) (\<lambda>r s. r = None \<or> Q s)"
    by (rule triple_bind)
  have "triple (\<lambda>s. if b then Q s else P s)
      (if b then State_Monad.return (Some ())
       else State_Monad.bind (lane_ask (aa_tick api))
         (\<lambda>b. if b then follow fuel api poll else State_Monad.return (Some ()))) (\<lambda>r s. r = None \<or> Q s)" for b
    using rest by (cases b) (auto intro: triple_return)
  with poll show ?case unfolding follow.simps by (rule triple_bind)
qed

lemma process_all_keeps:
  assumes "\<And>asg. triple P (process fuel ag api asg) (\<lambda>r. P)"
  shows "triple P (process_all fuel ag api asgs) (\<lambda>r. P)"
proof (induction asgs)
  case Nil
  show ?case by (simp add: triple_return)
next
  case (Cons asg asgs)
  have "triple P (case r of None \<Rightarrow> State_Monad.return None | Some u \<Rightarrow> process_all fuel ag api asgs) (\<lambda>r. P)" for r
    using Cons by (cases r) (auto intro: triple_return)
  with assms [of asg] show ?case unfolding process_all.simps by (rule triple_bind)
qed

end
