(* ===== verification/LaneSafety.thy ===== *)
theory LaneSafety
  imports AgentLane
begin

text \<open>
  What the assignment lane guarantees towards castle: the two ledgers record exactly the events that were
  acknowledged, so neither the start nor the end of a run is acknowledged twice; the lane lets go of an
  assignment only with its end acknowledged or its record lost; and the end it reports is the verdict of the record.
  The run records themselves are in \<open>LaneRecords\<close>.
\<close>

section \<open>The ledgers\<close>

definition fail_closed_correlation :: string where
  "fail_closed_correlation = correlation_run_terminal @ ''-failclosed''"

fun start_acked :: "string \<Rightarrow> lane_effect \<Rightarrow> bool" where
  "start_acked runID (Submitted i c (RunStarted w) (Inr u)) = (i = runID)"
| "start_acked runID e = False"

fun end_acked :: "string \<Rightarrow> lane_effect \<Rightarrow> bool" where
  "end_acked runID (Submitted i c (RunStarted w) res) = False"
| "end_acked runID (Submitted i c ev (Inr u)) = (i = runID \<and> c \<noteq> fail_closed_correlation)"
| "end_acked runID e = False"

definition acks :: "(lane_effect \<Rightarrow> bool) \<Rightarrow> lane_effect list \<Rightarrow> nat" where
  "acks p l = length (filter p l)"

definition ledger_ok :: "'w lane_state \<Rightarrow> bool" where
  "ledger_ok s \<longleftrightarrow> (\<forall>runID.
     acks (start_acked runID) (ln_log s) = (if runID \<in> set (ln_started s) then 1 else 0) \<and>
     acks (end_acked runID) (ln_log s) = (if runID \<in> set (ln_terminal s) then 1 else 0))"

lemma acks_snoc [simp]: "acks p (l @ [e]) = acks p l + (if p e then 1 else 0)" "acks p [] = 0"
  by (simp_all add: acks_def)

lemma digits_last: "digits (Suc fuel) n \<noteq> [] \<and> last (digits (Suc fuel) n) = char_of (48 + n mod 10)"
  by simp

lemma show_int_last: "last (show_int i) \<noteq> CHR ''d''"
proof -
  define k where "k = 48 + nat (abs i) mod 10"
  have "last (show_int i) = chr k"
    using digits_last [of "nat (abs i)" "nat (abs i)"]
    by (simp add: show_int_def Let_def k_def chr_def del: digits.simps)
  moreover have "byte (chr k) = k" by (rule byte_chr) (simp add: k_def)
  moreover have "k \<noteq> byte (CHR ''d'')" by (simp add: k_def byte_def)
  ultimately show ?thesis by metis
qed

lemma correlation_not_fail_closed: "correlation correlation_run_terminal n \<noteq> fail_closed_correlation"
proof -
  have "last (correlation correlation_run_terminal n) = last (show_int n)"
    using digits_last [of "nat (abs n)" "nat (abs n)"]
    by (simp add: correlation_def show_int_def Let_def del: digits.simps)
  moreover have "last fail_closed_correlation = CHR ''d''" by (simp add: fail_closed_correlation_def)
  ultimately show ?thesis using show_int_last [of n] by auto
qed

text \<open>One poll, while the run's end is not acknowledged.\<close>

definition watching :: "string \<Rightarrow> 'w lane_state \<Rightarrow> bool" where
  "watching runID s \<longleftrightarrow> ledger_ok s \<and> runID \<notin> set (ln_terminal s)"

text \<open>The one way out without an acknowledgement: the record is gone and its last report was refused.\<close>

definition record_lost :: "string \<Rightarrow> 'w lane_state \<Rightarrow> bool" where
  "record_lost runID s \<longleftrightarrow> (case rev (ln_log s) of
     Submitted i c ev (Inl e) # l \<Rightarrow> i = runID \<and> ev = RunFailed record_deleted | _ \<Rightarrow> False)"

definition after_poll :: "string \<Rightarrow> bool \<Rightarrow> 'w lane_state \<Rightarrow> bool" where
  "after_poll runID released s \<longleftrightarrow> (if released then ledger_ok s \<and> (runID \<in> set (ln_terminal s) \<or> record_lost runID s)
     else watching runID s)"

lemma ledger_world [simp]: "ledger_ok (s\<lparr>ln_world := w\<rparr>) = ledger_ok s" "watching i (s\<lparr>ln_world := w\<rparr>) = watching i s"
  by (simp_all add: ledger_ok_def watching_def)

lemma ask_keeps: "(\<And>s w. P (s\<lparr>ln_world := w\<rparr>) = P s) \<Longrightarrow> triple P (lane_ask f) (\<lambda>r. P)"
  by (rule triple_ask) simp

lemma ensure_started_watching: "triple (watching runID) (ensure_started api runID wn n) (\<lambda>u. watching runID)"
  unfolding ensure_started_def submit_event_def
proof (rule triple_bind [OF triple_started], rule triple_if)
  fix seen
  show "triple (\<lambda>s. watching runID s \<and> (seen \<longleftrightarrow> runID \<in> set (ln_started s))) (State_Monad.return ()) (\<lambda>u. watching runID)"
    by (rule triple_return) simp
  assume new: "\<not> (\<not> aa_events api \<or> seen)"
  show "triple (\<lambda>s. watching runID s \<and> (seen \<longleftrightarrow> runID \<in> set (ln_started s)))
      (State_Monad.bind (lane_call (aa_submit api runID (correlation correlation_run_started n) (RunStarted wn))
          (\<lambda>res. [Submitted runID (correlation correlation_run_started n) (RunStarted wn) res]))
        (\<lambda>res. case res of Inl e \<Rightarrow> State_Monad.return () | Inr u \<Rightarrow> mark_started runID)) (\<lambda>u. watching runID)"
    unfolding triple_def lane_call_def mark_started_def
    using new by (auto simp: watching_def ledger_ok_def split: prod.splits sum.splits)
qed

lemma bridge_terminal_watching:
  "triple (watching runID) (bridge_terminal api runID n ev lost) (after_poll runID)" 
  if "\<And>w. ev \<noteq> RunStarted w" "lost \<Longrightarrow> ev = RunFailed record_deleted"
proof -
  have "end_acked i (Submitted runID (correlation correlation_run_terminal n) ev (Inr u)) \<longleftrightarrow> runID = i" for i u
    using that(1) correlation_not_fail_closed by (cases ev) auto
  moreover have "\<not> start_acked i (Submitted runID c ev res)" "\<not> end_acked i (Submitted runID c ev (Inl e))" for i c res e
    using that(1) by (cases ev; cases res; auto)+
  ultimately show ?thesis
    unfolding triple_def bridge_terminal_def submit_event_def lane_call_def mark_terminal_def
    using that(2) by (auto simp: after_poll_def watching_def ledger_ok_def record_lost_def split: prod.splits sum.splits)
qed

lemma terminal_payload_ends: "terminal_payload st \<noteq> RunStarted w"
  by (simp add: terminal_payload_def)

lemma bridge_status_watching:
  "triple (watching runID) (bridge_status api runID wn n st) (after_poll runID)"
proof -
  have "triple (\<lambda>s. watching runID s \<and> (seen \<longleftrightarrow> runID \<in> set (ln_terminal s)))
      (if seen then State_Monad.return True else bridge_terminal api runID n (terminal_payload st) False)
      (after_poll runID)" for seen
    using bridge_terminal_watching [of "terminal_payload st" False runID api n] terminal_payload_ends
    by (auto intro!: triple_return simp: watching_def elim: triple_weaken)
  then have "triple (watching runID) (State_Monad.bind (terminal_seen runID) (\<lambda>seen.
      if seen then State_Monad.return True else bridge_terminal api runID n (terminal_payload st) False)) (after_poll runID)"
    by (rule triple_bind [OF triple_terminal])
  moreover have "triple (watching runID) (State_Monad.bind (ensure_started api runID wn n)
      (\<lambda>u. State_Monad.return False)) (after_poll runID)"
    by (rule triple_bind [OF ensure_started_watching]) (simp add: triple_return after_poll_def)
  ultimately show ?thesis
    unfolding bridge_status_def by (auto intro!: triple_return simp: after_poll_def)
qed

lemma bridge_step_watching:
  "triple (watching runID) (bridge_step ag api name runID wn n) (after_poll runID)"
  unfolding bridge_step_def
proof (rule triple_if)
  show "triple (watching runID) (State_Monad.return False) (after_poll runID)"
    by (rule triple_return) (simp add: after_poll_def)
  show "triple (watching runID) (State_Monad.bind (lane_ask (aa_get api (la_namespace ag, name))) (\<lambda>got.
      case got of Inr run \<Rightarrow> bridge_status api runID wn n (ru_status run)
      | Inl e \<Rightarrow> if is_not_found e then bridge_terminal api runID n (RunFailed record_deleted) True
          else State_Monad.return False)) (after_poll runID)"
  proof (rule triple_bind [OF ask_keeps])
    fix got
    show "triple (watching runID) (case got of Inr run \<Rightarrow> bridge_status api runID wn n (ru_status run)
      | Inl e \<Rightarrow> if is_not_found e then bridge_terminal api runID n (RunFailed record_deleted) True
          else State_Monad.return False) (after_poll runID)"
      using bridge_status_watching bridge_terminal_watching [of "RunFailed record_deleted"]
      by (cases got) (auto intro!: triple_return simp: after_poll_def)
  qed simp
qed

lemma follow_ledger: "triple (watching runID) (follow fuel api (bridge_step ag api name runID wn n)) (\<lambda>r. ledger_ok)"
  by (rule follow_keeps, rule triple_weaken [OF bridge_step_watching])
    (auto simp: after_poll_def watching_def)

lemma deliver_ledger: "triple ledger_ok (deliver fuel ag api name runID wn n) (\<lambda>r. ledger_ok)"
  unfolding deliver_def
proof (rule triple_if, simp add: triple_return, rule triple_bind [OF triple_terminal])
  fix seen
  show "triple (\<lambda>s. ledger_ok s \<and> (seen \<longleftrightarrow> runID \<in> set (ln_terminal s)))
      (if seen then State_Monad.return (Some ()) else follow fuel api (bridge_step ag api name runID wn n)) (\<lambda>r. ledger_ok)"
  proof (rule triple_if)
    assume "\<not> seen"
    then show "triple (\<lambda>s. ledger_ok s \<and> (seen \<longleftrightarrow> runID \<in> set (ln_terminal s)))
        (follow fuel api (bridge_step ag api name runID wn n)) (\<lambda>r. ledger_ok)"
      by (intro triple_weaken [OF follow_ledger]) (auto simp: watching_def)
  qed (auto intro: triple_return)
qed

lemma plain_write_keeps:
  assumes quiet: "\<And>r e i. e \<in> set (eff r) \<Longrightarrow> \<not> start_acked i e \<and> \<not> end_acked i e"
  shows "triple ledger_ok (lane_call f eff) (\<lambda>r. ledger_ok)"
proof (rule triple_call)
  fix s r w'
  assume "ledger_ok s"
  moreover have "acks (start_acked i) (l @ eff r) = acks (start_acked i) l"
      "acks (end_acked i) (l @ eff r) = acks (end_acked i) l" for i l
    using quiet [of _ r i] by (simp_all add: acks_def filter_empty_conv)
  ultimately show "ledger_ok (s\<lparr>ln_world := w', ln_log := ln_log s @ eff r\<rparr>)" by (simp add: ledger_ok_def)
qed

lemma attach_ledger: "triple ledger_ok (attach_run ag api run asg) (\<lambda>r. ledger_ok)"
proof -
  have find: "triple ledger_ok (find_recorded_run ag api i) (\<lambda>r. ledger_ok)" for i
    unfolding find_recorded_run_def
    by (intro triple_if triple_bind [OF ask_keeps] triple_return) simp_all
  have mark: "triple ledger_ok (State_Monad.bind (mark_attempts api r) (\<lambda>m. State_Monad.return (Some m))) (\<lambda>r. ledger_ok)" for r
    unfolding mark_attempts_def Let_def
    by (intro triple_bind [where R = "\<lambda>r. ledger_ok"] triple_if triple_return plain_write_keeps) auto
  have create: "triple ledger_ok (lane_call (aa_create api r) (\<lambda>res. [Created r res])) (\<lambda>r. ledger_ok)" for r
    by (rule plain_write_keeps) simp
  show ?thesis
    unfolding attach_run_def
    by (intro triple_if triple_bind [OF find] triple_bind [OF create] triple_option triple_sum mark triple_return)
qed

lemma process_ledger: "triple ledger_ok (process fuel ag api asg) (\<lambda>r. ledger_ok)"
proof -
  have closed: "triple ledger_ok (State_Monad.bind (fail_assignment_closed api asg reasons) (\<lambda>u. State_Monad.return (Some ())))
      (\<lambda>r. ledger_ok)" for reasons
    unfolding fail_assignment_closed_def submit_event_def
    by (intro triple_bind [where R = "\<lambda>r. ledger_ok"] triple_if triple_return plain_write_keeps)
      (auto simp: fail_closed_correlation_def split: sum.splits elim: start_acked.elims end_acked.elims)
  have owned: "triple ledger_ok (owned_by_us ag api i) (\<lambda>r. ledger_ok)" for i
    unfolding owned_by_us_def by (intro triple_if triple_bind [OF ask_keeps] triple_return) simp_all
  have admit: "triple ledger_ok (admit_assignment fuel ag api asg d run) (\<lambda>r. ledger_ok)" for d run
    unfolding admit_assignment_def
    by (intro triple_bind [OF owned] triple_bind [OF attach_ledger] triple_if triple_option triple_pair triple_return
        deliver_ledger)
  show ?thesis
    unfolding process_def Let_def
    by (intro triple_if triple_bind [OF ask_keeps] triple_pair triple_sum closed admit triple_return) simp_all
qed

text \<open>
  C19. Whatever the lane is delivered, and however often: of each run the start is acknowledged at most once and
  the end is acknowledged by the bridge at most once, exactly when the ledgers say so. (The event that closes an
  assignment that cannot be stamped bypasses the ledgers.)
\<close>

theorem lifecycle_acknowledged_once:
  assumes "run_state (process_all fuel ag api asgs)
    \<lparr>ln_world = w, ln_started = [], ln_terminal = [], ln_log = []\<rparr> = (out, s)"
  shows "acks (start_acked runID) (ln_log s) = (if runID \<in> set (ln_started s) then 1 else 0) \<and>
    acks (end_acked runID) (ln_log s) = (if runID \<in> set (ln_terminal s) then 1 else 0)"
proof -
  have "ledger_ok \<lparr>ln_world = w, ln_started = [], ln_terminal = [], ln_log = []\<rparr>" by (simp add: ledger_ok_def)
  then have "ledger_ok s" by (rule tripleD [OF process_all_keeps [OF process_ledger] assms])
  then show ?thesis by (simp add: ledger_ok_def)
qed

text \<open>
  C22. The lane holds on to an assignment until castle has its end: while the context lives, the delivery of a run
  comes back only with exactly one end acknowledged, or, when the record was deleted under it, after the report of
  that was refused. (In this second case the code's comment promises a retry.)
\<close>

theorem lane_released_after_acknowledgement:
  assumes "run_state (deliver fuel ag api name runID wn n) s = (Some (), s')"
    and "ledger_ok s" and "\<not> bridge_disabled api" and "\<And>w. fst (aa_tick api w)"
  shows "acks (end_acked runID) (ln_log s') = 1 \<or> record_lost runID s'"
proof -
  let ?Q = "\<lambda>s. ledger_ok s \<and> (runID \<in> set (ln_terminal s) \<or> record_lost runID s)"
  have follow: "triple (watching runID) (follow fuel api (bridge_step ag api name runID wn n)) (\<lambda>r s. r = None \<or> ?Q s)"
    by (rule follow_releases [OF triple_weaken [OF bridge_step_watching]]) (auto simp: after_poll_def assms(4))
  have "triple ledger_ok (State_Monad.bind (terminal_seen runID) (\<lambda>seen.
      if seen then State_Monad.return (Some ()) else follow fuel api (bridge_step ag api name runID wn n)))
      (\<lambda>r s. r = None \<or> ?Q s)"
  proof (rule triple_bind [OF triple_terminal], rule triple_if)
    fix seen :: bool
    assume "\<not> seen"
    then show "triple (\<lambda>s. ledger_ok s \<and> (seen \<longleftrightarrow> runID \<in> set (ln_terminal s)))
        (follow fuel api (bridge_step ag api name runID wn n)) (\<lambda>r s. r = None \<or> ?Q s)"
      by (intro triple_weaken [OF follow]) (auto simp: watching_def)
  qed (auto intro: triple_return)
  then have "?Q s'"
    using tripleD [of ledger_ok _ "\<lambda>r s. r = None \<or> ?Q s" s "Some ()" s'] assms(1-3) by (simp add: deliver_def)
  then show ?thesis by (auto simp: ledger_ok_def)
qed

text \<open>The states of a lane that is followed poll by poll while it holds.\<close>

inductive held :: "'w agent_api \<Rightarrow> ('w, bool) lane \<Rightarrow> nat \<Rightarrow> 'w lane_state \<Rightarrow> 'w lane_state \<Rightarrow> bool"
  for api poll where
  held_start: "held api poll 0 s s"
| held_poll: "run_state poll s = (False, s1) \<Longrightarrow> aa_tick api (ln_world s1) = (True, w) \<Longrightarrow>
    held api poll k (s1\<lparr>ln_world := w\<rparr>) t \<Longrightarrow> held api poll (Suc k) s t"

lemma held_follow: "held api poll k s t \<Longrightarrow> run_state (follow (k + fuel) api poll) s = run_state (follow fuel api poll) t"
proof (induction rule: held.induct)
  case (held_poll s s1 w k t)
  then show ?case by (cases s1) (simp add: lane_ask_def lane_call_def)
qed simp

lemma held_watching:
  assumes "held api poll k s t" and "triple (watching runID) poll (after_poll runID)" and "watching runID s"
  shows "watching runID t"
  using assms(1, 3)
proof (induction rule: held.induct)
  case (held_poll s s1 w k t)
  have "after_poll runID False s1" by (rule tripleD [OF assms(2) held_poll(1) held_poll.prems])
  then show ?case using held_poll.IH by (simp add: after_poll_def)
qed

text \<open>
  C23. The end that castle hears is the record's verdict: when the record reaches its end after any number of polls
  and castle accepts the report, the delivery comes back, and its last word is that report: a completed run
  exactly when the run succeeded with one of the two delivering verdicts.
\<close>

theorem delivery_reports_verdict:
  assumes "\<not> bridge_disabled api" and "aa_client api" and "watching runID s"
    and "held api (bridge_step ag api name runID wn n) k s t" and "k < fuel"
    and "aa_get api (la_namespace ag, name) (ln_world t) = (Inr run, w1)"
    and "st_phase (ru_status run) = PhaseSucceeded \<or> st_phase (ru_status run) = PhaseFailed"
    and "aa_submit api runID (correlation correlation_run_terminal n) (terminal_payload (ru_status run)) w1 = (Inr (), w2)"
  shows "(\<exists>s'. run_state (deliver fuel ag api name runID wn n) s = (Some (), s') \<and> ln_world s' = w2 \<and>
      ln_terminal s' = List.insert runID (ln_terminal t) \<and>
      ln_log s' = ln_log t @
        [Submitted runID (correlation correlation_run_terminal n) (terminal_payload (ru_status run)) (Inr ())]) \<and>
    (terminal_payload (ru_status run) = RunCompleted (st_finalState (ru_status run)) True \<longleftrightarrow>
      st_phase (ru_status run) = PhaseSucceeded \<and>
      st_finalState (ru_status run) \<in> {''handler_complete'', ''ready_for_development''})"
proof -
  let ?poll = "bridge_step ag api name runID wn n"
  obtain d where fuel: "fuel = k + Suc d" using assms(5) by (metis add_Suc_right less_imp_Suc_add)
  have "watching runID t" by (rule held_watching [OF assms(4) bridge_step_watching assms(3)])
  then have fresh: "runID \<notin> set (ln_terminal t)" "runID \<notin> set (ln_terminal s)"
    using assms(3) by (simp_all add: watching_def)
  have "run_state (follow (Suc d) api ?poll) t = (Some (), t\<lparr>ln_world := w2,
      ln_terminal := List.insert runID (ln_terminal t), ln_log := ln_log t @
        [Submitted runID (correlation correlation_run_terminal n) (terminal_payload (ru_status run)) (Inr ())]\<rparr>)"
    using assms(2, 6-8) fresh
    by (cases t) (simp add: bridge_step_def bridge_status_def lane_ask_def lane_call_def terminal_seen_def
        bridge_terminal_def submit_event_def mark_terminal_def)
  then have "run_state (deliver fuel ag api name runID wn n) s = (Some (), t\<lparr>ln_world := w2,
      ln_terminal := List.insert runID (ln_terminal t), ln_log := ln_log t @
        [Submitted runID (correlation correlation_run_terminal n) (terminal_payload (ru_status run)) (Inr ())]\<rparr>)"
    using held_follow [OF assms(4), of "Suc d"] assms(1) fresh
    by (simp add: fuel deliver_def terminal_seen_def del: follow.simps)
  moreover have "terminal_payload (ru_status run) = RunCompleted (st_finalState (ru_status run)) True \<longleftrightarrow>
      st_phase (ru_status run) = PhaseSucceeded \<and>
      st_finalState (ru_status run) \<in> {''handler_complete'', ''ready_for_development''}"
    using assms(7) by (auto simp: terminal_payload_def is_completing_final_state_def final_handler_complete_def
        final_ready_for_development_def)
  ultimately show ?thesis by simp
qed

section \<open>A lane on a store\<close>

text \<open>
  A store for concrete runs: the records, the statuses they will take with the coming polls, and how many reports
  castle still refuses. A listing and a lookup see the first record of a key; an update of an absent one fails, and so
  does, as a conflict, one of a record that has come to stand for another assignment.
\<close>

definition assignment_of :: "criteria_run \<Rightarrow> string" where
  "assignment_of run = smap_get (ru_annotations run) ann_assignment_run_id"

record lane_store =
  lt_runs :: "criteria_run list"
  lt_script :: "criteria_run_status list"
  lt_refuse :: nat

definition lane_stored :: "criteria_run list \<Rightarrow> nsname \<Rightarrow> criteria_run option" where
  "lane_stored runs key = find (\<lambda>r. run_key r = key) runs"

definition store_tick :: "lane_store \<Rightarrow> bool \<times> lane_store" where
  "store_tick w = (True, case lt_script w of [] \<Rightarrow> w
     | st # rest \<Rightarrow> w\<lparr>lt_runs := map (\<lambda>r. r\<lparr>ru_status := st\<rparr>) (lt_runs w), lt_script := rest\<rparr>)"

definition store_create :: "criteria_run \<Rightarrow> lane_store \<Rightarrow> (go_error + unit) \<times> lane_store" where
  "store_create r w = (case lane_stored (lt_runs w) (run_key r) of
     Some x \<Rightarrow> (Inl ApiAlreadyExists, w) | None \<Rightarrow> (Inr (), w\<lparr>lt_runs := lt_runs w @ [r]\<rparr>))"

definition store_update :: "criteria_run \<Rightarrow> lane_store \<Rightarrow> (go_error + unit) \<times> lane_store" where
  "store_update r w = (case lane_stored (lt_runs w) (run_key r) of
     None \<Rightarrow> (Inl ApiNotFound, w)
   | Some x \<Rightarrow> if assignment_of x \<noteq> assignment_of r then (Inl (ErrMsg ''conflict''), w)
       else (Inr (), w\<lparr>lt_runs := map (\<lambda>y. if run_key y = run_key r then r else y) (lt_runs w)\<rparr>))"

definition lane_store_api :: "lane_store agent_api" where
  "lane_store_api = \<lparr>aa_client = True, aa_events = True, aa_dispositions = True,
     aa_surroundings = (\<lambda>w. (sample_surroundings, w)),
     aa_disposition = (\<lambda>i w. (Inr \<lparr>di_leased = ''agent'', di_state = StateOpen\<rparr>, w)),
     aa_submit = (\<lambda>i c ev w. if lt_refuse w = 0 then (Inr (), w)
       else (Inl (ErrMsg ''castle down''), w\<lparr>lt_refuse := lt_refuse w - 1\<rparr>)),
     aa_list = (\<lambda>ns w. (Inr (filter (\<lambda>r. ru_namespace r = ns \<and> lane_stored (lt_runs w) (run_key r) = Some r) (lt_runs w)), w)),
     aa_get = (\<lambda>k w. (case lane_stored (lt_runs w) k of Some r \<Rightarrow> Inr r | None \<Rightarrow> Inl ApiNotFound, w)),
     aa_create = store_create, aa_update = store_update, aa_tick = store_tick\<rparr>"

definition sample_agent :: assignment_agent where
  "sample_agent = \<lparr>la_cfg = \<lparr>gc_addr = ''castle'', gc_token = ''t'', gc_criteriaID = ''agent'', gc_name = [],
       gc_labels = [], gc_project = [], gc_heartbeatEvery = 0\<rparr>,
     la_builder = Some sample_builder, la_namespace = ''jobs'',
     la_identity = \<lparr>ai_criteriaID = ''agent'', ai_token = ''t''\<rparr>\<rparr>"

definition lane_envelope :: dispatch_envelope where
  "lane_envelope = \<lparr>en_kind = dispatch_envelope_kind, en_ticket = ''KB-1'', en_repo = ''o/r'', en_class = ''dev'',
     en_slot = [], en_targetImages = [(''shell'', ''r/s:1'')]\<rparr>"

definition sample_assignment :: "string \<Rightarrow> assignment" where
  "sample_assignment i = \<lparr>as_runID = i, as_workflowName = ''dev'',
     as_workflowSource = render (JObj (envelope_fields lane_envelope)), as_lockfileSource = [], as_labels = []\<rparr>"

definition lane_decision :: decision where
  "lane_decision = \<lparr>de_ticket = ''KB-1'', de_project = [], de_repoURL = ''o/r'', de_class = ''dev'',
     de_workflowName = ''dev'', de_slot = [], de_missing = []\<rparr>"

definition lane_run_of :: "string \<Rightarrow> criteria_run" where
  "lane_run_of i = (case build_run (Some sample_builder) sample_surroundings lane_decision i of Inl reasons \<Rightarrow> zero_run
     | Inr run \<Rightarrow> (case apply_target_metadata run [(''shell'', ''r/s:1'')] of Inl e \<Rightarrow> zero_run | Inr pinned \<Rightarrow> pinned))"

lemma sample_parses: "parse_dispatch_envelope (render (JObj (envelope_fields lane_envelope))) = Inr lane_envelope"
proof -
  have "sound_envelope lane_envelope" "validate_envelope lane_envelope = None"
    by (simp_all add: sound_envelope_def sound_map_def lane_envelope_def valid_ascii byte_def validate_envelope_None)
  moreover have "sorted_entries (en_targetImages lane_envelope) = en_targetImages lane_envelope" by code_simp
  ultimately show ?thesis using parse_rendered_envelope [of lane_envelope] by simp
qed

lemma sample_translates:
  "agent_translate (la_cfg sample_agent) (sample_assignment i) =
     (lane_decision, lane_envelope)"
proof -
  have "decision_scope (la_cfg sample_agent) (sample_assignment i) =
      \<lparr>de_ticket = [], de_project = [], de_repoURL = [], de_class = [], de_workflowName = ''dev'', de_slot = [],
       de_missing = [''ticket'', ''repo-url'', ''class'']\<rparr>"
    by (simp add: decision_scope_def sample_assignment_def translate_def absent_def)
  moreover have "as_workflowSource (sample_assignment i) = render (JObj (envelope_fields lane_envelope))"
      "as_workflowSource (sample_assignment i) \<noteq> []"
    by (simp_all add: sample_assignment_def)
  moreover have "en_ticket lane_envelope = ''KB-1''" "en_repo lane_envelope = ''o/r''" "en_class lane_envelope = ''dev''"
      "en_slot lane_envelope = []"
    by (simp_all add: lane_envelope_def)
  ultimately show ?thesis
    by (simp add: agent_translate_def Let_def sample_parses decision_missing_def absent_def lane_decision_def
        del: render.simps)
qed

text \<open>After the build, the source of the assignment is not read again.\<close>

lemma admit_source:
  "admit_assignment fuel ag api (asg\<lparr>as_workflowSource := x\<rparr>) d run = admit_assignment fuel ag api asg d run"
proof -
  have "as_runID (asg\<lparr>as_workflowSource := x\<rparr>) = as_runID asg" by simp
  then show ?thesis unfolding admit_assignment_def attach_run_def annotated_def by (simp only:)
qed

definition bare_assignment :: "string \<Rightarrow> assignment" where
  "bare_assignment i = \<lparr>as_runID = i, as_workflowName = ''dev'', as_workflowSource = [], as_lockfileSource = [],
     as_labels = []\<rparr>"

lemma sample_process:
  "run_state (process fuel sample_agent lane_store_api (sample_assignment ''r1'')) s =
   run_state (admit_assignment fuel sample_agent lane_store_api (bare_assignment ''r1'') lane_decision (lane_run_of ''r1'')) s"
proof -
  let ?src = "render (JObj (envelope_fields lane_envelope))"
  have "case build_run (Some sample_builder) sample_surroundings lane_decision ''r1'' of Inl reasons \<Rightarrow> False
     | Inr run \<Rightarrow> (case apply_target_metadata run [(''shell'', ''r/s:1'')] of Inl e \<Rightarrow> False | Inr pinned \<Rightarrow> True)"
    by code_simp
  then obtain run where "build_run (Some sample_builder) sample_surroundings lane_decision ''r1'' = Inr run"
      "apply_target_metadata run [(''shell'', ''r/s:1'')] = Inr (lane_run_of ''r1'')"
    by (auto simp: lane_run_of_def split: sum.splits)
  moreover have "lane_ask (aa_surroundings lane_store_api) = State_Monad.return sample_surroundings"
    by (simp add: lane_ask_def lane_call_def lane_store_api_def State_Monad.return_def)
  moreover have "la_builder sample_agent = Some sample_builder" "en_targetImages lane_envelope = [(''shell'', ''r/s:1'')]"
      "de_missing lane_decision = []" "as_runID (sample_assignment ''r1'') = ''r1''"
    by (simp_all add: sample_agent_def lane_envelope_def lane_decision_def sample_assignment_def)
  ultimately have "process fuel sample_agent lane_store_api (sample_assignment ''r1'') =
      admit_assignment fuel sample_agent lane_store_api (sample_assignment ''r1'') lane_decision (lane_run_of ''r1'')"
    by (simp add: process_def sample_translates Let_def)
  moreover have "sample_assignment ''r1'' = (bare_assignment ''r1'')\<lparr>as_workflowSource := ?src\<rparr>"
    by (simp add: sample_assignment_def bare_assignment_def)
  ultimately show ?thesis by (simp only: admit_source)
qed

definition empty_lane :: "criteria_run_status list \<Rightarrow> lane_store lane_state" where
  "empty_lane script = \<lparr>ln_world = \<lparr>lt_runs = [], lt_script = script, lt_refuse = 0\<rparr>, ln_started = [],
     ln_terminal = [], ln_log = []\<rparr>"

definition sample_script :: "criteria_run_status list" where
  "sample_script = [zero_status\<lparr>st_phase := PhaseRunning\<rparr>,
     zero_status\<lparr>st_phase := PhaseSucceeded, st_finalState := final_handler_complete\<rparr>]"

definition sample_outcome :: "unit option \<times> lane_store lane_state" where
  "sample_outcome = run_state (admit_assignment 4 sample_agent lane_store_api (bare_assignment ''r1'') lane_decision
     (lane_run_of ''r1'')) (empty_lane sample_script)"

lemma sample_outcome_value:
  "case sample_outcome of (out, s) \<Rightarrow> out = Some () \<and> ln_started s = [''r1''] \<and> ln_terminal s = [''r1''] \<and>
     map (\<lambda>e. case e of Created r res \<Rightarrow> True | _ \<Rightarrow> False) (ln_log s) = [True, False, False]"
  by code_simp

lemma sample_outcome_facts:
  "fst sample_outcome = Some ()" "ln_started (snd sample_outcome) = [''r1'']"
  "ln_terminal (snd sample_outcome) = [''r1'']"
  "map (\<lambda>e. case e of Created r res \<Rightarrow> True | _ \<Rightarrow> False) (ln_log (snd sample_outcome)) = [True, False, False]"
  using sample_outcome_value by (simp_all add: case_prod_beta)

lemma sample_lane:
  "run_state (process_all 4 sample_agent lane_store_api [sample_assignment ''r1'']) (empty_lane sample_script) = sample_outcome"
proof -
  obtain s where s: "sample_outcome = (Some (), s)" using sample_outcome_facts(1) by (metis prod.collapse)
  then have "run_state (process 4 sample_agent lane_store_api (sample_assignment ''r1'')) (empty_lane sample_script) = (Some (), s)"
    by (simp add: sample_process sample_outcome_def)
  then show ?thesis by (simp add: s)
qed

theorem lifecycle_acknowledged_once_witness:
  "acks (start_acked ''r1'') (ln_log (snd sample_outcome)) = 1 \<and> acks (end_acked ''r1'') (ln_log (snd sample_outcome)) = 1"
  using lifecycle_acknowledged_once [of 4 sample_agent lane_store_api "[sample_assignment ''r1'']"
      "ln_world (empty_lane sample_script)" "fst sample_outcome" "snd sample_outcome" "''r1''"]
    sample_lane sample_outcome_facts(2, 3) by (simp add: empty_lane_def del: process_all.simps)

text \<open>A record that runs at the first poll and has ended at the second.\<close>

definition watched_lane :: "lane_store lane_state" where
  "watched_lane = \<lparr>ln_world = \<lparr>lt_runs = [zero_run\<lparr>ru_namespace := ''jobs'', ru_name := ''kb'',
       ru_status := zero_status\<lparr>st_phase := PhaseRunning\<rparr>\<rparr>], lt_script = drop 1 sample_script, lt_refuse = 0\<rparr>,
     ln_started = [], ln_terminal = [], ln_log = []\<rparr>"

lemma watched_facts: "ledger_ok watched_lane" "watching ''r1'' watched_lane" "\<not> bridge_disabled lane_store_api"
    "aa_client lane_store_api"
  by (simp_all add: watching_def ledger_ok_def watched_lane_def bridge_disabled_def lane_store_api_def)

theorem lane_released_after_acknowledgement_witness:
  "let s = snd (run_state (deliver 3 sample_agent lane_store_api ''kb'' ''r1'' ''dev'' 1) watched_lane)
   in acks (end_acked ''r1'') (ln_log s) = 1 \<or> record_lost ''r1'' s"
proof -
  have "fst (run_state (deliver 3 sample_agent lane_store_api ''kb'' ''r1'' ''dev'' 1) watched_lane) = Some ()"
    by code_simp
  then have "run_state (deliver 3 sample_agent lane_store_api ''kb'' ''r1'' ''dev'' 1) watched_lane =
      (Some (), snd (run_state (deliver 3 sample_agent lane_store_api ''kb'' ''r1'' ''dev'' 1) watched_lane))"
    by (metis prod.collapse)
  moreover have "fst (aa_tick lane_store_api w)" for w by (simp add: lane_store_api_def store_tick_def)
  ultimately show ?thesis
    unfolding Let_def using lane_released_after_acknowledgement watched_facts by blast
qed

theorem delivery_reports_verdict_witness:
  "\<exists>s'. run_state (deliver 3 sample_agent lane_store_api ''kb'' ''r1'' ''dev'' 1) watched_lane = (Some (), s') \<and>
     last (ln_log s') = Submitted ''r1'' (correlation correlation_run_terminal 1) (RunCompleted ''handler_complete'' True) (Inr ())"
proof -
  let ?poll = "bridge_step sample_agent lane_store_api ''kb'' ''r1'' ''dev'' 1"
  let ?s1 = "snd (run_state ?poll watched_lane)"
  let ?t = "?s1\<lparr>ln_world := snd (aa_tick lane_store_api (ln_world ?s1))\<rparr>"
  have "fst (run_state ?poll watched_lane) = False" by code_simp
  then have "run_state ?poll watched_lane = (False, ?s1)" by (metis prod.collapse)
  moreover have "aa_tick lane_store_api (ln_world ?s1) = (True, snd (aa_tick lane_store_api (ln_world ?s1)))"
    by (simp add: lane_store_api_def store_tick_def)
  ultimately have held: "held lane_store_api ?poll (Suc 0) watched_lane ?t"
    by (rule held_poll) (rule held_start)
  have "case aa_get lane_store_api (la_namespace sample_agent, ''kb'') (ln_world ?t) of
      (Inr run, w1) \<Rightarrow> st_phase (ru_status run) = PhaseSucceeded \<and> st_finalState (ru_status run) = ''handler_complete'' \<and>
        lt_refuse w1 = 0
    | _ \<Rightarrow> False" by code_simp
  then obtain run w1 where got: "aa_get lane_store_api (la_namespace sample_agent, ''kb'') (ln_world ?t) = (Inr run, w1)"
      "st_phase (ru_status run) = PhaseSucceeded" "st_finalState (ru_status run) = ''handler_complete''" "lt_refuse w1 = 0"
    by (auto split: prod.splits sum.splits)
  have "aa_submit lane_store_api ''r1'' (correlation correlation_run_terminal 1) (terminal_payload (ru_status run)) w1 = (Inr (), w1)"
    using got(4) by (simp add: lane_store_api_def)
  from delivery_reports_verdict [OF watched_facts(3, 4, 2) held _ got(1) _ this, of 3] got show ?thesis
    by (auto simp: last_append)
qed

end
