(* ===== verification/LaneRecords.thy ===== *)
theory LaneRecords
  imports LaneSafety
begin

text \<open>
  The run records the assignment lane makes: each is attributed to its envelope and owned by the agent when it is
  created, and an assignment has at most one, however often it is delivered. The second rests on an interface of
  the cluster (\<open>run_records\<close>): what listings, creations and updates mean for the records that carry an
  assignment's id, while every other actor may remove records and change their status at any time.
\<close>

section \<open>What a created run is\<close>

definition since :: "lane_effect list \<Rightarrow> (lane_effect \<Rightarrow> bool) \<Rightarrow> 'w lane_state \<Rightarrow> bool" where
  "since l p s \<longleftrightarrow> (\<exists>new. ln_log s = l @ new \<and> (\<forall>e \<in> set new. p e))"

lemma since_world [simp]: "since l p (s\<lparr>ln_world := w\<rparr>) = since l p s"
    "since l p (s\<lparr>ln_started := xs\<rparr>) = since l p s" "since l p (s\<lparr>ln_terminal := xs\<rparr>) = since l p s"
  by (simp_all add: since_def)

lemma since_call: "(\<And>r e. e \<in> set (eff r) \<Longrightarrow> p e) \<Longrightarrow> triple (since l p) (lane_call f eff) (\<lambda>r. since l p)"
  by (rule triple_call) (auto simp: since_def)

definition made :: "criteria_run \<Rightarrow> lane_effect \<Rightarrow> bool" where
  "made run e \<longleftrightarrow> (case e of Created r res \<Rightarrow> r = run | _ \<Rightarrow> True)"

lemma submit_since: "triple (since l (made run)) (submit_event api i c ev) (\<lambda>r. since l (made run))"
  unfolding submit_event_def by (rule since_call) (auto simp: made_def)

lemma mark_since: "triple (since l (made run)) (mark_started i) (\<lambda>r. since l (made run))"
    "triple (since l (made run)) (mark_terminal i) (\<lambda>r. since l (made run))"
  by (simp_all add: triple_def mark_started_def mark_terminal_def)

lemma seen_since: "triple (since l p) (started_seen i) (\<lambda>r. since l p)" "triple (since l p) (terminal_seen i) (\<lambda>r. since l p)"
  by (simp_all add: triple_def started_seen_def terminal_seen_def)

lemma since_bind:
  "triple (since l (made run)) m (\<lambda>r. since l (made run)) \<Longrightarrow>
   (\<And>a. triple (since l (made run)) (f a) (\<lambda>r. since l (made run))) \<Longrightarrow>
   triple (since l (made run)) (State_Monad.bind m f) (\<lambda>r. since l (made run))"
  by (rule triple_bind)

lemma since_ask: "triple (since l (made run)) (lane_ask f) (\<lambda>r. since l (made run))"
  by (rule ask_keeps) simp

lemmas since_rules = since_bind triple_if triple_sum triple_option triple_pair triple_return since_ask submit_since
  mark_since seen_since

lemma bridge_since: "triple (since l (made run)) (bridge_step ag api name i wn n) (\<lambda>r. since l (made run))"
proof -
  have ends: "triple (since l (made run)) (bridge_terminal api i n ev lost) (\<lambda>r. since l (made run))" for ev lost
    unfolding bridge_terminal_def by (intro since_rules)
  have starts: "triple (since l (made run)) (ensure_started api i wn n) (\<lambda>r. since l (made run))"
    unfolding ensure_started_def by (intro since_rules)
  show ?thesis
    unfolding bridge_step_def bridge_status_def by (intro since_rules ends starts) simp_all
qed

lemma deliver_since: "triple (since l (made run)) (deliver fuel ag api name i wn n) (\<lambda>r. since l (made run))"
proof -
  have "triple (since l (made run)) (follow fuel api (bridge_step ag api name i wn n)) (\<lambda>r. since l (made run))"
    by (rule follow_keeps [OF triple_weaken [OF bridge_since]]) auto
  then show ?thesis
    unfolding deliver_def by (intro since_rules)
qed

lemma attach_since:
  "triple (since l (made (annotated ag asg run))) (attach_run ag api run asg) (\<lambda>r. since l (made (annotated ag asg run)))"
proof -
  have marks: "triple (since l (made x)) (mark_attempts api r) (\<lambda>m. since l (made x))" for r x
    unfolding mark_attempts_def Let_def by (intro since_rules since_call) (auto simp: made_def)
  have finds: "triple (since l (made x)) (find_recorded_run ag api i) (\<lambda>m. since l (made x))" for i x
    unfolding find_recorded_run_def by (intro since_rules) simp_all
  have creates: "triple (since l (made x)) (lane_call (aa_create api x) (\<lambda>res. [Created x res])) (\<lambda>r. since l (made x))" for x
    by (rule since_call) (simp add: made_def)
  show ?thesis
    unfolding attach_run_def by (intro since_rules marks finds creates)
qed

text \<open>The decision behind a build, and the run that is built.\<close>

lemma translated:
  assumes "agent_translate c asg = (d, env)" and "de_missing d = []"
  shows "parse_dispatch_envelope (as_workflowSource asg) = Inr env \<and> de_ticket d = en_ticket env \<and>
    de_repoURL d = en_repo env \<and> de_workflowName d = as_workflowName asg"
proof -
  have name: "de_workflowName (foldl (read_label cfg) d0 labels) = de_workflowName d0" for cfg d0 labels
    by (induction labels arbitrary: d0) (simp_all add: read_label_def Let_def split: prod.split)
  have "de_workflowName (decision_scope c asg) = as_workflowName asg"
    by (simp add: decision_scope_def translate_def Let_def name)
  then show ?thesis
    using assms unfolding agent_translate_def Let_def
    by (auto split: if_splits sum.splits)
qed

lemma stamped_as:
  "si_ticketID x = t \<Longrightarrow> si_repoURL x = u \<Longrightarrow> si_selection x = sel \<Longrightarrow>
   \<exists>si. stamp_run x = stamp_run si \<and> si_ticketID si = t \<and> si_repoURL si = u \<and> si_selection si = sel"
  by blast

lemma built:
  assumes "build_run builder su d n = Inr run"
  shows "sp_ticketID (ru_spec run) = de_ticket d \<and> sp_repoURL (ru_spec run) = de_repoURL d \<and> ru_annotations run = [] \<and>
    (\<exists>w. sp_workflow (ru_spec run) = Some w \<and> wf_name w = de_workflowName d)"
proof -
  obtain b rp sel where sel: "assignment_selection d rp = Inr sel" and run: "run = assignment_stamp b su d sel rp n"
    using assms by (auto simp: build_run_def Let_def split: option.splits sum.splits if_splits)
  have "sn_name sel = de_workflowName d"
    using sel by (auto simp: assignment_selection_def Let_def split: option.splits if_splits)
  moreover have "\<exists>si. run = stamp_run si \<and> si_ticketID si = de_ticket d \<and> si_repoURL si = de_repoURL d \<and> si_selection si = sel"
    unfolding run assignment_stamp_def Let_def by (auto intro!: stamped_as split: option.split)
  moreover have "sp_ticketID (ru_spec (stamp_run si)) = si_ticketID si \<and> sp_repoURL (ru_spec (stamp_run si)) = si_repoURL si \<and>
      ru_annotations (stamp_run si) = [] \<and>
      (\<exists>w. sp_workflow (ru_spec (stamp_run si)) = Some w \<and> wf_name w = sn_name (si_selection si))" for si
    by (simp add: stamp_run_def stamp_workflow_source_def binding_spec_def inline_spec_def base_spec_def Let_def
        stamp_repo_config_def stamp_workflow_spec_def stamp_binding_ref_workflow_spec_def zero_run_def zero_spec_def)
  ultimately show ?thesis by metis
qed

lemma foldl_put:
  "map_of (foldl (\<lambda>m (k, v). assoc_put k v m) m ts) = map_of m ++ map_of (rev ts)"
  by (induction ts arbitrary: m) (auto simp: map_add_assoc [symmetric] map_add_upd_left split: prod.split intro!: ext)

lemma pinned_run:
  assumes "apply_target_metadata run ts = Inr pinned" and "sp_workflow (ru_spec run) = Some w"
  shows "sp_ticketID (ru_spec pinned) = sp_ticketID (ru_spec run) \<and> sp_repoURL (ru_spec pinned) = sp_repoURL (ru_spec run) \<and>
    ru_namespace pinned = ru_namespace run \<and> ru_annotations pinned = ru_annotations run \<and>
    (\<exists>w'. sp_workflow (ru_spec pinned) = Some w' \<and> wf_name w' = wf_name w \<and>
      map_of (wf_adapterImages w') = map_of (wf_adapterImages w) ++ map_of (rev ts)) \<and>
    (\<forall>(kind, ref) \<in> set ts. label_re kind \<and> ref \<noteq> [] \<and> \<not> whitespace_re ref)"
proof -
  have "validate_adapter_images ts = None \<Longrightarrow> (\<forall>(kind, ref) \<in> set ts. label_re kind \<and> ref \<noteq> [] \<and> \<not> whitespace_re ref)"
    unfolding validate_adapter_images_def by (auto simp: each_from_None_iff first_error_None simp del: first_error.simps)
  then show ?thesis
    using assms by (auto simp: apply_target_metadata_def foldl_put split: if_splits option.splits)
qed

lemma annotated_parts:
  "ru_spec (annotated ag asg run) = ru_spec run" "run_key (annotated ag asg run) = run_key run"
  "carries (as_runID asg) (annotated ag asg run)"
  by (simp_all add: annotated_def run_key_def carries_def ann_assignment_run_id_def ann_assignment_agent_def
      ann_assignment_attempts_def)

lemma since_drop: "since l p s \<Longrightarrow> e \<in> set (drop (length l) (ln_log s)) \<Longrightarrow> p e"
  by (auto simp: since_def)

lemma since_refl: "since (ln_log s) p s"
  by (simp add: since_def)

lemma admit_owned:
  assumes "run_state (admit_assignment fuel ag api asg d run) s = (out, s')"
    and "Created r res \<in> set (drop (length (ln_log s)) (ln_log s'))"
  shows "r = annotated ag asg run \<and> (aa_dispositions api \<longrightarrow>
    (case fst (aa_disposition api (as_runID asg) (ln_world s)) of Inl e \<Rightarrow> True
     | Inr di \<Rightarrow> (di_leased di = [] \<or> di_leased di = ai_criteriaID (la_identity ag)) \<and> di_state di = StateOpen))"
proof -
  obtain owned s1 where owned: "run_state (owned_by_us ag api (as_runID asg)) s = (owned, s1)" by fastforce
  have log1: "ln_log s1 = ln_log s" and verdict: "owned \<longleftrightarrow> (aa_dispositions api \<longrightarrow>
      (case fst (aa_disposition api (as_runID asg) (ln_world s)) of Inl e \<Rightarrow> True
       | Inr di \<Rightarrow> (di_leased di = [] \<or> di_leased di = ai_criteriaID (la_identity ag)) \<and> di_state di = StateOpen))"
    using owned by (auto simp: owned_by_us_def lane_ask_def lane_call_def split: if_splits prod.splits sum.splits
        intro: assignment_state.exhaust)
  have "owned"
    using assms owned log1 by (cases owned) (auto simp: admit_assignment_def)
  then have rest: "run_state (State_Monad.bind (attach_run ag api run asg) (\<lambda>attached. case attached of
        None \<Rightarrow> State_Monad.return (Some ())
      | Some (record, attempts) \<Rightarrow> deliver fuel ag api (ru_name record) (as_runID asg) (de_workflowName d) attempts)) s1 = (out, s')"
    using assms(1) owned by (simp add: admit_assignment_def)
  have "triple (since (ln_log s) (made (annotated ag asg run))) (State_Monad.bind (attach_run ag api run asg) (\<lambda>attached. case attached of
        None \<Rightarrow> State_Monad.return (Some ())
      | Some (record, attempts) \<Rightarrow> deliver fuel ag api (ru_name record) (as_runID asg) (de_workflowName d) attempts))
      (\<lambda>r. since (ln_log s) (made (annotated ag asg run)))"
    by (intro since_rules attach_since deliver_since)
  from tripleD [OF this rest] have "since (ln_log s) (made (annotated ag asg run)) s'"
    using log1 by (simp add: since_def)
  from since_drop [OF this assms(2)] show ?thesis using \<open>owned\<close> verdict by (simp add: made_def)
qed

text \<open>
  C20. The lane creates a run only for an assignment it can attribute and still owns: the source is a dispatch
  envelope, the run has its ticket, its repository and the assignment's workflow, its adapter images carry every
  target pin of the envelope (each a valid kind and reference), the run is annotated with the assignment's id, and
  castle's disposition, when it could be read, names no other agent and no ended assignment.
\<close>

theorem lane_creates_attributed_runs:
  assumes "run_state (process fuel ag api asg) s = (out, s')"
    and "Created r res \<in> set (drop (length (ln_log s)) (ln_log s'))"
  shows "as_runID asg \<noteq> [] \<and> carries (as_runID asg) r \<and>
    (\<exists>env w. parse_dispatch_envelope (as_workflowSource asg) = Inr env \<and>
       sp_ticketID (ru_spec r) = en_ticket env \<and> sp_repoURL (ru_spec r) = en_repo env \<and>
       sp_workflow (ru_spec r) = Some w \<and> wf_name w = as_workflowName asg \<and>
       (\<forall>(kind, ref) \<in> set (en_targetImages env). label_re kind \<and> ref \<noteq> [] \<and> \<not> whitespace_re ref \<and>
          smap_get (wf_adapterImages w) kind = smap_get (rev (en_targetImages env)) kind)) \<and>
    (aa_dispositions api \<longrightarrow>
      (case fst (aa_disposition api (as_runID asg) (snd (aa_surroundings api (ln_world s)))) of
         Inl e \<Rightarrow> True
       | Inr di \<Rightarrow> (di_leased di = [] \<or> di_leased di = ai_criteriaID (la_identity ag)) \<and> di_state di = StateOpen))"
proof -
  obtain su w1 where su: "aa_surroundings api (ln_world s) = (su, w1)" by fastforce
  obtain d env where d: "agent_translate (la_cfg ag) asg = (d, env)" by fastforce
  let ?s1 = "s\<lparr>ln_world := w1\<rparr>" and ?run = "build_run (la_builder ag) su d (as_runID asg)"
  have closed: "Created r res \<notin> set (drop (length (ln_log s)) (ln_log t))"
    if "run_state (fail_assignment_closed api asg reasons) ?s1 = (u, t)" for reasons u t
    using that by (auto simp: fail_assignment_closed_def submit_event_def lane_call_def split: if_splits prod.splits)
  have named: "as_runID asg \<noteq> []"
    using assms by (auto simp: process_def)
  obtain run pinned where run: "?run = Inr run" "de_missing d = []"
      and pinned: "apply_target_metadata run (en_targetImages env) = Inr pinned"
      and admit: "run_state (admit_assignment fuel ag api asg d pinned) ?s1 = (out, s')"
    using assms closed named
    by (auto simp: process_def Let_def lane_ask_def lane_call_def su d split: sum.splits if_splits prod.splits)
  obtain w where w: "sp_workflow (ru_spec run) = Some w" "wf_name w = de_workflowName d"
    and spec: "sp_ticketID (ru_spec run) = de_ticket d" "sp_repoURL (ru_spec run) = de_repoURL d"
    using built [OF run(1)] by blast
  have r: "r = annotated ag asg pinned" and owned: "aa_dispositions api \<longrightarrow>
      (case fst (aa_disposition api (as_runID asg) w1) of Inl e \<Rightarrow> True
       | Inr di \<Rightarrow> (di_leased di = [] \<or> di_leased di = ai_criteriaID (la_identity ag)) \<and> di_state di = StateOpen)"
    using admit_owned [OF admit, of r res] assms(2) by simp_all
  obtain w' where w': "sp_workflow (ru_spec pinned) = Some w'" "wf_name w' = wf_name w"
      "map_of (wf_adapterImages w') = map_of (wf_adapterImages w) ++ map_of (rev (en_targetImages env))"
    and valid: "\<forall>(kind, ref) \<in> set (en_targetImages env). label_re kind \<and> ref \<noteq> [] \<and> \<not> whitespace_re ref"
    using pinned_run [OF pinned w(1)] by blast
  have "smap_get (wf_adapterImages w') kind = smap_get (rev (en_targetImages env)) kind"
    if "(kind, ref) \<in> set (en_targetImages env)" for kind ref
  proof -
    have "map_of (rev (en_targetImages env)) kind \<noteq> None"
      using that by (simp add: map_of_eq_None_iff) (metis fst_conv image_eqI)
    then show ?thesis by (auto simp: smap_get_def w'(3) map_add_def split: option.splits)
  qed
  then show ?thesis
    using named owned valid w w' spec translated [OF d run(2)] pinned_run [OF pinned w(1)]
    by (auto simp: r annotated_parts su)
qed

section \<open>One record per assignment\<close>


definition one_each :: "string \<Rightarrow> (nsname \<rightharpoonup> string) \<Rightarrow> bool" where
  "one_each ns m \<longleftrightarrow> (\<forall>k i. m k = Some i \<longrightarrow> fst k = ns \<and> (\<forall>k'. m k' = Some i \<longrightarrow> k' = k))"

lemma one_each_le: "m' \<subseteq>\<^sub>m m \<Longrightarrow> one_each ns m \<Longrightarrow> one_each ns m'"
  unfolding one_each_def map_le_def by (metis domI)

text \<open>
  The interface to the cluster: \<open>view\<close> maps the key of each record that carries an assignment to its id. Other
  actors may remove entries at any time; an update writes only a record that is still there.
\<close>

locale run_records =
  fixes api :: "'w agent_api" and ns :: string and view :: "'w \<Rightarrow> nsname \<rightharpoonup> string"
  assumes surroundings: "aa_surroundings api w = (su, w') \<Longrightarrow> view w' \<subseteq>\<^sub>m view w"
    and disposition: "aa_disposition api i w = (di, w') \<Longrightarrow> view w' \<subseteq>\<^sub>m view w"
    and submit: "aa_submit api i c ev w = (sent, w') \<Longrightarrow> view w' \<subseteq>\<^sub>m view w"
    and get: "aa_get api k w = (got, w') \<Longrightarrow> view w' \<subseteq>\<^sub>m view w"
    and tick: "aa_tick api w = (b, w') \<Longrightarrow> view w' \<subseteq>\<^sub>m view w"
    and listing: "aa_list api ns w = (res, w') \<Longrightarrow> view w' \<subseteq>\<^sub>m view w \<and>
      (\<exists>rs. res = Inr rs \<and> (\<forall>k i. fst k = ns \<longrightarrow> i \<noteq> [] \<longrightarrow>
         (view w k = Some i \<longleftrightarrow> (\<exists>r \<in> set rs. run_key r = k \<and> assignment_of r = i))))"
    and create: "aa_create api r w = (made_it, w') \<Longrightarrow> view w' \<subseteq>\<^sub>m view w \<or>
      run_key r \<notin> dom (view w) \<and> view w' \<subseteq>\<^sub>m (view w)(run_key r \<mapsto> assignment_of r)"
    and update: "aa_update api r w = (written, w') \<Longrightarrow> view w' \<subseteq>\<^sub>m view w \<or>
      run_key r \<in> dom (view w) \<and> view w' \<subseteq>\<^sub>m (view w)(run_key r \<mapsto> assignment_of r)"
    and named: "view w k = Some i \<Longrightarrow> i \<noteq> []"
    and within: "aa_list api ns w = (Inr rs, w') \<Longrightarrow> r \<in> set rs \<Longrightarrow> ru_namespace r = ns"
begin

definition single :: "'w lane_state \<Rightarrow> bool" where "single s \<longleftrightarrow> one_each ns (view (ln_world s))"

lemma single_call:
  assumes "\<And>w r w'. f w = (r, w') \<Longrightarrow> view w' \<subseteq>\<^sub>m view w"
  shows "triple single (lane_call f eff) (\<lambda>r. single)"
  by (rule triple_call) (auto simp: single_def intro: one_each_le assms)

lemma single_ask: "(\<And>w r w'. f w = (r, w') \<Longrightarrow> view w' \<subseteq>\<^sub>m view w) \<Longrightarrow> triple single (lane_ask f) (\<lambda>r. single)"
  unfolding lane_ask_def by (rule single_call)

lemma single_marks:
  "triple single (mark_started i) (\<lambda>r. single)" "triple single (mark_terminal i) (\<lambda>r. single)"
  "triple single (started_seen i) (\<lambda>r. single)" "triple single (terminal_seen i) (\<lambda>r. single)"
  by (simp_all add: triple_def mark_started_def mark_terminal_def started_seen_def terminal_seen_def single_def)

lemma single_submit: "triple single (submit_event api i c ev) (\<lambda>r. single)"
  unfolding submit_event_def by (rule single_call) (rule submit)

lemma single_bind:
  "triple single m (\<lambda>r. single) \<Longrightarrow> (\<And>a. triple single (f a) (\<lambda>r. single)) \<Longrightarrow>
   triple single (State_Monad.bind m f) (\<lambda>r. single)"
  by (rule triple_bind)

lemmas single_rules = single_bind triple_if triple_sum triple_option triple_pair triple_return single_marks single_submit

lemma single_deliver: "triple single (deliver fuel ag api name i wn n) (\<lambda>r. single)"
proof -
  have ends: "triple single (bridge_terminal api i n ev lost) (\<lambda>r. single)" for ev lost
    unfolding bridge_terminal_def by (intro single_rules)
  have starts: "triple single (ensure_started api i wn n) (\<lambda>r. single)"
    unfolding ensure_started_def by (intro single_rules)
  have poll: "triple single (bridge_step ag api name i wn n) (\<lambda>r. single)"
    unfolding bridge_step_def bridge_status_def by (intro single_rules ends starts single_ask) (auto dest: get)
  have "triple single (follow fuel api (bridge_step ag api name i wn n)) (\<lambda>r. single)"
  proof (rule follow_keeps [OF triple_weaken [OF poll]])
    show "single (s\<lparr>ln_world := snd (aa_tick api (ln_world s))\<rparr>)" if "single s" for s
      using that tick [of "ln_world s"] unfolding single_def by (cases "aa_tick api (ln_world s)") (auto intro: one_each_le)
  qed auto
  then show ?thesis unfolding deliver_def by (intro single_rules)
qed

text \<open>A found record is rewritten under its own key and id; a new one is made only when none was found.\<close>

definition found :: "string \<Rightarrow> criteria_run option \<Rightarrow> 'w lane_state \<Rightarrow> bool" where
  "found i r s \<longleftrightarrow> single s \<and>
     (case r of None \<Rightarrow> (\<forall>k. view (ln_world s) k \<noteq> Some i)
      | Some x \<Rightarrow> run_key x \<in> dom (view (ln_world s)) \<longrightarrow> view (ln_world s) (run_key x) = Some (assignment_of x))"

lemma record_found:
  assumes "la_namespace ag = ns" and "aa_client api" and "i \<noteq> []"
  shows "triple single (find_recorded_run ag api i) (found i)"
  unfolding triple_def
proof (intro allI impI)
  fix s r s' assume run: "run_state (find_recorded_run ag api i) s = (r, s')" and s: "single s"
  obtain res w' where lst: "aa_list api ns (ln_world s) = (res, w')" by fastforce
  from listing [OF lst] obtain rs where res: "res = Inr rs" and le: "view w' \<subseteq>\<^sub>m view (ln_world s)"
    and ids: "\<And>k j. fst k = ns \<Longrightarrow> j \<noteq> [] \<Longrightarrow>
      view (ln_world s) k = Some j \<longleftrightarrow> (\<exists>r \<in> set rs. run_key r = k \<and> assignment_of r = j)" by blast
  have r: "r = find (carries i) rs" and s': "s' = s\<lparr>ln_world := w'\<rparr>"
    using run assms by (simp_all add: find_recorded_run_def lane_ask_def lane_call_def lst res)
  have kept: "single s'" using s le by (simp add: s' single_def one_each_le)
  show "found i r s'"
  proof (cases r)
    case None
    have "view (ln_world s') k \<noteq> Some i" for k
    proof
      assume "view (ln_world s') k = Some i"
      then have "view w' k = Some i" by (simp add: s')
      then have here: "view (ln_world s) k = Some i" using le by (metis domI map_le_def)
      then have "fst k = ns" using s unfolding single_def one_each_def by blast
      with here ids [of k i] assms(3) obtain x where "x \<in> set rs" "assignment_of x = i" by blast
      then show False using None by (simp add: r find_None_iff carries_def assignment_of_def)
    qed
    then show ?thesis using None kept by (simp add: found_def)
  next
    case (Some x)
    then have x: "x \<in> set rs" "assignment_of x = i"
      using r by (auto simp: find_Some_iff carries_def assignment_of_def)
    moreover have "ru_namespace x = ns" using within [OF lst [unfolded res]] x(1) by blast
    ultimately have "view (ln_world s) (run_key x) = Some i"
      using ids [of "run_key x" i] assms(3) by (auto simp: run_key_def)
    then have "run_key x \<in> dom (view (ln_world s')) \<longrightarrow> view (ln_world s') (run_key x) = Some (assignment_of x)"
      using le x by (auto simp: s' map_le_def)
    then show ?thesis using kept Some by (simp add: found_def)
  qed
qed

lemma mark_single: "triple (found i (Some x)) (mark_attempts api x) (\<lambda>m. single)"
proof -
  have same: "run_key (x\<lparr>ru_annotations := assoc_put ann_assignment_attempts v (ru_annotations x)\<rparr>) = run_key x"
      "assignment_of (x\<lparr>ru_annotations := assoc_put ann_assignment_attempts v (ru_annotations x)\<rparr>) = assignment_of x" for v
    by (simp_all add: run_key_def assignment_of_def ann_assignment_attempts_def ann_assignment_run_id_def)
  have "one_each ns (view w')" if "aa_update api y w = (res, w')" "run_key y = run_key x" "assignment_of y = assignment_of x"
    "one_each ns (view w)" "run_key x \<in> dom (view w) \<longrightarrow> view w (run_key x) = Some (assignment_of x)" for y w w' res
  proof -
    have "view w' \<subseteq>\<^sub>m view w"
      using update [OF that(1)] that(2, 3, 5) by (auto simp: fun_upd_idem)
    then show ?thesis using that(4) by (rule one_each_le)
  qed
  then show ?thesis
    unfolding mark_attempts_def Let_def
    by (intro triple_if triple_bind [where R = "\<lambda>r. single"] triple_call triple_return)
      (auto simp: found_def single_def same)
qed

lemma create_single:
  assumes "ru_namespace run = ns" and "assignment_of run = i"
  shows "triple (found i None) (lane_call (aa_create api run) eff) (\<lambda>r. single)"
proof (rule triple_call)
  fix s res w' assume s: "found i None s" and made: "aa_create api run (ln_world s) = (res, w')"
  have "one_each ns ((view (ln_world s))(run_key run \<mapsto> i))"
    using s assms(1) by (auto simp: found_def single_def one_each_def run_key_def)
  then have "one_each ns (view w')"
    using create [OF made] s assms(2) by (auto simp: found_def single_def intro: one_each_le)
  then show "single (s\<lparr>ln_world := w', ln_log := ln_log s @ eff res\<rparr>)" by (simp add: single_def)
qed

lemma attach_single:
  assumes "la_namespace ag = ns" and "ru_namespace run = ns" and "as_runID asg \<noteq> []"
  shows "triple single (attach_run ag api run asg) (\<lambda>r. single)"
proof (cases "aa_client api")
  case True
  let ?run = "annotated ag asg run"
  have own: "ru_namespace ?run = ns" "assignment_of ?run = as_runID asg"
    using assms(2) annotated_parts(3) [of asg ag run] by (simp_all add: annotated_def carries_def assignment_of_def)
  note finds = record_found [OF assms(1) True assms(3)]
  have marks: "triple (found i (Some x)) (State_Monad.bind (mark_attempts api x) (\<lambda>m. State_Monad.return (Some m)))
      (\<lambda>r. single)" for i x
    by (rule triple_bind [OF mark_single]) (rule triple_return)
  have again: "triple single (State_Monad.bind (find_recorded_run ag api (as_runID asg)) (\<lambda>winner. case winner of
      Some r \<Rightarrow> State_Monad.bind (mark_attempts api r) (\<lambda>m. State_Monad.return (Some m))
    | None \<Rightarrow> State_Monad.return None)) (\<lambda>r. single)"
  proof (rule triple_bind [OF finds])
    fix winner
    show "triple (found (as_runID asg) winner) (case winner of
        Some r \<Rightarrow> State_Monad.bind (mark_attempts api r) (\<lambda>m. State_Monad.return (Some m))
      | None \<Rightarrow> State_Monad.return None) (\<lambda>r. single)"
      using marks by (cases winner) (auto intro: triple_return simp: found_def)
  qed
  have create: "triple (found (as_runID asg) None) (State_Monad.bind
      (lane_call (aa_create api ?run) (\<lambda>res. [Created ?run res])) (\<lambda>res. case res of
        Inr u \<Rightarrow> State_Monad.return (Some (?run, 1))
      | Inl e \<Rightarrow> if err_is e ApiAlreadyExists then State_Monad.bind (find_recorded_run ag api (as_runID asg)) (\<lambda>winner. case winner of
              Some r \<Rightarrow> State_Monad.bind (mark_attempts api r) (\<lambda>m. State_Monad.return (Some m))
            | None \<Rightarrow> State_Monad.return None)
          else State_Monad.return None)) (\<lambda>r. single)"
    by (rule triple_bind [OF create_single [OF own]]) (intro triple_sum triple_if again triple_return)
  show ?thesis
    unfolding attach_run_def
  proof (rule triple_if, rule triple_return, simp, rule triple_bind [OF finds])
    fix existing
    show "triple (found (as_runID asg) existing) (case existing of
        Some r \<Rightarrow> State_Monad.bind (mark_attempts api r) (\<lambda>m. State_Monad.return (Some m))
      | None \<Rightarrow> State_Monad.bind
      (lane_call (aa_create api ?run) (\<lambda>res. [Created ?run res])) (\<lambda>res. case res of
        Inr u \<Rightarrow> State_Monad.return (Some (?run, 1))
      | Inl e \<Rightarrow> if err_is e ApiAlreadyExists then State_Monad.bind (find_recorded_run ag api (as_runID asg)) (\<lambda>winner. case winner of
              Some r \<Rightarrow> State_Monad.bind (mark_attempts api r) (\<lambda>m. State_Monad.return (Some m))
            | None \<Rightarrow> State_Monad.return None)
          else State_Monad.return None)) (\<lambda>r. single)"
      using marks create by (cases existing) simp_all
  qed
qed (simp add: attach_run_def triple_return)

lemma process_single:
  assumes "la_namespace ag = ns"
    and "\<And>su d n run. build_run (la_builder ag) su d n = Inr run \<Longrightarrow> ru_namespace run = ns"
  shows "triple single (process fuel ag api asg) (\<lambda>r. single)"
proof -
  have closed: "triple single (State_Monad.bind (fail_assignment_closed api asg reasons) (\<lambda>u. State_Monad.return (Some ())))
      (\<lambda>r. single)" for reasons
    unfolding fail_assignment_closed_def by (intro single_rules)
  have owned: "triple single (owned_by_us ag api i) (\<lambda>r. single)" for i
    unfolding owned_by_us_def by (intro single_rules single_ask) (auto dest: disposition)
  have admit: "triple single (admit_assignment fuel ag api asg d run) (\<lambda>r. single)"
    if "ru_namespace run = ns" "as_runID asg \<noteq> []" for d run
    unfolding admit_assignment_def
    by (intro single_rules owned attach_single [OF assms(1) that] single_deliver)
  have land: "ru_namespace pinned = ns" if "build_run (la_builder ag) su d n = Inr run"
      "apply_target_metadata run ts = Inr pinned" for su d n run ts pinned
    using assms(2) [OF that(1)] that(2) by (auto simp: apply_target_metadata_def split: if_splits option.splits)
  show ?thesis
    unfolding process_def Let_def
    by (intro triple_if single_bind triple_pair triple_sum closed admit triple_return single_ask)
      (auto intro: surroundings land)
qed

lemma records_single:
  assumes "la_namespace ag = ns"
    and "\<And>su d n run. build_run (la_builder ag) su d n = Inr run \<Longrightarrow> ru_namespace run = ns"
    and "run_state (process_all fuel ag api asgs) s = (out, s')" and "one_each ns (view (ln_world s))"
  shows "one_each ns (view (ln_world s'))"
proof -
  have "single s'"
    by (rule tripleD [OF process_all_keeps [OF process_single [OF assms(1, 2)]] assms(3)]) (use assms(4) in \<open>auto simp: single_def\<close>)
  then show ?thesis by (simp add: single_def)
qed

end

text \<open>The store provides the interface.\<close>

definition store_view :: "lane_store \<Rightarrow> nsname \<rightharpoonup> string" where
  "store_view w k = (case lane_stored (lt_runs w) k of None \<Rightarrow> None
     | Some r \<Rightarrow> if assignment_of r = [] then None else Some (assignment_of r))"

lemma lane_stored_key: "lane_stored runs k = Some r \<Longrightarrow> run_key r = k \<and> r \<in> set runs"
  by (auto simp: lane_stored_def find_Some_iff)

lemma lane_stored_map: "(\<And>r. run_key (f r) = run_key r) \<Longrightarrow> lane_stored (map f runs) k = map_option f (lane_stored runs k)"
  by (induction runs) (simp_all add: lane_stored_def)

lemma lane_stored_append: "lane_stored (runs @ [r]) k =
    (case lane_stored runs k of Some x \<Rightarrow> Some x | None \<Rightarrow> if run_key r = k then Some r else None)"
  by (induction runs) (simp_all add: lane_stored_def)

lemma store_tick_view: "store_view (snd (store_tick w)) = store_view w"
proof -
  have "run_key (r\<lparr>ru_status := st\<rparr>) = run_key r" "assignment_of (r\<lparr>ru_status := st\<rparr>) = assignment_of r" for r st
    by (simp_all add: run_key_def assignment_of_def)
  then show ?thesis
    by (auto simp: store_tick_def store_view_def lane_stored_map fun_eq_iff split: list.split option.split)
qed

lemma store_create_view:
  "store_create r w = (res, w') \<Longrightarrow> store_view w' \<subseteq>\<^sub>m store_view w \<or>
     run_key r \<notin> dom (store_view w) \<and> store_view w' \<subseteq>\<^sub>m (store_view w)(run_key r \<mapsto> assignment_of r)"
  by (auto simp: store_create_def store_view_def lane_stored_append map_le_def split: option.splits if_splits)

lemma store_update_view: "store_update r w = (res, w') \<Longrightarrow> store_view w' \<subseteq>\<^sub>m store_view w"
proof (cases "lane_stored (lt_runs w) (run_key r)")
  case (Some x)
  moreover assume "store_update r w = (res, w')"
  ultimately show ?thesis
    using lane_stored_map [of "\<lambda>y. if run_key y = run_key r then r else y" "lt_runs w"] lane_stored_key
    by (fastforce simp: store_update_def store_view_def map_le_def split: option.splits if_splits)
qed (simp add: store_update_def)

lemma store_listing:
  assumes "aa_list lane_store_api ns w = (res, w')"
  shows "w' = w \<and> (\<exists>rs. res = Inr rs \<and> (\<forall>r \<in> set rs. ru_namespace r = ns) \<and> (\<forall>k i. fst k = ns \<longrightarrow> i \<noteq> [] \<longrightarrow>
    (store_view w k = Some i \<longleftrightarrow> (\<exists>r \<in> set rs. run_key r = k \<and> assignment_of r = i))))"
proof -
  let ?rs = "filter (\<lambda>r. ru_namespace r = ns \<and> lane_stored (lt_runs w) (run_key r) = Some r) (lt_runs w)"
  have "r \<in> set ?rs \<and> run_key r = k \<longleftrightarrow> lane_stored (lt_runs w) k = Some r" if "fst k = ns" for r k
  proof
    assume r: "lane_stored (lt_runs w) k = Some r"
    from lane_stored_key [OF r] have "run_key r = k" "r \<in> set (lt_runs w)" by auto
    moreover from this that have "ru_namespace r = ns" by (metis fst_conv run_key_def)
    ultimately show "r \<in> set ?rs \<and> run_key r = k" using r by simp
  qed auto
  moreover have "store_view w k = Some i \<longleftrightarrow> (\<exists>r. lane_stored (lt_runs w) k = Some r \<and> assignment_of r = i)" if "i \<noteq> []" for k i
    using that by (auto simp: store_view_def split: option.splits if_splits)
  ultimately have "store_view w k = Some i \<longleftrightarrow> (\<exists>r \<in> set ?rs. run_key r = k \<and> assignment_of r = i)"
    if "fst k = ns" "i \<noteq> []" for k i
    using that by (metis (no_types, lifting))
  moreover have "res = Inr ?rs" "w' = w" using assms by (auto simp: lane_store_api_def)
  ultimately show ?thesis by auto
qed

lemma store_view_refuse: "store_view (w\<lparr>lt_refuse := n\<rparr>) = store_view w"
  by (simp add: store_view_def fun_eq_iff)

interpretation store: run_records lane_store_api ns store_view for ns
proof (unfold_locales, goal_cases)
  case (5 w b w')
  then show ?case using store_tick_view [of w] by (simp add: lane_store_api_def)
next
  case (6 w res w')
  then show ?case using store_listing by fastforce
next
  case (7 r w made_it w')
  then show ?case using store_create_view by (simp add: lane_store_api_def)
next
  case (8 r w ended w')
  then show ?case using store_update_view by (auto simp: lane_store_api_def)
next
  case (10 w rs w' r)
  then show ?case using store_listing by fastforce
qed (auto simp: lane_store_api_def store_view_refuse split: if_splits, simp add: store_view_def split: option.splits if_splits)


lemma sample_builder_lands: "build_run (Some sample_builder) su d n = Inr run \<Longrightarrow> ru_namespace run = ''jobs''"
proof -
  assume "build_run (Some sample_builder) su d n = Inr run"
  then obtain sel where "run = assignment_stamp sample_builder su d sel sample_routes n"
    by (auto simp: build_run_def build_payload_def Let_def sample_builder_def split: option.splits sum.splits if_splits)
  moreover have "map_of (py_projectRegistry sample_routes) k = None" for k by (simp add: sample_routes_def)
  ultimately show ?thesis
    by (simp add: assignment_stamp_def Let_def stamp_run_def landing_ns_def sample_builder_def)
qed


theorem lane_creates_attributed_runs_witness:
  "\<exists>r res w. Created r res \<in> set (ln_log (snd sample_outcome)) \<and> carries ''r1'' r \<and> sp_ticketID (ru_spec r) = ''KB-1'' \<and>
     sp_workflow (ru_spec r) = Some w \<and> smap_get (wf_adapterImages w) ''shell'' = ''r/s:1''"
proof -
  have proc: "run_state (process 4 sample_agent lane_store_api (sample_assignment ''r1'')) (empty_lane sample_script) =
      (fst sample_outcome, snd sample_outcome)"
    by (simp add: sample_process sample_outcome_def)
  obtain e l where l: "ln_log (snd sample_outcome) = e # l" "case e of Created r res \<Rightarrow> True | _ \<Rightarrow> False"
    using sample_outcome_facts(4) by (cases "ln_log (snd sample_outcome)") auto
  then obtain r res where r: "e = Created r res" by (cases e) auto
  have here: "Created r res \<in> set (drop (length (ln_log (empty_lane sample_script))) (ln_log (snd sample_outcome)))"
    by (simp add: l r empty_lane_def)
  have src: "as_workflowSource (sample_assignment ''r1'') = render (JObj (envelope_fields lane_envelope))"
      "as_runID (sample_assignment ''r1'') = ''r1''"
    by (simp_all add: sample_assignment_def)
  have env: "en_ticket lane_envelope = ''KB-1''" "en_targetImages lane_envelope = [(''shell'', ''r/s:1'')]"
    by (simp_all add: lane_envelope_def)
  show ?thesis
    using lane_creates_attributed_runs [OF proc here] sample_parses l(1) r
    by (auto simp: src env smap_get_def simp del: render.simps)
qed

section \<open>Where the guarantees end\<close>

text \<open>
  The closing of an assignment that cannot be stamped looks at neither ledger: delivered again after its run
  completed, while the routes cannot be read, it is reported failed.
\<close>

lemma completed_run_reported_failed:
  assumes "build_run (la_builder ag) su d (as_runID asg) = Inl reasons" and "aa_surroundings api (ln_world s) = (su, w)"
    and "agent_translate (la_cfg ag) asg = (d, env)" and "as_runID asg \<noteq> []" and "aa_events api"
  shows "\<exists>ev res s'. run_state (process fuel ag api asg) s = (Some (), s') \<and>
    ln_log s' = ln_log s @ [Submitted (as_runID asg) fail_closed_correlation (RunFailed ev) res]"
proof -
  obtain res w' where "aa_submit api (as_runID asg) (correlation_run_terminal @ ''-failclosed'')
      (RunFailed (''assignment failed closed: '' @ join ''; '' (de_missing d @ reasons))) w = (res, w')" by fastforce
  then show ?thesis
    using assms by (simp add: process_def lane_ask_def lane_call_def Let_def fail_assignment_closed_def submit_event_def
        fail_closed_correlation_def)
qed

text \<open>A listing that fails hides the record: the delivery creates another run.\<close>

lemma failed_listing_creates_again:
  assumes "aa_list api (la_namespace ag) (ln_world s) = (Inl e, w)" and "aa_client api" and "as_runID asg \<noteq> []"
  shows "\<exists>res s' out. run_state (attach_run ag api run asg) s = (out, s') \<and>
    Created (annotated ag asg run) res \<in> set (ln_log s')"
proof -
  obtain out s' where run: "run_state (attach_run ag api run asg) s = (out, s')" by fastforce
  obtain res w' where c: "aa_create api (annotated ag asg run) w = (res, w')" by fastforce
  let ?s = "s\<lparr>ln_world := w', ln_log := ln_log s @ [Created (annotated ag asg run) res]\<rparr>"
  obtain m where rest: "run_state m ?s = (out, s')"
    and grows: "triple (since (ln_log ?s) (made (annotated ag asg run))) m (\<lambda>r. since (ln_log ?s) (made (annotated ag asg run)))"
  proof (cases res)
    case (Inr u)
    then show ?thesis
      using that [of "State_Monad.return (Some (annotated ag asg run, 1))"] run assms c
      by (simp add: attach_run_def find_recorded_run_def lane_ask_def lane_call_def triple_return)
  next
    case (Inl err)
    have marks: "triple (since l (made x)) (mark_attempts api r) (\<lambda>m. since l (made x))" for l r x
      unfolding mark_attempts_def Let_def by (intro since_rules since_call) (auto simp: made_def)
    have finds: "triple (since l (made x)) (find_recorded_run ag api i) (\<lambda>m. since l (made x))" for l i x
      unfolding find_recorded_run_def by (intro since_rules) simp_all
    let ?m = "if err_is err ApiAlreadyExists then State_Monad.bind (find_recorded_run ag api (as_runID asg)) (\<lambda>winner.
        case winner of Some r \<Rightarrow> State_Monad.bind (mark_attempts api r) (\<lambda>m. State_Monad.return (Some m))
        | None \<Rightarrow> State_Monad.return None) else State_Monad.return None"
    have "triple (since (ln_log ?s) (made (annotated ag asg run))) ?m (\<lambda>r. since (ln_log ?s) (made (annotated ag asg run)))"
      by (intro since_rules marks finds)
    moreover have "run_state ?m ?s = (out, s')"
      using run assms c Inl by (simp add: attach_run_def find_recorded_run_def lane_ask_def lane_call_def)
    ultimately show ?thesis by (rule that [rotated])
  qed
  from tripleD [OF grows rest since_refl] show ?thesis using run by (auto simp: since_def)
qed

end
