(* ===== verification/LaneStream.thy ===== *)
theory LaneStream
  imports SpecCompare "HOL-Library.State_Monad"
begin

text \<open>
  The lane's connections to castle: the reconnecting loop around the Control stream, which the shadow window
  (\<open>internal/control/stream.go\<close>) and the agent (\<open>Run\<close> in \<open>agent.go\<close>) share, the shadow window's reading of
  one stream, and the submission of one event envelope with bounded retries (\<open>internal/castle/agentclient.go\<close>).
  The loop has fuel, one unit a connection; each result keeps the pauses made.
\<close>

section \<open>Reconnecting\<close>

definition stream_backoff_base :: duration where "stream_backoff_base = second"
definition stream_backoff_max :: duration where "stream_backoff_max = 30 * second"

definition next_backoff :: "duration \<Rightarrow> duration" where
  "next_backoff b = (if 2 * b > stream_backoff_max then stream_backoff_max else 2 * b)"

definition is_lane_rejected :: "go_error \<Rightarrow> bool" where
  "is_lane_rejected e \<longleftrightarrow> err_is e CodePermissionDenied \<or> err_is e CodeUnauthenticated \<or> err_is e CodeUnimplemented"

text \<open>
  A dial answers an error or whether it brought a stream; a stream is consumed until its error;
  \<open>se_ctx\<close> is the context's error, and \<open>se_sleep\<close> the one that cut a pause short.
\<close>

record 'w stream_api =
  se_dial :: "'w \<Rightarrow> (go_error + bool) \<times> 'w"
  se_consume :: "'w \<Rightarrow> go_error \<times> 'w"
  se_ctx :: "'w \<Rightarrow> go_error option \<times> 'w"
  se_sleep :: "duration \<Rightarrow> 'w \<Rightarrow> go_error option \<times> 'w"

definition dial_error :: "go_error + bool \<Rightarrow> go_error option" where
  "dial_error dialed = (case dialed of Inl e \<Rightarrow> Some e
     | Inr live \<Rightarrow> if live then None else Some (ErrMsg ''dial returned no stream and no error''))"

type_synonym 'w served = "go_error option \<times> duration list \<times> 'w"

definition pause_then ::
  "'w stream_api \<Rightarrow> duration \<Rightarrow> duration list \<Rightarrow> (duration \<Rightarrow> duration list \<Rightarrow> 'w \<Rightarrow> 'w served) \<Rightarrow> 'w \<Rightarrow> 'w served" where
  "pause_then api backoff pauses continue w =
     (let (cut, w') = se_sleep api backoff w
      in case cut of Some e \<Rightarrow> (Some e, pauses, w')
         | None \<Rightarrow> continue (next_backoff backoff) (pauses @ [backoff]) w')"

fun serve_stream :: "nat \<Rightarrow> 'w stream_api \<Rightarrow> duration \<Rightarrow> duration list \<Rightarrow> 'w \<Rightarrow> 'w served" where
  "serve_stream 0 api backoff pauses w = (None, pauses, w)"
| "serve_stream (Suc fuel) api backoff pauses w =
     (let (dialed, w1) = se_dial api w
      in case dial_error dialed of
           Some e \<Rightarrow>
             if is_lane_rejected e then (Some e, pauses, w1)
             else (let (ctx, w2) = se_ctx api w1
                   in case ctx of Some c \<Rightarrow> (Some c, pauses, w2)
                      | None \<Rightarrow> pause_then api backoff pauses (serve_stream fuel api) w2)
         | None \<Rightarrow>
             (let (e, w2) = se_consume api w1; (ctx, w3) = se_ctx api w2
              in case ctx of Some c \<Rightarrow> (Some c, pauses, w3)
                 | None \<Rightarrow>
                     if is_lane_rejected e then (Some e, pauses, w3)
                     else pause_then api stream_backoff_base pauses (serve_stream fuel api) w3))"

definition run_stream :: "nat \<Rightarrow> 'w stream_api \<Rightarrow> 'w \<Rightarrow> 'w served" where
  "run_stream fuel api w = serve_stream fuel api stream_backoff_base [] w"

text \<open>One stream of the shadow window: the verdict of each assignment; every other message is ignored.\<close>

definition shadow_verdicts ::
  "control_config \<Rightarrow> watchdog option \<Rightarrow> (string \<Rightarrow> smap \<Rightarrow> go_error + criteria_run list) \<Rightarrow> surroundings \<Rightarrow>
   assignment option list \<Rightarrow> divergence list" where
  "shadow_verdicts cfg watch listing su msgs =
     List.map_filter (map_option (\<lambda>asg. check_decision watch listing su (translate cfg asg))) msgs"

section \<open>Submitting one envelope\<close>

record event_feed =
  ef_addr :: string
  ef_maxAttempts :: nat
  ef_backoffBase :: duration
  ef_backoffMax :: duration

definition new_event_feed :: "string \<Rightarrow> event_feed" where
  "new_event_feed addr = \<lparr>ef_addr = addr, ef_maxAttempts = 3, ef_backoffBase = 250 * 1000000, ef_backoffMax = 2 * second\<rparr>"

definition event_feed_disabled :: "event_feed option \<Rightarrow> bool" where
  "event_feed_disabled f \<longleftrightarrow> (case f of None \<Rightarrow> True | Some feed \<Rightarrow> ef_addr feed = [])"

record 'w submit_api =
  sx_send :: "'w \<Rightarrow> go_error option \<times> 'w"
  sx_close_request :: "'w \<Rightarrow> go_error option \<times> 'w"
  sx_receive :: "'w \<Rightarrow> (go_error option \<times> nat option) \<times> 'w"
  sx_close_response :: "'w \<Rightarrow> go_error option \<times> 'w"
  sx_ctx :: "'w \<Rightarrow> go_error option \<times> 'w"
  sx_wait :: "duration \<Rightarrow> 'w \<Rightarrow> go_error option \<times> 'w"

text \<open>One attempt on its own stream; the acknowledgement (its sequence number) is kept when one arrives.\<close>

definition submit_attempt :: "'w submit_api \<Rightarrow> nat option \<Rightarrow> 'w \<Rightarrow> (go_error option \<times> nat option) \<times> 'w" where
  "submit_attempt api ack w =
     (let (e1, w1) = sx_send api w
      in if e1 \<noteq> None then ((e1, ack), w1)
         else let (e2, w2) = sx_close_request api w1
              in if e2 \<noteq> None then ((e2, ack), w2)
                 else let ((e3, recv), w3) = sx_receive api w2
                      in if (case e3 of None \<Rightarrow> False | Some e \<Rightarrow> \<not> err_is e EndOfStream) then ((e3, ack), w3)
                         else let (e4, w4) = sx_close_response api w3
                              in ((e4, case recv of None \<Rightarrow> ack | Some n \<Rightarrow> Some n), w4))"

definition retry_delay :: "event_feed \<Rightarrow> nat \<Rightarrow> duration" where
  "retry_delay f i = (let delay = ef_backoffBase f * 2 ^ (i - 1) in if delay > ef_backoffMax f then ef_backoffMax f else delay)"

text \<open>The attempts from number \<open>i\<close> on; the answer also counts the attempts made.\<close>

fun retry_submit ::
  "nat \<Rightarrow> event_feed \<Rightarrow> 'w submit_api \<Rightarrow> nat \<Rightarrow> go_error option \<Rightarrow> nat option \<Rightarrow> 'w \<Rightarrow>
   (go_error option \<times> nat option \<times> nat) \<times> 'w" where
  "retry_submit 0 f api i lastErr ack w = ((map_option (Wrapped ''castle assignment event'') lastErr, ack, i), w)"
| "retry_submit (Suc left) f api i lastErr ack w =
     (let (cut, w0) = (if i > 0 then sx_wait api (retry_delay f i) w else (None, w))
      in case cut of
           Some c \<Rightarrow> ((Some (Wrapped ''castle assignment event'' c), ack, i), w0)
         | None \<Rightarrow>
             (let ((err, ack'), w1) = submit_attempt api ack w0
              in case err of
                   None \<Rightarrow> ((None, ack', Suc i), w1)
                 | Some e \<Rightarrow>
                     (let (ctx, w2) = sx_ctx api w1
                      in if ctx \<noteq> None
                         then ((Some (Wrapped ''castle assignment event'' e), ack', Suc i), w2)
                         else retry_submit left f api (Suc i) (Some e) ack' w2)))"

definition submit_envelope ::
  "event_feed option \<Rightarrow> 'w submit_api \<Rightarrow> string \<Rightarrow> 'w \<Rightarrow> (go_error + nat option) \<times> nat \<times> 'w" where
  "submit_envelope feed api runID w =
     (case feed of
        None \<Rightarrow> (Inl (ErrMsg ''assignment event feed: no client''), 0, w)
      | Some f \<Rightarrow>
          if ef_addr f = [] then (Inl (ErrMsg ''assignment event feed: no client''), 0, w)
          else if runID = [] then (Inl (ErrMsg ''assignment event feed: empty run_id''), 0, w)
          else (let ((err, ack, n), w') = retry_submit (ef_maxAttempts f) f api 0 None None w
                in case err of Some e \<Rightarrow> (Inl e, n, w') | None \<Rightarrow> (Inr ack, n, w')))"

text \<open>The submission of a payload of the bridge, which drops the acknowledgement, and the creation of a run.\<close>

definition feed_submit :: "event_feed option \<Rightarrow> 'w submit_api \<Rightarrow> string \<Rightarrow> 'w \<Rightarrow> (go_error + unit) \<times> 'w" where
  "feed_submit feed api runID w =
     (let (res, n, w') = submit_envelope feed api runID w in (map_sum id (\<lambda>ack. ()) res, w'))"

definition feed_create_run :: "event_feed option \<Rightarrow> ('w \<Rightarrow> (go_error + string) \<times> 'w) \<Rightarrow> 'w \<Rightarrow> (go_error + string) \<times> 'w" where
  "feed_create_run feed create w =
     (if event_feed_disabled feed then (Inl (ErrMsg ''assignment event feed: no client''), w)
      else let (res, w') = create w in (map_sum (Wrapped ''assignment run create'') id res, w'))"

section \<open>Properties\<close>

lemma next_backoff_bounds:
  "stream_backoff_base \<le> b \<Longrightarrow> stream_backoff_base \<le> next_backoff b \<and> next_backoff b \<le> stream_backoff_max"
  by (simp add: next_backoff_def stream_backoff_base_def stream_backoff_max_def second_def)

text \<open>What cuts a pause short, or ends a context, is an error of the context.\<close>

definition context_error :: "'w stream_api \<Rightarrow> go_error \<Rightarrow> bool" where
  "context_error api e \<longleftrightarrow> (\<exists>w. fst (se_ctx api w) = Some e) \<or> (\<exists>d w. fst (se_sleep api d w) = Some e)"

definition paced :: "duration list \<Rightarrow> bool" where
  "paced pauses \<longleftrightarrow> list_all (\<lambda>p. stream_backoff_base \<le> p \<and> p \<le> stream_backoff_max) pauses"

definition well_served :: "'w stream_api \<Rightarrow> 'w served \<Rightarrow> bool" where
  "well_served api res \<longleftrightarrow> (case res of (out, pauses, w) \<Rightarrow>
     paced pauses \<and> (\<forall>e. out = Some e \<longrightarrow> is_lane_rejected e \<or> context_error api e))"

lemma pause_then_served:
  assumes "\<And>b ps w'. stream_backoff_base \<le> b \<Longrightarrow> b \<le> stream_backoff_max \<Longrightarrow> paced ps \<Longrightarrow> well_served api (continue b ps w')"
    and "stream_backoff_base \<le> backoff" and "backoff \<le> stream_backoff_max" and "paced pauses"
  shows "well_served api (pause_then api backoff pauses continue w)"
proof -
  obtain cut w' where cut: "se_sleep api backoff w = (cut, w')" by fastforce
  show ?thesis
  proof (cases cut)
    case None
    then show ?thesis
      using assms next_backoff_bounds [OF assms(2)] by (simp add: pause_then_def cut paced_def)
  next
    case (Some e)
    then have "context_error api e" using cut unfolding context_error_def by (metis fst_conv)
    with Some show ?thesis using assms(4) by (simp add: pause_then_def cut well_served_def)
  qed
qed

lemma serve_stream_served:
  "stream_backoff_base \<le> b \<Longrightarrow> b \<le> stream_backoff_max \<Longrightarrow> paced ps \<Longrightarrow> well_served api (serve_stream fuel api b ps w)"
proof (induction fuel arbitrary: b ps w)
  case 0
  then show ?case by (simp add: well_served_def)
next
  case (Suc fuel)
  have ctx: "context_error api c" if "se_ctx api x = (Some c, y)" for c x y
    using that unfolding context_error_def by (metis fst_conv)
  have base: "stream_backoff_base \<le> stream_backoff_max"
    by (simp add: stream_backoff_base_def stream_backoff_max_def second_def)
  have pauses: "well_served api (pause_then api d ps (serve_stream fuel api) x)"
    if "stream_backoff_base \<le> d" "d \<le> stream_backoff_max" for d x
    using pause_then_served [of api "serve_stream fuel api", OF Suc.IH that Suc.prems(3)] by blast
  have ends: "is_lane_rejected e \<or> context_error api e \<Longrightarrow> well_served api (Some e, ps, x)" for e x
    using Suc.prems(3) by (simp add: well_served_def)
  show ?case
    using pauses [OF Suc.prems(1, 2)] pauses [OF order_refl base] ctx ends
    by (auto simp: Let_def split: prod.split option.split)
qed

text \<open>
  C26. The lane reconnects for as long as it may: whatever castle answers, the loop returns only with an error that
  rejects this identity or with the context's own, and every pause it makes lies between one second and thirty.
\<close>

theorem stream_reconnects:
  assumes "run_stream fuel api w = (out, pauses, w')"
  shows "(\<forall>e. out = Some e \<longrightarrow> is_lane_rejected e \<or> context_error api e) \<and>
    (\<forall>p \<in> set pauses. 1000000000 \<le> p \<and> p \<le> 30000000000)"
proof -
  have "well_served api (run_stream fuel api w)"
    unfolding run_stream_def
    by (rule serve_stream_served) (simp_all add: paced_def stream_backoff_base_def stream_backoff_max_def second_def)
  then show ?thesis
    using assms by (auto simp: well_served_def paced_def list_all_iff stream_backoff_base_def stream_backoff_max_def second_def)
qed

text \<open>A castle for the concrete runs: what each connection will do, and then the rejection of the identity.\<close>

datatype connection = DialFails | StreamEnds

definition castle_script :: "connection list stream_api" where
  "castle_script = \<lparr>
     se_dial = (\<lambda>w. case w of [] \<Rightarrow> (Inl (Wrapped ''control'' CodeUnauthenticated), w)
        | DialFails # rest \<Rightarrow> (Inl (ErrMsg ''connection refused''), rest) | StreamEnds # rest \<Rightarrow> (Inr True, rest)),
     se_consume = (\<lambda>w. (EndOfStream, w)), se_ctx = (\<lambda>w. (None, w)), se_sleep = (\<lambda>d w. (None, w))\<rparr>"

theorem stream_reconnects_witness:
  "is_lane_rejected (Wrapped ''control'' CodeUnauthenticated) \<and>
   fst (snd (run_stream 5 castle_script [DialFails, DialFails, StreamEnds, StreamEnds])) =
     [1000000000, 2000000000, 1000000000, 1000000000]"
proof -
  have run: "run_stream 5 castle_script [DialFails, DialFails, StreamEnds, StreamEnds] =
      (Some (Wrapped ''control'' CodeUnauthenticated), [1000000000, 2000000000, 1000000000, 1000000000], [])"
    by code_simp
  have "\<not> context_error castle_script e" for e by (simp add: context_error_def castle_script_def)
  then have "is_lane_rejected (Wrapped ''control'' CodeUnauthenticated)"
    using stream_reconnects [OF run] by blast
  with run show ?thesis by simp
qed

text \<open>A stream that opens and then ends resets the pause, so against such a castle the pause never grows.\<close>

lemma pause_constant_while_dialing_succeeds:
  "length script < fuel \<Longrightarrow> set script \<subseteq> {StreamEnds} \<Longrightarrow>
   fst (snd (serve_stream fuel castle_script b ps script)) = ps @ replicate (length script) stream_backoff_base"
proof (induction script arbitrary: fuel b ps)
  case Nil
  then show ?case by (cases fuel) (simp_all add: castle_script_def dial_error_def is_lane_rejected_def err_is_def)
next
  case (Cons c script)
  then obtain f where f: "fuel = Suc f" by (cases fuel) auto
  have "is_lane_rejected EndOfStream = False" by (simp add: is_lane_rejected_def err_is_def)
  then show ?case
    using Cons.prems Cons.IH [of f "next_backoff stream_backoff_base" "ps @ [stream_backoff_base]"]
    by (simp add: f castle_script_def dial_error_def pause_then_def)
qed

section \<open>The submission\<close>

lemma retry_submit_count:
  "retry_submit left f api i lastErr ack w = ((err, ack', n), w') \<Longrightarrow> i \<le> n \<and> n \<le> i + left"
proof (induction left arbitrary: i lastErr ack w)
  case (Suc left)
  obtain cut w0 where cut: "(if i > 0 then sx_wait api (retry_delay f i) w else (None, w)) = (cut, w0)" by fastforce
  show ?case
  proof (cases cut)
    case (Some c)
    then show ?thesis using Suc.prems by (simp add: cut)
  next
    case None
    obtain res a1 w1 where att: "submit_attempt api ack w0 = ((res, a1), w1)" by (metis prod.collapse)
    obtain ctx w2 where ctx: "sx_ctx api w1 = (ctx, w2)" by fastforce
    show ?thesis
    proof (cases "res = None \<or> ctx \<noteq> None")
      case True
      then show ?thesis using Suc.prems None by (cases res) (auto simp: cut att ctx)
    next
      case False
      then obtain e where e: "res = Some e" "ctx = None" by auto
      then have "retry_submit left f api (Suc i) (Some e) a1 w2 = ((err, ack', n), w')"
        using Suc.prems None by (simp add: cut att ctx)
      from Suc.IH [OF this] show ?thesis by simp
    qed
  qed
qed auto

text \<open>
  A submission makes at most its three attempts, and none without an address and a run; its pauses double from a
  quarter of a second and stay within two.
\<close>

theorem submission_bounded:
  assumes "submit_envelope (Some (new_event_feed addr)) api runID w = (res, n, w')"
  shows "n \<le> 3 \<and> (addr = [] \<or> runID = [] \<longrightarrow> n = 0 \<and> w' = w) \<and>
    (\<forall>i \<in> {1, 2}. retry_delay (new_event_feed addr) i = 250000000 * 2 ^ (i - 1) \<and>
       retry_delay (new_event_feed addr) i \<le> 2000000000)"
proof -
  let ?f = "new_event_feed addr"
  have max: "ef_maxAttempts ?f = 3" "ef_addr ?f = addr" by (simp_all add: new_event_feed_def)
  obtain err ack k w1 where retry: "retry_submit 3 ?f api 0 None None w = ((err, ack, k), w1)"
    by (metis prod.collapse)
  have "n \<le> 3"
    using assms retry_submit_count [OF retry] retry
    by (auto simp: submit_envelope_def max Let_def split: if_splits option.splits)
  moreover have "n = 0 \<and> w' = w" if "addr = [] \<or> runID = []"
    using assms that by (auto simp: submit_envelope_def max split: if_splits)
  ultimately show ?thesis
    by (auto simp: retry_delay_def new_event_feed_def second_def)
qed

text \<open>An end of the stream without an acknowledgement counts as delivered.\<close>

lemma end_of_stream_accepted:
  assumes "sx_send api w = (None, w1)" and "sx_close_request api w1 = (None, w2)"
    and "sx_receive api w2 = ((Some EndOfStream, None), w3)" and "sx_close_response api w3 = (None, w4)"
  shows "submit_attempt api None w = ((None, None), w4)"
  using assms by (simp add: submit_attempt_def err_is_def)

end
