(* ===== verification/SweepKube.thy ===== *)
theory SweepKube
  imports Reconcile
begin

text \<open>
  The surroundings of the background sweeps (\<open>crretention.go\<close>, \<open>adaptersweep.go\<close>): the API calls they
  make, a state of world and log of what was read as evidence and what was deleted, and the rules to show that every
  deletion has its evidence before it. The evidence is an interface (\<open>evidence_policy\<close>): each sweep
  interprets it with its own notion of an orphan.
\<close>

text \<open>The children a sweep looks at: Jobs and pods share their object metadata.\<close>

datatype child = OfJob job | OfPod pod

fun child_owners :: "child \<Rightarrow> owner_ref list" where
  "child_owners (OfJob j) = jo_owners j"
| "child_owners (OfPod p) = po_owners p"

fun child_namespace :: "child \<Rightarrow> string" where
  "child_namespace (OfJob j) = jo_namespace j"
| "child_namespace (OfPod p) = po_namespace p"

fun child_labels :: "child \<Rightarrow> smap" where
  "child_labels (OfJob j) = jo_labels j"
| "child_labels (OfPod p) = po_labels p"

fun child_with_owners :: "owner_ref list \<Rightarrow> child \<Rightarrow> child" where
  "child_with_owners refs (OfJob j) = OfJob (j\<lparr>jo_owners := refs\<rparr>)"
| "child_with_owners refs (OfPod p) = OfPod (p\<lparr>po_owners := refs\<rparr>)"

definition criteria_run_owner_ref_of :: "child \<Rightarrow> owner_ref option" where
  "criteria_run_owner_ref_of c = find (\<lambda>ref. or_kind ref = ''CriteriaRun'') (child_owners c)"

text \<open>
  The calls. A listing answers one page and the token of the next; a deletion of a Job names its
  propagation. \<open>w_set_controller\<close> and \<open>w_has_controller\<close> are \<open>SetControllerReference\<close> and
  \<open>GetControllerOf\<close> of the Kubernetes libraries.
\<close>

record 'w sweep_api =
  w_list_page :: "string \<Rightarrow> string \<Rightarrow> 'w \<Rightarrow> (go_error + criteria_run list \<times> string) \<times> 'w"
  w_get_run :: "nsname \<Rightarrow> 'w \<Rightarrow> (go_error + criteria_run) \<times> 'w"
  w_delete_run :: "criteria_run \<Rightarrow> 'w \<Rightarrow> (go_error + unit) \<times> 'w"
  w_list_jobs :: "string \<Rightarrow> smap \<Rightarrow> 'w \<Rightarrow> (go_error + job list) \<times> 'w"
  w_list_pods :: "string \<Rightarrow> smap \<Rightarrow> 'w \<Rightarrow> (go_error + pod list) \<times> 'w"
  w_delete_child :: "child \<Rightarrow> propagation option \<Rightarrow> 'w \<Rightarrow> (go_error + unit) \<times> 'w"
  w_update_child :: "child \<Rightarrow> 'w \<Rightarrow> (go_error + unit) \<times> 'w"
  w_set_controller :: "criteria_run \<Rightarrow> child \<Rightarrow> go_error + owner_ref list"
  w_has_controller :: "owner_ref list \<Rightarrow> bool"
  w_now :: "'w \<Rightarrow> gotime \<times> 'w"

datatype sweep_effect =
    OwnerRead nsname "go_error + criteria_run"
  | CutRun criteria_run
  | CutChild child
  | Adopted child

fun cuts_child :: "sweep_effect \<Rightarrow> bool" where
  "cuts_child (CutChild c) = True"
| "cuts_child e = False"

lemma log_at_cut:
  assumes "i < length l" and "cuts_child (l ! i)"
  obtains c where "l = take i l @ CutChild c # drop (Suc i) l"
  using assms id_take_nth_drop [of i l] by (cases "l ! i") auto

record 'w sweep_state =
  sw_world :: 'w
  sw_log :: "sweep_effect list"

type_synonym ('w, 'a) sweep = "('w sweep_state, 'a) state"

definition sweep_call :: "('w \<Rightarrow> 'a \<times> 'w) \<Rightarrow> ('a \<Rightarrow> sweep_effect list) \<Rightarrow> ('w, 'a) sweep" where
  "sweep_call f eff = State (\<lambda>s. let (a, w) = f (sw_world s)
     in (a, \<lparr>sw_world = w, sw_log = sw_log s @ eff a\<rparr>))"

definition read_owner :: "'w sweep_api \<Rightarrow> nsname \<Rightarrow> ('w, go_error + criteria_run) sweep" where
  "read_owner api key = sweep_call (w_get_run api key) (\<lambda>res. [OwnerRead key res])"

definition cut_run :: "'w sweep_api \<Rightarrow> criteria_run \<Rightarrow> ('w, go_error + unit) sweep" where
  "cut_run api run = sweep_call (w_delete_run api run) (\<lambda>_. [CutRun run])"

definition cut_child :: "'w sweep_api \<Rightarrow> child \<Rightarrow> propagation option \<Rightarrow> ('w, go_error + unit) sweep" where
  "cut_child api c prop = sweep_call (w_delete_child api c prop) (\<lambda>_. [CutChild c])"

text \<open>A Delete that failed for another reason than that the object is gone already.\<close>

definition really_failed :: "go_error + 'a \<Rightarrow> bool" where
  "really_failed res = (case res of Inl e \<Rightarrow> \<not> is_not_found e | Inr a \<Rightarrow> False)"

section \<open>Evidence\<close>

text \<open>
  \<open>grounded J l\<close>: every effect of \<open>l\<close> is justified by what stands before it. \<open>adds J m\<close>: the pass only appends,
  and what it appends is grounded in itself.
\<close>

definition grounded :: "(sweep_effect list \<Rightarrow> sweep_effect \<Rightarrow> bool) \<Rightarrow> sweep_effect list \<Rightarrow> bool" where
  "grounded J l \<longleftrightarrow> (\<forall>before e after. l = before @ e # after \<longrightarrow> J before e)"

definition adds :: "(sweep_effect list \<Rightarrow> sweep_effect \<Rightarrow> bool) \<Rightarrow> ('w, 'a) sweep \<Rightarrow> bool" where
  "adds J m \<longleftrightarrow> (\<forall>s a s'. run_state m s = (a, s') \<longrightarrow> (\<exists>new. sw_log s' = sw_log s @ new \<and> grounded J new))"

lemma grounded_Nil [simp]: "grounded J []"
  by (simp add: grounded_def)

lemma grounded_Cons:
  "grounded J (e # l) \<longleftrightarrow> J [] e \<and> grounded (\<lambda>before. J (e # before)) l"
  unfolding grounded_def
  by (auto simp: Cons_eq_append_conv)

lemma addsD:
  assumes "adds J m" and "run_state m s = (a, s')" and "sw_log s = []" and "sw_log s' = before @ e # after"
  shows "J before e"
  using assms unfolding adds_def grounded_def by fastforce

locale evidence_policy =
  fixes J :: "sweep_effect list \<Rightarrow> sweep_effect \<Rightarrow> bool"
  assumes more: "J before e \<Longrightarrow> J (earlier @ before) e"
    and reads: "J before (OwnerRead key res)"
begin

lemma grounded_append: "grounded J l \<Longrightarrow> grounded J l' \<Longrightarrow> grounded J (l @ l')"
proof -
  assume l: "grounded J l" and l': "grounded J l'"
  show ?thesis
    unfolding grounded_def
  proof (intro allI impI)
    fix before e after assume "l @ l' = before @ e # after"
    then consider us where "l = before @ e # us" | us where "before = l @ us" "l' = us @ e # after"
      by (auto simp: append_eq_append_conv2 append_eq_Cons_conv)
    then show "J before e"
      using l l' more unfolding grounded_def by cases auto
  qed
qed

lemma adds_ret: "adds J (State_Monad.return a)"
  unfolding adds_def by auto

lemma adds_bind: "adds J m \<Longrightarrow> (\<And>a. adds J (f a)) \<Longrightarrow> adds J (State_Monad.bind m f)"
  unfolding adds_def
  by (clarsimp split: prod.splits) (metis append_assoc grounded_append)

lemma adds_call: "(\<And>a. grounded J (eff a)) \<Longrightarrow> adds J (sweep_call f eff)"
  unfolding adds_def sweep_call_def by (auto split: prod.splits)

lemma adds_read: "adds J (read_owner api key)"
  unfolding read_owner_def by (rule adds_call) (simp add: grounded_Cons reads)

lemma adds_if: "(b \<Longrightarrow> adds J m) \<Longrightarrow> (\<not> b \<Longrightarrow> adds J n) \<Longrightarrow> adds J (if b then m else n)"
  by simp

lemma adds_sum: "(\<And>e. adds J (f e)) \<Longrightarrow> (\<And>a. adds J (g a)) \<Longrightarrow> adds J (case x of Inl e \<Rightarrow> f e | Inr a \<Rightarrow> g a)"
  by (cases x) auto

lemma adds_option: "adds J m \<Longrightarrow> (\<And>a. adds J (g a)) \<Longrightarrow> adds J (case x of None \<Rightarrow> m | Some a \<Rightarrow> g a)"
  by (cases x) auto

text \<open>A verdict read from the owner, and a deletion only when the verdict justifies it.\<close>

lemma adds_verdict:
  assumes "\<And>res. condemned res \<Longrightarrow> J [OwnerRead key res] (CutChild c)"
    and "\<And>res. condemned res \<Longrightarrow> m res = State_Monad.bind (cut_child api c how) after"
    and "\<And>a. adds J (after a)" and "\<And>res. \<not> condemned res \<Longrightarrow> adds J (m res)"
  shows "adds J (State_Monad.bind (read_owner api key) m)"
  unfolding adds_def
proof (intro allI impI)
  fix s a s' assume run: "run_state (State_Monad.bind (read_owner api key) m) s = (a, s')"
  obtain res w where get: "w_get_run api key (sw_world s) = (res, w)" by fastforce
  let ?s1 = "\<lparr>sw_world = w, sw_log = sw_log s @ [OwnerRead key res]\<rparr>"
  have rest: "run_state (m res) ?s1 = (a, s')"
    using run get by (simp add: read_owner_def sweep_call_def)
  show "\<exists>new. sw_log s' = sw_log s @ new \<and> grounded J new"
  proof (cases "condemned res")
    case True
    obtain r w2 where cut: "w_delete_child api c how w = (r, w2)" by fastforce
    have "run_state (after r) \<lparr>sw_world = w2, sw_log = sw_log s @ [OwnerRead key res, CutChild c]\<rparr> = (a, s')"
      using rest cut assms(2) [OF True] by (simp add: cut_child_def sweep_call_def)
    then obtain new where new: "sw_log s' = (sw_log s @ [OwnerRead key res, CutChild c]) @ new" "grounded J new"
      using assms(3) unfolding adds_def by fastforce
    have "grounded J ([OwnerRead key res, CutChild c] @ new)"
      using assms(1) [OF True] new(2) by (intro grounded_append) (simp_all add: grounded_Cons reads)
    with new(1) show ?thesis by (metis append_assoc)
  next
    case False
    obtain new where new: "sw_log s' = (sw_log s @ [OwnerRead key res]) @ new" "grounded J new"
      using assms(4) [OF False] rest unfolding adds_def by fastforce
    have "grounded J ([OwnerRead key res] @ new)"
      using new(2) by (intro grounded_append) (simp_all add: grounded_Cons reads)
    with new(1) show ?thesis by (metis append_assoc)
  qed
qed

end

lemma duration_ends [code]: "min_duration = - 9223372036854775808" "max_duration = 9223372036854775807"
  by (simp_all add: min_duration_def max_duration_def)

section \<open>An in-memory store\<close>

text \<open>A faithful server for the concrete runs; it lists two runs a page.\<close>

record store =
  so_runs :: "criteria_run list"
  so_jobs :: "job list"
  so_pods :: "pod list"
  so_now :: gotime

definition labels_match :: "smap \<Rightarrow> smap \<Rightarrow> bool" where
  "labels_match selector labels \<longleftrightarrow> list_all (\<lambda>(k, v). map_of labels k = Some v) selector"

definition store_api :: "store sweep_api" where
  "store_api = \<lparr>
     w_list_page = (\<lambda>ns cont w. let rs = filter (\<lambda>r. ru_namespace r = ns) (so_runs w)
       in (if cont = '''' then Inr (take 2 rs, if length rs \<le> 2 then '''' else ''more'') else Inr (drop 2 rs, ''''), w)),
     w_get_run = (\<lambda>k w. (case find (\<lambda>r. run_key r = k) (so_runs w) of Some r \<Rightarrow> Inr r | None \<Rightarrow> Inl ApiNotFound, w)),
     w_delete_run = (\<lambda>r w. (Inr (), w\<lparr>so_runs := filter (\<lambda>x. run_key x \<noteq> run_key r) (so_runs w)\<rparr>)),
     w_list_jobs = (\<lambda>ns sel w. (Inr (filter (\<lambda>j. jo_namespace j = ns \<and> labels_match sel (jo_labels j)) (so_jobs w)), w)),
     w_list_pods = (\<lambda>ns sel w. (Inr (filter (\<lambda>p. po_namespace p = ns \<and> labels_match sel (po_labels p)) (so_pods w)), w)),
     w_delete_child = (\<lambda>c prop w. (Inr (), case c of
          OfJob j \<Rightarrow> w\<lparr>so_jobs := filter (\<lambda>x. job_key x \<noteq> job_key j) (so_jobs w)\<rparr>
        | OfPod p \<Rightarrow> w\<lparr>so_pods := filter (\<lambda>x. pod_key x \<noteq> pod_key p) (so_pods w)\<rparr>)),
     w_update_child = (\<lambda>c w. (Inr (), case c of
          OfJob j \<Rightarrow> w\<lparr>so_jobs := map (\<lambda>x. if job_key x = job_key j then j else x) (so_jobs w)\<rparr>
        | OfPod p \<Rightarrow> w\<lparr>so_pods := map (\<lambda>x. if pod_key x = pod_key p then p else x) (so_pods w)\<rparr>)),
     w_set_controller = (\<lambda>r c. Inr (child_owners c @ [owner_reference r])),
     w_has_controller = (\<lambda>refs. list_ex or_controller refs),
     w_now = (\<lambda>w. (so_now w, w))\<rparr>"

definition ended_run :: "string \<Rightarrow> string \<Rightarrow> gotime \<Rightarrow> criteria_run" where
  "ended_run n fs ended = zero_run\<lparr>ru_namespace := ''jobs'', ru_name := n, ru_uid := ''u-'' @ n,
     ru_spec := zero_spec\<lparr>sp_ticketID := ''KB-1''\<rparr>,
     ru_status := zero_status\<lparr>st_phase := PhaseSucceeded, st_finalState := fs, st_archiveID := ''a-'' @ n,
       st_terminalAt := Some ended\<rparr>\<rparr>"

definition bare_spec :: pod_spec where
  "bare_spec = \<lparr>ps_nodeName = [], ps_nodeArch = [], ps_tolerations = [], ps_restartPolicy = ''Never'',
     ps_serviceAccount = [], ps_automountToken = None, ps_security = child_pod_security,
     ps_initContainers = [], ps_containers = [], ps_volumes = [], ps_affinity = None\<rparr>"

definition owned_job :: "string \<Rightarrow> criteria_run \<Rightarrow> job" where
  "owned_job n r = \<lparr>jo_namespace = ''jobs'', jo_name = n, jo_labels = [(label_role, role_adapter)],
     jo_owners = [owner_reference r], jo_ttlSecondsAfterFinished = 0, jo_spec = bare_spec,
     jo_conditions = [], jo_active = 0, jo_succeeded = 0, jo_failed = 0\<rparr>"

definition sample_store :: store where
  "sample_store = \<lparr>so_runs = [ended_run ''old'' ''handler_complete'' 10, ended_run ''parked'' ''need_assistance'' 20,
       ended_run ''new'' ''handler_complete'' 30],
     so_jobs = [owned_job ''lost'' (ended_run ''gone'' ''handler_complete'' 5),
       owned_job ''held'' (ended_run ''new'' ''handler_complete'' 30)],
     so_pods = [], so_now = 1000\<rparr>"

end
