(* ===== verification/CRRetention.thy ===== *)
theory CRRetention
  imports SweepKube "HOL-Library.Product_Lexorder"
begin

text \<open>
  The retention sweep (\<open>internal/controller/crretention.go\<close>): finished runs that are archived, not
  parked for a human, older than the window and outside the newest of their ticket are deleted, then children
  whose run is gone. A listing is read page by page until the server names no further page; the loop has
  fuel for that, and the properties show how much is enough.
\<close>

section \<open>Operations\<close>

definition parked_need_assistance :: string where "parked_need_assistance = ''need_assistance''"
definition parked_awaiting_human :: string where "parked_awaiting_human = ''awaiting_human''"

definition cr_final_state_parked :: "string \<Rightarrow> bool" where
  "cr_final_state_parked finalState \<longleftrightarrow>
     trim_space finalState = parked_need_assistance \<or> trim_space finalState = parked_awaiting_human"

record cr_retention_sweeper =
  sr_namespace :: string
  sr_retention :: duration
  sr_keepLast :: int
  sr_allowlist :: "string list"
  sr_interval :: duration

definition new_cr_retention_sweeper ::
  "string \<Rightarrow> duration \<Rightarrow> int \<Rightarrow> string list \<Rightarrow> duration \<Rightarrow> cr_retention_sweeper" where
  "new_cr_retention_sweeper ns retention keepLast namespaces interval = \<lparr>
     sr_namespace = ns, sr_retention = retention, sr_keepLast = (if keepLast < 0 then 0 else keepLast),
     sr_allowlist = filter (\<lambda>n. n \<noteq> '''') (map trim_space namespaces),
     sr_interval = (if interval \<le> 0 then hour else interval)\<rparr>"

record retention_stats =
  rn_terminal :: nat
  rn_parked :: nat
  rn_unarchived :: nat
  rn_unstamped :: nat
  rn_keptByFamily :: nat
  rn_deleted :: nat
  rn_orphanJobs :: nat
  rn_orphanPods :: nat

definition zero_stats :: retention_stats where
  "zero_stats = \<lparr>rn_terminal = 0, rn_parked = 0, rn_unarchived = 0, rn_unstamped = 0, rn_keptByFamily = 0,
     rn_deleted = 0, rn_orphanJobs = 0, rn_orphanPods = 0\<rparr>"

fun list_runs_from ::
  "nat \<Rightarrow> 'w sweep_api \<Rightarrow> string \<Rightarrow> string \<Rightarrow> criteria_run list \<Rightarrow> ('w, (go_error + criteria_run list) option) sweep" where
  "list_runs_from 0 api ns cont all = State_Monad.return None"
| "list_runs_from (Suc fuel) api ns cont all = do {
     res \<leftarrow> sweep_call (w_list_page api ns cont) (\<lambda>_. []);
     case res of
       Inl e \<Rightarrow> State_Monad.return (Some (Inl e))
     | Inr (items, next) \<Rightarrow>
         (if next = '''' then State_Monad.return (Some (Inr (all @ items)))
          else list_runs_from fuel api ns next (all @ items))
   }"

definition terminal_rank_time :: "criteria_run \<Rightarrow> gotime" where
  "terminal_rank_time run = (case st_terminalAt (ru_status run) of Some t \<Rightarrow> t | None \<Rightarrow> zero_time)"

text \<open>The sort's order: latest end first, then latest creation, then the name.\<close>

definition rank_key :: "criteria_run \<Rightarrow> int \<times> int \<times> string" where
  "rank_key run = (- terminal_rank_time run, - ru_creationTimestamp run, ru_name run)"

type_synonym family_map = "(string \<times> criteria_run list) list"

definition family_members :: "family_map \<Rightarrow> string \<Rightarrow> criteria_run list" where
  "family_members m t = (case map_of m t of Some rs \<Rightarrow> rs | None \<Rightarrow> [])"

definition add_family :: "family_map \<Rightarrow> criteria_run \<Rightarrow> family_map" where
  "add_family m run =
     (if \<not> is_terminal_phase (st_phase (ru_status run)) then m
      else let t = sp_ticketID (ru_spec run) in assoc_put t (family_members m t @ [run]) m)"

definition kept_uids :: "int \<Rightarrow> family_map \<Rightarrow> string list" where
  "kept_uids keepLast m = concat (map (\<lambda>(t, rs). map ru_uid (take (nat keepLast) (sort_key rank_key rs))) m)"

definition retention_step ::
  "'w sweep_api \<Rightarrow> cr_retention_sweeper \<Rightarrow> gotime \<Rightarrow> string list \<Rightarrow> retention_stats \<Rightarrow> criteria_run \<Rightarrow>
   ('w, retention_stats) sweep" where
  "retention_step api s now kept stats0 run =
     (if \<not> is_terminal_phase (st_phase (ru_status run)) then State_Monad.return stats0
      else let stats = stats0\<lparr>rn_terminal := rn_terminal stats0 + 1\<rparr>
        in if cr_final_state_parked (st_finalState (ru_status run))
           then State_Monad.return (stats\<lparr>rn_parked := rn_parked stats + 1\<rparr>)
           else if st_archiveID (ru_status run) = '''' \<or> st_archivePending (ru_status run)
           then State_Monad.return (stats\<lparr>rn_unarchived := rn_unarchived stats + 1\<rparr>)
           else case st_terminalAt (ru_status run) of
             None \<Rightarrow> State_Monad.return (stats\<lparr>rn_unstamped := rn_unstamped stats + 1\<rparr>)
           | Some ended \<Rightarrow>
               (if ru_uid run \<in> set kept
                then State_Monad.return (stats\<lparr>rn_keptByFamily := rn_keptByFamily stats + 1\<rparr>)
                else if time_sub now ended < sr_retention s then State_Monad.return stats
                else if ru_deletionTimestamp run \<noteq> None then State_Monad.return stats
                else do {
                  res \<leftarrow> cut_run api run;
                  State_Monad.return (if really_failed res then stats
                                      else stats\<lparr>rn_deleted := rn_deleted stats + 1\<rparr>)
                }))"

fun retention_loop ::
  "'w sweep_api \<Rightarrow> cr_retention_sweeper \<Rightarrow> gotime \<Rightarrow> string list \<Rightarrow> retention_stats \<Rightarrow> criteria_run list \<Rightarrow>
   ('w, retention_stats) sweep" where
  "retention_loop api s now kept stats [] = State_Monad.return stats"
| "retention_loop api s now kept stats (run # runs) = do {
     stats' \<leftarrow> retention_step api s now kept stats run;
     retention_loop api s now kept stats' runs
   }"

text \<open>
  Whether an owner is gone: the read answered a run of the same name with another uid, or found none
  while the uid is not one of the pass's snapshot. A failed read condemns nothing.
\<close>

definition orphan_verdict :: "string list \<Rightarrow> owner_ref \<Rightarrow> go_error + criteria_run \<Rightarrow> bool" where
  "orphan_verdict snapshot ref res =
     (case res of
        Inr owner \<Rightarrow> ru_uid owner \<noteq> or_uid ref
      | Inl e \<Rightarrow> is_not_found e \<and> or_uid ref \<notin> set snapshot)"

fun reap_orphans ::
  "'w sweep_api \<Rightarrow> string \<Rightarrow> string list \<Rightarrow> propagation option \<Rightarrow> nat \<Rightarrow> child list \<Rightarrow> ('w, nat) sweep" where
  "reap_orphans api ns snapshot prop n [] = State_Monad.return n"
| "reap_orphans api ns snapshot prop n (c # cs) =
     (case criteria_run_owner_ref_of c of
        None \<Rightarrow> reap_orphans api ns snapshot prop n cs
      | Some ref \<Rightarrow> do {
          res \<leftarrow> read_owner api (ns, or_name ref);
          if orphan_verdict snapshot ref res
          then do {
            cut \<leftarrow> cut_child api c prop;
            reap_orphans api ns snapshot prop (if really_failed cut then n else n + 1) cs
          }
          else reap_orphans api ns snapshot prop n cs
        })"

definition sweep_orphans ::
  "'w sweep_api \<Rightarrow> string \<Rightarrow> string list \<Rightarrow> retention_stats \<Rightarrow> ('w, retention_stats) sweep" where
  "sweep_orphans api ns snapshot stats = do {
     jobs \<leftarrow> sweep_call (w_list_jobs api ns []) (\<lambda>_. []);
     case jobs of
       Inl e \<Rightarrow> State_Monad.return stats
     | Inr js \<Rightarrow> do {
         n \<leftarrow> reap_orphans api ns snapshot (Some Foreground) (rn_orphanJobs stats) (map OfJob js);
         pods \<leftarrow> sweep_call (w_list_pods api ns []) (\<lambda>_. []);
         case pods of
           Inl e \<Rightarrow> State_Monad.return (stats\<lparr>rn_orphanJobs := n\<rparr>)
         | Inr ps \<Rightarrow> do {
             m \<leftarrow> reap_orphans api ns snapshot None (rn_orphanPods stats) (map OfPod ps);
             State_Monad.return (stats\<lparr>rn_orphanJobs := n, rn_orphanPods := m\<rparr>)
           }
       }
   }"

definition retention_sweep ::
  "nat \<Rightarrow> 'w sweep_api \<Rightarrow> cr_retention_sweeper \<Rightarrow> ('w, retention_stats option) sweep" where
  "retention_sweep fuel api s = do {
     now \<leftarrow> sweep_call (w_now api) (\<lambda>_. []);
     if sr_namespace s \<notin> set (sr_allowlist s) then State_Monad.return (Some zero_stats)
     else do {
       listing \<leftarrow> list_runs_from fuel api (sr_namespace s) '''' [];
       case listing of
         None \<Rightarrow> State_Monad.return None
       | Some (Inl e) \<Rightarrow> State_Monad.return (Some zero_stats)
       | Some (Inr runs) \<Rightarrow> do {
           stats \<leftarrow> retention_loop api s now (kept_uids (sr_keepLast s) (foldl add_family [] runs)) zero_stats runs;
           stats' \<leftarrow> sweep_orphans api (sr_namespace s) (map ru_uid runs) stats;
           State_Monad.return (Some stats')
         }
     }
   }"

section \<open>Paging\<close>

text \<open>A server that answers the listing in these pages and is then in this world.\<close>

inductive serves :: "'w sweep_api \<Rightarrow> string \<Rightarrow> string \<Rightarrow> 'w \<Rightarrow> criteria_run list list \<Rightarrow> 'w \<Rightarrow> bool"
  for api ns where
  last_page: "w_list_page api ns cont w = (Inr (items, ''''), w') \<Longrightarrow> serves api ns cont w [items] w'"
| more_pages: "w_list_page api ns cont w = (Inr (items, next), w1) \<Longrightarrow> next \<noteq> '''' \<Longrightarrow>
    serves api ns next w1 pages w' \<Longrightarrow> serves api ns cont w (items # pages) w'"

lemma list_runs_served:
  "serves api ns cont w pages w' \<Longrightarrow> length pages \<le> fuel \<Longrightarrow>
   run_state (list_runs_from fuel api ns cont all) \<lparr>sw_world = w, sw_log = l\<rparr> =
     (Some (Inr (all @ concat pages)), \<lparr>sw_world = w', sw_log = l\<rparr>)"
proof (induction arbitrary: fuel all rule: serves.induct)
  case (last_page cont w items w')
  then obtain n where "fuel = Suc n" by (cases fuel) auto
  then show ?case using last_page by (simp add: sweep_call_def)
next
  case (more_pages cont w items "next" w1 pages w')
  then obtain n where "fuel = Suc n" by (cases fuel) auto
  then show ?case using more_pages by (simp add: sweep_call_def)
qed

section \<open>Which runs are deleted\<close>

fun cut_runs :: "sweep_effect list \<Rightarrow> criteria_run list" where
  "cut_runs [] = []"
| "cut_runs (CutRun r # l) = r # cut_runs l"
| "cut_runs (e # l) = cut_runs l"

lemma cut_runs_append [simp]: "cut_runs (l @ l') = cut_runs l @ cut_runs l'"
  by (induction l rule: cut_runs.induct) auto

lemma cut_runs_map [simp]: "cut_runs (map CutRun rs) = rs"
  by (induction rs) auto

definition same_family :: "criteria_run \<Rightarrow> criteria_run \<Rightarrow> bool" where
  "same_family a b \<longleftrightarrow> is_terminal_phase (st_phase (ru_status b)) \<and> sp_ticketID (ru_spec b) = sp_ticketID (ru_spec a)"

text \<open>What the sweep promises to delete: the run has aged out and enough newer runs of its ticket remain.\<close>

definition aged :: "cr_retention_sweeper \<Rightarrow> gotime \<Rightarrow> criteria_run \<Rightarrow> bool" where
  "aged s now r \<longleftrightarrow> is_terminal_phase (st_phase (ru_status r)) \<and>
     \<not> cr_final_state_parked (st_finalState (ru_status r)) \<and>
     st_archiveID (ru_status r) \<noteq> '''' \<and> \<not> st_archivePending (ru_status r) \<and>
     (case st_terminalAt (ru_status r) of None \<Rightarrow> False | Some ended \<Rightarrow> sr_retention s \<le> time_sub now ended) \<and>
     ru_deletionTimestamp r = None"

definition newer_siblings :: "criteria_run list \<Rightarrow> criteria_run \<Rightarrow> criteria_run list" where
  "newer_siblings runs r = filter (\<lambda>r'. same_family r r' \<and> rank_key r' < rank_key r) runs"

lemma sort_position:
  assumes "distinct (map f xs)"
  shows "x \<in> set (take k (sort_key f xs)) \<longleftrightarrow> x \<in> set xs \<and> card {y \<in> set xs. f y < f x} < k"
proof -
  let ?ys = "sort_key f xs"
  have ds: "distinct (map f ?ys)"
    using assms by (metis mset_sort mset_map mset_eq_imp_distinct_iff)
  then have dy: "distinct ?ys" by (simp add: distinct_map)
  have strict: "sorted_wrt (<) (map f ?ys)"
    using ds sorted_sort_key [of f xs] by (simp add: strict_sorted_iff)
  have pos: "card {y \<in> set xs. f y < f (?ys ! i)} = i" if i: "i < length ?ys" for i
  proof -
    have less: "f (?ys ! j) < f (?ys ! l) \<longleftrightarrow> j < l" if "j < length ?ys" "l < length ?ys" for j l
    proof -
      have up: "f (?ys ! a) < f (?ys ! b)" if "a < b" "b < length ?ys" for a b
        using sorted_wrt_nth_less [OF strict] that by simp
      show ?thesis
        using up [of j l] up [of l j] that by (cases j l rule: linorder_cases) auto
    qed
    have "{y \<in> set xs. f y < f (?ys ! i)} = set (take i ?ys)"
    proof (intro equalityI subsetI)
      fix y assume y: "y \<in> {y \<in> set xs. f y < f (?ys ! i)}"
      then obtain j where j: "j < length ?ys" "?ys ! j = y" by (metis in_set_conv_nth mem_Collect_eq set_sort)
      with y less i have "j < i" by blast
      with j i show "y \<in> set (take i ?ys)" by (auto simp: in_set_conv_nth intro!: exI [of _ j])
    next
      fix y assume "y \<in> set (take i ?ys)"
      then obtain j where j: "j < i" "?ys ! j = y" by (auto simp: in_set_conv_nth)
      with i less have "f y < f (?ys ! i)" by (metis order_less_trans)
      moreover have "y \<in> set xs" using i j by (metis nth_mem order_less_trans set_sort)
      ultimately show "y \<in> {y \<in> set xs. f y < f (?ys ! i)}" by simp
    qed
    then show ?thesis using i dy by (simp add: distinct_card)
  qed
  show ?thesis
  proof
    assume "x \<in> set (take k ?ys)"
    then obtain i where "i < k" "i < length ?ys" "x = ?ys ! i" by (auto simp: in_set_conv_nth)
    with pos show "x \<in> set xs \<and> card {y \<in> set xs. f y < f x} < k" by (metis nth_mem set_sort)
  next
    assume r: "x \<in> set xs \<and> card {y \<in> set xs. f y < f x} < k"
    then obtain i where i: "i < length ?ys" "x = ?ys ! i" by (metis in_set_conv_nth set_sort)
    with r pos have "i < k" by simp
    with i show "x \<in> set (take k ?ys)" by (auto simp: in_set_conv_nth)
  qed
qed

lemma family_members_put: "family_members (assoc_put t rs m) t' = (if t' = t then rs else family_members m t')"
  by (simp add: family_members_def map_of_assoc_put)

lemma family_members_families:
  "family_members (foldl add_family m runs) t =
     family_members m t @ filter (\<lambda>r. is_terminal_phase (st_phase (ru_status r)) \<and> sp_ticketID (ru_spec r) = t) runs"
  by (induction runs arbitrary: m) (auto simp: add_family_def family_members_put Let_def)

lemma distinct_families: "distinct (map fst m) \<Longrightarrow> distinct (map fst (foldl add_family m runs))"
  by (induction runs arbitrary: m) (auto simp: add_family_def Let_def distinct_assoc_put)

lemma in_kept_uids: "u \<in> set (kept_uids keep m) \<longleftrightarrow>
    (\<exists>t rs. (t, rs) \<in> set m \<and> u \<in> ru_uid ` set (take (nat keep) (sort_key rank_key rs)))"
  unfolding kept_uids_def
proof (induction m)
  case (Cons p m)
  obtain t rs where p: "p = (t, rs)" by fastforce
  have "u \<in> set (concat (map (\<lambda>(t, rs). map ru_uid (take (nat keep) (sort_key rank_key rs))) (p # m))) \<longleftrightarrow>
      u \<in> ru_uid ` set (take (nat keep) (sort_key rank_key rs)) \<or>
      u \<in> set (concat (map (\<lambda>(t, rs). map ru_uid (take (nat keep) (sort_key rank_key rs))) m))"
    by (simp add: p)
  then show ?case unfolding Cons.IH p by (metis list.set_intros set_ConsD prod.inject)
qed simp

lemma kept_iff:
  assumes "distinct (map ru_uid runs)" and "distinct (map ru_name runs)" and "r \<in> set runs"
    and "is_terminal_phase (st_phase (ru_status r))"
  shows "ru_uid r \<in> set (kept_uids keep (foldl add_family [] runs)) \<longleftrightarrow>
    int (length (newer_siblings runs r)) < keep"
proof -
  let ?fams = "foldl add_family [] runs" and ?t = "sp_ticketID (ru_spec r)"
  let ?fam = "\<lambda>t. filter (\<lambda>r. is_terminal_phase (st_phase (ru_status r)) \<and> sp_ticketID (ru_spec r) = t) runs"
  have mem: "family_members ?fams t = ?fam t" for t
    using family_members_families [of "[]" runs t] by (simp add: family_members_def)
  have entry: "map_of ?fams t = Some rs \<Longrightarrow> rs = ?fam t" for t rs
    using mem [of t] by (simp add: family_members_def)
  have "distinct (map fst ?fams)" using distinct_families [of "[]" runs] by simp
  then have entries: "map_of ?fams t = Some rs \<longleftrightarrow> (t, rs) \<in> set ?fams" for t rs
    by (rule map_of_eq_Some_iff)
  have "ru_uid r \<in> set (kept_uids keep ?fams) \<longleftrightarrow>
      (\<exists>t rs. map_of ?fams t = Some rs \<and> ru_uid r \<in> ru_uid ` set (take (nat keep) (sort_key rank_key rs)))"
    unfolding entries by (rule in_kept_uids)
  also have "\<dots> \<longleftrightarrow> (\<exists>t rs. map_of ?fams t = Some rs \<and> r \<in> set (take (nat keep) (sort_key rank_key rs)))"
  proof -
    have "r' = r" if "map_of ?fams t = Some rs" "r' \<in> set (take (nat keep) (sort_key rank_key rs))"
      "ru_uid r = ru_uid r'" for t rs r'
    proof -
      have "r' \<in> set rs" using in_set_takeD [OF that(2)] by simp
      then have "r' \<in> set runs" using entry [OF that(1)] by simp
      then show ?thesis using assms(1,3) that(3) unfolding distinct_map inj_on_def by simp
    qed
    then show ?thesis by blast
  qed
  also have "\<dots> \<longleftrightarrow> r \<in> set (take (nat keep) (sort_key rank_key (?fam ?t)))"
  proof
    assume "\<exists>t rs. map_of ?fams t = Some rs \<and> r \<in> set (take (nat keep) (sort_key rank_key rs))"
    then obtain t where t: "r \<in> set (take (nat keep) (sort_key rank_key (?fam t)))" using entry by blast
    have "r \<in> set (?fam t)" using in_set_takeD [OF t] by simp
    then have "t = ?t" by simp
    with t show "r \<in> set (take (nat keep) (sort_key rank_key (?fam ?t)))" by simp
  next
    assume r: "r \<in> set (take (nat keep) (sort_key rank_key (?fam ?t)))"
    have "?fam ?t \<noteq> []" using assms(3,4) by (auto simp: filter_empty_conv)
    then obtain rs where rs: "map_of ?fams ?t = Some rs" using mem [of ?t] by (auto simp: family_members_def split: option.splits)
    with r entry [OF rs] show "\<exists>t rs. map_of ?fams t = Some rs \<and> r \<in> set (take (nat keep) (sort_key rank_key rs))"
      by auto
  qed
  also have "\<dots> \<longleftrightarrow> card {y \<in> set (?fam ?t). rank_key y < rank_key r} < nat keep"
  proof -
    have "distinct (map rank_key (?fam ?t))"
      using assms(2) by (auto simp: distinct_map rank_key_def inj_on_def)
    then show ?thesis using sort_position [of rank_key "?fam ?t" r "nat keep"] assms(3,4) by simp
  qed
  also have "card {y \<in> set (?fam ?t). rank_key y < rank_key r} = length (newer_siblings runs r)"
  proof -
    have "{y \<in> set (?fam ?t). rank_key y < rank_key r} = set (newer_siblings runs r)"
      by (auto simp: newer_siblings_def same_family_def)
    moreover have "distinct (newer_siblings runs r)"
      using assms(1) by (simp add: newer_siblings_def distinct_map)
    ultimately show ?thesis by (simp add: distinct_card)
  qed
  finally show ?thesis by auto
qed

lemma retention_step_cuts:
  assumes "run_state (retention_step api s now kept stats r) st = (stats', st')"
  shows "sw_log st' = sw_log st @ (if aged s now r \<and> ru_uid r \<notin> set kept then [CutRun r] else [])"
  using assms
  by (auto simp: retention_step_def aged_def cut_run_def sweep_call_def Let_def
      split: if_splits option.splits prod.splits)

lemma retention_loop_cuts:
  "run_state (retention_loop api s now kept stats runs) st = (stats', st') \<Longrightarrow>
   sw_log st' = sw_log st @ map CutRun (filter (\<lambda>r. aged s now r \<and> ru_uid r \<notin> set kept) runs)"
proof (induction runs arbitrary: stats st)
  case (Cons r runs)
  then obtain t st1 where "run_state (retention_step api s now kept stats r) st = (t, st1)"
    "run_state (retention_loop api s now kept t runs) st1 = (stats', st')" by (auto split: prod.splits)
  with Cons.IH show ?case by (auto dest: retention_step_cuts)
qed simp

lemma reap_orphans_cuts_no_run:
  "run_state (reap_orphans api ns snapshot prop n cs) st = (m, st') \<Longrightarrow>
   cut_runs (sw_log st') = cut_runs (sw_log st)"
proof (induction cs arbitrary: n st)
  case (Cons c cs)
  from Cons.prems show ?case
    by (auto simp: read_owner_def cut_child_def sweep_call_def split: option.splits prod.splits if_splits
        dest: Cons.IH)
qed simp

lemma sweep_orphans_cuts_no_run:
  "run_state (sweep_orphans api ns snapshot stats) st = (stats', st') \<Longrightarrow>
   cut_runs (sw_log st') = cut_runs (sw_log st)"
  by (auto simp: sweep_orphans_def sweep_call_def split: sum.splits prod.splits dest!: reap_orphans_cuts_no_run)

section \<open>Which children are deleted\<close>

definition orphan_policy :: "string \<Rightarrow> string list \<Rightarrow> sweep_effect list \<Rightarrow> sweep_effect \<Rightarrow> bool" where
  "orphan_policy ns snapshot before e = (case e of
     CutChild c \<Rightarrow> (\<exists>ref res. criteria_run_owner_ref_of c = Some ref \<and>
        OwnerRead (ns, or_name ref) res \<in> set before \<and> orphan_verdict snapshot ref res)
   | _ \<Rightarrow> True)"

lemma orphan_policy_cut: "orphan_policy ns snapshot before (CutChild c) \<longleftrightarrow>
    (\<exists>ref res. criteria_run_owner_ref_of c = Some ref \<and>
       OwnerRead (ns, or_name ref) res \<in> set before \<and> orphan_verdict snapshot ref res)"
  by (simp add: orphan_policy_def)

interpretation orphans: evidence_policy "orphan_policy ns snapshot" for ns snapshot
  by unfold_locales (auto simp: orphan_policy_def split: sweep_effect.splits)

lemma reap_orphans_adds: "adds (orphan_policy ns snapshot) (reap_orphans api ns snapshot prop n cs)"
proof (induction cs arbitrary: n)
  case (Cons c cs)
  show ?case
  proof (cases "criteria_run_owner_ref_of c")
    case None
    then show ?thesis using Cons.IH by simp
  next
    case (Some ref)
    show ?thesis
      unfolding reap_orphans.simps Some option.case
      by (rule orphans.adds_verdict [where condemned = "orphan_verdict snapshot ref" and c = c and how = "prop"
            and after = "\<lambda>cut. reap_orphans api ns snapshot prop (if really_failed cut then n else n + 1) cs"])
        (use Some Cons.IH in \<open>auto simp: orphan_policy_cut\<close>)
  qed
qed (simp add: orphans.adds_ret)

lemma quiet_grounded: "grounded (orphan_policy ns snapshot) [CutRun r]"
  by (simp add: grounded_Cons orphan_policy_def)

lemma sweep_orphans_adds: "adds (orphan_policy ns snapshot) (sweep_orphans api ns snapshot stats)"
  unfolding sweep_orphans_def
  by (intro orphans.adds_bind orphans.adds_sum orphans.adds_call orphans.adds_ret reap_orphans_adds grounded_Nil)

lemma retention_loop_adds: "adds (orphan_policy ns snapshot) (retention_loop api s now kept stats runs)"
proof (induction runs arbitrary: stats)
  case (Cons r runs)
  have "adds (orphan_policy ns snapshot) (retention_step api s now kept stats r)"
    unfolding retention_step_def Let_def cut_run_def
    by (intro orphans.adds_if orphans.adds_option orphans.adds_bind orphans.adds_call orphans.adds_ret quiet_grounded)
  with Cons.IH show ?case by (simp add: orphans.adds_bind)
qed (simp add: orphans.adds_ret)

section \<open>Properties\<close>

lemma retention_sweep_run:
  assumes "w_now api w = (now, w0)" and "sr_namespace s \<in> set (sr_allowlist s)"
    and "serves api (sr_namespace s) '''' w0 pages w1" and "length pages \<le> fuel"
  shows "run_state (retention_sweep fuel api s) \<lparr>sw_world = w, sw_log = []\<rparr> =
    run_state (do {
      stats \<leftarrow> retention_loop api s now (kept_uids (sr_keepLast s) (foldl add_family [] (concat pages)))
        zero_stats (concat pages);
      stats' \<leftarrow> sweep_orphans api (sr_namespace s) (map ru_uid (concat pages)) stats;
      State_Monad.return (Some stats') }) \<lparr>sw_world = w1, sw_log = []\<rparr>"
  using assms(1,2) list_runs_served [OF assms(3,4), of "[]"]
  by (simp add: retention_sweep_def sweep_call_def)

text \<open>
  C27. A retention sweep over a namespace it is allowed to delete in, with enough fuel for the pages of
  the listing, returns, and asks for the deletion of exactly these runs, in listing order: finished,
  archived, not parked, not being deleted, at least the window old, and with at least \<open>keepLast\<close> newer
  finished runs of the same ticket. In any other namespace it deletes nothing.
\<close>

theorem retention_deletes_exactly:
  assumes "w_now api w = (now, w0)" and "serves api (sr_namespace s) '''' w0 pages w1" and "length pages \<le> fuel"
    and "runs = concat pages" and "distinct (map ru_uid runs)" and "distinct (map ru_name runs)"
  shows "\<exists>stats st'. run_state (retention_sweep fuel api s) \<lparr>sw_world = w, sw_log = []\<rparr> = (Some stats, st') \<and>
    cut_runs (sw_log st') = (if sr_namespace s \<in> set (sr_allowlist s)
      then filter (\<lambda>r. aged s now r \<and> sr_keepLast s \<le> int (length (newer_siblings runs r))) runs else [])"
proof (cases "sr_namespace s \<in> set (sr_allowlist s)")
  case False
  with assms(1) show ?thesis by (simp add: retention_sweep_def sweep_call_def)
next
  case True
  let ?kept = "kept_uids (sr_keepLast s) (foldl add_family [] runs)"
  obtain stats st1 where loop: "run_state (retention_loop api s now ?kept zero_stats runs)
      \<lparr>sw_world = w1, sw_log = []\<rparr> = (stats, st1)" by fastforce
  obtain stats' st2 where orphans: "run_state (sweep_orphans api (sr_namespace s) (map ru_uid runs) stats) st1 = (stats', st2)"
    by fastforce
  have run: "run_state (retention_sweep fuel api s) \<lparr>sw_world = w, sw_log = []\<rparr> = (Some stats', st2)"
    using retention_sweep_run [OF assms(1) True assms(2,3)] loop orphans by (simp add: assms(4))
  have "cut_runs (sw_log st2) = filter (\<lambda>r. aged s now r \<and> ru_uid r \<notin> set ?kept) runs"
    using retention_loop_cuts [OF loop] sweep_orphans_cuts_no_run [OF orphans] by simp
  also have "\<dots> = filter (\<lambda>r. aged s now r \<and> sr_keepLast s \<le> int (length (newer_siblings runs r))) runs"
    using kept_iff [OF assms(5,6)] by (intro filter_cong refl) (auto simp: aged_def not_less)
  finally show ?thesis using run True by auto
qed

text \<open>
  C28. The orphan check never deletes a child of a live run: a Job or pod that the sweep deletes has a
  CriteriaRun owner that the sweep has just read from the API, and the read answered either a run of the
  same name with another uid, or that there is none while the owner is not in the sweep's own listing. A child
  without such an owner, or whose owner could not be read, stays.
\<close>

theorem orphans_are_proven:
  assumes "w_now api w = (now, w0)" and "serves api (sr_namespace s) '''' w0 pages w1" and "length pages \<le> fuel"
    and "run_state (retention_sweep fuel api s) \<lparr>sw_world = w, sw_log = []\<rparr> = (res, st')"
    and "sw_log st' = before @ CutChild c # after"
  shows "\<exists>ref answer. criteria_run_owner_ref_of c = Some ref \<and>
    OwnerRead (sr_namespace s, or_name ref) answer \<in> set before \<and>
    (case answer of Inr owner \<Rightarrow> ru_uid owner \<noteq> or_uid ref
     | Inl e \<Rightarrow> is_not_found e \<and> or_uid ref \<notin> ru_uid ` set (concat pages))"
proof (cases "sr_namespace s \<in> set (sr_allowlist s)")
  case False
  with assms(1,4,5) show ?thesis by (auto simp: retention_sweep_def sweep_call_def)
next
  case True
  let ?P = "orphan_policy (sr_namespace s) (map ru_uid (concat pages))"
  have "adds ?P (do {
      stats \<leftarrow> retention_loop api s now (kept_uids (sr_keepLast s) (foldl add_family [] (concat pages)))
        zero_stats (concat pages);
      stats' \<leftarrow> sweep_orphans api (sr_namespace s) (map ru_uid (concat pages)) stats;
      State_Monad.return (Some stats') })"
    by (intro orphans.adds_bind retention_loop_adds sweep_orphans_adds orphans.adds_ret)
  from addsD [OF this assms(4) [unfolded retention_sweep_run [OF assms(1) True assms(2,3)]]] assms(5)
  have "?P before (CutChild c)" by simp
  then show ?thesis unfolding orphan_policy_def orphan_verdict_def set_map by auto
qed

definition sample_sweeper :: cr_retention_sweeper where
  "sample_sweeper = \<lparr>sr_namespace = ''jobs'', sr_retention = 100, sr_keepLast = 1, sr_allowlist = [''jobs''],
     sr_interval = hour\<rparr>"

lemma sample_sweeper_allows: "sr_retention sample_sweeper = 100" "sr_keepLast sample_sweeper = 1"
  "sr_namespace sample_sweeper = ''jobs''" "sr_allowlist sample_sweeper = [''jobs'']"
  by (simp_all add: sample_sweeper_def)

definition sample_pages :: "criteria_run list list" where
  "sample_pages = [take 2 (so_runs sample_store), drop 2 (so_runs sample_store)]"

lemma sample_serves: "serves store_api ''jobs'' '''' sample_store sample_pages sample_store"
proof -
  have "w_list_page store_api ''jobs'' '''' sample_store = (Inr (take 2 (so_runs sample_store), ''more''), sample_store)"
    by code_simp
  moreover have "w_list_page store_api ''jobs'' ''more'' sample_store = (Inr (drop 2 (so_runs sample_store), ''''), sample_store)"
    by code_simp
  ultimately show ?thesis unfolding sample_pages_def by (auto intro: serves.intros)
qed

lemma sample_now: "w_now store_api sample_store = (1000, sample_store)"
  by (simp add: store_api_def sample_store_def)


definition after_sweep :: "store sweep_state" where
  "after_sweep = snd (run_state (retention_sweep 2 store_api sample_sweeper) \<lparr>sw_world = sample_store, sw_log = []\<rparr>)"

theorem retention_deletes_exactly_witness:
  "map ru_name (cut_runs (sw_log after_sweep)) = [''old'']"
proof -
  have uids: "distinct (map ru_uid (concat sample_pages))" and names: "distinct (map ru_name (concat sample_pages))"
    by code_simp+
  have "cut_runs (sw_log after_sweep) = (if sr_namespace sample_sweeper \<in> set (sr_allowlist sample_sweeper)
      then filter (\<lambda>r. aged sample_sweeper 1000 r \<and>
        sr_keepLast sample_sweeper \<le> int (length (newer_siblings (concat sample_pages) r))) (concat sample_pages) else [])"
  proof -
    have two: "length sample_pages \<le> 2" by (simp add: sample_pages_def)
    from retention_deletes_exactly [OF sample_now sample_serves [folded sample_sweeper_allows(3)] two refl uids names]
    show ?thesis by (auto simp: after_sweep_def)
  qed
  also have "map ru_name \<dots> = [''old'']"
  proof -
    have "cr_final_state_parked ''need_assistance''" "\<not> cr_final_state_parked ''handler_complete''" by code_simp+
    then show ?thesis
      by (simp add: sample_pages_def sample_store_def ended_run_def aged_def time_sub_def min_duration_def
          max_duration_def newer_siblings_def same_family_def rank_key_def terminal_rank_time_def
          sample_sweeper_allows zero_status_def zero_run_def)
  qed
  finally show ?thesis .
qed

definition orphaned_store :: store where
  "orphaned_store = sample_store\<lparr>so_runs := []\<rparr>"

definition after_orphans :: "store sweep_state" where
  "after_orphans = snd (run_state (retention_sweep 1 store_api sample_sweeper) \<lparr>sw_world = orphaned_store, sw_log = []\<rparr>)"

theorem orphans_are_proven_witness:
  "\<exists>before after c. sw_log after_orphans = before @ CutChild c # after \<and>
    (\<exists>ref answer. criteria_run_owner_ref_of c = Some ref \<and> OwnerRead (''jobs'', or_name ref) answer \<in> set before \<and>
      (case answer of Inr owner \<Rightarrow> ru_uid owner \<noteq> or_uid ref
       | Inl e \<Rightarrow> is_not_found e \<and> or_uid ref \<notin> ru_uid ` set (concat [so_runs orphaned_store])))"
proof -
  have now: "w_now store_api orphaned_store = (1000, orphaned_store)"
    by (simp add: store_api_def orphaned_store_def sample_store_def)
  have one: "serves store_api (sr_namespace sample_sweeper) '''' orphaned_store [so_runs orphaned_store] orphaned_store"
    by (rule last_page) (simp add: store_api_def orphaned_store_def)
  have "1 < length (sw_log after_orphans) \<and> cuts_child (sw_log after_orphans ! 1)" by code_simp
  then have "1 < length (sw_log after_orphans)" "cuts_child (sw_log after_orphans ! 1)" by blast+
  then obtain c where l: "sw_log after_orphans = take 1 (sw_log after_orphans) @ CutChild c # drop (Suc 1) (sw_log after_orphans)"
    by (rule log_at_cut)
  have run: "run_state (retention_sweep 1 store_api sample_sweeper) \<lparr>sw_world = orphaned_store, sw_log = []\<rparr> =
      (fst (run_state (retention_sweep 1 store_api sample_sweeper) \<lparr>sw_world = orphaned_store, sw_log = []\<rparr>), after_orphans)"
    by (simp add: after_orphans_def)
  show ?thesis
    by (rule exI, rule exI, rule exI, rule conjI [OF l])
      (rule orphans_are_proven [OF now one _ run l, unfolded sample_sweeper_allows(3)], simp)
qed

end
