(* ===== verification/AdapterSweep.thy ===== *)
theory AdapterSweep
  imports SweepKube
begin

text \<open>
  The adapter sweep (\<open>internal/controller/adaptersweep.go\<close>): adapter pods and legacy adapter Jobs whose
  owning run is gone are deleted, those of a live run without an owner reference are adopted, and everything that
  has no owner reference of a run is left alone.
\<close>

section \<open>Operations\<close>

record adapter_sweeper =
  ad_namespace :: string
  ad_interval :: duration

definition new_adapter_sweeper :: "string \<Rightarrow> duration \<Rightarrow> adapter_sweeper" where
  "new_adapter_sweeper ns interval = \<lparr>ad_namespace = ns, ad_interval = (if interval \<le> 0 then 30 * second else interval)\<rparr>"

datatype sweep_outcome = SweepKept | SweepDeleted | SweepAdopted

fun adapter_propagation :: "child \<Rightarrow> propagation option" where
  "adapter_propagation (OfJob j) = Some Foreground"
| "adapter_propagation (OfPod p) = None"

definition delete_adapter_object :: "'w sweep_api \<Rightarrow> child \<Rightarrow> ('w, sweep_outcome) sweep" where
  "delete_adapter_object api c = do {
     res \<leftarrow> cut_child api c (adapter_propagation c);
     State_Monad.return (if really_failed res then SweepKept else SweepDeleted)
   }"

text \<open>The owner of an object is gone: no such run, or the name belongs to another run by now.\<close>

definition owner_gone :: "owner_ref \<Rightarrow> go_error + criteria_run \<Rightarrow> bool" where
  "owner_gone ref res =
     (case res of
        Inl e \<Rightarrow> is_not_found e
      | Inr run \<Rightarrow> or_uid ref \<noteq> '''' \<and> or_uid ref \<noteq> ru_uid run)"

definition sweep_owned_object :: "'w sweep_api \<Rightarrow> child \<Rightarrow> owner_ref \<Rightarrow> ('w, sweep_outcome) sweep" where
  "sweep_owned_object api c ref = do {
     res \<leftarrow> read_owner api (child_namespace c, or_name ref);
     if owner_gone ref res then delete_adapter_object api c else State_Monad.return SweepKept
   }"

definition adopt_object :: "'w sweep_api \<Rightarrow> child \<Rightarrow> criteria_run \<Rightarrow> ('w, sweep_outcome) sweep" where
  "adopt_object api c run =
     (if w_has_controller api (child_owners c) then State_Monad.return SweepKept
      else case w_set_controller api run c of
        Inl e \<Rightarrow> State_Monad.return SweepKept
      | Inr refs \<Rightarrow> do {
          res \<leftarrow> sweep_call (w_update_child api (child_with_owners refs c)) (\<lambda>_. [Adopted (child_with_owners refs c)]);
          case res of
            Inl e \<Rightarrow> State_Monad.return SweepKept
          | Inr u \<Rightarrow> State_Monad.return SweepAdopted
        })"

definition adopt_by_run_label :: "'w sweep_api \<Rightarrow> child \<Rightarrow> ('w, sweep_outcome) sweep" where
  "adopt_by_run_label api c =
     (let runName = smap_get (child_labels c) label_run
      in if runName = '''' then State_Monad.return SweepKept
         else do {
           res \<leftarrow> read_owner api (child_namespace c, runName);
           case res of
             Inl e \<Rightarrow> State_Monad.return SweepKept
           | Inr run \<Rightarrow> adopt_object api c run
         })"

definition sweep_object :: "'w sweep_api \<Rightarrow> child \<Rightarrow> ('w, sweep_outcome) sweep" where
  "sweep_object api c =
     (case criteria_run_owner_ref_of c of
        Some ref \<Rightarrow> sweep_owned_object api c ref
      | None \<Rightarrow> adopt_by_run_label api c)"

text \<open>Deleted and adopted objects are counted.\<close>

fun sweep_objects :: "'w sweep_api \<Rightarrow> nat \<times> nat \<Rightarrow> child list \<Rightarrow> ('w, nat \<times> nat) sweep" where
  "sweep_objects api (deleted, adopted) [] = State_Monad.return (deleted, adopted)"
| "sweep_objects api (deleted, adopted) (c # cs) = do {
     outcome \<leftarrow> sweep_object api c;
     sweep_objects api (case outcome of SweepDeleted \<Rightarrow> (deleted + 1, adopted)
       | SweepAdopted \<Rightarrow> (deleted, adopted + 1) | SweepKept \<Rightarrow> (deleted, adopted)) cs
   }"

definition adapter_selector :: smap where
  "adapter_selector = [(label_role, role_adapter)]"

text \<open>The answer counts the deleted pods, the deleted Jobs and the adopted objects; a failed listing skips its kind.\<close>

definition adapter_sweep :: "'w sweep_api \<Rightarrow> adapter_sweeper \<Rightarrow> ('w, nat \<times> nat \<times> nat) sweep" where
  "adapter_sweep api s = do {
     pods \<leftarrow> sweep_call (w_list_pods api (ad_namespace s) adapter_selector) (\<lambda>_. []);
     (podsDeleted, adopted) \<leftarrow> (case pods of
        Inl e \<Rightarrow> State_Monad.return (0, 0)
      | Inr ps \<Rightarrow> sweep_objects api (0, 0) (map OfPod ps));
     jobs \<leftarrow> sweep_call (w_list_jobs api (ad_namespace s) adapter_selector) (\<lambda>_. []);
     (jobsDeleted, adopted') \<leftarrow> (case jobs of
        Inl e \<Rightarrow> State_Monad.return (0, adopted)
      | Inr js \<Rightarrow> sweep_objects api (0, adopted) (map OfJob js));
     State_Monad.return (podsDeleted, jobsDeleted, adopted')
   }"

section \<open>What is deleted and what is adopted\<close>

text \<open>
  A deletion needs an owner reference whose owner was read as gone; an adoption writes the object with the owners
  that the library sets for a run that was read, and only for an object that had no owner run and no controller.
\<close>

definition adapter_policy :: "'w sweep_api \<Rightarrow> sweep_effect list \<Rightarrow> sweep_effect \<Rightarrow> bool" where
  "adapter_policy api before e = (case e of
     CutChild c \<Rightarrow> (\<exists>ref res. criteria_run_owner_ref_of c = Some ref \<and>
        OwnerRead (child_namespace c, or_name ref) res \<in> set before \<and> owner_gone ref res)
   | Adopted c' \<Rightarrow> (\<exists>c run refs. criteria_run_owner_ref_of c = None \<and> \<not> w_has_controller api (child_owners c) \<and>
        OwnerRead (child_namespace c, smap_get (child_labels c) label_run) (Inr run) \<in> set before \<and>
        w_set_controller api run c = Inr refs \<and> c' = child_with_owners refs c)
   | CutRun r \<Rightarrow> False
   | OwnerRead key res \<Rightarrow> True)"

lemma adapter_policy_effects:
  "adapter_policy api before (CutChild c) \<longleftrightarrow> (\<exists>ref res. criteria_run_owner_ref_of c = Some ref \<and>
     OwnerRead (child_namespace c, or_name ref) res \<in> set before \<and> owner_gone ref res)"
  "adapter_policy api before (OwnerRead key res)"
  "adapter_policy api before (Adopted c') \<longleftrightarrow>
     (\<exists>c run refs. criteria_run_owner_ref_of c = None \<and> \<not> w_has_controller api (child_owners c) \<and>
        OwnerRead (child_namespace c, smap_get (child_labels c) label_run) (Inr run) \<in> set before \<and>
        w_set_controller api run c = Inr refs \<and> c' = child_with_owners refs c)"
  by (simp_all add: adapter_policy_def)

interpretation adapters: evidence_policy "adapter_policy api" for api
proof
  fix before e earlier assume "adapter_policy api before e"
  then show "adapter_policy api (earlier @ before) e"
    unfolding adapter_policy_def by (cases e) (simp_all, blast+)
qed (simp add: adapter_policy_def)

lemma owned_adds:
  assumes "criteria_run_owner_ref_of c = Some ref"
  shows "adds (adapter_policy api) (sweep_owned_object api c ref)"
  unfolding sweep_owned_object_def delete_adapter_object_def
  by (rule adapters.adds_verdict [where condemned = "owner_gone ref" and c = c and how = "adapter_propagation c"])
    (auto simp: adapter_policy_effects assms intro: adapters.adds_ret)

lemma adopt_adds:
  assumes "criteria_run_owner_ref_of c = None"
  shows "adds (adapter_policy api) (adopt_by_run_label api c)"
proof -
  let ?n = "smap_get (child_labels c) label_run"
  have "adds (adapter_policy api) (do {
      res \<leftarrow> read_owner api (child_namespace c, ?n);
      case res of Inl e \<Rightarrow> State_Monad.return SweepKept | Inr run \<Rightarrow> adopt_object api c run })"
    unfolding adds_def
  proof (intro allI impI)
    fix s a s'
    assume run: "run_state (do { res \<leftarrow> read_owner api (child_namespace c, ?n);
      case res of Inl e \<Rightarrow> State_Monad.return SweepKept | Inr run \<Rightarrow> adopt_object api c run }) s = (a, s')"
    obtain res w where get: "w_get_run api (child_namespace c, ?n) (sw_world s) = (res, w)" by fastforce
    let ?read = "OwnerRead (child_namespace c, ?n) res"
    have "\<exists>new. sw_log s' = sw_log s @ ?read # new \<and> grounded (adapter_policy api) (?read # new)"
    proof (cases "\<exists>r refs. res = Inr r \<and> \<not> w_has_controller api (child_owners c) \<and> w_set_controller api r c = Inr refs")
      case False
      then have "sw_log s' = sw_log s @ [?read]"
        using run get by (auto simp: read_owner_def sweep_call_def adopt_object_def split: sum.splits if_splits)
      then show ?thesis by (auto simp: grounded_Cons adapter_policy_effects intro: exI [of _ "[]"])
    next
      case True
      then obtain r refs where r: "res = Inr r" "\<not> w_has_controller api (child_owners c)"
        "w_set_controller api r c = Inr refs" by blast
      then have "sw_log s' = sw_log s @ [?read, Adopted (child_with_owners refs c)]"
        using run get by (auto simp: read_owner_def sweep_call_def adopt_object_def split: sum.splits prod.splits)
      moreover have "adapter_policy api [?read] (Adopted (child_with_owners refs c))"
        unfolding adapter_policy_effects using r assms by auto
      ultimately show ?thesis by (auto simp: grounded_Cons adapter_policy_effects(2) intro!: exI [of _ "[Adopted (child_with_owners refs c)]"])
    qed
    then show "\<exists>new. sw_log s' = sw_log s @ new \<and> grounded (adapter_policy api) new" by blast
  qed
  then show ?thesis by (simp add: adopt_by_run_label_def Let_def adapters.adds_ret)
qed

lemma sweep_objects_adds: "adds (adapter_policy api) (sweep_objects api n cs)"
proof (induction cs arbitrary: n)
  case Nil
  show ?case by (cases n) (simp add: adapters.adds_ret)
next
  case (Cons c cs)
  have "adds (adapter_policy api) (sweep_object api c)"
    unfolding sweep_object_def by (auto split: option.splits intro: owned_adds adopt_adds)
  with Cons.IH show ?case by (cases n) (simp add: adapters.adds_bind)
qed

lemma adapter_sweep_adds: "adds (adapter_policy api) (adapter_sweep api s)"
  unfolding adapter_sweep_def
  by (intro adapters.adds_bind adapters.adds_call grounded_Nil)
    (auto split: prod.splits sum.splits intro!: adapters.adds_bind adapters.adds_call adapters.adds_ret sweep_objects_adds)

text \<open>
  The adapter sweep deletes an object only on proof of ownership: it carries an owner reference to
  a CriteriaRun, and the sweep has just read that the run does not exist or that its name belongs to a
  run with another uid. A label alone never leads to a deletion.
\<close>

theorem adapter_sweep_needs_owner_reference:
  assumes "run_state (adapter_sweep api s) \<lparr>sw_world = w, sw_log = []\<rparr> = (tally, st')"
    and "sw_log st' = before @ CutChild c # after"
  shows "\<exists>ref answer. criteria_run_owner_ref_of c = Some ref \<and>
    OwnerRead (child_namespace c, or_name ref) answer \<in> set before \<and>
    (case answer of Inl e \<Rightarrow> is_not_found e | Inr run \<Rightarrow> or_uid ref \<noteq> '''' \<and> or_uid ref \<noteq> ru_uid run)"
proof -
  have "adapter_policy api before (CutChild c)"
    by (rule addsD [OF adapter_sweep_adds assms(1) _ assms(2)]) simp
  then show ?thesis unfolding adapter_policy_effects owner_gone_def .
qed

definition after_adapter_sweep :: "store sweep_state" where
  "after_adapter_sweep = snd (run_state (adapter_sweep store_api (new_adapter_sweeper ''jobs'' 0))
     \<lparr>sw_world = sample_store\<lparr>so_runs := []\<rparr>, sw_log = []\<rparr>)"

theorem adapter_sweep_needs_owner_reference_witness:
  "\<exists>before after c. sw_log after_adapter_sweep = before @ CutChild c # after \<and>
    (\<exists>ref answer. criteria_run_owner_ref_of c = Some ref \<and>
      OwnerRead (child_namespace c, or_name ref) answer \<in> set before \<and>
      (case answer of Inl e \<Rightarrow> is_not_found e | Inr run \<Rightarrow> or_uid ref \<noteq> '''' \<and> or_uid ref \<noteq> ru_uid run))"
proof -
  have "1 < length (sw_log after_adapter_sweep) \<and> cuts_child (sw_log after_adapter_sweep ! 1)" by code_simp
  then have "1 < length (sw_log after_adapter_sweep)" "cuts_child (sw_log after_adapter_sweep ! 1)" by blast+
  then obtain c where l: "sw_log after_adapter_sweep =
      take 1 (sw_log after_adapter_sweep) @ CutChild c # drop (Suc 1) (sw_log after_adapter_sweep)"
    by (rule log_at_cut)
  show ?thesis
    by (rule exI, rule exI, rule exI, rule conjI [OF l], rule adapter_sweep_needs_owner_reference
        [where api = store_api and s = "new_adapter_sweeper ''jobs'' 0" and w = "sample_store\<lparr>so_runs := []\<rparr>", OF _ l])
      (simp add: after_adapter_sweep_def prod_eq_iff)
qed

end
