(* ===== verification/Backfill.thy ===== *)
theory Backfill
  imports ReconcileSafety
begin

text \<open>
  The archive backfill (\<open>internal/controller/backfill_archive.go\<close>): every finished run without an archive
  id is put through the reconciler's own archive gate, page by page, and the outcomes are counted. The listing is an
  argument; the page loop has fuel.
\<close>

section \<open>Operations\<close>

record backfill_result =
  bf_terminalRuns :: nat
  bf_alreadyArchived :: nat
  bf_archived :: nat
  bf_failed :: nat

definition no_backfill :: backfill_result where
  "no_backfill = \<lparr>bf_terminalRuns = 0, bf_alreadyArchived = 0, bf_archived = 0, bf_failed = 0\<rparr>"

definition enrich_backfill_run :: "'w reconciler \<Rightarrow> criteria_run \<Rightarrow> ('w, observation) pass" where
  "enrich_backfill_run op run =
     (if \<not> op_castle op then ret zero_observation
      else let known = castle_run_id_from_run run; runnerJob = st_jobName (ru_status run)
        in if known = '''' \<and> runnerJob = '''' then ret zero_observation
           else do {
             seen \<leftarrow> call (k_observe (op_api op) runnerJob known) (\<lambda>_. []);
             ret (case seen of Inl e \<Rightarrow> zero_observation | Inr obs \<Rightarrow> obs)
           })"

definition backfill_one :: "'w reconciler \<Rightarrow> backfill_result \<Rightarrow> criteria_run \<Rightarrow> ('w, backfill_result) pass" where
  "backfill_one op res0 run =
     (if \<not> is_terminal_phase (st_phase (ru_status run)) then ret res0
      else let res = res0\<lparr>bf_terminalRuns := bf_terminalRuns res0 + 1\<rparr>
        in if st_archiveID (ru_status run) \<noteq> ''''
           then ret (res\<lparr>bf_alreadyArchived := bf_alreadyArchived res + 1\<rparr>)
           else if \<not> op_runArchiver op then ret res
           else do {
             obs \<leftarrow> enrich_backfill_run op run;
             out \<leftarrow> ensure_terminal_archived op run (Some obs);
             ret (case out of
                Inl e \<Rightarrow> res\<lparr>bf_failed := bf_failed res + 1\<rparr>
              | Inr u \<Rightarrow> res\<lparr>bf_archived := bf_archived res + 1\<rparr>)
           })"

fun backfill_page :: "'w reconciler \<Rightarrow> backfill_result \<Rightarrow> criteria_run list \<Rightarrow> ('w, backfill_result) pass" where
  "backfill_page op res [] = ret res"
| "backfill_page op res (run # runs) = do { res' \<leftarrow> backfill_one op res run; backfill_page op res' runs }"

type_synonym 'w lister = "string \<Rightarrow> string \<Rightarrow> 'w \<Rightarrow> (go_error + criteria_run list \<times> string) \<times> 'w"

fun backfill_pages ::
  "nat \<Rightarrow> 'w lister \<Rightarrow> 'w reconciler \<Rightarrow> string \<Rightarrow> string \<Rightarrow> backfill_result \<Rightarrow>
   ('w, (backfill_result \<times> go_error option) option) pass" where
  "backfill_pages 0 lister op ns cont res = ret None"
| "backfill_pages (Suc fuel) lister op ns cont res = do {
     page \<leftarrow> call (lister ns cont) (\<lambda>_. []);
     case page of
       Inl e \<Rightarrow> ret (Some (res, Some (Wrapped ''listing CriteriaRuns for run-archive backfill'' e)))
     | Inr (items, next) \<Rightarrow> do {
         res' \<leftarrow> backfill_page op res items;
         if next = '''' then ret (Some (res', None)) else backfill_pages fuel lister op ns next res'
       }
   }"

definition backfill_run_archives ::
  "nat \<Rightarrow> 'w lister \<Rightarrow> 'w reconciler \<Rightarrow> string \<Rightarrow> ('w, (backfill_result \<times> go_error option) option) pass" where
  "backfill_run_archives fuel lister op ns = backfill_pages fuel lister op ns '''' no_backfill"

definition count_missing_run_archives :: "'w lister \<Rightarrow> string \<Rightarrow> ('w, nat) attempt" where
  "count_missing_run_archives lister ns =
     attempt ''listing CriteriaRuns for archive coverage'' (call (lister ns '''') (\<lambda>_. [])) (\<lambda>(items, next).
       ok (length (filter (\<lambda>run. is_terminal_phase (st_phase (ru_status run)) \<and> st_archiveID (ru_status run) = '''') items)))"

section \<open>Accounting\<close>

fun archives :: "effect \<Rightarrow> bool" where
  "archives (ArchivedRun k aid) = True"
| "archives e = False"

definition terminals :: "criteria_run list \<Rightarrow> criteria_run list" where
  "terminals = filter (\<lambda>r. is_terminal_phase (st_phase (ru_status r)))"

definition stored :: "criteria_run list \<Rightarrow> criteria_run list" where
  "stored = filter (\<lambda>r. st_archiveID (ru_status r) \<noteq> '''')"

text \<open>The tallies a pass over some runs adds, given the archive answers it got.\<close>

definition tallies :: "backfill_result \<Rightarrow> backfill_result \<Rightarrow> criteria_run list \<Rightarrow> nat \<Rightarrow> bool" where
  "tallies res res' runs landed \<longleftrightarrow>
     bf_terminalRuns res' = bf_terminalRuns res + length (terminals runs) \<and>
     bf_alreadyArchived res' = bf_alreadyArchived res + length (stored (terminals runs)) \<and>
     bf_archived res' + bf_failed res' + length (stored (terminals runs)) =
       bf_archived res + bf_failed res + length (terminals runs) \<and>
     bf_archived res \<le> bf_archived res' \<and> bf_archived res' \<le> bf_archived res + landed"

lemma tallies_refl: "tallies res res [] 0"
  by (simp add: tallies_def terminals_def stored_def)

lemma tallies_append:
  "tallies res res1 runs1 n1 \<Longrightarrow> tallies res1 res2 runs2 n2 \<Longrightarrow> tallies res res2 (runs1 @ runs2) (n1 + n2)"
  by (auto simp: tallies_def terminals_def stored_def)

text \<open>An answer without error comes only after an archive answer of the same computation.\<close>

definition lands :: "('w, 'a) attempt \<Rightarrow> bool" where
  "lands m \<longleftrightarrow> (\<forall>s out s'. run_state m s = (out, s') \<longrightarrow>
     (\<exists>new. os_log s' = os_log s @ new \<and> (\<forall>a. out = Inr a \<longrightarrow> (\<exists>e \<in> set new. archives e))))"

lemma landsD:
  assumes "lands m" and "run_state m s = (out, s')"
  shows "\<exists>new. os_log s' = os_log s @ new \<and> (\<forall>a. out = Inr a \<longrightarrow> (\<exists>e \<in> set new. archives e))"
  by (rule assms(1) [unfolded lands_def, rule_format, OF assms(2), unfolded atomize_all atomize_imp])

lemma appends_log: "appends A m \<Longrightarrow> run_state m s = (a, s') \<Longrightarrow> \<exists>new. os_log s' = os_log s @ new"
  unfolding appends_def by blast

lemma lands_failing: "appends A m \<Longrightarrow> answers m (\<lambda>_. False) \<Longrightarrow> lands m"
  unfolding lands_def answers_def by (metis appends_log)

lemma lands_quiet:
  assumes "appends A m" and "\<And>a. lands (f a)"
  shows "lands (State_Monad.bind m f)"
  unfolding lands_def
proof (intro allI impI)
  fix s out s' assume "run_state (State_Monad.bind m f) s = (out, s')"
  then obtain a s1 where run: "run_state m s = (a, s1)" "run_state (f a) s1 = (out, s')"
    by (auto split: prod.splits)
  obtain n1 where "os_log s1 = os_log s @ n1" using appends_log [OF assms(1) run(1)] by blast
  moreover obtain n2 where "os_log s' = os_log s1 @ n2" "\<forall>b. out = Inr b \<longrightarrow> (\<exists>e \<in> set n2. archives e)"
    using landsD [OF assms(2) run(2)] by blast
  ultimately show "\<exists>new. os_log s' = os_log s @ new \<and> (\<forall>a. out = Inr a \<longrightarrow> (\<exists>e \<in> set new. archives e))"
    by (intro exI [of _ "n1 @ n2"]) auto
qed

text \<open>After a call that may store the record: its success already is the evidence.\<close>

lemma lands_stored:
  assumes "lands m" and "\<And>aid. appends A (f (Inr aid))" and "\<And>e. lands (f (Inl e))"
  shows "lands (State_Monad.bind m f)"
  unfolding lands_def
proof (intro allI impI)
  fix s out s' assume "run_state (State_Monad.bind m f) s = (out, s')"
  then obtain a s1 where run: "run_state m s = (a, s1)" "run_state (f a) s1 = (out, s')"
    by (auto split: prod.splits)
  obtain n1 where n1: "os_log s1 = os_log s @ n1" "\<forall>b. a = Inr b \<longrightarrow> (\<exists>e \<in> set n1. archives e)"
    using landsD [OF assms(1) run(1)] by blast
  show "\<exists>new. os_log s' = os_log s @ new \<and> (\<forall>a. out = Inr a \<longrightarrow> (\<exists>e \<in> set new. archives e))"
  proof (cases a)
    case (Inl e)
    then have "run_state (f (Inl e)) s1 = (out, s')" using run(2) by simp
    from landsD [OF assms(3) this] obtain n2 where "os_log s' = os_log s1 @ n2"
      "\<forall>b. out = Inr b \<longrightarrow> (\<exists>e \<in> set n2. archives e)" by (elim exE conjE)
    with n1 show ?thesis by (intro exI [of _ "n1 @ n2"]) auto
  next
    case (Inr aid)
    then have "run_state (f (Inr aid)) s1 = (out, s')" using run(2) by simp
    from appends_log [OF assms(2) this] obtain n2 where "os_log s' = os_log s1 @ n2" by (elim exE)
    with n1 Inr show ?thesis by (intro exI [of _ "n1 @ n2"]) auto
  qed
qed

lemma lands_archive: "lands (archive_run op run rec)"
  unfolding lands_def archive_run_def call_def on_ok_def by (auto split: prod.splits sum.splits)

lemma lands_cr_uid: "lands (archive_with_cr_uid_key op run rec)"
  unfolding archive_with_cr_uid_key_def
  by (simp add: lands_archive lands_failing [OF appends_ok(2) answers_fail])

lemma lands_pending: "lands (mark_terminal_archive_pending op run reason msg)"
  by (rule lands_failing [OF mark_pending_appends pending_fails]) simp

lemma lands_not_yet: "lands (not_yet_stored op run e)"
  unfolding not_yet_stored_def by (rule lands_pending)

lemma archived_appends_any: "appends (\<lambda>_. True) (mark_terminal_archived op run aid)"
  by (rule mark_archived_appends) simp

lemma ensure_lands:
  assumes "op_runArchiver op" and "st_archiveID (ru_status run) = ''''"
  shows "lands (ensure_terminal_archived op run obs)"
proof -
  have "lands (do {
        resp \<leftarrow> archive_run op run rec;
        case resp of
          Inr aid \<Rightarrow> mark_terminal_archived op run aid
        | Inl e \<Rightarrow>
            (if is_run_backed_record rec \<and> ru_uid run \<noteq> '''' \<and>
                (err_is e CodeNotFound \<or> err_is e CodePermissionDenied)
             then do {
               again \<leftarrow> archive_with_cr_uid_key op run rec;
               case again of Inr aid \<Rightarrow> mark_terminal_archived op run aid | Inl fb \<Rightarrow> not_yet_stored op run e
             }
             else not_yet_stored op run e) })" for rec
  proof (rule lands_stored [where A = "\<lambda>_. True", OF lands_archive])
    fix e
    have "lands (do {
        again \<leftarrow> archive_with_cr_uid_key op run rec;
        case again of Inr aid \<Rightarrow> mark_terminal_archived op run aid | Inl fb \<Rightarrow> not_yet_stored op run e })"
      by (rule lands_stored [where A = "\<lambda>_. True", OF lands_cr_uid]) (simp_all add: archived_appends_any lands_not_yet)
    then show "lands (case Inl e of
          Inr aid \<Rightarrow> mark_terminal_archived op run aid
        | Inl e \<Rightarrow>
            (if is_run_backed_record rec \<and> ru_uid run \<noteq> '''' \<and>
                (err_is e CodeNotFound \<or> err_is e CodePermissionDenied)
             then do {
               again \<leftarrow> archive_with_cr_uid_key op run rec;
               case again of Inr aid \<Rightarrow> mark_terminal_archived op run aid | Inl fb \<Rightarrow> not_yet_stored op run e
             }
             else not_yet_stored op run e))"
      by (simp add: lands_not_yet)
  qed (simp add: archived_appends_any)
  then show ?thesis
    unfolding ensure_terminal_archived_def using assms
    by (auto intro!: lands_quiet [OF build_record_appends] lands_pending split: sum.splits)
qed

lemma enrich_appends: "appends A (enrich_backfill_run op run)"
  unfolding enrich_backfill_run_def Let_def by (auto intro!: effects)

lemma backfill_one_tallies:
  assumes "op_runArchiver op" and "run_state (backfill_one op res run) s = (res', s')"
  shows "\<exists>new. os_log s' = os_log s @ new \<and> tallies res res' [run] (length (filter archives new))"
proof (cases "is_terminal_phase (st_phase (ru_status run)) \<and> st_archiveID (ru_status run) = ''''")
  case False
  then have "os_log s' = os_log s \<and> tallies res res' [run] 0"
    using assms by (auto simp: backfill_one_def tallies_def terminals_def stored_def Let_def split: if_splits)
  then show ?thesis by (intro exI [of _ "[]"]) simp
next
  case True
  then have "run_state (do { obs \<leftarrow> enrich_backfill_run op run; ensure_terminal_archived op run (Some obs) }) s =
      (out, t) \<Longrightarrow> s' = t \<and> res' = (case out of
         Inl e \<Rightarrow> res\<lparr>bf_terminalRuns := bf_terminalRuns res + 1, bf_failed := bf_failed res + 1\<rparr>
       | Inr u \<Rightarrow> res\<lparr>bf_terminalRuns := bf_terminalRuns res + 1, bf_archived := bf_archived res + 1\<rparr>)" for out t
    using assms by (auto simp: backfill_one_def Let_def split: prod.splits sum.splits)
  moreover obtain out t where run: "run_state (do { obs \<leftarrow> enrich_backfill_run op run;
      ensure_terminal_archived op run (Some obs) }) s = (out, t)" by fastforce
  ultimately have res': "s' = t" "res' = (case out of
         Inl e \<Rightarrow> res\<lparr>bf_terminalRuns := bf_terminalRuns res + 1, bf_failed := bf_failed res + 1\<rparr>
       | Inr u \<Rightarrow> res\<lparr>bf_terminalRuns := bf_terminalRuns res + 1, bf_archived := bf_archived res + 1\<rparr>)" by blast+
  have "lands (do { obs \<leftarrow> enrich_backfill_run op run; ensure_terminal_archived op run (Some obs) })"
    using True assms(1) by (intro lands_quiet [OF enrich_appends] ensure_lands) auto
  then obtain new where new: "os_log t = os_log s @ new" "\<forall>a. out = Inr a \<longrightarrow> (\<exists>e \<in> set new. archives e)"
    using landsD [OF _ run] by blast
  have "out = Inr a \<Longrightarrow> 1 \<le> length (filter archives new)" for a
    using new(2) by (cases "filter archives new") (auto simp: filter_empty_conv)
  with True res' new(1) show ?thesis
    by (intro exI [of _ new]) (auto simp: tallies_def terminals_def stored_def split: sum.splits)
qed

lemma backfill_page_tallies:
  assumes "op_runArchiver op" and "run_state (backfill_page op res runs) s = (res', s')"
  shows "\<exists>new. os_log s' = os_log s @ new \<and> tallies res res' runs (length (filter archives new))"
  using assms(2)
proof (induction runs arbitrary: res s)
  case (Cons run runs)
  then obtain res1 s1 where one: "run_state (backfill_one op res run) s = (res1, s1)"
    and rest: "run_state (backfill_page op res1 runs) s1 = (res', s')" by (auto split: prod.splits)
  obtain n1 where n1: "os_log s1 = os_log s @ n1" "tallies res res1 [run] (length (filter archives n1))"
    using backfill_one_tallies [OF assms(1) one] by blast
  obtain n2 where n2: "os_log s' = os_log s1 @ n2" "tallies res1 res' runs (length (filter archives n2))"
    using Cons.IH [OF rest] by blast
  show ?case
    using n1 n2 tallies_append [OF n1(2) n2(2)] by (intro exI [of _ "n1 @ n2"]) simp
qed (auto simp: tallies_refl)

text \<open>A listing whose pages do not change while they are walked: the tokens lead through these pages.\<close>

inductive chain :: "(string \<Rightarrow> criteria_run list \<times> string) \<Rightarrow> string \<Rightarrow> criteria_run list list \<Rightarrow> bool"
  for page where
  chain_last: "page cont = (items, '''') \<Longrightarrow> chain page cont [items]"
| chain_more: "page cont = (items, next) \<Longrightarrow> next \<noteq> '''' \<Longrightarrow> chain page next pages \<Longrightarrow> chain page cont (items # pages)"

lemma backfill_pages_tallies:
  assumes "op_runArchiver op" and "\<And>cont w. fst (lister ns cont w) = Inr (page cont)"
  shows "chain page cont pages \<Longrightarrow> length pages \<le> fuel \<Longrightarrow>
    \<exists>res' s' new. run_state (backfill_pages fuel lister op ns cont res) s = (Some (res', None), s') \<and>
      os_log s' = os_log s @ new \<and> tallies res res' (concat pages) (length (filter archives new))"
proof (induction arbitrary: fuel res s rule: chain.induct)
  case (chain_last cont items)
  obtain n where n: "fuel = Suc n" using chain_last.prems by (cases fuel) auto
  obtain w where w: "lister ns cont (os_world s) = (Inr (items, ''''), w)"
    using assms(2) [of cont "os_world s"] chain_last.hyps by (cases "lister ns cont (os_world s)") auto
  obtain res' s' where page: "run_state (backfill_page op res items) (s\<lparr>os_world := w, os_log := os_log s @ []\<rparr>) = (res', s')"
    by fastforce
  from backfill_page_tallies [OF assms(1) page] obtain new where
    "os_log s' = os_log s @ new" "tallies res res' items (length (filter archives new))" by auto
  with n w page show ?case by (auto simp: call_def)
next
  case (chain_more cont items "next" pages)
  obtain n where n: "fuel = Suc n" "length pages \<le> n" using chain_more.prems by (cases fuel) auto
  obtain w where w: "lister ns cont (os_world s) = (Inr (items, next), w)"
    using assms(2) [of cont "os_world s"] chain_more.hyps(1) by (cases "lister ns cont (os_world s)") auto
  obtain res1 s1 where page: "run_state (backfill_page op res items) (s\<lparr>os_world := w, os_log := os_log s @ []\<rparr>) = (res1, s1)"
    by fastforce
  from backfill_page_tallies [OF assms(1) page] obtain n1 where
    n1: "os_log s1 = os_log s @ n1" "tallies res res1 items (length (filter archives n1))" by auto
  obtain res' s' n2 where rest: "run_state (backfill_pages n lister op ns next res1) s1 = (Some (res', None), s')"
    "os_log s' = os_log s1 @ n2" "tallies res1 res' (concat pages) (length (filter archives n2))"
    using chain_more.IH [OF n(2), of res1 s1] by blast
  show ?case
    using n w page rest n1 chain_more.hyps(2) tallies_append [OF n1(2) rest(3)]
    by (intro exI [of _ res'] exI [of _ s'] exI [of _ "n1 @ n2"]) (simp add: call_def)
qed

text \<open>
  A backfill over a stable listing returns, with enough fuel for its pages, and its counts account for
  every run: the finished runs of all pages, those that had an archive id already, and each other one
  as archived or failed; and no run counts as archived without an answer of the archive service.
\<close>

theorem backfill_accounts_for_every_run:
  assumes "op_runArchiver op" and "\<And>cont w. fst (lister ns cont w) = Inr (page cont)"
    and "chain page '''' pages" and "length pages \<le> fuel" and "os_log s = []"
  shows "\<exists>res s'. run_state (backfill_run_archives fuel lister op ns) s = (Some (res, None), s') \<and>
    bf_terminalRuns res = length (terminals (concat pages)) \<and>
    bf_alreadyArchived res = length (stored (terminals (concat pages))) \<and>
    bf_terminalRuns res = bf_alreadyArchived res + bf_archived res + bf_failed res \<and>
    bf_archived res \<le> length (filter archives (os_log s'))"
proof -
  obtain res s' new where run: "run_state (backfill_run_archives fuel lister op ns) s = (Some (res, None), s')"
    "os_log s' = os_log s @ new" "tallies no_backfill res (concat pages) (length (filter archives new))"
    using backfill_pages_tallies [where lister = lister and ns = ns and page = page and res = no_backfill and s = s,
        OF assms(1,2) assms(3,4)] unfolding backfill_run_archives_def by blast
  then show ?thesis using assms(5) by (auto simp: tallies_def no_backfill_def)
qed

definition unarchived_run :: criteria_run where
  "unarchived_run = cluster_run\<lparr>ru_status := zero_status\<lparr>st_phase := PhaseSucceeded\<rparr>\<rparr>"

definition one_page :: "string \<Rightarrow> criteria_run list \<times> string" where
  "one_page cont = ([unarchived_run, cluster_run], '''')"

definition backfill_state :: "cluster op_state" where
  "backfill_state = cluster_state unarchived_run [] [] zero_observation"

theorem backfill_accounts_for_every_run_witness:
  "\<exists>res s'. run_state (backfill_run_archives 1 (\<lambda>ns cont w. (Inr (one_page cont), w)) cluster_op ''jobs'') backfill_state =
      (Some (res, None), s') \<and>
    bf_terminalRuns res = length (terminals [unarchived_run, cluster_run]) \<and>
    bf_terminalRuns res = bf_alreadyArchived res + bf_archived res + bf_failed res"
proof -
  have "chain one_page '''' [[unarchived_run, cluster_run]]" by (rule chain_last) (simp add: one_page_def)
  moreover have "op_runArchiver cluster_op" by (simp add: cluster_op_def)
  moreover have "os_log backfill_state = []" by (simp add: backfill_state_def cluster_state_def)
  ultimately show ?thesis
    using backfill_accounts_for_every_run [of cluster_op "\<lambda>ns cont w. (Inr (one_page cont), w)" "''jobs''" one_page
        "[[unarchived_run, cluster_run]]" 1 backfill_state] by auto
qed

end
