(* ===== verification/DataSweep.thy ===== *)
theory DataSweep
  imports RouteTable GoPath "HOL-Library.State_Monad"
begin

text \<open>
  The artifact sweep (\<open>internal/controller/retention.go\<close>): ticket directories under the intake and triage
  roots whose newest known modification is older than the window are removed. The file system is an argument; the
  sweep logs what it looked at and what it removed.
\<close>

section \<open>Operations\<close>

record 'w data_fs =
  fs_readDir :: "string \<Rightarrow> 'w \<Rightarrow> (go_error + (string \<times> bool) list) \<times> 'w"
  fs_stat :: "string \<Rightarrow> 'w \<Rightarrow> (go_error + gotime) \<times> 'w"
  fs_removeAll :: "string \<Rightarrow> 'w \<Rightarrow> (go_error + unit) \<times> 'w"
  fs_clock :: "'w \<Rightarrow> gotime \<times> 'w"

datatype data_effect = Statted string "go_error + gotime" | RemovedAll string

type_synonym ('w, 'a) data_pass = "('w \<times> data_effect list, 'a) state"

definition data_call :: "('w \<Rightarrow> 'a \<times> 'w) \<Rightarrow> ('a \<Rightarrow> data_effect list) \<Rightarrow> ('w, 'a) data_pass" where
  "data_call f eff = State (\<lambda>(w, l). let (a, w') = f w in (a, (w', l @ eff a)))"

definition stat_path :: "'w data_fs \<Rightarrow> string \<Rightarrow> ('w, go_error + gotime) data_pass" where
  "stat_path fs p = data_call (fs_stat fs p) (\<lambda>r. [Statted p r])"

record retention_sweeper =
  rw_dataRoot :: string
  rw_retention :: duration
  rw_interval :: duration

definition new_retention_sweeper :: "string \<Rightarrow> duration \<Rightarrow> duration \<Rightarrow> retention_sweeper" where
  "new_retention_sweeper dataRoot retention interval = \<lparr>
     rw_dataRoot = (if dataRoot = '''' then ''/data'' else dataRoot),
     rw_retention = (if retention \<le> 0 then 7 * 24 * hour else retention),
     rw_interval = (if interval \<le> 0 then hour else interval)\<rparr>"

definition artifact_files :: "bool \<Rightarrow> string list" where
  "artifact_files intake =
     (if intake then [''approved-plan.json'', ''review-notes.md'']
      else [''events.ndjson'', ''approved-plan.json'', ''review-notes.md''])"

fun max_mod :: "'w data_fs \<Rightarrow> string \<Rightarrow> gotime \<Rightarrow> string list \<Rightarrow> ('w, gotime) data_pass" where
  "max_mod fs dir recent [] = State_Monad.return recent"
| "max_mod fs dir recent (name # names) = do {
     info \<leftarrow> stat_path fs (path_join [dir, name]);
     max_mod fs dir (case info of Inr t \<Rightarrow> if t > recent then t else recent | Inl e \<Rightarrow> recent) names
   }"

text \<open>One entry of a root; the answer counts removed and kept directories.\<close>

definition sweep_entry ::
  "'w data_fs \<Rightarrow> gotime \<Rightarrow> bool \<Rightarrow> string \<Rightarrow> nat \<times> nat \<Rightarrow> string \<times> bool \<Rightarrow> ('w, nat \<times> nat) data_pass" where
  "sweep_entry fs cutoff intake root tally entry =
     (if \<not> snd entry then State_Monad.return tally
      else let dir = path_join [root, fst entry]
        in do {
          info \<leftarrow> stat_path fs dir;
          case info of
            Inl e \<Rightarrow> State_Monad.return tally
          | Inr modTime \<Rightarrow> do {
              recent \<leftarrow> max_mod fs dir modTime (artifact_files intake);
              if recent > cutoff then State_Monad.return (fst tally, snd tally + 1)
              else do {
                res \<leftarrow> data_call (fs_removeAll fs dir) (\<lambda>_. [RemovedAll dir]);
                State_Monad.return (case res of Inl e \<Rightarrow> tally | Inr u \<Rightarrow> (fst tally + 1, snd tally))
              }
            }
        })"

fun sweep_entries ::
  "'w data_fs \<Rightarrow> gotime \<Rightarrow> bool \<Rightarrow> string \<Rightarrow> nat \<times> nat \<Rightarrow> (string \<times> bool) list \<Rightarrow> ('w, nat \<times> nat) data_pass" where
  "sweep_entries fs cutoff intake root tally [] = State_Monad.return tally"
| "sweep_entries fs cutoff intake root tally (entry # entries) = do {
     tally' \<leftarrow> sweep_entry fs cutoff intake root tally entry;
     sweep_entries fs cutoff intake root tally' entries
   }"

definition sweep_root ::
  "'w data_fs \<Rightarrow> gotime \<Rightarrow> string \<Rightarrow> bool \<Rightarrow> nat \<times> nat \<Rightarrow> ('w, nat \<times> nat) data_pass" where
  "sweep_root fs cutoff root intake tally = do {
     entries \<leftarrow> data_call (fs_readDir fs root) (\<lambda>_. []);
     case entries of
       Inl e \<Rightarrow> State_Monad.return tally
     | Inr es \<Rightarrow> sweep_entries fs cutoff intake root tally es
   }"

definition data_sweep :: "'w data_fs \<Rightarrow> retention_sweeper \<Rightarrow> ('w, nat \<times> nat) data_pass" where
  "data_sweep fs s = do {
     now \<leftarrow> data_call (fs_clock fs) (\<lambda>_. []);
     tally \<leftarrow> sweep_root fs (now - rw_retention s) (path_join [rw_dataRoot s, ''intake'']) True (0, 0);
     sweep_root fs (now - rw_retention s) (path_join [rw_dataRoot s, ''triage'']) False tally
   }"

section \<open>What a sweep looks at and what it removes\<close>

definition old :: "gotime \<Rightarrow> go_error + gotime \<Rightarrow> bool" where
  "old cutoff r = (case r of Inr t \<Rightarrow> t \<le> cutoff | Inl e \<Rightarrow> True)"

text \<open>
  The visit of a directory: its own time, then the times of its artifacts, and the removal exactly when none of
  them is after the cutoff. A directory whose own time cannot be read is left.
\<close>

definition visit :: "gotime \<Rightarrow> bool \<Rightarrow> string \<Rightarrow> data_effect list \<Rightarrow> bool" where
  "visit cutoff intake dir l \<longleftrightarrow>
     (\<exists>e. l = [Statted dir (Inl e)]) \<or>
     (\<exists>t rs. length rs = length (artifact_files intake) \<and>
        l = Statted dir (Inr t) # map2 Statted (map (\<lambda>n. path_join [dir, n]) (artifact_files intake)) rs @
            (if t \<le> cutoff \<and> list_all (old cutoff) rs then [RemovedAll dir] else []))"

lemma max_mod_log:
  assumes "run_state (max_mod fs dir recent names) (w, l) = (recent', (w', l'))"
  shows "\<exists>rs. length rs = length names \<and> l' = l @ map2 Statted (map (\<lambda>n. path_join [dir, n]) names) rs \<and>
    (recent' \<le> cutoff \<longleftrightarrow> recent \<le> cutoff \<and> list_all (old cutoff) rs)"
  using assms
proof (induction names arbitrary: recent w l)
  case (Cons name names)
  obtain r w1 where r: "fs_stat fs (path_join [dir, name]) w = (r, w1)" by fastforce
  let ?recent = "case r of Inr t \<Rightarrow> if t > recent then t else recent | Inl e \<Rightarrow> recent"
  have "run_state (max_mod fs dir ?recent names) (w1, l @ [Statted (path_join [dir, name]) r]) = (recent', (w', l'))"
    using Cons.prems r by (simp add: stat_path_def data_call_def)
  from Cons.IH [OF this] obtain rs where rs: "length rs = length names"
    "l' = (l @ [Statted (path_join [dir, name]) r]) @ map2 Statted (map (\<lambda>n. path_join [dir, n]) names) rs"
    "recent' \<le> cutoff \<longleftrightarrow> ?recent \<le> cutoff \<and> list_all (old cutoff) rs" by blast
  have "?recent \<le> cutoff \<longleftrightarrow> recent \<le> cutoff \<and> old cutoff r"
    by (auto simp: old_def split: sum.splits)
  with rs show ?case by (intro exI [of _ "r # rs"]) auto
qed simp

lemma sweep_entry_log:
  assumes "run_state (sweep_entry fs cutoff intake root tally entry) (w, l) = (tally', (w', l'))"
  shows "\<exists>new. l' = l @ new \<and>
    (if snd entry then visit cutoff intake (path_join [root, fst entry]) new else new = [])"
proof (cases "snd entry")
  case False
  with assms show ?thesis by (simp add: sweep_entry_def)
next
  case True
  let ?dir = "path_join [root, fst entry]"
  obtain r w1 where r: "fs_stat fs ?dir w = (r, w1)" by fastforce
  show ?thesis
  proof (cases r)
    case (Inl e)
    with assms True r show ?thesis
      by (auto simp: sweep_entry_def stat_path_def data_call_def Let_def visit_def)
  next
    case (Inr t)
    obtain recent w2 l2 where m: "run_state (max_mod fs ?dir t (artifact_files intake)) (w1, l @ [Statted ?dir r]) = (recent, (w2, l2))"
      by (metis prod.exhaust)
    from max_mod_log [OF m, of cutoff] obtain rs where rs: "length rs = length (artifact_files intake)"
      "l2 = (l @ [Statted ?dir r]) @ map2 Statted (map (\<lambda>n. path_join [?dir, n]) (artifact_files intake)) rs"
      "recent \<le> cutoff \<longleftrightarrow> t \<le> cutoff \<and> list_all (old cutoff) rs" by blast
    have "l' = l2 @ (if recent \<le> cutoff then [RemovedAll ?dir] else [])"
      using assms True r Inr m
      by (auto simp: sweep_entry_def stat_path_def data_call_def Let_def split: if_splits prod.splits)
    with rs Inr True show ?thesis unfolding visit_def by auto
  qed
qed

definition visits :: "gotime \<Rightarrow> bool \<Rightarrow> string \<Rightarrow> (string \<times> bool) list \<Rightarrow> data_effect list \<Rightarrow> bool" where
  "visits cutoff intake root entries l \<longleftrightarrow>
     (\<exists>ls. length ls = length (filter snd entries) \<and> l = concat ls \<and>
        list_all2 (\<lambda>entry. visit cutoff intake (path_join [root, fst entry])) (filter snd entries) ls)"

lemma sweep_entries_log:
  assumes "run_state (sweep_entries fs cutoff intake root tally entries) (w, l) = (tally', (w', l'))"
  shows "\<exists>new. l' = l @ new \<and> visits cutoff intake root entries new"
  using assms
proof (induction entries arbitrary: tally w l)
  case Nil
  then show ?case by (simp add: visits_def)
next
  case (Cons entry entries)
  obtain t1 w1 l1 where one: "run_state (sweep_entry fs cutoff intake root tally entry) (w, l) = (t1, (w1, l1))"
    by (metis prod.exhaust)
  with Cons.prems have rest: "run_state (sweep_entries fs cutoff intake root t1 entries) (w1, l1) = (tally', (w', l'))"
    by simp
  obtain n1 where n1: "l1 = l @ n1"
    "if snd entry then visit cutoff intake (path_join [root, fst entry]) n1 else n1 = []"
    using sweep_entry_log [OF one] by blast
  obtain ls where ls: "l' = l1 @ concat ls" "length ls = length (filter snd entries)"
    "list_all2 (\<lambda>entry. visit cutoff intake (path_join [root, fst entry])) (filter snd entries) ls"
    using Cons.IH [OF rest] unfolding visits_def by blast
  show ?case
  proof (cases "snd entry")
    case True
    with n1 ls show ?thesis
      unfolding visits_def by (intro exI [of _ "n1 @ concat ls"] conjI exI [of _ "n1 # ls"]) auto
  next
    case False
    with n1 ls show ?thesis
      unfolding visits_def by (intro exI [of _ "concat ls"] conjI exI [of _ ls]) auto
  qed
qed

lemma sweep_root_log:
  assumes "run_state (sweep_root fs cutoff root intake tally) (w, l) = (tally', (w', l'))"
  shows "\<exists>entries new. l' = l @ new \<and> visits cutoff intake root entries new \<and>
    (case fst (fs_readDir fs root w) of Inl e \<Rightarrow> entries = [] | Inr es \<Rightarrow> entries = es)"
proof -
  obtain r w1 where r: "fs_readDir fs root w = (r, w1)" by fastforce
  show ?thesis
  proof (cases r)
    case (Inl e)
    with assms r show ?thesis by (auto simp: sweep_root_def data_call_def visits_def)
  next
    case (Inr es)
    with assms r have "run_state (sweep_entries fs cutoff intake root tally es) (w1, l) = (tally', (w', l'))"
      by (simp add: sweep_root_def data_call_def)
    from sweep_entries_log [OF this] r Inr show ?thesis by auto
  qed
qed

text \<open>
  An artifact sweep visits the directories of the intake root, then those of the triage root, and
  removes a directory exactly when its own modification time and those of its known artifacts, as read in
  the visit, are all outside the window. Event files of an intake directory are not looked at.
\<close>

theorem data_sweep_exact:
  assumes "fs_clock fs w = (now, w0)"
    and "run_state (data_sweep fs s) (w, []) = (tally, (w', l'))"
  shows "\<exists>intakes triages l1 l2. l' = l1 @ l2 \<and>
    visits (now - rw_retention s) True (path_join [rw_dataRoot s, ''intake'']) intakes l1 \<and>
    visits (now - rw_retention s) False (path_join [rw_dataRoot s, ''triage'']) triages l2 \<and>
    (case fst (fs_readDir fs (path_join [rw_dataRoot s, ''intake'']) w0) of Inl e \<Rightarrow> intakes = [] | Inr es \<Rightarrow> intakes = es)"
proof -
  let ?c = "now - rw_retention s"
  obtain t1 w1 l1 where one: "run_state (sweep_root fs ?c (path_join [rw_dataRoot s, ''intake'']) True (0, 0)) (w0, []) = (t1, (w1, l1))"
    by (metis prod.exhaust)
  with assms have two: "run_state (sweep_root fs ?c (path_join [rw_dataRoot s, ''triage'']) False t1) (w1, l1) = (tally, (w', l'))"
    by (simp add: data_sweep_def data_call_def)
  from sweep_root_log [OF one] sweep_root_log [OF two] show ?thesis by auto
qed

definition sample_fs :: "string list data_fs" where
  "sample_fs = \<lparr>
     fs_readDir = (\<lambda>root w. (if root = ''/data/intake'' then Inr [(''KB-1'', True), (''KB-2'', True), (''notes'', False)]
                             else Inl (ErrMsg ''no such directory''), w)),
     fs_stat = (\<lambda>p w. (if p = ''/data/intake/KB-2/review-notes.md'' then Inr 950
                        else if p = ''/data/intake/KB-1'' \<or> p = ''/data/intake/KB-2'' then Inr 10
                        else Inl (ErrMsg ''no such file''), w)),
     fs_removeAll = (\<lambda>p w. (Inr (), w @ [p])),
     fs_clock = (\<lambda>w. (1000, w))\<rparr>"

definition sample_artifacts :: retention_sweeper where
  "sample_artifacts = \<lparr>rw_dataRoot = ''/data'', rw_retention = 100, rw_interval = 1\<rparr>"

definition swept_artifacts :: "(nat \<times> nat) \<times> (string list \<times> data_effect list)" where
  "swept_artifacts = run_state (data_sweep sample_fs sample_artifacts) ([], [])"

theorem data_sweep_exact_witness:
  "fst swept_artifacts = (1, 1) \<and> fst (snd swept_artifacts) = [''/data/intake/KB-1''] \<and>
   (\<exists>triages l1 l2. snd (snd swept_artifacts) = l1 @ l2 \<and>
     visits 900 True ''/data/intake'' [(''KB-1'', True), (''KB-2'', True), (''notes'', False)] l1 \<and>
     visits 900 False ''/data/triage'' triages l2)"
proof -
  have run: "run_state (data_sweep sample_fs sample_artifacts) ([], []) =
      (fst swept_artifacts, (fst (snd swept_artifacts), snd (snd swept_artifacts)))"
    by (simp add: swept_artifacts_def)
  have clock: "fs_clock sample_fs [] = (1000, [])" by (simp add: sample_fs_def)
  have paths: "path_join [''/data'', ''intake''] = ''/data/intake''" "path_join [''/data'', ''triage''] = ''/data/triage''"
    by code_simp+
  have "fst swept_artifacts = (1, 1) \<and> fst (snd swept_artifacts) = [''/data/intake/KB-1'']" by code_simp
  moreover have "\<exists>triages l1 l2. snd (snd swept_artifacts) = l1 @ l2 \<and>
     visits 900 True ''/data/intake'' [(''KB-1'', True), (''KB-2'', True), (''notes'', False)] l1 \<and>
     visits 900 False ''/data/triage'' triages l2"
    using data_sweep_exact [OF clock run] by (auto simp: sample_artifacts_def paths sample_fs_def)
  ultimately show ?thesis by blast
qed

end
