(* ===== verification/BootGate.thy ===== *)
theory BootGate
  imports GraphDefs RouteTable
begin

text \<open>
  The boot gate's view (\<open>internal/controller/bootgate_view.go\<close>): which run a booting pod belongs to, and
  the document that lets it register or stops it. A request with a job identity is answered from that identity alone;
  only one without looks at the newest run of the ticket.
\<close>

section \<open>Operations\<close>

definition unix_suffix :: "string \<Rightarrow> int" where
  "unix_suffix name =
     (let i = last_index name CHR ''-''
      in if i < 0 then 0
         else case parse_int64 (drop (nat (i + 1)) name) of None \<Rightarrow> 0 | Some n \<Rightarrow> n)"

definition newer_boot :: "criteria_run \<Rightarrow> criteria_run \<Rightarrow> bool" where
  "newer_boot best c \<longleftrightarrow> ru_creationTimestamp best < ru_creationTimestamp c \<or>
     (ru_creationTimestamp best = ru_creationTimestamp c \<and> unix_suffix (ru_name c) > unix_suffix (ru_name best))"

text \<open>The list must not be empty, as in the code.\<close>

definition run_newest :: "criteria_run list \<Rightarrow> criteria_run" where
  "run_newest runs = foldl (\<lambda>best c. if newer_boot best c then c else best) (hd runs) (tl runs)"

definition namespace_or :: "string \<Rightarrow> string \<Rightarrow> string" where
  "namespace_or own requested =
     (if requested \<noteq> '''' then requested else if own \<noteq> '''' then own else ''criteria-jobs'')"

definition bootgate_terminal_phases :: "string list" where
  "bootgate_terminal_phases = [''Succeeded'', ''Failed'', ''Destroyed'']"

datatype boot_reply = BootProblem int string | BootVerdict string bool

definition reply_body :: "boot_reply \<Rightarrow> string" where
  "reply_body r = (case r of
     BootProblem code text \<Rightarrow> text
   | BootVerdict phase terminal \<Rightarrow> [CHR 0x7B] @ go_quote ''phase'' @ '':'' @ go_quote phase @ '','' @ go_quote ''terminal'' @
       '':'' @ (if terminal then ''true'' else ''false'') @ [CHR 0x7D])"

definition verdict_of :: "criteria_run option \<Rightarrow> boot_reply" where
  "verdict_of found =
     (case found of
        None \<Rightarrow> BootVerdict ''NotFound'' True
      | Some run \<Rightarrow>
          (if ru_deletionTimestamp run \<noteq> None then BootVerdict ''Deleted'' True
           else let phase = phase_text (st_phase (ru_status run))
             in BootVerdict phase (phase \<in> set bootgate_terminal_phases)))"

text \<open>The reads of the uncached client: a listing by one label and a lookup.\<close>

record 'w boot_client =
  bc_list :: "string \<Rightarrow> string \<times> string \<Rightarrow> 'w \<Rightarrow> (go_error + criteria_run list) \<times> 'w"
  bc_get :: "nsname \<Rightarrow> 'w \<Rightarrow> (go_error + criteria_run) \<times> 'w"
  bc_errText :: "go_error \<Rightarrow> string"

definition label_job :: string where "label_job = ''criteria.brokenbots.dev/job''"

definition job_run :: "'w boot_client \<Rightarrow> string \<Rightarrow> string \<Rightarrow> 'w \<Rightarrow> (string + criteria_run option) \<times> 'w" where
  "job_run bc ns job w =
     (case bc_list bc ns (label_job, job) w of
        (Inl e, w1) \<Rightarrow> (Inl (''bootgate view: CR list: '' @ bc_errText bc e), w1)
      | (Inr labeled, w1) \<Rightarrow>
          (case labeled of
             [run] \<Rightarrow> (Inr (Some run), w1)
           | _ \<Rightarrow> (case bc_get bc (ns, job) w1 of
                     (Inr run, w2) \<Rightarrow> (Inr (Some run), w2)
                   | (Inl e, w2) \<Rightarrow>
                       (if is_not_found e then (Inr None, w2)
                        else (Inl (''bootgate view: CR read: '' @ bc_errText bc e), w2)))))"

definition family_label :: "string \<Rightarrow> string" where
  "family_label ticket = ''kb-'' @ map to_lower (trim_prefix ticket ''KB-'')"

definition family_run :: "'w boot_client \<Rightarrow> string \<Rightarrow> string \<Rightarrow> 'w \<Rightarrow> (string + criteria_run option) \<times> 'w" where
  "family_run bc ns ticket w =
     (case bc_list bc ns (''ticket'', family_label ticket) w of
        (Inl e, w1) \<Rightarrow> (Inl (''bootgate view: CR list: '' @ bc_errText bc e), w1)
      | (Inr runs, w1) \<Rightarrow> (Inr (if runs = [] then None else Some (run_newest runs)), w1))"

definition serve_bootgate ::
  "'w boot_client option \<Rightarrow> string \<Rightarrow> string \<Rightarrow> string \<Rightarrow> string \<Rightarrow> 'w \<Rightarrow> boot_reply \<times> 'w" where
  "serve_bootgate bcl own qticket qjob qns w =
     (case bcl of
        None \<Rightarrow> (BootProblem 500 ''bootgate view: no client wired'', w)
      | Some bc \<Rightarrow>
          (let ticket = trim_space qticket; job = trim_space qjob; ns = namespace_or own qns
           in if ticket = '''' \<and> job = '''' then (BootProblem 400 ''bootgate view: ticket or job required'', w)
              else case (if job \<noteq> '''' then job_run bc ns job w else family_run bc ns ticket w) of
                     (Inl problem, w') \<Rightarrow> (BootProblem 500 problem, w')
                   | (Inr found, w') \<Rightarrow> (verdict_of found, w')))"

section \<open>Properties\<close>

lemma newer_boot_trans:
  "\<not> newer_boot b a \<Longrightarrow> \<not> newer_boot c b \<Longrightarrow> \<not> newer_boot c a"
  by (auto simp: newer_boot_def)

lemma newest_of_fold:
  "(let n = foldl (\<lambda>best c. if newer_boot best c then c else best) b cs
    in n \<in> set (b # cs) \<and> (\<forall>c \<in> set (b # cs). \<not> newer_boot n c))"
proof (induction cs arbitrary: b)
  case Nil
  show ?case by (simp add: newer_boot_def)
next
  case (Cons c cs)
  let ?b = "if newer_boot b c then c else b"
  let ?n = "foldl (\<lambda>best c. if newer_boot best c then c else best) ?b cs"
  have b: "\<not> newer_boot ?b b" "\<not> newer_boot ?b c" by (auto simp: newer_boot_def)
  have n: "?n \<in> set (?b # cs)" "\<forall>c \<in> set (?b # cs). \<not> newer_boot ?n c"
    using Cons.IH [of ?b] unfolding Let_def by blast+
  have "\<not> newer_boot ?n ?b" using n(2) by simp
  then have "\<not> newer_boot ?n b" "\<not> newer_boot ?n c" using b newer_boot_trans by blast+
  with n have "?n \<in> set (b # c # cs) \<and> (\<forall>x \<in> set (b # c # cs). \<not> newer_boot ?n x)"
    by (auto split: if_splits)
  then show ?case by (simp add: Let_def)
qed

lemma run_newest_max:
  "runs \<noteq> [] \<Longrightarrow> run_newest runs \<in> set runs \<and> (\<forall>c \<in> set runs. \<not> newer_boot (run_newest runs) c)"
  using newest_of_fold [of "hd runs" "tl runs"] by (simp add: run_newest_def Let_def)

text \<open>
  C29. The gate opens only for the booting run itself: a request with a job identity gets a verdict that
  is not terminal only when the run that the identity names (the one run with the job's label, otherwise the run
  of that name) was read in this request, is not being deleted and is in the phase of the verdict. A sibling of the
  same ticket never answers for it.
\<close>

theorem bootgate_opens_for_own_run:
  assumes "serve_bootgate (Some bc) own qticket qjob qns w = (BootVerdict phase False, w')"
    and "trim_space qjob \<noteq> ''''"
  shows "\<exists>labeled w1 run. bc_list bc (namespace_or own qns) (label_job, trim_space qjob) w = (Inr labeled, w1) \<and>
    (labeled = [run] \<or> length labeled \<noteq> 1 \<and>
       fst (bc_get bc (namespace_or own qns, trim_space qjob) w1) = Inr run) \<and>
    ru_deletionTimestamp run = None \<and> phase = phase_text (st_phase (ru_status run)) \<and>
    \<not> is_terminal_phase (st_phase (ru_status run))"
proof -
  obtain found where found: "job_run bc (namespace_or own qns) (trim_space qjob) w = (Inr found, w')"
    "verdict_of found = BootVerdict phase False"
    using assms by (auto simp: serve_bootgate_def Let_def split: prod.splits sum.splits if_splits)
  from found(2) obtain run where run: "found = Some run" "ru_deletionTimestamp run = None"
    "phase = phase_text (st_phase (ru_status run))" "phase \<notin> set bootgate_terminal_phases"
    by (auto simp: verdict_of_def Let_def split: option.splits if_splits)
  have "\<not> is_terminal_phase (st_phase (ru_status run))"
    using run(3,4) by (cases "st_phase (ru_status run)") (auto simp: bootgate_terminal_phases_def)
  moreover obtain labeled w1 where "bc_list bc (namespace_or own qns) (label_job, trim_space qjob) w = (Inr labeled, w1)"
    "labeled = [run] \<or> length labeled \<noteq> 1 \<and> fst (bc_get bc (namespace_or own qns, trim_space qjob) w1) = Inr run"
    using found(1) run(1) unfolding job_run_def
    by (auto split: prod.splits sum.splits list.splits if_splits)
  ultimately show ?thesis using run(2,3) by blast
qed

definition boot_runs :: "criteria_run list boot_client" where
  "boot_runs = \<lparr>bc_list = (\<lambda>ns (k, v) w. (Inr (filter (\<lambda>r. ru_namespace r = ns \<and> smap_get (ru_labels r) k = v) w), w)),
     bc_get = (\<lambda>key w. (case find (\<lambda>r. run_key r = key) w of Some r \<Rightarrow> Inr r | None \<Rightarrow> Inl ApiNotFound, w)),
     bc_errText = (\<lambda>e. ''failed'')\<rparr>"

definition booting_runs :: "criteria_run list" where
  "booting_runs = [zero_run\<lparr>ru_namespace := ''jobs'', ru_name := ''kb-42-99'', ru_labels := [(''ticket'', ''kb-42'')],
       ru_status := zero_status\<lparr>st_phase := PhaseRunning\<rparr>\<rparr>,
     zero_run\<lparr>ru_namespace := ''jobs'', ru_name := ''kb-42-100'', ru_labels := [(''ticket'', ''kb-42'')],
       ru_status := zero_status\<lparr>st_phase := PhaseFailed\<rparr>\<rparr>]"

theorem bootgate_opens_for_own_run_witness:
  "serve_bootgate (Some boot_runs) ''jobs'' ''KB-42'' ''kb-42-99'' '''' booting_runs = (BootVerdict ''Running'' False, booting_runs) \<and>
   (\<exists>labeled w1 run. bc_list boot_runs (namespace_or ''jobs'' '''') (label_job, trim_space ''kb-42-99'') booting_runs = (Inr labeled, w1) \<and>
     (labeled = [run] \<or> length labeled \<noteq> 1 \<and>
        fst (bc_get boot_runs (namespace_or ''jobs'' '''', trim_space ''kb-42-99'') w1) = Inr run) \<and>
     ru_deletionTimestamp run = None \<and> ''Running'' = phase_text (st_phase (ru_status run)) \<and>
     \<not> is_terminal_phase (st_phase (ru_status run)))"
proof -
  have reply: "serve_bootgate (Some boot_runs) ''jobs'' ''KB-42'' ''kb-42-99'' '''' booting_runs = (BootVerdict ''Running'' False, booting_runs)"
    by code_simp
  have "trim_space ''kb-42-99'' \<noteq> ''''" by code_simp
  from bootgate_opens_for_own_run [OF reply this] reply show ?thesis by blast
qed

text \<open>The tie break of the newest run is numeric, and the family answers when no job identity is given.\<close>

lemma family_answers_newest:
  "fst (serve_bootgate (Some boot_runs) ''jobs'' ''KB-42'' '''' '''' booting_runs) = BootVerdict ''Failed'' True"
  by code_simp

end
