(* ===== verification/Kanboard.thy ===== *)
theory Kanboard
  imports Json JobBuilder "HOL-Library.State_Monad"
begin

text \<open>
  The JSON-RPC client of the Kanboard board (\<open>internal/kanboard/kanboard.go\<close>): the request envelope, the decoding
  of the answers, the cached lookups of projects and columns under the client's mutex, and the operations of the
  watcher. The HTTP exchange is a function on a world. Unlocking a mutex that is not held ends a Go process: the
  outcome of an operation is an answer or such a crash.
\<close>

section \<open>Tasks\<close>

record task =
  tk_id :: int
  tk_title :: string
  tk_description :: string
  tk_projectID :: int
  tk_projectName :: string
  tk_columnID :: int
  tk_columnName :: string
  tk_swimlaneID :: int
  tk_tags :: "string list"
  tk_ownerID :: int

definition task_identifier :: "task \<Rightarrow> string" where "task_identifier t = ''KB-'' @ show_int (tk_id t)"

section \<open>Decoding answers\<close>

definition int_mismatch :: go_error where "int_mismatch = ErrMsg ''json: cannot unmarshal into an int''"

definition set_int :: "(int \<Rightarrow> 'e \<Rightarrow> 'e) \<Rightarrow> 'e setter" where
  "set_int put v e =
     (case v of
        JNum n \<Rightarrow> (case parse_int64 n of None \<Rightarrow> Inl int_mismatch | Some i \<Rightarrow> Inr (put i e))
      | JNull \<Rightarrow> Inr e
      | _ \<Rightarrow> Inl int_mismatch)"

definition set_raw :: "(json \<Rightarrow> 'e \<Rightarrow> 'e) \<Rightarrow> 'e setter" where "set_raw put v e = Inr (put v e)"

text \<open>A value decoded into a struct, and into a slice of structs.\<close>

definition read_struct :: "(string \<times> 'e setter) list \<Rightarrow> 'e \<Rightarrow> json \<Rightarrow> go_error + 'e" where
  "read_struct table zero v =
     (case v of
        JNull \<Rightarrow> Inr zero
      | JObj fs \<Rightarrow> decode_fields (struct_field table) fs zero
      | _ \<Rightarrow> Inl (ErrMsg ''json: cannot unmarshal into a struct''))"

fun read_items :: "(json \<Rightarrow> go_error + 'e) \<Rightarrow> json list \<Rightarrow> go_error + 'e list" where
  "read_items read_item [] = Inr []"
| "read_items read_item (v # vs) =
     (case read_item v of Inl e \<Rightarrow> Inl e
      | Inr x \<Rightarrow> (case read_items read_item vs of Inl e \<Rightarrow> Inl e | Inr xs \<Rightarrow> Inr (x # xs)))"

definition read_slice :: "(json \<Rightarrow> go_error + 'e) \<Rightarrow> json \<Rightarrow> go_error + 'e list" where
  "read_slice read_item v =
     (case v of JNull \<Rightarrow> Inr [] | JArr vs \<Rightarrow> read_items read_item vs
      | _ \<Rightarrow> Inl (ErrMsg ''json: cannot unmarshal into a slice''))"

definition read_text_map :: "json \<Rightarrow> go_error + smap" where
  "read_text_map v = (case v of JNull \<Rightarrow> Inr [] | JObj fs \<Rightarrow> read_map [] fs
     | _ \<Rightarrow> Inl (ErrMsg ''json: cannot unmarshal into a map''))"

record rpc_error =
  re_code :: int
  re_message :: string

text \<open>The error member, when present; its \<open>data\<close> only lengthens the text.\<close>

definition rpc_error_text :: "rpc_error \<Rightarrow> string" where
  "rpc_error_text e = ''kanboard rpc error '' @ show_int (re_code e) @ '': '' @ re_message e"

definition rpc_error_table :: "(string \<times> rpc_error setter) list" where
  "rpc_error_table = [(''code'', set_int (\<lambda>i e. e\<lparr>re_code := i\<rparr>)), (''message'', set_text (\<lambda>s e. e\<lparr>re_message := s\<rparr>)),
     (''data'', set_raw (\<lambda>v e. e))]"

record rpc_response =
  rr_jsonrpc :: string
  rr_id :: int
  rr_result :: "json option"
  rr_error :: "rpc_error option"

definition set_error :: "rpc_response setter" where
  "set_error v r =
     (case v of JNull \<Rightarrow> Inr (r\<lparr>rr_error := None\<rparr>)
      | _ \<Rightarrow> (case read_struct rpc_error_table
                (case rr_error r of None \<Rightarrow> \<lparr>re_code = 0, re_message = ''''\<rparr> | Some e \<Rightarrow> e) v of
               Inl err \<Rightarrow> Inl err | Inr e \<Rightarrow> Inr (r\<lparr>rr_error := Some e\<rparr>)))"

definition rpc_response_table :: "(string \<times> rpc_response setter) list" where
  "rpc_response_table = [(''jsonrpc'', set_text (\<lambda>s r. r\<lparr>rr_jsonrpc := s\<rparr>)), (''id'', set_int (\<lambda>i r. r\<lparr>rr_id := i\<rparr>)),
     (''result'', set_raw (\<lambda>v r. r\<lparr>rr_result := Some v\<rparr>)), (''error'', set_error)]"

definition zero_response :: rpc_response where
  "zero_response = \<lparr>rr_jsonrpc = '''', rr_id = 0, rr_result = None, rr_error = None\<rparr>"

text \<open>The body of a request; the parameters of a call are a map, which the encoder sorts, or nil.\<close>

definition rpc_body :: "string \<Rightarrow> (string \<times> json) list option \<Rightarrow> string" where
  "rpc_body method params = render (JObj ([(''jsonrpc'', JStr ''2.0''), (''method'', JStr method), (''id'', JNum ''1'')] @
     (case params of None \<Rightarrow> [] | Some ps \<Rightarrow> [(''params'', JObj (sort_key fst ps))])))"

text \<open>What an exchange answers: no response, a response whose body cannot be read, or a status and a body.\<close>

type_synonym reply = "go_error + nat \<times> (go_error + string)"

definition rpc_result :: "reply \<Rightarrow> go_error + json option" where
  "rpc_result r =
     (case r of
        Inl e \<Rightarrow> Inl (Wrapped ''kanboard request'' e)
      | Inr (status, Inl e) \<Rightarrow> Inl (Wrapped ''reading kanboard response'' e)
      | Inr (status, Inr body) \<Rightarrow>
          if status \<noteq> 200
          then Inl (ErrMsg (''kanboard returned HTTP '' @ show_int (int status) @ '': '' @ body))
          else case unmarshal rpc_response_table zero_response body of
                 Inl e \<Rightarrow> Inl (Wrapped ''parsing kanboard response'' e)
               | Inr resp \<Rightarrow>
                   (case rr_error resp of
                      Some e \<Rightarrow> Inl (ErrMsg (rpc_error_text e))
                    | None \<Rightarrow> Inr (rr_result resp)))"

text \<open>The result decoded into the caller's target: without a result the target keeps its zero value.\<close>

definition rpc_decode :: "string \<Rightarrow> (json \<Rightarrow> go_error + 'a) \<Rightarrow> 'a \<Rightarrow> reply \<Rightarrow> go_error + 'a" where
  "rpc_decode method read_target zero r =
     (case rpc_result r of
        Inl e \<Rightarrow> Inl e
      | Inr None \<Rightarrow> Inr zero
      | Inr (Some v) \<Rightarrow>
          (case read_target v of
             Inl e \<Rightarrow> Inl (Wrapped (''decoding kanboard result for '' @ method) e)
           | Inr x \<Rightarrow> Inr x))"

section \<open>The client\<close>

datatype 'a outcome = Crashed | Answered "go_error + 'a"

record 'w kb_state =
  kb_world :: 'w
  kb_locked :: bool
  kb_projectIDs :: "(string \<times> int) list option"
  kb_columnIDs :: "(int \<times> (string \<times> int) list) list option"

type_synonym ('w, 'a) kb = "('w kb_state, 'a outcome) state"
type_synonym 'w post = "string \<Rightarrow> 'w \<Rightarrow> reply \<times> 'w"

definition kb_pure :: "go_error + 'a \<Rightarrow> ('w, 'a) kb" where "kb_pure r = State_Monad.return (Answered r)"

text \<open>The next step of an operation, unless an error came back.\<close>

definition kb_then :: "('w, 'a) kb \<Rightarrow> ('a \<Rightarrow> ('w, 'b) kb) \<Rightarrow> ('w, 'b) kb" where
  "kb_then m f = do {
     res \<leftarrow> m;
     case res of
       Crashed \<Rightarrow> State_Monad.return Crashed
     | Answered (Inl e) \<Rightarrow> kb_pure (Inl e)
     | Answered (Inr x) \<Rightarrow> f x
   }"

text \<open>The mutex: the client's own lock while it holds it never comes back either, which is the crash here too.\<close>

definition lock_mu :: "('w, unit) kb" where
  "lock_mu = State (\<lambda>s. if kb_locked s then (Crashed, s) else (Answered (Inr ()), s\<lparr>kb_locked := True\<rparr>))"

definition unlock_mu :: "('w, unit) kb" where
  "unlock_mu = State (\<lambda>s. if kb_locked s then (Answered (Inr ()), s\<lparr>kb_locked := False\<rparr>) else (Crashed, s))"

definition kb_read :: "('w kb_state \<Rightarrow> 'a) \<Rightarrow> ('w, 'a) kb" where
  "kb_read f = State (\<lambda>s. (Answered (Inr (f s)), s))"

definition kb_write :: "('w kb_state \<Rightarrow> 'w kb_state) \<Rightarrow> ('w, unit) kb" where
  "kb_write f = State (\<lambda>s. (Answered (Inr ()), f s))"

definition rpc ::
  "'w post \<Rightarrow> string \<Rightarrow> (string \<times> json) list option \<Rightarrow> (json \<Rightarrow> go_error + 'a) \<Rightarrow> 'a \<Rightarrow> ('w, 'a) kb" where
  "rpc post method params read_target zero = State (\<lambda>s.
     let (r, w) = post (rpc_body method params) (kb_world s)
     in (Answered (rpc_decode method read_target zero r), s\<lparr>kb_world := w\<rparr>))"

definition int_param :: "string \<Rightarrow> int \<Rightarrow> string \<times> json" where
  "int_param name i = (name, JNum (show_int i))"

definition by_task :: "int \<Rightarrow> (string \<times> json) list option" where
  "by_task taskID = Some [int_param ''task_id'' taskID]"

definition by_project :: "int \<Rightarrow> (string \<times> json) list option" where
  "by_project projectID = Some [int_param ''project_id'' projectID]"

definition fetch_tag_names :: "'w post \<Rightarrow> int \<Rightarrow> ('w, string list) kb" where
  "fetch_tag_names post taskID =
     kb_then (rpc post ''getTaskTags'' (by_task taskID) read_text_map [])
       (\<lambda>raw. kb_pure (Inr (sort (map snd raw))))"

section \<open>Cached lookups\<close>

record project_row =
  pj_id :: int
  pj_name :: string

definition project_table :: "(string \<times> project_row setter) list" where
  "project_table = [(''id'', set_int (\<lambda>i p. p\<lparr>pj_id := i\<rparr>)), (''name'', set_text (\<lambda>s p. p\<lparr>pj_name := s\<rparr>))]"

definition project_ids :: "project_row list \<Rightarrow> (string \<times> int) list" where
  "project_ids rows = foldl (\<lambda>ids p. assoc_put (pj_name p) (pj_id p) ids) [] rows"

definition find_project_id :: "'w post \<Rightarrow> string \<Rightarrow> ('w, int) kb" where
  "find_project_id post name =
     kb_then lock_mu (\<lambda>_.
     kb_then (kb_read kb_projectIDs) (\<lambda>cache.
       case cache of
         Some ids \<Rightarrow>
           kb_then unlock_mu (\<lambda>_.
             case map_of ids name of
               Some i \<Rightarrow> kb_pure (Inr i)
             | None \<Rightarrow> kb_then unlock_mu (\<lambda>_.
                 kb_pure (Inl (ErrMsg (''kanboard project '' @ go_quote name @ '' not in cache'')))))
       | None \<Rightarrow>
           kb_then unlock_mu (\<lambda>_.
           kb_then (rpc post ''getAllProjects'' None (read_slice (read_struct project_table \<lparr>pj_id = 0, pj_name = ''''\<rparr>)) [])
             (\<lambda>rows.
           kb_then lock_mu (\<lambda>_.
           kb_then (kb_write (\<lambda>s. s\<lparr>kb_projectIDs := Some (project_ids rows)\<rparr>)) (\<lambda>_.
           kb_then unlock_mu (\<lambda>_.
             let found = foldl (\<lambda>found p. if pj_name p = name then pj_id p else found) 0 rows
             in kb_pure (if found = 0 then Inl (ErrMsg (''kanboard project '' @ go_quote name @ '' not found''))
                         else Inr found))))))))"

record column_row =
  cw_id :: int
  cw_title :: string

definition column_table :: "(string \<times> column_row setter) list" where
  "column_table = [(''id'', set_int (\<lambda>i c. c\<lparr>cw_id := i\<rparr>)), (''title'', set_text (\<lambda>s c. c\<lparr>cw_title := s\<rparr>))]"

definition column_ids :: "column_row list \<Rightarrow> (string \<times> int) list" where
  "column_ids rows = foldl (\<lambda>cols c. assoc_put (cw_title c) (cw_id c) cols) [] rows"

definition put_columns :: "int \<Rightarrow> (string \<times> int) list \<Rightarrow> 'w kb_state \<Rightarrow> 'w kb_state" where
  "put_columns projectID cols s =
     s\<lparr>kb_columnIDs := Some (assoc_put projectID cols (case kb_columnIDs s of None \<Rightarrow> [] | Some m \<Rightarrow> m))\<rparr>"

definition load_columns :: "'w post \<Rightarrow> int \<Rightarrow> ('w, (string \<times> int) list) kb" where
  "load_columns post projectID =
     kb_then unlock_mu (\<lambda>_.
     kb_then (rpc post ''getColumns'' (by_project projectID)
         (read_slice (read_struct column_table \<lparr>cw_id = 0, cw_title = ''''\<rparr>)) []) (\<lambda>rows.
     kb_then lock_mu (\<lambda>_.
     kb_then (kb_write (put_columns projectID (column_ids rows))) (\<lambda>_.
     kb_then unlock_mu (\<lambda>_. kb_pure (Inr (column_ids rows)))))))"

definition get_columns :: "'w post \<Rightarrow> int \<Rightarrow> ('w, (string \<times> int) list) kb" where
  "get_columns post projectID =
     kb_then lock_mu (\<lambda>_.
     kb_then (kb_read kb_columnIDs) (\<lambda>cache.
       case cache of
         Some m \<Rightarrow>
           kb_then unlock_mu (\<lambda>_.
             case map_of m projectID of
               Some cols \<Rightarrow> kb_pure (Inr cols)
             | None \<Rightarrow> load_columns post projectID)
       | None \<Rightarrow> load_columns post projectID))"

text \<open>The title of a column: the first in the iteration order of the map.\<close>

definition title_of :: "(string \<times> int) list \<Rightarrow> int \<Rightarrow> string" where
  "title_of cols columnID = (case find (\<lambda>(title, i). i = columnID) cols of None \<Rightarrow> '''' | Some (title, i) \<Rightarrow> title)"

definition column_name :: "'w post \<Rightarrow> int \<Rightarrow> int \<Rightarrow> ('w, string) kb" where
  "column_name post projectID columnID = do {
     res \<leftarrow> get_columns post projectID;
     case res of
       Crashed \<Rightarrow> State_Monad.return Crashed
     | Answered (Inl e) \<Rightarrow> kb_pure (Inr '''')
     | Answered (Inr cols) \<Rightarrow> kb_pure (Inr (title_of cols columnID))
   }"

definition project_name :: "'w post \<Rightarrow> int \<Rightarrow> ('w, string) kb" where
  "project_name post projectID =
     kb_then (rpc post ''getProjectById'' (by_project projectID)
         (read_struct [(''name'', set_text (\<lambda>s p. p\<lparr>pj_name := s\<rparr>))] \<lparr>pj_id = 0, pj_name = ''''\<rparr>)
         \<lparr>pj_id = 0, pj_name = ''''\<rparr>)
       (\<lambda>p. kb_pure (Inr (pj_name p)))"

text \<open>The titles by id: where two titles share an id, the later in the iteration order.\<close>

definition column_names :: "'w post \<Rightarrow> int \<Rightarrow> ('w, (int \<times> string) list) kb" where
  "column_names post projectID =
     kb_then (get_columns post projectID)
       (\<lambda>cols. kb_pure (Inr (foldl (\<lambda>out (title, i). assoc_put i title out) [] cols)))"

section \<open>Operations\<close>

record task_row =
  tr_id :: int
  tr_title :: string
  tr_description :: string
  tr_projectID :: int
  tr_columnID :: int
  tr_swimlaneID :: int
  tr_ownerID :: int

definition zero_task_row :: task_row where
  "zero_task_row = \<lparr>tr_id = 0, tr_title = '''', tr_description = '''', tr_projectID = 0, tr_columnID = 0,
     tr_swimlaneID = 0, tr_ownerID = 0\<rparr>"

definition place_table :: "(string \<times> task_row setter) list" where
  "place_table = [(''project_id'', set_int (\<lambda>i t. t\<lparr>tr_projectID := i\<rparr>)),
     (''column_id'', set_int (\<lambda>i t. t\<lparr>tr_columnID := i\<rparr>)), (''swimlane_id'', set_int (\<lambda>i t. t\<lparr>tr_swimlaneID := i\<rparr>))]"

definition task_table :: "(string \<times> task_row setter) list" where
  "task_table = [(''id'', set_int (\<lambda>i t. t\<lparr>tr_id := i\<rparr>)), (''title'', set_text (\<lambda>s t. t\<lparr>tr_title := s\<rparr>)),
     (''description'', set_text (\<lambda>s t. t\<lparr>tr_description := s\<rparr>))] @ place_table @
     [(''owner_id'', set_int (\<lambda>i t. t\<lparr>tr_ownerID := i\<rparr>))]"

definition task_of :: "string \<Rightarrow> string \<Rightarrow> string list \<Rightarrow> task_row \<Rightarrow> task" where
  "task_of projName colName tags t = \<lparr>tk_id = tr_id t, tk_title = tr_title t, tk_description = tr_description t,
     tk_projectID = tr_projectID t, tk_projectName = projName, tk_columnID = tr_columnID t, tk_columnName = colName,
     tk_swimlaneID = tr_swimlaneID t, tk_tags = tags, tk_ownerID = tr_ownerID t\<rparr>"

fun hydrate :: "'w post \<Rightarrow> string \<Rightarrow> (int \<times> string) list \<Rightarrow> task_row list \<Rightarrow> ('w, task list) kb" where
  "hydrate post projName colNames [] = kb_pure (Inr [])"
| "hydrate post projName colNames (t # rest) =
     kb_then (fetch_tag_names post (tr_id t)) (\<lambda>tags.
     kb_then (hydrate post projName colNames rest) (\<lambda>tasks.
       kb_pure (Inr (task_of projName (case map_of colNames (tr_columnID t) of None \<Rightarrow> '''' | Some n \<Rightarrow> n) tags t # tasks))))"

definition get_all_tasks :: "'w post \<Rightarrow> int \<Rightarrow> ('w, task list) kb" where
  "get_all_tasks post projectID =
     kb_then (rpc post ''getAllTasks'' (by_project projectID) (read_slice (read_struct task_table zero_task_row)) [])
       (\<lambda>rows.
     kb_then (project_name post projectID) (\<lambda>projName.
     kb_then (column_names post projectID) (\<lambda>colNames. hydrate post projName colNames rows)))"

definition get_task :: "'w post \<Rightarrow> int \<Rightarrow> ('w, task) kb" where
  "get_task post taskID =
     kb_then (rpc post ''getTask'' (by_task taskID) (read_struct task_table zero_task_row) zero_task_row) (\<lambda>t. do {
       res \<leftarrow> fetch_tag_names post (tr_id t);
       case res of
         Crashed \<Rightarrow> State_Monad.return Crashed
       | Answered tags \<Rightarrow> kb_pure (Inr ((task_of '''' '''' (case tags of Inl e \<Rightarrow> [] | Inr ts \<Rightarrow> ts) t)
                                  \<lparr>tk_description := ''''\<rparr>))
     })"

definition move_params :: "int \<Rightarrow> int \<Rightarrow> task_row \<Rightarrow> (string \<times> json) list option" where
  "move_params taskID colID t = Some [int_param ''project_id'' (tr_projectID t), int_param ''task_id'' taskID,
     int_param ''column_id'' colID, int_param ''position'' 1, int_param ''swimlane_id'' (tr_swimlaneID t)]"

text \<open>A call without a target: whatever the result is, it is not read.\<close>

definition no_target :: "json \<Rightarrow> go_error + unit" where "no_target v = Inr ()"

definition move_task_to_column :: "'w post \<Rightarrow> int \<Rightarrow> string \<Rightarrow> ('w, int) kb" where
  "move_task_to_column post taskID columnName =
     kb_then (rpc post ''getTask'' (by_task taskID) (read_struct place_table zero_task_row) zero_task_row) (\<lambda>t.
     kb_then (get_columns post (tr_projectID t)) (\<lambda>cols.
       case map_of cols columnName of
         None \<Rightarrow> kb_pure (Inl (ErrMsg (''kanboard column '' @ go_quote columnName @ '' not found on project '' @
                   show_int (tr_projectID t))))
       | Some colID \<Rightarrow>
           if colID = tr_columnID t then kb_pure (Inr (tr_columnID t))
           else kb_then (rpc post ''moveTaskPosition'' (move_params taskID colID t) no_target ())
                  (\<lambda>_. kb_pure (Inr colID))))"

definition add_comment :: "'w post \<Rightarrow> int \<Rightarrow> string \<Rightarrow> ('w, unit) kb" where
  "add_comment post taskID body =
     rpc post ''createComment'' (Some [int_param ''task_id'' taskID, int_param ''user_id'' 0, (''content'', JStr body)])
       no_target ()"

definition ping :: "'w post \<Rightarrow> ('w, unit) kb" where
  "ping post = kb_then (rpc post ''getVersion'' None
      (\<lambda>v. case v of JStr s \<Rightarrow> Inr s | JNull \<Rightarrow> Inr '''' | _ \<Rightarrow> Inl (ErrMsg ''json: cannot unmarshal into a string'')) '''')
      (\<lambda>_. kb_pure (Inr ()))"

section \<open>Properties\<close>

lemma run_kb_then:
  "run_state (kb_then m f) s =
     (case run_state m s of
        (Crashed, s') \<Rightarrow> (Crashed, s')
      | (Answered (Inl e), s') \<Rightarrow> (Answered (Inl e), s')
      | (Answered (Inr x), s') \<Rightarrow> run_state (f x) s')"
  by (simp add: kb_then_def kb_pure_def split: prod.splits outcome.splits sum.splits)

lemmas run_kb = run_kb_then kb_pure_def lock_mu_def unlock_mu_def kb_read_def kb_write_def rpc_def

text \<open>An operation that sends no columns request keeps the client as it is, and answers.\<close>

definition cache_still :: "('w, 'a) kb \<Rightarrow> bool" where
  "cache_still m \<longleftrightarrow> (\<forall>s. \<exists>r w. run_state m s = (Answered r, s\<lparr>kb_world := w\<rparr>))"

lemma cache_still_pure [simp]: "cache_still (kb_pure r)"
  unfolding cache_still_def kb_pure_def by (intro allI, rule_tac x = r in exI, rule_tac x = "kb_world s" in exI) simp

lemma cache_still_rpc [simp]: "cache_still (rpc post method params read_target zero)"
  by (auto simp: cache_still_def rpc_def split: prod.splits)

lemma cache_still_then:
  assumes "cache_still m" and "\<And>x. cache_still (f x)"
  shows "cache_still (kb_then m f)"
  unfolding cache_still_def
proof
  fix s
  obtain r w where r: "run_state m s = (Answered r, s\<lparr>kb_world := w\<rparr>)"
    using assms(1) unfolding cache_still_def by blast
  show "\<exists>r w. run_state (kb_then m f) s = (Answered r, s\<lparr>kb_world := w\<rparr>)"
  proof (cases r)
    case (Inl e)
    with r show ?thesis by (auto simp: run_kb_then)
  next
    case (Inr x)
    obtain r' w' where "run_state (f x) (s\<lparr>kb_world := w\<rparr>) = (Answered r', (s\<lparr>kb_world := w\<rparr>)\<lparr>kb_world := w'\<rparr>)"
      using assms(2) unfolding cache_still_def by blast
    with r Inr show ?thesis by (auto simp: run_kb_then)
  qed
qed

lemma kb_then_assoc: "kb_then (kb_then m f) g = kb_then m (\<lambda>x. kb_then (f x) g)"
  by (rule state.expand, rule ext) (simp add: run_kb_then split: prod.splits outcome.splits sum.splits)

lemma cache_still_hydrate: "cache_still (hydrate post projName colNames rows)"
  by (induction rows) (auto intro!: cache_still_then simp: fetch_tag_names_def)

text \<open>A filled cache of columns answers for its own projects only; asked for another it ends the process.\<close>

definition columns_known :: "'w kb_state \<Rightarrow> int \<Rightarrow> bool" where
  "columns_known s projectID \<longleftrightarrow>
     (case kb_columnIDs s of None \<Rightarrow> True | Some m \<Rightarrow> map_of m projectID \<noteq> None)"

lemma columns_known_world [simp]: "columns_known (s\<lparr>kb_world := w\<rparr>) projectID = columns_known s projectID"
  by (simp add: columns_known_def)

lemma get_columns_outcome:
  assumes "\<not> kb_locked s" and "run_state (get_columns post projectID) s = (res, s')"
  shows "(res = Crashed \<longleftrightarrow> \<not> columns_known s projectID) \<and> \<not> kb_locked s'"
  using assms
  by (cases s) (auto simp: get_columns_def load_columns_def run_kb put_columns_def columns_known_def
      split: option.splits prod.splits sum.splits if_splits)

text \<open>What comes after a still operation and after the columns.\<close>

lemma then_still:
  assumes "cache_still m" and "run_state (kb_then m f) s = (res, s')"
  obtains e w where "res = Answered (Inl e)" and "s' = s\<lparr>kb_world := w\<rparr>"
      and "run_state m s = (Answered (Inl e), s\<lparr>kb_world := w\<rparr>)"
  | x w where "run_state (f x) (s\<lparr>kb_world := w\<rparr>) = (res, s')"
      and "run_state m s = (Answered (Inr x), s\<lparr>kb_world := w\<rparr>)"
proof -
  obtain r w where r: "run_state m s = (Answered r, s\<lparr>kb_world := w\<rparr>)"
    using assms(1) unfolding cache_still_def by blast
  show thesis
  proof (cases r)
    case (Inl e)
    then show thesis using that(1) assms(2) r by (auto simp: run_kb_then)
  next
    case (Inr x)
    then show thesis using that(2) assms(2) r by (auto simp: run_kb_then)
  qed
qed

lemma then_columns:
  assumes "\<not> kb_locked s" and "run_state (kb_then (get_columns post projectID) f) s = (res, s')"
    and "\<And>cols. cache_still (f cols)"
  shows "(res = Crashed \<longleftrightarrow> \<not> columns_known s projectID) \<and> \<not> kb_locked s'"
proof -
  obtain r t where got: "run_state (get_columns post projectID) s = (r, t)" by force
  note outcome = get_columns_outcome [OF assms(1) got]
  show ?thesis
  proof (cases r)
    case Crashed
    then show ?thesis using assms(2) got outcome by (simp add: run_kb_then)
  next
    case (Answered a)
    show ?thesis
    proof (cases a)
      case (Inl e)
      then show ?thesis using assms(2) got outcome Answered by (auto simp: run_kb_then)
    next
      case (Inr cols)
      obtain b w where "run_state (f cols) t = (Answered b, t\<lparr>kb_world := w\<rparr>)"
        using assms(3) unfolding cache_still_def by blast
      then show ?thesis using assms(2) got outcome Answered Inr by (auto simp: run_kb_then)
    qed
  qed
qed

definition place_answer :: "'w post \<Rightarrow> int \<Rightarrow> 'w \<Rightarrow> go_error + task_row" where
  "place_answer post taskID w = rpc_decode ''getTask'' (read_struct place_table zero_task_row) zero_task_row
     (fst (post (rpc_body ''getTask'' (by_task taskID)) w))"

lemma move_outcome:
  assumes "\<not> kb_locked s" and "run_state (move_task_to_column post taskID columnName) s = (res, s')"
  shows "(res = Crashed \<longleftrightarrow> (\<exists>row. place_answer post taskID (kb_world s) = Inr row \<and> \<not> columns_known s (tr_projectID row))) \<and>
    \<not> kb_locked s'"
  using cache_still_rpc assms(2) [unfolded move_task_to_column_def]
proof (cases rule: then_still)
  case (1 e w)
  then have "place_answer post taskID (kb_world s) = Inl e"
    by (simp add: place_answer_def rpc_def split: prod.splits)
  with 1 assms(1) show ?thesis by simp
next
  case (2 row w)
  then have answer: "place_answer post taskID (kb_world s) = Inr row"
    by (simp add: place_answer_def rpc_def split: prod.splits)
  have "(res = Crashed \<longleftrightarrow> \<not> columns_known (s\<lparr>kb_world := w\<rparr>) (tr_projectID row)) \<and> \<not> kb_locked s'"
    by (rule then_columns [OF _ 2(1)]) (use assms(1) in \<open>auto intro!: cache_still_then split: option.splits\<close>)
  with answer show ?thesis by simp
qed

lemma list_outcome:
  assumes "\<not> kb_locked s" and "run_state (get_all_tasks post projectID) s = (res, s')"
  shows "(res = Crashed \<longrightarrow> \<not> columns_known s projectID) \<and> \<not> kb_locked s'"
  using cache_still_rpc assms(2) [unfolded get_all_tasks_def]
proof (cases rule: then_still)
  case (2 rows w)
  have "cache_still (project_name post projectID)"
    unfolding project_name_def by (intro cache_still_then) simp_all
  from this 2(1) show ?thesis
  proof (cases rule: then_still)
    case 1 with assms(1) show ?thesis by simp
  next
    case (2 name w')
    then have "(res = Crashed \<longleftrightarrow> \<not> columns_known (s\<lparr>kb_world := w, kb_world := w'\<rparr>) projectID) \<and> \<not> kb_locked s'"
      unfolding column_names_def kb_then_assoc using assms(1)
      by (intro then_columns) (auto intro!: cache_still_then cache_still_hydrate)
    then show ?thesis by simp
  qed
qed (use assms(1) in simp)


text \<open>A board whose task is gone answers null for it; the cache holds the columns of project 1.\<close>

definition gone_board :: "unit post" where
  "gone_board body w = (Inr (200, Inr (''{'' @ [quote_char] @ ''result'' @ [quote_char] @ '':null}'')), w)"

definition serving :: "unit kb_state" where
  "serving = \<lparr>kb_world = (), kb_locked = False, kb_projectIDs = None, kb_columnIDs = Some [(1, [(''Review'', 7)])]\<rparr>"


text \<open>
  The result of a move is not read: a board that answers false, which is how Kanboard refuses, counts as moved. And
  a map of tags that the board encodes as an empty array cannot be decoded, which fails the listing of the project.
\<close>

lemma refused_move_counts:
  assumes "rpc_result r = Inr (Some (JBool False))"
  shows "rpc_decode ''moveTaskPosition'' no_target () r = Inr ()"
  using assms by (simp add: rpc_decode_def no_target_def)

lemma empty_tags_refused: "\<exists>e. read_text_map (JArr []) = Inl e"
  by (simp add: read_text_map_def)

text \<open>A project asked for a second time and not in the cache ends the process too.\<close>

lemma second_project_crashes:
  assumes "\<not> kb_locked s" and "kb_projectIDs s = Some ids" and "map_of ids name = None"
  shows "fst (run_state (find_project_id post name) s) = Crashed"
  using assms by (simp add: find_project_id_def run_kb)


end
