(* ===== verification/BoardDecision.thy ===== *)
theory BoardDecision
  imports Assignment Kanboard
begin

text \<open>
  What the Kanboard watcher decides (\<open>cmd/kanboard-watcher/main.go\<close>): the decision for a card from the runs of its
  ticket, the index of these runs, the reading of a task (routing tags, selector, repository), the run stamped for it,
  and the health of the poll loop. The poll that strings these together is in \<open>Watcher\<close>.
\<close>

section \<open>The board decision\<close>

definition review_column :: string where "review_column = ''Review''"
definition done_column :: string where "done_column = ''Done''"

definition verdict_handler_complete :: string where "verdict_handler_complete = ''handler_complete''"
definition verdict_failed :: string where "verdict_failed = ''failed''"
definition verdict_need_assistance :: string where "verdict_need_assistance = ''need_assistance''"
definition verdict_awaiting_human :: string where "verdict_awaiting_human = ''awaiting_human''"

definition decision_noop :: string where "decision_noop = ''noop''"
definition decision_review :: string where "decision_review = ''review''"
definition decision_done :: string where "decision_done = ''done''"

definition is_human_handoff :: "string \<Rightarrow> bool" where
  "is_human_handoff fs \<longleftrightarrow> fs = verdict_need_assistance \<or> fs = verdict_awaiting_human"

record run_phases =
  rp_active :: bool
  rp_latestPhase :: criteria_run_phase
  rp_latestRun :: string
  rp_latestFinalState :: string
  rp_latestClass :: string
  rp_anyRun :: bool
  rp_failureReason :: string

definition board_decision :: "run_phases \<Rightarrow> string \<Rightarrow> string" where
  "board_decision ph currentCol =
     (case rp_latestPhase ph of
        PhaseSucceeded \<Rightarrow>
          (if rp_latestClass ph = run_class_triage then decision_noop
           else if is_human_handoff (rp_latestFinalState ph) \<or> rp_latestFinalState ph = verdict_failed then
             (if currentCol \<noteq> done_column then decision_noop else decision_review)
           else if rp_latestFinalState ph = verdict_handler_complete then decision_done
           else decision_noop)
      | PhaseFailed \<Rightarrow> decision_review
      | _ \<Rightarrow> decision_noop)"

section \<open>The index of runs\<close>

definition run_newer :: "criteria_run \<Rightarrow> criteria_run \<Rightarrow> bool" where
  "run_newer run cur \<longleftrightarrow>
     (if ru_creationTimestamp run \<noteq> ru_creationTimestamp cur
      then ru_creationTimestamp cur < ru_creationTimestamp run
      else ru_name cur < ru_name run)"

definition failed_run_reason :: "criteria_run \<Rightarrow> string" where
  "failed_run_reason run =
     (let explains = (\<lambda>ty. find (\<lambda>c. co_type c = ty \<and> co_status c \<and> trim_space (co_message c) \<noteq> [])
            (st_conditions (ru_status run)))
      in case List.map_filter explains [condition_stall_watchdog, condition_base_image_mismatch, condition_config_render_drift] of
           c # cs \<Rightarrow> co_message c
         | [] \<Rightarrow> if st_finalState (ru_status run) \<noteq> []
                 then ''workflow terminal '' @ go_quote (st_finalState (ru_status run))
                 else ''no reason recorded'')"

record ticket_runs =
  tg_active :: bool
  tg_latest :: criteria_run

definition settled_phase :: "criteria_run \<Rightarrow> bool" where
  "settled_phase run \<longleftrightarrow> st_phase (ru_status run) = PhaseFailed \<or> st_phase (ru_status run) = PhaseSucceeded"

definition index_run :: "(string \<times> ticket_runs) list \<Rightarrow> criteria_run \<Rightarrow> (string \<times> ticket_runs) list" where
  "index_run groups run =
     (let t = sp_ticketID (ru_spec run)
      in if \<not> has_prefix t ''KB-'' then groups
         else (let g = (case map_of groups t of Some g \<Rightarrow> g | None \<Rightarrow> \<lparr>tg_active = False, tg_latest = zero_run\<rparr>);
                   g1 = (if settled_phase run then g else g\<lparr>tg_active := True\<rparr>);
                   g2 = (if ru_name (tg_latest g1) = [] \<or> run_newer run (tg_latest g1) then g1\<lparr>tg_latest := run\<rparr> else g1)
               in assoc_put t g2 groups))"

definition phases_of :: "ticket_runs \<Rightarrow> run_phases" where
  "phases_of g =
     (let run = tg_latest g; st = ru_status run
      in \<lparr>rp_active = tg_active g, rp_latestPhase = st_phase st, rp_latestRun = ru_name run,
          rp_latestFinalState = st_finalState st,
          rp_latestClass = (case sp_workflow (ru_spec run) of None \<Rightarrow> [] | Some w \<Rightarrow> wf_class w),
          rp_anyRun = True,
          rp_failureReason = (if st_phase st = PhaseFailed then failed_run_reason run else [])\<rparr>)"

definition index_runs :: "criteria_run list \<Rightarrow> (string \<times> run_phases) list" where
  "index_runs runs = map (\<lambda>(t, g). (t, phases_of g)) (foldl index_run [] runs)"

definition watched_labels :: smap where "watched_labels = [(label_source, source_kanboard)]"

text \<open>The namespaces listed, in order.\<close>

definition watched_namespaces :: "string \<Rightarrow> string \<Rightarrow> string list" where
  "watched_namespaces ns bindingNS = ns # (if bindingNS \<noteq> [] \<and> bindingNS \<noteq> ns then [bindingNS] else [])"

section \<open>Reading a task\<close>

record watcher =
  wr_namespace :: string
  wr_projectName :: string
  wr_triggerTag :: string
  wr_pollInterval :: duration
  wr_pollTimeout :: duration
  wr_defaults :: run_defaults
  wr_defaultRepoURL :: string
  wr_routesFile :: string
  wr_workflowsTagGroup :: string
  wr_configsTagGroup :: string
  wr_routingTags :: "string list"
  wr_projectID :: int

definition repo_tag_prefix :: string where "repo_tag_prefix = ''repo:''"

definition is_routing_signal :: "watcher \<Rightarrow> string \<Rightarrow> bool" where
  "is_routing_signal w tag \<longleftrightarrow>
     tag = wr_triggerTag w \<or> tag = ''internal-reproduced'' \<or> tag = ''Bug'' \<or> tag = ''Feature'' \<or>
     has_prefix tag repo_tag_prefix \<or> tag \<in> set (wr_routingTags w)"

definition tag_group :: "watcher \<Rightarrow> payload \<Rightarrow> string \<Rightarrow> string option" where
  "tag_group w p tag =
     (if is_routing_signal w tag then None
      else if wr_configsTagGroup w \<noteq> [] \<and> (has_key (py_configLibrary p) tag \<or> configs_tag_group_member p tag)
      then Some (wr_configsTagGroup w)
      else Some (wr_workflowsTagGroup w))"

definition tag_groups :: "watcher \<Rightarrow> payload \<Rightarrow> string list \<Rightarrow> smap" where
  "tag_groups w p tags =
     foldl (\<lambda>m tag. case tag_group w p tag of None \<Rightarrow> m | Some g \<Rightarrow> assoc_put tag g m) [] tags"

definition task_selector :: "watcher \<Rightarrow> payload \<Rightarrow> task \<Rightarrow> selector" where
  "task_selector w p t = \<lparr>qr_project = tk_projectName t, qr_state = tk_columnName t, qr_labels = tk_tags t,
     qr_labelGroups = tag_groups w p (tk_tags t), qr_workflowsLabelGroup = wr_workflowsTagGroup w,
     qr_configsLabelGroup = wr_configsTagGroup w\<rparr>"

text \<open>
  The regular expression \<open>(?:https?://)?github\.com/([A-Za-z0-9_.-]+/[A-Za-z0-9_.-]+)\<close>: the group of its leftmost match
  is the one after the first occurrence of the host that an owner and a name follow. The slash is not in the class,
  so both runs are maximal; the optional scheme does not move the group.
\<close>

definition repo_host :: string where "repo_host = ''github.com/''"

definition repo_char :: "char \<Rightarrow> bool" where
  "repo_char c \<longleftrightarrow> upper_char c \<or> lower_char c \<or> digit_char c \<or> c \<in> {CHR ''_'', CHR ''.'', CHR ''-''}"

definition owner_and_name :: "string \<Rightarrow> string option" where
  "owner_and_name s =
     (let owner = takeWhile repo_char s; rest = dropWhile repo_char s; name = takeWhile repo_char (tl rest)
      in if owner = [] \<or> rest = [] \<or> hd rest \<noteq> CHR ''/'' \<or> name = [] then None
         else Some (owner @ ''/'' @ name))"

fun repo_match :: "string \<Rightarrow> string option" where
  "repo_match [] = None"
| "repo_match (c # s) =
     (case (if prefix repo_host (c # s) then owner_and_name (drop (length repo_host) (c # s)) else None) of
        Some m \<Rightarrow> Some m
      | None \<Rightarrow> repo_match s)"

definition repo_valid :: "(string \<Rightarrow> bool) option \<Rightarrow> string \<Rightarrow> bool" where
  "repo_valid validate repo \<longleftrightarrow> (case validate of None \<Rightarrow> True | Some f \<Rightarrow> f repo)"

definition repo_of_tag :: "(string \<Rightarrow> bool) option \<Rightarrow> string \<Rightarrow> string option" where
  "repo_of_tag validate tag =
     (if \<not> has_prefix tag repo_tag_prefix then None
      else (let rest = drop (length repo_tag_prefix) tag
            in case repo_match rest of
                 Some m \<Rightarrow> Some m
               | None \<Rightarrow> if repo_valid validate rest then Some rest else None))"

definition extract_repo_url :: "task \<Rightarrow> string \<Rightarrow> (string \<Rightarrow> bool) option \<Rightarrow> string" where
  "extract_repo_url t defaultRepoURL validate =
     (case List.map_filter (repo_of_tag validate) (tk_tags t) of
        url # urls \<Rightarrow> url
      | [] \<Rightarrow>
          (case repo_match (tk_title t @ [CHR 0x0A] @ tk_description t) of
             Some m \<Rightarrow> m
           | None \<Rightarrow> if defaultRepoURL \<noteq> [] \<and> repo_valid validate defaultRepoURL then defaultRepoURL else []))"

text \<open>The comma-separated list of routing tags.\<close>

definition parse_tag_list :: "string \<Rightarrow> string list" where
  "parse_tag_list s = filter (\<lambda>tag. tag \<noteq> []) (map trim_space (split_on CHR '','' [] s))"

section \<open>Stamping a run\<close>

definition cutover_of :: "watcher \<Rightarrow> payload \<Rightarrow> project_entry option" where
  "cutover_of w p =
     (case map_of (py_projectRegistry p) (wr_projectName w) of
        Some entry \<Rightarrow> if is_cutover_done entry then Some entry else None
      | None \<Rightarrow> None)"

definition watcher_pin :: "surroundings \<Rightarrow> string \<Rightarrow> selection \<Rightarrow> criteria_run_config_ref option" where
  "watcher_pin su ns sel = fst (pin_config_ref (su_get_configmap su) ns sel)"

definition binding_pin_version :: "surroundings \<Rightarrow> string \<Rightarrow> string \<times> string list" where
  "binding_pin_version su ns =
     (case su_get_configmap su (ns, binding_cm_name) of
        Inl e \<Rightarrow> ([], [''criteria-kanboard-watcher: the project binding ConfigMap '' @ binding_cm_name @ '' in namespace '' @ ns @
           '' could not be pinned at stamp time ('' @ error_text e @ ''); the run is stamped with a name-only pin and admission re-reads and proves the binding before job build''])
      | Inr cm \<Rightarrow> (cm_resourceVersion cm, []))"

definition pin_warning :: "surroundings \<Rightarrow> string \<Rightarrow> selection \<Rightarrow> string list" where
  "pin_warning su ns sel =
     (case snd (pin_config_ref (su_get_configmap su) ns sel) of
        None \<Rightarrow> []
      | Some e \<Rightarrow> [''criteria-kanboard-watcher: the per-repo config ConfigMap '' @ sn_configName sel @
           '' could not be pinned at stamp time ('' @ error_text e @ ''); the run is stamped with a name-only pin and the operator renders the ConfigMap at job-build time''])"

definition watcher_input :: "watcher \<Rightarrow> surroundings \<Rightarrow> task \<Rightarrow> string \<Rightarrow> selection \<Rightarrow> stamp_input" where
  "watcher_input w su t repoURL sel =
     \<lparr>si_name = map to_lower (task_identifier t) @ ''-'' @ show_int (su_now_unix su), si_ticketID = task_identifier t,
      si_repoURL = repoURL, si_selection = sel, si_defaults = wr_defaults w, si_namespace = wr_namespace w,
      si_cutoverNamespace = [], si_bindingRefName = [], si_bindingResourceVersion = [], si_resolveConfigPin = None\<rparr>"

text \<open>The run and the warnings for the card, of which there is at most one.\<close>

definition build_criteria_run ::
  "watcher \<Rightarrow> surroundings \<Rightarrow> task \<Rightarrow> string \<Rightarrow> selection \<Rightarrow> project_entry option \<Rightarrow> criteria_run \<times> string list" where
  "build_criteria_run w su t repoURL sel cutover =
     (let si = watcher_input w su t repoURL sel
      in case cutover of
           Some entry \<Rightarrow>
             (let (version, warnings) = binding_pin_version su (pe_namespace entry)
              in (stamp_run (si\<lparr>si_cutoverNamespace := pe_namespace entry, si_bindingRefName := binding_cm_name,
                    si_bindingResourceVersion := version\<rparr>), warnings))
         | None \<Rightarrow>
             (stamp_run (si\<lparr>si_resolveConfigPin := Some (watcher_pin su)\<rparr>),
              if sn_configName sel = [] then [] else pin_warning su (exec_namespace (wr_namespace w) sel) sel))"

section \<open>Health\<close>

record poll_watchdog =
  pw_lastFinish :: gotime
  pw_lastSuccess :: gotime

definition record_poll :: "gotime \<Rightarrow> go_error option \<Rightarrow> poll_watchdog \<Rightarrow> poll_watchdog" where
  "record_poll now err pw = pw\<lparr>pw_lastFinish := now, pw_lastSuccess := (if err = None then now else pw_lastSuccess pw)\<rparr>"

definition fresh_since :: "gotime \<Rightarrow> duration \<Rightarrow> gotime \<Rightarrow> bool" where
  "fresh_since now threshold at \<longleftrightarrow> \<not> is_zero at \<and> \<not> threshold < time_sub now at"

definition poll_ready :: "poll_watchdog \<Rightarrow> gotime \<Rightarrow> duration \<Rightarrow> bool" where
  "poll_ready pw now threshold = fresh_since now threshold (pw_lastSuccess pw)"

definition poll_live :: "poll_watchdog \<Rightarrow> gotime \<Rightarrow> duration \<Rightarrow> bool" where
  "poll_live pw now threshold = fresh_since now threshold (pw_lastFinish pw)"

definition stall_threshold :: "watcher \<Rightarrow> duration" where
  "stall_threshold w = wr_pollInterval w + 2 * wr_pollTimeout w"

end
