(* ===== verification/CastleAdapter.thy ===== *)
theory CastleAdapter
  imports BoardDecision "HOL-Library.State_Monad"
begin

text \<open>
  The castle dispatch of the watcher (\<open>cmd/kanboard-watcher/adapter.go\<close>): the request submitted for a fired card, the
  book of submitted runs, the mirror that reads a run's event stream, and the parity report that compares the
  decision of the mirror with the one of the reconcile lane. The watch of a run answers its envelopes and how the
  stream ended. Log lines are not modelled; the counters are.
\<close>

section \<open>Modes and requests\<close>

definition dispatch_mode_legacy :: string where "dispatch_mode_legacy = ''legacy''"
definition dispatch_mode_castle :: string where "dispatch_mode_castle = ''castle''"

definition resolve_dispatch_mode :: "string \<Rightarrow> go_error + string" where
  "resolve_dispatch_mode mode =
     (if mode = [] then Inr dispatch_mode_legacy
      else if mode = dispatch_mode_legacy \<or> mode = dispatch_mode_castle then Inr mode
      else Inl (ErrMsg (''dispatch mode '' @ go_quote mode @ '': want one of '' @ go_quote dispatch_mode_legacy @ '', '' @
             go_quote dispatch_mode_castle)))"

definition default_castle_secret_path :: string where
  "default_castle_secret_path = ''/secrets/criteria_castle_agent_token''"

definition read_secret :: "(string \<Rightarrow> go_error + string) \<Rightarrow> string \<Rightarrow> go_error + string" where
  "read_secret read_file path =
     (case read_file path of
        Inl e \<Rightarrow> Inl e
      | Inr b \<Rightarrow> if trim_space b = [] then Inl (ErrMsg ''file holds no token'') else Inr (trim_space b))"

definition castle_agent_token :: "(string \<Rightarrow> go_error + string) \<Rightarrow> string \<Rightarrow> string \<Rightarrow> go_error + string" where
  "castle_agent_token read_file explicit file =
     (if explicit \<noteq> [] then Inr explicit
      else if file \<noteq> [] then
        (case read_secret read_file file of
           Inl e \<Rightarrow> Inl (Wrapped (''castle agent token file '' @ file) e)
         | Inr token \<Rightarrow> Inr token)
      else case read_secret read_file default_castle_secret_path of
             Inr token \<Rightarrow> Inr token
           | Inl e \<Rightarrow> Inl (ErrMsg (''no castle agent token: set --castle-agent-token (CRITERIA_CASTLE_AGENT_TOKEN) or --castle-agent-token-file (CRITERIA_CASTLE_AGENT_TOKEN_FILE), or mount it at '' @
                  default_castle_secret_path)))"

record submit_request =
  sq_workflowName :: string
  sq_workflowSource :: string
  sq_labels :: smap
  sq_idempotencyKey :: string

datatype submit_state = SubmitRejected | SubmitOther

record submit_response =
  sr_runID :: string
  sr_state :: submit_state

definition fire_envelope :: "task \<Rightarrow> string \<Rightarrow> selection \<Rightarrow> dispatch_envelope" where
  "fire_envelope t repoURL sel = zero_envelope\<lparr>en_ticket := task_identifier t, en_repo := repoURL,
     en_class := stamp_class (sn_workflow sel), en_slot := sn_configName sel\<rparr>"

definition fire_request :: "string \<Rightarrow> int \<Rightarrow> task \<Rightarrow> string \<Rightarrow> selection \<Rightarrow> go_error + submit_request" where
  "fire_request project now t repoURL sel =
     (case marshal_dispatch_envelope (fire_envelope t repoURL sel) of
        Inl e \<Rightarrow> Inl e
      | Inr source \<Rightarrow> Inr \<lparr>sq_workflowName = sn_name sel, sq_workflowSource = source,
          sq_labels = [(default_label_project, project)],
          sq_idempotencyKey = task_identifier t @ '':'' @ sn_name sel @ '':'' @ show_int now\<rparr>)"

section \<open>The book\<close>

record submitted_run =
  sb_runID :: string
  sb_workflow :: string
  sb_started :: bool
  sb_terminal :: bool
  sb_endPhase :: criteria_run_phase
  sb_endState :: string
  sb_decision :: string

record adapter_book =
  ab_project :: string
  ab_runs :: "(string \<times> submitted_run) list"
  ab_decided :: nat
  ab_agreed :: nat
  ab_mismatch :: nat
  ab_submitted :: nat
  ab_rejected :: nat

definition new_adapter_book :: "string \<Rightarrow> adapter_book" where
  "new_adapter_book project = \<lparr>ab_project = project, ab_runs = [], ab_decided = 0, ab_agreed = 0, ab_mismatch = 0,
     ab_submitted = 0, ab_rejected = 0\<rparr>"

definition new_submitted :: "string \<Rightarrow> string \<Rightarrow> submitted_run" where
  "new_submitted runID workflow = \<lparr>sb_runID = runID, sb_workflow = workflow, sb_started = False, sb_terminal = False,
     sb_endPhase = PhaseNone, sb_endState = [], sb_decision = []\<rparr>"

text \<open>The book after castle answered a submission.\<close>

definition book_answer ::
  "string \<Rightarrow> string \<Rightarrow> go_error + submit_response \<Rightarrow> adapter_book \<Rightarrow> adapter_book" where
  "book_answer ticketID workflow res b =
     (case res of
        Inl e \<Rightarrow> b
      | Inr resp \<Rightarrow>
          (if sr_state resp = SubmitRejected then b\<lparr>ab_rejected := ab_rejected b + 1\<rparr>
           else (let b' = b\<lparr>ab_submitted := ab_submitted b + 1\<rparr>;
                     known = (case map_of (ab_runs b) ticketID of None \<Rightarrow> False | Some old \<Rightarrow> sb_runID old = sr_runID resp)
                 in if known then b'
                    else b'\<lparr>ab_runs := assoc_put ticketID (new_submitted (sr_runID resp) workflow) (ab_runs b)\<rparr>)))"

text \<open>A submission that castle accepted and whose end the mirror has not seen.\<close>

definition in_flight :: "adapter_book \<Rightarrow> string \<Rightarrow> bool" where
  "in_flight b ticketID \<longleftrightarrow> (case map_of (ab_runs b) ticketID of None \<Rightarrow> False | Some entry \<Rightarrow> \<not> sb_terminal entry)"

section \<open>The mirror\<close>

datatype watch_event = SeenStarted | SeenCompleted string | SeenFailed | SeenOther

definition apply_ladder :: "submitted_run \<Rightarrow> watch_event \<Rightarrow> submitted_run" where
  "apply_ladder entry ev =
     (case ev of
        SeenStarted \<Rightarrow> entry\<lparr>sb_started := True\<rparr>
      | SeenCompleted fs \<Rightarrow>
          (if sb_terminal entry then entry
           else entry\<lparr>sb_terminal := True, sb_endPhase := PhaseSucceeded, sb_endState := fs\<rparr>)
      | SeenFailed \<Rightarrow>
          (if sb_terminal entry then entry
           else entry\<lparr>sb_terminal := True, sb_endPhase := PhaseFailed, sb_endState := verdict_failed\<rparr>)
      | SeenOther \<Rightarrow> entry)"

definition is_mirror_end :: "go_error \<Rightarrow> bool" where
  "is_mirror_end e \<longleftrightarrow> err_root e \<in> {EndOfStream, CtxDeadline, CtxCanceled, CodeUnavailable, CodeCanceled}"

text \<open>The envelopes up to the terminal one; then the error of the stream, if it got that far.\<close>

fun drain_envelopes :: "submitted_run \<Rightarrow> watch_event list \<Rightarrow> go_error option \<Rightarrow> submitted_run \<times> go_error option" where
  "drain_envelopes entry [] err =
     (entry, case err of None \<Rightarrow> None | Some e \<Rightarrow> if is_mirror_end e then None else Some e)"
| "drain_envelopes entry (ev # evs) err =
     (let entry' = apply_ladder entry ev
      in if sb_terminal entry' then (entry', None) else drain_envelopes entry' evs err)"

type_synonym watched = "go_error + watch_event list \<times> go_error option"

definition drain_run :: "submitted_run \<Rightarrow> watched \<Rightarrow> submitted_run \<times> go_error option" where
  "drain_run entry answer =
     (case answer of
        Inl e \<Rightarrow> (entry, Some e)
      | Inr (evs, err) \<Rightarrow> drain_envelopes entry evs err)"

definition column_of_ticket :: "task list \<Rightarrow> string \<Rightarrow> string" where
  "column_of_ticket tasks ticketID =
     (case find (\<lambda>t. task_identifier t = ticketID) tasks of None \<Rightarrow> [] | Some t \<Rightarrow> tk_columnName t)"

text \<open>What the mirror saw, as the reconcile lane's record of a run; the class is the one of the run record.\<close>

definition mirrored_phases :: "submitted_run \<Rightarrow> run_phases \<Rightarrow> run_phases" where
  "mirrored_phases entry ph = \<lparr>rp_active = False, rp_latestPhase = sb_endPhase entry, rp_latestRun = [],
     rp_latestFinalState = sb_endState entry, rp_latestClass = rp_latestClass ph, rp_anyRun = False,
     rp_failureReason = []\<rparr>"

definition record_parity ::
  "task list \<Rightarrow> (string \<times> run_phases) list \<Rightarrow> string \<Rightarrow> submitted_run \<Rightarrow> adapter_book \<Rightarrow> adapter_book" where
  "record_parity tasks runsIndex ticketID entry b =
     (let b0 = b\<lparr>ab_runs := assoc_put ticketID entry (ab_runs b)\<rparr>
      in if \<not> sb_terminal entry \<or> sb_decision entry \<noteq> [] then b0
         else case map_of runsIndex ticketID of
                None \<Rightarrow> b0
              | Some ph \<Rightarrow>
                  if \<not> rp_anyRun ph then b0
                  else (let col = column_of_ticket tasks ticketID;
                            legacy = board_decision ph col;
                            castle = board_decision (mirrored_phases entry ph) col;
                            b1 = b\<lparr>ab_runs := assoc_put ticketID (entry\<lparr>sb_decision := castle\<rparr>) (ab_runs b),
                                   ab_decided := ab_decided b + 1\<rparr>
                        in if castle \<noteq> legacy then b1\<lparr>ab_mismatch := ab_mismatch b1 + 1\<rparr>
                           else b1\<lparr>ab_agreed := ab_agreed b1 + 1\<rparr>))"

definition run_indexed :: "(string \<times> run_phases) list \<Rightarrow> string \<Rightarrow> bool" where
  "run_indexed runsIndex ticketID \<longleftrightarrow> (case map_of runsIndex ticketID of None \<Rightarrow> False | Some ph \<Rightarrow> rp_anyRun ph)"

text \<open>One entry of the book; \<open>answer\<close> is what its watch would say.\<close>

definition mirror_entry ::
  "task list \<Rightarrow> (string \<times> run_phases) list \<Rightarrow> string \<Rightarrow> submitted_run \<Rightarrow> watched \<Rightarrow> adapter_book \<Rightarrow> adapter_book" where
  "mirror_entry tasks runsIndex ticketID entry answer b =
     (if sb_terminal entry \<and> sb_decision entry \<noteq> [] \<and> run_indexed runsIndex ticketID
      then b\<lparr>ab_runs := assoc_del ticketID (ab_runs b)\<rparr>
      else if sb_terminal entry then record_parity tasks runsIndex ticketID entry b
      else (let (entry', err) = drain_run entry answer
            in if err \<noteq> None then b\<lparr>ab_runs := assoc_put ticketID entry' (ab_runs b)\<rparr>
               else record_parity tasks runsIndex ticketID entry' b))"

fun mirror_entries ::
  "(string \<Rightarrow> 'w \<Rightarrow> watched \<times> 'w) \<Rightarrow> task list \<Rightarrow> (string \<times> run_phases) list \<Rightarrow>
   (string \<times> submitted_run) list \<Rightarrow> adapter_book \<times> 'w \<Rightarrow> adapter_book \<times> 'w" where
  "mirror_entries watch tasks runsIndex [] bw = bw"
| "mirror_entries watch tasks runsIndex ((ticketID, entry) # rest) (b, w) =
     (if sb_terminal entry then mirror_entries watch tasks runsIndex rest
        (mirror_entry tasks runsIndex ticketID entry (Inr ([], None)) b, w)
      else (let (answer, w') = watch (sb_runID entry) w
            in mirror_entries watch tasks runsIndex rest (mirror_entry tasks runsIndex ticketID entry answer b, w')))"

definition mirror ::
  "(string \<Rightarrow> 'w \<Rightarrow> watched \<times> 'w) \<Rightarrow> task list \<Rightarrow> (string \<times> run_phases) list \<Rightarrow> adapter_book \<times> 'w \<Rightarrow> adapter_book \<times> 'w" where
  "mirror watch tasks runsIndex bw = mirror_entries watch tasks runsIndex (ab_runs (fst bw)) bw"

section \<open>The client of castle's server\<close>

record server_client =
  sv_addr :: string

definition server_submit ::
  "server_client option \<Rightarrow> (submit_request \<Rightarrow> go_error + submit_response) \<Rightarrow> submit_request option \<Rightarrow> go_error + submit_response" where
  "server_submit s invoke req =
     (if (case s of None \<Rightarrow> True | Some c \<Rightarrow> sv_addr c = []) then Inl (ErrMsg ''castle server client: no address'')
      else case req of None \<Rightarrow> Inl (ErrMsg ''castle submit: nil request'') | Some r \<Rightarrow> invoke r)"

definition server_watch_run :: "server_client option \<Rightarrow> (string \<Rightarrow> watched) \<Rightarrow> string \<Rightarrow> watched" where
  "server_watch_run s invoke runID =
     (if (case s of None \<Rightarrow> True | Some c \<Rightarrow> sv_addr c = []) then Inl (ErrMsg ''castle server client: no address'')
      else if runID = [] then Inl (ErrMsg ''castle watch: run_id required'') else invoke runID)"

definition server_disposition :: "server_client option \<Rightarrow> (string \<Rightarrow> go_error + 'd) \<Rightarrow> string \<Rightarrow> go_error + 'd" where
  "server_disposition s invoke runID =
     (if (case s of None \<Rightarrow> True | Some c \<Rightarrow> sv_addr c = []) then Inl (ErrMsg ''castle server client: no address'')
      else invoke runID)"

end
