(* ===== verification/LaneParity.thy ===== *)
theory LaneParity
  imports CastleAdapter AgentLane
begin

text \<open>
  The two lanes compared: the run that the operator's agent stamps from the watcher's dispatch is the run that the
  watcher would have stamped itself.
\<close>

section \<open>One run by two lanes\<close>

definition assignment_of :: "string \<Rightarrow> submit_request \<Rightarrow> assignment" where
  "assignment_of runID req = \<lparr>as_runID = runID, as_workflowName = sq_workflowName req,
     as_workflowSource = sq_workflowSource req, as_lockfileSource = [], as_labels = sq_labels req\<rparr>"

text \<open>A builder wired as the operator wires it, on the watcher's routes, defaults and namespace.\<close>

definition like_watcher :: "watcher \<Rightarrow> payload \<Rightarrow> run_builder \<Rightarrow> surroundings \<Rightarrow> bool" where
  "like_watcher wr p b su \<longleftrightarrow> build_payload b su = Inr p \<and> rb_defaults b = wr_defaults wr \<and>
     rb_namespace b = wr_namespace wr \<and> rb_client b \<and> rb_pins b \<and> su_pin_config su = watcher_pin su"

lemma fire_request_parses:
  assumes "fire_request project now t repoURL sel = Inr req" and "sound_envelope (fire_envelope t repoURL sel)"
  shows "parse_dispatch_envelope (sq_workflowSource req) =
    Inr ((fire_envelope t repoURL sel)\<lparr>en_kind := dispatch_envelope_kind\<rparr>)"
    and "sq_workflowName req = sn_name sel" and "sq_labels req = [(default_label_project, project)]"
    and "repoURL \<noteq> []"
proof -
  obtain source where m: "marshal_dispatch_envelope (fire_envelope t repoURL sel) = Inr source"
      "sq_workflowSource req = source"
    using assms(1) by (auto simp: fire_request_def split: sum.splits)
  let ?e = "(fire_envelope t repoURL sel)\<lparr>en_kind := dispatch_envelope_kind\<rparr>"
  have valid: "validate_envelope ?e = None" and src: "source = render (JObj (envelope_fields ?e))"
    using m(1) by (auto simp: marshal_dispatch_envelope_def Let_def fire_envelope_def zero_envelope_def
        simp del: render.simps split: if_splits option.splits)
  have "sorted_entries [] = []" by (simp add: sorted_entries_def)
  then show "parse_dispatch_envelope (sq_workflowSource req) = Inr ?e"
    unfolding m(2) src using parse_rendered_envelope [OF _ valid] assms(2)
    by (simp add: sound_envelope_def fire_envelope_def zero_envelope_def)
  show "repoURL \<noteq> []" using valid by (simp add: validate_envelope_None fire_envelope_def)
qed (use assms(1) in \<open>auto simp: fire_request_def split: sum.splits\<close>)

lemma stamp_class_nonempty: "stamp_class w \<noteq> []"
  by (simp add: stamp_class_def class_triage_def class_dev_def)

text \<open>The decision the agent reads of the request.\<close>

lemma agent_reads_dispatch:
  assumes "fire_request project now t repoURL sel = Inr req" and "sound_envelope (fire_envelope t repoURL sel)"
    and "sn_name sel \<noteq> []"
  shows "agent_translate c (assignment_of runID req) =
    (\<lparr>de_ticket = task_identifier t, de_project = project, de_repoURL = repoURL, de_class = stamp_class (sn_workflow sel),
      de_workflowName = sn_name sel, de_slot = sn_configName sel, de_missing = []\<rparr>,
     (fire_envelope t repoURL sel)\<lparr>en_kind := dispatch_envelope_kind\<rparr>)"
proof -
  note parsed = fire_request_parses [OF assms(1,2)]
  have labels: "default_label_ticket \<noteq> default_label_project" by (simp add: default_label_ticket_def default_label_project_def)
  have src: "sq_workflowSource req \<noteq> []" using parsed(1) by (auto simp: parse_dispatch_envelope_def)
  have ticket: "task_identifier t \<noteq> []" by (simp add: task_identifier_def)
  show ?thesis
    using parsed src labels assms(3) ticket stamp_class_nonempty [of "sn_workflow sel"]
    by (simp add: agent_translate_def decision_scope_def translate_def assignment_of_def read_label_def
        control_config_of_def ticket_label_def project_label_def label_key_def Let_def fire_envelope_def
        decision_missing_def absent_def)
qed

lemma selection_again:
  assumes "resolve p q = Inr sel" and "de_workflowName d = sn_name sel" and "de_slot d = sn_configName sel"
    and "de_project d = qr_project q"
  shows "\<exists>r. assignment_selection d p = Inr (sel\<lparr>sn_route := r\<rparr>)"
  using assms
  by (auto simp: resolve_def assignment_selection_def Let_def split: sum.splits option.splits if_splits)

text \<open>The run depends neither on the rule that selected it, nor, without a configuration, on the pinner; its name is its own.\<close>

lemma binding_spec_route: "binding_spec (si\<lparr>si_selection := (si_selection si)\<lparr>sn_route := r\<rparr>\<rparr>) = binding_spec si"
  by (simp add: binding_spec_def base_spec_def Let_def)

lemma watcher_pin_route: "watcher_pin su ns (sel\<lparr>sn_route := r\<rparr>) = watcher_pin su ns sel"
  by (simp add: watcher_pin_def pin_config_ref_def)

lemma stamp_repo_config_route: "stamp_repo_config spec (sel\<lparr>sn_route := r\<rparr>) cfg = stamp_repo_config spec sel cfg"
  by (simp add: stamp_repo_config_def)

lemma exec_namespace_route: "exec_namespace ns (sel\<lparr>sn_route := r\<rparr>) = exec_namespace ns sel"
  by (simp add: exec_namespace_def)

lemma inline_spec_route:
  assumes "si_resolveConfigPin si = None \<or> si_resolveConfigPin si = Some (watcher_pin su)"
  shows "inline_spec (si\<lparr>si_selection := (si_selection si)\<lparr>sn_route := r\<rparr>\<rparr>) = inline_spec si"
proof -
  have "base_spec (si\<lparr>si_selection := (si_selection si)\<lparr>sn_route := r\<rparr>\<rparr>) = base_spec si" by (simp add: base_spec_def)
  then show ?thesis
    using assms by (auto simp: inline_spec_def Let_def stamp_repo_config_route watcher_pin_route exec_namespace_route)
qed

lemma stamp_route:
  assumes "si_resolveConfigPin si = None \<or> si_resolveConfigPin si = Some (watcher_pin su)"
  shows "stamp_run (si\<lparr>si_selection := (si_selection si)\<lparr>sn_route := r\<rparr>\<rparr>) = stamp_run si"
  by (simp add: stamp_run_def inline_spec_route [OF assms] binding_spec_route)

lemma stamp_unpinned:
  assumes "sn_configName (si_selection si) = []"
  shows "stamp_run (si\<lparr>si_resolveConfigPin := pin\<rparr>) = stamp_run si"
  using assms by (simp add: stamp_run_def inline_spec_def binding_spec_def base_spec_def Let_def)

text \<open>The input of both lanes, without a name.\<close>

definition lane_input ::
  "watcher \<Rightarrow> task \<Rightarrow> string \<Rightarrow> selection \<Rightarrow> (string \<Rightarrow> selection \<Rightarrow> criteria_run_config_ref option) option \<Rightarrow> stamp_input" where
  "lane_input wr t repoURL sel pin = \<lparr>si_name = [], si_ticketID = task_identifier t, si_repoURL = repoURL,
     si_selection = sel, si_defaults = wr_defaults wr, si_namespace = wr_namespace wr, si_cutoverNamespace = [],
     si_bindingRefName = [], si_bindingResourceVersion = [], si_resolveConfigPin = pin\<rparr>"

lemma stamp_named: "(stamp_run si)\<lparr>ru_name := n\<rparr> = stamp_run (si\<lparr>si_name := n\<rparr>)"
  by (simp add: stamp_run_def zero_run_def inline_spec_def binding_spec_def base_spec_def Let_def split: option.splits)

lemma watcher_stamp:
  "(fst (build_criteria_run wr su t repoURL sel (Some entry)))\<lparr>ru_name := []\<rparr> =
     stamp_run ((lane_input wr t repoURL sel None)\<lparr>si_cutoverNamespace := pe_namespace entry,
       si_bindingRefName := binding_cm_name,
       si_bindingResourceVersion := fst (binding_pin_version su (pe_namespace entry))\<rparr>)"
  "(fst (build_criteria_run wr su t repoURL sel None))\<lparr>ru_name := []\<rparr> =
     stamp_run (lane_input wr t repoURL sel (Some (watcher_pin su)))"
  by (simp_all add: build_criteria_run_def Let_def stamp_named watcher_input_def lane_input_def split: prod.splits)

lemma agent_stamp:
  assumes like: "like_watcher wr p b su" and d: "de_ticket d = task_identifier t" "de_repoURL d = repoURL"
    "de_project d = wr_projectName wr"
  shows "(assignment_stamp b su d sel p runID)\<lparr>ru_name := []\<rparr> =
    (case cutover_of wr p of
       Some entry \<Rightarrow> stamp_run ((lane_input wr t repoURL sel None)\<lparr>si_cutoverNamespace := pe_namespace entry,
         si_bindingRefName := binding_cm_name,
         si_bindingResourceVersion := fst (binding_pin_version su (pe_namespace entry))\<rparr>)
     | None \<Rightarrow> stamp_run (lane_input wr t repoURL sel (Some (watcher_pin su))))"
proof -
  have pin: "binding_pin b su ns = fst (binding_pin_version su ns)" for ns
    using like by (simp add: binding_pin_def binding_pin_version_def like_watcher_def split: sum.splits)
  have none: "stamp_run (lane_input wr t repoURL sel None) = stamp_run (lane_input wr t repoURL sel (Some (watcher_pin su)))"
    if "sn_configName sel = []"
    using stamp_unpinned [of "lane_input wr t repoURL sel (Some (watcher_pin su))" None] that
    by (simp add: lane_input_def)
  show ?thesis
  proof (cases "cutover_of wr p")
    case None
    then have open_project: "map_of (py_projectRegistry p) (wr_projectName wr) = None \<or>
        (\<exists>e. map_of (py_projectRegistry p) (wr_projectName wr) = Some e \<and> \<not> is_cutover_done e)"
      by (auto simp: cutover_of_def split: option.splits if_splits)
    have "(assignment_stamp b su d sel p runID)\<lparr>ru_name := []\<rparr> =
        stamp_run (lane_input wr t repoURL sel (if sn_configName sel \<noteq> [] then Some (watcher_pin su) else None))"
      using like d open_project
      by (auto simp: assignment_stamp_def Let_def stamp_named lane_input_def like_watcher_def)
    then show ?thesis using None none by simp
  next
    case (Some entry)
    then have "map_of (py_projectRegistry p) (wr_projectName wr) = Some entry" "is_cutover_done entry"
      by (auto simp: cutover_of_def split: option.splits if_splits)
    then show ?thesis
      using Some like d
      by (simp add: assignment_stamp_def Let_def stamp_named lane_input_def like_watcher_def pin)
  qed
qed

lemma lane_input_route:
  assumes "pin = None \<or> pin = Some (watcher_pin su)"
  shows "stamp_run ((lane_input wr t repoURL (sel\<lparr>sn_route := r\<rparr>) pin)\<lparr>si_cutoverNamespace := ns, si_bindingRefName := ref,
      si_bindingResourceVersion := v\<rparr>) =
    stamp_run ((lane_input wr t repoURL sel pin)\<lparr>si_cutoverNamespace := ns, si_bindingRefName := ref,
      si_bindingResourceVersion := v\<rparr>)"
  using stamp_route [of "(lane_input wr t repoURL sel pin)\<lparr>si_cutoverNamespace := ns, si_bindingRefName := ref,
      si_bindingResourceVersion := v\<rparr>" su r] assms
  by (auto simp: lane_input_def)

lemma lane_input_route': "stamp_run (lane_input wr t repoURL (sel\<lparr>sn_route := r\<rparr>) (Some (watcher_pin su))) =
    stamp_run (lane_input wr t repoURL sel (Some (watcher_pin su)))"
  using lane_input_route [where pin = "Some (watcher_pin su)" and su = su and ns = "[]" and ref = "[]" and v = "[]"] by (simp add: lane_input_def)

lemma stamps_agree:
  assumes "like_watcher wr p b su" and "de_ticket d = task_identifier t" "de_repoURL d = repoURL"
    "de_project d = wr_projectName wr"
  shows "(assignment_stamp b su d (sel\<lparr>sn_route := r\<rparr>) p runID)\<lparr>ru_name := []\<rparr> =
    (fst (build_criteria_run wr su t repoURL sel (cutover_of wr p)))\<lparr>ru_name := []\<rparr>"
  by (cases "cutover_of wr p") (simp_all add: agent_stamp [OF assms] watcher_stamp lane_input_route lane_input_route')

text \<open>
  One run by two lanes. The request that the watcher submits for a card, delivered to an agent that is wired as the
  operator wires it (the watcher's defaults and namespace, the same routes, the same cluster), is read in full and
  stamps the run that the watcher itself would have created, up to the name: the same namespace, labels and
  specification, cut over or not, pinned to the same configuration.
\<close>

theorem lanes_stamp_same_run:
  assumes "resolve p (task_selector wr p t) = Inr sel" and "tk_projectName t = wr_projectName wr"
    and "sn_name sel \<noteq> []" and "fire_request (wr_projectName wr) now t repoURL sel = Inr req"
    and "sound_envelope (fire_envelope t repoURL sel)" and "like_watcher wr p b su"
  shows "case agent_translate c (assignment_of runID req) of
      (d, env) \<Rightarrow> de_missing d = [] \<and>
        (case build_run (Some b) su d runID of
           Inl reasons \<Rightarrow> False
         | Inr run \<Rightarrow> apply_target_metadata run (en_targetImages env) = Inr run \<and>
             run\<lparr>ru_name := []\<rparr> = (fst (build_criteria_run wr su t repoURL sel (cutover_of wr p)))\<lparr>ru_name := []\<rparr>)"
proof -
  let ?d = "\<lparr>de_ticket = task_identifier t, de_project = wr_projectName wr, de_repoURL = repoURL,
      de_class = stamp_class (sn_workflow sel), de_workflowName = sn_name sel, de_slot = sn_configName sel, de_missing = []\<rparr>"
  obtain r where "assignment_selection ?d p = Inr (sel\<lparr>sn_route := r\<rparr>)"
    using selection_again [OF assms(1), of ?d] assms(2) by (auto simp: task_selector_def)
  moreover have "repoURL \<noteq> []" "task_identifier t \<noteq> []"
    using fire_request_parses(4) [OF assms(4,5)] by (simp_all add: task_identifier_def)
  moreover have "build_payload b su = Inr p" using assms(6) by (simp add: like_watcher_def)
  ultimately have "build_run (Some b) su ?d runID = Inr (assignment_stamp b su ?d (sel\<lparr>sn_route := r\<rparr>) p runID)"
    by (simp add: build_run_def)
  then show ?thesis
    using agent_reads_dispatch [OF assms(4,5,3), of c runID] stamps_agree [OF assms(6), where d = ?d and t = t and repoURL = repoURL and sel = sel and r = r and runID = runID]
    by (simp add: apply_target_metadata_def fire_envelope_def zero_envelope_def)
qed

text \<open>The watcher of this instance, the card in its trigger column, and the builder of the operator beside it.\<close>

definition lane_watcher :: watcher where
  "lane_watcher = \<lparr>wr_namespace = ''jobs'', wr_projectName = ''P'', wr_triggerTag = [], wr_pollInterval = minute,
     wr_pollTimeout = 5 * minute, wr_defaults = si_defaults (sample_input zero_routes_workflow),
     wr_defaultRepoURL = ''o/r'', wr_routesFile = ''f'', wr_workflowsTagGroup = ''workflows'', wr_configsTagGroup = [],
     wr_routingTags = [], wr_projectID = 1\<rparr>"

definition lane_card :: task where
  "lane_card = \<lparr>tk_id = 1, tk_title = [], tk_description = [], tk_projectID = 1, tk_projectName = ''P'',
     tk_columnID = 3, tk_columnName = default_state, tk_swimlaneID = 1, tk_tags = [], tk_ownerID = 0\<rparr>"

definition lane_builder :: run_builder where
  "lane_builder = \<lparr>rb_defaults = wr_defaults lane_watcher, rb_namespace = ''jobs'', rb_routes = Some sample_payload,
     rb_routesFile = [], rb_client = True, rb_pins = True\<rparr>"

definition lane_reads :: surroundings where
  "lane_reads = sample_surroundings\<lparr>su_pin_config := watcher_pin sample_surroundings\<rparr>"

definition lane_selection :: selection where
  "lane_selection = (case resolve sample_payload (task_selector lane_watcher sample_payload lane_card) of
     Inl e \<Rightarrow> si_selection (sample_input zero_routes_workflow) | Inr sel \<Rightarrow> sel)"

definition lane_config :: agent_config where
  "lane_config = \<lparr>gc_addr = ''castle'', gc_token = ''t'', gc_criteriaID = ''agent'', gc_name = [], gc_labels = [],
     gc_project = ''P'', gc_heartbeatEvery = 0\<rparr>"

text \<open>The request for this card exists whatever the selection, as long as it is the \<open>dev\<close> workflow without a configuration.\<close>

lemma lane_card_request:
  assumes "sn_name sel = ''dev'' \<and> sn_configName sel = [] \<and> stamp_class (sn_workflow sel) = ''dev''"
  shows "sound_envelope (fire_envelope lane_card ''o/r'' sel)" and "\<exists>req. fire_request ''P'' 7 lane_card ''o/r'' sel = Inr req"
proof -
  let ?env = "fire_envelope lane_card ''o/r'' sel"
  have id: "task_identifier lane_card = ''KB-1''" by code_simp
  show "sound_envelope ?env" using assms
    by (simp add: sound_envelope_def sound_map_def fire_envelope_def zero_envelope_def valid_ascii byte_def id)
  have "validate_envelope (?env\<lparr>en_kind := dispatch_envelope_kind\<rparr>) = None"
    by (simp add: validate_envelope_None fire_envelope_def zero_envelope_def id)
  then show "\<exists>req. fire_request ''P'' 7 lane_card ''o/r'' sel = Inr req"
    by (auto simp: fire_request_def marshal_dispatch_envelope_def fire_envelope_def zero_envelope_def Let_def simp del: render.simps)
qed

theorem lanes_stamp_same_run_witness:
  "\<exists>req run. fire_request ''P'' 7 lane_card ''o/r'' lane_selection = Inr req \<and>
     build_run (Some lane_builder) lane_reads (fst (agent_translate lane_config (assignment_of ''r1'' req))) ''r1'' = Inr run \<and>
     run\<lparr>ru_name := []\<rparr> = (fst (build_criteria_run lane_watcher lane_reads lane_card ''o/r'' lane_selection
       (cutover_of lane_watcher sample_payload)))\<lparr>ru_name := []\<rparr>"
proof -
  have "case resolve sample_payload (task_selector lane_watcher sample_payload lane_card) of Inl e \<Rightarrow> False | Inr sel \<Rightarrow> True"
    by code_simp
  then have resolved: "resolve sample_payload (task_selector lane_watcher sample_payload lane_card) = Inr lane_selection"
    by (simp add: lane_selection_def split: sum.splits)
  have chosen: "sn_name lane_selection = ''dev'' \<and> sn_configName lane_selection = [] \<and> stamp_class (sn_workflow lane_selection) = ''dev''"
    by code_simp
  note sound = lane_card_request(1) [OF chosen]
  obtain req where req: "fire_request ''P'' 7 lane_card ''o/r'' lane_selection = Inr req"
    using lane_card_request(2) [OF chosen] ..
  have "watcher_pin lane_reads = watcher_pin sample_surroundings"
    by (simp add: fun_eq_iff watcher_pin_def lane_reads_def)
  then have like: "like_watcher lane_watcher sample_payload lane_builder lane_reads"
    by (simp add: like_watcher_def lane_builder_def build_payload_def lane_watcher_def lane_reads_def)
  have project: "wr_projectName lane_watcher = ''P''" "tk_projectName lane_card = ''P''"
    by (simp_all add: lane_watcher_def lane_card_def)
  have read: "case agent_translate lane_config (assignment_of ''r1'' req) of (d, env) \<Rightarrow> de_missing d = [] \<and>
      (case build_run (Some lane_builder) lane_reads d ''r1'' of Inl reasons \<Rightarrow> False
       | Inr run \<Rightarrow> apply_target_metadata run (en_targetImages env) = Inr run \<and> run\<lparr>ru_name := []\<rparr> =
           (fst (build_criteria_run lane_watcher lane_reads lane_card ''o/r'' lane_selection
             (cutover_of lane_watcher sample_payload)))\<lparr>ru_name := []\<rparr>)"
    by (rule lanes_stamp_same_run [OF resolved _ _ _ sound like, of 7]) (use req chosen in \<open>simp_all add: project\<close>)
  obtain d env where d: "agent_translate lane_config (assignment_of ''r1'' req) = (d, env)" by force
  show ?thesis using read req by (simp add: d split: sum.splits)
qed

end
