(* ===== verification/Watcher.thy ===== *)
theory Watcher
  imports CastleAdapter
begin

text \<open>
  One poll of the Kanboard watcher (\<open>poll\<close> and what it calls in \<open>cmd/kanboard-watcher/main.go\<close>): the routes are read
  afresh, the runs of the tickets indexed, the cards moved after their runs, and the cards that entered a trigger
  column fired, as a run or as an assignment to castle. The memos of the previous poll and the adapter's book are the
  state; the board, the cluster and castle are an interface of functions on a world; the log keeps what was written.
\<close>

section \<open>The surroundings of the watcher\<close>

record 'w watch_api =
  wa_surroundings :: "'w \<Rightarrow> surroundings \<times> 'w"
  wa_validator :: "'w \<Rightarrow> (string \<Rightarrow> bool) option \<times> 'w"
  wa_list :: "string \<Rightarrow> smap \<Rightarrow> 'w \<Rightarrow> (go_error + criteria_run list) \<times> 'w"
  wa_create :: "criteria_run \<Rightarrow> 'w \<Rightarrow> (go_error + unit) \<times> 'w"
  wa_tasks :: "int \<Rightarrow> 'w \<Rightarrow> (go_error + task list) \<times> 'w"
  wa_move :: "int \<Rightarrow> string \<Rightarrow> 'w \<Rightarrow> (go_error + int) \<times> 'w"
  wa_comment :: "int \<Rightarrow> string \<Rightarrow> 'w \<Rightarrow> (go_error + unit) \<times> 'w"
  wa_columns :: "int \<Rightarrow> 'w \<Rightarrow> (go_error + (string \<times> int) list) \<times> 'w"
  wa_submit :: "submit_request \<Rightarrow> 'w \<Rightarrow> (go_error + submit_response) \<times> 'w"
  wa_watch :: "string \<Rightarrow> 'w \<Rightarrow> watched \<times> 'w"

datatype watch_effect =
    CardMoved task string "go_error + int"
  | CardCommented int string
  | RunCreated task criteria_run "go_error + unit"
  | AssignmentSubmitted task submit_request "go_error + submit_response"

record 'w watch_state =
  ws_world :: 'w
  ws_deprecations :: string
  ws_lastRuns :: "(string \<times> run_phases) list"
  ws_lastCards :: "(string \<times> int) list"
  ws_adapter :: "adapter_book option"
  ws_log :: "watch_effect list"

type_synonym ('w, 'a) watch = "('w watch_state, 'a) state"

definition watch_call :: "('w \<Rightarrow> 'a \<times> 'w) \<Rightarrow> ('a \<Rightarrow> watch_effect list) \<Rightarrow> ('w, 'a) watch" where
  "watch_call f eff = State (\<lambda>s. let (a, w) = f (ws_world s)
     in (a, s\<lparr>ws_world := w, ws_log := ws_log s @ eff a\<rparr>))"

definition watch_ask :: "('w \<Rightarrow> 'a \<times> 'w) \<Rightarrow> ('w, 'a) watch" where "watch_ask f = watch_call f (\<lambda>_. [])"

definition watch_get :: "('w watch_state \<Rightarrow> 'a) \<Rightarrow> ('w, 'a) watch" where "watch_get f = State (\<lambda>s. (f s, s))"

definition watch_put :: "('w watch_state \<Rightarrow> 'w watch_state) \<Rightarrow> ('w, unit) watch" where
  "watch_put f = State (\<lambda>s. ((), f s))"

definition post_warning :: "'w watch_api \<Rightarrow> int \<Rightarrow> string \<Rightarrow> ('w, unit) watch" where
  "post_warning api taskID body = do {
     res \<leftarrow> watch_call (wa_comment api taskID body) (\<lambda>_. [CardCommented taskID body]);
     State_Monad.return ()
   }"

fun post_warnings :: "'w watch_api \<Rightarrow> int \<Rightarrow> string list \<Rightarrow> ('w, unit) watch" where
  "post_warnings api taskID [] = State_Monad.return ()"
| "post_warnings api taskID (body # rest) = do { post_warning api taskID body; post_warnings api taskID rest }"

section \<open>The routes and the index\<close>

definition report_binding_deprecations :: "payload \<Rightarrow> ('w, unit) watch" where
  "report_binding_deprecations p = watch_put (\<lambda>s. s\<lparr>ws_deprecations := join [CHR 0x0A] (deprecation_warnings p)\<rparr>)"

fun list_watched :: "'w watch_api \<Rightarrow> string list \<Rightarrow> ('w, go_error + criteria_run list) watch" where
  "list_watched api [] = State_Monad.return (Inr [])"
| "list_watched api (ns # rest) = do {
     res \<leftarrow> watch_ask (wa_list api ns watched_labels);
     case res of
       Inl e \<Rightarrow> State_Monad.return (Inl e)
     | Inr runs \<Rightarrow> do {
         more \<leftarrow> list_watched api rest;
         State_Monad.return (case more of Inl e \<Rightarrow> Inl e | Inr runs' \<Rightarrow> Inr (runs @ runs'))
       }
   }"

definition index_run_phases ::
  "watcher \<Rightarrow> 'w watch_api \<Rightarrow> string \<Rightarrow> ('w, go_error + (string \<times> run_phases) list) watch" where
  "index_run_phases wr api bindingNS = do {
     res \<leftarrow> list_watched api (watched_namespaces (wr_namespace wr) bindingNS);
     State_Monad.return (map_sum id index_runs res)
   }"

section \<open>Moving the cards\<close>

definition failure_comment :: "run_phases \<Rightarrow> string" where
  "failure_comment ph = ''criteria-kanboard-watcher: run '' @ rp_latestRun ph @ '' failed: '' @ rp_failureReason ph"

definition decision_target :: "string \<Rightarrow> string option" where
  "decision_target d = (if d = decision_review then Some review_column
     else if d = decision_done then Some done_column else None)"

definition reconcile_task_column :: "'w watch_api \<Rightarrow> task \<Rightarrow> run_phases \<Rightarrow> ('w, int \<times> bool) watch" where
  "reconcile_task_column api t ph =
     (case decision_target (board_decision ph (tk_columnName t)) of
        None \<Rightarrow> State_Monad.return (tk_columnID t, False)
      | Some target \<Rightarrow>
          if target = tk_columnName t then State_Monad.return (tk_columnID t, False)
          else do {
            res \<leftarrow> watch_call (wa_move api (tk_id t) target) (\<lambda>res. [CardMoved t target res]);
            case res of
              Inl e \<Rightarrow> State_Monad.return (tk_columnID t, False)
            | Inr newCol \<Rightarrow> do {
                (if rp_latestPhase ph = PhaseFailed \<and> target = review_column
                 then post_warning api (tk_id t) (failure_comment ph) else State_Monad.return ());
                State_Monad.return (newCol, True)
              }
          })"

definition column_name_for :: "'w watch_api \<Rightarrow> int \<Rightarrow> int \<Rightarrow> ('w, string) watch" where
  "column_name_for api projectID columnID = do {
     res \<leftarrow> watch_ask (wa_columns api projectID);
     State_Monad.return (case res of Inl e \<Rightarrow> [] | Inr cols \<Rightarrow> title_of cols columnID)
   }"

definition reconcile_card :: "'w watch_api \<Rightarrow> (string \<times> run_phases) list \<Rightarrow> task \<Rightarrow> ('w, task) watch" where
  "reconcile_card api runs t =
     (case map_of runs (task_identifier t) of
        None \<Rightarrow> State_Monad.return t
      | Some ph \<Rightarrow>
          if \<not> rp_anyRun ph then State_Monad.return t
          else do {
            lastRuns \<leftarrow> watch_get ws_lastRuns;
            if map_of lastRuns (task_identifier t) = Some ph then State_Monad.return t
            else do {
              (newCol, changed) \<leftarrow> reconcile_task_column api t ph;
              name \<leftarrow> (if changed then column_name_for api (tk_projectID t) newCol else State_Monad.return (tk_columnName t));
              watch_put (\<lambda>s. s\<lparr>ws_lastRuns := assoc_put (task_identifier t) ph (ws_lastRuns s)\<rparr>);
              State_Monad.return (if changed then t\<lparr>tk_columnID := newCol, tk_columnName := name\<rparr> else t)
            }
          })"

fun reconcile_cards :: "'w watch_api \<Rightarrow> (string \<times> run_phases) list \<Rightarrow> task list \<Rightarrow> ('w, task list) watch" where
  "reconcile_cards api runs [] = State_Monad.return []"
| "reconcile_cards api runs (t # rest) = do {
     t' \<leftarrow> reconcile_card api runs t;
     rest' \<leftarrow> reconcile_cards api runs rest;
     State_Monad.return (t' # rest')
   }"

text \<open>The memos kept for the next poll: castle mode keeps the card of a submission still in flight.\<close>

definition keeps_card :: "adapter_book option \<Rightarrow> (string \<times> run_phases) list \<Rightarrow> string \<Rightarrow> bool" where
  "keeps_card book runs ticketID \<longleftrightarrow> has_key runs ticketID \<or>
     (case book of None \<Rightarrow> False | Some b \<Rightarrow> in_flight b ticketID)"

definition forget_memos :: "(string \<times> run_phases) list \<Rightarrow> ('w, unit) watch" where
  "forget_memos runs = watch_put (\<lambda>s. s\<lparr>
     ws_lastRuns := filter (\<lambda>(ticketID, ph). has_key runs ticketID) (ws_lastRuns s),
     ws_lastCards := filter (\<lambda>(ticketID, col). keeps_card (ws_adapter s) runs ticketID) (ws_lastCards s)\<rparr>)"

section \<open>Firing\<close>

definition fire_run ::
  "watcher \<Rightarrow> 'w watch_api \<Rightarrow> project_entry option \<Rightarrow> task \<Rightarrow> string \<Rightarrow> selection \<Rightarrow> ('w, unit) watch" where
  "fire_run wr api cutover t repoURL sel = do {
     su \<leftarrow> watch_ask (wa_surroundings api);
     (let (run, warnings) = build_criteria_run wr su t repoURL sel cutover
      in do {
        post_warnings api (tk_id t) warnings;
        res \<leftarrow> watch_call (wa_create api run) (\<lambda>res. [RunCreated t run res]);
        State_Monad.return ()
      })
   }"

definition fire_assignment ::
  "'w watch_api \<Rightarrow> adapter_book \<Rightarrow> task \<Rightarrow> string \<Rightarrow> selection \<Rightarrow> ('w, unit) watch" where
  "fire_assignment api book t repoURL sel = do {
     su \<leftarrow> watch_ask (wa_surroundings api);
     case fire_request (ab_project book) (su_now_unix su) t repoURL sel of
       Inl e \<Rightarrow> State_Monad.return ()
     | Inr req \<Rightarrow> do {
         res \<leftarrow> watch_call (wa_submit api req) (\<lambda>res. [AssignmentSubmitted t req res]);
         watch_put (\<lambda>s. s\<lparr>ws_adapter := map_option (book_answer (task_identifier t) (sn_name sel) res) (ws_adapter s)\<rparr>)
       }
   }"

definition triggers :: "watcher \<Rightarrow> task \<Rightarrow> bool" where
  "triggers wr t \<longleftrightarrow> wr_triggerTag wr = [] \<or> wr_triggerTag wr \<in> set (tk_tags t)"

text \<open>The gates a card passes before it fires; \<open>prevCol\<close> is its column at the previous poll, when known.\<close>

definition fire_gate ::
  "watcher \<Rightarrow> payload \<Rightarrow> (string \<times> run_phases) list \<Rightarrow> adapter_book option \<Rightarrow> int option \<Rightarrow> (string \<Rightarrow> bool) option \<Rightarrow>
   task \<Rightarrow> (string \<times> selection) option" where
  "fire_gate wr p runs book prevCol validate t =
     (if \<not> triggers wr t then None
      else case resolve p (task_selector wr p t) of
             Inl e \<Rightarrow> None
           | Inr sel \<Rightarrow>
               (let repoURL = extract_repo_url t (wr_defaultRepoURL wr) validate
                in if repoURL = [] then None
                   else if (case map_of runs (task_identifier t) of None \<Rightarrow> False | Some ph \<Rightarrow> rp_active ph) then None
                   else if (case book of None \<Rightarrow> False | Some b \<Rightarrow> in_flight b (task_identifier t)) then None
                   else if prevCol = Some (tk_columnID t) then None
                   else Some (repoURL, sel)))"

definition fire_card ::
  "watcher \<Rightarrow> 'w watch_api \<Rightarrow> payload \<Rightarrow> (string \<times> run_phases) list \<Rightarrow> task \<Rightarrow> ('w, unit) watch" where
  "fire_card wr api p runs t = do {
     prevCol \<leftarrow> watch_get (\<lambda>s. map_of (ws_lastCards s) (task_identifier t));
     watch_put (\<lambda>s. s\<lparr>ws_lastCards := assoc_put (task_identifier t) (tk_columnID t) (ws_lastCards s)\<rparr>);
     book \<leftarrow> watch_get ws_adapter;
     validate \<leftarrow> watch_ask (wa_validator api);
     case fire_gate wr p runs book prevCol validate t of
       None \<Rightarrow> State_Monad.return ()
     | Some (repoURL, sel) \<Rightarrow>
         (case book of
            Some b \<Rightarrow> fire_assignment api b t repoURL sel
          | None \<Rightarrow> fire_run wr api (cutover_of wr p) t repoURL sel)
   }"

fun fire_cards ::
  "watcher \<Rightarrow> 'w watch_api \<Rightarrow> payload \<Rightarrow> (string \<times> run_phases) list \<Rightarrow> task list \<Rightarrow> ('w, unit) watch" where
  "fire_cards wr api p runs [] = State_Monad.return ()"
| "fire_cards wr api p runs (t # rest) = do { fire_card wr api p runs t; fire_cards wr api p runs rest }"

definition mirror_runs :: "'w watch_api \<Rightarrow> task list \<Rightarrow> (string \<times> run_phases) list \<Rightarrow> ('w, unit) watch" where
  "mirror_runs api tasks runs = State (\<lambda>s.
     case ws_adapter s of
       None \<Rightarrow> ((), s)
     | Some b \<Rightarrow> let (b', w) = mirror (wa_watch api) tasks runs (b, ws_world s)
                in ((), s\<lparr>ws_adapter := Some b', ws_world := w\<rparr>))"

section \<open>The poll\<close>

definition poll :: "watcher \<Rightarrow> 'w watch_api \<Rightarrow> ('w, go_error option) watch" where
  "poll wr api = do {
     su \<leftarrow> watch_ask (wa_surroundings api);
     case load_routes_file su (wr_routesFile wr) of
       Inl e \<Rightarrow> State_Monad.return (Some (Wrapped ''load routes payload'' e))
     | Inr p \<Rightarrow> do {
         report_binding_deprecations p;
         indexed \<leftarrow> index_run_phases wr api (case cutover_of wr p of None \<Rightarrow> [] | Some entry \<Rightarrow> pe_namespace entry);
         case indexed of
           Inl e \<Rightarrow> State_Monad.return (Some e)
         | Inr runs \<Rightarrow> do {
             listed \<leftarrow> watch_ask (wa_tasks api (wr_projectID wr));
             case listed of
               Inl e \<Rightarrow> State_Monad.return (Some e)
             | Inr tasks \<Rightarrow> do {
                 tasks' \<leftarrow> reconcile_cards api runs tasks;
                 forget_memos runs;
                 fire_cards wr api p runs tasks';
                 mirror_runs api tasks' runs;
                 State_Monad.return None
               }
           }
       }
   }"

text \<open>A poll under its deadline: \<open>expired\<close> says whether the deadline has passed when it returns.\<close>

definition poll_with_deadline ::
  "watcher \<Rightarrow> bool \<Rightarrow> gotime \<Rightarrow> go_error option \<Rightarrow> poll_watchdog \<Rightarrow> go_error option \<times> poll_watchdog" where
  "poll_with_deadline wr expired now err pw =
     (if err \<noteq> None \<and> expired then map_option (Wrapped ''poll did not complete'') err else err, record_poll now err pw)"

end
