(* ===== verification/WatcherSafety.thy ===== *)
theory WatcherSafety
  imports Watcher StateLogic
begin

text \<open>
  What a poll of the watcher does: the index names the newest run of each ticket, the cards move exactly as these
  runs say, and a card fires only when it entered a trigger column; and the lemmas that show where the memos of the
  previous poll lose a move or a fire, or repeat one.
\<close>

section \<open>The index\<close>

definition of_ticket :: "string \<Rightarrow> criteria_run \<Rightarrow> bool" where
  "of_ticket t run \<longleftrightarrow> sp_ticketID (ru_spec run) = t"

lemma run_newer_trans: "run_newer a b \<Longrightarrow> run_newer b c \<Longrightarrow> run_newer a c"
  by (auto simp: run_newer_def split: if_splits)

lemma run_newer_total: "\<not> run_newer a b \<Longrightarrow> run_newer a c \<Longrightarrow> run_newer b c"
  by (auto simp: run_newer_def split: if_splits)

definition group_ok :: "criteria_run list \<Rightarrow> string \<Rightarrow> ticket_runs option \<Rightarrow> bool" where
  "group_ok runs t g \<longleftrightarrow>
     (case g of
        None \<Rightarrow> \<not> has_prefix t ''KB-'' \<or> (\<forall>run \<in> set runs. \<not> of_ticket t run)
      | Some g \<Rightarrow> has_prefix t ''KB-'' \<and> tg_latest g \<in> set runs \<and> of_ticket t (tg_latest g) \<and>
          (tg_active g \<longleftrightarrow> (\<exists>run \<in> set runs. of_ticket t run \<and> \<not> settled_phase run)) \<and>
          (\<forall>run \<in> set runs. of_ticket t run \<longrightarrow> \<not> run_newer run (tg_latest g)))"

lemma index_run_ok:
  assumes "\<And>t. group_ok runs t (map_of groups t)" and "\<forall>r \<in> set (run # runs). ru_name r \<noteq> []"
  shows "group_ok (runs @ [run]) t (map_of (index_run groups run) t)"
proof (cases "of_ticket t run \<and> has_prefix t ''KB-''")
  case True
  then have t: "sp_ticketID (ru_spec run) = t" by (simp add: of_ticket_def)
  have anti: "\<not> run_newer run run" by (simp add: run_newer_def)
  show ?thesis
  proof (cases "map_of groups t")
    case None
    then show ?thesis
      using True assms(1) [of t] anti
      by (auto simp: index_run_def t Let_def group_ok_def zero_run_def of_ticket_def)
  next
    case (Some g)
    have g: "tg_latest g \<in> set runs" "of_ticket t (tg_latest g)"
        "tg_active g \<longleftrightarrow> (\<exists>run \<in> set runs. of_ticket t run \<and> \<not> settled_phase run)"
        "\<And>r. r \<in> set runs \<Longrightarrow> of_ticket t r \<Longrightarrow> \<not> run_newer r (tg_latest g)"
      using assms(1) [of t] Some by (auto simp: group_ok_def)
    have named: "ru_name (tg_latest g) \<noteq> []" using assms(2) g(1) by simp
    let ?g = "(if run_newer run (tg_latest g) then g\<lparr>tg_latest := run\<rparr> else g)
        \<lparr>tg_active := tg_active g \<or> \<not> settled_phase run\<rparr>"
    have put: "map_of (index_run groups run) t = Some ?g"
      using True Some named by (simp add: index_run_def t Let_def)
    have newest: "\<not> run_newer r (tg_latest ?g)" if "r \<in> set (runs @ [run])" "of_ticket t r" for r
      using g(4) [of r] that anti run_newer_total [of r "tg_latest g" run] run_newer_trans [of r run "tg_latest g"] by auto
    show ?thesis unfolding put group_ok_def option.case using True g(1-3) newest by auto
  qed
next
  case False
  then have "map_of (index_run groups run) t = map_of groups t"
    by (auto simp: index_run_def of_ticket_def Let_def)
  then show ?thesis using False assms(1) [of t] by (auto simp: group_ok_def split: option.splits)
qed

lemma index_groups_ok:
  "\<forall>r \<in> set runs. ru_name r \<noteq> [] \<Longrightarrow> group_ok runs t (map_of (foldl index_run [] runs) t)"
proof (induction runs arbitrary: t rule: rev_induct)
  case Nil
  then show ?case by (simp add: group_ok_def)
next
  case (snoc run runs)
  then show ?case using index_run_ok [of runs "foldl index_run [] runs" run t] by simp
qed

lemma map_of_index: "map_of (index_runs runs) t = map_option phases_of (map_of (foldl index_run [] runs) t)"
  by (simp add: index_runs_def map_of_map)

text \<open>
  The index of a poll names the newest run of every Kanboard ticket that has one, by creation time and then by
  name, with its phase, verdict and class, and says that the ticket is active exactly when any run of it, not only
  the newest, is unfinished.
\<close>

theorem index_names_newest:
  assumes "\<forall>r \<in> set runs. ru_name r \<noteq> []"
  shows "case map_of (index_runs runs) t of
      None \<Rightarrow> \<not> has_prefix t ''KB-'' \<or> (\<forall>run \<in> set runs. sp_ticketID (ru_spec run) \<noteq> t)
    | Some ph \<Rightarrow> rp_anyRun ph \<and> has_prefix t ''KB-'' \<and>
        (rp_active ph \<longleftrightarrow> (\<exists>run \<in> set runs. sp_ticketID (ru_spec run) = t \<and>
           st_phase (ru_status run) \<noteq> PhaseSucceeded \<and> st_phase (ru_status run) \<noteq> PhaseFailed)) \<and>
        (\<exists>run \<in> set runs. sp_ticketID (ru_spec run) = t \<and> rp_latestRun ph = ru_name run \<and>
           rp_latestPhase ph = st_phase (ru_status run) \<and> rp_latestFinalState ph = st_finalState (ru_status run) \<and>
           rp_latestClass ph = (case sp_workflow (ru_spec run) of None \<Rightarrow> [] | Some w \<Rightarrow> wf_class w) \<and>
           (\<forall>other \<in> set runs. sp_ticketID (ru_spec other) = t \<longrightarrow> \<not> run_newer other run))"
proof (cases "map_of (foldl index_run [] runs) t")
  case None
  then show ?thesis using index_groups_ok [OF assms, of t] by (auto simp: map_of_index group_ok_def of_ticket_def)
next
  case (Some g)
  have ok: "group_ok runs t (Some g)" using index_groups_ok [OF assms, of t] Some by simp
  let ?ph = "phases_of g"
  have "rp_active ?ph = tg_active g" "rp_anyRun ?ph" "rp_latestRun ?ph = ru_name (tg_latest g)"
    "rp_latestPhase ?ph = st_phase (ru_status (tg_latest g))"
    "rp_latestFinalState ?ph = st_finalState (ru_status (tg_latest g))"
    "rp_latestClass ?ph = (case sp_workflow (ru_spec (tg_latest g)) of None \<Rightarrow> [] | Some w \<Rightarrow> wf_class w)"
    by (simp_all add: phases_of_def Let_def)
  with ok Some show ?thesis
    by (simp add: map_of_index group_ok_def of_ticket_def settled_phase_def) blast
qed

definition sample_settled :: "string \<Rightarrow> gotime \<Rightarrow> criteria_run_phase \<Rightarrow> criteria_run" where
  "sample_settled name created phase = zero_run\<lparr>ru_name := name, ru_creationTimestamp := created,
     ru_spec := (ru_spec zero_run)\<lparr>sp_ticketID := ''KB-1''\<rparr>, ru_status := (ru_status zero_run)\<lparr>st_phase := phase\<rparr>\<rparr>"

theorem index_names_newest_witness:
  "map_option rp_latestRun (map_of (index_runs [sample_settled ''a'' 2 PhaseFailed, sample_settled ''b'' 1 PhaseRunning]) ''KB-1'') =
   Some ''a''"
proof -
  let ?runs = "[sample_settled ''a'' 2 PhaseFailed, sample_settled ''b'' 1 PhaseRunning]"
  have "\<forall>r \<in> set ?runs. ru_name r \<noteq> []" by (simp add: sample_settled_def)
  from index_names_newest [OF this, of "''KB-1''"]
  show ?thesis
    by (auto simp: sample_settled_def has_prefix_def run_newer_def zero_run_def split: option.splits if_splits)
qed

section \<open>What a step of the poll writes\<close>

text \<open>The effects a computation adds to the log all satisfy an assertion.\<close>

definition adds_only :: "(watch_effect \<Rightarrow> bool) \<Rightarrow> ('w, 'a) watch \<Rightarrow> bool" where
  "adds_only E m \<longleftrightarrow> (\<forall>s a s'. run_state m s = (a, s') \<longrightarrow> (\<exists>new. ws_log s' = ws_log s @ new \<and> list_all E new))"

lemma adds_onlyD:
  assumes "adds_only E m" and "run_state m s = (a, s')"
  obtains new where "ws_log s' = ws_log s @ new" and "list_all E new"
  using assms unfolding adds_only_def by blast

lemma adds_return: "adds_only E (State_Monad.return a)"
  by (simp add: adds_only_def)

lemma adds_only_bind:
  assumes "adds_only E m" and "\<And>a. adds_only E (f a)"
  shows "adds_only E (State_Monad.bind m f)"
  unfolding adds_only_def
proof (intro allI impI)
  fix s b s'' assume "run_state (State_Monad.bind m f) s = (b, s'')"
  then obtain a s' where "run_state m s = (a, s')" and "run_state (f a) s' = (b, s'')" by (auto split: prod.splits)
  from adds_onlyD [OF assms(1) this(1)] adds_onlyD [OF assms(2) this(2)]
  show "\<exists>new. ws_log s'' = ws_log s @ new \<and> list_all E new" by (metis append.assoc list_all_append)
qed

lemma adds_only_call: "(\<And>r. list_all E (eff r)) \<Longrightarrow> adds_only E (watch_call f eff)"
  by (auto simp: adds_only_def watch_call_def split: prod.splits)

lemma adds_ask: "adds_only E (watch_ask f)"
  by (simp add: watch_ask_def adds_only_call)

lemma adds_get: "adds_only E (watch_get f)"
  by (simp add: adds_only_def watch_get_def)

lemma adds_put: "(\<And>s. ws_log (f s) = ws_log s) \<Longrightarrow> adds_only E (watch_put f)"
  by (simp add: adds_only_def watch_put_def)

lemma adds_case:
  "(b \<Longrightarrow> adds_only E m) \<Longrightarrow> (\<not> b \<Longrightarrow> adds_only E n) \<Longrightarrow> adds_only E (if b then m else n)"
  "(\<And>e. adds_only E (f e)) \<Longrightarrow> (\<And>a. adds_only E (g a)) \<Longrightarrow> adds_only E (case x of Inl e \<Rightarrow> f e | Inr a \<Rightarrow> g a)"
  "adds_only E m \<Longrightarrow> (\<And>a. adds_only E (h a)) \<Longrightarrow> adds_only E (case y of None \<Rightarrow> m | Some a \<Rightarrow> h a)"
  "(\<And>a b. adds_only E (k a b)) \<Longrightarrow> adds_only E (case z of (a, b) \<Rightarrow> k a b)"
  by (auto split: sum.split option.split prod.split)

lemmas adds = adds_return adds_ask adds_get adds_only_bind adds_case

lemma adds_warnings: "(\<And>i body. E (CardCommented i body)) \<Longrightarrow> adds_only E (post_warnings api taskID bodies)"
  by (induction bodies) (auto simp: post_warning_def intro!: adds adds_only_call)

lemma adds_list: "adds_only E (list_watched api nss)"
  by (induction nss) (auto intro!: adds)

section \<open>The moves\<close>

text \<open>Where a card belongs by the newest run of its ticket: the specification of the board moves.\<close>

definition card_belongs :: "run_phases \<Rightarrow> string \<Rightarrow> string option" where
  "card_belongs ph col =
     (let delivered = rp_latestPhase ph = PhaseSucceeded \<and> rp_latestClass ph \<noteq> run_class_triage;
          gone_wrong = rp_latestFinalState ph \<in> {''failed'', ''need_assistance'', ''awaiting_human''}
      in if rp_latestPhase ph = PhaseFailed \<or> delivered \<and> gone_wrong \<and> col = ''Done''
         then (if col = ''Review'' then None else Some ''Review'')
         else if delivered \<and> rp_latestFinalState ph = ''handler_complete'' \<and> col \<noteq> ''Done'' then Some ''Done''
         else None)"

lemma board_decision_belongs:
  "(case decision_target (board_decision ph col) of None \<Rightarrow> None
    | Some target \<Rightarrow> if target = col then None else Some target) = card_belongs ph col"
  by (cases "rp_latestPhase ph")
    (simp_all add: board_decision_def decision_target_def card_belongs_def Let_def is_human_handoff_def decision_noop_def
      decision_review_def decision_done_def verdict_failed_def verdict_need_assistance_def verdict_awaiting_human_def
      verdict_handler_complete_def review_column_def done_column_def)

definition move_due :: "(string \<times> run_phases) list \<Rightarrow> (string \<times> run_phases) list \<Rightarrow> task \<Rightarrow> (int \<times> string) option" where
  "move_due lastRuns runs t =
     (case map_of runs (task_identifier t) of
        None \<Rightarrow> None
      | Some ph \<Rightarrow> if map_of lastRuns (task_identifier t) = Some ph then None
                  else map_option (\<lambda>target. (tk_id t, target)) (card_belongs ph (tk_columnName t)))"

definition card_move :: "watch_effect \<Rightarrow> (int \<times> string) option" where
  "card_move e = (case e of CardMoved t target res \<Rightarrow> Some (tk_id t, target) | _ \<Rightarrow> None)"

definition no_move :: "watch_effect \<Rightarrow> bool" where "no_move e \<longleftrightarrow> card_move e = None"

lemma no_moves: "list_all no_move new \<Longrightarrow> List.map_filter card_move new = []"
  by (induction new) (auto simp: no_move_def map_filter_simps)

lemma moves_append: "List.map_filter card_move (xs @ ys) = List.map_filter card_move xs @ List.map_filter card_move ys"
  by (simp add: List.map_filter_def)

text \<open>One card: the move that is due is made, the memo keeps the record, other tickets are left alone.\<close>

lemma reconcile_column_effects:
  assumes "run_state (reconcile_task_column api t ph) s = ((newCol, changed), s')"
  shows "\<exists>new. ws_log s' = ws_log s @ new \<and> ws_lastRuns s' = ws_lastRuns s \<and> ws_lastCards s' = ws_lastCards s \<and>
    ws_adapter s' = ws_adapter s \<and>
    List.map_filter card_move new =
      (case card_belongs ph (tk_columnName t) of None \<Rightarrow> [] | Some target \<Rightarrow> [(tk_id t, target)])"
proof (cases "card_belongs ph (tk_columnName t)")
  case None
  then show ?thesis
    using assms board_decision_belongs [of "tk_columnName t" ph]
    by (auto simp: reconcile_task_column_def map_filter_simps split: option.splits if_splits)
next
  case (Some target)
  then have "decision_target (board_decision ph (tk_columnName t)) = Some target" "target \<noteq> tk_columnName t"
    using board_decision_belongs [of "tk_columnName t" ph] by (auto split: option.splits if_splits)
  with assms Some show ?thesis
    by (auto simp: reconcile_task_column_def watch_call_def post_warning_def card_move_def map_filter_simps
        split: prod.splits sum.splits if_splits)
qed

lemma reconcile_card_effects:
  assumes "run_state (reconcile_card api runs t) s = (t', s')" and "\<forall>(k, ph) \<in> set runs. rp_anyRun ph"
  shows "\<exists>new. ws_log s' = ws_log s @ new \<and> ws_lastCards s' = ws_lastCards s \<and> ws_adapter s' = ws_adapter s \<and>
    (\<forall>k. k \<noteq> task_identifier t \<longrightarrow> map_of (ws_lastRuns s') k = map_of (ws_lastRuns s) k) \<and> tk_id t' = tk_id t \<and>
    List.map_filter card_move new =
      (case move_due (ws_lastRuns s) runs t of None \<Rightarrow> [] | Some mv \<Rightarrow> [mv])"
proof (cases "map_of runs (task_identifier t)")
  case None
  then show ?thesis using assms(1) by (auto simp: reconcile_card_def move_due_def map_filter_simps)
next
  case (Some ph)
  then have any: "rp_anyRun ph" using assms(2) by (auto dest: map_of_SomeD)
  show ?thesis
  proof (cases "map_of (ws_lastRuns s) (task_identifier t) = Some ph")
    case True
    then show ?thesis
      using assms(1) Some any by (auto simp: reconcile_card_def move_due_def watch_get_def map_filter_simps)
  next
    case False
    obtain newCol changed s1 where col: "run_state (reconcile_task_column api t ph) s = ((newCol, changed), s1)"
      by (metis prod.collapse)
    from reconcile_column_effects [OF col] Some any False assms(1) col show ?thesis
      by (auto simp: reconcile_card_def move_due_def watch_get_def watch_put_def column_name_for_def watch_ask_def
          watch_call_def map_filter_simps split: prod.splits option.splits if_splits)
  qed
qed

lemma move_due_memo:
  "map_of m (task_identifier t) = map_of m' (task_identifier t) \<Longrightarrow> move_due m runs t = move_due m' runs t"
  by (simp add: move_due_def split: option.split)

lemma map_filter_same: "(\<And>x. x \<in> set xs \<Longrightarrow> f x = g x) \<Longrightarrow> List.map_filter f xs = List.map_filter g xs"
  by (induction xs) (auto simp: map_filter_simps split: option.split)

lemma reconcile_cards_effects:
  assumes "run_state (reconcile_cards api runs tasks) s = (tasks', s')" and "\<forall>(k, ph) \<in> set runs. rp_anyRun ph"
    and "distinct (map task_identifier tasks)"
  shows "\<exists>new. ws_log s' = ws_log s @ new \<and> ws_lastCards s' = ws_lastCards s \<and> ws_adapter s' = ws_adapter s \<and>
    map tk_id tasks' = map tk_id tasks \<and>
    List.map_filter card_move new = List.map_filter (move_due (ws_lastRuns s) runs) tasks"
  using assms
proof (induction tasks arbitrary: s tasks' s')
  case Nil
  then show ?case by (simp add: map_filter_simps)
next
  case (Cons t ts)
  obtain t' s1 where one: "run_state (reconcile_card api runs t) s = (t', s1)" by force
  obtain ts' s2 where rest: "run_state (reconcile_cards api runs ts) s1 = (ts', s2)" by force
  obtain new1 where new1: "ws_log s1 = ws_log s @ new1" "ws_lastCards s1 = ws_lastCards s" "ws_adapter s1 = ws_adapter s"
      "\<And>k. k \<noteq> task_identifier t \<Longrightarrow> map_of (ws_lastRuns s1) k = map_of (ws_lastRuns s) k" "tk_id t' = tk_id t"
      "List.map_filter card_move new1 = (case move_due (ws_lastRuns s) runs t of None \<Rightarrow> [] | Some mv \<Rightarrow> [mv])"
    using reconcile_card_effects [OF one Cons.prems(2)] by auto
  have "distinct (map task_identifier ts)" using Cons.prems(3) by simp
  from Cons.IH [OF rest Cons.prems(2) this]
  obtain new2 where new2: "ws_log s2 = ws_log s1 @ new2" "ws_lastCards s2 = ws_lastCards s1" "ws_adapter s2 = ws_adapter s1"
      "map tk_id ts' = map tk_id ts"
      "List.map_filter card_move new2 = List.map_filter (move_due (ws_lastRuns s1) runs) ts" by auto
  have "List.map_filter (move_due (ws_lastRuns s1) runs) ts = List.map_filter (move_due (ws_lastRuns s) runs) ts"
  proof (rule map_filter_same)
    show "move_due (ws_lastRuns s1) runs u = move_due (ws_lastRuns s) runs u" if "u \<in> set ts" for u
    proof (rule move_due_memo)
      have "task_identifier u \<noteq> task_identifier t" using that Cons.prems(3) by (auto simp: image_iff)
      then show "map_of (ws_lastRuns s1) (task_identifier u) = map_of (ws_lastRuns s) (task_identifier u)" by (rule new1(4))
    qed
  qed
  with new1 new2 show ?case
    using Cons.prems(1) one rest by (auto simp: moves_append map_filter_simps split: option.splits)
qed

text \<open>Firing and mirroring move no card.\<close>

lemma fire_card_moves: "adds_only no_move (fire_card wr api p runs t)"
  unfolding fire_card_def fire_run_def fire_assignment_def Let_def
  by (intro adds adds_put adds_only_call adds_warnings) (simp_all add: no_move_def card_move_def)

lemma fire_cards_moves: "adds_only no_move (fire_cards wr api p runs tasks)"
  by (induction tasks) (auto intro!: adds fire_card_moves)

lemma mirror_moves: "adds_only no_move (mirror_runs api tasks runs)"
  by (auto simp: adds_only_def mirror_runs_def split: option.splits prod.splits)

section \<open>The reads of a poll\<close>

text \<open>The routes a poll loads, the index it makes and the tasks it lists, with the state after each.\<close>

definition routes_read :: "watcher \<Rightarrow> 'w watch_api \<Rightarrow> 'w watch_state \<Rightarrow> go_error + payload" where
  "routes_read wr api s = load_routes_file (fst (wa_surroundings api (ws_world s))) (wr_routesFile wr)"

definition after_routes :: "'w watch_api \<Rightarrow> payload \<Rightarrow> 'w watch_state \<Rightarrow> 'w watch_state" where
  "after_routes api p s = s\<lparr>ws_world := snd (wa_surroundings api (ws_world s)),
     ws_deprecations := join [CHR 0x0A] (deprecation_warnings p)\<rparr>"

definition binding_ns :: "watcher \<Rightarrow> payload \<Rightarrow> string" where
  "binding_ns wr p = (case cutover_of wr p of None \<Rightarrow> [] | Some entry \<Rightarrow> pe_namespace entry)"

definition poll_reads ::
  "watcher \<Rightarrow> 'w watch_api \<Rightarrow> 'w watch_state \<Rightarrow> payload \<Rightarrow> (string \<times> run_phases) list \<Rightarrow> task list \<Rightarrow> bool" where
  "poll_reads wr api s p runs tasks \<longleftrightarrow> routes_read wr api s = Inr p \<and>
     (\<exists>s1. run_state (index_run_phases wr api (binding_ns wr p)) (after_routes api p s) = (Inr runs, s1) \<and>
        fst (wa_tasks api (wr_projectID wr) (ws_world s1)) = Inr tasks)"

lemma index_quiet:
  assumes "run_state (list_watched api nss) s = (res, s')"
  shows "ws_log s' = ws_log s \<and> ws_lastRuns s' = ws_lastRuns s \<and> ws_lastCards s' = ws_lastCards s \<and> ws_adapter s' = ws_adapter s"
  using assms
proof (induction nss arbitrary: s res)
  case (Cons ns nss)
  then show ?case
    by (fastforce simp: watch_ask_def watch_call_def split: prod.splits sum.splits)
qed simp

lemma index_phases:
  assumes "run_state (index_run_phases wr api ns) s = (Inr runs, s')"
  shows "\<forall>(k, ph) \<in> set runs. rp_anyRun ph" and "ws_log s' = ws_log s" and "ws_lastRuns s' = ws_lastRuns s"
    and "ws_lastCards s' = ws_lastCards s" and "ws_adapter s' = ws_adapter s"
proof -
  obtain res where res: "run_state (list_watched api (watched_namespaces (wr_namespace wr) ns)) s = (res, s')"
      "map_sum id index_runs res = Inr runs"
    using assms by (auto simp: index_run_phases_def split: prod.splits)
  then obtain rs where "runs = index_runs rs" by (cases res) auto
  then show "\<forall>(k, ph) \<in> set runs. rp_anyRun ph" by (auto simp: index_runs_def phases_of_def Let_def)
qed (use assms in \<open>auto simp: index_run_phases_def dest: index_quiet split: prod.splits\<close>)

text \<open>A poll whose reads succeed: the cards, the memos, the fires, the mirror.\<close>

lemma poll_run:
  assumes "run_state (poll wr api) s = (out, s')" and "poll_reads wr api s p runs tasks"
  obtains s1 tasks' s2 s3 where "ws_log s1 = ws_log s" and "ws_lastRuns s1 = ws_lastRuns s"
    and "ws_lastCards s1 = ws_lastCards s" and "ws_adapter s1 = ws_adapter s"
    and "run_state (reconcile_cards api runs tasks) s1 = (tasks', s2)"
    and "run_state (fire_cards wr api p runs tasks') (snd (run_state (forget_memos runs) s2)) = ((), s3)"
    and "run_state (mirror_runs api tasks' runs) s3 = ((), s')" and "out = None"
    and "\<forall>(k, ph) \<in> set runs. rp_anyRun ph"
proof -
  obtain t1 where idx: "run_state (index_run_phases wr api (binding_ns wr p)) (after_routes api p s) = (Inr runs, t1)"
      and listed: "fst (wa_tasks api (wr_projectID wr) (ws_world t1)) = Inr tasks" and rd: "routes_read wr api s = Inr p"
    using assms(2) unfolding poll_reads_def by blast
  let ?s1 = "t1\<lparr>ws_world := snd (wa_tasks api (wr_projectID wr) (ws_world t1))\<rparr>"
  obtain tasks' s2 where rec: "run_state (reconcile_cards api runs tasks) ?s1 = (tasks', s2)" by force
  obtain s3 where fire: "run_state (fire_cards wr api p runs tasks') (snd (run_state (forget_memos runs) s2)) = ((), s3)"
    by (metis old.unit.exhaust prod.collapse)
  have poll: "run_state (poll wr api) s =
      (case run_state (index_run_phases wr api (binding_ns wr p)) (after_routes api p s) of
         (Inl e, t) \<Rightarrow> (Some e, t)
       | (Inr runs, t) \<Rightarrow>
           (case wa_tasks api (wr_projectID wr) (ws_world t) of
              (Inl e, w) \<Rightarrow> (Some e, t\<lparr>ws_world := w\<rparr>)
            | (Inr tasks, w) \<Rightarrow>
                (case run_state (reconcile_cards api runs tasks) (t\<lparr>ws_world := w\<rparr>) of
                   (tasks', s2) \<Rightarrow>
                     (None, snd (run_state (mirror_runs api tasks' runs)
                        (snd (run_state (fire_cards wr api p runs tasks') (snd (run_state (forget_memos runs) s2)))))))))"
    using rd
    by (auto simp: poll_def routes_read_def after_routes_def binding_ns_def watch_ask_def watch_call_def
        report_binding_deprecations_def watch_put_def forget_memos_def split: prod.splits sum.splits)
  note idx' = index_phases [OF idx]
  have kept: "ws_log (after_routes api p s) = ws_log s" "ws_lastRuns (after_routes api p s) = ws_lastRuns s"
    "ws_lastCards (after_routes api p s) = ws_lastCards s" "ws_adapter (after_routes api p s) = ws_adapter s"
    by (simp_all add: after_routes_def)
  obtain w where w: "wa_tasks api (wr_projectID wr) (ws_world t1) = (Inr tasks, w)" using listed by (metis prod.collapse)
  show thesis
  proof (rule that [of ?s1 tasks' s2 s3])
    have "run_state (poll wr api) s = (None, snd (run_state (mirror_runs api tasks' runs) s3))"
      using poll idx w rec fire by simp
    then show "run_state (mirror_runs api tasks' runs) s3 = ((), s')" and "out = None"
      using assms(1) by (simp_all add: prod_eq_iff)
  qed (use idx' kept rec fire in auto)
qed

text \<open>
  C31. A poll moves the cards exactly as the newest run of each ticket says: of the listed cards, in order, those whose
  indexed record changed since the previous poll and that stand elsewhere than where they belong, each once: a failed
  run's card to Review, a delivered development run's card to Done, and a card already in Done back to Review when
  its verdict turns out a failure or a handoff. No card of a run in flight, of a triage run that succeeded, or with
  an unknown verdict is moved.
\<close>

theorem cards_follow_their_runs:
  assumes "run_state (poll wr api) s = (out, s')" and "poll_reads wr api s p runs tasks"
    and "distinct (map task_identifier tasks)"
  shows "List.map_filter card_move (drop (length (ws_log s)) (ws_log s')) =
      List.map_filter (move_due (ws_lastRuns s) runs) tasks"
proof -
  obtain s1 tasks' s2 s3 where st: "ws_log s1 = ws_log s" "ws_lastRuns s1 = ws_lastRuns s"
      "run_state (reconcile_cards api runs tasks) s1 = (tasks', s2)"
      "run_state (fire_cards wr api p runs tasks') (snd (run_state (forget_memos runs) s2)) = ((), s3)"
      "run_state (mirror_runs api tasks' runs) s3 = ((), s')" "\<forall>(k, ph) \<in> set runs. rp_anyRun ph"
    using poll_run [OF assms(1,2)] by metis
  obtain new where new: "ws_log s2 = ws_log s @ new"
      "List.map_filter card_move new = List.map_filter (move_due (ws_lastRuns s) runs) tasks"
    using reconcile_cards_effects [OF st(3,6) assms(3)] st(1,2) by auto
  obtain more where more: "ws_log s3 = ws_log (snd (run_state (forget_memos runs) s2)) @ more" "list_all no_move more"
    using adds_onlyD [OF fire_cards_moves st(4)] by blast
  obtain rest where rest: "ws_log s' = ws_log s3 @ rest" "list_all no_move rest"
    using adds_onlyD [OF mirror_moves st(5)] by blast
  show ?thesis
    using new more rest by (simp add: forget_memos_def watch_put_def moves_append no_moves)
qed

section \<open>An instance\<close>

definition sample_watcher :: watcher where
  "sample_watcher = \<lparr>wr_namespace = ''jobs'', wr_projectName = ''P'', wr_triggerTag = [], wr_pollInterval = minute,
     wr_pollTimeout = 5 * minute, wr_defaults = si_defaults (sample_input zero_routes_workflow),
     wr_defaultRepoURL = ''o/r'', wr_routesFile = ''f'', wr_workflowsTagGroup = ''workflows'', wr_configsTagGroup = [],
     wr_routingTags = [], wr_projectID = 1\<rparr>"

definition sample_reads :: surroundings where
  "sample_reads = \<lparr>su_read_file = (\<lambda>f. Inr ''routes''), su_decode = (\<lambda>text. Inr sample_payload),
     su_presence = (\<lambda>text. Inr \<lparr>sp_routesPresent = [True, True], sp_dispatchPresent = []\<rparr>), su_now_unix = 7,
     su_get_configmap = (\<lambda>k. Inl ApiNotFound), su_pin_config = (\<lambda>ns sel. None)\<rparr>"

text \<open>A board and a cluster that answer the same at every poll; a move answers column 9.\<close>

definition sample_board :: "task list \<Rightarrow> criteria_run list \<Rightarrow> unit watch_api" where
  "sample_board tasks runs = \<lparr>wa_surroundings = Pair sample_reads, wa_validator = Pair None,
     wa_list = (\<lambda>ns labels. Pair (Inr runs)), wa_create = (\<lambda>run. Pair (Inr ())), wa_tasks = (\<lambda>i. Pair (Inr tasks)),
     wa_move = (\<lambda>i target. Pair (Inr 9)), wa_comment = (\<lambda>i body. Pair (Inr ())),
     wa_columns = (\<lambda>i. Pair (Inr [(''Triage'', 3), (''Review'', 9)])),
     wa_submit = (\<lambda>req. Pair (Inr \<lparr>sr_runID = ''r1'', sr_state = SubmitOther\<rparr>)),
     wa_watch = (\<lambda>runID. Pair (Inr ([SeenFailed], None)))\<rparr>"

definition sample_card :: task where
  "sample_card = \<lparr>tk_id = 1, tk_title = [], tk_description = [], tk_projectID = 1, tk_projectName = ''P'',
     tk_columnID = 3, tk_columnName = default_state, tk_swimlaneID = 1, tk_tags = [], tk_ownerID = 0\<rparr>"

definition first_poll :: "adapter_book option \<Rightarrow> unit watch_state" where
  "first_poll book = \<lparr>ws_world = (), ws_deprecations = [], ws_lastRuns = [], ws_lastCards = [], ws_adapter = book, ws_log = []\<rparr>"

lemma sample_routes_read: "load_routes_file sample_reads ''f'' = Inr sample_payload"
  by code_simp

lemma sample_poll_reads:
  "poll_reads sample_watcher (sample_board tasks runs) (first_poll book) sample_payload (index_runs runs) tasks"
proof -
  have routes: "routes_read sample_watcher (sample_board tasks runs) (first_poll book) = Inr sample_payload"
    using sample_routes_read by (simp add: routes_read_def sample_board_def sample_watcher_def)
  have "binding_ns sample_watcher sample_payload = []"
    by (simp add: binding_ns_def cutover_of_def sample_payload_def)
  then show ?thesis
    using routes by (simp add: poll_reads_def index_run_phases_def watched_namespaces_def watch_ask_def watch_call_def sample_board_def)
qed

lemma sample_identifier: "task_identifier sample_card = ''KB-1''"
  by code_simp

theorem cards_follow_their_runs_witness:
  "List.map_filter card_move (ws_log (snd (run_state (poll sample_watcher
      (sample_board [sample_card] [sample_settled ''kb-1-7'' 5 PhaseFailed])) (first_poll None)))) = [(1, ''Review'')]"
proof -
  let ?api = "sample_board [sample_card] [sample_settled ''kb-1-7'' 5 PhaseFailed]"
  obtain out s' where p: "run_state (poll sample_watcher ?api) (first_poll None) = (out, s')" by force
  have "List.map_filter (move_due [] (index_runs [sample_settled ''kb-1-7'' 5 PhaseFailed])) [sample_card] = [(1, ''Review'')]"
    by code_simp
  then show ?thesis
    using cards_follow_their_runs [OF p sample_poll_reads] p by (simp add: first_poll_def)
qed

section \<open>Firing\<close>

definition fired_card :: "watch_effect \<Rightarrow> task option" where
  "fired_card e = (case e of RunCreated t run res \<Rightarrow> Some t | AssignmentSubmitted t req res \<Rightarrow> Some t | _ \<Rightarrow> None)"

text \<open>How a card fires: as the run stamped for it, or in castle mode as the request of its dispatch.\<close>

definition fires_as :: "watcher \<Rightarrow> payload \<Rightarrow> adapter_book option \<Rightarrow> string \<Rightarrow> selection \<Rightarrow> watch_effect \<Rightarrow> bool" where
  "fires_as wr p book repoURL sel e =
     (case e of
        RunCreated t run res \<Rightarrow> book = None \<and> (\<exists>su. run = fst (build_criteria_run wr su t repoURL sel (cutover_of wr p)))
      | AssignmentSubmitted t req res \<Rightarrow> (\<exists>b now. book = Some b \<and> fire_request (ab_project b) now t repoURL sel = Inr req)
      | _ \<Rightarrow> True)"

definition well_fired ::
  "watcher \<Rightarrow> payload \<Rightarrow> (string \<times> run_phases) list \<Rightarrow> adapter_book option \<Rightarrow> int option \<Rightarrow> task \<Rightarrow> watch_effect \<Rightarrow> bool" where
  "well_fired wr p runs book prevCol t e \<longleftrightarrow>
     (case fired_card e of None \<Rightarrow> True
      | Some t' \<Rightarrow> t' = t \<and> (\<exists>validate repoURL sel. fire_gate wr p runs book prevCol validate t = Some (repoURL, sel) \<and>
          fires_as wr p book repoURL sel e))"

lemma fire_card_well:
  assumes "run_state (fire_card wr api p runs t) s = (u, s')"
  shows "\<exists>new. ws_log s' = ws_log s @ new \<and>
    list_all (well_fired wr p runs (ws_adapter s) (map_of (ws_lastCards s) (task_identifier t)) t) new"
proof -
  let ?E = "well_fired wr p runs (ws_adapter s) (map_of (ws_lastCards s) (task_identifier t)) t"
  let ?s1 = "s\<lparr>ws_lastCards := assoc_put (task_identifier t) (tk_columnID t) (ws_lastCards s)\<rparr>"
  obtain validate w where v: "wa_validator api (ws_world s) = (validate, w)" by force
  let ?gate = "fire_gate wr p runs (ws_adapter s) (map_of (ws_lastCards s) (task_identifier t)) validate t"
  let ?step = "case ?gate of None \<Rightarrow> State_Monad.return ()
     | Some (repoURL, sel) \<Rightarrow> (case ws_adapter s of Some b \<Rightarrow> fire_assignment api b t repoURL sel
          | None \<Rightarrow> fire_run wr api (cutover_of wr p) t repoURL sel)"
  have step: "run_state ?step (?s1\<lparr>ws_world := w\<rparr>) = (u, s')"
    using assms v by (auto simp: fire_card_def watch_get_def watch_put_def watch_ask_def watch_call_def split: option.splits)
  have fired: "adds_only ?E (fire_assignment api b t repoURL sel)" if "?gate = Some (repoURL, sel)" "ws_adapter s = Some b"
    for repoURL sel b
  proof -
    have "?E (AssignmentSubmitted t req res)"
      if "fire_request (ab_project b) (su_now_unix su) t repoURL sel = Inr req" for su req res
      using \<open>?gate = Some (repoURL, sel)\<close> \<open>ws_adapter s = Some b\<close> that
      by (auto simp: well_fired_def fired_card_def fires_as_def)
    then show ?thesis
      unfolding fire_assignment_def
      by (intro adds_only_bind adds_ask) (auto split: sum.split intro!: adds_return adds_only_bind adds_only_call adds_put)
  qed
  have stamped: "adds_only ?E (fire_run wr api (cutover_of wr p) t repoURL sel)" if "?gate = Some (repoURL, sel)" "ws_adapter s = None"
    for repoURL sel
  proof -
    have "?E (RunCreated t (fst (build_criteria_run wr su t repoURL sel (cutover_of wr p))) res)" for su res
      using that by (auto simp: well_fired_def fired_card_def fires_as_def)
    then have "?E (RunCreated t run res)" if "build_criteria_run wr su t repoURL sel (cutover_of wr p) = (run, ws)" for su run ws res
      using that by (metis fst_conv)
    then show ?thesis
      unfolding fire_run_def Let_def
      by (intro adds_only_bind adds_ask)
        (auto split: prod.split intro!: adds_return adds_only_bind adds_only_call adds_warnings simp: well_fired_def fired_card_def)
  qed
  have "adds_only ?E ?step" using fired stamped by (auto split: option.split intro: adds_return)
  from adds_onlyD [OF this step] show ?thesis by auto
qed

text \<open>Firing one card leaves the memo and the book entries of the other tickets alone.\<close>

definition same_memos :: "string \<Rightarrow> 'w watch_state \<Rightarrow> 'w watch_state \<Rightarrow> bool" where
  "same_memos k s s' \<longleftrightarrow> map_of (ws_lastCards s') k = map_of (ws_lastCards s) k \<and>
     (case ws_adapter s of
        None \<Rightarrow> ws_adapter s' = None
      | Some b \<Rightarrow> (\<exists>b'. ws_adapter s' = Some b' \<and> ab_project b' = ab_project b \<and> map_of (ab_runs b') k = map_of (ab_runs b) k))"

lemma same_memos_refl: "ws_lastCards s' = ws_lastCards s \<Longrightarrow> ws_adapter s' = ws_adapter s \<Longrightarrow> same_memos k s s'"
  by (simp add: same_memos_def split: option.split)

lemma same_memos_trans: "same_memos k s s' \<Longrightarrow> same_memos k s' s'' \<Longrightarrow> same_memos k s s''"
  by (auto simp: same_memos_def split: option.splits)

lemma warnings_memos:
  "run_state (post_warnings api i bodies) s = (u, s') \<Longrightarrow> ws_lastCards s' = ws_lastCards s \<and> ws_adapter s' = ws_adapter s"
  by (induction bodies arbitrary: s) (auto simp: post_warning_def watch_call_def split: prod.splits)

lemma fire_run_memos:
  assumes "run_state (fire_run wr api cutover t repoURL sel) s = (u, s')"
  shows "ws_lastCards s' = ws_lastCards s \<and> ws_adapter s' = ws_adapter s"
  using assms by (auto simp: fire_run_def watch_ask_def watch_call_def dest!: warnings_memos split: prod.splits)

lemma book_answer_other:
  "ab_project (book_answer t wn res b) = ab_project b \<and> (k \<noteq> t \<longrightarrow> map_of (ab_runs (book_answer t wn res b)) k = map_of (ab_runs b) k)"
  by (simp add: book_answer_def Let_def split: sum.split)

lemma fire_assignment_memos:
  assumes "run_state (fire_assignment api b t repoURL sel) s = (u, s')" and "k \<noteq> task_identifier t"
  shows "same_memos k s s'"
  using assms book_answer_other
  by (auto simp: fire_assignment_def watch_ask_def watch_call_def watch_put_def same_memos_def
      split: prod.splits sum.splits option.split)

lemma fire_card_memos:
  assumes "run_state (fire_card wr api p runs t) s = (u, s')" and "k \<noteq> task_identifier t"
  shows "same_memos k s s'"
proof -
  obtain validate w where v: "wa_validator api (ws_world s) = (validate, w)" by force
  let ?s1 = "s\<lparr>ws_lastCards := assoc_put (task_identifier t) (tk_columnID t) (ws_lastCards s), ws_world := w\<rparr>"
  have "same_memos k s ?s1" using assms(2) by (simp add: same_memos_def split: option.split)
  moreover have "same_memos k ?s1 s'"
  proof (cases "fire_gate wr p runs (ws_adapter s) (map_of (ws_lastCards s) (task_identifier t)) validate t")
    case None
    then show ?thesis
      using assms v by (auto simp: fire_card_def watch_get_def watch_put_def watch_ask_def watch_call_def intro!: same_memos_refl)
  next
    case (Some fire)
    obtain repoURL sel where fire: "fire = (repoURL, sel)" by force
    show ?thesis
    proof (cases "ws_adapter s")
      case None
      then have "run_state (fire_run wr api (cutover_of wr p) t repoURL sel) ?s1 = (u, s')"
        using assms(1) v Some fire
        by (simp add: fire_card_def watch_get_def watch_put_def watch_ask_def watch_call_def split: option.splits)
      from fire_run_memos [OF this] show ?thesis by (simp add: same_memos_refl)
    next
      case (Some b)
      then have "run_state (fire_assignment api b t repoURL sel) ?s1 = (u, s')"
        using assms(1) v \<open>fire_gate _ _ _ _ _ _ _ = _\<close> fire
        by (simp add: fire_card_def watch_get_def watch_put_def watch_ask_def watch_call_def split: option.splits)
      from fire_assignment_memos [OF this assms(2)] show ?thesis .
    qed
  qed
  ultimately show ?thesis by (rule same_memos_trans)
qed

lemma well_fired_memos:
  assumes "same_memos (task_identifier t) s s'"
  shows "well_fired wr p runs (ws_adapter s') (map_of (ws_lastCards s') (task_identifier t)) t e =
    well_fired wr p runs (ws_adapter s) (map_of (ws_lastCards s) (task_identifier t)) t e"
proof (cases "ws_adapter s")
  case (Some b)
  then obtain b' where b': "ws_adapter s' = Some b'" "ab_project b' = ab_project b"
      "map_of (ab_runs b') (task_identifier t) = map_of (ab_runs b) (task_identifier t)"
    using assms by (auto simp: same_memos_def)
  have flight: "in_flight b' (task_identifier t) = in_flight b (task_identifier t)" by (simp add: in_flight_def b'(3))
  have "fire_gate wr p runs (Some b') prevCol validate t = fire_gate wr p runs (Some b) prevCol validate t" for prevCol validate
    unfolding fire_gate_def option.case flight ..
  moreover have "fires_as wr p (Some b') repoURL sel e = fires_as wr p (Some b) repoURL sel e" for repoURL sel
    using b'(2) by (cases e) (simp_all add: fires_as_def)
  ultimately show ?thesis
    using Some b' assms by (cases "fired_card e") (simp_all add: well_fired_def same_memos_def)
qed (use assms in \<open>simp add: same_memos_def well_fired_def\<close>)

lemma fire_cards_well:
  assumes "run_state (fire_cards wr api p runs tasks) s = (u, s')" and "distinct (map task_identifier tasks)"
  shows "\<exists>new. ws_log s' = ws_log s @ new \<and>
    (\<forall>e \<in> set new. \<forall>t. fired_card e = Some t \<longrightarrow>
       t \<in> set tasks \<and> well_fired wr p runs (ws_adapter s) (map_of (ws_lastCards s) (task_identifier t)) t e)"
  using assms
proof (induction tasks arbitrary: s)
  case (Cons t ts)
  obtain s1 where one: "run_state (fire_card wr api p runs t) s = ((), s1)" by (metis old.unit.exhaust prod.collapse)
  then have rest: "run_state (fire_cards wr api p runs ts) s1 = (u, s')" using Cons.prems(1) by simp
  obtain new1 where new1: "ws_log s1 = ws_log s @ new1"
      "list_all (well_fired wr p runs (ws_adapter s) (map_of (ws_lastCards s) (task_identifier t)) t) new1"
    using fire_card_well [OF one] by blast
  have "distinct (map task_identifier ts)" using Cons.prems(2) by simp
  from Cons.IH [OF rest this]
  obtain new2 where new2: "ws_log s' = ws_log s1 @ new2"
      "\<And>e t. e \<in> set new2 \<Longrightarrow> fired_card e = Some t \<Longrightarrow>
         t \<in> set ts \<and> well_fired wr p runs (ws_adapter s1) (map_of (ws_lastCards s1) (task_identifier t)) t e"
    by blast
  have "u' \<in> set (t # ts) \<and> well_fired wr p runs (ws_adapter s) (map_of (ws_lastCards s) (task_identifier u')) u' e"
    if e: "e \<in> set (new1 @ new2)" "fired_card e = Some u'" for e u'
  proof (cases "e \<in> set new1")
    case True
    then have "well_fired wr p runs (ws_adapter s) (map_of (ws_lastCards s) (task_identifier t)) t e"
      using new1(2) by (simp add: list_all_iff)
    moreover from this e(2) have "u' = t" by (simp add: well_fired_def)
    ultimately show ?thesis by simp
  next
    case False
    with e new2(2) have u: "u' \<in> set ts"
        "well_fired wr p runs (ws_adapter s1) (map_of (ws_lastCards s1) (task_identifier u')) u' e" by auto
    have "task_identifier u' \<noteq> task_identifier t" using u(1) Cons.prems(2) by (auto simp: image_iff)
    from well_fired_memos [OF fire_card_memos [OF one this]] u show ?thesis by simp
  qed
  with new1(1) new2(1) show ?case by auto
qed simp

lemma same_identifiers:
  assumes "map tk_id xs = map tk_id ys"
  shows "map task_identifier xs = map task_identifier ys"
proof -
  have "map task_identifier zs = map (\<lambda>i. ''KB-'' @ show_int i) (map tk_id zs)" for zs
    by (simp add: task_identifier_def)
  with assms show ?thesis by metis
qed

lemma map_of_filter_key: "map_of (filter (\<lambda>(k, v). P k) m) k = (if P k then map_of m k else None)"
  by (induction m) auto

lemma reconcile_unfired: "adds_only (\<lambda>e. fired_card e = None) (reconcile_cards api runs tasks)"
proof (induction tasks)
  case (Cons t ts)
  have "adds_only (\<lambda>e. fired_card e = None) (reconcile_task_column api t ph)" for ph
    unfolding reconcile_task_column_def post_warning_def
    by (intro adds adds_only_call) (simp_all add: fired_card_def)
  then have "adds_only (\<lambda>e. fired_card e = None) (reconcile_card api runs t)"
    unfolding reconcile_card_def column_name_for_def by (intro adds adds_put) simp_all
  with Cons show ?case by (auto intro!: adds)
qed (simp add: adds_return)

lemma fire_gateD:
  assumes "fire_gate wr p runs book prevCol validate t = Some (repoURL, sel)"
  shows "triggers wr t \<and> resolve p (task_selector wr p t) = Inr sel \<and>
    repoURL = extract_repo_url t (wr_defaultRepoURL wr) validate \<and> repoURL \<noteq> [] \<and>
    (\<forall>ph. map_of runs (task_identifier t) = Some ph \<longrightarrow> \<not> rp_active ph) \<and>
    (\<forall>b. book = Some b \<longrightarrow> \<not> in_flight b (task_identifier t)) \<and> prevCol \<noteq> Some (tk_columnID t)"
  using assms by (auto simp: fire_gate_def Let_def split: if_splits sum.splits option.splits)

text \<open>
  C30. A poll fires a card only on entry, and only for work it may start: the card carries the trigger tag, its project
  and column resolve to a workflow of the routes just loaded, it names a repository, no run of its ticket is
  unfinished and no submission of it is in flight, and its column, after this poll's moves, is not the one of the
  previous poll (which is remembered as long as the ticket has a run or a submission in flight). What is fired is the
  run stamped for exactly that task, selection and repository, or, in castle mode, the request that carries them.
\<close>

theorem cards_fire_on_entry:
  assumes "run_state (poll wr api) s = (out, s')" and "poll_reads wr api s p runs tasks"
    and "distinct (map task_identifier tasks)"
    and "e \<in> set (drop (length (ws_log s)) (ws_log s'))" and "fired_card e = Some t"
  shows "tk_id t \<in> tk_id ` set tasks \<and> triggers wr t \<and>
    (keeps_card (ws_adapter s) runs (task_identifier t) \<longrightarrow>
       map_of (ws_lastCards s) (task_identifier t) \<noteq> Some (tk_columnID t)) \<and>
    (\<forall>ph. map_of runs (task_identifier t) = Some ph \<longrightarrow> \<not> rp_active ph) \<and>
    (\<forall>b. ws_adapter s = Some b \<longrightarrow> \<not> in_flight b (task_identifier t)) \<and>
    (\<exists>sel repoURL validate. resolve p (task_selector wr p t) = Inr sel \<and>
       repoURL = extract_repo_url t (wr_defaultRepoURL wr) validate \<and> repoURL \<noteq> [] \<and>
       fires_as wr p (ws_adapter s) repoURL sel e)"
proof -
  obtain s1 tasks' s2 s3 where st: "ws_log s1 = ws_log s" "ws_lastCards s1 = ws_lastCards s" "ws_adapter s1 = ws_adapter s"
      "run_state (reconcile_cards api runs tasks) s1 = (tasks', s2)"
      "run_state (fire_cards wr api p runs tasks') (snd (run_state (forget_memos runs) s2)) = ((), s3)"
      "run_state (mirror_runs api tasks' runs) s3 = ((), s')" "\<forall>(k, ph) \<in> set runs. rp_anyRun ph"
    using poll_run [OF assms(1,2)] by metis
  let ?s2 = "snd (run_state (forget_memos runs) s2)"
  obtain new where new: "ws_log s2 = ws_log s @ new" "ws_lastCards s2 = ws_lastCards s" "ws_adapter s2 = ws_adapter s"
      "map tk_id tasks' = map tk_id tasks"
    using reconcile_cards_effects [OF st(4,7) assms(3)] st(1-3) by auto
  obtain e1 where moved: "ws_log s2 = ws_log s @ e1" "list_all (\<lambda>e. fired_card e = None) e1"
    using adds_onlyD [OF reconcile_unfired st(4)] st(1) by metis
  have ids: "map task_identifier tasks' = map task_identifier tasks"
    by (rule same_identifiers [OF new(4)])
  have forgot: "ws_log ?s2 = ws_log s2" "ws_adapter ?s2 = ws_adapter s"
      "map_of (ws_lastCards ?s2) k = (if keeps_card (ws_adapter s) runs k then map_of (ws_lastCards s) k else None)" for k
    using new(2,3) by (simp_all add: forget_memos_def watch_put_def map_of_filter_key)
  obtain fires where fires: "ws_log s3 = ws_log ?s2 @ fires"
      "\<And>e t. e \<in> set fires \<Longrightarrow> fired_card e = Some t \<Longrightarrow> t \<in> set tasks' \<and>
         well_fired wr p runs (ws_adapter ?s2) (map_of (ws_lastCards ?s2) (task_identifier t)) t e"
    using fire_cards_well [OF st(5)] ids assms(3) by auto
  obtain rest where rest: "ws_log s' = ws_log s3 @ rest" "list_all (\<lambda>e. fired_card e = None) rest"
    using st(6) by (auto simp: mirror_runs_def split: option.splits prod.splits)
  have "drop (length (ws_log s)) (ws_log s') = e1 @ fires @ rest"
    using moved(1) fires(1) rest(1) forgot(1) by simp
  then have "e \<in> set fires" using assms(4,5) moved(2) rest(2) by (auto simp: list_all_iff)
  from fires(2) [OF this assms(5)] have t: "t \<in> set tasks'"
      "well_fired wr p runs (ws_adapter s) (map_of (ws_lastCards ?s2) (task_identifier t)) t e"
    unfolding forgot(2) by blast+
  then obtain validate repoURL sel where
      gate: "fire_gate wr p runs (ws_adapter s) (map_of (ws_lastCards ?s2) (task_identifier t)) validate t = Some (repoURL, sel)"
      "fires_as wr p (ws_adapter s) repoURL sel e"
    using assms(5) by (auto simp: well_fired_def)
  have "tk_id t \<in> tk_id ` set tasks" using t(1) new(4) by (metis image_eqI list.set_map)
  with fire_gateD [OF gate(1)] gate(2) forgot(3) show ?thesis by auto
qed

theorem cards_fire_on_entry_witness:
  "\<exists>e run. e \<in> set (ws_log (snd (run_state (poll sample_watcher (sample_board [sample_card] [])) (first_poll None)))) \<and>
     fired_card e = Some sample_card \<and> resolve sample_payload (task_selector sample_watcher sample_payload sample_card) = Inr run"
proof -
  let ?api = "sample_board [sample_card] []"
  obtain out s' where p: "run_state (poll sample_watcher ?api) (first_poll None) = (out, s')" by force
  have "List.map_filter fired_card (ws_log (snd (run_state (poll sample_watcher ?api) (first_poll None)))) = [sample_card]"
    by code_simp
  then obtain e where e: "e \<in> set (ws_log s')" "fired_card e = Some sample_card"
    unfolding p snd_conv by (force simp: List.map_filter_def filter_eq_Cons_iff)
  then have "e \<in> set (drop (length (ws_log (first_poll None))) (ws_log s'))" by (simp add: first_poll_def)
  moreover have "distinct (map task_identifier [sample_card])" by simp
  ultimately show ?thesis
    using cards_fire_on_entry [OF p sample_poll_reads _ _ e(2)] e unfolding p snd_conv by blast
qed

section \<open>What the memos lose\<close>

text \<open>
  A move that the board refuses is not made again: the record is remembered as settled all the same, so the next poll
  with the same index leaves the card where it is.
\<close>

lemma failed_move_forgotten:
  assumes "map_of runs (task_identifier t) = Some ph" and "rp_anyRun ph"
    and "run_state (reconcile_card api runs t) s = (t', s')"
  shows "run_state (reconcile_card api runs t) s' = (t, s')"
proof -
  have "map_of (ws_lastRuns s') (task_identifier t) = Some ph"
    using assms by (auto simp: reconcile_card_def watch_get_def watch_put_def split: prod.splits if_splits)
  then show ?thesis using assms(1,2) by (simp add: reconcile_card_def watch_get_def)
qed

text \<open>
  A card that enters a trigger column while its ticket still has a run in flight, as after the rearm step of a triage
  run, does not fire when that run ends: the poll that found the run unfinished has remembered the column.
\<close>

lemma entry_consumed_while_active:
  assumes "map_of runs (task_identifier t) = Some ph" and "rp_active ph"
    and "run_state (fire_card wr api p runs t) s = ((), s1)"
    and "map_of (ws_lastCards s2) (task_identifier t) = map_of (ws_lastCards s1) (task_identifier t)"
    and "run_state (fire_card wr api p runs' t) s2 = ((), s3)"
  shows "ws_log s1 = ws_log s \<and> ws_log s3 = ws_log s2"
proof -
  obtain v w where v: "wa_validator api (ws_world s) = (v, w)" by force
  obtain v' w' where v': "wa_validator api (ws_world s2) = (v', w')" by force
  have "fire_gate wr p runs book prevCol validate t = None" for book prevCol validate
    using fire_gateD assms(1,2) by (metis not_Some_eq surj_pair)
  then have s1: "s1 = s\<lparr>ws_lastCards := assoc_put (task_identifier t) (tk_columnID t) (ws_lastCards s), ws_world := w\<rparr>"
    using assms(3) v by (simp add: fire_card_def watch_get_def watch_put_def watch_ask_def watch_call_def)
  then have "map_of (ws_lastCards s2) (task_identifier t) = Some (tk_columnID t)" using assms(4) by simp
  moreover have "fire_gate wr p runs' book (Some (tk_columnID t)) validate t = None" for book validate
    using fire_gateD by (metis not_Some_eq surj_pair)
  ultimately have "ws_log s3 = ws_log s2"
    using assms(5) v' by (auto simp: fire_card_def watch_get_def watch_put_def watch_ask_def watch_call_def)
  with s1 show ?thesis by simp
qed

text \<open>
  In castle mode a submission whose end was seen, and whose ticket has no run (the agent closed it as failed), loses
  its card's memo at every poll: the gate treats the card as entered again, and it is submitted again.
\<close>

lemma closed_assignment_fires_again:
  assumes "map_of (ab_runs b) (task_identifier t) = Some entry" and "sb_terminal entry"
    and "map_of runs (task_identifier t) = None" and "ws_adapter s = Some b"
    and "run_state (forget_memos runs) s = ((), s1)"
  shows "map_of (ws_lastCards s1) (task_identifier t) = None \<and>
    fire_gate wr p runs (Some b) (map_of (ws_lastCards s1) (task_identifier t)) validate t =
      fire_gate wr p runs None None validate t"
proof -
  have out: "\<not> in_flight b (task_identifier t)" using assms(1,2) by (simp add: in_flight_def)
  then have "\<not> keeps_card (Some b) runs (task_identifier t)"
    using assms(3) by (simp add: keeps_card_def map_of_eq_None_iff)
  then have "map_of (ws_lastCards s1) (task_identifier t) = None"
    using assms(4,5) by (auto simp: forget_memos_def watch_put_def map_of_filter_key)
  then show ?thesis using out by (simp add: fire_gate_def Let_def split: sum.split)
qed

end
