(* ===== verification/ParityBook.thy ===== *)
theory ParityBook
  imports WatcherSafety
begin

text \<open>
  The parity report of the castle lane over any number of polls: every comparison is counted once and on one side, no
  submission is compared twice, and only a run whose end the mirror saw is compared. And where the report is wrong: a run is
  compared as soon as the cluster lists it, whether or not it has ended there.
\<close>

section \<open>The account\<close>

definition undecided :: "adapter_book \<Rightarrow> string set" where
  "undecided b = {k. \<exists>e. map_of (ab_runs b) k = Some e \<and> sb_decision e = []}"

definition accounts :: "adapter_book \<Rightarrow> bool" where
  "accounts b \<longleftrightarrow> distinct (map fst (ab_runs b)) \<and> ab_decided b = ab_agreed b + ab_mismatch b \<and>
     ab_decided b + card (undecided b) \<le> ab_submitted b \<and>
     (\<forall>k e. map_of (ab_runs b) k = Some e \<and> sb_decision e \<noteq> [] \<longrightarrow> sb_terminal e)"

lemma finite_undecided [simp]: "finite (undecided b)"
  by (rule finite_subset [of _ "dom (map_of (ab_runs b))"]) (auto simp: undecided_def finite_dom_map_of)

lemma accounts_new: "accounts (new_adapter_book project)"
  by (simp add: accounts_def new_adapter_book_def undecided_def)

lemma undecided_put:
  "undecided (b\<lparr>ab_runs := assoc_put k e m\<rparr>) =
     (if sb_decision e = [] then insert k (undecided (b\<lparr>ab_runs := m\<rparr>)) else undecided (b\<lparr>ab_runs := m\<rparr>) - {k})"
  by (auto simp: undecided_def split: if_splits)

lemma undecided_counters [simp]:
  "undecided (b\<lparr>ab_decided := n\<rparr>) = undecided b" "undecided (b\<lparr>ab_agreed := n\<rparr>) = undecided b"
  "undecided (b\<lparr>ab_mismatch := n\<rparr>) = undecided b" "undecided (b\<lparr>ab_submitted := n\<rparr>) = undecided b"
  "undecided (b\<lparr>ab_rejected := n\<rparr>) = undecided b"
  by (simp_all add: undecided_def)

text \<open>An entry is replaced by one that is as undecided as it was; an answered submission adds at most one.\<close>

lemma accounts_replace:
  assumes "accounts b" and "map_of (ab_runs b) k = Some e0" and "sb_decision e = sb_decision e0"
    and "sb_terminal e0 \<Longrightarrow> sb_terminal e"
  shows "accounts (b\<lparr>ab_runs := assoc_put k e (ab_runs b)\<rparr>)"
proof -
  have "undecided (b\<lparr>ab_runs := assoc_put k e (ab_runs b)\<rparr>) = undecided b"
    using assms(2,3) by (auto simp: undecided_def)
  then show ?thesis using assms by (auto simp: accounts_def)
qed

lemma accounts_answer: "accounts b \<Longrightarrow> accounts (book_answer t wn res b)"
proof (cases res)
  case (Inr resp)
  assume b: "accounts b"
  have fresh: "accounts (b\<lparr>ab_submitted := ab_submitted b + 1,
      ab_runs := assoc_put t (new_submitted (sr_runID resp) wn) (ab_runs b)\<rparr>)"
    using b card_insert_le_m1 [of "Suc (card (undecided b))" "undecided b" t]
    by (auto simp: accounts_def undecided_put new_submitted_def)
  show ?thesis using b fresh Inr by (auto simp: book_answer_def Let_def) (auto simp: accounts_def)
qed (simp add: book_answer_def)

section \<open>The mirror\<close>

lemma apply_ladder_keeps: "sb_decision (apply_ladder e ev) = sb_decision e \<and> (sb_terminal e \<longrightarrow> sb_terminal (apply_ladder e ev))"
  by (simp add: apply_ladder_def split: watch_event.split)

lemma drain_keeps:
  "drain_envelopes e evs err = (e', out) \<Longrightarrow> sb_decision e' = sb_decision e \<and> (sb_terminal e \<longrightarrow> sb_terminal e')"
proof (induction evs arbitrary: e)
  case (Cons ev evs)
  then show ?case using apply_ladder_keeps [of e ev] by (fastforce simp: Let_def split: if_splits)
qed simp

lemma drain_run_keeps:
  "drain_run e answer = (e', out) \<Longrightarrow> sb_decision e' = sb_decision e \<and> (sb_terminal e \<longrightarrow> sb_terminal e')"
  by (auto simp: drain_run_def dest: drain_keeps split: sum.splits prod.splits)

lemma board_decision_nonempty: "board_decision ph col \<noteq> []"
  by (auto simp: board_decision_def decision_noop_def decision_review_def decision_done_def split: criteria_run_phase.split)

lemma accounts_parity:
  assumes "accounts b" and "map_of (ab_runs b) k = Some e0" and "sb_decision e = sb_decision e0"
    and "sb_terminal e0 \<Longrightarrow> sb_terminal e"
  shows "accounts (record_parity tasks runs k e b)"
proof -
  note kept = accounts_replace [OF assms]
  have judged: "accounts (b\<lparr>ab_runs := assoc_put k (e\<lparr>sb_decision := d\<rparr>) (ab_runs b), ab_decided := ab_decided b + 1,
        ab_agreed := ab_agreed b + i, ab_mismatch := ab_mismatch b + j\<rparr>)"
    if "d \<noteq> []" "sb_terminal e" "sb_decision e = []" "i + j = 1" for d i j
  proof -
    have "k \<in> undecided b" using assms(2,3) that(3) by (simp add: undecided_def)
    then have "Suc (card (undecided b - {k})) = card (undecided b)" by (rule card_Suc_Diff1 [OF finite_undecided])
    then show ?thesis
      using assms(1) that by (auto simp: accounts_def undecided_put)
  qed
  show ?thesis
    using kept judged [OF board_decision_nonempty, of 1 0] judged [OF board_decision_nonempty, of 0 1]
    by (auto simp: record_parity_def Let_def split: option.split)
qed

text \<open>One entry: the account is kept, and the entries of the other tickets are untouched.\<close>

lemma mirror_entry_keeps:
  assumes "accounts b" and "map_of (ab_runs b) k = Some e"
  shows "accounts (mirror_entry tasks runs k e answer b) \<and>
    (\<forall>k'. k' \<noteq> k \<longrightarrow> map_of (ab_runs (mirror_entry tasks runs k e answer b)) k' = map_of (ab_runs b) k')"
proof -
  obtain e' out where drained: "drain_run e answer = (e', out)" by force
  have "accounts (b\<lparr>ab_runs := assoc_del k (ab_runs b)\<rparr>)" if "sb_decision e \<noteq> []"
  proof -
    have "undecided (b\<lparr>ab_runs := assoc_del k (ab_runs b)\<rparr>) = undecided b"
      using assms(2) that by (auto simp: undecided_def)
    then show ?thesis using assms(1) by (auto simp: accounts_def split: if_splits)
  qed
  then have "accounts (mirror_entry tasks runs k e answer b)"
    using accounts_parity [OF assms, of e] accounts_parity [OF assms, of e'] accounts_replace [OF assms, of e']
      drain_run_keeps [OF drained] drained
    by (auto simp: mirror_entry_def)
  moreover have "map_of (ab_runs (record_parity tasks runs k x b)) k' = map_of (ab_runs b) k'" if "k' \<noteq> k" for k' x
    using that by (simp add: record_parity_def Let_def split: option.split)
  ultimately show ?thesis by (auto simp: mirror_entry_def drained)
qed

lemma mirror_entries_account:
  assumes "accounts b" and "distinct (map fst entries)" and "\<forall>(k, e) \<in> set entries. map_of (ab_runs b) k = Some e"
  shows "accounts (fst (mirror_entries watch tasks runs entries (b, w)))"
  using assms
proof (induction entries arbitrary: b w)
  case (Cons entry rest)
  obtain k e where entry: "entry = (k, e)" by force
  have others: "\<forall>(k', e') \<in> set rest. map_of (ab_runs (mirror_entry tasks runs k e answer b)) k' = Some e'" for answer
  proof (intro ballI)
    fix x assume x: "x \<in> set rest"
    then have "fst x \<noteq> k" using Cons.prems(2) entry imageI [OF x, of fst] by auto
    moreover have "map_of (ab_runs b) (fst x) = Some (snd x)" using x Cons.prems(3) by (cases x) auto
    ultimately show "case x of (k', e') \<Rightarrow> map_of (ab_runs (mirror_entry tasks runs k e answer b)) k' = Some e'"
      using mirror_entry_keeps [OF Cons.prems(1), of k e] Cons.prems(3) entry by (cases x) auto
  qed
  have "accounts (mirror_entry tasks runs k e answer b)" for answer
    using mirror_entry_keeps [OF Cons.prems(1), of k e] Cons.prems(3) entry by simp
  from Cons.IH [OF this _ others] show ?case
    using Cons.prems(2) by (simp add: entry split: prod.split)
qed simp

lemma mirror_account: "accounts b \<Longrightarrow> accounts (fst (mirror watch tasks runs (b, w)))"
  unfolding mirror_def fst_conv
  by (rule mirror_entries_account) (auto simp: accounts_def)

section \<open>The polls\<close>

text \<open>\<open>Q\<close> of the book in the state.\<close>

definition book_ok :: "string \<Rightarrow> 'w watch_state \<Rightarrow> bool" where
  "book_ok project s \<longleftrightarrow> (\<exists>b. ws_adapter s = Some b \<and> accounts b \<and> ab_project b = project)"

abbreviation keeps_book :: "string \<Rightarrow> ('w, 'a) watch \<Rightarrow> bool" where
  "keeps_book project m \<equiv> triple (book_ok project) m (\<lambda>_. book_ok project)"

lemma book_call: "keeps_book project (watch_call f eff)"
  by (auto simp: triple_def watch_call_def book_ok_def split: prod.splits)

lemma book_ask: "keeps_book project (watch_ask f)"
  unfolding watch_ask_def by (rule book_call)

lemma book_get: "keeps_book project (watch_get f)"
  by (auto simp: triple_def watch_get_def)

lemma book_put: "(\<And>s. book_ok project s \<Longrightarrow> book_ok project (f s)) \<Longrightarrow> keeps_book project (watch_put f)"
  by (auto simp: triple_def watch_put_def)

lemma book_return: "keeps_book project (State_Monad.return a)"
  by (simp add: triple_return)

lemma book_bind: "keeps_book project m \<Longrightarrow> (\<And>a. keeps_book project (f a)) \<Longrightarrow> keeps_book project (State_Monad.bind m f)"
  by (rule triple_bind)

lemmas keeping = book_call book_ask book_get book_return book_bind triple_sum triple_option triple_pair triple_if

lemma book_warnings: "keeps_book project (post_warnings api i bodies)"
  by (induction bodies) (auto simp: post_warning_def intro!: keeping)

lemma book_list: "keeps_book project (list_watched api nss)"
  by (induction nss) (auto intro!: keeping)

lemma book_reconcile: "keeps_book project (reconcile_cards api runs tasks)"
proof (induction tasks)
  case (Cons t rest)
  have "keeps_book project (reconcile_card api runs t)"
    unfolding reconcile_card_def reconcile_task_column_def column_name_for_def post_warning_def
    by (intro keeping book_put) (auto simp: book_ok_def)
  then show ?case using Cons.IH by (auto intro!: keeping)
qed (simp add: book_return)

lemma book_fire_card: "keeps_book project (fire_card wr api p runs t)"
  unfolding fire_card_def fire_run_def fire_assignment_def Let_def
  by (intro keeping book_put book_warnings) (auto simp: book_ok_def accounts_answer book_answer_other)

lemma book_fire: "keeps_book project (fire_cards wr api p runs tasks)"
  by (induction tasks) (auto intro!: keeping book_fire_card)

lemma mirror_project: "ab_project (fst (mirror watch tasks runs (b, w))) = ab_project b"
proof -
  have one: "ab_project (mirror_entry tasks runs k e answer b) = ab_project b" for k e answer b
    by (simp add: mirror_entry_def record_parity_def Let_def split: option.split prod.split)
  have "ab_project (fst (mirror_entries watch tasks runs entries (b, w))) = ab_project b" for entries b w
    by (induction entries arbitrary: b w) (auto simp: one split: prod.split)
  then show ?thesis by (simp add: mirror_def)
qed

lemma book_mirror: "keeps_book project (mirror_runs api tasks runs)"
  unfolding triple_def
proof (intro allI impI)
  fix s u s' assume m: "run_state (mirror_runs api tasks runs) s = (u, s')" and ok: "book_ok project s"
  then obtain b where b: "ws_adapter s = Some b" "accounts b" "ab_project b = project" by (auto simp: book_ok_def)
  obtain b' w where step: "mirror (wa_watch api) tasks runs (b, ws_world s) = (b', w)" by force
  have "accounts b'" "ab_project b' = project"
    using mirror_account [OF b(2), of "wa_watch api" tasks runs "ws_world s"]
      mirror_project [of "wa_watch api" tasks runs b "ws_world s"] step b(3) by simp_all
  then show "book_ok project s'" using m b(1) step by (auto simp: mirror_runs_def book_ok_def)
qed

lemma book_poll: "keeps_book project (poll wr api)"
  unfolding poll_def index_run_phases_def report_binding_deprecations_def forget_memos_def
  by (intro keeping book_put book_list book_reconcile book_fire book_mirror) (auto simp: book_ok_def)

fun polls :: "watcher \<Rightarrow> 'w watch_api \<Rightarrow> nat \<Rightarrow> 'w watch_state \<Rightarrow> 'w watch_state" where
  "polls wr api 0 s = s"
| "polls wr api (Suc n) s = polls wr api n (snd (run_state (poll wr api) s))"

lemma polls_keep: "book_ok project s \<Longrightarrow> book_ok project (polls wr api n s)"
proof (induction n arbitrary: s)
  case (Suc n)
  obtain out s' where p: "run_state (poll wr api) s = (out, s')" by force
  show ?case using Suc.IH [OF tripleD [OF book_poll p Suc.prems]] p by simp
qed simp



section \<open>Where the report is early\<close>

text \<open>
  The comparison waits for a run in the cluster, not for its end: a run that castle completed and that the cluster
  still lists as running is counted as a disagreement, and is not compared again.
\<close>

lemma premature_comparison:
  assumes "sb_terminal e" and "sb_decision e = []" and "sb_endPhase e = PhaseSucceeded"
    and "sb_endState e = verdict_handler_complete" and "map_of runs k = Some ph" and "rp_anyRun ph"
    and "rp_latestPhase ph = PhaseRunning" and "rp_latestClass ph \<noteq> run_class_triage"
  shows "ab_mismatch (record_parity tasks runs k e b) = ab_mismatch b + 1 \<and>
    map_of (ab_runs (record_parity tasks runs k e b)) k = Some (e\<lparr>sb_decision := decision_done\<rparr>)"
proof -
  have "board_decision ph col = decision_noop" "board_decision (mirrored_phases e ph) col = decision_done" for col
    using assms by (auto simp: board_decision_def mirrored_phases_def is_human_handoff_def verdict_handler_complete_def
        verdict_need_assistance_def verdict_awaiting_human_def verdict_failed_def)
  then show ?thesis
    using assms by (simp add: record_parity_def Let_def decision_noop_def decision_done_def)
qed

end
