(* ===== verification/EnrollProxy.thy ===== *)
theory EnrollProxy
  imports Json JobBuilder RunStatus "HOL-Library.State_Monad" "HOL-Library.Word"
begin

text \<open>
  The run-event proxy (\<open>internal/proxy/proxy.go\<close>): the criteria service that a runner's engine dials instead of castle. An
  engine registers with the enrollment token of its run, opens a local run, and streams envelopes, which the proxy
  submits to castle under the castle run of the owning CriteriaRun. The identities are allocated entries that the maps and
  the runs refer to by reference, as the pointers of the code; the API server, castle and the random source are functions
  on a world; the log keeps what was read to admit an engine and what was written.
\<close>

section \<open>Identities and runs\<close>

record agent_entry =
  ag_criteriaID :: string
  ag_token :: string
  ag_crName :: string

type_synonym agent_ref = nat

record run_entry =
  xe_localID :: string
  xe_agent :: agent_ref
  xe_workflowName :: string
  xe_workflowHash :: string
  xe_castleRunID :: string

datatype engine_payload = WatchReady | EnginePayload string

record engine_envelope =
  ee_runID :: string
  ee_seq :: "64 word"
  ee_correlationID :: string
  ee_payload :: engine_payload

record event_ack =
  ak_runID :: string
  ak_seq :: "64 word"
  ak_correlationID :: string

text \<open>What the handlers read of the request headers: the first value, or nothing.\<close>

record proxy_headers =
  hd_authorization :: string
  hd_criteriaToken :: string
  hd_bootstrap :: string

datatype proxy_code =
    InvalidArgument | PermissionDenied | Internal | Unauthenticated | NotFound | FailedPrecondition | Unavailable | UnknownCode

type_synonym 'a answer = "(proxy_code \<times> go_error) + 'a"

section \<open>State and surroundings\<close>

datatype proxy_effect =
    EngineAdmitted criteria_run string agent_ref
  | RunAnnotated criteria_run criteria_run "go_error + unit"
  | CastleRunCreated string "go_error + string"
  | RunAttributed criteria_run string string
  | LocalRunOpened string agent_ref
  | EnvelopeForwarded agent_ref string engine_envelope "go_error + event_ack option"
  | EngineAcked event_ack

record 'w proxy_state =
  px_world :: 'w
  px_agents :: "agent_entry list"
  px_byToken :: "(string \<times> agent_ref) list"
  px_byCriteriaID :: "(string \<times> agent_ref) list"
  px_runs :: "(string \<times> run_entry) list"
  px_enrolled :: smap
  px_log :: "proxy_effect list"

text \<open>\<open>xa_creates\<close> says whether the watcher lane's creator is wired; \<open>xa_random\<close> reads sixteen bytes.\<close>

record 'w proxy_api =
  xa_ns :: string
  xa_creates :: bool
  xa_get :: "nsname \<Rightarrow> 'w \<Rightarrow> (go_error + criteria_run) \<times> 'w"
  xa_patch :: "criteria_run \<Rightarrow> criteria_run \<Rightarrow> 'w \<Rightarrow> (go_error + unit) \<times> 'w"
  xa_random :: "'w \<Rightarrow> (go_error + 8 word list) \<times> 'w"
  xa_submit :: "engine_envelope \<Rightarrow> 'w \<Rightarrow> (go_error + event_ack option) \<times> 'w"
  xa_create :: "string \<Rightarrow> string \<Rightarrow> 'w \<Rightarrow> (go_error + string) \<times> 'w"
  xa_send :: "event_ack \<Rightarrow> 'w \<Rightarrow> (go_error + unit) \<times> 'w"
  xa_now :: "'w \<Rightarrow> gotime \<times> 'w"

type_synonym ('w, 'a) proxying = "('w proxy_state, 'a) state"

definition new_proxy :: "'w \<Rightarrow> 'w proxy_state" where
  "new_proxy w = \<lparr>px_world = w, px_agents = [], px_byToken = [], px_byCriteriaID = [], px_runs = [], px_enrolled = [],
     px_log = []\<rparr>"

definition px_call :: "('w \<Rightarrow> 'a \<times> 'w) \<Rightarrow> ('a \<Rightarrow> proxy_effect list) \<Rightarrow> ('w, 'a) proxying" where
  "px_call f eff = State (\<lambda>s. let (a, w) = f (px_world s)
     in (a, s\<lparr>px_world := w, px_log := px_log s @ eff a\<rparr>))"

definition px_ask :: "('w \<Rightarrow> 'a \<times> 'w) \<Rightarrow> ('w, 'a) proxying" where "px_ask f = px_call f (\<lambda>_. [])"

definition px_read :: "('w proxy_state \<Rightarrow> 'a) \<Rightarrow> ('w, 'a) proxying" where "px_read f = State (\<lambda>s. (f s, s))"

definition px_write :: "('w proxy_state \<Rightarrow> 'w proxy_state) \<Rightarrow> ('w, unit) proxying" where
  "px_write f = State (\<lambda>s. ((), f s))"

definition px_note :: "proxy_effect \<Rightarrow> ('w, unit) proxying" where
  "px_note e = px_write (\<lambda>s. s\<lparr>px_log := px_log s @ [e]\<rparr>)"

text \<open>The next step of a handler, unless an error came back.\<close>

definition px_then :: "('w, 'e + 'a) proxying \<Rightarrow> ('a \<Rightarrow> ('w, 'e + 'b) proxying) \<Rightarrow> ('w, 'e + 'b) proxying" where
  "px_then m f = do {
     res \<leftarrow> m;
     case res of Inl e \<Rightarrow> State_Monad.return (Inl e) | Inr x \<Rightarrow> f x
   }"

definition px_error :: "proxy_code \<Rightarrow> go_error \<Rightarrow> ('w, 'a answer) proxying" where
  "px_error code e = State_Monad.return (Inl (code, e))"

section \<open>Minting\<close>

definition hex_string :: "8 word list \<Rightarrow> string" where
  "hex_string bs = concat (map (\<lambda>b. [hex_digit (unat b div 16), hex_digit (unat b mod 16)]) bs)"

definition new_random_id :: "'w proxy_api \<Rightarrow> string \<Rightarrow> ('w, go_error + string) proxying" where
  "new_random_id api pre = do {
     res \<leftarrow> px_ask (xa_random api);
     State_Monad.return (map_sum id (\<lambda>bs. pre @ hex_string bs) res)
   }"

definition mint_agent :: "'w proxy_api \<Rightarrow> string \<Rightarrow> ('w, go_error + agent_entry) proxying" where
  "mint_agent api crName = do {
     criteriaID \<leftarrow> new_random_id api ''criteria-'';
     case criteriaID of
       Inl e \<Rightarrow> State_Monad.return (Inl (Wrapped ''proxy: minting criteria id'' e))
     | Inr i \<Rightarrow> do {
         token \<leftarrow> new_random_id api ''crtoken-'';
         State_Monad.return (case token of
            Inl e \<Rightarrow> Inl (Wrapped ''proxy: minting token'' e)
          | Inr t \<Rightarrow> Inr \<lparr>ag_criteriaID = i, ag_token = t, ag_crName = crName\<rparr>)
       }
   }"

section \<open>Enrollment\<close>

definition run_path :: "'w proxy_api \<Rightarrow> string \<Rightarrow> string" where
  "run_path api name = ''CriteriaRun '' @ xa_ns api @ ''/'' @ name"

definition patch_run_annotation ::
  "'w proxy_api \<Rightarrow> string \<Rightarrow> string \<Rightarrow> string \<Rightarrow> ('w, go_error + unit) proxying" where
  "patch_run_annotation api crName key v = do {
     got \<leftarrow> px_ask (xa_get api (xa_ns api, crName));
     case got of
       Inl e \<Rightarrow> State_Monad.return (Inl (Wrapped (''reading '' @ run_path api crName) e))
     | Inr cr \<Rightarrow> do {
         let cr' = cr\<lparr>ru_annotations := assoc_put key v (ru_annotations cr)\<rparr>;
         res \<leftarrow> px_call (xa_patch api cr cr') (\<lambda>res. [RunAnnotated cr cr' res]);
         State_Monad.return (case res of
            Inl e \<Rightarrow> Inl (Wrapped (''stamping '' @ key @ '' on '' @ run_path api crName) e)
          | Inr u \<Rightarrow> Inr ())
       }
   }"

definition stamp_annotation :: "'w proxy_api \<Rightarrow> string \<Rightarrow> string \<Rightarrow> string \<Rightarrow> ('w, unit) proxying" where
  "stamp_annotation api crName key v = do {
     res \<leftarrow> patch_run_annotation api crName key v;
     State_Monad.return ()
   }"

definition remember_enrollment :: "string \<Rightarrow> string \<Rightarrow> ('w, unit) proxying" where
  "remember_enrollment crName token = px_write (\<lambda>s. s\<lparr>px_enrolled := assoc_put crName token (px_enrolled s)\<rparr>)"

definition enroll_fresh :: "'w proxy_api \<Rightarrow> string \<Rightarrow> ('w, go_error + string) proxying" where
  "enroll_fresh api crName = do {
     minted \<leftarrow> new_random_id api ''prenrol-'';
     case minted of
       Inl e \<Rightarrow> State_Monad.return (Inl (Wrapped (''proxy: minting enrollment token for '' @ xa_ns api @ ''/'' @ crName) e))
     | Inr token \<Rightarrow> do {
         res \<leftarrow> patch_run_annotation api crName annotation_proxy_enroll_token token;
         case res of
           Inl e \<Rightarrow> State_Monad.return (Inl (Wrapped (''proxy: stamping enrollment token on '' @ run_path api crName) e))
         | Inr u \<Rightarrow> do { remember_enrollment crName token; State_Monad.return (Inr token) }
       }
   }"

definition enroll :: "'w proxy_api \<Rightarrow> string \<Rightarrow> ('w, go_error + string) proxying" where
  "enroll api crName = do {
     known \<leftarrow> px_read (\<lambda>s. map_of (px_enrolled s) crName);
     case known of
       Some token \<Rightarrow> State_Monad.return (Inr token)
     | None \<Rightarrow> do {
         got \<leftarrow> px_ask (xa_get api (xa_ns api, crName));
         case got of
           Inl e \<Rightarrow> State_Monad.return (Inl (Wrapped (''proxy: reading '' @ run_path api crName @ '' to enroll'') e))
         | Inr cr \<Rightarrow>
             (let token = smap_get (ru_annotations cr) annotation_proxy_enroll_token
              in if token \<noteq> [] then do { remember_enrollment crName token; State_Monad.return (Inr token) }
                 else enroll_fresh api crName)
       }
   }"

section \<open>Registration and authentication\<close>

definition enrolled_with :: "criteria_run \<Rightarrow> string \<Rightarrow> bool" where
  "enrolled_with cr presented \<longleftrightarrow>
     (let enrolled = smap_get (ru_annotations cr) annotation_proxy_enroll_token
      in enrolled \<noteq> [] \<and> presented \<noteq> [] \<and> enrolled = presented)"

text \<open>The new entry in both maps; its reference is its place in the store.\<close>

definition add_agent :: "agent_entry \<Rightarrow> 'w proxy_state \<Rightarrow> 'w proxy_state" where
  "add_agent a s = (let ref = length (px_agents s) in s\<lparr>px_agents := px_agents s @ [a],
     px_byToken := assoc_put (ag_token a) ref (px_byToken s),
     px_byCriteriaID := assoc_put (ag_criteriaID a) ref (px_byCriteriaID s)\<rparr>)"

definition register :: "'w proxy_api \<Rightarrow> proxy_headers \<Rightarrow> string \<Rightarrow> ('w, (string \<times> string) answer) proxying" where
  "register api h name =
     (if name = [] then px_error InvalidArgument (ErrMsg ''proxy: name is required (the runner passes the owning CriteriaRun)'')
      else do {
        got \<leftarrow> px_ask (xa_get api (xa_ns api, name));
        case got of
          Inl e \<Rightarrow>
            (if is_not_found e then px_error PermissionDenied (ErrMsg (''proxy: unknown '' @ run_path api name))
             else px_error Internal (Wrapped (''proxy: reading '' @ run_path api name) e))
        | Inr cr \<Rightarrow>
            (if \<not> enrolled_with cr (hd_bootstrap h)
             then px_error PermissionDenied (ErrMsg (''proxy: '' @ run_path api name @ '' has no valid enrollment token for this Register''))
             else do {
               minted \<leftarrow> mint_agent api name;
               case minted of
                 Inl e \<Rightarrow> px_error Internal e
               | Inr a \<Rightarrow> do {
                   ref \<leftarrow> px_read (\<lambda>s. length (px_agents s));
                   px_write (add_agent a);
                   px_note (EngineAdmitted cr (hd_bootstrap h) ref);
                   State_Monad.return (Inr (ag_criteriaID a, ag_token a))
                 }
             })
      })"

definition bearer_prefix :: string where "bearer_prefix = ''Bearer ''"

definition presented_token :: "proxy_headers \<Rightarrow> string" where
  "presented_token h =
     (let v = hd_authorization h; rest = drop (length bearer_prefix) v
      in if v \<noteq> [] \<and> has_prefix v bearer_prefix \<and> rest \<noteq> [] then rest else hd_criteriaToken h)"

definition authenticate :: "proxy_headers \<Rightarrow> ('w, agent_ref answer) proxying" where
  "authenticate h =
     (let token = presented_token h
      in if token = [] then px_error Unauthenticated (ErrMsg ''proxy: no criteria token'')
         else do {
           found \<leftarrow> px_read (\<lambda>s. map_of (px_byToken s) token);
           case found of
             None \<Rightarrow> px_error Unauthenticated (ErrMsg ''proxy: unknown criteria token'')
           | Some ref \<Rightarrow> State_Monad.return (Inr ref)
         })"

definition agent_of :: "agent_ref \<Rightarrow> ('w, agent_entry) proxying" where
  "agent_of ref = px_read (\<lambda>s. px_agents s ! ref)"

definition heartbeat :: "'w proxy_api \<Rightarrow> proxy_headers \<Rightarrow> string \<Rightarrow> ('w, gotime answer) proxying" where
  "heartbeat api h criteriaID =
     px_then (authenticate h) (\<lambda>ref. do {
       a \<leftarrow> agent_of ref;
       if criteriaID \<noteq> [] \<and> criteriaID \<noteq> ag_criteriaID a
       then px_error PermissionDenied (ErrMsg ''proxy: heartbeat criteria id does not match the authenticated agent'')
       else do { now \<leftarrow> px_ask (xa_now api); State_Monad.return (Inr now) }
     })"

section \<open>Runs\<close>

record opened_run =
  op_runID :: string
  op_criteriaID :: string
  op_workflowName :: string
  op_workflowHash :: string
  op_status :: string

definition open_entry :: "string \<Rightarrow> agent_ref \<Rightarrow> string \<Rightarrow> string \<Rightarrow> run_entry" where
  "open_entry localID ref name hash = \<lparr>xe_localID = localID, xe_agent = ref, xe_workflowName = name,
     xe_workflowHash = hash, xe_castleRunID = []\<rparr>"

definition create_run ::
  "'w proxy_api \<Rightarrow> proxy_headers \<Rightarrow> string \<Rightarrow> string \<Rightarrow> ('w, opened_run answer) proxying" where
  "create_run api h name hash =
     px_then (authenticate h) (\<lambda>ref. do {
       minted \<leftarrow> new_random_id api ''run-'';
       case minted of
         Inl e \<Rightarrow> px_error Internal (Wrapped ''proxy: minting run id'' e)
       | Inr localID \<Rightarrow> do {
           px_write (\<lambda>s. s\<lparr>px_runs := assoc_put localID (open_entry localID ref name hash) (px_runs s)\<rparr>);
           px_note (LocalRunOpened localID ref);
           a \<leftarrow> agent_of ref;
           State_Monad.return (Inr \<lparr>op_runID = localID, op_criteriaID = ag_criteriaID a, op_workflowName = name,
             op_workflowHash = hash, op_status = ''running''\<rparr>)
         }
     })"

definition run_by_id :: "string \<Rightarrow> ('w, run_entry option) proxying" where
  "run_by_id i = px_read (\<lambda>s. map_of (px_runs s) i)"

definition run_of_caller :: "proxy_headers \<Rightarrow> string \<Rightarrow> ('w, run_entry answer) proxying" where
  "run_of_caller h runID =
     px_then (authenticate h) (\<lambda>ref. do {
       found \<leftarrow> run_by_id runID;
       case found of
         None \<Rightarrow> px_error NotFound (ErrMsg (''proxy: unknown run '' @ go_quote runID))
       | Some entry \<Rightarrow>
           (if xe_agent entry \<noteq> ref
            then px_error PermissionDenied (ErrMsg ''proxy: run belongs to a different agent'')
            else State_Monad.return (Inr entry))
     })"

definition reattach_run :: "proxy_headers \<Rightarrow> string \<Rightarrow> ('w, string answer) proxying" where
  "reattach_run h runID = px_then (run_of_caller h runID) (\<lambda>entry. State_Monad.return (Inr ''running''))"

definition resume_run :: "proxy_headers \<Rightarrow> string \<Rightarrow> ('w, (bool \<times> string) answer) proxying" where
  "resume_run h runID = px_then (run_of_caller h runID) (\<lambda>entry. State_Monad.return (Inr (True, ''ok'')))"

section \<open>The castle run\<close>

definition stamped_castle_run :: "criteria_run \<Rightarrow> string" where
  "stamped_castle_run cr = first_nonempty [smap_get (ru_annotations cr) ann_assignment_run_id,
     smap_get (ru_annotations cr) annotation_proxy_castle_run_id]"

definition created_castle_run :: "'w proxy_api \<Rightarrow> string \<Rightarrow> run_entry \<Rightarrow> ('w, go_error + string) proxying" where
  "created_castle_run api crName entry =
     (if \<not> xa_creates api then State_Monad.return (Inr [])
      else do {
        res \<leftarrow> px_call (xa_create api (xe_workflowName entry) (xe_workflowHash entry)) (\<lambda>res. [CastleRunCreated crName res]);
        case res of
          Inl e \<Rightarrow> State_Monad.return (Inl (Wrapped (''proxy: creating castle run for '' @ xa_ns api @ ''/'' @ crName) e))
        | Inr i \<Rightarrow> do { stamp_annotation api crName annotation_proxy_castle_run_id i; State_Monad.return (Inr i) }
      })"

definition set_castle_run :: "string \<Rightarrow> string \<Rightarrow> ('w, unit) proxying" where
  "set_castle_run localID castleID = px_write (\<lambda>s.
     case map_of (px_runs s) localID of
       None \<Rightarrow> s
     | Some entry \<Rightarrow> s\<lparr>px_runs := assoc_put localID (entry\<lparr>xe_castleRunID := castleID\<rparr>) (px_runs s)\<rparr>)"

definition castle_run_id :: "'w proxy_api \<Rightarrow> string \<Rightarrow> run_entry \<Rightarrow> ('w, go_error + string) proxying" where
  "castle_run_id api localID entry =
     (if xe_castleRunID entry \<noteq> [] then State_Monad.return (Inr (xe_castleRunID entry))
      else do {
        a \<leftarrow> agent_of (xe_agent entry);
        got \<leftarrow> px_ask (xa_get api (xa_ns api, ag_crName a));
        case got of
          Inl e \<Rightarrow> State_Monad.return (Inl (Wrapped (''proxy: reading '' @ run_path api (ag_crName a)) e))
        | Inr cr \<Rightarrow>
            px_then (if stamped_castle_run cr \<noteq> [] then State_Monad.return (Inr (stamped_castle_run cr))
                     else created_castle_run api (ag_crName a) entry) (\<lambda>resolved.
              if resolved = []
              then State_Monad.return (Inl (ErrMsg (''proxy: run '' @ xa_ns api @ ''/'' @ ag_crName a @
                     '' carries no castle run id (neither the assignment annotation nor a create lane)'')))
              else do {
                set_castle_run localID resolved;
                px_note (RunAttributed cr localID resolved);
                State_Monad.return (Inr resolved)
              })
      })"

section \<open>The event stream\<close>

definition ack_of :: "engine_envelope \<Rightarrow> event_ack option \<Rightarrow> event_ack" where
  "ack_of env ack = \<lparr>ak_runID = ee_runID env, ak_seq = (case ack of None \<Rightarrow> ee_seq env | Some a \<Rightarrow> ak_seq a),
     ak_correlationID = ee_correlationID env\<rparr>"

text \<open>One envelope of the stream of an authenticated engine.\<close>

definition submit_one :: "'w proxy_api \<Rightarrow> agent_ref \<Rightarrow> engine_envelope \<Rightarrow> ('w, unit answer) proxying" where
  "submit_one api ref env = do {
     found \<leftarrow> run_by_id (ee_runID env);
     case found of
       None \<Rightarrow> px_error PermissionDenied (ErrMsg (''proxy: agent does not own run '' @ go_quote (ee_runID env)))
     | Some entry \<Rightarrow>
         (if xe_agent entry \<noteq> ref
          then px_error PermissionDenied (ErrMsg (''proxy: agent does not own run '' @ go_quote (ee_runID env)))
          else if ee_payload env = WatchReady
          then px_error InvalidArgument (ErrMsg ''proxy: watch.ready is server-only and cannot be submitted'')
          else do {
            castle \<leftarrow> castle_run_id api (ee_runID env) entry;
            case castle of
              Inl e \<Rightarrow> px_error FailedPrecondition e
            | Inr castleID \<Rightarrow> do {
                res \<leftarrow> px_call (xa_submit api (env\<lparr>ee_runID := castleID\<rparr>))
                  (\<lambda>res. [EnvelopeForwarded ref (ee_runID env) (env\<lparr>ee_runID := castleID\<rparr>) res]);
                case res of
                  Inl e \<Rightarrow> px_error Unavailable e
                | Inr ack \<Rightarrow> do {
                    sent \<leftarrow> px_call (xa_send api (ack_of env ack)) (\<lambda>_. [EngineAcked (ack_of env ack)]);
                    case sent of Inl e \<Rightarrow> px_error UnknownCode e | Inr u \<Rightarrow> State_Monad.return (Inr ())
                  }
              }
          })
   }"

text \<open>The stream: its envelopes in order, then its end, which is an error or a clean one.\<close>

fun submit_stream ::
  "'w proxy_api \<Rightarrow> agent_ref \<Rightarrow> engine_envelope list \<Rightarrow> go_error \<Rightarrow> ('w, unit answer) proxying" where
  "submit_stream api ref [] err =
     (if err_is err EndOfStream then State_Monad.return (Inr ()) else px_error UnknownCode err)"
| "submit_stream api ref (env # rest) err = px_then (submit_one api ref env) (\<lambda>_. submit_stream api ref rest err)"

definition submit_events ::
  "'w proxy_api \<Rightarrow> proxy_headers \<Rightarrow> engine_envelope list \<Rightarrow> go_error \<Rightarrow> ('w, unit answer) proxying" where
  "submit_events api h envs err = px_then (authenticate h) (\<lambda>ref. submit_stream api ref envs err)"

text \<open>The Control stream: one ready message, whose sending is \<open>ready\<close>, and then nothing until the context ends.\<close>

definition control_stream ::
  "proxy_headers \<Rightarrow> string \<Rightarrow> ('w \<Rightarrow> (go_error + unit) \<times> 'w) \<Rightarrow> ('w, unit answer) proxying" where
  "control_stream h criteriaID ready =
     px_then (authenticate h) (\<lambda>ref. do {
       a \<leftarrow> agent_of ref;
       if criteriaID \<noteq> [] \<and> criteriaID \<noteq> ag_criteriaID a
       then px_error PermissionDenied (ErrMsg ''proxy: control criteria id does not match the authenticated agent'')
       else do {
         sent \<leftarrow> px_ask ready;
         case sent of Inl e \<Rightarrow> px_error UnknownCode e | Inr u \<Rightarrow> State_Monad.return (Inr ())
       }
     })"

end
