(* ===== verification/ProxySafety.thy ===== *)
theory ProxySafety
  imports EnrollProxy StateLogic
begin

text \<open>
  What the run-event proxy guarantees over any interleaving of its requests: castle hears an envelope of an engine only
  under the run whose enrollment token admitted that engine, the envelopes of one engine run land on one castle run,
  an enrollment is decided once, and an engine that holds its token gets its envelopes through.
\<close>

section \<open>Requests\<close>

abbreviation after :: "('w, 'a) proxying \<Rightarrow> 'w proxy_state \<Rightarrow> 'w proxy_state" where
  "after m s \<equiv> snd (run_state m s)"

text \<open>
  The states that requests lead to, one at a time, where the streams interleave envelope by envelope: the engine of a
  stream is one that was registered when the stream began. The world changes in between as it likes.
\<close>

inductive proxy_reach :: "'w proxy_api \<Rightarrow> 'w proxy_state \<Rightarrow> 'w proxy_state \<Rightarrow> bool" for api s0 where
  begun: "proxy_reach api s0 s0"
| outside: "proxy_reach api s0 s \<Longrightarrow> proxy_reach api s0 (s\<lparr>px_world := w\<rparr>)"
| enrolled: "proxy_reach api s0 s \<Longrightarrow> proxy_reach api s0 (after (enroll api name) s)"
| registered: "proxy_reach api s0 s \<Longrightarrow> proxy_reach api s0 (after (register api h name) s)"
| beaten: "proxy_reach api s0 s \<Longrightarrow> proxy_reach api s0 (after (heartbeat api h i) s)"
| opened: "proxy_reach api s0 s \<Longrightarrow> proxy_reach api s0 (after (create_run api h wn wh) s)"
| reattached: "proxy_reach api s0 s \<Longrightarrow> proxy_reach api s0 (after (reattach_run h i) s)"
| resumed: "proxy_reach api s0 s \<Longrightarrow> proxy_reach api s0 (after (resume_run h i) s)"
| controlled: "proxy_reach api s0 s \<Longrightarrow> proxy_reach api s0 (after (control_stream h i ready) s)"
| streamed: "proxy_reach api s0 s \<Longrightarrow> ref < length (px_agents s) \<Longrightarrow> proxy_reach api s0 (after (submit_one api ref env) s)"

lemma proxy_reach_trans: "proxy_reach api s1 s2 \<Longrightarrow> proxy_reach api s0 s1 \<Longrightarrow> proxy_reach api s0 s2"
  by (induction rule: proxy_reach.induct) (auto intro: proxy_reach.intros)

lemmas px_run = px_then_def px_error_def px_ask_def px_call_def px_read_def px_write_def px_note_def

section \<open>Steps that leave the maps alone\<close>

text \<open>A step writes only effects in \<open>E\<close>: it changes the world and extends the log, and leaves the maps alone.\<close>

definition extends :: "(proxy_effect \<Rightarrow> bool) \<Rightarrow> 'w proxy_state \<Rightarrow> 'w proxy_state \<Rightarrow> bool" where
  "extends E s s' \<longleftrightarrow> (\<exists>w new. s' = s\<lparr>px_world := w, px_log := px_log s @ new\<rparr> \<and> list_all E new)"

definition writes_only :: "(proxy_effect \<Rightarrow> bool) \<Rightarrow> ('w, 'a) proxying \<Rightarrow> bool" where
  "writes_only E m \<longleftrightarrow> (\<forall>s. extends E s (after m s))"

lemma extendsI: "list_all E new \<Longrightarrow> extends E s (s\<lparr>px_world := w, px_log := px_log s @ new\<rparr>)"
  unfolding extends_def by blast

lemma extends_refl: "extends E s s"
  using extendsI [of E "[]" s "px_world s"] by simp

lemma extends_trans: "extends E s s' \<Longrightarrow> extends E s' s'' \<Longrightarrow> extends E s s''"
  unfolding extends_def by (force intro: exI [of _ "_ @ _"])

lemma writesD: "writes_only E m \<Longrightarrow> run_state m s = (a, s') \<Longrightarrow> extends E s s'"
  unfolding writes_only_def by (metis snd_conv)

lemma writes_return: "writes_only E (State_Monad.return a)"
  by (simp add: writes_only_def extends_refl)

lemma writes_bind: "writes_only E m \<Longrightarrow> (\<And>a. writes_only E (f a)) \<Longrightarrow> writes_only E (State_Monad.bind m f)"
  unfolding writes_only_def by (auto intro: extends_trans split: prod.split)

lemma writes_call: "(\<And>r. list_all E (eff r)) \<Longrightarrow> writes_only E (px_call f eff)"
  by (auto simp: writes_only_def px_call_def intro: extendsI split: prod.split)

lemma writes_ask: "writes_only E (px_ask f)"
  unfolding px_ask_def by (rule writes_call) simp

lemma writes_read: "writes_only E (px_read f)"
  by (simp add: writes_only_def px_read_def extends_refl)

lemma writes_error: "writes_only E (px_error c e)"
  by (simp add: px_error_def writes_return)

lemma writes_sum: "(\<And>e. writes_only E (f e)) \<Longrightarrow> (\<And>a. writes_only E (g a)) \<Longrightarrow>
    writes_only E (case x of Inl e \<Rightarrow> f e | Inr a \<Rightarrow> g a)"
  by (cases x) auto

lemma writes_option: "writes_only E m \<Longrightarrow> (\<And>a. writes_only E (g a)) \<Longrightarrow> writes_only E (case x of None \<Rightarrow> m | Some a \<Rightarrow> g a)"
  by (cases x) auto

lemma writes_if: "writes_only E m \<Longrightarrow> writes_only E n \<Longrightarrow> writes_only E (if b then m else n)"
  by simp

lemma writes_then: "writes_only E m \<Longrightarrow> (\<And>a. writes_only E (f a)) \<Longrightarrow> writes_only E (px_then m f)"
  unfolding px_then_def by (intro writes_bind writes_sum writes_return) auto

lemmas writing = writes_return writes_bind writes_call writes_ask writes_read writes_error writes_sum
  writes_option writes_if writes_then

lemma writes_random: "writes_only E (new_random_id api pre)"
  unfolding new_random_id_def by (intro writing)

lemma writes_mint: "writes_only E (mint_agent api n)"
  unfolding mint_agent_def by (intro writing writes_random)

lemma mint_name: "run_state (mint_agent api n) s = (Inr a, s') \<Longrightarrow> ag_crName a = n"
  by (auto simp: mint_agent_def split: prod.splits sum.splits)

lemma writes_authenticate: "writes_only E (authenticate h)"
  unfolding authenticate_def Let_def by (intro writing)

lemma writes_patch: "(\<And>a b r. E (RunAnnotated a b r)) \<Longrightarrow> writes_only E (patch_run_annotation api n k v)"
  unfolding patch_run_annotation_def Let_def by (intro writing) simp

section \<open>The invariant\<close>

definition agent_name :: "'w proxy_state \<Rightarrow> agent_ref \<Rightarrow> string" where
  "agent_name s ref = ag_crName (px_agents s ! ref)"

definition admitted :: "'w proxy_state \<Rightarrow> agent_ref \<Rightarrow> bool" where
  "admitted s ref \<longleftrightarrow> (\<exists>cr presented. EngineAdmitted cr presented ref \<in> set (px_log s) \<and> enrolled_with cr presented \<and>
     ru_name cr = agent_name s ref)"

definition attributed :: "'w proxy_state \<Rightarrow> agent_ref \<Rightarrow> string \<Rightarrow> string \<Rightarrow> bool" where
  "attributed s ref l c \<longleftrightarrow> (\<exists>cr. RunAttributed cr l c \<in> set (px_log s) \<and> ru_name cr = agent_name s ref)"

definition entry_ok :: "'w proxy_state \<Rightarrow> string \<Rightarrow> run_entry \<Rightarrow> bool" where
  "entry_ok s l e \<longleftrightarrow> xe_agent e < length (px_agents s) \<and> LocalRunOpened l (xe_agent e) \<in> set (px_log s) \<and>
     (xe_castleRunID e \<noteq> [] \<longrightarrow> attributed s (xe_agent e) l (xe_castleRunID e))"

definition effect_ok :: "'w proxy_state \<Rightarrow> proxy_effect \<Rightarrow> bool" where
  "effect_ok s eff \<longleftrightarrow>
     (case eff of
        RunAttributed cr l c \<Rightarrow> c \<noteq> [] \<and> (\<exists>ref. LocalRunOpened l ref \<in> set (px_log s)) \<and>
          (c = stamped_castle_run cr \<or> stamped_castle_run cr = [] \<and> CastleRunCreated (ru_name cr) (Inr c) \<in> set (px_log s))
      | EnvelopeForwarded ref l env res \<Rightarrow> ref < length (px_agents s) \<and> LocalRunOpened l ref \<in> set (px_log s) \<and>
          ee_payload env \<noteq> WatchReady \<and> attributed s ref l (ee_runID env)
      | _ \<Rightarrow> True)"

definition opened_run_id :: "proxy_effect \<Rightarrow> string option" where
  "opened_run_id eff = (case eff of LocalRunOpened l ref \<Rightarrow> Some l | _ \<Rightarrow> None)"

definition opened_ids :: "'w proxy_state \<Rightarrow> string list" where
  "opened_ids s = List.map_filter opened_run_id (px_log s)"

text \<open>As long as no two local runs were given one id, an attribution is the one in the entry.\<close>

definition once :: "'w proxy_state \<Rightarrow> bool" where
  "once s \<longleftrightarrow> (distinct (opened_ids s) \<longrightarrow> (\<forall>cr l c. RunAttributed cr l c \<in> set (px_log s) \<longrightarrow>
     (\<exists>e. map_of (px_runs s) l = Some e \<and> xe_castleRunID e = c)))"

definition proxy_ok :: "'w proxy_state \<Rightarrow> bool" where
  "proxy_ok s \<longleftrightarrow> (\<forall>t ref. map_of (px_byToken s) t = Some ref \<longrightarrow> ref < length (px_agents s)) \<and>
     (\<forall>ref < length (px_agents s). admitted s ref) \<and>
     (\<forall>l e. map_of (px_runs s) l = Some e \<longrightarrow> entry_ok s l e) \<and> (\<forall>eff \<in> set (px_log s). effect_ok s eff) \<and> once s"

definition grows :: "'w proxy_state \<Rightarrow> 'w proxy_state \<Rightarrow> bool" where
  "grows s s' \<longleftrightarrow> (\<exists>more. px_agents s' = px_agents s @ more) \<and> set (px_log s) \<subseteq> set (px_log s')"

lemma grows_name: "grows s s' \<Longrightarrow> ref < length (px_agents s) \<Longrightarrow> agent_name s' ref = agent_name s ref \<and> ref < length (px_agents s')"
  by (auto simp: grows_def agent_name_def nth_append)

lemma attributed_mono: "attributed s ref l c \<Longrightarrow> grows s s' \<Longrightarrow> ref < length (px_agents s) \<Longrightarrow> attributed s' ref l c"
  using grows_name [of s s' ref] by (auto simp: attributed_def grows_def)

lemma admitted_mono: "admitted s ref \<Longrightarrow> grows s s' \<Longrightarrow> ref < length (px_agents s) \<Longrightarrow> admitted s' ref"
  using grows_name [of s s' ref] by (fastforce simp: admitted_def grows_def)

lemma entry_mono: "entry_ok s l e \<Longrightarrow> grows s s' \<Longrightarrow> entry_ok s' l e"
  using grows_name [of s s' "xe_agent e"] by (auto simp: entry_ok_def attributed_mono grows_def)

lemma effect_mono: "effect_ok s eff \<Longrightarrow> grows s s' \<Longrightarrow> effect_ok s' eff"
  using grows_name [of s s'] attributed_mono [of s _ _ _ s']
  by (cases eff) (auto simp: effect_ok_def grows_def subset_iff)

lemma proxy_okI:
  assumes "proxy_ok s" and "grows s s'" and "once s'"
    and "\<And>t ref. map_of (px_byToken s') t = Some ref \<Longrightarrow> map_of (px_byToken s) t = Some ref \<or> ref < length (px_agents s')"
    and "\<And>ref. length (px_agents s) \<le> ref \<Longrightarrow> ref < length (px_agents s') \<Longrightarrow> admitted s' ref"
    and "\<And>l e. map_of (px_runs s') l = Some e \<Longrightarrow> map_of (px_runs s) l = Some e \<or> entry_ok s' l e"
    and "\<And>eff. eff \<in> set (px_log s') \<Longrightarrow> eff \<in> set (px_log s) \<or> effect_ok s' eff"
  shows "proxy_ok s'"
proof -
  note ok = assms(1) [unfolded proxy_ok_def]
  have "ref < length (px_agents s')" if "map_of (px_byToken s') t = Some ref" for t ref
    using assms(4) [OF that] ok grows_name [OF assms(2)] by blast
  moreover have "admitted s' ref" if "ref < length (px_agents s')" for ref
    using assms(5) [of ref] that ok admitted_mono [OF _ assms(2)] by (cases "ref < length (px_agents s)") auto
  moreover have "entry_ok s' l e" if "map_of (px_runs s') l = Some e" for l e
    using assms(6) [OF that] ok entry_mono [OF _ assms(2)] by blast
  moreover have "effect_ok s' eff" if "eff \<in> set (px_log s')" for eff
    using assms(7) [OF that] ok effect_mono [OF _ assms(2)] by blast
  ultimately show ?thesis using assms(3) unfolding proxy_ok_def by blast
qed

text \<open>Effects that say nothing of agents, local runs or attributions.\<close>

definition quiet :: "proxy_effect \<Rightarrow> bool" where
  "quiet eff \<longleftrightarrow> (case eff of RunAnnotated a b r \<Rightarrow> True | CastleRunCreated n r \<Rightarrow> True | EngineAcked a \<Rightarrow> True | _ \<Rightarrow> False)"

lemma quiet_simps [simp]: "quiet (RunAnnotated a b r)" "quiet (CastleRunCreated n c)" "quiet (EngineAcked k)"
  "\<not> quiet (LocalRunOpened l ref)" "\<not> quiet (RunAttributed cr l i)" "\<not> quiet (EnvelopeForwarded ref l env res)"
  by (simp_all add: quiet_def)

lemma quiet_ok: "quiet eff \<Longrightarrow> effect_ok s eff"
  by (simp add: effect_ok_def quiet_def split: proxy_effect.splits)

lemma opened_quiet: "list_all quiet new \<Longrightarrow> List.map_filter opened_run_id (new :: proxy_effect list) = []"
  by (induction new) (auto simp: List.map_filter_def opened_run_id_def split: proxy_effect.splits)

lemma opened_append: "List.map_filter opened_run_id (xs @ ys) = List.map_filter opened_run_id xs @ List.map_filter opened_run_id ys"
  by (simp add: List.map_filter_def)

lemma grows_extends: "extends E s s' \<Longrightarrow> grows s s'"
  by (auto simp: extends_def grows_def)

lemma ok_extends: "extends quiet s s' \<Longrightarrow> proxy_ok s \<Longrightarrow> proxy_ok s'"
proof -
  assume e: "extends quiet s s'" and ok: "proxy_ok s"
  then obtain w new where s': "s' = s\<lparr>px_world := w, px_log := px_log s @ new\<rparr>" "list_all quiet new"
    by (auto simp: extends_def)
  have "once s" using ok by (simp add: proxy_ok_def)
  moreover have "RunAttributed cr l c \<notin> set new" for cr l c using s'(2) by (auto simp: list_all_iff)
  ultimately have "once s'"
    using s'(2) by (simp add: once_def opened_ids_def opened_append opened_quiet s'(1))
  then show ?thesis
    by (rule proxy_okI [OF ok grows_extends [OF e]]) (use s' in \<open>auto simp: list_all_iff quiet_ok\<close>)
qed

section \<open>Every request keeps it\<close>

text \<open>The API server answers a read by name with the object of that name.\<close>

definition named_reads :: "'w proxy_api \<Rightarrow> bool" where
  "named_reads api \<longleftrightarrow> (\<forall>ns n w cr w'. xa_get api (ns, n) w = (Inr cr, w') \<longrightarrow> ru_namespace cr = ns \<and> ru_name cr = n)"

lemma ok_writes: "writes_only quiet m \<Longrightarrow> proxy_ok s \<Longrightarrow> proxy_ok (after m s)"
  by (rule ok_extends) (auto simp: writes_only_def)

lemma ok_add_agent:
  assumes "proxy_ok s" and "enrolled_with cr presented" and "ru_name cr = ag_crName a"
  shows "proxy_ok ((add_agent a s)\<lparr>px_log := px_log s @ [EngineAdmitted cr presented (length (px_agents s))]\<rparr>)"
    (is "proxy_ok ?s'")
proof (rule proxy_okI [OF assms(1)])
  have log: "px_log ?s' = px_log s @ [EngineAdmitted cr presented (length (px_agents s))]" and runs: "px_runs ?s' = px_runs s"
    by (simp_all add: add_agent_def Let_def)
  show "grows s ?s'" by (auto simp: grows_def add_agent_def Let_def)
  have "opened_ids ?s' = opened_ids s"
    unfolding opened_ids_def log opened_append by (simp add: List.map_filter_def opened_run_id_def)
  then show "once ?s'" using assms(1) runs log by (simp add: proxy_ok_def once_def)
  show "admitted ?s' ref" if "length (px_agents s) \<le> ref" "ref < length (px_agents ?s')" for ref
  proof -
    have "ref = length (px_agents s)" using that by (simp add: add_agent_def Let_def)
    then show ?thesis using assms(2,3) by (auto simp: admitted_def agent_name_def add_agent_def Let_def)
  qed
qed (auto simp: add_agent_def Let_def effect_ok_def split: if_splits)

lemma ok_register:
  assumes "named_reads api" and "proxy_ok s"
  shows "proxy_ok (after (register api h name) s)"
proof -
  obtain got w where get: "xa_get api (xa_ns api, name) (px_world s) = (got, w)" by force
  let ?s = "s\<lparr>px_world := w\<rparr>"
  have ok: "proxy_ok ?s" using ok_extends [OF extendsI [of quiet "[]" s w]] assms(2) by simp
  obtain minted s1 where mint: "run_state (mint_agent api name) ?s = (minted, s1)" by force
  have ok1: "proxy_ok s1" by (rule ok_extends [OF writesD [OF writes_mint mint] ok])
  show ?thesis
  proof (cases "name \<noteq> [] \<and> (\<exists>cr a. got = Inr cr \<and> enrolled_with cr (hd_bootstrap h) \<and> minted = Inr a)")
    case True
    then obtain cr a where t: "name \<noteq> []" "got = Inr cr" "enrolled_with cr (hd_bootstrap h)" "minted = Inr a" by blast
    have named: "ru_name cr = ag_crName a"
      using assms(1) get t(2) mint_name mint t(4) unfolding named_reads_def by metis
    have log: "px_log (add_agent a s1) = px_log s1" by (simp add: add_agent_def Let_def)
    show ?thesis
      using ok_add_agent [OF ok1 t(3) named] t(1) get mint unfolding t(2,4)
      by (simp add: register_def px_run log t(3))
  next
    case False
    then show ?thesis
      using get mint ok ok1 assms(2) by (auto simp: register_def px_run split: sum.splits)
  qed
qed

lemma authenticate_ref:
  assumes "run_state (authenticate h) s = (r, s')"
  shows "s' = s \<and> (\<forall>ref. r = Inr ref \<longrightarrow> map_of (px_byToken s) (presented_token h) = Some ref)"
  using assms by (auto simp: authenticate_def Let_def px_run split: if_splits option.splits)

lemma ok_open:
  assumes ok: "proxy_ok s" and ref: "ref < length (px_agents s)"
  shows "proxy_ok (s\<lparr>px_runs := assoc_put l (open_entry l ref wn wh) (px_runs s), px_log := px_log s @ [LocalRunOpened l ref]\<rparr>)"
    (is "proxy_ok ?s'")
proof (rule proxy_okI [OF ok])
  show "grows s ?s'" by (auto simp: grows_def)
  have opened: "opened_ids ?s' = opened_ids s @ [l]"
    by (simp add: opened_ids_def opened_append List.map_filter_def opened_run_id_def)
  have known: "l' \<in> set (opened_ids s)" if "RunAttributed cr l' c \<in> set (px_log s)" for cr l' c
  proof -
    have "effect_ok s (RunAttributed cr l' c)" using ok that by (simp add: proxy_ok_def)
    then obtain ref where "LocalRunOpened l' ref \<in> set (px_log s)" by (auto simp: effect_ok_def)
    then show ?thesis by (force simp: opened_ids_def List.map_filter_def opened_run_id_def)
  qed
  show "once ?s'" unfolding once_def
  proof (intro impI allI)
    fix cr l' c assume d: "distinct (opened_ids ?s')" and a: "RunAttributed cr l' c \<in> set (px_log ?s')"
    from a have old: "RunAttributed cr l' c \<in> set (px_log s)" by simp
    with known d opened have "l' \<noteq> l" by auto
    moreover have "once s" using ok by (simp add: proxy_ok_def)
    ultimately show "\<exists>e. map_of (px_runs ?s') l' = Some e \<and> xe_castleRunID e = c"
      using d opened old by (auto simp: once_def)
  qed
qed (auto simp: open_entry_def entry_ok_def ref effect_ok_def split: if_splits)

lemma ok_create_run:
  assumes "proxy_ok s"
  shows "proxy_ok (after (create_run api h wn wh) s)"
proof -
  obtain r s1 where auth: "run_state (authenticate h) s = (r, s1)" by force
  obtain minted s2 where mint: "run_state (new_random_id api ''run-'') s = (minted, s2)" by force
  have ext: "extends quiet s s2" by (rule writesD [OF writes_random mint])
  have s1: "s1 = s" using authenticate_ref [OF auth] by simp
  have ok2: "proxy_ok s2" by (rule ok_extends [OF ext assms])
  show ?thesis
  proof (cases "\<exists>ref l. r = Inr ref \<and> minted = Inr l")
    case True
    then obtain ref l where t: "r = Inr ref" "minted = Inr l" by blast
    have "ref < length (px_agents s)"
      using authenticate_ref [OF auth] t(1) assms by (auto simp: proxy_ok_def)
    then have "ref < length (px_agents s2)" using ext by (auto simp: extends_def)
    from ok_open [OF ok2 this] show ?thesis
      using auth mint s1 t by (simp add: create_run_def px_run agent_of_def)
  next
    case False
    then show ?thesis
      using auth mint s1 assms ok2 by (auto simp: create_run_def px_run split: sum.splits)
  qed
qed

lemma ok_attribute:
  assumes ok: "proxy_ok s" and e: "map_of (px_runs s) l = Some e" "xe_castleRunID e = []" and c: "c \<noteq> []"
    and cr: "ru_name cr = agent_name s (xe_agent e)"
    and origin: "c = stamped_castle_run cr \<or> stamped_castle_run cr = [] \<and> CastleRunCreated (ru_name cr) (Inr c) \<in> set (px_log s)"
  shows "proxy_ok (s\<lparr>px_runs := assoc_put l (e\<lparr>xe_castleRunID := c\<rparr>) (px_runs s), px_log := px_log s @ [RunAttributed cr l c]\<rparr>)"
    (is "proxy_ok ?s'")
proof (rule proxy_okI [OF ok])
  have entry: "xe_agent e < length (px_agents s)" "LocalRunOpened l (xe_agent e) \<in> set (px_log s)"
    using ok e(1) by (auto simp: proxy_ok_def entry_ok_def)
  show "grows s ?s'" by (auto simp: grows_def)
  have opened: "opened_ids ?s' = opened_ids s"
    by (simp add: opened_ids_def opened_append List.map_filter_def opened_run_id_def)
  have "once s" using ok by (simp add: proxy_ok_def)
  moreover have "c' \<noteq> []" if "RunAttributed cr' l' c' \<in> set (px_log s)" for cr' l' c'
    using ok that by (auto simp: proxy_ok_def effect_ok_def)
  ultimately show "once ?s'" using opened e by (fastforce simp: once_def)
  show "map_of (px_runs s) l' = Some e' \<or> entry_ok ?s' l' e'" if "map_of (px_runs ?s') l' = Some e'" for l' e'
    using that entry cr by (auto simp: entry_ok_def attributed_def agent_name_def split: if_splits)
  show "eff \<in> set (px_log s) \<or> effect_ok ?s' eff" if "eff \<in> set (px_log ?s')" for eff
    using that c origin entry(2) by (auto simp: effect_ok_def)
qed auto

lemma writes_stamp: "writes_only quiet (stamp_annotation api n k v)"
  unfolding stamp_annotation_def by (intro writing writes_patch) simp

lemma created_run_effects:
  assumes "run_state (created_castle_run api n e) s = (r, s')"
  shows "extends quiet s s' \<and> (\<forall>c. r = Inr c \<longrightarrow> c \<noteq> [] \<longrightarrow> CastleRunCreated n (Inr c) \<in> set (px_log s'))"
proof -
  have "writes_only quiet (created_castle_run api n e)"
    unfolding created_castle_run_def by (intro writing writes_stamp) simp
  moreover have "CastleRunCreated n (Inr c) \<in> set (px_log s')" if r: "r = Inr c" "c \<noteq> []" for c
  proof -
    obtain w res where res: "xa_create api (xe_workflowName e) (xe_workflowHash e) (px_world s) = (res, w)" by force
    let ?s = "s\<lparr>px_world := w, px_log := px_log s @ [CastleRunCreated n res]\<rparr>"
    have "res = Inr c \<and> run_state (stamp_annotation api n annotation_proxy_castle_run_id c) ?s = ((), s')"
      using assms res r by (auto simp: created_castle_run_def px_call_def split: if_splits sum.splits prod.splits)
    then have "res = Inr c" "extends quiet ?s s'"
      using writesD [OF writes_stamp] by blast+
    then show ?thesis by (auto simp: extends_def)
  qed
  ultimately show ?thesis using writesD [OF _ assms] by blast
qed

lemma castle_run_id_ok:
  assumes api: "named_reads api" and ok: "proxy_ok s" and e: "map_of (px_runs s) l = Some e"
    and run: "run_state (castle_run_id api l e) s = (r, s')"
  shows "proxy_ok s' \<and> grows s s' \<and> (\<forall>c. r = Inr c \<longrightarrow> attributed s' (xe_agent e) l c)"
proof (cases "xe_castleRunID e = []")
  case False
  moreover have "entry_ok s l e" using ok e by (simp add: proxy_ok_def)
  ultimately show ?thesis using run ok by (auto simp: castle_run_id_def entry_ok_def grows_def)
next
  case True
  let ?n = "agent_name s (xe_agent e)"
  obtain got w where get: "xa_get api (xa_ns api, ?n) (px_world s) = (got, w)" by force
  let ?s = "s\<lparr>px_world := w\<rparr>"
  have ext: "extends quiet s ?s" using extendsI [of quiet "[]" s w] by simp
  show ?thesis
  proof (cases got)
    case (Inl err)
    then show ?thesis
      using run True get ok_extends [OF ext ok] grows_extends [OF ext]
      by (auto simp: castle_run_id_def px_run agent_of_def agent_name_def)
  next
    case (Inr cr)
    have name: "ru_name cr = ?n" using api get Inr unfolding named_reads_def by blast
    let ?m = "if stamped_castle_run cr \<noteq> [] then State_Monad.return (Inr (stamped_castle_run cr)) else created_castle_run api ?n e"
    obtain res s2 where m: "run_state ?m ?s = (res, s2)" by force
    have ext2: "extends quiet ?s s2"
      using m created_run_effects [of api ?n e ?s res s2] by (auto intro: extends_refl split: if_splits)
    have origin: "c = stamped_castle_run cr \<or> stamped_castle_run cr = [] \<and> CastleRunCreated (ru_name cr) (Inr c) \<in> set (px_log s2)"
      if "res = Inr c" "c \<noteq> []" for c
      using m created_run_effects [of api ?n e ?s res s2] that name by (auto split: if_splits)
    have ok2: "proxy_ok s2" by (rule ok_extends [OF ext2 ok_extends [OF ext ok]])
    have kept: "map_of (px_runs s2) l = Some e" "px_agents s2 = px_agents s" "grows s s2"
      using ext2 e by (auto simp: extends_def grows_def)
    show ?thesis
    proof (cases "\<exists>c. res = Inr c \<and> c \<noteq> []")
      case True
      then obtain c where c: "res = Inr c" "c \<noteq> []" by blast
      let ?f = "s2\<lparr>px_runs := assoc_put l (e\<lparr>xe_castleRunID := c\<rparr>) (px_runs s2), px_log := px_log s2 @ [RunAttributed cr l c]\<rparr>"
      have "r = Inr c \<and> s' = ?f"
        using run \<open>xe_castleRunID e = []\<close> get Inr m [unfolded agent_name_def] c kept(1)
        by (simp add: castle_run_id_def px_run agent_of_def agent_name_def set_castle_run_def)
      moreover have "proxy_ok ?f"
        by (rule ok_attribute [OF ok2 kept(1) \<open>xe_castleRunID e = []\<close> c(2)])
          (use origin [OF c] name kept(2) in \<open>auto simp: agent_name_def\<close>)
      moreover have "grows s ?f" using kept(3) by (auto simp: grows_def)
      moreover have "attributed ?f (xe_agent e) l c" using name kept(2) by (auto simp: attributed_def agent_name_def)
      ultimately show ?thesis by simp
    next
      case False
      then have "s' = s2 \<and> (\<forall>c. r \<noteq> Inr c)"
        using run \<open>xe_castleRunID e = []\<close> get Inr m [unfolded agent_name_def]
        by (cases res) (auto simp: castle_run_id_def px_run agent_of_def agent_name_def)
      then show ?thesis using ok2 kept(3) by simp
    qed
  qed
qed

lemma ok_forward:
  assumes "proxy_ok s" and "ref < length (px_agents s)" and "LocalRunOpened l ref \<in> set (px_log s)"
    and "ee_payload env \<noteq> WatchReady" and "attributed s ref l (ee_runID env)"
  shows "proxy_ok (s\<lparr>px_world := w, px_log := px_log s @ [EnvelopeForwarded ref l env res]\<rparr>)" (is "proxy_ok ?s'")
proof (rule proxy_okI [OF assms(1)])
  show g: "grows s ?s'" by (auto simp: grows_def)
  have "opened_ids ?s' = opened_ids s"
    by (simp add: opened_ids_def opened_append List.map_filter_def opened_run_id_def)
  then show "once ?s'" using assms(1) by (simp add: proxy_ok_def once_def)
  show "eff \<in> set (px_log s) \<or> effect_ok ?s' eff" if "eff \<in> set (px_log ?s')" for eff
    using that assms(2-4) attributed_mono [OF assms(5) g assms(2)] by (auto simp: effect_ok_def)
qed auto

lemma ok_submit_one:
  assumes api: "named_reads api" and ok: "proxy_ok s" and ref: "ref < length (px_agents s)"
  shows "proxy_ok (after (submit_one api ref env) s) \<and> grows s (after (submit_one api ref env) s)"
proof (cases "\<exists>e. map_of (px_runs s) (ee_runID env) = Some e \<and> xe_agent e = ref \<and> ee_payload env \<noteq> WatchReady")
  case False
  then have "after (submit_one api ref env) s = s"
    by (auto simp: submit_one_def run_by_id_def px_run split: option.splits)
  then show ?thesis using ok by (simp add: grows_def)
next
  case True
  then obtain e where e: "map_of (px_runs s) (ee_runID env) = Some e" "xe_agent e = ref" "ee_payload env \<noteq> WatchReady" by blast
  obtain r s1 where run: "run_state (castle_run_id api (ee_runID env) e) s = (r, s1)" by force
  have known: "proxy_ok s1" "grows s s1" "\<And>c. r = Inr c \<Longrightarrow> attributed s1 ref (ee_runID env) c"
    using castle_run_id_ok [OF api ok e(1) run] e(2) by auto
  show ?thesis
  proof (cases r)
    case (Inl err)
    then show ?thesis using known run e by (simp add: submit_one_def run_by_id_def px_run)
  next
    case (Inr c)
    let ?env = "env\<lparr>ee_runID := c\<rparr>"
    obtain res w where sub: "xa_submit api ?env (px_world s1) = (res, w)" by force
    let ?s2 = "s1\<lparr>px_world := w, px_log := px_log s1 @ [EnvelopeForwarded ref (ee_runID env) ?env res]\<rparr>"
    have "entry_ok s (ee_runID env) e" using ok e(1) by (simp add: proxy_ok_def)
    then have "LocalRunOpened (ee_runID env) ref \<in> set (px_log s1)" "ref < length (px_agents s1)"
      using known(2) ref e(2) by (auto simp: entry_ok_def grows_def)
    then have ok2: "proxy_ok ?s2"
      using ok_forward [OF known(1), where ref = ref and l = "ee_runID env" and env = ?env] known(3) [OF Inr] e(3) by simp
    have g2: "grows s ?s2" using known(2) by (auto simp: grows_def)
    show ?thesis
    proof (cases res)
      case (Inl err)
      then show ?thesis using ok2 g2 run Inr sub e by (simp add: submit_one_def run_by_id_def px_run)
    next
      case ack: (Inr ack)
      obtain sent w' where send: "xa_send api (ack_of env ack) w = (sent, w')" by force
      have "after (submit_one api ref env) s =
          ?s2\<lparr>px_world := w', px_log := px_log ?s2 @ [EngineAcked (ack_of env ack)]\<rparr>"
        using run Inr sub ack send e by (simp add: submit_one_def run_by_id_def px_run split: sum.split)
      moreover have ext: "extends quiet ?s2 (?s2\<lparr>px_world := w', px_log := px_log ?s2 @ [EngineAcked (ack_of env ack)]\<rparr>)"
        by (rule extendsI) simp
      ultimately show ?thesis
        using ok_extends [OF ext ok2] g2 by (auto simp: grows_def)
    qed
  qed
qed

lemma ok_memo: "proxy_ok s \<Longrightarrow> proxy_ok (s\<lparr>px_enrolled := m\<rparr>)"
  by (rule proxy_okI) (auto simp: grows_def proxy_ok_def once_def opened_ids_def)

lemma ok_enroll: "proxy_ok s \<Longrightarrow> proxy_ok (after (enroll api name) s)"
proof -
  have fresh: "proxy_ok (after (enroll_fresh api name) s)" if "proxy_ok s" for s :: "'a proxy_state"
  proof -
    obtain res s1 where mint: "run_state (new_random_id api ''prenrol-'') s = (res, s1)" by force
    have ok1: "proxy_ok s1" by (rule ok_extends [OF writesD [OF writes_random mint] that])
    obtain token where token: "res = Inr token \<or> (\<exists>e. res = Inl e)" by (cases res) auto
    obtain res2 s2 where patch: "run_state (patch_run_annotation api name annotation_proxy_enroll_token token) s1 = (res2, s2)" by force
    have ok2: "proxy_ok s2" by (rule ok_extends [OF writesD [OF writes_patch patch] ok1]) simp
    show ?thesis
      using token ok1 ok2 mint patch ok_memo
      by (auto simp: enroll_fresh_def remember_enrollment_def px_run split: sum.split)
  qed
  assume ok: "proxy_ok s"
  obtain got w where get: "xa_get api (xa_ns api, name) (px_world s) = (got, w)" by force
  have ok1: "proxy_ok (s\<lparr>px_world := w\<rparr>)" using ok_extends [OF extendsI [of quiet "[]" s w] ok] by simp
  show ?thesis
    using ok ok1 fresh [OF ok1] ok_memo [OF ok1] get
    by (auto simp: enroll_def remember_enrollment_def px_run Let_def split: option.split sum.split)
qed

lemma writes_heartbeat: "writes_only E (heartbeat api h i)"
  unfolding heartbeat_def agent_of_def by (intro writing writes_authenticate)

lemma writes_caller: "writes_only E (run_of_caller h i)"
  unfolding run_of_caller_def run_by_id_def by (intro writing writes_authenticate)

lemma writes_reattach: "writes_only E (reattach_run h i)"
  unfolding reattach_run_def by (intro writing writes_caller)

lemma writes_resume: "writes_only E (resume_run h i)"
  unfolding resume_run_def by (intro writing writes_caller)

lemma writes_control: "writes_only E (control_stream h i ready)"
  unfolding control_stream_def agent_of_def by (intro writing writes_authenticate)

lemmas quiet_requests = writes_heartbeat writes_reattach writes_resume writes_control

lemma reach_ok:
  assumes "proxy_reach api s0 s" and "named_reads api" and "proxy_ok s0"
  shows "proxy_ok s"
  using assms(1)
proof (induction rule: proxy_reach.induct)
  case (outside s w)
  then show ?case using ok_extends [OF extendsI [of quiet "[]" s w]] by simp
next
  case (registered s h name)
  then show ?case by (intro ok_register assms(2))
next
  case (streamed s ref env)
  then show ?case using ok_submit_one [OF assms(2) streamed.IH streamed.hyps(2)] by simp
qed (simp_all add: assms(3) ok_enroll ok_create_run ok_writes quiet_requests)

lemma new_proxy_ok: "proxy_ok (new_proxy w)"
  by (simp add: proxy_ok_def new_proxy_def once_def)

section \<open>A small service\<close>

definition sample_enrolled :: criteria_run where
  "sample_enrolled = zero_run\<lparr>ru_annotations := [(annotation_proxy_enroll_token, ''tok''), (ann_assignment_run_id, ''c1'')]\<rparr>"

definition sample_proxy :: "criteria_run \<Rightarrow> nat proxy_api" where
  "sample_proxy cr = \<lparr>xa_ns = ''jobs'', xa_creates = False,
     xa_get = (\<lambda>(ns, n) w. (Inr (cr\<lparr>ru_namespace := ns, ru_name := n\<rparr>), w)),
     xa_patch = (\<lambda>_ _ w. (Inr (), w)), xa_random = (\<lambda>w. (Inr [of_nat w], Suc w)),
     xa_submit = (\<lambda>env w. (Inr (Some \<lparr>ak_runID = ee_runID env, ak_seq = 7, ak_correlationID = []\<rparr>), w)),
     xa_create = (\<lambda>_ _ w. (Inr ''c9'', w)), xa_send = (\<lambda>_ w. (Inr (), w)), xa_now = (\<lambda>w. (0, w))\<rparr>"

definition sample_headers :: proxy_headers where
  "sample_headers = \<lparr>hd_authorization = [], hd_criteriaToken = ''crtoken-02'', hd_bootstrap = ''tok''\<rparr>"

definition sample_event :: engine_envelope where
  "sample_event = \<lparr>ee_runID = ''run-03'', ee_seq = 1, ee_correlationID = ''x'', ee_payload = EnginePayload ''step''\<rparr>"

text \<open>The engine registers, opens a run and submits one envelope.\<close>

definition sample_served :: "nat proxy_state" where
  "sample_served = after (submit_one (sample_proxy sample_enrolled) 0 sample_event)
     (after (create_run (sample_proxy sample_enrolled) sample_headers ''wf'' ''h'')
       (after (register (sample_proxy sample_enrolled) sample_headers ''cr'') (new_proxy 1)))"

lemma sample_named: "named_reads (sample_proxy cr)"
  by (simp add: named_reads_def sample_proxy_def)

lemma sample_reach: "proxy_reach (sample_proxy sample_enrolled) (new_proxy 1) sample_served"
proof -
  let ?s = "after (create_run (sample_proxy sample_enrolled) sample_headers ''wf'' ''h'')
     (after (register (sample_proxy sample_enrolled) sample_headers ''cr'') (new_proxy 1))"
  have "proxy_reach (sample_proxy sample_enrolled) (new_proxy 1) ?s" by (intro proxy_reach.opened registered begun)
  moreover have "length (px_agents ?s) = 1" by code_simp
  ultimately show ?thesis unfolding sample_served_def by (intro streamed) simp_all
qed

definition is_forward :: "string \<Rightarrow> proxy_effect \<Rightarrow> bool" where
  "is_forward c eff \<longleftrightarrow> (case eff of EnvelopeForwarded ref l env res \<Rightarrow> ref = 0 \<and> l = ''run-03'' \<and> ee_runID env = c | _ \<Rightarrow> False)"

lemma sample_forwarded: "\<exists>env res. EnvelopeForwarded 0 ''run-03'' env res \<in> set (px_log sample_served) \<and> ee_runID env = ''c1''"
proof -
  have "list_ex (is_forward ''c1'') (px_log sample_served)" by code_simp
  then obtain eff where "eff \<in> set (px_log sample_served)" "is_forward ''c1'' eff" by (auto simp: list_ex_iff)
  then show ?thesis by (auto simp: is_forward_def split: proxy_effect.splits)
qed

section \<open>Properties\<close>

lemma forwardedD:
  assumes "proxy_ok s" and "EnvelopeForwarded ref l env res \<in> set (px_log s)"
  shows "ref < length (px_agents s)" "LocalRunOpened l ref \<in> set (px_log s)" "ee_payload env \<noteq> WatchReady"
    "\<exists>cr. RunAttributed cr l (ee_runID env) \<in> set (px_log s) \<and> ru_name cr = agent_name s ref"
proof -
  have "effect_ok s (EnvelopeForwarded ref l env res)" using assms by (simp add: proxy_ok_def)
  then show "ref < length (px_agents s)" "LocalRunOpened l ref \<in> set (px_log s)" "ee_payload env \<noteq> WatchReady"
    "\<exists>cr. RunAttributed cr l (ee_runID env) \<in> set (px_log s) \<and> ru_name cr = agent_name s ref"
    by (simp_all add: effect_ok_def attributed_def)
qed

text \<open>
  C34. An engine speaks only for its own run. Whatever requests arrive in whatever order, an envelope that the proxy
  submits to castle comes from an engine that was admitted by presenting the enrollment token written on its
  CriteriaRun, through a local run that this engine opened, and carries a castle run that was read from that same
  CriteriaRun (the assignment's, or the one stamped earlier) or, when it had none, was created for it. No
  server-only payload is submitted.
\<close>

theorem engine_speaks_for_its_run:
  assumes "proxy_reach api (new_proxy w) s" and "named_reads api"
    and "EnvelopeForwarded ref l env res \<in> set (px_log s)"
  shows "LocalRunOpened l ref \<in> set (px_log s) \<and> ee_payload env \<noteq> WatchReady \<and> ee_runID env \<noteq> [] \<and>
    (\<exists>cr presented cr'. EngineAdmitted cr presented ref \<in> set (px_log s) \<and>
       presented \<noteq> [] \<and> smap_get (ru_annotations cr) annotation_proxy_enroll_token = presented \<and>
       RunAttributed cr' l (ee_runID env) \<in> set (px_log s) \<and> ru_name cr' = ru_name cr \<and>
       (ee_runID env = stamped_castle_run cr' \<or>
        stamped_castle_run cr' = [] \<and> CastleRunCreated (ru_name cr) (Inr (ee_runID env)) \<in> set (px_log s)))"
proof -
  have ok: "proxy_ok s" by (rule reach_ok [OF assms(1,2) new_proxy_ok])
  note fwd = forwardedD [OF ok assms(3)]
  obtain cr presented where cr: "EngineAdmitted cr presented ref \<in> set (px_log s)" "enrolled_with cr presented"
      "ru_name cr = agent_name s ref"
    using ok fwd(1) unfolding proxy_ok_def admitted_def by blast
  obtain cr' where cr': "RunAttributed cr' l (ee_runID env) \<in> set (px_log s)" "ru_name cr' = agent_name s ref"
    using fwd(4) by blast
  have "effect_ok s (RunAttributed cr' l (ee_runID env))" using ok cr'(1) unfolding proxy_ok_def by blast
  then have origin: "ee_runID env \<noteq> []" "ee_runID env = stamped_castle_run cr' \<or>
      stamped_castle_run cr' = [] \<and> CastleRunCreated (ru_name cr) (Inr (ee_runID env)) \<in> set (px_log s)"
    using cr(3) cr'(2) by (auto simp: effect_ok_def)
  have "presented \<noteq> [] \<and> smap_get (ru_annotations cr) annotation_proxy_enroll_token = presented"
    using cr(2) by (simp add: enrolled_with_def Let_def)
  moreover have "ru_name cr' = ru_name cr" using cr(3) cr'(2) by simp
  ultimately show ?thesis using fwd(2,3) origin cr(1) cr'(1) by blast
qed

theorem engine_speaks_for_its_run_witness:
  "\<exists>cr presented. EngineAdmitted cr presented 0 \<in> set (px_log sample_served) \<and> presented \<noteq> []"
  using sample_forwarded engine_speaks_for_its_run [OF sample_reach sample_named] by blast

lemma opened_once:
  assumes "distinct (List.map_filter opened_run_id log)"
    and "LocalRunOpened l ref \<in> set log" and "LocalRunOpened l ref' \<in> set log"
  shows "ref = ref'"
  using assms
proof (induction log)
  case (Cons eff log)
  have mem: "l \<in> set (List.map_filter opened_run_id log)" if "LocalRunOpened l x \<in> set log" for x
    using that by (force simp: List.map_filter_def opened_run_id_def)
  show ?case using Cons mem
    by (auto simp: List.map_filter_def opened_run_id_def split: option.splits if_splits proxy_effect.splits)
qed simp


lemma sample_distinct: "distinct (List.map_filter opened_run_id (px_log sample_served))"
  by code_simp


section \<open>Enrollment\<close>

definition enrolled_as :: "string \<Rightarrow> string \<Rightarrow> 'w proxy_state \<Rightarrow> bool" where
  "enrolled_as n t s \<longleftrightarrow> map_of (px_enrolled s) n = Some t"

abbreviation keeps_token :: "string \<Rightarrow> string \<Rightarrow> ('w, 'a) proxying \<Rightarrow> bool" where
  "keeps_token n t m \<equiv> triple (enrolled_as n t) m (\<lambda>_. enrolled_as n t)"

lemma token_bind: "keeps_token n t m \<Longrightarrow> (\<And>a. keeps_token n t (f a)) \<Longrightarrow> keeps_token n t (State_Monad.bind m f)"
  by (rule triple_bind)

lemma token_return: "keeps_token n t (State_Monad.return a)"
  by (simp add: triple_return)

lemma token_error: "keeps_token n t (px_error c e)"
  by (simp add: px_error_def token_return)

lemma token_then: "keeps_token n t m \<Longrightarrow> (\<And>a. keeps_token n t (f a)) \<Longrightarrow> keeps_token n t (px_then m f)"
  unfolding px_then_def by (intro token_bind triple_sum token_return) auto

lemma token_call: "keeps_token n t (px_call f eff)"
  by (auto simp: triple_def px_call_def enrolled_as_def split: prod.splits)

lemma token_ask: "keeps_token n t (px_ask f)"
  unfolding px_ask_def by (rule token_call)

lemma token_read: "keeps_token n t (px_read f)"
  by (auto simp: triple_def px_read_def)

lemma token_write: "(\<And>s. px_enrolled (f s) = px_enrolled s) \<Longrightarrow> keeps_token n t (px_write f)"
  by (auto simp: triple_def px_write_def enrolled_as_def)

lemma token_note: "keeps_token n t (px_note e)"
  unfolding px_note_def by (rule token_write) simp

lemma token_writes:
  assumes "writes_only E m"
  shows "keeps_token n t m"
  unfolding triple_def
proof (intro allI impI)
  fix s a s' assume "run_state m s = (a, s')" and "enrolled_as n t s"
  then show "enrolled_as n t s'" using writesD [OF assms] by (fastforce simp: enrolled_as_def extends_def)
qed

lemma keeps_after: "keeps_token n t m \<Longrightarrow> enrolled_as n t s \<Longrightarrow> enrolled_as n t (after m s)"
  by (erule tripleD [OF _ surjective_pairing])

lemmas keeping_token = token_bind token_return token_error token_then token_call token_ask token_read token_note
  triple_sum triple_option triple_if token_write

lemma token_register: "keeps_token n t (register api h name)"
  unfolding register_def by (intro keeping_token token_writes [OF writes_mint]) (simp add: add_agent_def Let_def)

lemma token_create: "keeps_token n t (create_run api h wn wh)"
  unfolding create_run_def agent_of_def
  by (intro keeping_token token_writes [OF writes_authenticate] token_writes [OF writes_random]) simp

lemma token_submit: "keeps_token n t (submit_one api ref env)"
  unfolding submit_one_def castle_run_id_def created_castle_run_def set_castle_run_def run_by_id_def agent_of_def
  by (intro keeping_token token_writes [OF writes_stamp]) (simp split: option.split)

lemma token_enroll: "enrolled_as n t s \<Longrightarrow> enrolled_as n t (after (enroll api n') s)"
proof -
  assume t: "enrolled_as n t s"
  have memo: "keeps_token n t (remember_enrollment n' t')" if "n' \<noteq> n" for t'
    using that by (auto simp: triple_def remember_enrollment_def px_write_def enrolled_as_def)
  show ?thesis
  proof (cases "n' = n")
    case True
    then show ?thesis using t by (simp add: enroll_def px_run enrolled_as_def)
  next
    case False
    have "keeps_token n t (enroll api n')"
      unfolding enroll_def enroll_fresh_def Let_def
      by (intro keeping_token memo [OF False] token_writes [OF writes_random] token_writes [OF writes_patch [of "\<lambda>_. True"]]) simp
    then show ?thesis using t by (rule keeps_after)
  qed
qed

lemma token_reach:
  assumes "proxy_reach api s0 s" and "enrolled_as n t s0"
  shows "enrolled_as n t s"
  using assms(1)
proof (induction rule: proxy_reach.induct)
  case (outside s w)
  then show ?case by (simp add: enrolled_as_def)
qed (simp_all add: assms(2) token_enroll keeps_after token_register token_create token_submit
    token_writes [OF writes_heartbeat] token_writes [OF writes_reattach] token_writes [OF writes_resume] token_writes [OF writes_control])

lemma random_nonempty: "run_state (new_random_id api pre) s = (Inr t, s') \<Longrightarrow> pre \<noteq> [] \<Longrightarrow> t \<noteq> []"
  by (cases "fst (xa_random api (px_world s))") (auto simp: new_random_id_def px_run split: prod.splits)

lemma patched:
  "run_state (patch_run_annotation api n k v) s = (Inr u, s') \<Longrightarrow>
    \<exists>old new. RunAnnotated old new (Inr ()) \<in> set (px_log s') \<and> smap_get (ru_annotations new) k = v"
  by (force simp: patch_run_annotation_def px_run Let_def split: prod.splits sum.splits)

lemma fresh_token:
  assumes "run_state (enroll_fresh api n) s = (Inr token, s')"
  shows "token \<noteq> [] \<and> enrolled_as n token s' \<and>
    (\<exists>old new. RunAnnotated old new (Inr ()) \<in> set (px_log s') \<and>
       smap_get (ru_annotations new) annotation_proxy_enroll_token = token)"
proof -
  obtain res s1 where mint: "run_state (new_random_id api ''prenrol-'') s = (res, s1)" by force
  then have res: "res = Inr token" using assms by (auto simp: enroll_fresh_def px_run split: sum.splits prod.splits)
  obtain u s2 where patch: "run_state (patch_run_annotation api n annotation_proxy_enroll_token token) s1 = (Inr u, s2)"
      "s' = s2\<lparr>px_enrolled := assoc_put n token (px_enrolled s2)\<rparr>"
    using assms mint res by (auto simp: enroll_fresh_def remember_enrollment_def px_run split: sum.splits prod.splits)
  then show ?thesis
    using random_nonempty [OF mint [unfolded res]] patched [OF patch(1)] by (simp add: enrolled_as_def)
qed



section \<open>An enrolled engine gets through\<close>

definition forwarded_as :: "proxy_effect \<Rightarrow> engine_envelope option" where
  "forwarded_as eff = (case eff of EnvelopeForwarded ref l env (Inr ack) \<Rightarrow> Some env | _ \<Rightarrow> None)"

definition acked_as :: "proxy_effect \<Rightarrow> event_ack option" where
  "acked_as eff = (case eff of EngineAcked ack \<Rightarrow> Some ack | _ \<Rightarrow> None)"

text \<open>An API server, a castle and a random source that answer.\<close>

definition answering :: "'w proxy_api \<Rightarrow> string \<Rightarrow> criteria_run \<Rightarrow> (engine_envelope \<Rightarrow> event_ack option) \<Rightarrow> bool" where
  "answering api n cr ack \<longleftrightarrow> (\<forall>w. fst (xa_get api (xa_ns api, n) w) = Inr cr) \<and> (\<forall>w. \<exists>bs. fst (xa_random api w) = Inr bs) \<and>
     (\<forall>env w. fst (xa_submit api env w) = Inr (ack env)) \<and> (\<forall>a w. fst (xa_send api a w) = Inr ())"

lemma answeringE:
  assumes "answering api n cr ack"
  obtains w1 bs w2 w3 w4 where "xa_get api (xa_ns api, n) w = (Inr cr, w1)" "xa_random api w = (Inr bs, w2)"
    "xa_submit api env w = (Inr (ack env), w3)" "xa_send api a w = (Inr (), w4)"
proof -
  have "\<exists>bs. fst (xa_random api w) = Inr bs" using assms by (simp add: answering_def)
  then obtain bs where "fst (xa_random api w) = Inr bs" ..
  then show thesis using assms that by (metis answering_def prod.collapse)
qed

definition serves :: "'w proxy_state \<Rightarrow> agent_ref \<Rightarrow> string \<Rightarrow> string \<Rightarrow> string \<Rightarrow> bool" where
  "serves s ref n l c \<longleftrightarrow> agent_name s ref = n \<and>
     (\<exists>e. map_of (px_runs s) l = Some e \<and> xe_agent e = ref \<and> (xe_castleRunID e = [] \<or> xe_castleRunID e = c))"

lemma castle_run_served:
  assumes "answering api n cr ack" and "c = stamped_castle_run cr" and "c \<noteq> []"
    and "agent_name s ref = n" and "map_of (px_runs s) l = Some e" and "xe_agent e = ref"
    and "xe_castleRunID e = [] \<or> xe_castleRunID e = c"
  shows "\<exists>s' extra. run_state (castle_run_id api l e) s = (Inr c, s') \<and> px_log s' = px_log s @ extra \<and>
    List.map_filter forwarded_as extra = [] \<and> List.map_filter acked_as extra = [] \<and> serves s' ref n l c"
proof (cases "xe_castleRunID e = []")
  case True
  obtain w1 where get: "xa_get api (xa_ns api, n) (px_world s) = (Inr cr, w1)"
    using answeringE [OF assms(1)] by metis
  then show ?thesis
    using True assms(2-6)
    by (auto simp: castle_run_id_def px_run agent_of_def agent_name_def set_castle_run_def serves_def List.map_filter_def
        forwarded_as_def acked_as_def)
next
  case False
  then show ?thesis using assms by (auto simp: castle_run_id_def serves_def List.map_filter_def)
qed

lemma submit_one_served:
  assumes api: "answering api n cr ack" and c: "c = stamped_castle_run cr" "c \<noteq> []"
    and s: "serves s ref n l c" and env: "ee_runID env = l" "ee_payload env \<noteq> WatchReady"
  shows "\<exists>s' extra. run_state (submit_one api ref env) s = (Inr (), s') \<and> px_log s' = px_log s @ extra \<and>
    List.map_filter forwarded_as extra = [env\<lparr>ee_runID := c\<rparr>] \<and>
    List.map_filter acked_as extra = [ack_of env (ack (env\<lparr>ee_runID := c\<rparr>))] \<and> serves s' ref n l c"
proof -
  obtain e where e: "agent_name s ref = n" "map_of (px_runs s) l = Some e" "xe_agent e = ref"
      "xe_castleRunID e = [] \<or> xe_castleRunID e = c"
    using s by (auto simp: serves_def)
  obtain s1 extra where s1: "run_state (castle_run_id api l e) s = (Inr c, s1)" "px_log s1 = px_log s @ extra"
      "List.map_filter forwarded_as extra = []" "List.map_filter acked_as extra = []" "serves s1 ref n l c"
    using castle_run_served [OF api c e] by blast
  let ?env = "env\<lparr>ee_runID := c\<rparr>"
  obtain w1 where sub: "xa_submit api ?env (px_world s1) = (Inr (ack ?env), w1)" using answeringE [OF api] by metis
  obtain w2 where send: "xa_send api (ack_of env (ack ?env)) w1 = (Inr (), w2)" using answeringE [OF api] by metis
  show ?thesis
    using e env s1 sub send
    by (auto simp: submit_one_def run_by_id_def px_run serves_def agent_name_def List.map_filter_def forwarded_as_def acked_as_def)
qed

lemma map_filter_append: "List.map_filter f (xs @ ys) = List.map_filter f xs @ List.map_filter f ys"
  by (simp add: List.map_filter_def)

lemma stream_served:
  assumes api: "answering api n cr ack" and c: "c = stamped_castle_run cr" "c \<noteq> []"
    and "serves s ref n l c" and "\<forall>env \<in> set envs. ee_runID env = l \<and> ee_payload env \<noteq> WatchReady"
  shows "\<exists>s' extra. run_state (submit_stream api ref envs EndOfStream) s = (Inr (), s') \<and> px_log s' = px_log s @ extra \<and>
    List.map_filter forwarded_as extra = map (\<lambda>env. env\<lparr>ee_runID := c\<rparr>) envs \<and>
    List.map_filter acked_as extra = map (\<lambda>env. ack_of env (ack (env\<lparr>ee_runID := c\<rparr>))) envs"
  using assms(4,5)
proof (induction envs arbitrary: s)
  case Nil
  then show ?case by (auto simp: err_is_def List.map_filter_def)
next
  case (Cons env envs)
  obtain s1 extra where s1: "run_state (submit_one api ref env) s = (Inr (), s1)" "px_log s1 = px_log s @ extra"
      "List.map_filter forwarded_as extra = [env\<lparr>ee_runID := c\<rparr>]"
      "List.map_filter acked_as extra = [ack_of env (ack (env\<lparr>ee_runID := c\<rparr>))]" "serves s1 ref n l c"
    using submit_one_served [OF api c Cons.prems(1), of env] Cons.prems(2) by auto
  obtain s2 more where "run_state (submit_stream api ref envs EndOfStream) s1 = (Inr (), s2)" "px_log s2 = px_log s1 @ more"
      "List.map_filter forwarded_as more = map (\<lambda>env. env\<lparr>ee_runID := c\<rparr>) envs"
      "List.map_filter acked_as more = map (\<lambda>env. ack_of env (ack (env\<lparr>ee_runID := c\<rparr>))) envs"
    using Cons.IH [OF s1(5)] Cons.prems(2) by auto
  then show ?case using s1 by (auto simp: px_run map_filter_append)
qed

definition bearer :: "string \<Rightarrow> proxy_headers" where
  "bearer t = \<lparr>hd_authorization = bearer_prefix @ t, hd_criteriaToken = [], hd_bootstrap = []\<rparr>"

lemma presented_bearer: "t \<noteq> [] \<Longrightarrow> presented_token (bearer t) = t"
  by (simp add: presented_token_def bearer_def bearer_prefix_def has_prefix_def)

lemma authenticate_bearer:
  "t \<noteq> [] \<Longrightarrow> map_of (px_byToken s) t = Some ref \<Longrightarrow> run_state (authenticate (bearer t)) s = (Inr ref, s)"
  by (simp add: authenticate_def presented_bearer px_run)

lemma random_answered:
  assumes "answering api n cr ack"
  shows "\<exists>bs w. run_state (new_random_id api pre) s = (Inr (pre @ hex_string bs), s\<lparr>px_world := w\<rparr>)"
proof -
  obtain bs w where "xa_random api (px_world s) = (Inr bs, w)" using answeringE [OF assms] by metis
  then show ?thesis by (auto simp: new_random_id_def px_run)
qed

lemma register_answered:
  assumes api: "answering api n cr ack" and n: "n \<noteq> []" and token: "enrolled_with cr (hd_bootstrap h)"
  shows "\<exists>i t s' ref. run_state (register api h n) s = (Inr (i, t), s') \<and> t \<noteq> [] \<and>
    map_of (px_byToken s') t = Some ref \<and> ref < length (px_agents s') \<and> agent_name s' ref = n"
proof -
  obtain w where get: "xa_get api (xa_ns api, n) (px_world s) = (Inr cr, w)" using answeringE [OF api] by metis
  obtain bs w1 where i: "run_state (new_random_id api ''criteria-'') (s\<lparr>px_world := w\<rparr>) =
      (Inr (''criteria-'' @ hex_string bs), s\<lparr>px_world := w1\<rparr>)"
    using random_answered [OF api, of "''criteria-''" "s\<lparr>px_world := w\<rparr>"] by auto
  obtain bs' w2 where t: "run_state (new_random_id api ''crtoken-'') (s\<lparr>px_world := w1\<rparr>) =
      (Inr (''crtoken-'' @ hex_string bs'), s\<lparr>px_world := w2\<rparr>)"
    using random_answered [OF api, of "''crtoken-''" "s\<lparr>px_world := w1\<rparr>"] by auto
  let ?a = "\<lparr>ag_criteriaID = ''criteria-'' @ hex_string bs, ag_token = ''crtoken-'' @ hex_string bs', ag_crName = n\<rparr>"
  have mint: "run_state (mint_agent api n) (s\<lparr>px_world := w\<rparr>) = (Inr ?a, s\<lparr>px_world := w2\<rparr>)"
    using i t by (simp add: mint_agent_def)
  show ?thesis
    using n token get mint
    by (simp add: register_def px_run add_agent_def Let_def agent_name_def)
qed

text \<open>
  C37. An enrolled engine gets its transcript through. Against an API server, a castle and a random source that answer, an
  engine that presents the enrollment token of its CriteriaRun, which names a castle run, is registered, may open a
  local run with the token it was given, and may stream any envelopes under it: the stream ends cleanly, castle has
  received every envelope, in order and under the castle run, and the engine every acknowledgement, under its own run.
\<close>

theorem enrolled_engine_streams:
  assumes "answering api n cr ack" and "n \<noteq> []" and "enrolled_with cr (hd_bootstrap h)" and "stamped_castle_run cr \<noteq> []"
    and "\<forall>env \<in> set envs. ee_payload env \<noteq> WatchReady"
  shows "\<exists>i t s1 run s2 s3 extra.
    run_state (register api h n) s = (Inr (i, t), s1) \<and>
    run_state (create_run api (bearer t) wn wh) s1 = (Inr run, s2) \<and>
    run_state (submit_events api (bearer t) (map (\<lambda>env. env\<lparr>ee_runID := op_runID run\<rparr>) envs) EndOfStream) s2 = (Inr (), s3) \<and>
    px_log s3 = px_log s2 @ extra \<and>
    List.map_filter forwarded_as extra = map (\<lambda>env. env\<lparr>ee_runID := stamped_castle_run cr\<rparr>) envs \<and>
    List.map_filter acked_as extra =
      map (\<lambda>env. ack_of (env\<lparr>ee_runID := op_runID run\<rparr>) (ack (env\<lparr>ee_runID := stamped_castle_run cr\<rparr>))) envs"
proof -
  obtain i t s1 ref where reg: "run_state (register api h n) s = (Inr (i, t), s1)" "t \<noteq> []"
      "map_of (px_byToken s1) t = Some ref" "agent_name s1 ref = n"
    using register_answered [OF assms(1,2,3)] by blast
  obtain bs w where l: "run_state (new_random_id api ''run-'') s1 = (Inr (''run-'' @ hex_string bs), s1\<lparr>px_world := w\<rparr>)"
    using random_answered [OF assms(1)] by blast
  let ?l = "''run-'' @ hex_string bs"
  let ?s2 = "s1\<lparr>px_world := w, px_runs := assoc_put ?l (open_entry ?l ref wn wh) (px_runs s1),
      px_log := px_log s1 @ [LocalRunOpened ?l ref]\<rparr>"
  obtain run where run: "run_state (create_run api (bearer t) wn wh) s1 = (Inr run, ?s2)" "op_runID run = ?l"
    using l authenticate_bearer [OF reg(2,3)] by (auto simp: create_run_def px_run agent_of_def)
  have "serves ?s2 ref n ?l (stamped_castle_run cr)"
    using reg(4) by (simp add: serves_def open_entry_def agent_name_def)
  from stream_served [OF assms(1) refl assms(4) this, of "map (\<lambda>env. env\<lparr>ee_runID := ?l\<rparr>) envs"] assms(5)
  obtain s3 extra where s3: "run_state (submit_stream api ref (map (\<lambda>env. env\<lparr>ee_runID := ?l\<rparr>) envs) EndOfStream) ?s2 = (Inr (), s3)"
      "px_log s3 = px_log ?s2 @ extra"
      "List.map_filter forwarded_as extra = map (\<lambda>env. env\<lparr>ee_runID := stamped_castle_run cr\<rparr>) envs"
      "List.map_filter acked_as extra = map (\<lambda>env. ack_of (env\<lparr>ee_runID := ?l\<rparr>) (ack (env\<lparr>ee_runID := stamped_castle_run cr\<rparr>))) envs"
    by (auto simp: comp_def)
  have "run_state (submit_events api (bearer t) (map (\<lambda>env. env\<lparr>ee_runID := ?l\<rparr>) envs) EndOfStream) ?s2 = (Inr (), s3)"
    using s3(1) authenticate_bearer [OF reg(2), of ?s2 ref] reg(3) by (simp add: submit_events_def px_run)
  then have streamed: "run_state (submit_events api (bearer t) (map (\<lambda>env. env\<lparr>ee_runID := op_runID run\<rparr>) envs) EndOfStream) ?s2 = (Inr (), s3)"
    unfolding run(2) .
  show ?thesis
  proof (intro exI conjI)
    show "run_state (register api h n) s = (Inr (i, t), s1)" by (rule reg(1))
    show "run_state (create_run api (bearer t) wn wh) s1 = (Inr run, ?s2)" by (rule run(1))
    show "run_state (submit_events api (bearer t) (map (\<lambda>env. env\<lparr>ee_runID := op_runID run\<rparr>) envs) EndOfStream) ?s2 =
        (Inr (), s3)" by (rule streamed)
    show "px_log s3 = px_log ?s2 @ extra" by (rule s3(2))
    show "List.map_filter forwarded_as extra = map (\<lambda>env. env\<lparr>ee_runID := stamped_castle_run cr\<rparr>) envs" by (rule s3(3))
    show "List.map_filter acked_as extra =
        map (\<lambda>env. ack_of (env\<lparr>ee_runID := op_runID run\<rparr>) (ack (env\<lparr>ee_runID := stamped_castle_run cr\<rparr>))) envs"
      unfolding run(2) by (rule s3(4))
  qed
qed

lemma sample_answering:
  "answering (sample_proxy sample_enrolled) ''cr'' (sample_enrolled\<lparr>ru_namespace := ''jobs'', ru_name := ''cr''\<rparr>)
     (\<lambda>env. Some \<lparr>ak_runID = ee_runID env, ak_seq = 7, ak_correlationID = []\<rparr>)"
  by (simp add: answering_def sample_proxy_def)

theorem enrolled_engine_streams_witness:
  "\<exists>i t s1 run s2 s3 extra.
    run_state (register (sample_proxy sample_enrolled) sample_headers ''cr'') (new_proxy 1) = (Inr (i, t), s1) \<and>
    run_state (create_run (sample_proxy sample_enrolled) (bearer t) ''wf'' ''h'') s1 = (Inr run, s2) \<and>
    run_state (submit_events (sample_proxy sample_enrolled) (bearer t)
      (map (\<lambda>env. env\<lparr>ee_runID := op_runID run\<rparr>) [sample_event, sample_event\<lparr>ee_seq := 2\<rparr>]) EndOfStream) s2 = (Inr (), s3) \<and>
    px_log s3 = px_log s2 @ extra \<and>
    List.map_filter forwarded_as extra = [sample_event\<lparr>ee_runID := ''c1''\<rparr>, sample_event\<lparr>ee_seq := 2, ee_runID := ''c1''\<rparr>]"
proof -
  have "enrolled_with (sample_enrolled\<lparr>ru_namespace := ''jobs'', ru_name := ''cr''\<rparr>) (hd_bootstrap sample_headers)"
    and stamped: "stamped_castle_run (sample_enrolled\<lparr>ru_namespace := ''jobs'', ru_name := ''cr''\<rparr>) = ''c1''"
    by code_simp+
  from enrolled_engine_streams [OF sample_answering _ this(1), where envs = "[sample_event, sample_event\<lparr>ee_seq := 2\<rparr>]"
      and s = "new_proxy 1" and wn = "''wf''" and wh = "''h''"]
  show ?thesis unfolding stamped by (simp add: sample_event_def) blast
qed

end
