(* ===== verification/CastleTransport.thy ===== *)
theory CastleTransport
  imports ArchiveRecord AgentLane EnrollProxy
begin

text \<open>
  How the clients of castle authenticate (\<open>internal/castle\<close>): the transport that attaches the criteria token, the
  constructors of the clients, the archive client with its refusals, and the dialer of the agent lane
  (\<open>internal/control/agent.go\<close>), whose token a registration swaps. The wire behind a client is an argument.
\<close>

section \<open>Transports\<close>

record castle_config =
  ce_addr :: string
  ce_token :: string

text \<open>An HTTP client: whether it speaks cleartext HTTP/2, and the tokens its transports attach, the outermost first.\<close>

record http_client =
  hc_h2c :: bool
  hc_tokens :: "string list"

definition default_client :: http_client where "default_client = \<lparr>hc_h2c = False, hc_tokens = []\<rparr>"
definition clear_text_h2c_client :: http_client where "clear_text_h2c_client = \<lparr>hc_h2c = True, hc_tokens = []\<rparr>"

text \<open>One transport sets both headers; the inner ones come after it.\<close>

definition token_headers :: "string \<Rightarrow> smap \<Rightarrow> smap" where
  "token_headers token hs = assoc_put ''Authorization'' (''Bearer '' @ token) (assoc_put ''X-Criteria-Token'' token hs)"

definition sent_headers :: "http_client \<Rightarrow> smap \<Rightarrow> smap" where
  "sent_headers c hs = foldl (\<lambda>hs token. token_headers token hs) hs (hc_tokens c)"

definition with_token :: "string \<Rightarrow> http_client \<Rightarrow> http_client" where
  "with_token token c = (if token \<noteq> [] then c\<lparr>hc_tokens := token # hc_tokens c\<rparr> else c)"

definition lane_client :: "castle_config \<Rightarrow> http_client option \<Rightarrow> http_client" where
  "lane_client cfg c = with_token (ce_token cfg) (case c of None \<Rightarrow> clear_text_h2c_client | Some c \<Rightarrow> c)"

definition observation_http :: "castle_config \<Rightarrow> http_client option \<Rightarrow> http_client" where
  "observation_http cfg c = with_token (ce_token cfg) (case c of None \<Rightarrow> default_client | Some c \<Rightarrow> c)"

definition lane_address :: "castle_config \<Rightarrow> string" where
  "lane_address cfg = (if ce_addr cfg \<noteq> [] \<and> last (ce_addr cfg) = CHR ''/'' then butlast (ce_addr cfg) else ce_addr cfg)"

definition new_agent_client :: "castle_config \<Rightarrow> http_client option \<Rightarrow> http_client \<times> string" where
  "new_agent_client cfg c = (lane_client cfg c, lane_address cfg)"

definition new_control_client :: "castle_config \<Rightarrow> http_client option \<Rightarrow> http_client \<times> string" where
  "new_control_client cfg c = (lane_client cfg c, lane_address cfg)"

definition event_feed_http :: "castle_config \<Rightarrow> http_client option \<Rightarrow> http_client \<times> string" where
  "event_feed_http cfg c = (lane_client cfg c, lane_address cfg)"

definition new_server_client :: "castle_config \<Rightarrow> http_client option \<Rightarrow> (http_client \<times> string) \<times> string" where
  "new_server_client cfg c = ((lane_client cfg c, lane_address cfg), ce_addr cfg)"

section \<open>The archive client\<close>

record run_archive_client =
  ra_addr :: string
  ra_token :: string
  ra_http :: http_client

definition new_run_archive_client :: "castle_config \<Rightarrow> http_client option \<Rightarrow> run_archive_client" where
  "new_run_archive_client cfg c = \<lparr>ra_addr = ce_addr cfg, ra_token = ce_token cfg, ra_http = lane_client cfg c\<rparr>"

definition archiver_disabled :: "run_archive_client option \<Rightarrow> bool" where
  "archiver_disabled a \<longleftrightarrow> (case a of None \<Rightarrow> True | Some c \<Rightarrow> ra_addr c = [] \<or> ra_token c = [])"

text \<open>The wire: a client, an address, the message, and what comes back.\<close>

type_synonym ('w, 'm, 'r) wire = "http_client \<Rightarrow> string \<Rightarrow> 'm \<Rightarrow> 'w \<Rightarrow> (go_error + 'r) \<times> 'w"

definition submit_archive :: "('w, archive_record, 'r) wire \<Rightarrow> run_archive_client \<Rightarrow> archive_record \<Rightarrow> 'w \<Rightarrow> (go_error + 'r) \<times> 'w" where
  "submit_archive post a rec w =
     (if ra_addr a = [] then (Inl (ErrMsg ''castle run archive is disabled (no castle address configured)''), w)
      else if ra_token a = []
      then (Inl (ErrMsg ''castle run archive requires a criteria token (CASTLE_TOKEN): refusing an anonymous archive write''), w)
      else post (ra_http a) (ra_addr a) (apply_archive_record_ceilings rec) w)"

definition list_run_archives :: "('w, 'm, 'r) wire \<Rightarrow> run_archive_client \<Rightarrow> 'm \<Rightarrow> 'w \<Rightarrow> (go_error + 'r) \<times> 'w" where
  "list_run_archives post a req w =
     (if ra_addr a = [] then (Inl (ErrMsg ''castle run archive is disabled (no castle address configured)''), w)
      else post (ra_http a) (ra_addr a) req w)"

lemma sent_token: "t \<noteq> [] \<Longrightarrow> hc_tokens c = [] \<Longrightarrow> sent_headers (with_token t c) hs = token_headers t hs"
  by (simp add: sent_headers_def with_token_def)

text \<open>A service that reads the two headers, as the run-event proxy does, is presented the token.\<close>

lemma token_presented:
  assumes "t \<noteq> []"
  shows "presented_token \<lparr>hd_authorization = smap_get (token_headers t hs) ''Authorization'',
    hd_criteriaToken = smap_get (token_headers t hs) ''X-Criteria-Token'', hd_bootstrap = []\<rparr> = t"
  using assms
  by (simp add: presented_token_def token_headers_def bearer_prefix_def has_prefix_def)

text \<open>An archive write that goes out carries a token, and a client that is not disabled has one.\<close>

lemma archive_never_anonymous:
  assumes "fst (submit_archive post (new_run_archive_client cfg None) rec w) = Inr r"
  shows "ce_token cfg \<noteq> [] \<and> \<not> archiver_disabled (Some (new_run_archive_client cfg None)) \<and>
    sent_headers (ra_http (new_run_archive_client cfg None)) [] = token_headers (ce_token cfg) []"
  using assms
  by (auto simp: submit_archive_def new_run_archive_client_def archiver_disabled_def lane_client_def sent_token clear_text_h2c_client_def
      split: if_splits)

section \<open>The dialer of the agent lane\<close>

record agent_dialer =
  dl_addr :: string
  dl_criteriaID :: string
  dl_token :: string

definition new_agent_dialer :: "agent_config \<Rightarrow> agent_dialer" where
  "new_agent_dialer c = \<lparr>dl_addr = gc_addr c, dl_criteriaID = gc_criteriaID c, dl_token = gc_token c\<rparr>"

definition swap_token :: "string \<Rightarrow> agent_dialer \<Rightarrow> agent_dialer" where "swap_token token d = d\<lparr>dl_token := token\<rparr>"

definition current_token :: "agent_dialer \<Rightarrow> string" where "current_token d = dl_token d"

text \<open>A dial: the client, its address, and the criteria id it subscribes with.\<close>

definition dial_control :: "agent_dialer \<Rightarrow> (http_client \<times> string) \<times> string" where
  "dial_control d = (new_agent_client \<lparr>ce_addr = dl_addr d, ce_token = dl_token d\<rparr> None, dl_criteriaID d)"

text \<open>A registration asks without a token, and a beat with the current one.\<close>

definition register_client :: "agent_config \<Rightarrow> http_client \<times> string" where
  "register_client c = new_agent_client \<lparr>ce_addr = gc_addr c, ce_token = []\<rparr> None"

definition heartbeat_client :: "agent_config \<Rightarrow> agent_dialer \<Rightarrow> http_client \<times> string" where
  "heartbeat_client c d = new_agent_client \<lparr>ce_addr = gc_addr c, ce_token = current_token d\<rparr> None"

definition attached_dialer :: "agent_config \<Rightarrow> agent_identity \<Rightarrow> agent_dialer" where
  "attached_dialer c identity =
     (if gc_token c \<noteq> [] then new_agent_dialer c else swap_token (ai_token identity) (new_agent_dialer c))"

text \<open>The stream and the heartbeats of an attached lane authenticate as its identity.\<close>

lemma attached_lane_authenticates:
  assumes "attach_identity reg c = Inr identity" and "ai_token identity \<noteq> []"
  shows "sent_headers (fst (fst (dial_control (attached_dialer c identity)))) [] = token_headers (ai_token identity) []"
    and "sent_headers (fst (heartbeat_client c (attached_dialer c identity))) [] = token_headers (ai_token identity) []"
  using assms
  by (auto simp: attach_identity_def dial_control_def attached_dialer_def new_agent_dialer_def swap_token_def new_agent_client_def
      lane_client_def sent_token clear_text_h2c_client_def heartbeat_client_def current_token_def split: if_splits sum.splits)

text \<open>A registered lane subscribes with the configured criteria id, not with the one that it was given.\<close>

lemma registered_lane_subscribes_as_configured: "snd (dial_control (attached_dialer c identity)) = gc_criteriaID c"
  by (simp add: dial_control_def attached_dialer_def new_agent_dialer_def swap_token_def)

text \<open>
  A feed that is built from the configuration of a lane that registers carries no credential: its submissions go out
  without one, whatever identity the registration answers.
\<close>

lemma feed_of_a_registering_lane_is_anonymous:
  "gc_token c = [] \<Longrightarrow> sent_headers (fst (event_feed_http \<lparr>ce_addr = gc_addr c, ce_token = gc_token c\<rparr> None)) hs = hs"
  by (simp add: event_feed_http_def lane_client_def with_token_def clear_text_h2c_client_def sent_headers_def)

end
