(* ===== verification/OperatorConfig.thy ===== *)
theory OperatorConfig
  imports CastleTransport AgentLane LaneStream CRRetention AdapterSweep DataSweep Backfill
begin

text \<open>
  The operator command (\<open>cmd/operator/main.go\<close>): its flags with their defaults from the environment, the resolution of
  addresses, credentials and routes, the decision which lanes run, and the one-shot archive backfill. The environment,
  the files and \<open>time.ParseDuration\<close> are arguments; a flags record stands for what the command line left of the defaults.
  Goroutines, listeners and log lines are not modelled.
\<close>

section \<open>The environment\<close>

type_synonym environ = "string \<Rightarrow> string option"

definition getenv :: "environ \<Rightarrow> string \<Rightarrow> string \<Rightarrow> string" where
  "getenv env key fallback = (case env key of Some v \<Rightarrow> if v \<noteq> [] then v else fallback | None \<Rightarrow> fallback)"

definition bootgate_view_addr_default :: "environ \<Rightarrow> string" where
  "bootgate_view_addr_default env = (case env ''BOOTGATE_VIEW_ADDR'' of Some v \<Rightarrow> v | None \<Rightarrow> '':8082'')"

text \<open>\<open>strconv.ParseBool\<close>.\<close>

definition parse_bool :: "string \<Rightarrow> bool option" where
  "parse_bool s =
     (if s \<in> {''1'', ''t'', ''T'', ''TRUE'', ''true'', ''True''} then Some True
      else if s \<in> {''0'', ''f'', ''F'', ''FALSE'', ''false'', ''False''} then Some False else None)"

text \<open>A variable that is unset, empty or not readable counts as its fallback.\<close>

definition get_parsed :: "(string \<Rightarrow> 'a option) \<Rightarrow> environ \<Rightarrow> string \<Rightarrow> 'a \<Rightarrow> 'a" where
  "get_parsed parse env key fallback =
     (let v = getenv env key [] in if v \<noteq> [] then (case parse v of Some x \<Rightarrow> x | None \<Rightarrow> fallback) else fallback)"

definition get_duration :: "(string \<Rightarrow> duration option) \<Rightarrow> environ \<Rightarrow> string \<Rightarrow> duration \<Rightarrow> duration" where
  "get_duration parse_duration = get_parsed parse_duration"

definition get_bool :: "environ \<Rightarrow> string \<Rightarrow> bool \<Rightarrow> bool" where "get_bool = get_parsed parse_bool"

definition get_int :: "environ \<Rightarrow> string \<Rightarrow> int \<Rightarrow> int" where "get_int = get_parsed parse_int64"

definition parse_csv :: "string \<Rightarrow> string list" where
  "parse_csv v = filter (\<lambda>entry. entry \<noteq> []) (map trim_space (split_on CHR '','' [] v))"

section \<open>Flags\<close>

record operator_flags =
  fl_metricsAddr :: string
  fl_probeAddr :: string
  fl_defaultImage :: string
  fl_criteriaBaseImage :: string
  fl_adapterRegistry :: string
  fl_adapterTag :: string
  fl_jobArch :: string
  fl_legacySecretVolumes :: bool
  fl_dataPVC :: string
  fl_providerBaseURL :: string
  fl_castleAddr :: string
  fl_backfillRunArchives :: bool
  fl_shadowRunWatchdog :: bool
  fl_shadowCastleAddr :: string
  fl_shadowCriteriaID :: string
  fl_shadowRoutesFile :: string
  fl_assignmentRun :: bool
  fl_agentCastleAddr :: string
  fl_agentCriteriaID :: string
  fl_agentProject :: string
  fl_agentRoutesFile :: string
  fl_debugEventsFile :: string
  fl_retentionPeriod :: duration
  fl_sweepInterval :: duration
  fl_stallWindow :: duration
  fl_terminalReapForceAfter :: duration
  fl_adapterSweepInterval :: duration
  fl_crRetentionDays :: int
  fl_crRetentionKeepLast :: int
  fl_crRetentionNamespaces :: string
  fl_namespace :: string
  fl_operatorDeployment :: string
  fl_development :: bool
  fl_bootgateViewAddr :: string
  fl_runEventsAddr :: string
  fl_runEventsSvc :: string

definition operator_env_flags :: "(string \<Rightarrow> duration option) \<Rightarrow> environ \<Rightarrow> operator_flags" where
  "operator_env_flags parse_duration env = \<lparr>
     fl_metricsAddr = '':8080'', fl_probeAddr = '':8081'',
     fl_defaultImage = getenv env ''DEFAULT_CRITERIA_IMAGE'' ''localhost:5000/linear-intake-remote:dev'',
     fl_criteriaBaseImage = getenv env ''CRITERIA_BASE_IMAGE'' criteria_base_image_default,
     fl_adapterRegistry = getenv env ''ADAPTER_REGISTRY'' default_adapter_registry,
     fl_adapterTag = getenv env ''ADAPTER_TAG'' default_adapter_tag,
     fl_jobArch = getenv env ''CRITERIA_JOB_ARCH'' ''amd64'',
     fl_legacySecretVolumes = get_bool env ''CRITERIA_LEGACY_SECRET_VOLUMES'' False,
     fl_dataPVC = getenv env ''CRITERIA_DATA_PVC'' ''criteria-data'',
     fl_providerBaseURL = getenv env ''PROVIDER_BASE_URL'' ''http://192.168.17.116:11434/v1'',
     fl_castleAddr = getenv env ''CASTLE_ADDR'' [],
     fl_backfillRunArchives = get_bool env ''BACKFILL_RUN_ARCHIVES'' False,
     fl_shadowRunWatchdog = get_bool env ''SHADOW_RUN_WATCHDOG'' True,
     fl_shadowCastleAddr = getenv env ''SHADOW_CASTLE_ADDR'' [],
     fl_shadowCriteriaID = getenv env ''SHADOW_CRITERIA_ID'' ''criteria-k8s-operator'',
     fl_shadowRoutesFile = getenv env ''SHADOW_ROUTES_FILE'' [],
     fl_assignmentRun = get_bool env ''CRITERIA_ASSIGNMENT_AGENT'' False,
     fl_agentCastleAddr = getenv env ''CRITERIA_AGENT_CASTLE_ADDR'' [],
     fl_agentCriteriaID = getenv env ''CRITERIA_AGENT_CRITERIA_ID'' [],
     fl_agentProject = getenv env ''CRITERIA_AGENT_PROJECT'' [],
     fl_agentRoutesFile = getenv env ''CRITERIA_AGENT_ROUTES_FILE'' [],
     fl_debugEventsFile = getenv env ''CRITERIA_DEBUG_EVENTS_FILE'' [],
     fl_retentionPeriod = get_duration parse_duration env ''RETENTION_PERIOD'' (7 * 24 * hour),
     fl_sweepInterval = get_duration parse_duration env ''RETENTION_INTERVAL'' hour,
     fl_stallWindow = get_duration parse_duration env ''CRITERIA_STALL_WINDOW'' (30 * minute),
     fl_terminalReapForceAfter = get_duration parse_duration env ''TERMINAL_REAP_FORCE_AFTER'' (90 * second),
     fl_adapterSweepInterval = get_duration parse_duration env ''ADAPTER_SWEEP_INTERVAL'' (30 * second),
     fl_crRetentionDays = get_int env ''CR_RETENTION_DAYS'' 7,
     fl_crRetentionKeepLast = get_int env ''CR_RETENTION_KEEP_LAST'' 3,
     fl_crRetentionNamespaces = getenv env ''CR_RETENTION_NAMESPACES'' [],
     fl_namespace = getenv env ''CRITERIA_NAMESPACE'' ''criteria-jobs'',
     fl_operatorDeployment = getenv env ''OPERATOR_DEPLOYMENT'' ''criteria-k8s-operator'',
     fl_development = False,
     fl_bootgateViewAddr = bootgate_view_addr_default env,
     fl_runEventsAddr = getenv env ''CRITERIA_RUN_EVENTS_ADDR'' [],
     fl_runEventsSvc = getenv env ''CRITERIA_RUN_EVENTS_SVC'' ''criteria-k8s-operator''\<rparr>"

section \<open>Addresses and credentials\<close>

definition castle_token_from_env :: "environ \<Rightarrow> (string \<Rightarrow> go_error + string) \<Rightarrow> string" where
  "castle_token_from_env env read_file =
     (let token = getenv env ''CASTLE_TOKEN'' []; file = getenv env ''CASTLE_TOKEN_FILE'' []
      in if token = [] \<and> file \<noteq> []
         then (case read_file file of Inl e \<Rightarrow> [] | Inr data \<Rightarrow> trim_space data) else token)"

text \<open>The token of a variable, or of the file that its \<open>_FILE\<close> variable names.\<close>

definition mounted_token :: "environ \<Rightarrow> (string \<Rightarrow> go_error + string) \<Rightarrow> string \<Rightarrow> go_error + string" where
  "mounted_token env read_file key =
     (let token = getenv env key []; file = getenv env (key @ ''_FILE'') []
      in if token = [] \<and> file \<noteq> []
         then (case read_file file of Inl e \<Rightarrow> Inl (Wrapped (''reading '' @ file) e) | Inr data \<Rightarrow> Inr (trim_space data))
         else Inr token)"

definition agent_castle_token_from_env :: "environ \<Rightarrow> (string \<Rightarrow> go_error + string) \<Rightarrow> go_error + string" where
  "agent_castle_token_from_env env read_file =
     (case mounted_token env read_file ''CRITERIA_AGENT_CASTLE_TOKEN'' of
        Inl e \<Rightarrow> Inl e
      | Inr token \<Rightarrow> Inr (if token = [] then castle_token_from_env env read_file else token))"

definition resolve_agent_castle_token :: "environ \<Rightarrow> (string \<Rightarrow> go_error + string) \<Rightarrow> string" where
  "resolve_agent_castle_token env read_file =
     (case agent_castle_token_from_env env read_file of
        Inl e \<Rightarrow> castle_token_from_env env read_file
      | Inr token \<Rightarrow> token)"

definition shadow_castle_token_from_env :: "environ \<Rightarrow> (string \<Rightarrow> go_error + string) \<Rightarrow> go_error + string" where
  "shadow_castle_token_from_env env read_file =
     (case mounted_token env read_file ''SHADOW_CASTLE_TOKEN'' of
        Inl e \<Rightarrow> Inl e
      | Inr token \<Rightarrow> Inr (if token = [] then castle_token_from_env env read_file else token))"

definition shadow_run_addr :: "operator_flags \<Rightarrow> string" where
  "shadow_run_addr fl = (if fl_shadowCastleAddr fl \<noteq> [] then fl_shadowCastleAddr fl else fl_castleAddr fl)"

definition agent_run_addr :: "operator_flags \<Rightarrow> string" where
  "agent_run_addr fl = (if fl_agentCastleAddr fl \<noteq> [] then fl_agentCastleAddr fl else fl_castleAddr fl)"

text \<open>What follows the first colon.\<close>

definition after_colon :: "string \<Rightarrow> string option" where
  "after_colon s = (case dropWhile (\<lambda>c. c \<noteq> CHR '':'') s of [] \<Rightarrow> None | _ # rest \<Rightarrow> Some rest)"

definition resolve_run_events_lane ::
  "string \<Rightarrow> string \<Rightarrow> string \<Rightarrow> string \<Rightarrow> string \<Rightarrow> string \<Rightarrow> string \<times> string" where
  "resolve_run_events_lane bootgateViewAddr explicit svcName ns castleAddr castleToken =
     (if bootgateViewAddr = [] then ([], ''no boot gate listener (bootgate-view-addr empty) to serve the proxy lane on'')
      else if castleAddr = [] then ([], ''no castle endpoint for the proxy to re-emit run events to (castle-addr empty)'')
      else if castleToken = []
      then ([], ''no castle credential for the proxy to present (no agent credential and no shared token mounted)'')
      else if explicit \<noteq> [] then (explicit, [])
      else case after_colon bootgateViewAddr of
             None \<Rightarrow> ([], ''boot gate listener carries no port to derive the svc endpoint from'')
           | Some port \<Rightarrow>
               if port = [] then ([], ''boot gate listener carries no port to derive the svc endpoint from'')
               else if parse_int64 port = None
               then ([], ''boot gate listener port is not numeric; no svc endpoint derivable'')
               else (''http://'' @ svcName @ ''.'' @ ns @ ''.svc:'' @ port, []))"

section \<open>The builder of the assignment lanes\<close>

definition config_pin_resolver ::
  "bool \<Rightarrow> (nsname \<Rightarrow> go_error + config_map) \<Rightarrow> string \<Rightarrow> selection \<Rightarrow> criteria_run_config_ref option" where
  "config_pin_resolver cl get ns sel = (if \<not> cl then None else fst (pin_config_ref get ns sel))"

definition new_shadow_run_builder ::
  "payload option \<Rightarrow> string \<Rightarrow> run_defaults \<Rightarrow> string \<Rightarrow> bool \<Rightarrow> run_builder option" where
  "new_shadow_run_builder routesPayload routesFile ds ns cl =
     (if routesPayload = None then None
      else Some \<lparr>rb_defaults = ds, rb_namespace = ns, rb_routes = routesPayload, rb_routesFile = routesFile,
        rb_client = cl, rb_pins = True\<rparr>)"

definition shadow_runner_defaults :: "environ \<Rightarrow> run_defaults" where
  "shadow_runner_defaults env = \<lparr>rd_buildCmd = getenv env ''BUILD_CMD'' [], rd_testCmd = getenv env ''TEST_CMD'' [],
     rd_ciGateCmd = getenv env ''CI_GATE_CMD'' [], rd_baseBranch = getenv env ''BASE_BRANCH'' [],
     rd_maxAgentVisits = get_int env ''MAX_AGENT_VISITS'' 2,
     rd_providerBaseURL = getenv env ''PROVIDER_BASE_URL'' ''http://192.168.17.116:11434/v1''\<rparr>"

definition resolve_agent_routes_path :: "string \<Rightarrow> string \<Rightarrow> string" where
  "resolve_agent_routes_path explicit shadow = (if explicit \<noteq> [] then explicit else shadow)"

definition load_shadow_routes :: "surroundings \<Rightarrow> string \<Rightarrow> go_error + payload option" where
  "load_shadow_routes su path = (if path = [] then Inr None else map_sum id Some (load_routes_file su path))"

section \<open>The lanes\<close>

text \<open>The process: its environment and what it reads; the cluster's ConfigMaps are read with the direct client.\<close>

record operator_process =
  pc_env :: environ
  pc_duration :: "string \<Rightarrow> duration option"
  pc_su :: surroundings

definition proxy_token :: "operator_process \<Rightarrow> string" where
  "proxy_token p = resolve_agent_castle_token (pc_env p) (su_read_file (pc_su p))"

definition shared_token :: "operator_process \<Rightarrow> string" where
  "shared_token p = castle_token_from_env (pc_env p) (su_read_file (pc_su p))"

definition run_events_endpoint :: "operator_process \<Rightarrow> operator_flags \<Rightarrow> string" where
  "run_events_endpoint p fl = fst (resolve_run_events_lane (fl_bootgateViewAddr fl) (fl_runEventsAddr fl) (fl_runEventsSvc fl)
     (fl_namespace fl) (agent_run_addr fl) (proxy_token p))"

text \<open>The castle endpoint and the credential that the proxy forwards with.\<close>

definition run_proxy :: "operator_process \<Rightarrow> operator_flags \<Rightarrow> (string \<times> string) option" where
  "run_proxy p fl = (if run_events_endpoint p fl \<noteq> [] then Some (agent_run_addr fl, proxy_token p) else None)"

definition archiver_enabled :: "operator_process \<Rightarrow> operator_flags \<Rightarrow> bool" where
  "archiver_enabled p fl \<longleftrightarrow> fl_castleAddr fl \<noteq> [] \<and> shared_token p \<noteq> []"

definition operator_defaults :: "operator_process \<Rightarrow> operator_flags \<Rightarrow> defaults" where
  "operator_defaults p fl = \<lparr>df_image = fl_defaultImage fl, df_dataPVC = fl_dataPVC fl,
     df_providerBaseURL = fl_providerBaseURL fl, df_criteriaServerAddr = run_events_endpoint p fl,
     df_debugEventsFile = fl_debugEventsFile fl, df_criteriaBaseImage = fl_criteriaBaseImage fl,
     df_adapterRegistry = fl_adapterRegistry fl, df_adapterTag = fl_adapterTag fl, df_jobArch = fl_jobArch fl,
     df_legacySecretVolumes = fl_legacySecretVolumes fl\<rparr>"

text \<open>The pod-state feed, under the credential of the agent lane.\<close>

definition operator_pod_feed :: "operator_process \<Rightarrow> operator_flags \<Rightarrow> pod_state_feed \<times> string" where
  "operator_pod_feed p fl = (new_pod_state_feed (fl_castleAddr fl), resolve_agent_castle_token (pc_env p) (su_read_file (pc_su p)))"

text \<open>
  The reconciler as it is wired, over the parts that the libraries provide. Its \<open>RunEvents\<close> field is an interface that a
  pointer to the proxy is stored into, so it is not nil even when there is no proxy.
\<close>

definition operator_reconciler :: "operator_process \<Rightarrow> operator_flags \<Rightarrow> 'w reconciler \<Rightarrow> 'w reconciler" where
  "operator_reconciler p fl op = op\<lparr>op_castle := fl_castleAddr fl \<noteq> [], op_envProbe := True,
     op_defaults := operator_defaults p fl, op_stallWindow := fl_stallWindow fl,
     op_terminalReapForceAfter := fl_terminalReapForceAfter fl, op_runArchiver := archiver_enabled p fl,
     op_operatorVersion := getenv (pc_env p) ''OPERATOR_VERSION'' [], op_runEvents := True, op_recorder := True\<rparr>"

definition artifact_lane :: "operator_flags \<Rightarrow> retention_sweeper option" where
  "artifact_lane fl =
     (if fl_retentionPeriod fl > 0 then Some (new_retention_sweeper ''/data'' (fl_retentionPeriod fl) (fl_sweepInterval fl))
      else None)"

definition adapter_lane :: "operator_flags \<Rightarrow> adapter_sweeper option" where
  "adapter_lane fl =
     (if fl_adapterSweepInterval fl > 0 then Some (new_adapter_sweeper (fl_namespace fl) (fl_adapterSweepInterval fl)) else None)"

text \<open>The product of durations wraps at 64 bits.\<close>

definition wrap_duration :: "int \<Rightarrow> duration" where
  "wrap_duration d = (d + 2 ^ 63) mod 2 ^ 64 - 2 ^ 63"

definition run_retention_lane :: "operator_flags \<Rightarrow> cr_retention_sweeper option" where
  "run_retention_lane fl =
     (let sweeper = new_cr_retention_sweeper (fl_namespace fl) (wrap_duration (fl_crRetentionDays fl * 24 * hour))
            (fl_crRetentionKeepLast fl) (parse_csv (fl_crRetentionNamespaces fl)) (fl_sweepInterval fl)
      in if fl_crRetentionDays fl > 0 \<and> sr_allowlist sweeper \<noteq> [] then Some sweeper else None)"

text \<open>The listener of the boot gate, and whether the proxy is mounted on it.\<close>

definition bootgate_lane :: "operator_process \<Rightarrow> operator_flags \<Rightarrow> (string \<times> bool) option" where
  "bootgate_lane p fl =
     (if fl_bootgateViewAddr fl \<noteq> [] then Some (fl_bootgateViewAddr fl, run_events_endpoint p fl \<noteq> []) else None)"

record shadow_wiring =
  sh_config :: control_config
  sh_watchdog :: watchdog

definition shadow_lane :: "operator_process \<Rightarrow> operator_flags \<Rightarrow> shadow_wiring option" where
  "shadow_lane p fl =
     (if \<not> fl_shadowRunWatchdog fl \<or> shadow_run_addr fl = [] then None
      else Some \<lparr>
        sh_config = \<lparr>cc_addr = shadow_run_addr fl,
          cc_token = (case shadow_castle_token_from_env (pc_env p) (su_read_file (pc_su p)) of
             Inl e \<Rightarrow> shared_token p | Inr token \<Rightarrow> token),
          cc_criteriaID = fl_shadowCriteriaID fl, cc_labelTicket = [], cc_labelRepoURL = [], cc_labelClass = [],
          cc_labelProject = []\<rparr>,
        sh_watchdog = \<lparr>wd_client = True, wd_namespace = fl_namespace fl, wd_labelTicket = [],
          wd_builder = (case load_shadow_routes (pc_su p) (fl_shadowRoutesFile fl) of
             Inl e \<Rightarrow> None
           | Inr routesPayload \<Rightarrow> new_shadow_run_builder routesPayload (fl_shadowRoutesFile fl)
               (shadow_runner_defaults (pc_env p)) (fl_namespace fl) True)\<rparr>\<rparr>)"

record agent_wiring =
  al_config :: agent_config
  al_builder :: "run_builder option"
  al_namespace :: string
  al_events :: event_feed
  al_eventsHttp :: "http_client \<times> string"
  al_dispositions :: "(http_client \<times> string) \<times> string"

definition agent_lane :: "operator_process \<Rightarrow> operator_flags \<Rightarrow> agent_wiring option" where
  "agent_lane p fl =
     (if \<not> fl_assignmentRun fl \<or> agent_run_addr fl = [] then None
      else let path = resolve_agent_routes_path (fl_agentRoutesFile fl) (fl_shadowRoutesFile fl)
        in case load_shadow_routes (pc_su p) path of
             Inl e \<Rightarrow> None
           | Inr None \<Rightarrow> None
           | Inr routesPayload \<Rightarrow> Some \<lparr>
               al_config = \<lparr>gc_addr = agent_run_addr fl, gc_token = proxy_token p, gc_criteriaID = fl_agentCriteriaID fl,
                 gc_name = getenv (pc_env p) ''CRITERIA_AGENT_NAME'' ''criteria-k8s-operator'', gc_labels = [],
                 gc_project = fl_agentProject fl, gc_heartbeatEvery = 0\<rparr>,
               al_builder = new_shadow_run_builder routesPayload path (shadow_runner_defaults (pc_env p)) (fl_namespace fl) True,
               al_namespace = fl_namespace fl, al_events = new_event_feed (agent_run_addr fl),
               al_eventsHttp = event_feed_http \<lparr>ce_addr = agent_run_addr fl, ce_token = proxy_token p\<rparr> None,
               al_dispositions = new_server_client \<lparr>ce_addr = agent_run_addr fl, ce_token = proxy_token p\<rparr> None\<rparr>)"

section \<open>Starting\<close>

datatype boot_step = LoadKubeconfig | BuildScheme | CreateManager | CreateDirectClient | SetUpReconciler | RecoverQueue

datatype 'w operator_start =
    BootFailed go_error
  | BackfillOnly bool
  | Serving "'w reconciler" "(string \<times> string) option" "(string \<times> bool) option" "retention_sweeper option"
      "adapter_sweeper option" "cr_retention_sweeper option" "shadow_wiring option" "agent_wiring option"

definition operator_main :: "operator_process \<Rightarrow> operator_flags \<Rightarrow> 'w reconciler \<Rightarrow> (boot_step \<Rightarrow> go_error option) \<Rightarrow> 'w operator_start" where
  "operator_main p fl op failed =
     (case first_error [failed LoadKubeconfig, failed BuildScheme] of
        Some e \<Rightarrow> BootFailed e
      | None \<Rightarrow>
          if fl_backfillRunArchives fl then BackfillOnly (archiver_enabled p fl)
          else case first_error [failed CreateManager, failed CreateDirectClient, failed SetUpReconciler, failed RecoverQueue] of
                 Some e \<Rightarrow> BootFailed e
               | None \<Rightarrow> Serving (operator_reconciler p fl op) (run_proxy p fl) (bootgate_lane p fl) (artifact_lane fl)
                   (adapter_lane fl) (run_retention_lane fl) (shadow_lane p fl) (agent_lane p fl))"

text \<open>\<open>operatorScheme\<close>: the kinds are registered in order, and the first failure ends it.\<close>

definition operator_scheme :: "(string \<Rightarrow> go_error option) \<Rightarrow> go_error option" where
  "operator_scheme add = first_error (map (\<lambda>(group, ctx). map_option (Wrapped ctx) (add group))
     [(''criteria'', ''registering CriteriaRun scheme''), (''batch'', ''registering batch scheme''),
      (''core'', ''registering core scheme''), (''apps'', ''registering apps scheme'')])"

section \<open>The archive backfill\<close>

text \<open>\<open>None\<close> is a listing that did not come to an end within \<open>fuel\<close> pages.\<close>

definition run_archive_backfill ::
  "nat \<Rightarrow> bool \<Rightarrow> go_error option \<Rightarrow> 'w lister \<Rightarrow> 'w reconciler \<Rightarrow> string \<Rightarrow> ('w, (go_error + unit) option) pass" where
  "run_archive_backfill fuel enabled built lister op ns =
     (if \<not> enabled
      then ret (Some (Inl (ErrMsg ''run-archive backfill requires --castle-addr and CASTLE_TOKEN: archiving nothing and exiting clean would falsely claim coverage'')))
      else case built of
             Some e \<Rightarrow> ret (Some (Inl (Wrapped ''building the backfill client'' e)))
           | None \<Rightarrow> do {
               done_pass \<leftarrow> backfill_run_archives fuel lister op ns;
               case done_pass of
                 None \<Rightarrow> ret None
               | Some (res, Some e) \<Rightarrow> ret (Some (Inl e))
               | Some (res, None) \<Rightarrow> do {
                   counted \<leftarrow> count_missing_run_archives lister ns;
                   ret (Some (case counted of
                      Inl e \<Rightarrow> Inl e
                    | Inr missing \<Rightarrow>
                        if missing > 0 \<or> bf_failed res > 0
                        then Inl (ErrMsg (show_int (int missing) @ '' terminal CriteriaRuns remain without a castle archive record ('' @
                               show_int (int (bf_failed res)) @ '' failed this pass; re-run to resume)''))
                        else Inr ()))
                 }
             })"

end
