(* ===== verification/OperatorSafety.thy ===== *)
theory OperatorSafety
  imports OperatorConfig
begin

text \<open>
  What the operator's wiring promises: the run-event lane is served in full or not handed out at all, and a backfill that
  exits cleanly has found every terminal run archived.
\<close>

section \<open>The run-event lane\<close>

lemma lane_endpoint:
  assumes "resolve_run_events_lane view explicit svc ns addr token = (endpoint, reason)"
  shows "(endpoint = [] \<longleftrightarrow> reason \<noteq> []) \<and>
    (endpoint \<noteq> [] \<longrightarrow> view \<noteq> [] \<and> addr \<noteq> [] \<and> token \<noteq> [] \<and>
      (endpoint = explicit \<or> explicit = [] \<and> (\<exists>port n. after_colon view = Some port \<and> parse_int64 port = Some n \<and>
         endpoint = ''http://'' @ svc @ ''.'' @ ns @ ''.svc:'' @ port)))"
  using assms by (auto simp: resolve_run_events_lane_def split: if_splits option.splits)

lemma probed_addr:
  assumes "run_state (resolve_runner_defaults op) s = ((d, live), s')"
  shows "df_criteriaServerAddr d = df_criteriaServerAddr (op_defaults op)"
  using assms
  by (auto simp: resolve_runner_defaults_def env_criteria_base_image_default_def Let_def split: if_splits prod.splits sum.splits)

lemma castle_addr_given:
  "env_text ''CASTLE_ADDR'' v \<in> set (workflow_runner_envs lib run dir iroot troot url n d) \<longleftrightarrow>
     df_criteriaServerAddr d \<noteq> [] \<and> v = df_criteriaServerAddr d"
  by (auto simp: workflow_runner_envs_def operator_envs_def proxy_envs_def env_text_def pod_ip_env_def Let_def)


definition sample_process :: operator_process where
  "sample_process = \<lparr>pc_env = (\<lambda>key. if key = ''CASTLE_TOKEN'' then Some ''t'' else if key = ''CASTLE_ADDR'' then Some ''http://castle'' else None),
     pc_duration = (\<lambda>_. None), pc_su = sample_surroundings\<rparr>"

definition sample_operator_flags :: operator_flags where
  "sample_operator_flags = operator_env_flags (pc_duration sample_process) (pc_env sample_process)"


text \<open>A listener with an IPv6 host has a colon before its port, and the lane stays off.\<close>

lemma ipv6_listener_keeps_lane_off: "fst (resolve_run_events_lane ''[::]:8082'' [] ''op'' ''jobs'' ''http://castle'' ''t'') = []"
  by code_simp

text \<open>The enroller of the reconciler is wired even when there is no proxy; it is not asked then, as the address is empty.\<close>

lemma enroller_wired_without_proxy: "op_runEvents (operator_reconciler p fl op)"
  by (simp add: operator_reconciler_def)

text \<open>A retention of more days than a duration holds wraps to a negative window, which every finished run has outlived.\<close>

lemma long_retention_wraps: "wrap_duration (106752 * 24 * hour) < 0"
  by (simp add: wrap_duration_def hour_def minute_def second_def)

text \<open>
  A lane that registers beats and streams as the identity that castle gives it, but submits events and reads
  dispositions without a credential: only the dialer takes over the minted token.
\<close>

lemma registered_lane_submits_anonymously:
  assumes "agent_lane p fl = Some lane" and "proxy_token p = []"
    and "attach_identity reg (al_config lane) = Inr identity" and "ai_token identity \<noteq> []"
  shows "sent_headers (fst (heartbeat_client (al_config lane) (attached_dialer (al_config lane) identity))) [] =
      token_headers (ai_token identity) []"
    and "sent_headers (fst (al_eventsHttp lane)) [] = []"
    and "sent_headers (fst (fst (al_dispositions lane))) [] = []"
proof -
  show "sent_headers (fst (heartbeat_client (al_config lane) (attached_dialer (al_config lane) identity))) [] =
      token_headers (ai_token identity) []"
    by (rule attached_lane_authenticates [OF assms(3,4)])
  show "sent_headers (fst (al_eventsHttp lane)) [] = []" "sent_headers (fst (fst (al_dispositions lane))) [] = []"
    using assms(1,2)
    by (auto simp: agent_lane_def Let_def event_feed_http_def new_server_client_def lane_client_def with_token_def
        clear_text_h2c_client_def sent_headers_def split: if_splits sum.splits option.splits)
qed

section \<open>The backfill\<close>

text \<open>
  A backfill that exits cleanly has coverage. The one-shot mode ends without an error only when the archive is wired,
  its client was built, no run of the pass failed, and a listing made after the pass shows no terminal run without an
  archive record.
\<close>

theorem backfill_exit_means_coverage:
  assumes "run_state (run_archive_backfill fuel enabled built lister op ns) s = (Some (Inr ()), s')"
  shows "enabled \<and> built = None \<and>
    (\<exists>res s1 items next w. run_state (backfill_run_archives fuel lister op ns) s = (Some (res, None), s1) \<and> bf_failed res = 0 \<and>
       lister ns '''' (os_world s1) = (Inr (items, next), w) \<and>
       filter (\<lambda>run. is_terminal_phase (st_phase (ru_status run)) \<and> st_archiveID (ru_status run) = '''') items = [])"
proof -
  have en: "enabled" "built = None" using assms by (auto simp: run_archive_backfill_def split: if_splits option.splits)
  obtain done_pass s1 where pass: "run_state (backfill_run_archives fuel lister op ns) s = (done_pass, s1)" by force
  obtain counted s2 where counted: "run_state (count_missing_run_archives lister ns) s1 = (counted, s2)" by force
  obtain res where res: "done_pass = Some (res, None)"
    using assms en pass by (auto simp: run_archive_backfill_def split: option.splits)
  then obtain m where m: "counted = Inr m" "m = 0" "bf_failed res = 0"
    using assms en pass counted by (auto simp: run_archive_backfill_def split: sum.splits if_splits)
  obtain answer w where list: "lister ns '''' (os_world s1) = (answer, w)" by force
  obtain items nxt where "answer = Inr (items, nxt)"
    using counted m(1) list by (auto simp: count_missing_run_archives_def attempt_def call_def fail_def split: sum.splits prod.splits)
  moreover from this have "filter (\<lambda>run. is_terminal_phase (st_phase (ru_status run)) \<and> st_archiveID (ru_status run) = '''') items = []"
    using counted m list by (auto simp: count_missing_run_archives_def attempt_def call_def ok_def fail_def)
  ultimately show ?thesis using en pass res m(3) list by blast
qed

theorem backfill_exit_means_coverage_witness:
  "run_state (run_archive_backfill 1 True None (\<lambda>ns cont w. (Inr ([cluster_run], ''''), w)) cluster_op ''jobs'') backfill_state =
     (Some (Inr ()), snd (run_state (run_archive_backfill 1 True None (\<lambda>ns cont w. (Inr ([cluster_run], ''''), w)) cluster_op ''jobs'')
        backfill_state)) \<and>
   filter (\<lambda>run. is_terminal_phase (st_phase (ru_status run)) \<and> st_archiveID (ru_status run) = '''') [cluster_run] = []"
proof -
  let ?m = "run_archive_backfill 1 True None (\<lambda>ns cont w. (Inr ([cluster_run], ''''), w)) cluster_op ''jobs''"
  have "fst (run_state ?m backfill_state) = Some (Inr ())" by code_simp
  then have r: "run_state ?m backfill_state = (Some (Inr ()), snd (run_state ?m backfill_state))" by (metis prod.collapse)
  with backfill_exit_means_coverage [OF r] show ?thesis by auto
qed

end
