(* ===== verification/WatcherCommand.thy ===== *)
theory WatcherCommand
  imports Watcher OperatorConfig
begin

text \<open>
  The watcher command (\<open>cmd/kanboard-watcher/main.go\<close>, \<open>repo.go\<close>) around the poll: the flags with their defaults from the
  environment, the credentials, the dispatch mode, the validation of repositories, the loop of polls and the health probes.
  The environment, the files, the HTTP exchange and the surroundings of the loop are arguments; a flags record stands for what
  the command line left of the defaults.
\<close>

section \<open>Flags\<close>

text \<open>
  \<open>fmt.Sscanf\<close> with \<open>%d\<close>: spaces (a newline is none here), an optional sign, and the longest run of digits, whose value must
  fit 64 bits; what follows is not read.
\<close>

definition scan_int :: "string \<Rightarrow> int option" where
  "scan_int s =
     (let t = strip_runes (filter (\<lambda>r. r \<noteq> [CHR 0x0A]) space_runes) s;
          signs = (if t \<noteq> [] \<and> (hd t = CHR ''-'' \<or> hd t = CHR ''+'') then 1 else 0);
          ds = takeWhile (\<lambda>c. CHR ''0'' \<le> c \<and> c \<le> CHR ''9'') (drop signs t)
      in if ds = [] then None else parse_int64 (take signs t @ ds))"

definition flag_int :: "string \<Rightarrow> int \<Rightarrow> int" where
  "flag_int s fallback = (case scan_int s of None \<Rightarrow> fallback | Some v \<Rightarrow> if v \<le> 0 then fallback else v)"

definition flag_duration :: "(string \<Rightarrow> duration option) \<Rightarrow> string \<Rightarrow> duration \<Rightarrow> duration" where
  "flag_duration parse_duration s fallback =
     (case parse_duration s of None \<Rightarrow> fallback | Some d \<Rightarrow> if d \<le> 0 then fallback else d)"

definition lookup_env :: "environ \<Rightarrow> string \<Rightarrow> string \<Rightarrow> string" where
  "lookup_env env key fallback = (case env key of Some v \<Rightarrow> if v \<noteq> [] then v else fallback | None \<Rightarrow> fallback)"

record watcher_flags =
  wf_namespace :: string
  wf_kanboardURL :: string
  wf_kanboardToken :: string
  wf_projectName :: string
  wf_triggerTag :: string
  wf_pollInterval :: duration
  wf_pollTimeout :: duration
  wf_healthAddr :: string
  wf_image :: string
  wf_providerBaseURL :: string
  wf_maxAgentVisits :: int
  wf_buildCmd :: string
  wf_testCmd :: string
  wf_ciGateCmd :: string
  wf_baseBranch :: string
  wf_defaultRepoURL :: string
  wf_routesFile :: string
  wf_workflowsTagGroup :: string
  wf_configsTagGroup :: string
  wf_routingTags :: string
  wf_dispatchMode :: string
  wf_castleAddr :: string
  wf_castleAgentToken :: string
  wf_castleAgentTokenFile :: string

definition default_poll_interval :: duration where "default_poll_interval = 60 * second"
definition default_poll_timeout :: duration where "default_poll_timeout = 5 * minute"
definition default_health_addr :: string where "default_health_addr = '':8081''"

definition watcher_env_flags :: "(string \<Rightarrow> duration option) \<Rightarrow> environ \<Rightarrow> watcher_flags" where
  "watcher_env_flags parse_duration env = \<lparr>
     wf_namespace = lookup_env env ''NAMESPACE'' ''criteria-jobs'',
     wf_kanboardURL = lookup_env env ''KANBOARD_URL'' [],
     wf_kanboardToken = lookup_env env ''KANBOARD_APP_TOKEN'' [],
     wf_projectName = lookup_env env ''KANBOARD_PROJECT_NAME'' ''Kanboard Tickets'',
     wf_triggerTag = lookup_env env ''KANBOARD_TRIGGER_TAG'' ''k8s-run'',
     wf_pollInterval = flag_duration parse_duration (lookup_env env ''POLL_INTERVAL'' ''60s'') default_poll_interval,
     wf_pollTimeout = flag_duration parse_duration (lookup_env env ''POLL_TIMEOUT'' ''5m'') default_poll_timeout,
     wf_healthAddr = lookup_env env ''HEALTH_ADDR'' default_health_addr,
     wf_image = lookup_env env ''CRITERIA_IMAGE'' ''localhost:5000/linear-intake-remote:dev'',
     wf_providerBaseURL = lookup_env env ''PROVIDER_BASE_URL'' ''http://192.168.17.116:11434/v1'',
     wf_maxAgentVisits = flag_int (lookup_env env ''MAX_AGENT_VISITS'' ''2'') 2,
     wf_buildCmd = lookup_env env ''BUILD_CMD'' [], wf_testCmd = lookup_env env ''TEST_CMD'' [],
     wf_ciGateCmd = lookup_env env ''CI_GATE_CMD'' [], wf_baseBranch = lookup_env env ''BASE_BRANCH'' [],
     wf_defaultRepoURL = lookup_env env ''DEFAULT_REPO_URL'' [],
     wf_routesFile = lookup_env env ''CRITERIA_ROUTES_FILE'' ''/etc/criteria/routes/routes.json'',
     wf_workflowsTagGroup = lookup_env env ''KANBOARD_WORKFLOWS_TAG_GROUP'' ''workflows'',
     wf_configsTagGroup = lookup_env env ''KANBOARD_CONFIGS_TAG_GROUP'' ''configs'',
     wf_routingTags = lookup_env env ''KANBOARD_ROUTING_TAGS'' [],
     wf_dispatchMode = lookup_env env ''CRITERIA_DISPATCH_MODE'' dispatch_mode_legacy,
     wf_castleAddr = lookup_env env ''CRITERIA_CASTLE_ADDR'' [],
     wf_castleAgentToken = lookup_env env ''CRITERIA_CASTLE_AGENT_TOKEN'' [],
     wf_castleAgentTokenFile = lookup_env env ''CRITERIA_CASTLE_AGENT_TOKEN_FILE'' []\<rparr>"

section \<open>Starting\<close>

text \<open>A credential, or else the mounted file.\<close>

definition or_mounted :: "(string \<Rightarrow> go_error + string) \<Rightarrow> string \<Rightarrow> string \<Rightarrow> string" where
  "or_mounted read_file path token =
     (if token = [] then (case read_file path of Inl e \<Rightarrow> [] | Inr b \<Rightarrow> trim_space b) else token)"

definition app_token :: "(string \<Rightarrow> go_error + string) \<Rightarrow> watcher_flags \<Rightarrow> string" where
  "app_token read_file fw = or_mounted read_file ''/secrets/kanboard_app_token'' (wf_kanboardToken fw)"

definition github_token :: "(string \<Rightarrow> go_error + string) \<Rightarrow> environ \<Rightarrow> string" where
  "github_token read_file env = or_mounted read_file ''/secrets/workflow_github_token'' (lookup_env env ''WORKFLOW_GITHUB_TOKEN'' [])"

definition flagged_watcher :: "watcher_flags \<Rightarrow> watcher" where
  "flagged_watcher fw = \<lparr>wr_namespace = wf_namespace fw, wr_projectName = wf_projectName fw, wr_triggerTag = wf_triggerTag fw,
     wr_pollInterval = wf_pollInterval fw, wr_pollTimeout = wf_pollTimeout fw,
     wr_defaults = \<lparr>rd_buildCmd = wf_buildCmd fw, rd_testCmd = wf_testCmd fw, rd_ciGateCmd = wf_ciGateCmd fw,
       rd_baseBranch = wf_baseBranch fw, rd_maxAgentVisits = wf_maxAgentVisits fw, rd_providerBaseURL = wf_providerBaseURL fw\<rparr>,
     wr_defaultRepoURL = wf_defaultRepoURL fw, wr_routesFile = wf_routesFile fw,
     wr_workflowsTagGroup = wf_workflowsTagGroup fw, wr_configsTagGroup = wf_configsTagGroup fw,
     wr_routingTags = parse_tag_list (wf_routingTags fw), wr_projectID = 0\<rparr>"

definition default_castle_agent_name :: string where "default_castle_agent_name = ''criteria-kanboard-adapter''"

definition dispatch_identity :: "watcher_flags \<Rightarrow> environ \<Rightarrow> string \<Rightarrow> agent_config" where
  "dispatch_identity fw env token = \<lparr>gc_addr = wf_castleAddr fw, gc_token = token,
     gc_criteriaID = lookup_env env ''CRITERIA_CASTLE_AGENT_CRITERIA_ID'' [],
     gc_name = lookup_env env ''CRITERIA_CASTLE_AGENT_NAME'' default_castle_agent_name, gc_labels = [], gc_project = [],
     gc_heartbeatEvery = 0\<rparr>"

text \<open>The adapter of castle dispatch, or none: the credential, and the identity of the submitter.\<close>

definition dispatch_adapter ::
  "watcher_flags \<Rightarrow> environ \<Rightarrow> (string \<Rightarrow> go_error + string) \<Rightarrow> (string \<Rightarrow> smap \<Rightarrow> go_error + agent_identity) \<Rightarrow>
   go_error + (agent_identity \<times> adapter_book) option" where
  "dispatch_adapter fw env read_file registering =
     (case resolve_dispatch_mode (wf_dispatchMode fw) of
        Inl e \<Rightarrow> Inl e
      | Inr mode \<Rightarrow>
          if mode \<noteq> dispatch_mode_castle then Inr None
          else case castle_agent_token read_file (wf_castleAgentToken fw) (wf_castleAgentTokenFile fw) of
                 Inl e \<Rightarrow> Inl e
               | Inr token \<Rightarrow> (case attach_identity registering (dispatch_identity fw env token) of
                   Inl e \<Rightarrow> Inl e
                 | Inr identity \<Rightarrow> Inr (Some (identity, new_adapter_book (wf_projectName fw)))))"

definition watcher_scheme :: "(string \<Rightarrow> go_error option) \<Rightarrow> go_error option" where
  "watcher_scheme add = first_error (map (\<lambda>(group, ctx). map_option (Wrapped ctx) (add group))
     [(''criteria'', ''registering CriteriaRun scheme''), (''client'', ''registering k8s client scheme (corev1 ConfigMap)'')])"

text \<open>What ends the start, or the watcher with its adapter; \<open>connect\<close> is the way to the cluster's client.\<close>

definition watcher_main ::
  "watcher_flags \<Rightarrow> environ \<Rightarrow> (string \<Rightarrow> go_error + string) \<Rightarrow> go_error option \<Rightarrow>
   (string \<Rightarrow> smap \<Rightarrow> go_error + agent_identity) \<Rightarrow> go_error + watcher \<times> (agent_identity \<times> adapter_book) option" where
  "watcher_main fw env read_file connect registering =
     (if wf_kanboardURL fw = [] then Inl (ErrMsg ''missing Kanboard endpoint'')
      else if app_token read_file fw = [] then Inl (ErrMsg ''missing Kanboard app token'')
      else case connect of
             Some e \<Rightarrow> Inl e
           | None \<Rightarrow> map_sum id (\<lambda>book. (flagged_watcher fw, book)) (dispatch_adapter fw env read_file registering))"

section \<open>Repositories\<close>

record repo_request =
  rr_url :: string
  rr_headers :: smap

text \<open>The validator over an HTTP client that answers with a status; \<open>valid_url\<close> says what makes a request.\<close>

definition default_repo_validator ::
  "(string \<Rightarrow> bool) \<Rightarrow> (repo_request \<Rightarrow> go_error + int) \<Rightarrow> string \<Rightarrow> string \<Rightarrow> string \<Rightarrow> bool" where
  "default_repo_validator valid_url http token apiURL repo =
     (let base = (if apiURL = [] then ''https://api.github.com'' else apiURL);
          url = (if base \<noteq> [] \<and> last base = CHR ''/'' then butlast base else base) @ ''/repos/'' @ repo
      in if \<not> valid_url url then False
         else case http \<lparr>rr_url = url, rr_headers = [(''Accept'', ''application/vnd.github+json''),
                (''X-GitHub-Api-Version'', ''2022-11-28'')] @
                (if token \<noteq> [] then [(''Authorization'', ''Bearer '' @ token)] else [])\<rparr> of
                Inl e \<Rightarrow> False
              | Inr status \<Rightarrow> status = 200)"

section \<open>The loop\<close>

text \<open>
  The surroundings of the loop: the project's id on the board, the listener of the probes, the clock, whether the
  deadline of a poll has passed, and the wait for the next tick or the end of the context.
\<close>

record 'w loop_api =
  lo_find_project :: "string \<Rightarrow> 'w \<Rightarrow> (go_error + int) \<times> 'w"
  lo_listen :: "string \<Rightarrow> 'w \<Rightarrow> (go_error + unit) \<times> 'w"
  lo_now :: "'w \<Rightarrow> gotime \<times> 'w"
  lo_expired :: "'w \<Rightarrow> bool \<times> 'w"
  lo_wait :: "'w \<Rightarrow> go_error option \<times> 'w"

datatype watch_end = WatchEnded go_error | WatchPanicked | StillWatching

definition watch_cycle ::
  "watcher \<Rightarrow> 'w watch_api \<Rightarrow> 'w loop_api \<Rightarrow> poll_watchdog \<Rightarrow> ('w, poll_watchdog) watch" where
  "watch_cycle wr api lo pw = do {
     err \<leftarrow> poll wr api;
     now \<leftarrow> watch_ask (lo_now lo);
     expired \<leftarrow> watch_ask (lo_expired lo);
     State_Monad.return (snd (poll_with_deadline wr expired now err pw))
   }"

text \<open>At most \<open>n\<close> ticks.\<close>

fun watch_loop ::
  "nat \<Rightarrow> watcher \<Rightarrow> 'w watch_api \<Rightarrow> 'w loop_api \<Rightarrow> poll_watchdog \<Rightarrow> ('w, watch_end \<times> poll_watchdog) watch" where
  "watch_loop 0 wr api lo pw = State_Monad.return (StillWatching, pw)"
| "watch_loop (Suc n) wr api lo pw = do {
     ended \<leftarrow> watch_ask (lo_wait lo);
     case ended of
       Some e \<Rightarrow> State_Monad.return (WatchEnded e, pw)
     | None \<Rightarrow> do { pw' \<leftarrow> watch_cycle wr api lo pw; watch_loop n wr api lo pw' }
   }"

definition serve_health :: "'w loop_api \<Rightarrow> string \<Rightarrow> ('w, go_error + unit) watch" where
  "serve_health lo healthAddr =
     (if healthAddr = [] then State_Monad.return (Inr ()) else watch_ask (lo_listen lo healthAddr))"

text \<open>A ticker panics when its interval is not positive.\<close>

definition run_watcher ::
  "nat \<Rightarrow> watcher \<Rightarrow> string \<Rightarrow> 'w watch_api \<Rightarrow> 'w loop_api \<Rightarrow> ('w, watch_end \<times> poll_watchdog) watch" where
  "run_watcher n wr0 healthAddr api lo =
     (let wr = (if wr_pollTimeout wr0 \<le> 0 then wr0\<lparr>wr_pollTimeout := default_poll_timeout\<rparr> else wr0);
          fresh = \<lparr>pw_lastFinish = zero_time, pw_lastSuccess = zero_time\<rparr>
      in do {
        found \<leftarrow> watch_ask (lo_find_project lo (wr_projectName wr));
        case found of
          Inl e \<Rightarrow> State_Monad.return (WatchEnded (Wrapped ''resolve kanboard project'' e), fresh)
        | Inr projectID \<Rightarrow> do {
            served \<leftarrow> serve_health lo healthAddr;
            case served of
              Inl e \<Rightarrow> State_Monad.return (WatchEnded (Wrapped ''start health server'' e), fresh)
            | Inr u \<Rightarrow>
                if wr_pollInterval wr \<le> 0 then State_Monad.return (WatchPanicked, fresh)
                else do {
                  pw \<leftarrow> watch_cycle (wr\<lparr>wr_projectID := projectID\<rparr>) api lo fresh;
                  watch_loop n (wr\<lparr>wr_projectID := projectID\<rparr>) api lo pw
                }
          }
      })"

text \<open>The answer of a probe: its status, and the body.\<close>

definition health_probe :: "bool \<times> string \<Rightarrow> int \<times> string" where
  "health_probe verdict = (if \<not> fst verdict then (503, snd verdict @ [CHR 0x0A]) else (200, ''ok'' @ [CHR 0x0A]))"

definition health_mux :: "bool \<times> string \<Rightarrow> bool \<times> string \<Rightarrow> string \<Rightarrow> (int \<times> string) option" where
  "health_mux ready live path =
     (if path = ''/readyz'' then Some (health_probe ready) else if path = ''/livez'' then Some (health_probe live) else None)"

section \<open>What the flags make sure of\<close>

lemma flags_poll: "0 < wf_pollInterval (watcher_env_flags parse env)" "0 < wf_pollTimeout (watcher_env_flags parse env)"
  by (simp_all add: watcher_env_flags_def flag_duration_def default_poll_interval_def default_poll_timeout_def second_def minute_def
      split: option.split)

lemma loop_keeps_running:
  "fst (run_state (watch_loop n wr api lo pw) s) = (r, pw') \<Longrightarrow> r \<noteq> WatchPanicked"
proof (induction n arbitrary: pw s)
  case (Suc n)
  obtain ended s1 where wait: "run_state (watch_ask (lo_wait lo)) s = (ended, s1)" by force
  show ?case
  proof (cases ended)
    case None
    obtain pw1 s2 where "run_state (watch_cycle wr api lo pw) s1 = (pw1, s2)" by force
    then show ?thesis using Suc.IH [of pw1 s2] Suc.prems wait None by simp
  qed (use Suc.prems wait in auto)
qed auto

text \<open>Started with the defaults of its environment the command does not panic; with an interval of zero it does.\<close>

lemma flagged_watcher_runs:
  "fst (fst (run_state (run_watcher n (flagged_watcher (watcher_env_flags parse env)) h api lo) s)) \<noteq> WatchPanicked"
proof -
  let ?w = "flagged_watcher (watcher_env_flags parse env)"
  have w: "\<not> wr_pollTimeout ?w \<le> 0" "\<not> wr_pollInterval ?w \<le> 0"
    using flags_poll [of parse env] by (simp_all add: flagged_watcher_def)
  obtain found s1 where f: "run_state (watch_ask (lo_find_project lo (wr_projectName ?w))) s = (found, s1)" by force
  obtain served s2 where h: "run_state (serve_health lo h) s1 = (served, s2)" by force
  show ?thesis
  proof (cases found)
    case (Inr i)
    obtain pw s3 where c: "run_state (watch_cycle (?w\<lparr>wr_projectID := i\<rparr>) api lo
        \<lparr>pw_lastFinish = zero_time, pw_lastSuccess = zero_time\<rparr>) s2 = (pw, s3)" by force
    obtain r where "fst (run_state (watch_loop n (?w\<lparr>wr_projectID := i\<rparr>) api lo pw) s3) = r" by blast
    then show ?thesis
      using loop_keeps_running [of n "?w\<lparr>wr_projectID := i\<rparr>" api lo pw s3 "fst r" "snd r"] f h c w Inr
      by (cases served) (simp_all add: run_watcher_def Let_def)
  qed (use f w in \<open>simp add: run_watcher_def Let_def\<close>)
qed

lemma zero_interval_panics:
  assumes "wr_pollInterval wr \<le> 0" and "\<And>n w. \<exists>i. fst (lo_find_project lo n w) = Inr i"
  shows "fst (fst (run_state (run_watcher n wr [] api lo) s)) = WatchPanicked"
proof -
  obtain i w where "lo_find_project lo (wr_projectName wr) (ws_world s) = (Inr i, w)"
    using assms(2) [of "wr_projectName wr" "ws_world s"] by (metis prod.collapse)
  then show ?thesis using assms(1)
    by (simp add: run_watcher_def Let_def watch_ask_def watch_call_def serve_health_def)
qed

text \<open>
  A token is required before the identity is attached, so the registration is never asked, although the comment of the
  start says that it mints a token when none was provisioned.
\<close>

lemma register_never_asked: "dispatch_adapter fw env read_file registering = dispatch_adapter fw env read_file registering'"
proof -
  have "attach_identity registering (dispatch_identity fw env token) = attach_identity registering' (dispatch_identity fw env token)"
    if "castle_agent_token read_file (wf_castleAgentToken fw) (wf_castleAgentTokenFile fw) = Inr token" for token
  proof -
    have "token \<noteq> []" using that by (auto simp: castle_agent_token_def read_secret_def split: if_splits sum.splits)
    then show ?thesis by (simp add: attach_identity_def dispatch_identity_def)
  qed
  then show ?thesis by (simp add: dispatch_adapter_def split: sum.split)
qed

text \<open>The address of castle is not asked for at the start, although the flag says that castle mode requires it.\<close>

lemma castle_mode_without_address_starts:
  "\<exists>identity book. dispatch_adapter ((watcher_env_flags (\<lambda>_. None) (\<lambda>_. None))\<lparr>wf_dispatchMode := ''castle'', wf_castleAgentToken := ''t''\<rparr>)
     (\<lambda>key. if key = ''CRITERIA_CASTLE_AGENT_CRITERIA_ID'' then Some ''c'' else None) read_file registering =
     Inr (Some (identity, book)) \<and> wf_castleAddr (watcher_env_flags (\<lambda>_. None) (\<lambda>_. None)) = []"
  by (simp add: dispatch_adapter_def resolve_dispatch_mode_def dispatch_mode_castle_def dispatch_mode_legacy_def castle_agent_token_def
      attach_identity_def dispatch_identity_def lookup_env_def watcher_env_flags_def)

end
