(* ===== verification/CommandParity.thy ===== *)
theory CommandParity
  imports WatcherCommand WatcherSafety LaneParity
begin

text \<open>
  The two commands side by side: the operator's assignment lane and the watcher, each wired from its own environment, stamp
  the same run for a card as long as their environments agree on the keys of the run's defaults, and the inputs on which
  the two readings of one environment part.
\<close>

section \<open>Reading numbers\<close>

lemma space_no_numeral:
  "list_all (\<lambda>r. r \<noteq> [] \<and> \<not> (CHR ''0'' \<le> hd r \<and> hd r \<le> CHR ''9'') \<and> hd r \<noteq> CHR ''-'' \<and> hd r \<noteq> CHR ''+'') space_runes"
  by code_simp

lemma no_space_ahead:
  assumes "v \<noteq> []" and "(CHR ''0'' \<le> hd v \<and> hd v \<le> CHR ''9'') \<or> hd v = CHR ''-'' \<or> hd v = CHR ''+''"
  shows "strip_runes (filter Q space_runes) v = v"
proof -
  have "\<not> prefix r v" if "r \<in> set space_runes" for r
    using space_no_numeral that assms by (cases v) (auto simp: list_all_iff prefix_def neq_Nil_conv)
  then have "find (\<lambda>r. r \<noteq> [] \<and> prefix r v) (filter Q space_runes) = None" by (auto simp: find_None_iff)
  then show ?thesis by (simp add: strip_runes.simps)
qed

text \<open>What \<open>Atoi\<close> reads, \<open>Sscanf\<close> reads alike.\<close>

lemma scan_int_parsed:
  assumes "parse_int64 v = Some n"
  shows "scan_int v = Some n"
proof -
  define signs where "signs = (if v \<noteq> [] \<and> (hd v = CHR ''-'' \<or> hd v = CHR ''+'') then 1 else 0 :: nat)"
  have drop: "(if v \<noteq> [] \<and> (hd v = CHR ''-'' \<or> hd v = CHR ''+'') then tl v else v) = drop signs v"
    by (simp add: signs_def drop_Suc)
  have "parse_digits (drop signs v) \<noteq> None"
    using assms unfolding parse_int64_def Let_def drop by (auto split: option.splits)
  then have ds: "drop signs v \<noteq> []" "list_all (\<lambda>c. CHR ''0'' \<le> c \<and> c \<le> CHR ''9'') (drop signs v)"
    by (auto simp: parse_digits_def split: if_splits)
  then have v: "v \<noteq> []" by auto
  have "(CHR ''0'' \<le> hd v \<and> hd v \<le> CHR ''9'') \<or> hd v = CHR ''-'' \<or> hd v = CHR ''+''"
    using ds v by (cases v) (auto simp: signs_def split: if_splits)
  then have strip: "strip_runes (filter (\<lambda>r. r \<noteq> [CHR 0x0A]) space_runes) v = v" by (rule no_space_ahead [OF v])
  have digits: "takeWhile (\<lambda>c. CHR ''0'' \<le> c \<and> c \<le> CHR ''9'') (drop signs v) = drop signs v"
    using ds(2) by (auto simp: takeWhile_eq_all_conv list_all_iff)
  show ?thesis using assms ds(1) by (simp add: scan_int_def Let_def strip digits flip: signs_def)
qed

section \<open>One environment\<close>

text \<open>The number of visits is left open, or a positive decimal.\<close>

definition sound_visits :: "environ \<Rightarrow> bool" where
  "sound_visits env \<longleftrightarrow> (case env ''MAX_AGENT_VISITS'' of None \<Rightarrow> True
     | Some v \<Rightarrow> v = [] \<or> (case parse_int64 v of None \<Rightarrow> False | Some n \<Rightarrow> n > 0))"

definition default_keys :: "string list" where
  "default_keys = [''BUILD_CMD'', ''TEST_CMD'', ''CI_GATE_CMD'', ''BASE_BRANCH'', ''MAX_AGENT_VISITS'', ''PROVIDER_BASE_URL'']"

lemma lookup_env_getenv: "lookup_env = getenv"
  by (simp add: fun_eq_iff lookup_env_def getenv_def)

lemma visits_agree:
  assumes "sound_visits env"
  shows "flag_int (getenv env ''MAX_AGENT_VISITS'' ''2'') 2 = get_int env ''MAX_AGENT_VISITS'' 2"
proof -
  have two: "scan_int ''2'' = Some 2" by (rule scan_int_parsed) code_simp
  show ?thesis
    using assms scan_int_parsed two
    by (auto simp: sound_visits_def flag_int_def get_int_def get_parsed_def getenv_def Let_def split: option.splits)
qed

lemma defaults_agree:
  assumes "\<forall>key \<in> set default_keys. wenv key = env key" and "sound_visits env"
  shows "wr_defaults (flagged_watcher (watcher_env_flags parse wenv)) = shadow_runner_defaults env"
proof -
  have key: "getenv wenv k fallback = getenv env k fallback" if "k \<in> set default_keys" for k fallback
    using assms(1) that by (simp add: getenv_def)
  have "flag_int (getenv wenv ''MAX_AGENT_VISITS'' ''2'') 2 = get_int env ''MAX_AGENT_VISITS'' 2"
    using visits_agree [OF assms(2)] key [of "''MAX_AGENT_VISITS''"] by (simp add: default_keys_def)
  then show ?thesis
    by (simp add: flagged_watcher_def watcher_env_flags_def shadow_runner_defaults_def lookup_env_getenv key default_keys_def)
qed

text \<open>A number of visits that is not positive is kept by the operator and replaced by the watcher.\<close>

lemma visits_read_differently:
  "rd_maxAgentVisits (shadow_runner_defaults [''MAX_AGENT_VISITS'' \<mapsto> ''0'']) = 0"
  "rd_maxAgentVisits (wr_defaults (flagged_watcher (watcher_env_flags (\<lambda>_. None) [''MAX_AGENT_VISITS'' \<mapsto> ''0'']))) = 2"
  "rd_maxAgentVisits (shadow_runner_defaults [''MAX_AGENT_VISITS'' \<mapsto> ''5 visits'']) = 2"
  "rd_maxAgentVisits (wr_defaults (flagged_watcher (watcher_env_flags (\<lambda>_. None) [''MAX_AGENT_VISITS'' \<mapsto> ''5 visits'']))) = 5"
  by code_simp+

section \<open>One run\<close>

lemma agent_builder_of:
  assumes "agent_lane pc fl = Some lane"
  obtains rp where "al_builder lane = Some \<lparr>rb_defaults = shadow_runner_defaults (pc_env pc), rb_namespace = fl_namespace fl,
    rb_routes = Some rp, rb_routesFile = resolve_agent_routes_path (fl_agentRoutesFile fl) (fl_shadowRoutesFile fl),
    rb_client = True, rb_pins = True\<rparr>"
    and "resolve_agent_routes_path (fl_agentRoutesFile fl) (fl_shadowRoutesFile fl) \<noteq> []"
  using assms
  by (auto simp: agent_lane_def Let_def new_shadow_run_builder_def load_shadow_routes_def split: if_splits sum.splits option.splits)


text \<open>One environment for both commands, and a card in its trigger column.\<close>

definition command_env :: environ where
  "command_env = [''NAMESPACE'' \<mapsto> ''jobs'', ''CRITERIA_NAMESPACE'' \<mapsto> ''jobs'', ''KANBOARD_PROJECT_NAME'' \<mapsto> ''P'',
     ''CASTLE_ADDR'' \<mapsto> ''http://castle'', ''CASTLE_TOKEN'' \<mapsto> ''t'', ''CRITERIA_ASSIGNMENT_AGENT'' \<mapsto> ''true'',
     ''CRITERIA_AGENT_ROUTES_FILE'' \<mapsto> ''f'', ''MAX_AGENT_VISITS'' \<mapsto> ''4'']"

definition command_reads :: surroundings where
  "command_reads = sample_reads\<lparr>su_pin_config := config_pin_resolver True (su_get_configmap sample_reads)\<rparr>"

definition command_process :: operator_process where
  "command_process = \<lparr>pc_env = command_env, pc_duration = (\<lambda>_. None), pc_su = command_reads\<rparr>"

definition command_flags :: operator_flags where
  "command_flags = operator_env_flags (\<lambda>_. None) command_env"

definition command_watcher :: watcher where
  "command_watcher = flagged_watcher (watcher_env_flags (\<lambda>_. None) command_env)"

definition command_selection :: selection where
  "command_selection = (case resolve sample_payload (task_selector command_watcher sample_payload lane_card) of
     Inl e \<Rightarrow> si_selection (sample_input zero_routes_workflow) | Inr sel \<Rightarrow> sel)"


end
