(* ===== verification/LaneThreads.thy ===== *)
theory LaneThreads
  imports LaneStream
begin

text \<open>
  The goroutines of the agent lane (\<open>Run\<close>, \<open>heartbeatLoop\<close> and \<open>rejectDisable\<close> of \<open>internal/control/agent.go\<close>) as
  a step relation: the loop over the Control stream, the heartbeats beside it, and the return of \<open>Run\<close>, which waits for
  the heartbeats.
\<close>

datatype control_loop = LoopServing | LoopRejected go_error | LoopCanceled go_error

record lane_threads =
  lt_loop :: control_loop
  lt_beating :: bool
  lt_canceled :: bool
  lt_beats :: nat
  lt_returned :: "go_error option"

definition lane_started :: lane_threads where
  "lane_started = \<lparr>lt_loop = LoopServing, lt_beating = True, lt_canceled = False, lt_beats = 0, lt_returned = None\<rparr>"

definition loop_error :: "control_loop \<Rightarrow> go_error option" where
  "loop_error l = (case l of LoopServing \<Rightarrow> None | LoopRejected e \<Rightarrow> Some e | LoopCanceled e \<Rightarrow> Some e)"

text \<open>
  A beat that fails ends the heartbeats only when the context has ended, and otherwise they wait for the next tick or
  for the end of the context.
\<close>

inductive lane_thread_step :: "lane_threads \<Rightarrow> lane_threads \<Rightarrow> bool" where
  cancel: "lane_thread_step s (s\<lparr>lt_canceled := True\<rparr>)"
| reject_disable: "lt_loop s = LoopServing \<Longrightarrow> is_lane_rejected e \<Longrightarrow> lane_thread_step s (s\<lparr>lt_loop := LoopRejected e\<rparr>)"
| leave_loop: "lt_loop s = LoopServing \<Longrightarrow> lt_canceled s \<Longrightarrow> lane_thread_step s (s\<lparr>lt_loop := LoopCanceled e\<rparr>)"
| beat: "lt_beating s \<Longrightarrow> lane_thread_step s (s\<lparr>lt_beats := Suc (lt_beats s)\<rparr>)"
| stop_beating: "lt_beating s \<Longrightarrow> lt_canceled s \<Longrightarrow> lane_thread_step s (s\<lparr>lt_beating := False\<rparr>)"
| run_returns: "loop_error (lt_loop s) = Some e \<Longrightarrow> \<not> lt_beating s \<Longrightarrow> lane_thread_step s (s\<lparr>lt_returned := Some e\<rparr>)"

inductive_cases lane_thread_stepE: "lane_thread_step s s'"

inductive lane_thread_reach :: "lane_threads \<Rightarrow> bool" where
  started: "lane_thread_reach lane_started"
| step: "lane_thread_reach s \<Longrightarrow> lane_thread_step s s' \<Longrightarrow> lane_thread_reach s'"

definition threads_ok :: "lane_threads \<Rightarrow> bool" where
  "threads_ok s \<longleftrightarrow> (lt_canceled s \<or> lt_beating s) \<and> (lt_returned s \<noteq> None \<longrightarrow> lt_canceled s)"

lemma threads_step: "lane_thread_step s s' \<Longrightarrow> threads_ok s \<Longrightarrow> threads_ok s'"
  by (induction rule: lane_thread_step.induct) (auto simp: threads_ok_def)

lemma threads_reach: "lane_thread_reach s \<Longrightarrow> threads_ok s"
proof (induction rule: lane_thread_reach.induct)
  case started
  show ?case by (simp add: threads_ok_def lane_started_def)
next
  case (step s s')
  show ?case by (rule threads_step [OF step.hyps(2) step.IH])
qed

text \<open>
  A rejected identity does not end the lane: \<open>Run\<close> returns only after the context has ended, and until then the
  heartbeats go on, so that castle keeps the agent online and may lease it work that no loop receives.
\<close>

lemma rejected_lane_keeps_beating:
  assumes "lane_thread_reach s" and "\<not> lt_canceled s"
  shows "lt_returned s = None \<and> lane_thread_step s (s\<lparr>lt_beats := Suc (lt_beats s)\<rparr>)"
  using threads_reach [OF assms(1)] assms(2) by (auto simp: threads_ok_def intro: lane_thread_step.beat)

end
