(* ===== verification/DeepCopy.thy ===== *)
theory DeepCopy
  imports RunTypes "HOL-Library.State_Monad"
begin

text \<open>
  The deep copies of the API types (\<open>criteria-k8s/api/v1/criteriarun_types.go\<close>), over a memory of cells: what a pointer
  points to and what a slice or a map holds is a cell, and a struct in memory is its scalar fields with the addresses of
  its references, where the nil reference is \<open>None\<close>. The scalar fields of a struct are the record of \<open>RunTypes\<close>, whose
  reference fields are not read. Where \<open>new\<close> allocates ahead of the copy into it, the model allocates behind it; the numbers
  of the addresses say nothing.
\<close>

section \<open>Structs in memory\<close>

type_synonym addr = nat
type_synonym mem_ref = "addr option"

record mem_volume =
  mv_scalars :: run_workflow_volume
  mv_env :: mem_ref

record mem_secret =
  mc_scalars :: run_workflow_secret
  mc_env :: mem_ref

record mem_interface =
  mi_scalars :: run_workflow_interface
  mi_adapters :: mem_ref
  mi_mounts :: mem_ref
  mi_secretEnv :: mem_ref
  mi_env :: mem_ref
  mi_configSlots :: mem_ref

record mem_workflow =
  mw_scalars :: run_workflow
  mw_volumes :: mem_ref
  mw_secrets :: mem_ref
  mw_env :: mem_ref
  mw_adapterImages :: mem_ref
  mw_interface :: mem_ref

record mem_spec =
  mp_scalars :: criteria_run_spec
  mp_workflow :: mem_ref
  mp_workflowSource :: mem_ref
  mp_configRef :: mem_ref
  mp_projectBindingRef :: mem_ref

record mem_manifest =
  mm_scalars :: run_launch_manifest
  mm_lanes :: mem_ref

record mem_queue =
  mq_scalars :: criteria_run_queue_status
  mq_pending :: mem_ref

record mem_status =
  mz_scalars :: criteria_run_status
  mz_lastStepProgress :: mem_ref
  mz_terminalAt :: mem_ref
  mz_queue :: mem_ref
  mz_configRender :: mem_ref
  mz_launchManifest :: mem_ref
  mz_conditions :: mem_ref

text \<open>\<open>metav1.ObjectMeta\<close>, whose copy is not in the repository.\<close>

record mem_meta =
  me_deletionTimestamp :: mem_ref
  me_finalizers :: mem_ref
  me_labels :: mem_ref
  me_annotations :: mem_ref

record mem_run =
  mr_scalars :: criteria_run
  mr_meta :: mem_meta
  mr_spec :: mem_spec
  mr_status :: mem_status

record 'l mem_run_list =
  ml_meta :: 'l
  ml_items :: mem_ref

datatype cell =
    CStrings (strings_in: "string list")
  | CMap (map_in: smap)
  | CVolumes (volumes_in: "mem_volume list")
  | CSecrets (secrets_in: "mem_secret list")
  | CMounts (mounts_in: "run_workflow_interface_mount list")
  | CSlots (slots_in: "run_workflow_interface_config_slot list")
  | CInterface (interface_in: mem_interface)
  | CWorkflow (workflow_in: mem_workflow)
  | CSource (source_in: run_workflow_source)
  | CConfigRef (config_ref_in: criteria_run_config_ref)
  | CBindingRef (binding_ref_in: criteria_run_project_binding_ref)
  | CRender (render_in: run_config_render)
  | CManifest (manifest_in: mem_manifest)
  | CTime (time_in: gotime)
  | CQueue (queue_in: mem_queue)
  | CConditions (conditions_in: "condition list")
  | CVolume (volume_in: mem_volume)
  | CSecret (secret_in: mem_secret)
  | CSpec (spec_in: mem_spec)
  | CStatus (status_in: mem_status)
  | CRun (run_in: mem_run)
  | CRuns (runs_in: "mem_run list")

type_synonym memory = "cell list"
type_synonym 'a copying = "(memory, 'a) state"

definition alloc :: "cell \<Rightarrow> addr copying" where
  "alloc c = State (\<lambda>m. (length m, m @ [c]))"

definition fetch :: "addr \<Rightarrow> cell copying" where
  "fetch a = State (\<lambda>m. (m ! a, m))"

section \<open>The copies\<close>

text \<open>A reference that is not nil is copied into a cell of its own; a slice element by element.\<close>

definition copy_ref :: "(cell \<Rightarrow> 'x) \<Rightarrow> ('x \<Rightarrow> cell) \<Rightarrow> ('x \<Rightarrow> 'x copying) \<Rightarrow> mem_ref \<Rightarrow> mem_ref copying" where
  "copy_ref peek wrap copy p =
     (case p of
        None \<Rightarrow> State_Monad.return None
      | Some a \<Rightarrow> do {
          c \<leftarrow> fetch a;
          x \<leftarrow> copy (peek c);
          a' \<leftarrow> alloc (wrap x);
          State_Monad.return (Some a')
        })"

fun copy_list :: "('x \<Rightarrow> 'x copying) \<Rightarrow> 'x list \<Rightarrow> 'x list copying" where
  "copy_list copy [] = State_Monad.return []"
| "copy_list copy (x # xs) = do { x' \<leftarrow> copy x; xs' \<leftarrow> copy_list copy xs; State_Monad.return (x' # xs') }"

abbreviation copy_strings :: "mem_ref \<Rightarrow> mem_ref copying" where
  "copy_strings \<equiv> copy_ref strings_in CStrings State_Monad.return"

abbreviation copy_map :: "mem_ref \<Rightarrow> mem_ref copying" where
  "copy_map \<equiv> copy_ref map_in CMap State_Monad.return"

definition copy_volume :: "mem_volume \<Rightarrow> mem_volume copying" where
  "copy_volume v = do { env \<leftarrow> copy_map (mv_env v); State_Monad.return (v\<lparr>mv_env := env\<rparr>) }"

definition copy_secret :: "mem_secret \<Rightarrow> mem_secret copying" where
  "copy_secret s = do { env \<leftarrow> copy_map (mc_env s); State_Monad.return (s\<lparr>mc_env := env\<rparr>) }"

definition copy_interface :: "mem_interface \<Rightarrow> mem_interface copying" where
  "copy_interface i = do {
     adapters \<leftarrow> copy_strings (mi_adapters i);
     mounts \<leftarrow> copy_ref mounts_in CMounts State_Monad.return (mi_mounts i);
     secretEnv \<leftarrow> copy_strings (mi_secretEnv i);
     env \<leftarrow> copy_strings (mi_env i);
     slots \<leftarrow> copy_ref slots_in CSlots State_Monad.return (mi_configSlots i);
     State_Monad.return (i\<lparr>mi_adapters := adapters, mi_mounts := mounts, mi_secretEnv := secretEnv, mi_env := env,
       mi_configSlots := slots\<rparr>)
   }"

definition copy_workflow :: "mem_workflow \<Rightarrow> mem_workflow copying" where
  "copy_workflow w = do {
     volumes \<leftarrow> copy_ref volumes_in CVolumes (copy_list copy_volume) (mw_volumes w);
     secrets \<leftarrow> copy_ref secrets_in CSecrets (copy_list copy_secret) (mw_secrets w);
     env \<leftarrow> copy_map (mw_env w);
     images \<leftarrow> copy_map (mw_adapterImages w);
     interface \<leftarrow> copy_ref interface_in CInterface copy_interface (mw_interface w);
     State_Monad.return (w\<lparr>mw_volumes := volumes, mw_secrets := secrets, mw_env := env, mw_adapterImages := images,
       mw_interface := interface\<rparr>)
   }"

definition copy_spec :: "mem_spec \<Rightarrow> mem_spec copying" where
  "copy_spec s = do {
     workflow \<leftarrow> copy_ref workflow_in CWorkflow copy_workflow (mp_workflow s);
     source \<leftarrow> copy_ref source_in CSource State_Monad.return (mp_workflowSource s);
     configRef \<leftarrow> copy_ref config_ref_in CConfigRef State_Monad.return (mp_configRef s);
     bindingRef \<leftarrow> copy_ref binding_ref_in CBindingRef State_Monad.return (mp_projectBindingRef s);
     State_Monad.return (s\<lparr>mp_workflow := workflow, mp_workflowSource := source, mp_configRef := configRef,
       mp_projectBindingRef := bindingRef\<rparr>)
   }"

definition copy_manifest :: "mem_manifest \<Rightarrow> mem_manifest copying" where
  "copy_manifest x = do { lanes \<leftarrow> copy_strings (mm_lanes x); State_Monad.return (x\<lparr>mm_lanes := lanes\<rparr>) }"

definition copy_queue :: "mem_queue \<Rightarrow> mem_queue copying" where
  "copy_queue q = do { pending \<leftarrow> copy_strings (mq_pending q); State_Monad.return (q\<lparr>mq_pending := pending\<rparr>) }"

definition copy_status :: "mem_status \<Rightarrow> mem_status copying" where
  "copy_status z = do {
     progress \<leftarrow> copy_ref time_in CTime State_Monad.return (mz_lastStepProgress z);
     terminalAt \<leftarrow> copy_ref time_in CTime State_Monad.return (mz_terminalAt z);
     queue \<leftarrow> copy_ref queue_in CQueue copy_queue (mz_queue z);
     configRender \<leftarrow> copy_ref render_in CRender State_Monad.return (mz_configRender z);
     manifest \<leftarrow> copy_ref manifest_in CManifest copy_manifest (mz_launchManifest z);
     conditions \<leftarrow> copy_ref conditions_in CConditions State_Monad.return (mz_conditions z);
     State_Monad.return (z\<lparr>mz_lastStepProgress := progress, mz_terminalAt := terminalAt, mz_queue := queue,
       mz_configRender := configRender, mz_launchManifest := manifest, mz_conditions := conditions\<rparr>)
   }"

definition copy_run :: "(mem_meta \<Rightarrow> mem_meta copying) \<Rightarrow> mem_run \<Rightarrow> mem_run copying" where
  "copy_run copy_meta r = do {
     meta \<leftarrow> copy_meta (mr_meta r);
     spec \<leftarrow> copy_spec (mr_spec r);
     status \<leftarrow> copy_status (mr_status r);
     State_Monad.return (r\<lparr>mr_meta := meta, mr_spec := spec, mr_status := status\<rparr>)
   }"

definition copy_run_list ::
  "('l \<Rightarrow> 'l copying) \<Rightarrow> (mem_meta \<Rightarrow> mem_meta copying) \<Rightarrow> 'l mem_run_list \<Rightarrow> 'l mem_run_list copying" where
  "copy_run_list copy_list_meta copy_meta l = do {
     meta \<leftarrow> copy_list_meta (ml_meta l);
     items \<leftarrow> copy_ref runs_in CRuns (copy_list (copy_run copy_meta)) (ml_items l);
     State_Monad.return (l\<lparr>ml_meta := meta, ml_items := items\<rparr>)
   }"

text \<open>The functions \<open>DeepCopy\<close>: a nil pointer stays nil, any other gets a fresh object.\<close>

definition deep_copy_workflow :: "mem_ref \<Rightarrow> mem_ref copying" where
  "deep_copy_workflow = copy_ref workflow_in CWorkflow copy_workflow"

definition deep_copy_interface :: "mem_ref \<Rightarrow> mem_ref copying" where
  "deep_copy_interface = copy_ref interface_in CInterface copy_interface"

definition deep_copy_volume :: "mem_ref \<Rightarrow> mem_ref copying" where
  "deep_copy_volume = copy_ref volume_in CVolume copy_volume"

definition deep_copy_secret :: "mem_ref \<Rightarrow> mem_ref copying" where
  "deep_copy_secret = copy_ref secret_in CSecret copy_secret"

definition deep_copy_manifest :: "mem_ref \<Rightarrow> mem_ref copying" where
  "deep_copy_manifest = copy_ref manifest_in CManifest copy_manifest"

definition deep_copy_queue :: "mem_ref \<Rightarrow> mem_ref copying" where
  "deep_copy_queue = copy_ref queue_in CQueue copy_queue"

definition deep_copy_source :: "mem_ref \<Rightarrow> mem_ref copying" where
  "deep_copy_source = copy_ref source_in CSource State_Monad.return"

definition deep_copy_binding_ref :: "mem_ref \<Rightarrow> mem_ref copying" where
  "deep_copy_binding_ref = copy_ref binding_ref_in CBindingRef State_Monad.return"

definition deep_copy_spec :: "mem_ref \<Rightarrow> mem_ref copying" where
  "deep_copy_spec = copy_ref spec_in CSpec copy_spec"

definition deep_copy_status :: "mem_ref \<Rightarrow> mem_ref copying" where
  "deep_copy_status = copy_ref status_in CStatus copy_status"

definition deep_copy_run :: "(mem_meta \<Rightarrow> mem_meta copying) \<Rightarrow> mem_ref \<Rightarrow> mem_ref copying" where
  "deep_copy_run copy_meta = copy_ref run_in CRun (copy_run copy_meta)"

section \<open>What a struct in memory stands for\<close>

definition view_ref :: "(cell \<Rightarrow> 'x) \<Rightarrow> 'v \<Rightarrow> (memory \<Rightarrow> 'x \<Rightarrow> 'v) \<Rightarrow> memory \<Rightarrow> mem_ref \<Rightarrow> 'v" where
  "view_ref peek nil view m p = (case p of None \<Rightarrow> nil | Some a \<Rightarrow> view m (peek (m ! a)))"

definition refs_ref :: "(cell \<Rightarrow> 'x) \<Rightarrow> (memory \<Rightarrow> 'x \<Rightarrow> addr set) \<Rightarrow> memory \<Rightarrow> mem_ref \<Rightarrow> addr set" where
  "refs_ref peek refs m p = (case p of None \<Rightarrow> {} | Some a \<Rightarrow> insert a (refs m (peek (m ! a))))"

abbreviation plain :: "memory \<Rightarrow> 'x \<Rightarrow> 'x" where "plain m x \<equiv> x"
abbreviation no_refs :: "memory \<Rightarrow> 'x \<Rightarrow> addr set" where "no_refs m x \<equiv> {}"
abbreviation some_of :: "(memory \<Rightarrow> 'x \<Rightarrow> 'v) \<Rightarrow> memory \<Rightarrow> 'x \<Rightarrow> 'v option" where "some_of view m x \<equiv> Some (view m x)"
abbreviation view_all :: "(memory \<Rightarrow> 'x \<Rightarrow> 'v) \<Rightarrow> memory \<Rightarrow> 'x list \<Rightarrow> 'v list" where "view_all view m xs \<equiv> map (view m) xs"
abbreviation refs_all :: "(memory \<Rightarrow> 'x \<Rightarrow> addr set) \<Rightarrow> memory \<Rightarrow> 'x list \<Rightarrow> addr set" where
  "refs_all refs m xs \<equiv> \<Union>x \<in> set xs. refs m x"

text \<open>
  A copy of one kind of struct: what the struct stands for and the addresses it reaches depend only on the cells at these
  addresses, and the copy stands for the same value, reaching only cells that were allocated for it.
\<close>

locale copier =
  fixes view :: "memory \<Rightarrow> 'x \<Rightarrow> 'v" and refs :: "memory \<Rightarrow> 'x \<Rightarrow> addr set" and copy :: "'x \<Rightarrow> 'x copying"
  assumes local: "(\<And>a. a \<in> refs m x \<Longrightarrow> m' ! a = m ! a) \<Longrightarrow> view m' x = view m x \<and> refs m' x = refs m x"
    and copies: "refs m x \<subseteq> {..<length m} \<Longrightarrow> run_state (copy x) m = (x', m') \<Longrightarrow>
      (\<exists>more. m' = m @ more) \<and> view m' x' = view m x \<and> refs m' x' \<subseteq> {length m..<length m'}"
begin

lemma kept: "refs m x \<subseteq> {..<length m} \<Longrightarrow> view (m @ ext) x = view m x \<and> refs (m @ ext) x = refs m x"
  by (rule local) (auto simp: nth_append)

lemma isolated:
  assumes "refs m x \<subseteq> {..<length m}" and "run_state (copy x) m = (x', m')"
  shows "view m' x' = view m x \<and> view m' x = view m x \<and> refs m' x' \<inter> refs m' x = {} \<and>
    (\<forall>m''. (\<forall>a. a \<notin> refs m' x' \<longrightarrow> m'' ! a = m' ! a) \<longrightarrow> view m'' x = view m x) \<and>
    (\<forall>m''. (\<forall>a. a \<notin> refs m' x \<longrightarrow> m'' ! a = m' ! a) \<longrightarrow> view m'' x' = view m x)"
proof -
  obtain more where m': "m' = m @ more" and same: "view m' x' = view m x" and fresh: "refs m' x' \<subseteq> {length m..<length m'}"
    using copies [OF assms] by blast
  have old: "view m' x = view m x" "refs m' x = refs m x" using kept [OF assms(1)] m' by auto
  have apart: "refs m' x' \<inter> refs m' x = {}" using fresh old(2) assms(1) by fastforce
  have "view m'' x = view m x" if w: "\<forall>a. a \<notin> refs m' x' \<longrightarrow> m'' ! a = m' ! a" for m''
  proof -
    have "m'' ! a = m' ! a" if "a \<in> refs m' x" for a using that w apart by blast
    then show ?thesis using local [of m' x m''] old(1) by simp
  qed
  moreover have "view m'' x' = view m x" if w: "\<forall>a. a \<notin> refs m' x \<longrightarrow> m'' ! a = m' ! a" for m''
  proof -
    have "m'' ! a = m' ! a" if "a \<in> refs m' x'" for a using that w apart by blast
    then show ?thesis using local [of m' x' m''] same by simp
  qed
  ultimately show ?thesis using same old apart by blast
qed

end

section \<open>Composing copies\<close>

lemma copier_plain: "copier plain no_refs State_Monad.return"
  by unfold_locales auto

lemma copier_ref:
  assumes "copier view refs copy" and peek: "\<And>x. peek (wrap x) = x"
  shows "copier (view_ref peek nil view) (refs_ref peek refs) (copy_ref peek wrap copy)"
proof -
  note x_local = copier.local [OF assms(1)] and x_copies = copier.copies [OF assms(1)] and x_kept = copier.kept [OF assms(1)]
  show ?thesis
  proof
    fix m m' p assume same: "\<And>a. a \<in> refs_ref peek refs m p \<Longrightarrow> m' ! a = m ! a"
    show "view_ref peek nil view m' p = view_ref peek nil view m p \<and> refs_ref peek refs m' p = refs_ref peek refs m p"
    proof (cases p)
      case (Some a)
      then have "m' ! a = m ! a" and "\<And>b. b \<in> refs m (peek (m ! a)) \<Longrightarrow> m' ! b = m ! b"
        using same by (auto simp: refs_ref_def)
      then show ?thesis using x_local [of m "peek (m ! a)" m'] Some by (simp add: view_ref_def refs_ref_def)
    qed (simp add: view_ref_def refs_ref_def)
  next
    fix m m' p p' assume p: "refs_ref peek refs m p \<subseteq> {..<length m}" "run_state (copy_ref peek wrap copy p) m = (p', m')"
    show "(\<exists>more. m' = m @ more) \<and> view_ref peek nil view m' p' = view_ref peek nil view m p \<and>
        refs_ref peek refs m' p' \<subseteq> {length m..<length m'}"
    proof (cases p)
      case (Some a)
      then have bound: "refs m (peek (m ! a)) \<subseteq> {..<length m}" using p(1) by (simp add: refs_ref_def)
      obtain y m1 where y: "run_state (copy (peek (m ! a))) m = (y, m1)" by force
      then have p': "p' = Some (length m1)" "m' = m1 @ [wrap y]"
        using p(2) Some by (auto simp: copy_ref_def fetch_def alloc_def)
      have c: "\<exists>ext. m1 = m @ ext" "view m1 y = view m (peek (m ! a))" "refs m1 y \<subseteq> {length m..<length m1}"
        using x_copies [OF bound y] by blast+
      have "view m' y = view m1 y \<and> refs m' y = refs m1 y"
        unfolding p'(2) by (rule x_kept) (use c(3) in auto)
      then show ?thesis using c p' Some by (fastforce simp: view_ref_def refs_ref_def peek)
    qed (use p(2) in \<open>auto simp: copy_ref_def view_ref_def refs_ref_def\<close>)
  qed
qed

lemma copier_pair:
  assumes "copier view refs copy" and "copier view' refs' copy'"
  shows "copier (\<lambda>m (x, y). (view m x, view' m y)) (\<lambda>m (x, y). refs m x \<union> refs' m y)
    (\<lambda>(x, y). do { x' \<leftarrow> copy x; y' \<leftarrow> copy' y; State_Monad.return (x', y') })"
proof -
  note x_local = copier.local [OF assms(1)] and x_copies = copier.copies [OF assms(1)] and x_kept = copier.kept [OF assms(1)]
  note y_local = copier.local [OF assms(2)] and y_copies = copier.copies [OF assms(2)] and y_kept = copier.kept [OF assms(2)]
  show ?thesis
  proof (unfold_locales, goal_cases)
    case (1 m p m')
    then show ?case using x_local [of m "fst p" m'] y_local [of m "snd p" m'] by (cases p) auto
  next
    case (2 m p p' m')
    obtain a b where p: "p = (a, b)" by force
    then have bounds: "refs m a \<subseteq> {..<length m}" "refs' m b \<subseteq> {..<length m}" using 2(1) by auto
    obtain a' m1 where a: "run_state (copy a) m = (a', m1)" by force
    obtain b' m2 where b: "run_state (copy' b) m1 = (b', m2)" by force
    have p': "p' = (a', b')" "m' = m2" using 2(2) p a b by auto
    obtain ext where m1: "m1 = m @ ext" "view m1 a' = view m a" "refs m1 a' \<subseteq> {length m..<length m1}"
      using x_copies [OF bounds(1) a] by blast
    have b1: "view' m1 b = view' m b" "refs' m1 b = refs' m b" using y_kept [OF bounds(2)] m1(1) by auto
    then have "refs' m1 b \<subseteq> {..<length m1}" using bounds(2) m1(1) by auto
    then obtain ext' where m2: "m2 = m1 @ ext'" "view' m2 b' = view' m1 b" "refs' m2 b' \<subseteq> {length m1..<length m2}"
      using y_copies [OF _ b] by blast
    have "refs m1 a' \<subseteq> {..<length m1}" using m1(3) by auto
    then have "view m2 a' = view m1 a'" "refs m2 a' = refs m1 a'" using x_kept m2(1) by auto
    then show ?case using p p' m1 m2 b1 by fastforce
  qed
qed

lemma copier_list:
  assumes "copier view refs copy"
  shows "copier (view_all view) (refs_all refs) (copy_list copy)"
proof -
  note x_local = copier.local [OF assms] and x_copies = copier.copies [OF assms] and x_kept = copier.kept [OF assms]
  have loc: "view_all view m' xs = view_all view m xs \<and> refs_all refs m' xs = refs_all refs m xs"
    if "\<And>a. a \<in> refs_all refs m xs \<Longrightarrow> m' ! a = m ! a" for m m' xs
  proof -
    have "view m' x = view m x \<and> refs m' x = refs m x" if "x \<in> set xs" for x
      using x_local [of m x m'] that \<open>\<And>a. a \<in> refs_all refs m xs \<Longrightarrow> m' ! a = m ! a\<close> by auto
    then show ?thesis by auto
  qed
  show ?thesis
  proof
    show "(\<exists>more. m' = m @ more) \<and> view_all view m' xs' = view_all view m xs \<and> refs_all refs m' xs' \<subseteq> {length m..<length m'}"
      if "refs_all refs m xs \<subseteq> {..<length m}" "run_state (copy_list copy xs) m = (xs', m')" for m xs xs' m'
      using that
    proof (induction xs arbitrary: m xs')
      case (Cons y ys)
      have bounds: "refs m y \<subseteq> {..<length m}" "refs_all refs m ys \<subseteq> {..<length m}" using Cons.prems(1) by auto
      obtain y' m1 where y: "run_state (copy y) m = (y', m1)" by force
      obtain ys' m2 where ys: "run_state (copy_list copy ys) m1 = (ys', m2)" by force
      have xs': "xs' = y' # ys'" "m' = m2" using Cons.prems(2) y ys by auto
      obtain ext where m1: "m1 = m @ ext" "view m1 y' = view m y" "refs m1 y' \<subseteq> {length m..<length m1}"
        using x_copies [OF bounds(1) y] by blast
      have "m1 ! a = m ! a" if "a \<in> refs_all refs m ys" for a using that bounds(2) m1(1) by (auto simp: nth_append)
      then have ys1: "view_all view m1 ys = view_all view m ys" "refs_all refs m1 ys = refs_all refs m ys"
        using loc [of m ys m1] by blast+
      then have "refs_all refs m1 ys \<subseteq> {..<length m1}" using bounds(2) m1(1) by auto
      then have m2: "(\<exists>ext. m2 = m1 @ ext) \<and> view_all view m2 ys' = view_all view m1 ys \<and> refs_all refs m2 ys' \<subseteq> {length m1..<length m2}"
        using Cons.IH [OF _ ys [folded xs'(2)]] xs'(2) by simp
      have "refs m1 y' \<subseteq> {..<length m1}" using m1(3) by auto
      then have "view m2 y' = view m1 y'" "refs m2 y' = refs m1 y'" using x_kept m2 by auto
      then show ?case using xs' m1 m2 ys1 by fastforce
    qed auto
  qed (rule loc)
qed

text \<open>A struct that holds what \<open>pick\<close> reads and \<open>put\<close> replaces.\<close>

lemma copier_struct:
  assumes "copier view refs copy" and "\<And>s t. pick (put s t) = t" and "\<And>s t v. build (put s t) v = build s v"
  shows "copier (\<lambda>m s. build s (view m (pick s))) (\<lambda>m s. refs m (pick s))
    (\<lambda>s. do { t \<leftarrow> copy (pick s); State_Monad.return (put s t) })"
proof -
  note x_local = copier.local [OF assms(1)] and x_copies = copier.copies [OF assms(1)] and x_kept = copier.kept [OF assms(1)]
  show ?thesis
  proof (unfold_locales, goal_cases)
    case (1 m s m')
    then show ?case using x_local [of m "pick s" m'] by simp
  next
    case (2 m s s' m')
    obtain t m1 where t: "run_state (copy (pick s)) m = (t, m1)" by force
    then have "s' = put s t" "m' = m1" using 2(2) by auto
    then show ?case using x_copies [OF 2(1) t] by (simp add: assms(2,3))
  qed
qed

lemma copier_some: "copier view refs copy \<Longrightarrow> copier (some_of view) refs copy"
  unfolding copier_def by (metis (no_types, lifting))

section \<open>The views of the API types\<close>

lemma copier_strings: "copier (view_ref strings_in [] plain) (refs_ref strings_in no_refs) (copy_ref strings_in CStrings State_Monad.return)"
  by (rule copier_ref [OF copier_plain]) simp

lemma copier_map: "copier (view_ref map_in [] plain) (refs_ref map_in no_refs) (copy_ref map_in CMap State_Monad.return)"
  by (rule copier_ref [OF copier_plain]) simp

lemma copier_mounts: "copier (view_ref mounts_in [] plain) (refs_ref mounts_in no_refs) (copy_ref mounts_in CMounts State_Monad.return)"
  by (rule copier_ref [OF copier_plain]) simp

lemma copier_slots: "copier (view_ref slots_in [] plain) (refs_ref slots_in no_refs) (copy_ref slots_in CSlots State_Monad.return)"
  by (rule copier_ref [OF copier_plain]) simp

lemma copier_conditions: "copier (view_ref conditions_in [] plain) (refs_ref conditions_in no_refs) (copy_ref conditions_in CConditions State_Monad.return)"
  by (rule copier_ref [OF copier_plain]) simp

lemma copier_time: "copier (view_ref time_in None (some_of plain)) (refs_ref time_in no_refs) (copy_ref time_in CTime State_Monad.return)"
  by (rule copier_ref [OF copier_some [OF copier_plain]]) simp

lemma copier_source: "copier (view_ref source_in None (some_of plain)) (refs_ref source_in no_refs) (copy_ref source_in CSource State_Monad.return)"
  by (rule copier_ref [OF copier_some [OF copier_plain]]) simp

lemma copier_config_ref: "copier (view_ref config_ref_in None (some_of plain)) (refs_ref config_ref_in no_refs) (copy_ref config_ref_in CConfigRef State_Monad.return)"
  by (rule copier_ref [OF copier_some [OF copier_plain]]) simp

lemma copier_binding_ref: "copier (view_ref binding_ref_in None (some_of plain)) (refs_ref binding_ref_in no_refs) (copy_ref binding_ref_in CBindingRef State_Monad.return)"
  by (rule copier_ref [OF copier_some [OF copier_plain]]) simp

lemma copier_render: "copier (view_ref render_in None (some_of plain)) (refs_ref render_in no_refs) (copy_ref render_in CRender State_Monad.return)"
  by (rule copier_ref [OF copier_some [OF copier_plain]]) simp

definition view_volume :: "memory \<Rightarrow> mem_volume \<Rightarrow> run_workflow_volume" where
  "view_volume m v = (mv_scalars v)\<lparr>vo_env := view_ref map_in [] plain m (mv_env v)\<rparr>"

definition refs_volume :: "memory \<Rightarrow> mem_volume \<Rightarrow> addr set" where
  "refs_volume m v = refs_ref map_in no_refs m (mv_env v)"

lemma copier_volume: "copier view_volume refs_volume copy_volume"
  using copier_struct [OF copier_map,
    where pick = "mv_env"
      and put = "\<lambda>v a. v\<lparr>mv_env := a\<rparr>"
      and build = "\<lambda>v a. (mv_scalars v)\<lparr>vo_env := a\<rparr>"]
  by (simp add: view_volume_def [abs_def] refs_volume_def [abs_def] copy_volume_def [abs_def] Un_assoc split_beta)

definition view_secret :: "memory \<Rightarrow> mem_secret \<Rightarrow> run_workflow_secret" where
  "view_secret m x = (mc_scalars x)\<lparr>se_env := view_ref map_in [] plain m (mc_env x)\<rparr>"

definition refs_secret :: "memory \<Rightarrow> mem_secret \<Rightarrow> addr set" where
  "refs_secret m x = refs_ref map_in no_refs m (mc_env x)"

lemma copier_secret: "copier view_secret refs_secret copy_secret"
  using copier_struct [OF copier_map,
    where pick = "mc_env"
      and put = "\<lambda>x a. x\<lparr>mc_env := a\<rparr>"
      and build = "\<lambda>x a. (mc_scalars x)\<lparr>se_env := a\<rparr>"]
  by (simp add: view_secret_def [abs_def] refs_secret_def [abs_def] copy_secret_def [abs_def] Un_assoc split_beta)

definition view_interface :: "memory \<Rightarrow> mem_interface \<Rightarrow> run_workflow_interface" where
  "view_interface m i = (mi_scalars i)\<lparr>if_adapters := view_ref strings_in [] plain m (mi_adapters i),
     if_mounts := view_ref mounts_in [] plain m (mi_mounts i),
     if_secretEnv := view_ref strings_in [] plain m (mi_secretEnv i),
     if_env := view_ref strings_in [] plain m (mi_env i),
     if_configSlots := view_ref slots_in [] plain m (mi_configSlots i)\<rparr>"

definition refs_interface :: "memory \<Rightarrow> mem_interface \<Rightarrow> addr set" where
  "refs_interface m i = refs_ref strings_in no_refs m (mi_adapters i) \<union>
     refs_ref mounts_in no_refs m (mi_mounts i) \<union>
     refs_ref strings_in no_refs m (mi_secretEnv i) \<union>
     refs_ref strings_in no_refs m (mi_env i) \<union>
     refs_ref slots_in no_refs m (mi_configSlots i)"

lemma copier_interface: "copier view_interface refs_interface copy_interface"
  using copier_struct [OF copier_pair [OF copier_strings copier_pair [OF copier_mounts copier_pair [OF copier_strings copier_pair [OF copier_strings copier_slots]]]],
    where pick = "\<lambda>i. (mi_adapters i, mi_mounts i, mi_secretEnv i, mi_env i, mi_configSlots i)"
      and put = "\<lambda>i (a, b, c, d, e). i\<lparr>mi_adapters := a, mi_mounts := b, mi_secretEnv := c, mi_env := d, mi_configSlots := e\<rparr>"
      and build = "\<lambda>i (a, b, c, d, e). (mi_scalars i)\<lparr>if_adapters := a, if_mounts := b, if_secretEnv := c, if_env := d, if_configSlots := e\<rparr>"]
  by (simp add: view_interface_def [abs_def] refs_interface_def [abs_def] copy_interface_def [abs_def] Un_assoc split_beta)

lemma copier_volumes: "copier (view_ref volumes_in [] (view_all view_volume)) (refs_ref volumes_in (refs_all refs_volume)) (copy_ref volumes_in CVolumes (copy_list copy_volume))"
  by (rule copier_ref [OF copier_list [OF copier_volume]]) simp

lemma copier_secrets: "copier (view_ref secrets_in [] (view_all view_secret)) (refs_ref secrets_in (refs_all refs_secret)) (copy_ref secrets_in CSecrets (copy_list copy_secret))"
  by (rule copier_ref [OF copier_list [OF copier_secret]]) simp

lemma copier_interface_ptr: "copier (view_ref interface_in None (some_of view_interface)) (refs_ref interface_in refs_interface) (copy_ref interface_in CInterface copy_interface)"
  by (rule copier_ref [OF copier_some [OF copier_interface]]) simp

definition view_workflow :: "memory \<Rightarrow> mem_workflow \<Rightarrow> run_workflow" where
  "view_workflow m w = (mw_scalars w)\<lparr>wf_volumes := view_ref volumes_in [] (view_all view_volume) m (mw_volumes w),
     wf_secrets := view_ref secrets_in [] (view_all view_secret) m (mw_secrets w),
     wf_env := view_ref map_in [] plain m (mw_env w),
     wf_adapterImages := view_ref map_in [] plain m (mw_adapterImages w),
     wf_interface := view_ref interface_in None (some_of view_interface) m (mw_interface w)\<rparr>"

definition refs_workflow :: "memory \<Rightarrow> mem_workflow \<Rightarrow> addr set" where
  "refs_workflow m w = refs_ref volumes_in (refs_all refs_volume) m (mw_volumes w) \<union>
     refs_ref secrets_in (refs_all refs_secret) m (mw_secrets w) \<union>
     refs_ref map_in no_refs m (mw_env w) \<union>
     refs_ref map_in no_refs m (mw_adapterImages w) \<union>
     refs_ref interface_in refs_interface m (mw_interface w)"

lemma copier_workflow: "copier view_workflow refs_workflow copy_workflow"
  using copier_struct [OF copier_pair [OF copier_volumes copier_pair [OF copier_secrets copier_pair [OF copier_map copier_pair [OF copier_map copier_interface_ptr]]]],
    where pick = "\<lambda>w. (mw_volumes w, mw_secrets w, mw_env w, mw_adapterImages w, mw_interface w)"
      and put = "\<lambda>w (a, b, c, d, e). w\<lparr>mw_volumes := a, mw_secrets := b, mw_env := c, mw_adapterImages := d, mw_interface := e\<rparr>"
      and build = "\<lambda>w (a, b, c, d, e). (mw_scalars w)\<lparr>wf_volumes := a, wf_secrets := b, wf_env := c, wf_adapterImages := d, wf_interface := e\<rparr>"]
  by (simp add: view_workflow_def [abs_def] refs_workflow_def [abs_def] copy_workflow_def [abs_def] Un_assoc split_beta)

lemma copier_workflow_ptr: "copier (view_ref workflow_in None (some_of view_workflow)) (refs_ref workflow_in refs_workflow) (copy_ref workflow_in CWorkflow copy_workflow)"
  by (rule copier_ref [OF copier_some [OF copier_workflow]]) simp

definition view_spec :: "memory \<Rightarrow> mem_spec \<Rightarrow> criteria_run_spec" where
  "view_spec m x = (mp_scalars x)\<lparr>sp_workflow := view_ref workflow_in None (some_of view_workflow) m (mp_workflow x),
     sp_workflowSource := view_ref source_in None (some_of plain) m (mp_workflowSource x),
     sp_configRef := view_ref config_ref_in None (some_of plain) m (mp_configRef x),
     sp_projectBindingRef := view_ref binding_ref_in None (some_of plain) m (mp_projectBindingRef x)\<rparr>"

definition refs_spec :: "memory \<Rightarrow> mem_spec \<Rightarrow> addr set" where
  "refs_spec m x = refs_ref workflow_in refs_workflow m (mp_workflow x) \<union>
     refs_ref source_in no_refs m (mp_workflowSource x) \<union>
     refs_ref config_ref_in no_refs m (mp_configRef x) \<union>
     refs_ref binding_ref_in no_refs m (mp_projectBindingRef x)"

lemma copier_spec: "copier view_spec refs_spec copy_spec"
  using copier_struct [OF copier_pair [OF copier_workflow_ptr copier_pair [OF copier_source copier_pair [OF copier_config_ref copier_binding_ref]]],
    where pick = "\<lambda>x. (mp_workflow x, mp_workflowSource x, mp_configRef x, mp_projectBindingRef x)"
      and put = "\<lambda>x (a, b, c, d). x\<lparr>mp_workflow := a, mp_workflowSource := b, mp_configRef := c, mp_projectBindingRef := d\<rparr>"
      and build = "\<lambda>x (a, b, c, d). (mp_scalars x)\<lparr>sp_workflow := a, sp_workflowSource := b, sp_configRef := c, sp_projectBindingRef := d\<rparr>"]
  by (simp add: view_spec_def [abs_def] refs_spec_def [abs_def] copy_spec_def [abs_def] Un_assoc split_beta)

definition view_manifest :: "memory \<Rightarrow> mem_manifest \<Rightarrow> run_launch_manifest" where
  "view_manifest m x = (mm_scalars x)\<lparr>lm_lanes := view_ref strings_in [] plain m (mm_lanes x)\<rparr>"

definition refs_manifest :: "memory \<Rightarrow> mem_manifest \<Rightarrow> addr set" where
  "refs_manifest m x = refs_ref strings_in no_refs m (mm_lanes x)"

lemma copier_manifest: "copier view_manifest refs_manifest copy_manifest"
  using copier_struct [OF copier_strings,
    where pick = "mm_lanes"
      and put = "\<lambda>x a. x\<lparr>mm_lanes := a\<rparr>"
      and build = "\<lambda>x a. (mm_scalars x)\<lparr>lm_lanes := a\<rparr>"]
  by (simp add: view_manifest_def [abs_def] refs_manifest_def [abs_def] copy_manifest_def [abs_def] Un_assoc split_beta)

definition view_queue :: "memory \<Rightarrow> mem_queue \<Rightarrow> criteria_run_queue_status" where
  "view_queue m q = (mq_scalars q)\<lparr>qs_pending := view_ref strings_in [] plain m (mq_pending q)\<rparr>"

definition refs_queue :: "memory \<Rightarrow> mem_queue \<Rightarrow> addr set" where
  "refs_queue m q = refs_ref strings_in no_refs m (mq_pending q)"

lemma copier_queue: "copier view_queue refs_queue copy_queue"
  using copier_struct [OF copier_strings,
    where pick = "mq_pending"
      and put = "\<lambda>q a. q\<lparr>mq_pending := a\<rparr>"
      and build = "\<lambda>q a. (mq_scalars q)\<lparr>qs_pending := a\<rparr>"]
  by (simp add: view_queue_def [abs_def] refs_queue_def [abs_def] copy_queue_def [abs_def] Un_assoc split_beta)

lemma copier_queue_ptr: "copier (view_ref queue_in None (some_of view_queue)) (refs_ref queue_in refs_queue) (copy_ref queue_in CQueue copy_queue)"
  by (rule copier_ref [OF copier_some [OF copier_queue]]) simp

lemma copier_manifest_ptr: "copier (view_ref manifest_in None (some_of view_manifest)) (refs_ref manifest_in refs_manifest) (copy_ref manifest_in CManifest copy_manifest)"
  by (rule copier_ref [OF copier_some [OF copier_manifest]]) simp

definition view_status :: "memory \<Rightarrow> mem_status \<Rightarrow> criteria_run_status" where
  "view_status m z = (mz_scalars z)\<lparr>st_lastStepProgress := view_ref time_in None (some_of plain) m (mz_lastStepProgress z),
     st_terminalAt := view_ref time_in None (some_of plain) m (mz_terminalAt z),
     st_queue := view_ref queue_in None (some_of view_queue) m (mz_queue z),
     st_configRender := view_ref render_in None (some_of plain) m (mz_configRender z),
     st_launchManifest := view_ref manifest_in None (some_of view_manifest) m (mz_launchManifest z),
     st_conditions := view_ref conditions_in [] plain m (mz_conditions z)\<rparr>"

definition refs_status :: "memory \<Rightarrow> mem_status \<Rightarrow> addr set" where
  "refs_status m z = refs_ref time_in no_refs m (mz_lastStepProgress z) \<union>
     refs_ref time_in no_refs m (mz_terminalAt z) \<union>
     refs_ref queue_in refs_queue m (mz_queue z) \<union>
     refs_ref render_in no_refs m (mz_configRender z) \<union>
     refs_ref manifest_in refs_manifest m (mz_launchManifest z) \<union>
     refs_ref conditions_in no_refs m (mz_conditions z)"

lemma copier_status: "copier view_status refs_status copy_status"
  using copier_struct [OF copier_pair [OF copier_time copier_pair [OF copier_time copier_pair [OF copier_queue_ptr copier_pair [OF copier_render copier_pair [OF copier_manifest_ptr copier_conditions]]]]],
    where pick = "\<lambda>z. (mz_lastStepProgress z, mz_terminalAt z, mz_queue z, mz_configRender z, mz_launchManifest z, mz_conditions z)"
      and put = "\<lambda>z (a, b, c, d, e, f). z\<lparr>mz_lastStepProgress := a, mz_terminalAt := b, mz_queue := c, mz_configRender := d, mz_launchManifest := e, mz_conditions := f\<rparr>"
      and build = "\<lambda>z (a, b, c, d, e, f). (mz_scalars z)\<lparr>st_lastStepProgress := a, st_terminalAt := b, st_queue := c, st_configRender := d, st_launchManifest := e, st_conditions := f\<rparr>"]
  by (simp add: view_status_def [abs_def] refs_status_def [abs_def] copy_status_def [abs_def] Un_assoc split_beta)

interpretation workflow_copy: copier view_workflow refs_workflow copy_workflow by (rule copier_workflow)
interpretation spec_copy: copier view_spec refs_spec copy_spec by (rule copier_spec)
interpretation status_copy: copier view_status refs_status copy_status by (rule copier_status)

section \<open>Runs\<close>

text \<open>The reference fields of the metadata: the time of the deletion, the finalizers, the labels and the annotations.\<close>

definition view_meta :: "memory \<Rightarrow> mem_meta \<Rightarrow> gotime option \<times> string list \<times> smap \<times> smap" where
  "view_meta m e = (view_ref time_in None (some_of plain) m (me_deletionTimestamp e),
     view_ref strings_in [] plain m (me_finalizers e), view_ref map_in [] plain m (me_labels e),
     view_ref map_in [] plain m (me_annotations e))"

definition refs_meta :: "memory \<Rightarrow> mem_meta \<Rightarrow> addr set" where
  "refs_meta m e = refs_ref time_in no_refs m (me_deletionTimestamp e) \<union> refs_ref strings_in no_refs m (me_finalizers e) \<union>
     refs_ref map_in no_refs m (me_labels e) \<union> refs_ref map_in no_refs m (me_annotations e)"

definition view_run :: "memory \<Rightarrow> mem_run \<Rightarrow> criteria_run" where
  "view_run m r = (case view_meta m (mr_meta r) of (deletion, finalizers, labels, annotations) \<Rightarrow>
     (mr_scalars r)\<lparr>ru_deletionTimestamp := deletion, ru_finalizers := finalizers, ru_labels := labels,
       ru_annotations := annotations, ru_spec := view_spec m (mr_spec r), ru_status := view_status m (mr_status r)\<rparr>)"

definition refs_run :: "memory \<Rightarrow> mem_run \<Rightarrow> addr set" where
  "refs_run m r = refs_meta m (mr_meta r) \<union> refs_spec m (mr_spec r) \<union> refs_status m (mr_status r)"

lemma copier_run:
  assumes "copier view_meta refs_meta copy_meta"
  shows "copier view_run refs_run (copy_run copy_meta)"
  using copier_struct [OF copier_pair [OF assms copier_pair [OF copier_spec copier_status]],
    where pick = "\<lambda>r. (mr_meta r, mr_spec r, mr_status r)"
      and put = "\<lambda>r (meta, spec, status). r\<lparr>mr_meta := meta, mr_spec := spec, mr_status := status\<rparr>"
      and build = "\<lambda>r ((deletion, finalizers, labels, annotations), spec, status). (mr_scalars r)\<lparr>ru_deletionTimestamp := deletion,
        ru_finalizers := finalizers, ru_labels := labels, ru_annotations := annotations, ru_spec := spec, ru_status := status\<rparr>"]
  by (simp add: view_run_def [abs_def] refs_run_def [abs_def] copy_run_def [abs_def] Un_assoc split_beta)

text \<open>A list of runs, over the copy of the list's own metadata.\<close>

lemma copier_run_list:
  assumes "copier view_meta refs_meta copy_meta" and "copier view refs copy_list_meta"
  shows "copier (\<lambda>m l. (view m (ml_meta l), view_ref runs_in [] (view_all view_run) m (ml_items l)))
    (\<lambda>m l. refs m (ml_meta l) \<union> refs_ref runs_in (refs_all refs_run) m (ml_items l)) (copy_run_list copy_list_meta copy_meta)"
proof -
  have items: "copier (view_ref runs_in [] (view_all view_run)) (refs_ref runs_in (refs_all refs_run))
      (copy_ref runs_in CRuns (copy_list (copy_run copy_meta)))"
    by (rule copier_ref [OF copier_list [OF copier_run [OF assms(1)]]]) simp
  show ?thesis
    using copier_struct [OF copier_pair [OF assms(2) items],
      where pick = "\<lambda>l. (ml_meta l, ml_items l)" and put = "\<lambda>l (meta, items). l\<lparr>ml_meta := meta, ml_items := items\<rparr>"
        and build = "\<lambda>l x. x"]
    by (simp add: copy_run_list_def [abs_def] split_beta)
qed

definition run_at :: "memory \<Rightarrow> mem_ref \<Rightarrow> criteria_run option" where
  "run_at = view_ref run_in None (some_of view_run)"

definition run_reach :: "memory \<Rightarrow> mem_ref \<Rightarrow> addr set" where
  "run_reach = refs_ref run_in refs_run"

lemma copier_run_ptr:
  assumes "copier view_meta refs_meta copy_meta"
  shows "copier run_at run_reach (deep_copy_run copy_meta)"
  unfolding run_at_def run_reach_def deep_copy_run_def by (rule copier_ref [OF copier_some [OF copier_run [OF assms]]]) simp

text \<open>
  C40. A deep copy is a copy, and it is deep. Where the library copies the metadata of an object, a copied CriteriaRun
  stands for the same run as the original, reaches no pointer, slice or map that the original reaches, and whatever is
  later written to what one of the two reaches, the other stands for the run of the time of the copy.
\<close>

theorem deep_copies_are_isolated:
  assumes "copier view_meta refs_meta copy_meta" and "run_reach m p \<subseteq> {..<length m}"
    and "run_state (deep_copy_run copy_meta p) m = (p', m')"
  shows "run_at m' p' = run_at m p \<and> run_at m' p = run_at m p \<and> run_reach m' p' \<inter> run_reach m' p = {} \<and>
    (\<forall>m''. (\<forall>a. a \<notin> run_reach m' p' \<longrightarrow> m'' ! a = m' ! a) \<longrightarrow> run_at m'' p = run_at m p) \<and>
    (\<forall>m''. (\<forall>a. a \<notin> run_reach m' p \<longrightarrow> m'' ! a = m' ! a) \<longrightarrow> run_at m'' p' = run_at m p)"
  by (rule copier.isolated [OF copier_run_ptr [OF assms(1)] assms(2,3)])

text \<open>A copy of the metadata, and a run with an annotation and a workflow with one target image.\<close>

definition sample_copy_meta :: "mem_meta \<Rightarrow> mem_meta copying" where
  "sample_copy_meta e = do {
     deletion \<leftarrow> copy_ref time_in CTime State_Monad.return (me_deletionTimestamp e);
     finalizers \<leftarrow> copy_strings (me_finalizers e);
     labels \<leftarrow> copy_map (me_labels e);
     annotations \<leftarrow> copy_map (me_annotations e);
     State_Monad.return (e\<lparr>me_deletionTimestamp := deletion, me_finalizers := finalizers, me_labels := labels,
       me_annotations := annotations\<rparr>)
   }"

lemma sample_meta_copier: "copier view_meta refs_meta sample_copy_meta"
  using copier_struct [OF copier_pair [OF copier_time copier_pair [OF copier_strings copier_pair [OF copier_map copier_map]]],
    where pick = "\<lambda>e. (me_deletionTimestamp e, me_finalizers e, me_labels e, me_annotations e)"
      and put = "\<lambda>e (a, b, c, d). e\<lparr>me_deletionTimestamp := a, me_finalizers := b, me_labels := c, me_annotations := d\<rparr>"
      and build = "\<lambda>e x. x"]
  by (simp add: view_meta_def [abs_def] refs_meta_def [abs_def] sample_copy_meta_def [abs_def] Un_assoc split_beta)

definition sample_memory :: memory where
  "sample_memory =
     [CMap [(''k'', ''v'')], CMap [(''shell'', ''img'')],
      CWorkflow \<lparr>mw_scalars = zero_workflow, mw_volumes = None, mw_secrets = None, mw_env = None, mw_adapterImages = Some 1,
        mw_interface = None\<rparr>,
      CRun \<lparr>mr_scalars = zero_run,
        mr_meta = \<lparr>me_deletionTimestamp = None, me_finalizers = None, me_labels = None, me_annotations = Some 0\<rparr>,
        mr_spec = \<lparr>mp_scalars = zero_spec, mp_workflow = Some 2, mp_workflowSource = None, mp_configRef = None,
          mp_projectBindingRef = None\<rparr>,
        mr_status = \<lparr>mz_scalars = zero_status, mz_lastStepProgress = None, mz_terminalAt = None, mz_queue = None,
          mz_configRender = None, mz_launchManifest = None, mz_conditions = None\<rparr>\<rparr>]"

theorem deep_copies_are_isolated_witness:
  "\<exists>p' m'. run_state (deep_copy_run sample_copy_meta (Some 3)) sample_memory = (p', m') \<and>
     run_at m' p' = run_at sample_memory (Some 3) \<and> run_at (m'[1 := CMap []]) p' = run_at sample_memory (Some 3)"
proof -
  obtain p' m' where copied: "run_state (deep_copy_run sample_copy_meta (Some 3)) sample_memory = (p', m')" by force
  have reach: "run_reach sample_memory (Some 3) = {0, 1, 2, 3}"
    by (auto simp: run_reach_def refs_ref_def refs_run_def refs_meta_def refs_spec_def refs_status_def refs_workflow_def sample_memory_def)
  then have bound: "run_reach sample_memory (Some 3) \<subseteq> {..<length sample_memory}" by (auto simp: sample_memory_def)
  note isolated = deep_copies_are_isolated [OF sample_meta_copier bound copied]
  obtain ext where "m' = sample_memory @ ext"
    using copier.copies [OF copier_run_ptr [OF sample_meta_copier] bound copied] by blast
  then have "run_reach m' (Some 3) = {0, 1, 2, 3}"
    using copier.kept [OF copier_run_ptr [OF sample_meta_copier] bound, of ext] reach by simp
  then have "\<forall>a. a \<notin> run_reach m' (Some 3) \<longrightarrow> m'[1 := CMap []] ! a = m' ! a" by (auto simp: nth_list_update_neq)
  with isolated copied show ?thesis by blast
qed

end
