(* ===== verification/RepoGate.thy ===== *)
theory RepoGate
  imports RouteTable Json
begin

text \<open>
  The gate on the Makefile (\<open>src/repogate/repogate.go\<close>): the targets a Makefile defines, by the regular expression of
  the code, and the contract targets it lacks.
\<close>

definition gate_contract_targets :: "string list" where
  "gate_contract_targets = [''build'', ''lint-go'', ''validate'', ''lint'', ''ci'', ''vuln-scan'']"

definition target_char :: "char \<Rightarrow> bool" where
  "target_char c \<longleftrightarrow> upper_char c \<or> lower_char c \<or> digit_char c \<or> c \<in> {CHR ''_'', CHR ''.'', CHR ''/'', CHR ''-''}"

definition re_space :: "char \<Rightarrow> bool" where
  "re_space c \<longleftrightarrow> c \<in> {CHR 0x09, CHR 0x0A, CHR 0x0C, CHR 0x0D, CHR '' ''}"

text \<open>
  The group of \<open>^([^\t#][A-Za-z0-9_./-]*)\s*:\<close> in a line: any rune but a tab or a hash, then the class, which shares no
  character with what may follow it, so its longest run is the one that matches.
\<close>

definition target_line :: "string \<Rightarrow> string option" where
  "target_line line =
     (if line = [] \<or> hd line \<in> {CHR 0x09, CHR ''#''} then None
      else let n = (case rune_len line of None \<Rightarrow> 1 | Some n \<Rightarrow> n);
               name = take n line @ takeWhile target_char (drop n line);
               rest = dropWhile re_space (dropWhile target_char (drop n line))
           in if rest \<noteq> [] \<and> hd rest = CHR '':'' then Some name else None)"

text \<open>\<open>strings.Fields\<close> of such a group: only its first rune may be a space.\<close>

definition group_fields :: "string \<Rightarrow> string list" where
  "group_fields g = (let t = strip_runes space_runes g in if t = [] then [] else [t])"

definition line_targets :: "string \<Rightarrow> string list" where
  "line_targets line =
     (case target_line line of None \<Rightarrow> [] | Some g \<Rightarrow> if has_prefix g ''.'' then [] else group_fields g)"

definition defined_make_targets :: "string \<Rightarrow> string list" where
  "defined_make_targets text = concat (map line_targets (split_on CHR 0x0A [] text))"

definition missing_gate_targets :: "string \<Rightarrow> string list" where
  "missing_gate_targets text = filter (\<lambda>t. t \<notin> set (defined_make_targets text)) gate_contract_targets"

text \<open>The gate passes exactly when every contract target heads a line of its own.\<close>

lemma gate_passes_iff:
  "missing_gate_targets text = [] \<longleftrightarrow>
     (\<forall>t \<in> set gate_contract_targets. \<exists>line \<in> set (split_on CHR 0x0A [] text). t \<in> set (line_targets line))"
  by (auto simp: missing_gate_targets_def defined_make_targets_def filter_empty_conv)

text \<open>A line that names several targets defines none of them for the gate, and an assignment with \<open>:=\<close> defines its variable.\<close>

lemma gate_reads:
  "defined_make_targets (''build:'' @ [CHR 0x0A, CHR 0x09] @ ''go build: x'') = [''build'']"
  "defined_make_targets ''build lint: x'' = []"
  "defined_make_targets ''.PHONY: ci'' = []"
  "defined_make_targets ''ci := none'' = [''ci'']"
  by code_simp+

end
