(* ===== verification/OutcomeParse.thy ===== *)
theory OutcomeParse
  imports RepoGate Lifecycle JobBuilder
begin

text \<open>
  The reference parser of an engine's \<open>events.ndjson\<close> (\<open>internal/events/events.go\<close>): the outcome of a run as the last
  terminal, the last state and a pull request number. Splitting a line into its raw members is an argument, whose order
  is the order in which the runtime happens to iterate the map; the values are decoded by the grammar of \<open>Json\<close>.
\<close>

record run_outcome =
  oc_prNumber :: string
  oc_ticketState :: string
  oc_terminal :: string

definition zero_outcome :: run_outcome where
  "zero_outcome = \<lparr>oc_prNumber = '''', oc_ticketState = '''', oc_terminal = ''''\<rparr>"

section \<open>Values\<close>

text \<open>\<open>json.Unmarshal\<close> into a string and into an int: null leaves the zero value without an error.\<close>

definition raw_string :: "string \<Rightarrow> string option" where
  "raw_string raw = (case parse_json raw of Some (JStr s) \<Rightarrow> Some s | Some JNull \<Rightarrow> Some '''' | _ \<Rightarrow> None)"

text \<open>\<open>strconv.Atoi\<close> reads what follows a pattern.\<close>

definition fits_int :: "string \<Rightarrow> bool" where "fits_int ds \<longleftrightarrow> parse_int64 ds \<noteq> None"

definition raw_int :: "string \<Rightarrow> int option" where
  "raw_int raw = (case parse_json raw of Some (JNum n) \<Rightarrow> parse_int64 n | Some JNull \<Rightarrow> Some 0 | _ \<Rightarrow> None)"

section \<open>The patterns\<close>

text \<open>A pattern at a position: the digits of its group. No choice of a repetition can help, so each takes all it can.\<close>

definition skip_space :: "string \<Rightarrow> string" where "skip_space = dropWhile re_space"

definition group_digits :: "string \<Rightarrow> string option" where
  "group_digits s = (let ds = takeWhile digit_char s in if ds = [] then None else Some ds)"

definition after :: "string \<Rightarrow> string \<Rightarrow> string option" where
  "after lit s = (if has_prefix s lit then Some (drop (length lit) s) else None)"

text \<open>A letter under \<open>(?i)\<close>; the small letter s has the long s as a third form.\<close>

definition after_letter :: "char \<Rightarrow> string \<Rightarrow> string option" where
  "after_letter c s =
     (case s of [] \<Rightarrow> None
      | d # rest \<Rightarrow>
          if d = c \<or> byte d = byte c - 32 then Some rest
          else if c = CHR ''s'' \<and> has_prefix s [chr 0xC5, chr 0xBF] then Some (drop 2 s) else None)"

fun after_letters :: "string \<Rightarrow> string \<Rightarrow> string option" where
  "after_letters [] s = Some s"
| "after_letters (c # cs) s = Option.bind (after_letter c s) (after_letters cs)"

definition pr_assignment :: "string \<Rightarrow> string option" where
  "pr_assignment s =
     Option.bind (after ''pr_number'' s) (\<lambda>r. Option.bind (after ''='' (skip_space r)) (\<lambda>r. group_digits (skip_space r)))"

definition pr_hash :: "string \<Rightarrow> string option" where
  "pr_hash s =
     Option.bind (after_letters ''pr'' s) (\<lambda>r. Option.bind (after ''#'' (skip_space r)) (\<lambda>r. group_digits (skip_space r)))"

definition pull_request :: "string \<Rightarrow> string option" where
  "pull_request s =
     Option.bind (after_letters ''pull'' s) (\<lambda>r.
       if skip_space r = r then None
       else Option.bind (after_letters ''request'' (skip_space r)) (\<lambda>r.
         let r = skip_space r; r = (case after ''#'' r of None \<Rightarrow> r | Some r \<Rightarrow> r)
         in group_digits (skip_space r)))"

definition after_segment :: "string \<Rightarrow> string option" where
  "after_segment s = (if s = [] \<or> hd s = CHR ''/'' then None else after ''/'' (dropWhile (\<lambda>c. c \<noteq> CHR ''/'') s))"

definition pull_url :: "string \<Rightarrow> string option" where
  "pull_url s =
     Option.bind (after ''github.com/'' s) (\<lambda>r. Option.bind (after_segment r) (\<lambda>r.
       Option.bind (after_segment r) (\<lambda>r. Option.bind (after ''pull/'' r) group_digits)))"

definition pr_patterns :: "(string \<Rightarrow> string option) list" where
  "pr_patterns = [pr_assignment, pr_hash, pull_request, pull_url]"

text \<open>\<open>FindStringSubmatch\<close>: the leftmost match.\<close>

fun find_match :: "(string \<Rightarrow> string option) \<Rightarrow> string \<Rightarrow> string option" where
  "find_match p [] = p []"
| "find_match p (c # s) = (case p (c # s) of Some ds \<Rightarrow> Some ds | None \<Rightarrow> find_match p s)"

definition scan_text :: "string \<Rightarrow> string option" where
  "scan_text s = List.find fits_int (List.map_filter (\<lambda>p. find_match p s) pr_patterns)"

definition extract_pr_number :: "string \<Rightarrow> string" where
  "extract_pr_number raw =
     (case Option.bind (raw_string raw) scan_text of Some ds \<Rightarrow> ds
      | None \<Rightarrow> (case scan_text raw of Some ds \<Rightarrow> ds | None \<Rightarrow> ''''))"

section \<open>Parsing\<close>

type_synonym members = "string \<Rightarrow> smap option"

text \<open>One of the structured keys: a string that is not empty, else an integer that is not zero.\<close>

definition structured_pr :: "smap \<Rightarrow> run_outcome \<Rightarrow> string \<Rightarrow> run_outcome" where
  "structured_pr ev out key =
     (case map_of ev key of None \<Rightarrow> out
      | Some raw \<Rightarrow>
          if raw_string raw \<noteq> None \<and> raw_string raw \<noteq> Some '''' then out\<lparr>oc_prNumber := the (raw_string raw)\<rparr>
          else (case raw_int raw of Some n \<Rightarrow> if n \<noteq> 0 then out\<lparr>oc_prNumber := show_int n\<rparr> else out | None \<Rightarrow> out))"

definition scan_member :: "run_outcome \<Rightarrow> string \<times> string \<Rightarrow> run_outcome" where
  "scan_member out member = out\<lparr>oc_prNumber := first_nonempty [oc_prNumber out, extract_pr_number (snd member)]\<rparr>"

definition parse_event :: "smap \<Rightarrow> run_outcome \<Rightarrow> run_outcome" where
  "parse_event ev out =
     (let out = (case Option.bind (map_of ev ''terminal'') raw_string of Some t \<Rightarrow> out\<lparr>oc_terminal := t\<rparr> | None \<Rightarrow> out);
          out = (case Option.bind (map_of ev ''state'') raw_string of Some t \<Rightarrow> out\<lparr>oc_ticketState := t\<rparr> | None \<Rightarrow> out);
          out = foldl (structured_pr ev) out [''pr_number'', ''prNumber'', ''pull_request_number'']
      in foldl scan_member out ev)"

definition parse_line :: "members \<Rightarrow> run_outcome \<Rightarrow> string \<Rightarrow> run_outcome" where
  "parse_line members out line =
     (if line = [] then out else case members line of None \<Rightarrow> out | Some ev \<Rightarrow> parse_event ev out)"

definition parse_outcome :: "members \<Rightarrow> string \<Rightarrow> go_error + run_outcome" where
  "parse_outcome members data =
     (let (ls, too_long) = scan_lines max_token_size data
      in if too_long then Inl (Wrapped ''scanning events'' (ErrMsg ''bufio.Scanner: token too long''))
         else Inr (foldl (parse_line members) zero_outcome ls))"

section \<open>What it finds\<close>

text \<open>A number read out of text is a number: digits, at least one, that fit an int.\<close>

lemma group_digits_are: "group_digits s = Some ds \<Longrightarrow> ds \<noteq> [] \<and> list_all digit_char ds"
  by (auto simp: group_digits_def Let_def list_all_iff dest: set_takeWhileD split: if_splits)

lemma pattern_digits: "p \<in> set pr_patterns \<Longrightarrow> p s = Some ds \<Longrightarrow> ds \<noteq> [] \<and> list_all digit_char ds"
  by (auto simp: pr_patterns_def pr_assignment_def pr_hash_def pull_request_def pull_url_def Let_def bind_eq_Some_conv
      dest!: group_digits_are split: if_splits)

lemma match_digits: "p \<in> set pr_patterns \<Longrightarrow> find_match p s = Some ds \<Longrightarrow> ds \<noteq> [] \<and> list_all digit_char ds"
  by (induction s) (auto dest: pattern_digits split: option.splits)

lemma found_in: "List.find P xs = Some x \<Longrightarrow> x \<in> set xs \<and> P x"
  by (induction xs) (auto split: if_splits)

lemma scan_text_digits:
  assumes "scan_text s = Some ds"
  shows "ds \<noteq> [] \<and> list_all digit_char ds \<and> fits_int ds"
proof -
  have "ds \<in> set (List.map_filter (\<lambda>p. find_match p s) pr_patterns)" "fits_int ds"
    using assms unfolding scan_text_def by (blast dest: found_in)+
  moreover then obtain p where "p \<in> set pr_patterns" "find_match p s = Some ds"
    by (auto simp: map_filter_def)
  ultimately show ?thesis by (auto dest: match_digits)
qed

lemma extracted_number: "extract_pr_number raw = '''' \<or> (list_all digit_char (extract_pr_number raw) \<and> fits_int (extract_pr_number raw))"
  by (auto simp: extract_pr_number_def bind_eq_Some_conv dest: scan_text_digits split: option.splits)

text \<open>Text never displaces a number that is already known: only the structured keys do.\<close>

lemma text_keeps_number: "oc_prNumber out \<noteq> [] \<Longrightarrow> foldl scan_member out ev = out"
  by (induction ev) (auto simp: scan_member_def)

text \<open>A line that is no object is skipped, and the only failure is a line beyond the buffer.\<close>

lemma unreadable_line_skipped: "members line = None \<Longrightarrow> parse_line members out line = out"
  by (simp add: parse_line_def)

lemma fails_only_on_long_lines: "(\<exists>e. parse_outcome members data = Inl e) \<longleftrightarrow> snd (scan_lines max_token_size data)"
  by (auto simp: parse_outcome_def split: prod.splits)

text \<open>Two members of one event that name different pull requests: the number depends on the order of the map.\<close>

definition quoted :: "string \<Rightarrow> string" where "quoted s = [quote_char] @ s @ [quote_char]"

lemma number_depends_on_map_order:
  "oc_prNumber (parse_event [(''a'', quoted ''PR #7''), (''b'', quoted ''supersedes PR #5'')] zero_outcome) = ''7''"
  "oc_prNumber (parse_event [(''b'', quoted ''supersedes PR #5''), (''a'', quoted ''PR #7'')] zero_outcome) = ''5''"
  by code_simp+

lemma numbers_read:
  "oc_prNumber (parse_event [(''pr_number'', ''42'')] zero_outcome) = ''42''"
  "extract_pr_number (quoted ''opened https://github.com/o/r/pull/17'') = ''17''"
  "extract_pr_number (quoted ''Pull  Request 9 and pr # 3'') = ''3''"
  "extract_pr_number (quoted ''pr_number = 99999999999999999999, pr #1'') = ''1''"
  by code_simp+

end
