(* ===== verification/RunnerScripts.thy ===== *)
theory RunnerScripts
  imports PeerPod
begin

text \<open>
  The two shell programs of the job builder: the entrypoint of a source-mode runner (\<open>sourceRunnerScript\<close> of
  \<open>internal/jobbuilder/source.go\<close>) and the staging of an adapter's binary (\<open>stageScriptWithPaths\<close>,
  \<open>peerStageImageFallbackScript\<close> of \<open>per_scope_peer.go\<close>), as functions of what their commands answer. The exit of a
  command under \<open>set -e\<close> is written out at every command: what stands left of \<open>&&\<close> or in a condition does not end the shell.
\<close>

section \<open>The environment\<close>

type_synonym shell_env = "string \<Rightarrow> string option"

text \<open>The expansions with a default: \<open>:-\<close> replaces the unset and the empty value, \<open>-\<close> the unset one.\<close>

definition var_or :: "shell_env \<Rightarrow> string \<Rightarrow> string \<Rightarrow> string" where
  "var_or env key d = (case env key of Some v \<Rightarrow> if v = [] then d else v | None \<Rightarrow> d)"

abbreviation var :: "shell_env \<Rightarrow> string \<Rightarrow> string" where "var env key \<equiv> var_or env key []"

definition blank :: "string \<Rightarrow> bool" where
  "blank s \<longleftrightarrow> list_all (\<lambda>c. c \<in> {CHR '' '', CHR 0x09, CHR 0x0A, CHR 0x0B, CHR 0x0C, CHR 0x0D}) s"

section \<open>The runner\<close>

text \<open>
  What the commands of the runner answer: whether a file can be executed, whether a directory was made and can be
  written, whether the origin was recorded, the exit statuses of publishing the address and of making the list of secret
  variables (0 when it was done; a list that was made can be written), and the exit status of the engine for its arguments and what it sees of
  \<open>CRITERIA_HOME\<close>.
\<close>

record runner_shell =
  sh_executable :: "string \<Rightarrow> bool"
  sh_writable :: "string \<Rightarrow> bool"
  sh_records :: "string \<Rightarrow> bool"
  sh_publish :: "string \<Rightarrow> nat"
  sh_makes :: "string \<Rightarrow> nat"
  sh_engine :: "string \<Rightarrow> string list \<Rightarrow> string option \<Rightarrow> nat"

datatype runner_effect =
    OriginRecorded string string
  | OriginWarning string
  | HostPublished string string
  | ScreamingPair string
  | EngineRun string "string list" "string option" bool
  | HostRemoved string

definition criteria_bin :: "shell_env \<Rightarrow> string" where
  "criteria_bin env = var_or env ''CRITERIA_BIN'' ''/usr/local/bin/criteria''"

definition runner_home :: "shell_env \<Rightarrow> string" where
  "runner_home env = var_or env ''CRITERIA_HOME'' (var_or env ''HOME'' ''/tmp'' @ ''/.local/criteria'')"

definition record_origin :: "runner_shell \<Rightarrow> shell_env \<Rightarrow> runner_effect list" where
  "record_origin sh env =
     (if var env ''JOB_NAME'' = [] \<or> var env ''WORKFLOW_ORIGIN_METADATA'' = [] then []
      else let dir = runner_home env @ ''/runs/'' @ var env ''JOB_NAME''
           in if sh_records sh dir then [OriginRecorded (dir @ ''/run-metadata.json'') (var env ''WORKFLOW_ORIGIN_METADATA'')]
              else [OriginWarning dir])"

text \<open>The directory in which the address is published, when there is one to publish.\<close>

definition run_dir :: "shell_env \<Rightarrow> string option" where
  "run_dir env =
     (if var env ''JOB_NAME'' = [] \<or> var env ''POD_IP'' = [] then None
      else Some (var_or env ''CRITERIA_RUN_DIR_ROOT'' ''/data/.criteria/runs'' @ ''/'' @ var env ''JOB_NAME''))"

definition workflow_vars :: "shell_env \<Rightarrow> string list" where
  "workflow_vars env = concat (map (\<lambda>(name, v). [''--var'', name @ ''='' @ v])
     [(''ticket_id'', var env ''TICKET_ID''),
      (''repo_dir'', var_or env ''REPO_DIR'' (''/data/intake/'' @ var env ''TICKET_ID'' @ ''/repo'')),
      (''intake_root'', var_or env ''INTAKE_ROOT'' ''/data/intake''),
      (''triage_root'', var_or env ''TRIAGE_ROOT'' ''/data/triage''),
      (''base_branch'', var_or env ''BASE_BRANCH'' ''main''),
      (''build_cmd'', var env ''BUILD_CMD''), (''test_cmd'', var env ''TEST_CMD''),
      (''ci_gate_cmd'', var env ''CI_GATE_CMD''), (''provider_base_url'', var env ''PROVIDER_BASE_URL'')])"

definition ref_args :: "shell_env \<Rightarrow> string list" where
  "ref_args env = (if blank (var env ''WORKFLOW_REF'') then [] else [''--workflow-ref'', var env ''WORKFLOW_REF''])"

definition server_args :: "shell_env \<Rightarrow> string list" where
  "server_args env =
     (if var env ''CASTLE_ADDR'' = [] then []
      else [''--server'', var env ''CASTLE_ADDR'']
        @ (if var env ''CRITERIA_RUN_NAME'' \<noteq> [] then [''--name'', var env ''CRITERIA_RUN_NAME''] else [])
        @ (if var env ''CRITERIA_PROXY_ENROLLMENT_TOKEN'' \<noteq> []
           then [''--server-bootstrap-token'', var env ''CRITERIA_PROXY_ENROLLMENT_TOKEN''] else []))"

definition events_args :: "shell_env \<Rightarrow> string list" where
  "events_args env = (if var env ''EVENTS_FILE'' = [] then [] else [''--events-file'', var env ''EVENTS_FILE''])"

text \<open>The loop over the pairs: the lines it wrote and warned of, and whether a line ended it.\<close>

definition file_pair :: "string \<Rightarrow> bool" where "file_pair pair \<longleftrightarrow> index_of_sub ''=file:/'' pair \<noteq> None"

definition pair_name :: "string \<Rightarrow> string" where "pair_name pair = takeWhile (\<lambda>c. c \<noteq> CHR ''='') pair"

definition screaming :: "string \<Rightarrow> bool" where
  "screaming pair \<longleftrightarrow> list_ex (\<lambda>c. CHR ''A'' \<le> c \<and> c \<le> CHR ''Z'') (pair_name pair)"

fun read_pairs :: "string list \<Rightarrow> string list \<times> runner_effect list \<times> bool" where
  "read_pairs [] = ([], [], True)"
| "read_pairs (pair # pairs) =
     (if pair = [] then read_pairs pairs
      else if \<not> file_pair pair then ([], [], False)
      else let (written, warned, done) = read_pairs pairs
           in (pair # written, (if screaming pair then [ScreamingPair (pair_name pair)] else []) @ warned, done))"

definition secret_pairs :: "shell_env \<Rightarrow> string list \<times> runner_effect list \<times> bool" where
  "secret_pairs env = read_pairs (split_on CHR 0x0A [] (var env ''CRITERIA_SECRET_VARS''))"

definition engine_argv :: "shell_env \<Rightarrow> string list \<Rightarrow> string list" where
  "engine_argv env pairs =
     [''apply'', var env ''WORKFLOW_URL''] @ workflow_vars env @ ref_args env @ server_args env @ events_args env
       @ concat (map (\<lambda>pair. [''--var'', pair]) pairs) @ [''--output'', ''concise'']"

text \<open>The exit of the runner: a parked run is an exit of 0.\<close>

definition runner_status :: "nat \<Rightarrow> nat" where "runner_status engine = (if engine = 6 then 0 else engine)"

definition launch :: "runner_shell \<Rightarrow> shell_env \<Rightarrow> runner_effect list \<times> nat" where
  "launch sh env =
     (if sh_makes sh (runner_home env @ ''/secret-vars.args'') \<noteq> 0 then ([], sh_makes sh (runner_home env @ ''/secret-vars.args''))
      else let (pairs, warned, done) = secret_pairs env
           in if \<not> done then (warned, 66)
              else let argv = engine_argv env pairs; home = env ''CRITERIA_HOME''
                   in (warned @ [EngineRun (criteria_bin env) argv home (var env ''CASTLE_ADDR'' \<noteq> [])],
                       runner_status (sh_engine sh (criteria_bin env) argv home)))"

definition source_runner :: "runner_shell \<Rightarrow> shell_env \<Rightarrow> runner_effect list \<times> nat" where
  "source_runner sh env =
     (if \<not> sh_executable sh (criteria_bin env) then ([], 69)
      else if blank (var env ''WORKFLOW_URL'') then ([], 64)
      else if \<not> sh_writable sh (runner_home env) then ([], 70)
      else let origin = record_origin sh env
           in case run_dir env of
                None \<Rightarrow> (let (effects, status) = launch sh env in (origin @ effects, status))
              | Some dir \<Rightarrow>
                  if sh_publish sh dir \<noteq> 0 then (origin, sh_publish sh dir)
                  else let (effects, status) = launch sh env
                       in (origin @ [HostPublished dir (var env ''POD_IP'' @ '':7778'')] @ effects @ [HostRemoved dir], status))"

section \<open>What the runner keeps\<close>

lemma pair_warnings: "e \<in> set (fst (snd (read_pairs pairs))) \<Longrightarrow> \<exists>n. e = ScreamingPair n"
  by (induction pairs) (auto split: if_splits prod.splits)

lemma origin_effects: "e \<in> set (record_origin sh env) \<Longrightarrow> (\<exists>p c. e = OriginRecorded p c) \<or> (\<exists>d. e = OriginWarning d)"
  by (auto simp: record_origin_def Let_def split: if_splits)

lemma secret_warnings: "e \<in> set (fst (snd (secret_pairs env))) \<Longrightarrow> \<exists>n. e = ScreamingPair n"
  unfolding secret_pairs_def by (rule pair_warnings)

lemma launch_runs:
  "EngineRun b argv home tls \<in> set (fst (launch sh env)) \<Longrightarrow>
     b = criteria_bin env \<and> argv = engine_argv env (fst (secret_pairs env)) \<and> home = env ''CRITERIA_HOME'' \<and>
     snd (snd (secret_pairs env)) \<and> snd (launch sh env) = runner_status (sh_engine sh b argv home)"
  by (auto simp: launch_def Let_def dest: secret_warnings [unfolded fst_def snd_def] split: if_splits prod.splits)
    (metis (no_types, lifting) fst_conv runner_effect.distinct snd_conv secret_warnings)+

lemma launch_publishes_nothing: "HostPublished d a \<notin> set (fst (launch sh env))" "HostRemoved d \<notin> set (fst (launch sh env))"
  by (auto simp: launch_def Let_def split: if_splits prod.splits)
    (metis (no_types, lifting) fst_conv runner_effect.distinct snd_conv secret_warnings)+

text \<open>
  The engine runs only for a declared source, from an executable and over a home that was verified; its exit status is
  the exit of the container, except that a parked run is not failed.
\<close>

lemma engine_runs_verified:
  assumes "EngineRun b argv home tls \<in> set (fst (source_runner sh env))"
  shows "b = criteria_bin env \<and> sh_executable sh b \<and> \<not> blank (var env ''WORKFLOW_URL'') \<and> sh_writable sh (runner_home env) \<and>
    argv = engine_argv env (fst (secret_pairs env)) \<and> home = env ''CRITERIA_HOME'' \<and>
    snd (source_runner sh env) = (if sh_engine sh b argv home = 6 then 0 else sh_engine sh b argv home)"
proof -
  have "EngineRun b argv home tls \<in> set (fst (launch sh env)) \<and> snd (source_runner sh env) = snd (launch sh env)"
    using assms by (auto simp: source_runner_def Let_def dest: origin_effects split: if_splits prod.splits option.splits)
  moreover have "sh_executable sh (criteria_bin env) \<and> \<not> blank (var env ''WORKFLOW_URL'') \<and> sh_writable sh (runner_home env)"
    using assms by (auto simp: source_runner_def split: if_splits)
  ultimately show ?thesis using launch_runs [of b argv home tls sh env] by (auto simp: runner_status_def)
qed

text \<open>An address that was published is removed last, however the runner ends.\<close>

lemma published_address_removed:
  assumes "HostPublished dir a \<in> set (fst (source_runner sh env))"
  shows "last (fst (source_runner sh env)) = HostRemoved dir"
proof -
  have "HostPublished d a \<notin> set effects" if "launch sh env = (effects, status)" for d a effects status
    using launch_publishes_nothing(1) [of d a sh env] that by simp
  then show ?thesis
    using assms by (fastforce simp: source_runner_def Let_def dest: origin_effects split: if_splits prod.splits option.splits)
qed

text \<open>
  The comment says the verified home is exported; the script exports \<open>CRITERIA_HOME\<close>, which it never sets, so an engine
  of a container that does not declare it is not told of the home that was verified.
\<close>

lemma verified_home_is_not_exported:
  "env ''CRITERIA_HOME'' = None \<Longrightarrow> EngineRun b argv home tls \<in> set (fst (source_runner sh env)) \<Longrightarrow>
     home = None \<and> sh_writable sh (var_or env ''HOME'' ''/tmp'' @ ''/.local/criteria'')"
  by (auto dest!: engine_runs_verified simp: runner_home_def var_or_def)

text \<open>The guard looks for the reference anywhere in a pair, so a literal value that ends in one passes.\<close>

lemma guard_accepts_a_literal: "read_pairs [''token=s3cret=file:/x''] = ([''token=s3cret=file:/x''], [], True)"
  by code_simp

section \<open>Secrets\<close>

lemma split_on_chars: "s \<in> set (split_on sep acc p) \<Longrightarrow> set s \<subseteq> set acc \<union> set p"
  by (induction sep acc p rule: split_on.induct) (auto split: if_splits)

lemma clean_segments_from: "set (clean_segments rooted acc ss) \<subseteq> set acc \<union> set ss"
  by (induction rooted acc ss rule: clean_segments.induct) (auto split: if_splits list.splits)

lemma join_chars: "c \<in> set (join sep xs) \<Longrightarrow> c \<in> set sep \<or> (\<exists>x \<in> set xs. c \<in> set x)"
  by (induction sep xs rule: join.induct) auto

lemma path_clean_chars: "set (path_clean p) \<subseteq> insert CHR ''/'' (insert CHR ''.'' (set p))"
  by (auto simp: path_clean_def Let_def segments_def dest!: join_chars subsetD [OF clean_segments_from] subsetD [OF split_on_chars]
      split: if_splits)

lemma mounted_file:
  assumes "is_rooted mount"
  shows "\<exists>rest. join_secret_mount mount key = CHR ''/'' # rest"
    and "CHR 0x0A \<notin> set mount \<Longrightarrow> CHR 0x0A \<notin> set key \<Longrightarrow> CHR 0x0A \<notin> set (join_secret_mount mount key)"
proof -
  from assms obtain m where m: "mount = CHR ''/'' # m" by (cases mount) (auto simp: is_rooted_def)
  then have joined: "join_secret_mount mount key = path_clean (join ''/'' [mount, key])"
    by (simp add: join_secret_mount_def path_join_def)
  show "\<exists>rest. join_secret_mount mount key = CHR ''/'' # rest"
    unfolding joined by (simp add: m path_clean_def is_rooted_def Let_def)
  show "CHR 0x0A \<notin> set (join_secret_mount mount key)" if "CHR 0x0A \<notin> set mount" "CHR 0x0A \<notin> set key"
    using that path_clean_chars [of "join ''/'' [mount, key]"] unfolding joined by (auto dest!: join_chars subsetD)
qed

lemma split_joined:
  assumes "\<forall>p \<in> set ps. sep \<notin> set p" and "ps \<noteq> []"
  shows "split_on sep [] (join [sep] ps) = ps"
proof -
  have step: "split_on sep acc (p @ sep # r) = (rev acc @ p) # split_on sep [] r" "split_on sep acc p = [rev acc @ p]"
    if "sep \<notin> set p" for acc p r
    using that by (induction p arbitrary: acc) auto
  show ?thesis using assms by (induction ps rule: induct_list012) (auto simp: step)
qed

text \<open>The pairs that the builder makes: a lane in small letters and a file under a mount.\<close>

definition built_pair :: "run_workflow_secret list \<Rightarrow> string \<Rightarrow> bool" where
  "built_pair secrets pair \<longleftrightarrow> (\<exists>sec \<in> set secrets. \<exists>lane \<in> set (map fst (se_env sec)).
     pair = map to_lower lane @ ''=file:'' @ join_secret_mount (se_mountPath sec) (smap_get (se_env sec) lane))"

lemma built_of:
  "sec \<in> set secrets \<Longrightarrow> lane \<in> fst ` set (se_env sec) \<Longrightarrow>
     built_pair secrets (map to_lower lane @ ''=file:'' @ join_secret_mount (se_mountPath sec) (smap_get (se_env sec) lane))"
  unfolding built_pair_def by auto

lemma lanes_build:
  "set lanes \<subseteq> fst ` set (se_env sec) \<Longrightarrow> sec \<in> set secrets \<Longrightarrow> \<forall>p \<in> set pairs. built_pair secrets p \<Longrightarrow>
     \<forall>p \<in> set (snd (secret_var_lanes (se_mountPath sec) (se_env sec) lanes seen pairs)). built_pair secrets p"
proof (induction lanes arbitrary: seen pairs)
  case (Cons lane lanes)
  let ?pair = "map to_lower lane @ ''=file:'' @ join_secret_mount (se_mountPath sec) (smap_get (se_env sec) lane)"
  have pair: "built_pair secrets ?pair" using Cons.prems by (intro built_of) auto
  have lanes: "set lanes \<subseteq> fst ` set (se_env sec)" using Cons.prems(1) by simp
  show ?case
  proof (cases "map to_lower lane \<in> set seen")
    case True
    show ?thesis using Cons.IH [OF lanes Cons.prems(2,3), of seen]
      by (simp only: secret_var_lanes.simps Let_def True if_True)
  next
    case False
    have "\<forall>p \<in> set (pairs @ [?pair]). built_pair secrets p" using Cons.prems(3) pair by (metis Un_iff empty_iff set_ConsD set_append empty_set)
    from Cons.IH [OF lanes Cons.prems(2) this, of "map to_lower lane # seen"] show ?thesis
      by (simp only: secret_var_lanes.simps Let_def False if_False)
  qed
qed simp

lemma secrets_build:
  "set todo \<subseteq> set secrets \<Longrightarrow> \<forall>p \<in> set pairs. built_pair secrets p \<Longrightarrow> \<forall>p \<in> set (secret_var_pairs todo seen pairs). built_pair secrets p"
proof (induction todo arbitrary: seen pairs)
  case (Cons sec todo)
  let ?lanes = "sort (map fst (filter (\<lambda>(lane, key). lane \<noteq> '''' \<and> key \<noteq> '''') (se_env sec)))"
  have "\<forall>p \<in> set (snd (secret_var_lanes (se_mountPath sec) (se_env sec) ?lanes seen pairs)). built_pair secrets p"
    by (rule lanes_build) (use Cons.prems in auto)
  then show ?case using Cons.IH Cons.prems(1) by (simp add: split_beta Let_def)
qed simp

text \<open>Secrets whose files lie under rooted mounts, without a line break in a name.\<close>

definition plain_secret :: "run_workflow_secret \<Rightarrow> bool" where
  "plain_secret sec \<longleftrightarrow> is_rooted (se_mountPath sec) \<and> CHR 0x0A \<notin> set (se_mountPath sec) \<and>
     list_all (\<lambda>(lane, key). CHR 0x0A \<notin> set lane \<and> CHR 0x0A \<notin> set key) (se_env sec)"

lemma lower_letters: "to_lower c = CHR 0x0A \<longleftrightarrow> c = CHR 0x0A" "\<not> (CHR ''A'' \<le> to_lower c \<and> to_lower c \<le> CHR ''Z'')"
proof -
  have "\<forall>c. (to_lower c = CHR 0x0A \<longleftrightarrow> c = CHR 0x0A) \<and> \<not> (CHR ''A'' \<le> to_lower c \<and> to_lower c \<le> CHR ''Z'')" by code_simp
  then show "to_lower c = CHR 0x0A \<longleftrightarrow> c = CHR 0x0A" "\<not> (CHR ''A'' \<le> to_lower c \<and> to_lower c \<le> CHR ''Z'')" by blast+
qed

lemma file_reference: "file_pair (name @ ''=file:/'' @ rest)"
proof -
  have "index_of_sub ''=file:/'' (name @ ''=file:/'' @ rest) \<noteq> None"
    by (induction name) (auto simp: has_prefix_def)
  then show ?thesis by (simp add: file_pair_def)
qed

lemma built_pair_plain:
  assumes "built_pair secrets pair" and "\<forall>sec \<in> set secrets. plain_secret sec"
  shows "pair \<noteq> [] \<and> file_pair pair \<and> \<not> screaming pair \<and> CHR 0x0A \<notin> set pair"
proof -
  from assms(1) obtain sec lane where sec: "sec \<in> set secrets" "lane \<in> set (map fst (se_env sec))"
    and pair: "pair = map to_lower lane @ ''=file:'' @ join_secret_mount (se_mountPath sec) (smap_get (se_env sec) lane)"
    by (auto simp: built_pair_def)
  from assms(2) sec(1) have plain: "is_rooted (se_mountPath sec)" "CHR 0x0A \<notin> set (se_mountPath sec)"
    "\<forall>(l, k) \<in> set (se_env sec). CHR 0x0A \<notin> set l \<and> CHR 0x0A \<notin> set k" by (auto simp: plain_secret_def list_all_iff)
  have key: "CHR 0x0A \<notin> set (smap_get (se_env sec) lane)" "CHR 0x0A \<notin> set lane"
    using plain(3) sec(2) by (auto simp: smap_get_def split: option.splits dest!: map_of_SomeD [OF sym])
  obtain rest where mounted: "join_secret_mount (se_mountPath sec) (smap_get (se_env sec) lane) = CHR ''/'' # rest"
    using mounted_file(1) [OF plain(1)] by blast
  have "file_pair pair" using file_reference [of "map to_lower lane" rest] by (simp add: pair mounted)
  moreover have "pair_name pair = takeWhile (\<lambda>c. c \<noteq> CHR ''='') (map to_lower lane)"
    by (simp add: pair_name_def pair takeWhile_tail)
  then have "\<not> screaming pair" using lower_letters(2) by (auto simp: screaming_def list_ex_iff dest!: set_takeWhileD)
  moreover have "CHR 0x0A \<notin> set (map to_lower lane)"
  proof
    assume "CHR 0x0A \<in> set (map to_lower lane)"
    then obtain c where "c \<in> set lane" "to_lower c = CHR 0x0A" by (auto simp: image_iff)
    then show False using key(2) by (simp add: lower_letters(1))
  qed
  then have "CHR 0x0A \<notin> set pair"
    using mounted_file(2) [OF plain(1,2) key(1)] by (simp add: pair)
  ultimately show ?thesis by (simp add: pair)
qed

lemma read_built: "\<forall>p \<in> set pairs. p \<noteq> [] \<and> file_pair p \<and> \<not> screaming p \<Longrightarrow> read_pairs pairs = (pairs, [], True)"
  by (induction pairs) auto

text \<open>
  Every secret variable of the plan reaches the engine as the path of its file, and the guards of the entrypoint neither
  stop nor warn of what the builder made.
\<close>

lemma secrets_ride_as_paths:
  assumes "\<forall>sec \<in> set (pl_secrets plan). plain_secret sec" and "env ''CRITERIA_SECRET_VARS'' = Some (secret_var_bindings (Some plan))"
  shows "secret_pairs env = (sort (secret_var_pairs (pl_secrets plan) [] []), [], True) \<and>
    (\<forall>pair \<in> set (fst (secret_pairs env)). built_pair (pl_secrets plan) pair)"
proof -
  let ?ps = "sort (secret_var_pairs (pl_secrets plan) [] [])"
  have built: "\<forall>p \<in> set ?ps. built_pair (pl_secrets plan) p" using secrets_build [of "pl_secrets plan" "pl_secrets plan" "[]" "[]"] by simp
  then have plain: "\<forall>p \<in> set ?ps. p \<noteq> [] \<and> file_pair p \<and> \<not> screaming p \<and> CHR 0x0A \<notin> set p"
    using built_pair_plain [OF _ assms(1)] by blast
  have "var env ''CRITERIA_SECRET_VARS'' = join newline ?ps" by (simp add: var_or_def assms(2) secret_var_bindings_def)
  moreover have "read_pairs (split_on CHR 0x0A [] (join newline ?ps)) = (?ps, [], True)"
  proof (cases "?ps = []")
    case False
    then have "split_on CHR 0x0A [] (join newline ?ps) = ?ps" unfolding newline_def by (rule split_joined [rotated]) (use plain in blast)
    moreover have "read_pairs ?ps = (?ps, [], True)" by (rule read_built) (use plain in blast)
    ultimately show ?thesis by simp
  qed simp
  ultimately show ?thesis using built by (simp add: secret_pairs_def)
qed

section \<open>Staging a binary\<close>

text \<open>
  What the commands of a staging script answer: the blob of the digest in the runner's cache, whether the pull succeeds
  and which blob it leaves, and for a source file whether it is copied and whether the copy is made executable.
\<close>

record stage_shell =
  ss_cached :: "string option"
  ss_pulls :: bool
  ss_pulled :: "string option"
  ss_copies :: "string \<Rightarrow> bool"
  ss_chmods :: "string \<Rightarrow> bool"

datatype stage_source = RunnerCache | DigestPull | ImageBaked

text \<open>The marker: the kind, the requested digest when the script has one, the source and the hash when one is claimed.\<close>

record stage_marker =
  mk_kind :: string
  mk_digest :: "string option"
  mk_source :: stage_source
  mk_sha :: "string option"

record stage_end =
  sg_staged :: "string option"
  sg_marker :: "stage_marker option"
  sg_status :: nat

definition base_of :: "string \<Rightarrow> string" where "base_of p = rev (takeWhile (\<lambda>c. c \<noteq> CHR ''/'') (rev p))"

definition staged_by :: "stage_shell \<Rightarrow> string option \<Rightarrow> string option" where
  "staged_by sh found = (case found of None \<Rightarrow> None | Some blob \<Rightarrow> if ss_copies sh blob \<and> ss_chmods sh blob then Some blob else None)"

text \<open>
  The last lane: a failing chmod is the last command of its list and ends the script, a failing copy stands left of
  \<open>&&\<close> and does not.
\<close>

definition stage_baked :: "stage_shell \<Rightarrow> string \<Rightarrow> string option \<Rightarrow> string \<Rightarrow> stage_end" where
  "stage_baked sh kind digest imageBin =
     (if ss_copies sh imageBin \<and> \<not> ss_chmods sh imageBin then \<lparr>sg_staged = None, sg_marker = None, sg_status = 1\<rparr>
      else \<lparr>sg_staged = staged_by sh (Some imageBin),
            sg_marker = Some \<lparr>mk_kind = kind, mk_digest = digest, mk_source = ImageBaked, mk_sha = None\<rparr>, sg_status = 0\<rparr>)"

definition stage_blob :: "string \<Rightarrow> string \<Rightarrow> stage_source \<Rightarrow> string \<Rightarrow> stage_end" where
  "stage_blob kind digest src blob =
     \<lparr>sg_staged = Some blob,
      sg_marker = Some \<lparr>mk_kind = kind, mk_digest = Some digest, mk_source = src, mk_sha = Some (base_of blob)\<rparr>, sg_status = 0\<rparr>"

definition stage_by_digest :: "stage_shell \<Rightarrow> string \<Rightarrow> string \<Rightarrow> string \<Rightarrow> stage_end" where
  "stage_by_digest sh kind digest imageBin =
     (case staged_by sh (ss_cached sh) of
        Some blob \<Rightarrow> stage_blob kind digest RunnerCache blob
      | None \<Rightarrow>
          (case (if ss_pulls sh then staged_by sh (ss_pulled sh) else None) of
             Some blob \<Rightarrow> stage_blob kind digest DigestPull blob
           | None \<Rightarrow> stage_baked sh kind (Some digest) imageBin))"

text \<open>The script of a stage, run: a script of another kind has no staging end.\<close>

definition run_stage :: "stage_shell \<Rightarrow> script \<Rightarrow> stage_end option" where
  "run_stage sh script =
     (case script of
        PeerStageScript kind digest ref home \<Rightarrow> Some (stage_by_digest sh kind digest (engine_image_adapter_binary_path @ kind))
      | PeerStageImageFallbackScript kind \<Rightarrow> Some (stage_baked sh kind None (engine_image_adapter_binary_path @ kind))
      | _ \<Rightarrow> None)"

text \<open>A marker that claims a hash tells the truth: the blob of that name is what was staged, and it can be executed.\<close>

lemma claimed_hash_is_staged:
  assumes "run_stage sh script = Some e" and "sg_marker e = Some m" and "mk_sha m = Some sha"
  shows "\<exists>blob. sg_staged e = Some blob \<and> sha = base_of blob \<and> ss_copies sh blob \<and> ss_chmods sh blob \<and> mk_source m \<noteq> ImageBaked \<and>
    (ss_cached sh = Some blob \<or> ss_pulls sh \<and> ss_pulled sh = Some blob)"
  using assms
  by (auto simp: run_stage_def stage_by_digest_def stage_blob_def stage_baked_def staged_by_def
      split: script.splits option.splits if_splits)

text \<open>A baked binary is staged only when neither the cache nor the pull gave one, and then no digest is claimed.\<close>

lemma baked_only_after_both_lanes:
  assumes "run_stage sh (PeerStageScript kind digest ref home) = Some e" and "sg_marker e = Some m" and "mk_source m = ImageBaked"
  shows "mk_sha m = None \<and> staged_by sh (ss_cached sh) = None \<and> (ss_pulls sh \<longrightarrow> staged_by sh (ss_pulled sh) = None)"
  using assms by (auto simp: run_stage_def stage_by_digest_def stage_blob_def stage_baked_def split: option.splits if_splits)

text \<open>Where the image carries the binary, staging ends with a binary or fails.\<close>

lemma stage_ends_with_a_binary:
  assumes "run_stage sh script = Some e" and "\<forall>p. has_prefix p engine_image_adapter_binary_path \<longrightarrow> ss_copies sh p"
  shows "(sg_status e = 0) = (sg_staged e \<noteq> None)"
  using assms
  by (auto simp: run_stage_def stage_by_digest_def stage_blob_def stage_baked_def staged_by_def has_prefix_def
      split: script.splits option.splits if_splits)

text \<open>Where it does not, the failed copy is not noticed: the script ends well with no binary and a marker that names one.\<close>

lemma staging_succeeds_without_a_binary:
  "ss_cached sh = None \<Longrightarrow> \<not> ss_pulls sh \<Longrightarrow> \<not> ss_copies sh (engine_image_adapter_binary_path @ kind) \<Longrightarrow>
     run_stage sh (PeerStageScript kind digest ref home) = Some \<lparr>sg_staged = None,
       sg_marker = Some \<lparr>mk_kind = kind, mk_digest = Some digest, mk_source = ImageBaked, mk_sha = None\<rparr>, sg_status = 0\<rparr>"
  by (simp add: run_stage_def stage_by_digest_def stage_baked_def staged_by_def)

end
