(* ===== verification/OperatorLoops.thy ===== *)
theory OperatorLoops
  imports CRRetention AdapterSweep DataSweep Reconcile
begin

text \<open>
  What runs around the passes: the loop that the three sweepers share (\<open>Run\<close> of \<open>crretention.go\<close>, \<open>adaptersweep.go\<close> and
  \<open>retention.go\<close>), and the probe that reads the operator's Deployment (\<open>baseimage.go\<close>).
\<close>

section \<open>The loop of a sweeper\<close>

text \<open>What the loop is woken by, as the runtime delivers it.\<close>

datatype wake = Tick | Stop

fun on_wakes :: "('s, 'a) state \<Rightarrow> wake list \<Rightarrow> ('s, unit) state" where
  "on_wakes sweep [] = State_Monad.return ()"
| "on_wakes sweep (Stop # wakes) = State_Monad.return ()"
| "on_wakes sweep (Tick # wakes) = do { sweep; on_wakes sweep wakes }"

definition sweep_loop :: "('s, 'a) state \<Rightarrow> wake list \<Rightarrow> ('s, unit) state" where
  "sweep_loop sweep wakes = do { sweep; on_wakes sweep wakes }"

definition cr_retention_loop :: "nat \<Rightarrow> 'w sweep_api \<Rightarrow> cr_retention_sweeper \<Rightarrow> wake list \<Rightarrow> ('w, unit) sweep" where
  "cr_retention_loop fuel api s = sweep_loop (retention_sweep fuel api s)"

definition adapter_loop :: "'w sweep_api \<Rightarrow> adapter_sweeper \<Rightarrow> wake list \<Rightarrow> ('w, unit) sweep" where
  "adapter_loop api s = sweep_loop (adapter_sweep api s)"

definition data_loop :: "'w data_fs \<Rightarrow> retention_sweeper \<Rightarrow> wake list \<Rightarrow> ('w, unit) data_pass" where
  "data_loop fs s = sweep_loop (data_sweep fs s)"

text \<open>The loop is its sweep, once at the start and once a tick until the context is done.\<close>

lemma on_wakes_effect:
  "snd (run_state (on_wakes sweep wakes) s) = ((\<lambda>s. snd (run_state sweep s)) ^^ length (takeWhile ((=) Tick) wakes)) s"
proof (induction sweep wakes arbitrary: s rule: on_wakes.induct)
  case (3 sweep wakes)
  have "snd (run_state (on_wakes sweep (Tick # wakes)) s) = snd (run_state (on_wakes sweep wakes) (snd (run_state sweep s)))"
    by (simp add: State_Monad.bind_def split_beta)
  then show ?case by (simp add: 3 funpow_Suc_right del: funpow.simps)
qed (simp_all add: State_Monad.return_def)

lemma sweep_loop_effect:
  "snd (run_state (sweep_loop sweep wakes) s) = ((\<lambda>s. snd (run_state sweep s)) ^^ Suc (length (takeWhile ((=) Tick) wakes))) s"
  by (simp add: sweep_loop_def State_Monad.bind_def split_beta on_wakes_effect funpow_Suc_right del: funpow.simps)

text \<open>A transitive guarantee of one sweep is one of the loop, for however long it runs.\<close>

lemma loop_keeps:
  assumes "\<And>s. R s (snd (run_state sweep s))" and "transp R"
  shows "R s (snd (run_state (sweep_loop sweep wakes) s))"
proof -
  have "R s (((\<lambda>s. snd (run_state sweep s)) ^^ Suc n) s)" for n
    by (induction n) (use assms in \<open>auto intro: transpD\<close>)
  then show ?thesis by (simp only: sweep_loop_effect)
qed

section \<open>The environment of the Deployment\<close>

text \<open>An entry of a container's environment: its name, its literal, and whether it is taken from elsewhere.\<close>

record deploy_env =
  de_name :: string
  de_value :: string
  de_from :: bool

definition env_step :: "string list \<Rightarrow> smap \<Rightarrow> deploy_env \<Rightarrow> smap" where
  "env_step keys env e =
     (if de_from e \<or> de_name e \<notin> set keys then env
      else if \<not> has_key env (de_name e) \<and> de_value e \<noteq> [] then assoc_put (de_name e) (de_value e) env else env)"

definition operator_env ::
  "('w \<Rightarrow> (go_error + deploy_env list list) \<times> 'w) \<Rightarrow> string \<Rightarrow> string \<Rightarrow> string list \<Rightarrow> 'w \<Rightarrow> (go_error + smap) \<times> 'w" where
  "operator_env deployment ns name keys w =
     (case deployment w of
        (Inl e, w') \<Rightarrow> (Inl (Wrapped (''reading operator deployment '' @ ns @ ''/'' @ name) e), w')
      | (Inr containers, w') \<Rightarrow> (Inr (foldl (env_step keys) [] (concat containers)), w'))"

text \<open>The value of a key is the first literal that is not empty, over the containers in order.\<close>

lemma env_steps:
  "k \<in> set keys \<Longrightarrow> map_of (foldl (env_step keys) env es) k =
     (case map_of env k of Some v \<Rightarrow> Some v
      | None \<Rightarrow> map_option de_value (List.find (\<lambda>e. de_name e = k \<and> \<not> de_from e \<and> de_value e \<noteq> []) es))"
  by (induction es arbitrary: env) (auto simp: env_step_def has_key_def simp del: has_key_iff split: option.splits)

lemma probe_reads_first_literal:
  assumes "operator_env deployment ns name keys w = (Inr env, w')" and "k \<in> set keys"
  shows "\<exists>containers. deployment w = (Inr containers, w') \<and> map_of env k =
     map_option de_value (List.find (\<lambda>e. de_name e = k \<and> \<not> de_from e \<and> de_value e \<noteq> []) (concat containers))"
  using assms by (auto simp: operator_env_def env_steps split: prod.splits sum.splits)

text \<open>
  With the probe wired to the Deployment, the images of a pass are the declared ones; a Deployment that cannot be read
  leaves the defaults of the process and puts the enforcement off.
\<close>

lemma probed_defaults:
  assumes "op_envProbe op" and "k_operator_env (op_api op) = operator_env deployment ns name"
  shows "fst (run_state (resolve_runner_defaults op) s) =
    (case deployment (os_world s) of
       (Inl e, w) \<Rightarrow> (op_defaults op, False)
     | (Inr containers, w) \<Rightarrow>
         (let env = foldl (env_step [env_criteria_base_image, env_default_image]) [] (concat containers);
              base = smap_get env env_criteria_base_image; img = smap_get env env_default_image
          in ((op_defaults op)\<lparr>df_criteriaBaseImage := (if base \<noteq> [] then base else df_criteriaBaseImage (op_defaults op)),
                df_image := (if img \<noteq> [] then img else df_image (op_defaults op))\<rparr>, True)))"
  using assms
  by (auto simp: resolve_runner_defaults_def operator_env_def call_def env_criteria_base_image_default_def Let_def split: prod.splits sum.splits)

end
