(* ===== verification/Spec2Isabelle.thy ===== *)
theory Spec2Isabelle
  imports CastleDrain InterfaceBinding PodEnv RunSpec PodFeed Watchdog SlotInvariant Convergence CleanupGuard LaneRecords LaneStream
    CRRetention AdapterSweep Backfill DataSweep BootGate LaneParity ParityBook
    ProxySafety OperatorSafety CommandParity LaneThreads DeepCopy RepoGate CastleTransport OutcomeParse RunnerScripts OperatorLoops
begin

text \<open>
  The criteria operator (\<open>src/criteria-k8s\<close>) runs the workflow of a ticket as child Jobs and pods of a
  \<open>CriteriaRun\<close> object. A ticket is resolved against a table of routes and stamped into a run; the
  reconciler admits the run through a queue, renders and pins its configuration, creates the runner Job
  and the per-scope adapter pods, follows the run in castle (the run server), and when the run is over
  files its record in castle's archive before it removes what it created. This development models those
  parts and what they promise each other.

  Theories and code (paths under \<open>criteria-k8s/\<close>):
  \<^item> \<open>Prelude\<close>, \<open>GoPath\<close>, \<open>Json\<close>: Go strings, times, maps with an iteration order, \<open>path\<close> functions, the
    encoder and the decoder of \<open>encoding/json\<close>.
  \<^item> \<open>RunTypes\<close>, \<open>DeepCopy\<close>: the custom resource and its deep copies over a memory of cells,
    \<open>api/v1/criteriarun_types.go\<close>.
  \<^item> \<open>RunQueue\<close>: the admission queue, \<open>internal/controller/queue.go\<close>; the interface \<open>fifo_admission\<close>
    holds its contract and is interpreted on the code's operations. \<open>SingleActive\<close>: the one-run-a-ticket
    election of \<open>criteriarun_controller.go\<close>.
  \<^item> \<open>Lifecycle\<close>, \<open>OutcomeParse\<close>: \<open>internal/events/lifecycle.go\<close>, \<open>events.go\<close>; \<open>CastleClient\<close>,
    \<open>CastleObserve\<close>, \<open>CastleDrain\<close>: the observation client \<open>internal/castle/castle.go\<close>, \<open>wire.go\<close>, with its
    drain refining a replay; \<open>CastleTransport\<close>: the constructors of the clients and the credentials they attach.
  \<^item> \<open>AdapterImage\<close>, \<open>PodSpec\<close>, \<open>JobBuilder\<close>, \<open>PodEnv\<close>, \<open>PeerPod\<close>, \<open>PeerNames\<close>, \<open>RunnerScripts\<close>: the Jobs and
    pods of \<open>internal/jobbuilder\<close>, with the entrypoint of a source-mode runner and the staging of binaries.
  \<^item> \<open>InterfaceBinding\<close>: \<open>interfacebinding.go\<close>; \<open>ArchiveRecord\<close>: \<open>internal/castle/archive.go\<close> and the
    record of \<open>terminalarchive.go\<close>; \<open>RunStatus\<close>, \<open>Watchdog\<close>: phases, conditions, \<open>stallwatchdog.go\<close>.
  \<^item> \<open>RouteTable\<close>, \<open>RouteResolve\<close>: \<open>internal/routes/routes.go\<close>; \<open>Binding\<close>: \<open>internal/binding\<close>;
    \<open>RunSpec\<close>: \<open>internal/runspec\<close>, \<open>internal/runstamp\<close>.
  \<^item> \<open>PodState\<close>, \<open>PodFeed\<close>: the pod-state reports (\<open>controller/podstate.go\<close>, \<open>events/podstate.go\<close>,
    \<open>castle/podstate.go\<close>); \<open>GraphDefs\<close>: \<open>peer_composition.go\<close>.
  \<^item> \<open>Kube\<close>: the surroundings of the reconciler as arguments (API server, castle, archive, clock), and
    passes as state transformers that append every effect to a log.
  \<^item> \<open>Teardown\<close> (archive gate, deletion, restart guard, refusals), \<open>PerScope\<close>, \<open>ConfigRender\<close>, \<open>Reconcile\<close>:
    the pass itself, in the order of the code.
  \<^item> \<open>Cluster\<close>: an in-memory cluster for the concrete runs. \<open>PassLog\<close>, \<open>ReconcileSafety\<close>,
    \<open>SlotInvariant\<close>, \<open>CleanupGuard\<close>, \<open>Convergence\<close>: what the pass guarantees.
  \<^item> \<open>SweepKube\<close>, \<open>CRRetention\<close>, \<open>AdapterSweep\<close>, \<open>DataSweep\<close>, \<open>Backfill\<close>, \<open>BootGate\<close>, \<open>OperatorLoops\<close>: the sweeps
    (\<open>crretention.go\<close>, \<open>adaptersweep.go\<close>, \<open>retention.go\<close>) and their loops, \<open>backfill_archive.go\<close>,
    \<open>bootgate_view.go\<close>, and the probe of the operator's environment in \<open>baseimage.go\<close>.
  \<^item> \<open>Assignment\<close>, \<open>SpecCompare\<close>, \<open>LaneStream\<close>, \<open>StateLogic\<close>, \<open>AgentLane\<close>, \<open>LaneSafety\<close>, \<open>LaneRecords\<close>, \<open>LaneThreads\<close>:
    the assignment lane of \<open>internal/control\<close> and \<open>internal/castle/agentclient.go\<close>: envelopes, the shadow comparison,
    the reconnecting stream, the agent with its bridge and ledgers, and the ends of its loops.
  \<^item> \<open>EnrollProxy\<close>, \<open>ProxySafety\<close>: the run-event proxy \<open>internal/proxy/proxy.go\<close>, and what it guarantees over any
    sequence of requests.
  \<^item> \<open>Kanboard\<close>, \<open>BoardDecision\<close>, \<open>CastleAdapter\<close>, \<open>Watcher\<close>, \<open>WatcherCommand\<close>: the board client
    \<open>internal/kanboard\<close> and the watcher \<open>cmd/kanboard-watcher\<close>; \<open>WatcherSafety\<close>, \<open>ParityBook\<close>, \<open>LaneParity\<close>: what its polls
    guarantee.
  \<^item> \<open>OperatorConfig\<close>, \<open>OperatorSafety\<close>: the operator command \<open>cmd/operator/main.go\<close>, its lanes and its backfill;
    \<open>CommandParity\<close>: the two commands stamp the same run. \<open>RepoGate\<close>: the Makefile gate \<open>repogate/repogate.go\<close>.

  How state and errors correspond: structs are records with the fields' names behind a short prefix, typed
  strings with named values are datatypes, a Go map is an association list in the order the runtime
  happens to iterate, the nil and the empty slice are both \<open>[]\<close> (apart in \<open>DeepCopy\<close>, where a slice is a reference),
  an error is \<open>Inl\<close> with the sentinel it wraps. A pass (\<open>attempt\<close>) threads the outside world, the admission queue and
  the log; every early return of the code is a branch. The API server, castle, the board, the archive and the clock are
  functions on a world of any type, so a theorem about a pass holds for every answer and failure of theirs.

  What the lemma groups show. Queue: one admitted run a lane, arrival order, recovery. Drain: an incremental
  read is a replay, and what a failing one keeps. Jobs and pods: identity, mounts, restrictions, environment,
  the peer manifest, secrets that ride as paths. Routes to runs: validated payloads resolve to valid entries, the stamped
  run passes the admission gates, the two binding lanes agree. Reconcile: a monitor over the log (\<open>allowed\<close>) is kept by
  every pass, from which the archive gate and the slot discipline follow; over many passes the
  log and the queue stay in step; the per-scope pass reaches the desired pods; a recorded render is final.
  Sweeps: what is deleted, and on which evidence. Lane: one run and one acknowledged end for an assignment, whatever is
  delivered again. Proxy: an engine speaks only for the run it was enrolled for. Watcher: when a card fires and moves,
  and that the direct and the castle dispatch stamp the same run. Commands: which lanes start, and with which endpoint.
  The lemmas named in the manifest's findings evaluate inputs on which the code and its comments part.

  Bounds: the drain reads at most 20 pages of 500 events and the retries of the feeds at most
  \<open>maxAttempts\<close>, both by the code's own counters. The loops over the pages of a listing (\<open>list_runs_from\<close>,
  \<open>backfill_pages\<close>) have no bound in the code and take fuel, a number of pages: with too little the result is None, and
  the properties over them say how much is enough or speak of a result that was reached. A lane follows its
  record, serves its stream or watches the board (\<open>follow\<close>, \<open>serve_stream\<close>, \<open>watch_loop\<close>) for as many rounds as the
  surroundings last; these rounds are an argument and the properties hold for every number of them.

  Not modelled: YAML and protobuf decoding, hashing, quantity and duration parsing, time formatting, HTTP and RPC
  transports below the clients, the regular expression engine where a pattern is not written out (arguments of the
  definitions that use them); the clone scripts of the Jobs; the registration of the API group
  (\<open>groupversion_info.go\<close>) and of the watches, listeners, log lines, and the scheduling of goroutines beyond the
  sequences and step relations above; the servers in the test fixtures.
\<close>

end
